(* ===== verification/Prelude.thy ===== *)
theory Prelude
  imports Main "HOL-Library.Word"
begin

text \<open>
  Shared vocabulary of the development: the exceptions of the program as one datatype with
  the Python class hierarchy that its \<open>except\<close> clauses rely on, results that are either an
  exception or a value, and the row operations every table of the database model is built
  from (look a row up, rewrite the rows that satisfy a condition, drop rows, sum a column).
  The collections \<open>svc\<close> and \<open>row_simps\<close> gather the facts the component proofs share.
\<close>

named_theorems svc \<open>definitions of service operations, unfolded together\<close>
named_theorems row_simps \<open>how row operations act on sums, searches and membership\<close>

section \<open>Exceptions\<close>

datatype error =
    ValueError string
  | TypeError
  | KeyError string
  | AssertionError
  | OverflowError
  | RuntimeError string
  | InvalidOperation
  | AttributeError
  | InvalidCost string
  | PermissionError string
  | AuthenticationError string
  | AuthorizationDenied string
  | PrivacyPolicyError string
  | ExportPolicyError string
  | BudgetExceeded string
  | BootstrapError string
  | RateLimitExceeded string
  | InvalidJobTransition string
  | ProviderPayloadError string
  | SuppressionError string
  | DiscoveryPersistenceError string
  | CrawlEvidenceError string
  | AuditValidationError string
  | UrlPolicyError string
  | GeolocationError string
  | DiscoveryProviderError string
  | SettingsValidationError "string list"
  | SettingsValueError string
  | PromptProviderUnavailable string
  | SecretDecryptionError string
  | TokenValidationError string
  | IntegrityError
  | HTTPException nat string

type_synonym 'a res = "error + 'a"

text \<open>
  \<open>except ValueError\<close> catches the subclasses the source declares with
  \<open>class X(ValueError)\<close>; \<open>except PermissionError\<close> those declared with
  \<open>class X(PermissionError)\<close>.
\<close>

fun is_ValueError :: "error \<Rightarrow> bool" where
  "is_ValueError (ValueError _) = True"
| "is_ValueError (InvalidCost _) = True"
| "is_ValueError (InvalidJobTransition _) = True"
| "is_ValueError (ProviderPayloadError _) = True"
| "is_ValueError (SuppressionError _) = True"
| "is_ValueError (DiscoveryPersistenceError _) = True"
| "is_ValueError (CrawlEvidenceError _) = True"
| "is_ValueError (AuditValidationError _) = True"
| "is_ValueError (UrlPolicyError _) = True"
| "is_ValueError (SecretDecryptionError _) = True"
| "is_ValueError (SettingsValidationError _) = True"
| "is_ValueError (SettingsValueError _) = True"
| "is_ValueError (TokenValidationError _) = True"
| "is_ValueError _ = False"

fun is_AuthenticationError :: "error \<Rightarrow> bool" where
  "is_AuthenticationError (AuthenticationError _) = True"
| "is_AuthenticationError _ = False"

fun is_AuthorizationDenied :: "error \<Rightarrow> bool" where
  "is_AuthorizationDenied (AuthorizationDenied _) = True"
| "is_AuthorizationDenied _ = False"

text \<open>The text of an exception, \<open>str(exc)\<close>, where a handler forwards it.\<close>

fun error_text :: "error \<Rightarrow> string" where
  "error_text (ValueError m) = m"
| "error_text (RuntimeError m) = m"
| "error_text (InvalidCost m) = m"
| "error_text (PermissionError m) = m"
| "error_text (AuthenticationError m) = m"
| "error_text (AuthorizationDenied m) = m"
| "error_text (PrivacyPolicyError m) = m"
| "error_text (ExportPolicyError m) = m"
| "error_text (BudgetExceeded m) = m"
| "error_text (BootstrapError m) = m"
| "error_text (RateLimitExceeded m) = m"
| "error_text (InvalidJobTransition m) = m"
| "error_text (ProviderPayloadError m) = m"
| "error_text (SuppressionError m) = m"
| "error_text (DiscoveryPersistenceError m) = m"
| "error_text (CrawlEvidenceError m) = m"
| "error_text (AuditValidationError m) = m"
| "error_text (SecretDecryptionError m) = m"
| "error_text (TokenValidationError m) = m"
| "error_text _ = ''''"

section \<open>Results\<close>

definition bind_res :: "'a res \<Rightarrow> ('a \<Rightarrow> 'b res) \<Rightarrow> 'b res" where
  "bind_res r f = (case r of Inl e \<Rightarrow> Inl e | Inr x \<Rightarrow> f x)"

definition ok_res :: "'a res \<Rightarrow> bool" where
  "ok_res r \<longleftrightarrow> (case r of Inl _ \<Rightarrow> False | Inr _ \<Rightarrow> True)"

lemma bind_res_simps [simp]:
  "bind_res (Inl e) f = Inl e"
  "bind_res (Inr x) f = f x"
  by (simp_all add: bind_res_def)

lemma bind_res_Inr_iff:
  "bind_res r f = Inr y \<longleftrightarrow> (\<exists>x. r = Inr x \<and> f x = Inr y)"
  by (cases r) auto

lemma bind_res_Inl_iff:
  "bind_res r f = Inl e \<longleftrightarrow> r = Inl e \<or> (\<exists>x. r = Inr x \<and> f x = Inl e)"
  by (cases r) auto

lemma ok_res_simps [simp]:
  "\<not> ok_res (Inl e)"
  "ok_res (Inr x)"
  by (simp_all add: ok_res_def)

lemma ok_res_iff: "ok_res r \<longleftrightarrow> (\<exists>x. r = Inr x)"
  by (cases r) auto

text \<open>Running a check over a list stops at the first exception, as a loop does.\<close>

fun all_res :: "('a \<Rightarrow> unit res) \<Rightarrow> 'a list \<Rightarrow> unit res" where
  "all_res f [] = Inr ()"
| "all_res f (x # xs) = (case f x of Inl e \<Rightarrow> Inl e | Inr _ \<Rightarrow> all_res f xs)"

lemma all_res_ok_iff: "all_res f xs = Inr () \<longleftrightarrow> (\<forall>x \<in> set xs. f x = Inr ())"
  by (induction xs) (auto split: sum.splits)

lemma all_res_cong [fundef_cong]:
  "xs = ys \<Longrightarrow> (\<And>x. x \<in> set ys \<Longrightarrow> f x = g x) \<Longrightarrow> all_res f xs = all_res g ys"
  by (induction xs arbitrary: ys) (auto split: sum.splits)

section \<open>Rows of a table\<close>

definition upd_rows :: "('r \<Rightarrow> bool) \<Rightarrow> ('r \<Rightarrow> 'r) \<Rightarrow> 'r list \<Rightarrow> 'r list" where
  "upd_rows P f rows = map (\<lambda>r. if P r then f r else r) rows"

definition del_rows :: "('r \<Rightarrow> bool) \<Rightarrow> 'r list \<Rightarrow> 'r list" where
  "del_rows P rows = filter (\<lambda>r. \<not> P r) rows"

definition sum_rows :: "('r \<Rightarrow> bool) \<Rightarrow> ('r \<Rightarrow> int) \<Rightarrow> 'r list \<Rightarrow> int" where
  "sum_rows P f rows = sum_list (map f (filter P rows))"

definition distinct_on :: "('r \<Rightarrow> 'k) \<Rightarrow> 'r list \<Rightarrow> bool" where
  "distinct_on k rows \<longleftrightarrow> distinct (map k rows)"

lemma upd_rows_simps [simp]:
  "upd_rows P f [] = []"
  "upd_rows P f (r # rows) = (if P r then f r else r) # upd_rows P f rows"
  "length (upd_rows P f rows) = length rows"
  by (simp_all add: upd_rows_def)

lemma upd_rows_append [simp]: "upd_rows P f (xs @ ys) = upd_rows P f xs @ upd_rows P f ys"
  by (simp add: upd_rows_def)

lemma set_upd_rows: "set (upd_rows P f rows) = (\<lambda>r. if P r then f r else r) ` set rows"
  by (simp add: upd_rows_def)

lemma map_upd_rows_same [row_simps]:
  "(\<And>r. k (f r) = k r) \<Longrightarrow> map k (upd_rows P f rows) = map k rows"
  by (simp add: upd_rows_def)

lemma distinct_on_upd_rows [row_simps]:
  "(\<And>r. k (f r) = k r) \<Longrightarrow> distinct_on k (upd_rows P f rows) = distinct_on k rows"
  by (simp add: distinct_on_def map_upd_rows_same)

lemma distinct_on_simps [simp]:
  "distinct_on k []"
  "distinct_on k (r # rows) \<longleftrightarrow> k r \<notin> k ` set rows \<and> distinct_on k rows"
  "distinct_on k (rows @ [r]) \<longleftrightarrow> k r \<notin> k ` set rows \<and> distinct_on k rows"
  by (auto simp: distinct_on_def)

lemma distinct_on_eq:
  "distinct_on k rows \<Longrightarrow> r \<in> set rows \<Longrightarrow> s \<in> set rows \<Longrightarrow> k r = k s \<Longrightarrow> r = s"
  by (auto simp: distinct_on_def distinct_map inj_on_def)

lemma distinct_on_del_rows: "distinct_on k rows \<Longrightarrow> distinct_on k (del_rows P rows)"
  by (auto simp: distinct_on_def del_rows_def distinct_map inj_on_def)

lemma set_del_rows [simp]: "set (del_rows P rows) = {r \<in> set rows. \<not> P r}"
  by (auto simp: del_rows_def)

lemma del_rows_simps [simp]:
  "del_rows P [] = []"
  "del_rows P (r # rows) = (if P r then del_rows P rows else r # del_rows P rows)"
  by (simp_all add: del_rows_def)

lemma length_del_rows: "length (del_rows P rows) + length (filter P rows) = length rows"
  by (induction rows) auto

lemma sum_rows_simps [simp]:
  "sum_rows P f [] = 0"
  "sum_rows P f (r # rows) = (if P r then f r else 0) + sum_rows P f rows"
  "sum_rows P f (xs @ ys) = sum_rows P f xs + sum_rows P f ys"
  by (simp_all add: sum_rows_def)

lemma sum_rows_cong:
  "(\<And>r. r \<in> set rows \<Longrightarrow> P r = Q r) \<Longrightarrow> (\<And>r. r \<in> set rows \<Longrightarrow> Q r \<Longrightarrow> f r = g r) \<Longrightarrow>
   sum_rows P f rows = sum_rows Q g rows"
  by (induction rows) auto

lemma sum_rows_none: "(\<And>r. r \<in> set rows \<Longrightarrow> \<not> P r) \<Longrightarrow> sum_rows P f rows = 0"
  by (induction rows) auto

lemma sum_rows_nonneg: "(\<And>r. r \<in> set rows \<Longrightarrow> P r \<Longrightarrow> 0 \<le> f r) \<Longrightarrow> 0 \<le> sum_rows P f rows"
  by (induction rows) (auto simp: add_nonneg_nonneg)

lemma sum_rows_member_le:
  "r \<in> set rows \<Longrightarrow> P r \<Longrightarrow> (\<And>r. r \<in> set rows \<Longrightarrow> P r \<Longrightarrow> 0 \<le> f r) \<Longrightarrow> f r \<le> sum_rows P f rows"
  by (induction rows) (auto simp: add_increasing add_increasing2 sum_rows_nonneg)

text \<open>
  Rewriting the one row with a given unique key changes a sum by exactly what that row
  contributed before and after.
\<close>

lemma sum_rows_upd_unique:
  assumes "distinct_on k rows" "r \<in> set rows"
  shows "sum_rows P f (upd_rows (\<lambda>s. k s = k r) g rows)
    = sum_rows P f rows - (if P r then f r else 0) + (if P (g r) then f (g r) else 0)"
  using assms
proof (induction rows)
  case Nil
  then show ?case by simp
next
  case (Cons s rows)
  show ?case
  proof (cases "k s = k r")
    case True
    with Cons.prems have s: "s = r" by (auto dest: distinct_on_eq simp: image_iff)
    from True Cons.prems have "\<And>t. t \<in> set rows \<Longrightarrow> k t \<noteq> k r" by (auto simp: image_iff)
    then have "upd_rows (\<lambda>s. k s = k r) g rows = rows"
      by (auto simp: upd_rows_def intro: map_idI)
    with s show ?thesis by simp
  next
    case False
    with Cons.prems have "r \<in> set rows" "distinct_on k rows" by auto
    with False Cons.IH show ?thesis by simp
  qed
qed

lemma find_SomeD: "find P rows = Some r \<Longrightarrow> r \<in> set rows \<and> P r"
  by (auto simp: find_Some_iff)

lemma find_unique:
  "distinct_on k rows \<Longrightarrow> r \<in> set rows \<Longrightarrow> find (\<lambda>s. k s = k r) rows = Some r"
  by (induction rows) (auto simp: image_iff)

lemma find_append: "find P (xs @ ys) = (case find P xs of None \<Rightarrow> find P ys | Some x \<Rightarrow> Some x)"
  by (induction xs) auto

lemma find_None_append [row_simps]: "find P xs = None \<Longrightarrow> find P (xs @ ys) = find P ys"
  by (simp add: find_append)

lemma find_upd_rows_same:
  "(\<And>r. P (f r) = P r) \<Longrightarrow> find P (upd_rows Q f rows) =
   map_option (\<lambda>r. if Q r then f r else r) (find P rows)"
  by (induction rows) auto

lemma find_upd_rows_other:
  "(\<And>r. r \<in> set rows \<Longrightarrow> Q r \<Longrightarrow> \<not> P r \<and> \<not> P (f r)) \<Longrightarrow> find P (upd_rows Q f rows) = find P rows"
  by (induction rows) auto

lemma find_eq_None_iff: "find P rows = None \<longleftrightarrow> (\<forall>r \<in> set rows. \<not> P r)"
  by (induction rows) auto

text \<open>Writing one row back under its unique key.\<close>

lemma map_put_row:
  assumes "distinct_on k rows" "x \<in> set rows" "k x' = k x" "f x' = f x"
  shows "map f (upd_rows (\<lambda>r. k r = k x') (\<lambda>_. x') rows) = map f rows"
  using assms by (auto simp: upd_rows_def dest: distinct_on_eq)

lemma list_all_put_row: "list_all P rows \<Longrightarrow> P x' \<Longrightarrow> list_all P (upd_rows Q (\<lambda>_. x') rows)"
  by (induction rows) auto

lemma list_all_del_rows: "list_all P rows \<Longrightarrow> list_all P (del_rows Q rows)"
  by (induction rows) auto

lemma find_put_row:
  assumes "distinct_on k rows" "x \<in> set rows" "k x' = k x"
  shows "find (\<lambda>r. k r = k x) (upd_rows (\<lambda>r. k r = k x') (\<lambda>_. x') rows) = Some x'"
  using assms by (induction rows) (auto simp: image_iff)

end
