(* ===== verification/PyText.thy ===== *)
theory PyText
  imports Prelude
begin

text \<open>
  The part of Python's \<open>str\<close> and \<open>uuid\<close> the program uses, on strings of code points
  below 256 (one Isabelle \<open>char\<close> per code point): \<open>strip\<close> with Python's set of white
  space, \<open>lower\<close> and \<open>casefold\<close>, \<open>split\<close>, \<open>replace\<close>, slices, decimal and
  hexadecimal printing, UTF-8 encoding, and the text form of a UUID with its parser.
  Every operation is exact on this range with one exception: \<open>casefold\<close> maps the micro sign to
  a letter outside it, and the model leaves it as it is. Strings with code points from 256 on
  are outside the model.
\<close>

section \<open>Characters\<close>

abbreviation code :: "char \<Rightarrow> nat" where
  "code c \<equiv> of_char c"

definition py_space :: "char \<Rightarrow> bool" where
  "py_space c \<longleftrightarrow> (let n = code c in
     (9 \<le> n \<and> n \<le> 13) \<or> (28 \<le> n \<and> n \<le> 32) \<or> n = 133 \<or> n = 160)"

definition is_digit :: "char \<Rightarrow> bool" where
  "is_digit c \<longleftrightarrow> 48 \<le> code c \<and> code c \<le> 57"

definition is_lower_az :: "char \<Rightarrow> bool" where
  "is_lower_az c \<longleftrightarrow> 97 \<le> code c \<and> code c \<le> 122"

definition is_upper_az :: "char \<Rightarrow> bool" where
  "is_upper_az c \<longleftrightarrow> 65 \<le> code c \<and> code c \<le> 90"

definition is_hex_lower :: "char \<Rightarrow> bool" where
  "is_hex_lower c \<longleftrightarrow> is_digit c \<or> (97 \<le> code c \<and> code c \<le> 102)"

definition lower_char :: "char \<Rightarrow> char" where
  "lower_char c = (let n = code c in
     if (65 \<le> n \<and> n \<le> 90) \<or> (192 \<le> n \<and> n \<le> 222 \<and> n \<noteq> 215) then char_of (n + 32) else c)"

definition py_lower :: "string \<Rightarrow> string" where
  "py_lower s = map lower_char s"

definition fold_char :: "char \<Rightarrow> string" where
  "fold_char c = (if code c = 223 then ''ss'' else [lower_char c])"

definition py_casefold :: "string \<Rightarrow> string" where
  "py_casefold s = concat (map fold_char s)"

section \<open>Trimming, slices and searching\<close>

definition lstrip_by :: "(char \<Rightarrow> bool) \<Rightarrow> string \<Rightarrow> string" where
  "lstrip_by P s = dropWhile P s"

definition rstrip_by :: "(char \<Rightarrow> bool) \<Rightarrow> string \<Rightarrow> string" where
  "rstrip_by P s = rev (dropWhile P (rev s))"

definition py_strip :: "string \<Rightarrow> string" where
  "py_strip s = rstrip_by py_space (lstrip_by py_space s)"

definition py_rstrip :: "string \<Rightarrow> string" where
  "py_rstrip s = rstrip_by py_space s"

definition starts_with :: "string \<Rightarrow> string \<Rightarrow> bool" where
  "starts_with p s \<longleftrightarrow> take (length p) s = p"

definition ends_with :: "string \<Rightarrow> string \<Rightarrow> bool" where
  "ends_with p s \<longleftrightarrow> starts_with (rev p) (rev s)"

fun contains_str :: "string \<Rightarrow> string \<Rightarrow> bool" where
  "contains_str p [] = (p = [])"
| "contains_str p (c # cs) = (starts_with p (c # cs) \<or> contains_str p cs)"

fun split_on :: "char \<Rightarrow> string \<Rightarrow> string list" where
  "split_on d [] = [[]]"
| "split_on d (c # cs) =
    (if c = d then [] # split_on d cs
     else (case split_on d cs of [] \<Rightarrow> [[c]] | w # ws \<Rightarrow> (c # w) # ws))"

text \<open>\<open>s.split(d, 1)[0]\<close>: everything before the first separator.\<close>

definition before_char :: "char \<Rightarrow> string \<Rightarrow> string" where
  "before_char d s = takeWhile (\<lambda>c. c \<noteq> d) s"

fun join_with :: "string \<Rightarrow> string list \<Rightarrow> string" where
  "join_with sep [] = []"
| "join_with sep [w] = w"
| "join_with sep (w # ws) = w @ sep @ join_with sep ws"

text \<open>\<open>s.replace(p, r)\<close> for a nonempty \<open>p\<close>, left to right without overlaps.\<close>

function replace_str :: "string \<Rightarrow> string \<Rightarrow> string \<Rightarrow> string" where
  "replace_str p r s =
    (if p = [] then s
     else case s of [] \<Rightarrow> []
     | c # cs \<Rightarrow> if starts_with p s then r @ replace_str p r (drop (length p) s)
                 else c # replace_str p r cs)"
  by pat_completeness auto
termination
  by (relation "measure (\<lambda>(p, r, s). length s)") auto

declare replace_str.simps [simp del]

lemma py_strip_Nil [simp]: "py_strip [] = []"
  by (simp add: py_strip_def rstrip_by_def lstrip_by_def)

lemma length_dropWhile_le: "length (dropWhile P xs) \<le> length xs"
  by (induction xs) auto

lemma length_py_strip: "length (py_strip s) \<le> length s"
proof -
  have "length (py_strip s) \<le> length (dropWhile py_space s)"
    using length_dropWhile_le [of py_space "rev (dropWhile py_space s)"]
    by (simp add: py_strip_def rstrip_by_def lstrip_by_def)
  also have "\<dots> \<le> length s" by (rule length_dropWhile_le)
  finally show ?thesis .
qed

lemma dropWhile_hd_not: "dropWhile P xs \<noteq> [] \<Longrightarrow> \<not> P (hd (dropWhile P xs))"
  by (rule hd_dropWhile)

lemma dropWhile_id: "xs = [] \<or> \<not> P (hd xs) \<Longrightarrow> dropWhile P xs = xs"
  by (cases xs) auto

lemma rstrip_by_last: "rstrip_by P s \<noteq> [] \<Longrightarrow> \<not> P (last (rstrip_by P s))"
  using hd_dropWhile [of P "rev s"] by (auto simp: rstrip_by_def last_rev)

lemma rstrip_by_prefix: "\<exists>t. s = rstrip_by P s @ t"
proof -
  have "rev s = takeWhile P (rev s) @ dropWhile P (rev s)" by simp
  then have "s = rev (dropWhile P (rev s)) @ rev (takeWhile P (rev s))"
    by (metis rev_append rev_rev_ident)
  then show ?thesis by (auto simp: rstrip_by_def)
qed

lemma py_strip_hd: "py_strip s \<noteq> [] \<Longrightarrow> \<not> py_space (hd (py_strip s))"
proof -
  assume ne: "py_strip s \<noteq> []"
  obtain t where t: "dropWhile py_space s = py_strip s @ t"
    using rstrip_by_prefix [of "lstrip_by py_space s" py_space]
    by (auto simp: py_strip_def lstrip_by_def)
  with ne have "dropWhile py_space s \<noteq> []" by auto
  then have "\<not> py_space (hd (dropWhile py_space s))" by (rule hd_dropWhile)
  with t ne show ?thesis by simp
qed

lemma py_strip_last: "py_strip s \<noteq> [] \<Longrightarrow> \<not> py_space (last (py_strip s))"
  by (simp add: py_strip_def rstrip_by_last)

lemma py_strip_id: "s = [] \<or> (\<not> py_space (hd s) \<and> \<not> py_space (last s)) \<Longrightarrow> py_strip s = s"
  by (auto simp: py_strip_def rstrip_by_def lstrip_by_def dropWhile_id hd_rev)

lemma py_strip_idem [simp]: "py_strip (py_strip s) = py_strip s"
  by (rule py_strip_id) (use py_strip_hd py_strip_last in blast)

lemma join_with_cons: "join_with sep ((c # w) # ws) = c # join_with sep (w # ws)"
  by (cases ws) auto

lemma split_on_nonempty [simp]: "split_on d s \<noteq> []"
  by (induction s) (auto split: list.splits)

lemma join_split_on: "join_with [d] (split_on d s) = s"
proof (induction s)
  case Nil
  then show ?case by simp
next
  case (Cons c s)
  then show ?case by (auto simp: join_with_cons split: list.splits)
qed

section \<open>Numbers as text\<close>

fun nat_digits :: "nat \<Rightarrow> string" where
  "nat_digits n = (if n < 10 then [char_of (48 + n)] else nat_digits (n div 10) @ [char_of (48 + n mod 10)])"

declare nat_digits.simps [simp del]

definition int_text :: "int \<Rightarrow> string" where
  "int_text i = (if i < 0 then CHR ''-'' # nat_digits (nat (- i)) else nat_digits (nat i))"

definition pad_left :: "nat \<Rightarrow> char \<Rightarrow> string \<Rightarrow> string" where
  "pad_left n c s = replicate (n - length s) c @ s"

text \<open>UTF-8: one byte below 128, two bytes for the rest of the model's range.\<close>

definition utf8_char :: "char \<Rightarrow> nat list" where
  "utf8_char c = (if code c < 128 then [code c] else [192 + code c div 64, 128 + code c mod 64])"

definition utf8 :: "string \<Rightarrow> nat list" where
  "utf8 s = concat (map utf8_char s)"

section \<open>UUIDs\<close>

type_synonym uuid = "128 word"

definition hex_digit :: "nat \<Rightarrow> char" where
  "hex_digit n = (if n < 10 then char_of (48 + n) else char_of (87 + n))"

text \<open>\<open>hex_fixed k n\<close>: the last \<open>k\<close> hexadecimal digits of \<open>n\<close>, most significant first.\<close>

fun hex_fixed :: "nat \<Rightarrow> nat \<Rightarrow> string" where
  "hex_fixed 0 n = []"
| "hex_fixed (Suc k) n = hex_fixed k (n div 16) @ [hex_digit (n mod 16)]"

text \<open>\<open>str(uuid)\<close>: 32 digits grouped 8-4-4-4-12.\<close>

definition uuid_text :: "uuid \<Rightarrow> string" where
  "uuid_text u = (let h = hex_fixed 32 (unat u) in
     take 8 h @ ''-'' @ take 4 (drop 8 h) @ ''-'' @ take 4 (drop 12 h) @ ''-'' @
     take 4 (drop 16 h) @ ''-'' @ drop 20 h)"

fun hex_value :: "char \<Rightarrow> nat option" where
  "hex_value c =
    (if is_digit c then Some (code c - 48)
     else if 97 \<le> code c \<and> code c \<le> 102 then Some (code c - 87)
     else if 65 \<le> code c \<and> code c \<le> 70 then Some (code c - 55)
     else None)"

fun hex_parse :: "nat \<Rightarrow> string \<Rightarrow> nat option" where
  "hex_parse acc [] = Some acc"
| "hex_parse acc (c # cs) =
    (case hex_value c of None \<Rightarrow> None | Some v \<Rightarrow> hex_parse (16 * acc + v) cs)"

text \<open>
  \<open>int(s, 16)\<close>: outer white space and a sign are dropped, then a \<open>0x\<close> prefix, and
  single underscores may separate digits. Negative values cannot be a UUID.
\<close>

definition int16_parse :: "string \<Rightarrow> nat option" where
  "int16_parse s =
    (let t = py_strip s;
         neg = starts_with ''-'' t;
         u = (if neg \<or> starts_with ''+'' t then drop 1 t else t);
         x = (if starts_with ''0x'' u \<or> starts_with ''0X'' u then drop 2 u else u);
         y = (if x \<noteq> u \<and> starts_with ''_'' x then drop 1 x else x);
         groups = split_on CHR ''_'' y
     in if [] \<in> set groups then None
        else (case hex_parse 0 (concat groups) of
                None \<Rightarrow> None
              | Some n \<Rightarrow> if neg \<and> n \<noteq> 0 then None else Some n))"

text \<open>
  \<open>uuid.UUID(text)\<close>: drop \<open>urn:\<close> and \<open>uuid:\<close>, trim braces, drop hyphens, and read
  the 32 characters that must be left as a hexadecimal number; anything else is a
  \<open>ValueError\<close>.
\<close>

definition uuid_parse :: "string \<Rightarrow> uuid res" where
  "uuid_parse s =
    (let h = replace_str ''uuid:'' [] (replace_str ''urn:'' [] s);
         b = (\<lambda>c. c = CHR ''{'' \<or> c = CHR ''}'');
         d = filter (\<lambda>c. c \<noteq> CHR ''-'') (rstrip_by b (lstrip_by b h))
     in if length d \<noteq> 32 then Inl (ValueError ''badly formed hexadecimal UUID string'')
        else case int16_parse d of
               None \<Rightarrow> Inl (ValueError ''invalid literal for int() with base 16'')
             | Some n \<Rightarrow> Inr (word_of_nat n))"

subsection \<open>Reading back what was printed\<close>

lemma code_char_of [simp]: "n < 256 \<Longrightarrow> code (char_of n) = n"
  by (simp add: of_char_of)

lemma hex_digit_value: "n < 16 \<Longrightarrow> hex_value (hex_digit n) = Some n"
  by (auto simp: hex_digit_def is_digit_def)

lemma hex_digit_lower: "n < 16 \<Longrightarrow> is_hex_lower (hex_digit n)"
  by (auto simp: hex_digit_def is_hex_lower_def is_digit_def)

lemma length_hex_fixed [simp]: "length (hex_fixed k n) = k"
  by (induction k arbitrary: n) auto

lemma hex_fixed_hex_lower: "c \<in> set (hex_fixed k n) \<Longrightarrow> is_hex_lower c"
  by (induction k arbitrary: n) (auto intro: hex_digit_lower)

lemma hex_parse_append:
  "hex_parse acc (xs @ ys) = (case hex_parse acc xs of None \<Rightarrow> None | Some a \<Rightarrow> hex_parse a ys)"
  by (induction xs arbitrary: acc) (auto split: option.splits)

lemma hex_parse_hex_fixed: "hex_parse acc (hex_fixed k n) = Some (acc * 16 ^ k + n mod 16 ^ k)"
proof (induction k arbitrary: n)
  case 0
  then show ?case by simp
next
  case (Suc k)
  have "hex_parse acc (hex_fixed (Suc k) n)
      = Some (16 * (acc * 16 ^ k + (n div 16) mod 16 ^ k) + n mod 16)"
    using Suc.IH [of "n div 16"]
    by (simp add: hex_parse_append hex_digit_value del: hex_value.simps)
  moreover have "16 * ((n div 16) mod 16 ^ k) + n mod 16 = n mod 16 ^ Suc k"
    by (simp add: mod_mult2_eq)
  ultimately show ?case by (simp add: algebra_simps)
qed

lemma starts_with_set: "starts_with p s \<Longrightarrow> set p \<subseteq> set s"
  by (metis starts_with_def set_take_subset)

lemma replace_str_absent: "c \<in> set p \<Longrightarrow> c \<notin> set s \<Longrightarrow> replace_str p r s = s"
proof (induction s)
  case Nil
  then show ?case by (simp add: replace_str.simps)
next
  case (Cons d s)
  then have "\<not> starts_with p (d # s)" using starts_with_set by blast
  with Cons show ?case by (subst replace_str.simps) auto
qed

lemma strip_by_id: "(\<And>c. c \<in> set s \<Longrightarrow> \<not> P c) \<Longrightarrow> rstrip_by P (lstrip_by P s) = s"
proof -
  assume P: "\<And>c. c \<in> set s \<Longrightarrow> \<not> P c"
  have "dropWhile P s = s" and "dropWhile P (rev s) = rev s"
    using P by (auto intro!: dropWhile_id) (metis hd_rev last_in_set rev_is_Nil_conv)+
  then show ?thesis by (simp add: rstrip_by_def lstrip_by_def)
qed

lemma split_on_absent: "d \<notin> set s \<Longrightarrow> split_on d s = [s]"
  by (induction s) auto

lemma hex_lower_props:
  assumes "is_hex_lower c"
  shows "\<not> py_space c" "c \<noteq> CHR ''-''" "c \<noteq> CHR ''+''" "c \<noteq> CHR ''_''" "c \<noteq> CHR ''x''" "c \<noteq> CHR ''X''"
    "c \<noteq> CHR ''u''" "c \<noteq> CHR ''{''" "c \<noteq> CHR ''}''"
  using assms by (auto simp: is_hex_lower_def is_digit_def py_space_def Let_def)

lemma int16_parse_hex:
  assumes "s \<noteq> []" "\<And>c. c \<in> set s \<Longrightarrow> is_hex_lower c"
  shows "int16_parse s = hex_parse 0 s"
proof -
  have strip: "py_strip s = s"
    using assms hex_lower_props(1) by (intro py_strip_id) simp
  have no: "\<And>p. \<exists>c \<in> set p. \<not> is_hex_lower c \<Longrightarrow> \<not> starts_with p s"
    using starts_with_set assms(2) by blast
  have "\<not> starts_with ''-'' s" "\<not> starts_with ''+'' s" "\<not> starts_with ''0x'' s" "\<not> starts_with ''0X'' s"
    by (rule no, simp add: is_hex_lower_def is_digit_def)+
  moreover have "split_on CHR ''_'' s = [s]"
    using assms(2) hex_lower_props(4) by (intro split_on_absent) auto
  ultimately show ?thesis
    using assms(1) strip by (auto simp: int16_parse_def Let_def split: option.splits)
qed

lemma uuid_text_digits: "filter (\<lambda>c. c \<noteq> CHR ''-'') (uuid_text u) = hex_fixed 32 (unat u)"
proof -
  define h where "h = hex_fixed 32 (unat u)"
  have h: "\<And>xs. set xs \<subseteq> set h \<Longrightarrow> filter (\<lambda>c. c \<noteq> CHR ''-'') xs = xs"
  proof -
    fix xs assume "set xs \<subseteq> set h"
    then have "\<forall>c \<in> set xs. c \<noteq> CHR ''-''"
      unfolding h_def using hex_fixed_hex_lower hex_lower_props(2) by blast
    then show "filter (\<lambda>c. c \<noteq> CHR ''-'') xs = xs" by (simp add: filter_id_conv)
  qed
  have parts: "take 8 h @ take 4 (drop 8 h) @ take 4 (drop 12 h) @ take 4 (drop 16 h) @ drop 20 h = h"
    using append_take_drop_id [of 8 h] append_take_drop_id [of 4 "drop 8 h"]
      append_take_drop_id [of 4 "drop 12 h"] append_take_drop_id [of 4 "drop 16 h"] by simp
  have sub: "set (take 8 h) \<subseteq> set h" "set (take 4 (drop 8 h)) \<subseteq> set h" "set (take 4 (drop 12 h)) \<subseteq> set h"
    "set (take 4 (drop 16 h)) \<subseteq> set h" "set (drop 20 h) \<subseteq> set h"
    by (meson order_trans set_drop_subset set_take_subset)+
  show ?thesis
    unfolding uuid_text_def Let_def h_def [symmetric]
    using parts by (simp add: h [OF sub(1)] h [OF sub(2)] h [OF sub(3)] h [OF sub(4)] h [OF sub(5)])
qed

lemma uuid_text_chars: "c \<in> set (uuid_text u) \<Longrightarrow> is_hex_lower c \<or> c = CHR ''-''"
proof (cases "c = CHR ''-''")
  case False
  assume "c \<in> set (uuid_text u)"
  with False have "c \<in> set (filter (\<lambda>c. c \<noteq> CHR ''-'') (uuid_text u))" by simp
  then have "c \<in> set (hex_fixed 32 (unat u))" unfolding uuid_text_digits .
  then show ?thesis by (blast dest: hex_fixed_hex_lower)
qed simp

lemma length_uuid_text [simp]: "length (uuid_text u) = 36"
  by (simp add: uuid_text_def Let_def)

lemma uuid_parse_text [simp]: "uuid_parse (uuid_text u) = Inr u"
proof -
  let ?b = "\<lambda>c. c = CHR ''{'' \<or> c = CHR ''}''"
  have chars: "\<And>c. c \<in> set (uuid_text u) \<Longrightarrow> c \<noteq> CHR ''u'' \<and> \<not> ?b c"
    proof -
    fix c assume "c \<in> set (uuid_text u)"
    then consider "is_hex_lower c" | "c = CHR ''-''" using uuid_text_chars by blast
    then show "c \<noteq> CHR ''u'' \<and> \<not> ?b c"
      by cases (use hex_lower_props(7,8,9) in blast, simp)
  qed
  have "replace_str ''uuid:'' [] (replace_str ''urn:'' [] (uuid_text u)) = uuid_text u"
  proof -
    have "CHR ''u'' \<notin> set (uuid_text u)" using chars by blast
    then show ?thesis by (simp add: replace_str_absent [of "CHR ''u''"])
  qed
  moreover have "rstrip_by ?b (lstrip_by ?b (uuid_text u)) = uuid_text u"
    using chars by (intro strip_by_id) auto
  moreover have "int16_parse (hex_fixed 32 (unat u)) = Some (unat u)"
  proof -
    have "hex_fixed 32 (unat u) \<noteq> []" by (metis length_hex_fixed list.size(3) zero_neq_numeral)
    then have "int16_parse (hex_fixed 32 (unat u)) = hex_parse 0 (hex_fixed 32 (unat u))"
      by (intro int16_parse_hex) (auto dest: hex_fixed_hex_lower)
    also have "\<dots> = Some (unat u)"
      using unsigned_less [of u, where 'a = nat] by (simp add: hex_parse_hex_fixed)
    finally show ?thesis .
  qed
  ultimately show ?thesis
    unfolding uuid_parse_def Let_def by (simp add: uuid_text_digits)
qed

lemma uuid_text_inj [simp]: "uuid_text u = uuid_text v \<longleftrightarrow> u = v"
  by (metis sum.inject(2) uuid_parse_text)

end
