(* ===== verification/PyValue.thy ===== *)
theory PyValue
  imports PyText Complex_Main
begin

text \<open>
  Dynamically typed values: what a JSON document or a Python argument of type \<open>Any\<close> holds.
  A float is a rational, or one of the three values that are not numbers in the usual sense.
  A dictionary is the list of its items in insertion order.
\<close>

datatype pyfloat = FNum rat | FNan | FInf | FNegInf

datatype pyval =
    VNone
  | VBool bool
  | VInt int
  | VFloat pyfloat
  | VStr string
  | VList "pyval list"
  | VTuple "pyval list"
  | VDict "(string \<times> pyval) list"

definition dict_get :: "(string \<times> 'v) list \<Rightarrow> string \<Rightarrow> 'v option" where
  "dict_get d k = map_of d k"

definition dict_keys :: "(string \<times> 'v) list \<Rightarrow> string list" where
  "dict_keys d = map fst d"

text \<open>\<open>d[k] = v\<close>: an existing key keeps its place, a new one is appended.\<close>

fun dict_set :: "(string \<times> 'v) list \<Rightarrow> string \<Rightarrow> 'v \<Rightarrow> (string \<times> 'v) list" where
  "dict_set [] k v = [(k, v)]"
| "dict_set ((a, w) # d) k v = (if a = k then (a, v) # d else (a, w) # dict_set d k v)"

lemma dict_get_set [simp]: "dict_get (dict_set d k v) j = (if j = k then Some v else dict_get d j)"
  by (induction d k v rule: dict_set.induct) (auto simp: dict_get_def)

lemma set_keys_dict_set [simp]: "set (dict_keys (dict_set d k v)) = insert k (set (dict_keys d))"
  by (induction d k v rule: dict_set.induct) (auto simp: dict_keys_def)

lemma distinct_keys_dict_set: "distinct (dict_keys d) \<Longrightarrow> distinct (dict_keys (dict_set d k v))"
proof (induction d k v rule: dict_set.induct)
  case (2 a w d k v)
  then show ?case
    using set_keys_dict_set [of d k v] by (auto simp: dict_keys_def)
qed (simp add: dict_keys_def)

text \<open>Truth of a value: \<open>bool(v)\<close>.\<close>

fun truthy :: "pyval \<Rightarrow> bool" where
  "truthy VNone = False"
| "truthy (VBool b) = b"
| "truthy (VInt i) = (i \<noteq> 0)"
| "truthy (VFloat f) = (f \<noteq> FNum 0)"
| "truthy (VStr s) = (s \<noteq> [])"
| "truthy (VList vs) = (vs \<noteq> [])"
| "truthy (VTuple vs) = (vs \<noteq> [])"
| "truthy (VDict d) = (d \<noteq> [])"

text \<open>\<open>str(v)\<close>; what Python prints for a float or a container is \<open>repr_of\<close>.\<close>

fun py_str :: "(pyval \<Rightarrow> string) \<Rightarrow> pyval \<Rightarrow> string" where
  "py_str repr_of VNone = ''None''"
| "py_str repr_of (VBool b) = (if b then ''True'' else ''False'')"
| "py_str repr_of (VInt i) = int_text i"
| "py_str repr_of (VStr s) = s"
| "py_str repr_of v = repr_of v"

text \<open>An aware datetime is its instant in microseconds since the epoch; a naive one has no zone.\<close>

datatype datetime = Aware int | Naive int

fun is_aware :: "datetime \<Rightarrow> bool" where
  "is_aware (Aware _) = True"
| "is_aware (Naive _) = False"

fun instant :: "datetime \<Rightarrow> int" where
  "instant (Aware t) = t"
| "instant (Naive t) = t"

definition day_us :: int where
  "day_us = 86400000000"

text \<open>\<open>dt + timedelta(days=n)\<close>\<close>

fun add_days :: "datetime \<Rightarrow> int \<Rightarrow> datetime" where
  "add_days (Aware t) n = Aware (t + n * day_us)"
| "add_days (Naive t) n = Naive (t + n * day_us)"

lemma is_aware_add_days [simp]: "is_aware (add_days d n) = is_aware d"
  by (cases d) auto

lemma instant_add_days [simp]: "instant (add_days d n) = instant d + n * day_us"
  by (cases d) auto

end
