(* ===== verification/Models.thy ===== *)
theory Models
  imports PyValue
begin

text \<open>
  The persistence model (src/src/infrastructure/models.py). Every mapped class is a record of
  its columns, and beside it stands the predicate of what the database accepts for one row:
  the \<open>CheckConstraint\<close>s, the lengths of \<open>String(n)\<close> columns and the range of
  \<open>Numeric(p, s)\<close> columns. \<open>db\<close> is the content of the database, each table the list of its
  rows in insertion order, and \<open>integrity_ok\<close> adds the primary keys, unique constraints and
  foreign keys.

  An amount of \<open>Numeric(18, 6)\<close> is the integer of its millionths, a timestamp with time zone
  is its instant in microseconds, a \<open>warning_threshold\<close> the integer of its ten-thousandths.
  The columns no code of the program reads are left out: \<open>created_at\<close> and \<open>updated_at\<close> of
  the mixin (except where a status reports it) and the surrogate keys of the append-only
  tables (ledger, audit events, retention events, job attempts, lead attributes), whose rows
  are told apart by their place in the list.
\<close>

section \<open>Column ranges\<close>

definition fits :: "nat \<Rightarrow> string \<Rightarrow> bool" where
  "fits n s \<longleftrightarrow> length s \<le> n"

definition fits_opt :: "nat \<Rightarrow> string option \<Rightarrow> bool" where
  "fits_opt n s \<longleftrightarrow> (case s of None \<Rightarrow> True | Some t \<Rightarrow> length t \<le> n)"

definition numeric_18_6 :: "int \<Rightarrow> bool" where
  "numeric_18_6 q \<longleftrightarrow> \<bar>q\<bar> < 10 ^ 18"

lemma fits_opt_simps [simp]: "fits_opt n None" "fits_opt n (Some s) \<longleftrightarrow> length s \<le> n"
  by (simp_all add: fits_opt_def)

section \<open>Identity tables\<close>

record user =
  us_id :: uuid
  us_email :: string
  us_password_hash :: string
  us_display_name :: string
  us_is_active :: bool
  us_is_platform_admin :: bool
  us_session_version :: int

definition user_ok :: "user \<Rightarrow> bool" where
  "user_ok r \<longleftrightarrow> fits 320 (us_email r) \<and> fits 200 (us_display_name r)"

record session_row =
  se_id :: uuid
  se_user_id :: uuid
  se_refresh_token_hash :: string
  se_csrf_token_hash :: string
  se_mfa_verified :: bool
  se_last_seen_at :: int
  se_expires_at :: int
  se_revoked_at :: "int option"

definition session_row_ok :: "session_row \<Rightarrow> bool" where
  "session_row_ok r \<longleftrightarrow> fits 64 (se_refresh_token_hash r) \<and> fits 64 (se_csrf_token_hash r)"

record mfa_credential =
  mf_user_id :: uuid
  mf_secret_ciphertext :: string
  mf_recovery_code_hashes :: "string list"
  mf_confirmed_at :: "int option"

record oidc_identity =
  oi_id :: uuid
  oi_user_id :: uuid
  oi_provider :: string
  oi_subject :: string

definition oidc_identity_ok :: "oidc_identity \<Rightarrow> bool" where
  "oidc_identity_ok r \<longleftrightarrow> fits 80 (oi_provider r) \<and> fits 255 (oi_subject r)"

record workspace =
  wo_id :: uuid
  wo_slug :: string
  wo_name :: string
  wo_is_active :: bool

definition workspace_ok :: "workspace \<Rightarrow> bool" where
  "workspace_ok r \<longleftrightarrow> fits 80 (wo_slug r) \<and> fits 200 (wo_name r)"

record membership =
  me_id :: uuid
  me_workspace_id :: uuid
  me_user_id :: uuid
  me_role :: string

definition membership_ok :: "membership \<Rightarrow> bool" where
  "membership_ok r \<longleftrightarrow> me_role r \<in> {''admin'', ''operator'', ''viewer''}"

record provider_credential =
  pc_id :: uuid
  pc_workspace_id :: uuid
  pc_provider :: string
  pc_ciphertext :: string
  pc_key_version :: int
  pc_fingerprint :: string
  pc_updated_at :: int

definition provider_credential_ok :: "provider_credential \<Rightarrow> bool" where
  "provider_credential_ok r \<longleftrightarrow> fits 80 (pc_provider r) \<and> fits 32 (pc_fingerprint r)"

section \<open>Jobs and usage tables\<close>

record job =
  jo_id :: uuid
  jo_workspace_id :: uuid
  jo_created_by :: uuid
  jo_kind :: string
  jo_state :: string
  jo_idempotency_key :: string
  jo_parameters :: pyval
  jo_estimated_cost :: int
  jo_result_ref :: "string option"
  jo_error_code :: "string option"
  jo_started_at :: "int option"
  jo_finished_at :: "int option"

definition job_ok :: "job \<Rightarrow> bool" where
  "job_ok r \<longleftrightarrow>
     jo_state r \<in> {''queued'', ''validating'', ''running'', ''completed'', ''partial'', ''cancelled'', ''failed''}
     \<and> 0 \<le> jo_estimated_cost r \<and> numeric_18_6 (jo_estimated_cost r)
     \<and> fits 80 (jo_kind r) \<and> fits 128 (jo_idempotency_key r)
     \<and> fits_opt 500 (jo_result_ref r) \<and> fits_opt 100 (jo_error_code r)"

record job_attempt =
  ja_job_id :: uuid
  ja_attempt_number :: int
  ja_worker_id :: "string option"
  ja_started_at :: int
  ja_heartbeat_at :: int
  ja_finished_at :: "int option"
  ja_error_code :: "string option"

definition job_attempt_ok :: "job_attempt \<Rightarrow> bool" where
  "job_attempt_ok r \<longleftrightarrow> fits_opt 200 (ja_worker_id r) \<and> fits_opt 100 (ja_error_code r)"

record budget =
  bu_id :: uuid
  bu_workspace_id :: uuid
  bu_currency :: string
  bu_hard_limit :: int
  bu_spent :: int
  bu_reserved :: int
  bu_warning_threshold :: int

definition budget_ok :: "budget \<Rightarrow> bool" where
  "budget_ok r \<longleftrightarrow>
     0 \<le> bu_hard_limit r \<and> 0 \<le> bu_spent r \<and> 0 \<le> bu_reserved r
     \<and> 0 < bu_warning_threshold r \<and> bu_warning_threshold r < 10000
     \<and> numeric_18_6 (bu_hard_limit r) \<and> numeric_18_6 (bu_spent r) \<and> numeric_18_6 (bu_reserved r)
     \<and> fits 3 (bu_currency r)"

record reservation =
  re_id :: uuid
  re_workspace_id :: uuid
  re_budget_id :: uuid
  re_job_id :: uuid
  re_amount :: int
  re_settled_amount :: int
  re_state :: string
  re_settled_at :: "int option"

definition reservation_ok :: "reservation \<Rightarrow> bool" where
  "reservation_ok r \<longleftrightarrow>
     0 \<le> re_amount r \<and> 0 \<le> re_settled_amount r
     \<and> numeric_18_6 (re_amount r) \<and> numeric_18_6 (re_settled_amount r)
     \<and> re_state r \<in> {''active'', ''settled'', ''released''}"

record ledger_entry =
  le_workspace_id :: uuid
  le_job_id :: "uuid option"
  le_entry_type :: string
  le_amount :: int
  le_provider :: "string option"
  le_units :: "int option"
  le_reason :: "string option"

definition ledger_entry_ok :: "ledger_entry \<Rightarrow> bool" where
  "ledger_entry_ok r \<longleftrightarrow>
     le_entry_type r \<in> {''reservation'', ''charge'', ''release'', ''override''}
     \<and> numeric_18_6 (le_amount r) \<and> (\<forall>u \<in> set_option (le_units r). numeric_18_6 u)
     \<and> fits_opt 80 (le_provider r) \<and> fits_opt 500 (le_reason r)"

section \<open>Audit log\<close>

text \<open>
  The values of the \<open>details\<close> document: every caller passes numbers and text.
\<close>

datatype audit_value = AVNone | AVBool bool | AVInt int | AVFloat pyfloat | AVText string

record audit_event =
  ae_workspace_id :: "uuid option"
  ae_actor_user_id :: "uuid option"
  ae_action :: string
  ae_target_type :: "string option"
  ae_target_id :: "string option"
  ae_details :: "(string \<times> audit_value) list"
  ae_correlation_id :: "string option"

definition audit_event_ok :: "audit_event \<Rightarrow> bool" where
  "audit_event_ok r \<longleftrightarrow>
     fits 120 (ae_action r) \<and> fits_opt 80 (ae_target_type r) \<and> fits_opt 100 (ae_target_id r)
     \<and> fits_opt 100 (ae_correlation_id r)"

section \<open>Leads and provider references\<close>

record lead_row =
  ld_id :: uuid
  ld_workspace_id :: uuid
  ld_job_id :: uuid
  ld_status :: string

definition lead_row_ok :: "lead_row \<Rightarrow> bool" where
  "lead_row_ok r \<longleftrightarrow> fits 30 (ld_status r)"

record evidence_row =
  ev_id :: uuid
  ev_workspace_id :: uuid
  ev_lead_id :: uuid
  ev_source_url :: string
  ev_content_sha256 :: string
  ev_collected_at :: int

definition evidence_row_ok :: "evidence_row \<Rightarrow> bool" where
  "evidence_row_ok r \<longleftrightarrow> fits 2048 (ev_source_url r) \<and> fits 64 (ev_content_sha256 r)"

record lead_attribute =
  la_workspace_id :: uuid
  la_lead_id :: uuid
  la_evidence_id :: "uuid option"
  la_field_name :: string
  la_value_text :: string
  la_source :: string
  la_source_url :: "string option"
  la_collected_at :: int
  la_expires_at :: "int option"
  la_confidence :: rat
  la_data_classification :: string

definition lead_attribute_ok :: "lead_attribute \<Rightarrow> bool" where
  "lead_attribute_ok r \<longleftrightarrow>
     la_source r \<in> {''official_website'', ''user_input''}
     \<and> fits 100 (la_field_name r) \<and> fits_opt 2048 (la_source_url r) \<and> fits 80 (la_data_classification r)"

record provider_reference =
  pr_id :: uuid
  pr_workspace_id :: uuid
  pr_job_id :: uuid
  pr_lead_id :: "uuid option"
  pr_provider :: string
  pr_external_id :: string
  pr_last_verified_at :: int
  pr_refresh_after :: int

definition provider_reference_ok :: "provider_reference \<Rightarrow> bool" where
  "provider_reference_ok r \<longleftrightarrow> fits 80 (pr_provider r) \<and> fits 500 (pr_external_id r)"

record retention_event =
  rt_workspace_id :: uuid
  rt_entity_type :: string
  rt_deleted_count :: int
  rt_ran_at :: int

definition retention_event_ok :: "retention_event \<Rightarrow> bool" where
  "retention_event_ok r \<longleftrightarrow> fits 80 (rt_entity_type r)"

section \<open>Privacy tables\<close>

record policy_row =
  pp_workspace_id :: uuid
  pp_purpose :: string
  pp_legal_basis :: string
  pp_privacy_contact :: string
  pp_market :: string
  pp_named_contact_retention_days :: int
  pp_policy_version :: string
  pp_enabled :: bool
  pp_updated_by :: "uuid option"

definition policy_row_ok :: "policy_row \<Rightarrow> bool" where
  "policy_row_ok r \<longleftrightarrow>
     pp_market r = ''IT_EU''
     \<and> 1 \<le> pp_named_contact_retention_days r \<and> pp_named_contact_retention_days r \<le> 90
     \<and> fits 500 (pp_purpose r) \<and> fits 500 (pp_legal_basis r) \<and> fits 320 (pp_privacy_contact r)
     \<and> fits 20 (pp_market r) \<and> fits 80 (pp_policy_version r)"

record contact =
  co_id :: uuid
  co_workspace_id :: uuid
  co_lead_id :: "uuid option"
  co_kind :: string
  co_normalized_value :: string
  co_display_value :: string
  co_fingerprint :: string
  co_source_type :: string
  co_source_url :: "string option"
  co_source_request_id :: "uuid option"
  co_collected_at :: int
  co_extraction_method :: string
  co_confidence :: rat
  co_classification :: string
  co_expires_at :: int
  co_evidence_sha256 :: string
  co_rules_version :: string

definition contact_ok :: "contact \<Rightarrow> bool" where
  "contact_ok r \<longleftrightarrow>
     co_kind r \<in> {''email'', ''phone''}
     \<and> co_source_type r \<in> {''official_website'', ''data_subject_request''}
     \<and> co_classification r \<in> {''generic_business'', ''named_professional''}
     \<and> co_extraction_method r \<in> {''regex'', ''mailto'', ''structured_data''}
     \<and> 0 \<le> co_confidence r \<and> co_confidence r \<le> 1
     \<and> fits 500 (co_normalized_value r) \<and> fits 500 (co_display_value r) \<and> fits 64 (co_fingerprint r)
     \<and> fits_opt 2048 (co_source_url r) \<and> fits 64 (co_evidence_sha256 r) \<and> fits 80 (co_rules_version r)"

record suppression_entry =
  su_id :: uuid
  su_workspace_id :: "uuid option"
  su_scope :: string
  su_scope_key :: string
  su_kind :: string
  su_fingerprint :: string
  su_reason :: string
  su_created_by :: "uuid option"

definition suppression_entry_ok :: "suppression_entry \<Rightarrow> bool" where
  "suppression_entry_ok r \<longleftrightarrow>
     su_kind r \<in> {''email'', ''phone''} \<and> su_scope r \<in> {''workspace'', ''global''}
     \<and> fits 36 (su_scope_key r) \<and> fits 64 (su_fingerprint r) \<and> fits 80 (su_reason r)"

record subject_request =
  ds_id :: uuid
  ds_workspace_id :: uuid
  ds_actor_user_id :: "uuid option"
  ds_request_kind :: string
  ds_identifier_kind :: string
  ds_subject_fingerprint :: string
  ds_status :: string
  ds_deleted_count :: int
  ds_completed_at :: "int option"

definition subject_request_ok :: "subject_request \<Rightarrow> bool" where
  "subject_request_ok r \<longleftrightarrow>
     ds_request_kind r \<in> {''access'', ''rectification'', ''erasure'', ''opposition''}
     \<and> ds_status r \<in> {''received'', ''completed'', ''rejected''}
     \<and> fits 20 (ds_identifier_kind r) \<and> fits 64 (ds_subject_fingerprint r)"

section \<open>The database\<close>

record db =
  t_users :: "user list"
  t_sessions :: "session_row list"
  t_mfa :: "mfa_credential list"
  t_oidc :: "oidc_identity list"
  t_workspaces :: "workspace list"
  t_memberships :: "membership list"
  t_credentials :: "provider_credential list"
  t_jobs :: "job list"
  t_job_attempts :: "job_attempt list"
  t_budgets :: "budget list"
  t_reservations :: "reservation list"
  t_ledger :: "ledger_entry list"
  t_audit :: "audit_event list"
  t_leads :: "lead_row list"
  t_evidence :: "evidence_row list"
  t_attributes :: "lead_attribute list"
  t_references :: "provider_reference list"
  t_retention :: "retention_event list"
  t_policies :: "policy_row list"
  t_contacts :: "contact list"
  t_suppressions :: "suppression_entry list"
  t_requests :: "subject_request list"

definition empty_db :: db where
  "empty_db = \<lparr>t_users = [], t_sessions = [], t_mfa = [], t_oidc = [], t_workspaces = [],
     t_memberships = [], t_credentials = [], t_jobs = [], t_job_attempts = [], t_budgets = [],
     t_reservations = [], t_ledger = [], t_audit = [], t_leads = [], t_evidence = [],
     t_attributes = [], t_references = [], t_retention = [], t_policies = [], t_contacts = [],
     t_suppressions = [], t_requests = []\<rparr>"

text \<open>Row constraints of every table.\<close>

definition rows_ok :: "db \<Rightarrow> bool" where
  "rows_ok d \<longleftrightarrow>
     list_all user_ok (t_users d) \<and> list_all session_row_ok (t_sessions d)
     \<and> list_all oidc_identity_ok (t_oidc d) \<and> list_all workspace_ok (t_workspaces d)
     \<and> list_all membership_ok (t_memberships d) \<and> list_all provider_credential_ok (t_credentials d)
     \<and> list_all job_ok (t_jobs d) \<and> list_all job_attempt_ok (t_job_attempts d)
     \<and> list_all budget_ok (t_budgets d) \<and> list_all reservation_ok (t_reservations d)
     \<and> list_all ledger_entry_ok (t_ledger d) \<and> list_all audit_event_ok (t_audit d)
     \<and> list_all lead_row_ok (t_leads d) \<and> list_all evidence_row_ok (t_evidence d)
     \<and> list_all lead_attribute_ok (t_attributes d) \<and> list_all provider_reference_ok (t_references d)
     \<and> list_all retention_event_ok (t_retention d) \<and> list_all policy_row_ok (t_policies d)
     \<and> list_all contact_ok (t_contacts d) \<and> list_all suppression_entry_ok (t_suppressions d)
     \<and> list_all subject_request_ok (t_requests d)"

text \<open>Primary keys and unique constraints.\<close>

definition keys_ok :: "db \<Rightarrow> bool" where
  "keys_ok d \<longleftrightarrow>
     distinct_on us_id (t_users d) \<and> distinct_on us_email (t_users d)
     \<and> distinct_on se_id (t_sessions d) \<and> distinct_on mf_user_id (t_mfa d)
     \<and> distinct_on oi_id (t_oidc d) \<and> distinct_on (\<lambda>r. (oi_provider r, oi_subject r)) (t_oidc d)
     \<and> distinct_on wo_id (t_workspaces d) \<and> distinct_on wo_slug (t_workspaces d)
     \<and> distinct_on me_id (t_memberships d)
     \<and> distinct_on (\<lambda>r. (me_workspace_id r, me_user_id r)) (t_memberships d)
     \<and> distinct_on pc_id (t_credentials d)
     \<and> distinct_on (\<lambda>r. (pc_workspace_id r, pc_provider r)) (t_credentials d)
     \<and> distinct_on jo_id (t_jobs d)
     \<and> distinct_on (\<lambda>r. (jo_workspace_id r, jo_idempotency_key r)) (t_jobs d)
     \<and> distinct_on (\<lambda>r. (ja_job_id r, ja_attempt_number r)) (t_job_attempts d)
     \<and> distinct_on bu_id (t_budgets d) \<and> distinct_on bu_workspace_id (t_budgets d)
     \<and> distinct_on re_id (t_reservations d) \<and> distinct_on re_job_id (t_reservations d)
     \<and> distinct_on ld_id (t_leads d) \<and> distinct_on ev_id (t_evidence d)
     \<and> distinct_on (\<lambda>r. (la_lead_id r, la_field_name r)) (t_attributes d)
     \<and> distinct_on pr_id (t_references d)
     \<and> distinct_on (\<lambda>r. (pr_workspace_id r, pr_provider r, pr_external_id r)) (t_references d)
     \<and> distinct_on pp_workspace_id (t_policies d) \<and> distinct_on co_id (t_contacts d)
     \<and> distinct_on su_id (t_suppressions d)
     \<and> distinct_on (\<lambda>r. (su_scope_key r, su_kind r, su_fingerprint r)) (t_suppressions d)
     \<and> distinct_on ds_id (t_requests d)"

text \<open>Foreign keys: a reference names a row that exists; a nullable one may be absent.\<close>

definition refers :: "('a \<Rightarrow> uuid) \<Rightarrow> ('b \<Rightarrow> uuid) \<Rightarrow> 'a list \<Rightarrow> 'b list \<Rightarrow> bool" where
  "refers f k rows targets \<longleftrightarrow> list_all (\<lambda>r. f r \<in> set (map k targets)) rows"

definition refers_opt :: "('a \<Rightarrow> uuid option) \<Rightarrow> ('b \<Rightarrow> uuid) \<Rightarrow> 'a list \<Rightarrow> 'b list \<Rightarrow> bool" where
  "refers_opt f k rows targets \<longleftrightarrow>
     list_all (\<lambda>r. case f r of None \<Rightarrow> True | Some u \<Rightarrow> u \<in> set (map k targets)) rows"

definition refs_ok :: "db \<Rightarrow> bool" where
  "refs_ok d \<longleftrightarrow>
     refers se_user_id us_id (t_sessions d) (t_users d)
     \<and> refers mf_user_id us_id (t_mfa d) (t_users d)
     \<and> refers oi_user_id us_id (t_oidc d) (t_users d)
     \<and> refers me_workspace_id wo_id (t_memberships d) (t_workspaces d)
     \<and> refers me_user_id us_id (t_memberships d) (t_users d)
     \<and> refers pc_workspace_id wo_id (t_credentials d) (t_workspaces d)
     \<and> refers jo_workspace_id wo_id (t_jobs d) (t_workspaces d)
     \<and> refers jo_created_by us_id (t_jobs d) (t_users d)
     \<and> refers ja_job_id jo_id (t_job_attempts d) (t_jobs d)
     \<and> refers bu_workspace_id wo_id (t_budgets d) (t_workspaces d)
     \<and> refers re_workspace_id wo_id (t_reservations d) (t_workspaces d)
     \<and> refers re_budget_id bu_id (t_reservations d) (t_budgets d)
     \<and> refers re_job_id jo_id (t_reservations d) (t_jobs d)
     \<and> refers le_workspace_id wo_id (t_ledger d) (t_workspaces d)
     \<and> refers_opt le_job_id jo_id (t_ledger d) (t_jobs d)
     \<and> refers_opt ae_workspace_id wo_id (t_audit d) (t_workspaces d)
     \<and> refers_opt ae_actor_user_id us_id (t_audit d) (t_users d)
     \<and> refers ld_workspace_id wo_id (t_leads d) (t_workspaces d)
     \<and> refers ld_job_id jo_id (t_leads d) (t_jobs d)
     \<and> refers ev_workspace_id wo_id (t_evidence d) (t_workspaces d)
     \<and> refers ev_lead_id ld_id (t_evidence d) (t_leads d)
     \<and> refers la_workspace_id wo_id (t_attributes d) (t_workspaces d)
     \<and> refers la_lead_id ld_id (t_attributes d) (t_leads d)
     \<and> refers_opt la_evidence_id ev_id (t_attributes d) (t_evidence d)
     \<and> refers pr_workspace_id wo_id (t_references d) (t_workspaces d)
     \<and> refers pr_job_id jo_id (t_references d) (t_jobs d)
     \<and> refers_opt pr_lead_id ld_id (t_references d) (t_leads d)
     \<and> refers rt_workspace_id wo_id (t_retention d) (t_workspaces d)
     \<and> refers pp_workspace_id wo_id (t_policies d) (t_workspaces d)
     \<and> refers_opt pp_updated_by us_id (t_policies d) (t_users d)
     \<and> refers co_workspace_id wo_id (t_contacts d) (t_workspaces d)
     \<and> refers_opt co_lead_id ld_id (t_contacts d) (t_leads d)
     \<and> refers_opt co_source_request_id ds_id (t_contacts d) (t_requests d)
     \<and> refers_opt su_workspace_id wo_id (t_suppressions d) (t_workspaces d)
     \<and> refers_opt su_created_by us_id (t_suppressions d) (t_users d)
     \<and> refers ds_workspace_id wo_id (t_requests d) (t_workspaces d)
     \<and> refers_opt ds_actor_user_id us_id (t_requests d) (t_users d)"

definition integrity_ok :: "db \<Rightarrow> bool" where
  "integrity_ok d \<longleftrightarrow> rows_ok d \<and> keys_ok d \<and> refs_ok d"

lemma integrity_ok_empty: "integrity_ok empty_db"
  by (simp add: integrity_ok_def rows_ok_def keys_ok_def refs_ok_def refers_def refers_opt_def empty_db_def)

text \<open>The conjuncts the services use.\<close>

lemma integrity_okD:
  assumes "integrity_ok d"
  shows "distinct_on us_id (t_users d)" "distinct_on us_email (t_users d)"
    "distinct_on se_id (t_sessions d)" "distinct_on mf_user_id (t_mfa d)"
    "distinct_on jo_id (t_jobs d)" "distinct_on bu_id (t_budgets d)"
    "distinct_on bu_workspace_id (t_budgets d)" "distinct_on re_id (t_reservations d)"
    "distinct_on re_job_id (t_reservations d)" "distinct_on co_id (t_contacts d)"
    "distinct_on pp_workspace_id (t_policies d)" "distinct_on ds_id (t_requests d)"
    "distinct_on (\<lambda>r. (me_workspace_id r, me_user_id r)) (t_memberships d)"
    "distinct_on (\<lambda>r. (jo_workspace_id r, jo_idempotency_key r)) (t_jobs d)"
    "distinct_on (\<lambda>r. (su_scope_key r, su_kind r, su_fingerprint r)) (t_suppressions d)"
  using assms by (simp_all add: integrity_ok_def keys_ok_def)

lemma integrity_ok_rowsD:
  assumes "integrity_ok d"
  shows "b \<in> set (t_budgets d) \<Longrightarrow> budget_ok b"
    "r \<in> set (t_reservations d) \<Longrightarrow> reservation_ok r"
    "j \<in> set (t_jobs d) \<Longrightarrow> job_ok j"
    "c \<in> set (t_contacts d) \<Longrightarrow> contact_ok c"
    "p \<in> set (t_policies d) \<Longrightarrow> policy_row_ok p"
    "m \<in> set (t_memberships d) \<Longrightarrow> membership_ok m"
    "l \<in> set (t_ledger d) \<Longrightarrow> ledger_entry_ok l"
  using assms by (simp_all add: integrity_ok_def rows_ok_def list_all_iff)

lemma integrity_ok_refsD:
  assumes "integrity_ok d" "r \<in> set (t_reservations d)"
  shows "\<exists>j \<in> set (t_jobs d). jo_id j = re_job_id r" "\<exists>b \<in> set (t_budgets d). bu_id b = re_budget_id r"
proof -
  have "refers re_job_id jo_id (t_reservations d) (t_jobs d)"
    "refers re_budget_id bu_id (t_reservations d) (t_budgets d)"
    using assms(1) by (simp_all add: integrity_ok_def refs_ok_def)
  then show "\<exists>j \<in> set (t_jobs d). jo_id j = re_job_id r"
    "\<exists>b \<in> set (t_budgets d). bu_id b = re_budget_id r"
    using assms(2) by (force simp: refers_def list_all_iff image_iff)+
qed

section \<open>Row writes that keep the integrity\<close>

lemma refers_append [simp]:
  "refers f k (rows @ [r]) targets \<longleftrightarrow> refers f k rows targets \<and> f r \<in> set (map k targets)"
  "refers_opt g k (rows @ [r]) targets \<longleftrightarrow>
     refers_opt g k rows targets \<and> (\<forall>u. g r = Some u \<longrightarrow> u \<in> set (map k targets))"
  by (auto simp: refers_def refers_opt_def split: option.splits)

lemma refers_append_list:
  "refers f k (rows @ rs) targets \<longleftrightarrow> refers f k rows targets \<and> refers f k rs targets"
  "refers_opt g k (rows @ rs) targets \<longleftrightarrow> refers_opt g k rows targets \<and> refers_opt g k rs targets"
  by (simp_all add: refers_def refers_opt_def)

lemma refers_more_targets:
  "refers f k rows targets \<Longrightarrow> refers f k rows (targets @ ts)"
  "refers_opt g k rows targets \<Longrightarrow> refers_opt g k rows (targets @ ts)"
  by (auto simp: refers_def refers_opt_def list_all_iff split: option.splits)

lemma refers_target_map:
  "map k targets' = map k targets \<Longrightarrow> refers f k rows targets' = refers f k rows targets"
  "map k targets' = map k targets \<Longrightarrow> refers_opt g k rows targets' = refers_opt g k rows targets"
  by (simp_all only: refers_def refers_opt_def)

lemma refers_source_map:
  "map f rows' = map f rows \<Longrightarrow> refers f k rows' targets = refers f k rows targets"
  "map g rows' = map g rows \<Longrightarrow> refers_opt g k rows' targets = refers_opt g k rows targets"
proof -
  have "refers f k xs targets \<longleftrightarrow> (\<forall>u \<in> set (map f xs). u \<in> set (map k targets))" for xs
    by (simp add: refers_def list_all_iff)
  then show "map f rows' = map f rows \<Longrightarrow> refers f k rows' targets = refers f k rows targets" by metis
  have "refers_opt g k xs targets \<longleftrightarrow> (\<forall>u. Some u \<in> set (map g xs) \<longrightarrow> u \<in> set (map k targets))" for xs
    by (force simp: refers_opt_def list_all_iff split: option.splits)
  then show "map g rows' = map g rows \<Longrightarrow> refers_opt g k rows' targets = refers_opt g k rows targets" by metis
qed

lemma distinct_on_map: "map f rows' = map f rows \<Longrightarrow> distinct_on f rows' = distinct_on f rows"
  by (simp add: distinct_on_def)

lemma refers_del_rows:
  "refers f k rows targets \<Longrightarrow> refers f k (del_rows P rows) targets"
  "refers_opt g k rows targets \<Longrightarrow> refers_opt g k (del_rows P rows) targets"
  by (auto simp: refers_def refers_opt_def intro: list_all_del_rows)

end
