(* ===== verification/Identity.thy ===== *)
theory Identity
  imports PyText
begin

text \<open>
  Roles and permissions (src/src/domain/identity.py): the two enumerations with their string
  values, the table of what each role may do, and \<open>role_allows\<close>, which refuses a role text
  that names no role. \<open>Role\<close> is a \<open>str\<close> enumeration, so a role and its text are looked up
  alike; the model takes the text.
\<close>

datatype role = Role_ADMIN | Role_OPERATOR | Role_VIEWER

fun role_value :: "role \<Rightarrow> string" where
  "role_value Role_ADMIN = ''admin''"
| "role_value Role_OPERATOR = ''operator''"
| "role_value Role_VIEWER = ''viewer''"

definition role_of_text :: "string \<Rightarrow> role option" where
  "role_of_text s = find (\<lambda>r. role_value r = s) [Role_ADMIN, Role_OPERATOR, Role_VIEWER]"

datatype permission =
    MANAGE_USERS
  | MANAGE_WORKSPACE
  | MANAGE_SECRETS
  | MANAGE_BUDGET
  | START_JOB
  | CANCEL_JOB
  | VIEW_RESULTS
  | EXPORT_RESULTS
  | VIEW_AUDIT_LOG

fun permission_value :: "permission \<Rightarrow> string" where
  "permission_value MANAGE_USERS = ''manage_users''"
| "permission_value MANAGE_WORKSPACE = ''manage_workspace''"
| "permission_value MANAGE_SECRETS = ''manage_secrets''"
| "permission_value MANAGE_BUDGET = ''manage_budget''"
| "permission_value START_JOB = ''start_job''"
| "permission_value CANCEL_JOB = ''cancel_job''"
| "permission_value VIEW_RESULTS = ''view_results''"
| "permission_value EXPORT_RESULTS = ''export_results''"
| "permission_value VIEW_AUDIT_LOG = ''view_audit_log''"

definition all_permissions :: "permission list" where
  "all_permissions = [MANAGE_USERS, MANAGE_WORKSPACE, MANAGE_SECRETS, MANAGE_BUDGET, START_JOB,
     CANCEL_JOB, VIEW_RESULTS, EXPORT_RESULTS, VIEW_AUDIT_LOG]"

fun role_permissions :: "role \<Rightarrow> permission list" where
  "role_permissions Role_ADMIN = all_permissions"
| "role_permissions Role_OPERATOR = [START_JOB, CANCEL_JOB, VIEW_RESULTS, EXPORT_RESULTS]"
| "role_permissions Role_VIEWER = [VIEW_RESULTS, VIEW_AUDIT_LOG]"

definition role_allows :: "string \<Rightarrow> permission \<Rightarrow> bool" where
  "role_allows role permission =
    (case role_of_text role of
       None \<Rightarrow> False
     | Some normalized \<Rightarrow> permission \<in> set (role_permissions normalized))"

text \<open>\<open>permission.value.startswith("manage_")\<close>\<close>

definition is_manage :: "permission \<Rightarrow> bool" where
  "is_manage p \<longleftrightarrow> starts_with ''manage_'' (permission_value p)"

lemma role_of_text_value [simp]: "role_of_text (role_value r) = Some r"
  by (cases r) (simp_all add: role_of_text_def)

lemma role_of_text_Some: "role_of_text s = Some r \<longleftrightarrow> s = role_value r"
  by (cases r) (auto simp: role_of_text_def)

lemma is_manage_iff: "is_manage p \<longleftrightarrow> p \<in> {MANAGE_USERS, MANAGE_WORKSPACE, MANAGE_SECRETS, MANAGE_BUDGET}"
  by (cases p) (simp_all add: is_manage_def starts_with_def)

lemma all_permissions_complete: "p \<in> set all_permissions"
  by (cases p) (simp_all add: all_permissions_def)

lemma manage_needs_admin:
  "is_manage p \<Longrightarrow> p \<in> set (role_permissions r) \<Longrightarrow> r = Role_ADMIN"
  by (cases r) (auto simp: is_manage_iff)

lemma role_value_inj [simp]: "role_value r = role_value s \<longleftrightarrow> r = s"
  by (cases r; cases s) simp_all

end
