(* ===== verification/Authorization.thy ===== *)
theory Authorization
  imports Models Identity
begin

text \<open>
  Workspace authorization (src/src/application/authorization.py): the membership row decides
  the role, the role table the permission, and an administrator needs a session verified by a
  second factor for every permission that manages.
\<close>

definition membership_of :: "uuid \<Rightarrow> uuid \<Rightarrow> db \<Rightarrow> membership option" where
  "membership_of user_id workspace_id d =
    find (\<lambda>m. me_user_id m = user_id \<and> me_workspace_id m = workspace_id) (t_memberships d)"

definition require_permission :: "uuid \<Rightarrow> uuid \<Rightarrow> permission \<Rightarrow> bool \<Rightarrow> db \<Rightarrow> role res" where
  "require_permission user_id workspace_id permission mfa_verified d =
    (case membership_of user_id workspace_id d of
       None \<Rightarrow> Inl (AuthorizationDenied ''Permesso non concesso.'')
     | Some m \<Rightarrow>
         if \<not> role_allows (me_role m) permission then Inl (AuthorizationDenied ''Permesso non concesso.'')
         else (case role_of_text (me_role m) of
                 None \<Rightarrow> Inl (ValueError (me_role m))
               | Some role \<Rightarrow>
                   if role = Role_ADMIN \<and> is_manage permission \<and> \<not> mfa_verified
                   then Inl (AuthorizationDenied ''MFA richiesta per l'azione amministrativa.'')
                   else Inr role))"

lemma role_allows_Some:
  "role_allows s p \<longleftrightarrow> (\<exists>r. role_of_text s = Some r \<and> p \<in> set (role_permissions r))"
  by (auto simp: role_allows_def split: option.splits)

text \<open>Who passes, and that every refusal is an \<open>AuthorizationDenied\<close>.\<close>

lemma require_permission_Inr_iff:
  "require_permission u ws p mfa d = Inr r \<longleftrightarrow>
   (\<exists>m. membership_of u ws d = Some m \<and> me_role m = role_value r
      \<and> p \<in> set (role_permissions r) \<and> (is_manage p \<longrightarrow> mfa))"
  by (auto simp: require_permission_def role_allows_Some role_of_text_Some 
      split: option.splits if_splits dest: manage_needs_admin)

lemma require_permission_Inl:
  "require_permission u ws p mfa d = Inl e \<Longrightarrow> is_AuthorizationDenied e"
  by (auto simp: require_permission_def role_allows_Some split: option.splits if_splits)

lemma membership_of_member:
  "membership_of u ws d = Some m \<Longrightarrow> m \<in> set (t_memberships d) \<and> me_user_id m = u \<and> me_workspace_id m = ws"
  by (auto simp: membership_of_def dest: find_SomeD)

end
