(* ===== verification/Usage.thy ===== *)
theory Usage
  imports PyText
begin

text \<open>
  Cost values (src/src/domain/usage.py). An amount is a Python \<open>Decimal\<close> quantised to six
  places; the model keeps such an amount as the \<open>int\<close> of its millionths. The decimal values
  that come in are kept as the standard library has them: a coefficient with an exponent, an
  infinity, or a quiet or signalling NaN. The default context of the library has precision 28
  and rounds half to even.
\<close>

section \<open>Decimal values\<close>

datatype pydecimal = DFin int int | DInf | DNan | DSNan

text \<open>A float argument is its \<open>str\<close>, as the code passes every argument through \<open>str\<close>.\<close>

datatype cost_value = CDec pydecimal | CInt int | CText string

fun digits_value :: "nat \<Rightarrow> string \<Rightarrow> nat" where
  "digits_value acc [] = acc"
| "digits_value acc (c # cs) = digits_value (10 * acc + (code c - 48)) cs"

definition digits_only :: "string \<Rightarrow> bool" where
  "digits_only s \<longleftrightarrow> list_all is_digit s"

definition is_neg_text :: "string \<Rightarrow> bool" where
  "is_neg_text s \<longleftrightarrow> starts_with ''-'' s"

definition drop_sign :: "string \<Rightarrow> string" where
  "drop_sign s = (if starts_with ''-'' s \<or> starts_with ''+'' s then drop 1 s else s)"

definition signed :: "bool \<Rightarrow> nat \<Rightarrow> int" where
  "signed neg n = (if neg then - int n else int n)"

text \<open>The numeric part of a decimal literal: digits, a point, digits, an exponent.\<close>

definition decimal_number :: "bool \<Rightarrow> string \<Rightarrow> pydecimal option" where
  "decimal_number neg u =
    (let m = takeWhile (\<lambda>c. c \<noteq> CHR ''e'') u;
         x = drop (length m) u;
         i = takeWhile (\<lambda>c. c \<noteq> CHR ''.'') m;
         f = drop (Suc (length i)) m;
         xs = drop_sign (drop 1 x)
     in if i @ f = [] \<or> \<not> digits_only i \<or> \<not> digits_only f then None
        else if x \<noteq> [] \<and> (xs = [] \<or> \<not> digits_only xs) then None
        else Some (DFin (signed neg (digits_value 0 (i @ f)))
                        (signed (is_neg_text (drop 1 x)) (digits_value 0 xs) - int (length f))))"

definition decimal_of_text :: "string \<Rightarrow> pydecimal option" where
  "decimal_of_text s =
    (let t = py_lower (filter (\<lambda>c. c \<noteq> CHR ''_'') (py_strip s));
         u = drop_sign t
     in if u = ''inf'' \<or> u = ''infinity'' then Some DInf
        else if starts_with ''nan'' u \<and> digits_only (drop 3 u) then Some DNan
        else if starts_with ''snan'' u \<and> digits_only (drop 4 u) then Some DSNan
        else decimal_number (is_neg_text t) u)"

fun decimal_of :: "cost_value \<Rightarrow> pydecimal option" where
  "decimal_of (CDec d) = Some d"
| "decimal_of (CInt i) = Some (DFin i 0)"
| "decimal_of (CText s) = decimal_of_text s"

text \<open>\<open>c / 10 ^ k\<close> rounded to the nearest integer, ties to the even one.\<close>

definition round_half_even :: "int \<Rightarrow> nat \<Rightarrow> int" where
  "round_half_even c k =
    (let d = 10 ^ k; q = \<bar>c\<bar> div d; r = \<bar>c\<bar> mod d;
         n = (if 2 * r > d \<or> (2 * r = d \<and> odd q) then q + 1 else q)
     in sgn c * n)"

text \<open>\<open>d.quantize(Decimal("0.000001"))\<close>; a result of more than 28 digits is an error.\<close>

fun quantize_micro :: "pydecimal \<Rightarrow> pydecimal res" where
  "quantize_micro (DFin c e) =
    (let q = (if - 6 \<le> e then c * 10 ^ nat (e + 6) else round_half_even c (nat (- 6 - e)))
     in if \<bar>q\<bar> < 10 ^ 28 then Inr (DFin q (- 6)) else Inl InvalidOperation)"
| "quantize_micro DNan = Inr DNan"
| "quantize_micro DSNan = Inl InvalidOperation"
| "quantize_micro DInf = Inl InvalidOperation"

text \<open>
  The comparison with zero is outside the \<open>try\<close>: on a quiet NaN it raises
  \<open>InvalidOperation\<close> itself.
\<close>

definition normalized_cost :: "cost_value \<Rightarrow> int res" where
  "normalized_cost value =
    (case decimal_of value of
       None \<Rightarrow> Inl (InvalidCost ''Costo non valido.'')
     | Some d \<Rightarrow>
        (case quantize_micro d of
           Inl _ \<Rightarrow> Inl (InvalidCost ''Costo non valido.'')
         | Inr (DFin q _) \<Rightarrow>
             if q < 0 then Inl (InvalidCost ''Il costo non puo essere negativo.'') else Inr q
         | Inr _ \<Rightarrow> Inl InvalidOperation))"

text \<open>A \<open>Numeric(18, 6)\<close> column read back and normalised again.\<close>

definition column_cost :: "int \<Rightarrow> int res" where
  "column_cost q = normalized_cost (CDec (DFin q (- 6)))"

text \<open>\<open>str\<close> of a nonnegative amount: never in scientific notation at exponent -6.\<close>

definition decimal_text :: "int \<Rightarrow> string" where
  "decimal_text q = nat_digits (nat q div 10 ^ 6) @ ''.'' @ pad_left 6 CHR ''0'' (nat_digits (nat q mod 10 ^ 6))"

section \<open>Properties\<close>

lemma normalized_cost_Inr:
  "normalized_cost v = Inr q \<longleftrightarrow>
   (\<exists>d e. decimal_of v = Some d \<and> quantize_micro d = Inr (DFin q e) \<and> 0 \<le> q)"
  by (auto simp: normalized_cost_def split: option.splits sum.splits pydecimal.splits)

lemma quantize_micro_bound: "quantize_micro d = Inr (DFin q e) \<Longrightarrow> \<bar>q\<bar> < 10 ^ 28 \<and> e = - 6"
  by (cases d) (auto simp: Let_def split: if_splits)

lemma normalized_cost_bounds: "normalized_cost v = Inr q \<Longrightarrow> 0 \<le> q \<and> q < 10 ^ 28"
  by (auto simp: normalized_cost_Inr dest: quantize_micro_bound)

lemma normalized_cost_nonneg [dest]: "normalized_cost v = Inr q \<Longrightarrow> 0 \<le> q"
  by (simp add: normalized_cost_bounds)

text \<open>Amounts that fit the column are unchanged by normalising them again.\<close>

lemma column_cost_id [simp]: "0 \<le> q \<Longrightarrow> q < 10 ^ 28 \<Longrightarrow> column_cost q = Inr q"
  by (simp add: column_cost_def normalized_cost_def)

lemma column_cost_negative: "q < 0 \<Longrightarrow> \<not> ok_res (column_cost q)"
  by (auto simp: column_cost_def normalized_cost_def Let_def)

lemma column_cost_Inr_iff: "column_cost q = Inr r \<longleftrightarrow> r = q \<and> 0 \<le> q \<and> q < 10 ^ 28"
  by (auto simp: column_cost_def normalized_cost_def Let_def split: if_splits)

lemma column_cost_normalized: "normalized_cost v = Inr q \<Longrightarrow> column_cost q = Inr q"
  by (drule normalized_cost_bounds) simp

lemma round_half_even_nonneg:
  assumes "0 \<le> c"
  shows "2 * \<bar>c - round_half_even c k * 10 ^ k\<bar> \<le> 10 ^ k"
    and "2 * \<bar>c - round_half_even c k * 10 ^ k\<bar> = 10 ^ k \<Longrightarrow> even (round_half_even c k)"
proof -
  define d :: int where "d = 10 ^ k"
  define q where "q = c div d"
  define r where "r = c mod d"
  have d: "0 < d" by (simp add: d_def)
  have c: "c = q * d + r" by (simp add: q_def r_def)
  have r: "0 \<le> r" "r < d" using d by (simp_all add: r_def)
  have v: "round_half_even c k = (if 2 * r > d \<or> (2 * r = d \<and> odd q) then q + 1 else q)"
  proof (cases "c = 0")
    case True
    then show ?thesis using d by (simp add: round_half_even_def q_def r_def d_def [symmetric] Let_def)
  next
    case False
    with assms have "sgn c = 1" "\<bar>c\<bar> = c" by auto
    then show ?thesis by (simp add: round_half_even_def Let_def d_def q_def r_def)
  qed
  define x where "x = round_half_even c k"
  have diff: "c - x * d = r + (q - x) * d" using c by (simp add: algebra_simps)
  have x: "x = (if 2 * r > d \<or> (2 * r = d \<and> odd q) then q + 1 else q)" using v by (simp add: x_def)
  show "2 * \<bar>c - round_half_even c k * 10 ^ k\<bar> \<le> 10 ^ k"
    using r x unfolding d_def [symmetric] x_def [symmetric] diff by (auto split: if_splits)
  show "even (round_half_even c k)" if "2 * \<bar>c - round_half_even c k * 10 ^ k\<bar> = 10 ^ k"
    using that r x unfolding d_def [symmetric] x_def [symmetric] diff by (auto split: if_splits)
qed

end
