(* ===== verification/Transactions.thy ===== *)
theory Transactions
  imports Models
begin

text \<open>
  The unit of work (src/src/infrastructure/database.py). A session sees the database as it was
  committed plus its own writes; \<open>Database.session\<close> commits when its block ends and rolls back
  when an exception leaves it. Commit is where the database enforces its constraints, and
  where the hooks registered with \<open>event.listen(session, "after_commit", ...)\<close> run: the only
  hook of the program publishes a job identifier. Sessions are serialised: the row locks the
  services take (\<open>with_for_update\<close>) make each of them one atomic step on the rows it uses.

  A flush in the middle of a block would raise the same constraint violation earlier; as no
  caller catches it, the model checks once, at commit. The row policies of PostgreSQL
  are the migrations' and are read in Row_Security; the services name the workspace in every query.
\<close>

record dbsession =
  work :: db
  stable :: db
  hooks :: "uuid list"
  sent :: "uuid list"

record store =
  st_db :: db
  st_job_queue :: "string list"
  st_retention_queue :: "string list"

definition begin_session :: "db \<Rightarrow> dbsession" where
  "begin_session d = \<lparr>work = d, stable = d, hooks = [], sent = []\<rparr>"

definition commit_session :: "dbsession \<Rightarrow> unit res \<times> dbsession" where
  "commit_session s =
    (if integrity_ok (work s)
     then (Inr (), s\<lparr>stable := work s, sent := sent s @ hooks s, hooks := []\<rparr>)
     else (Inl IntegrityError, s\<lparr>work := stable s\<rparr>))"

definition rollback_session :: "dbsession \<Rightarrow> dbsession" where
  "rollback_session s = s\<lparr>work := stable s\<rparr>"

text \<open>What a finished session leaves behind; a published identifier is queued as its text.\<close>

definition end_session :: "store \<Rightarrow> dbsession \<Rightarrow> store" where
  "end_session st s =
    st\<lparr>st_db := stable s, st_job_queue := st_job_queue st @ map uuid_text (sent s)\<rparr>"

definition run_session :: "(dbsession \<Rightarrow> 'a res \<times> dbsession) \<Rightarrow> store \<Rightarrow> 'a res \<times> store" where
  "run_session body st =
    (case body (begin_session (st_db st)) of
       (Inl e, s) \<Rightarrow> (Inl e, end_session st (rollback_session s))
     | (Inr x, s) \<Rightarrow>
         (case commit_session s of
            (Inl e, s') \<Rightarrow> (Inl e, end_session st s')
          | (Inr _, s') \<Rightarrow> (Inr x, end_session st s')))"

text \<open>Most services only read and write rows.\<close>

definition on_db :: "(db \<Rightarrow> 'a res \<times> db) \<Rightarrow> dbsession \<Rightarrow> 'a res \<times> dbsession" where
  "on_db f s = (case f (work s) of (r, d) \<Rightarrow> (r, s\<lparr>work := d\<rparr>))"

definition resolve_job_workspace :: "db \<Rightarrow> uuid \<Rightarrow> uuid option" where
  "resolve_job_workspace d job_id = map_option jo_workspace_id (find (\<lambda>j. jo_id j = job_id) (t_jobs d))"

section \<open>The contract of a block that leaves committing to the session\<close>

locale unit_of_work =
  fixes body :: "dbsession \<Rightarrow> 'a res \<times> dbsession"
  assumes keeps_stable: "stable (snd (body s)) = stable s"
    and keeps_sent: "sent (snd (body s)) = sent s"
begin

lemma run_cases:
  "run_session body st =
    (case body (begin_session (st_db st)) of
       (Inl e, s) \<Rightarrow> (Inl e, st)
     | (Inr x, s) \<Rightarrow>
         if integrity_ok (work s)
         then (Inr x, st\<lparr>st_db := work s, st_job_queue := st_job_queue st @ map uuid_text (hooks s)\<rparr>)
         else (Inl IntegrityError, st))"
proof -
  obtain r s where b: "body (begin_session (st_db st)) = (r, s)" by (cases "body (begin_session (st_db st))")
  have "stable s = st_db st" "sent s = []"
    using keeps_stable [of "begin_session (st_db st)"] keeps_sent [of "begin_session (st_db st)"] b
    by (simp_all add: begin_session_def)
  with b show ?thesis
    by (cases r) (simp_all add: run_session_def commit_session_def rollback_session_def end_session_def)
qed

lemma run_error_unchanged: "run_session body st = (Inl e, st') \<Longrightarrow> st' = st"
  by (auto simp: run_cases split: prod.splits sum.splits if_splits)

lemma run_integrity: "integrity_ok (st_db st) \<Longrightarrow> integrity_ok (st_db (snd (run_session body st)))"
  by (auto simp: run_cases split: prod.splits sum.splits if_splits)

lemma run_success:
  "run_session body st = (Inr x, st') \<longleftrightarrow>
   (\<exists>s. body (begin_session (st_db st)) = (Inr x, s) \<and> integrity_ok (work s)
      \<and> st' = st\<lparr>st_db := work s, st_job_queue := st_job_queue st @ map uuid_text (hooks s)\<rparr>)"
  by (auto simp: run_cases split: prod.splits sum.splits if_splits)

end

interpretation plain: unit_of_work "on_db f" for f
  by unfold_locales (simp_all add: on_db_def split: prod.splits)

lemma run_on_db:
  "run_session (on_db f) st =
    (case f (st_db st) of
       (Inl e, d) \<Rightarrow> (Inl e, st)
     | (Inr x, d) \<Rightarrow> if integrity_ok d then (Inr x, st\<lparr>st_db := d\<rparr>) else (Inl IntegrityError, st))"
  by (auto simp: plain.run_cases on_db_def begin_session_def split: prod.splits sum.splits)

end
