(* ===== verification/Discovery.thy ===== *)
theory Discovery
  imports PyValue "HOL-Library.Sublist"
begin

text \<open>
  Discovery contracts (src/src/domain/discovery.py): candidates that live only during one
  request, the query with its checks, the removal of duplicate candidates, and the guard that
  keeps provider response documents out of everything that is stored or queued. A document
  is any value of \<open>pyval\<close>; its dictionaries have text keys, as JSON objects have.
\<close>

record provider_attribution =
  at_provider :: string
  at_label :: string
  at_terms_url :: string
  at_privacy_url :: string

record candidate_reference =
  cr_provider :: string
  cr_external_id :: string
  cr_last_verified_at :: datetime

record provider_retention_rule =
  rr_reference_refresh_days :: int
  rr_coordinate_ttl_days :: "int option"
  rr_raw_payload_ttl_seconds :: int

record discovery_query =
  dq_text :: string
  dq_center_lat :: pyfloat
  dq_center_lng :: pyfloat
  dq_language :: string

text \<open>\<open>lo <= x <= hi\<close>: no comparison with a NaN holds.\<close>

fun float_between :: "rat \<Rightarrow> pyfloat \<Rightarrow> rat \<Rightarrow> bool" where
  "float_between lo (FNum x) hi = (lo \<le> x \<and> x \<le> hi)"
| "float_between lo _ hi = False"

definition make_discovery_query :: "string \<Rightarrow> pyfloat \<Rightarrow> pyfloat \<Rightarrow> string \<Rightarrow> discovery_query res" where
  "make_discovery_query text lat lng language =
    (if py_strip text = '''' then Inl (ValueError ''La query di discovery non puo essere vuota.'')
     else if \<not> float_between (- 90) lat 90 then Inl (ValueError ''Latitudine non valida.'')
     else if \<not> float_between (- 180) lng 180 then Inl (ValueError ''Longitudine non valida.'')
     else Inr \<lparr>dq_text = text, dq_center_lat = lat, dq_center_lng = lng, dq_language = language\<rparr>)"

record transient_candidate =
  tc_provider :: string
  tc_external_id :: string
  tc_display_name :: string
  tc_website_url :: "string option"
  tc_collected_at :: datetime
  tc_attribution :: provider_attribution

definition candidate_reference_of :: "transient_candidate \<Rightarrow> candidate_reference" where
  "candidate_reference_of c =
    \<lparr>cr_provider = tc_provider c, cr_external_id = tc_external_id c,
     cr_last_verified_at = tc_collected_at c\<rparr>"

record discovery_batch =
  db_candidates :: "transient_candidate list"
  db_attribution :: provider_attribution

definition candidate_key :: "transient_candidate \<Rightarrow> string \<times> string" where
  "candidate_key c = (tc_provider c, tc_external_id c)"

text \<open>The loop of \<open>unique_candidates\<close>: \<open>seen\<close> and \<open>result\<close> are its two accumulators.\<close>

fun unique_loop ::
  "(string \<times> string) list \<Rightarrow> transient_candidate list \<Rightarrow> transient_candidate list \<Rightarrow> transient_candidate list" where
  "unique_loop seen result [] = result"
| "unique_loop seen result (c # cs) =
    (if candidate_key c \<notin> set seen then unique_loop (candidate_key c # seen) (result @ [c]) cs
     else unique_loop seen result cs)"

definition unique_candidates :: "transient_candidate list \<Rightarrow> transient_candidate list" where
  "unique_candidates cs = unique_loop [] [] cs"

section \<open>Provider payloads\<close>

definition google_payload_keys :: "string list" where
  "google_payload_keys = [''places'', ''displayName'', ''formattedAddress'', ''addressComponents'',
     ''nationalPhoneNumber'', ''rating'', ''userRatingCount'', ''reviews'', ''websiteUri'']"

definition has_payload_key :: "(string \<times> pyval) list \<Rightarrow> bool" where
  "has_payload_key d \<longleftrightarrow> list_ex (\<lambda>k. k \<in> set google_payload_keys) (dict_keys d)"

text \<open>The nested values are smaller, so the recursion of the guard ends.\<close>

lemma size_in_list: "x \<in> set vs \<Longrightarrow> size x < Suc (size_list size vs)"
  using size_list_estimation' [of x vs "size x" size] by simp

lemma size_in_dict: "(k, x) \<in> set d \<Longrightarrow> size x < Suc (size_list (size_prod (\<lambda>_. 0) size) d)"
  using size_list_estimation' [of "(k, x)" d "size x" "size_prod (\<lambda>_. 0) size"] by simp

function ensure_provider_payload_absent :: "pyval \<Rightarrow> unit res" where
  "ensure_provider_payload_absent value =
    (case value of
       VDict d \<Rightarrow>
         if has_payload_key d then Inl (ProviderPayloadError ''provider_payload_not_allowed'')
         else all_res ensure_provider_payload_absent (map snd d)
     | VList vs \<Rightarrow> all_res ensure_provider_payload_absent vs
     | VTuple vs \<Rightarrow> all_res ensure_provider_payload_absent vs
     | _ \<Rightarrow> Inr ())"
  by pat_completeness auto
termination
  by (relation "measure size") (auto simp: size_in_list size_in_dict)

declare ensure_provider_payload_absent.simps [simp del]

lemma ensure_payload_simps [simp]:
  "ensure_provider_payload_absent VNone = Inr ()"
  "ensure_provider_payload_absent (VBool b) = Inr ()"
  "ensure_provider_payload_absent (VInt i) = Inr ()"
  "ensure_provider_payload_absent (VFloat f) = Inr ()"
  "ensure_provider_payload_absent (VStr s) = Inr ()"
  "ensure_provider_payload_absent (VList vs) = all_res ensure_provider_payload_absent vs"
  "ensure_provider_payload_absent (VTuple vs) = all_res ensure_provider_payload_absent vs"
  "ensure_provider_payload_absent (VDict d) =
    (if has_payload_key d then Inl (ProviderPayloadError ''provider_payload_not_allowed'')
     else all_res ensure_provider_payload_absent (map snd d))"
  by (subst ensure_provider_payload_absent.simps; simp)+

text \<open>What a document contains, at any depth.\<close>

inductive contains_value :: "pyval \<Rightarrow> pyval \<Rightarrow> bool" where
  here: "contains_value v v"
| in_list: "w \<in> set vs \<Longrightarrow> contains_value w x \<Longrightarrow> contains_value (VList vs) x"
| in_tuple: "w \<in> set vs \<Longrightarrow> contains_value w x \<Longrightarrow> contains_value (VTuple vs) x"
| in_dict: "(k, w) \<in> set d \<Longrightarrow> contains_value w x \<Longrightarrow> contains_value (VDict d) x"

inductive_cases contains_listE: "contains_value (VList vs) x"
inductive_cases contains_tupleE: "contains_value (VTuple vs) x"
inductive_cases contains_dictE: "contains_value (VDict d) x"

inductive_simps contains_atom:
  "contains_value VNone x" "contains_value (VBool b) x" "contains_value (VInt i) x"
  "contains_value (VFloat f) x" "contains_value (VStr s) x"

definition payload_free :: "pyval \<Rightarrow> bool" where
  "payload_free v \<longleftrightarrow> (\<forall>d. contains_value v (VDict d) \<longrightarrow> \<not> has_payload_key d)"

lemma payload_free_simps:
  "payload_free VNone" "payload_free (VBool b)" "payload_free (VInt i)" "payload_free (VFloat f)"
  "payload_free (VStr s)"
  "payload_free (VList vs) \<longleftrightarrow> (\<forall>w \<in> set vs. payload_free w)"
  "payload_free (VTuple vs) \<longleftrightarrow> (\<forall>w \<in> set vs. payload_free w)"
  "payload_free (VDict d) \<longleftrightarrow> \<not> has_payload_key d \<and> (\<forall>w \<in> set (map snd d). payload_free w)"
  by (auto simp: payload_free_def contains_atom elim: contains_listE contains_tupleE contains_dictE
      intro: contains_value.intros) (blast intro: contains_value.intros)

lemma ensure_payload_free_iff: "ensure_provider_payload_absent v = Inr () \<longleftrightarrow> payload_free v"
proof (induction v rule: ensure_provider_payload_absent.induct)
  case (1 v)
  then show ?case by (cases v) (simp_all add: payload_free_simps all_res_ok_iff)
qed

lemma ensure_payload_error:
  "ensure_provider_payload_absent v = Inl e \<Longrightarrow> e = ProviderPayloadError ''provider_payload_not_allowed''"
proof (induction v rule: ensure_provider_payload_absent.induct)
  case (1 v)
  have "all_res f vs = Inl e \<Longrightarrow> \<exists>w \<in> set vs. f w = Inl e" for f :: "pyval \<Rightarrow> unit res" and vs
    by (induction vs) (auto split: sum.splits)
  with 1 show ?case by (cases v) (fastforce split: if_splits)+
qed

text \<open>A document inside an accepted one is accepted.\<close>

lemma contains_value_trans: "contains_value u v \<Longrightarrow> contains_value v w \<Longrightarrow> contains_value u w"
  by (induction rule: contains_value.induct) (auto intro: contains_value.intros)

lemma payload_free_inside: "payload_free v \<Longrightarrow> contains_value v w \<Longrightarrow> payload_free w"
  unfolding payload_free_def by (blast intro: contains_value_trans)

section \<open>Unique candidates\<close>


lemma unique_loop_spec:
  assumes "set seen = set (map candidate_key result)" "distinct_on candidate_key result"
  shows "distinct_on candidate_key (unique_loop seen result cs)
    \<and> set (map candidate_key (unique_loop seen result cs)) = set (map candidate_key (result @ cs))
    \<and> (\<exists>ys. unique_loop seen result cs = result @ ys \<and> subseq ys cs)"
  using assms
proof (induction seen result cs rule: unique_loop.induct)
  case (2 seen result c cs)
  show ?case
  proof (cases "candidate_key c \<in> set seen")
    case True
    with 2 obtain ys where "unique_loop seen result cs = result @ ys" "subseq ys cs" by auto
    with True 2 show ?thesis by auto
  next
    case False
    with 2 obtain ys where "unique_loop (candidate_key c # seen) (result @ [c]) cs = result @ c # ys" "subseq ys cs"
      by auto
    with False 2 show ?thesis by auto
  qed
qed auto

lemma unique_loop_first:
  assumes "set seen = set (map candidate_key result)"
  shows "find (\<lambda>c. candidate_key c = k) (unique_loop seen result cs) = find (\<lambda>c. candidate_key c = k) (result @ cs)"
  using assms
proof (induction seen result cs rule: unique_loop.induct)
  case (2 seen result c cs)
  show ?case
  proof (cases "candidate_key c \<in> set seen")
    case True
    with 2 have "\<exists>x \<in> set result. candidate_key x = candidate_key c" by auto
    then have "k = candidate_key c \<Longrightarrow> find (\<lambda>c. candidate_key c = k) result \<noteq> None"
      by (auto simp: find_eq_None_iff)
    with True 2 show ?thesis by (auto simp: find_append split: option.splits)
  qed (use 2 in auto)
qed auto

end
