(* ===== verification/Http.thy ===== *)
theory Http
  imports Authorization Usage Transactions Discovery
begin

text \<open>
  What every route shares: the authenticated caller, the identifiers in the path
  (src/src/web/dependencies.py), the constraints of the request bodies
  (src/src/web/schemas.py), the rate limiter (src/src/infrastructure/redis.py) and the status
  code an exception ends in (src/src/web/app.py). A handler runs inside the session that
  \<open>db_session\<close> opens: an exception that leaves it rolls the session back, so a handler is a
  function of the session and \<open>respond\<close> turns what \<open>run_session\<close> returns into the answer.
\<close>

section \<open>The caller\<close>

record auth_context =
  ac_user_id :: uuid
  ac_session_id :: uuid
  ac_mfa_verified :: bool

text \<open>A malformed identifier in the path is reported as not found.\<close>

definition workspace_uuid :: "string \<Rightarrow> uuid res" where
  "workspace_uuid s =
    (case uuid_parse s of
       Inl _ \<Rightarrow> Inl (HTTPException 404 ''Workspace non trovato.'') | Inr u \<Rightarrow> Inr u)"

text \<open>\<open>except AuthorizationDenied as exc: raise HTTPException(403, str(exc))\<close>\<close>

definition denied_403 :: "'a res \<Rightarrow> 'a res" where
  "denied_403 r =
    (case r of
       Inl e \<Rightarrow> if is_AuthorizationDenied e then Inl (HTTPException 403 (error_text e)) else Inl e
     | Inr x \<Rightarrow> Inr x)"

section \<open>The rate limiter\<close>

text \<open>
  The transaction that increments the counter of a key and gives it a life time unless it has
  one already is Redis' own: \<open>incr_expire_nx key window\<close> returns the new count and the new
  state of the server.
\<close>

definition rate_limit_key :: "string \<Rightarrow> string \<Rightarrow> string" where
  "rate_limit_key scope subject = ''ratelimit:'' @ scope @ '':'' @ subject"

definition rate_limit_require ::
  "(string \<Rightarrow> int \<Rightarrow> 'r \<Rightarrow> int \<times> 'r) \<Rightarrow> string \<Rightarrow> string \<Rightarrow> int \<Rightarrow> int \<Rightarrow> 'r \<Rightarrow> unit res \<times> 'r" where
  "rate_limit_require incr_expire_nx scope subject limit window_seconds r =
    (case incr_expire_nx (rate_limit_key scope subject) window_seconds r of
       (count, r') \<Rightarrow>
         if count > limit then (Inl (RateLimitExceeded ''Limite richieste superato.''), r')
         else (Inr (), r'))"

text \<open>
  A handler only sees the decision: \<open>None\<close> is the runtime without a limiter, and the state of
  the server is not the database's.
\<close>

type_synonym limiter = "(string \<Rightarrow> string \<Rightarrow> int \<Rightarrow> int \<Rightarrow> unit res) option"

definition limited :: "limiter \<Rightarrow> string \<Rightarrow> string \<Rightarrow> int \<Rightarrow> int \<Rightarrow> unit res" where
  "limited l scope subject limit window_seconds =
    (case l of None \<Rightarrow> Inr () | Some require \<Rightarrow> require scope subject limit window_seconds)"

section \<open>Request bodies\<close>

text \<open>
  A body that breaks a constraint is answered 422 before the handler runs. \<open>Decimal\<close> fields
  of the schemas accept finite numbers only.
\<close>

definition text_between :: "nat \<Rightarrow> nat \<Rightarrow> string \<Rightarrow> bool" where
  "text_between lo hi s \<longleftrightarrow> lo \<le> length s \<and> length s \<le> hi"

fun decimal_ge_0 :: "pydecimal \<Rightarrow> bool" where
  "decimal_ge_0 (DFin c e) = (0 \<le> c)"
| "decimal_ge_0 _ = False"

record login_request =
  lr_email :: string
  lr_password :: string

definition login_request_ok :: "login_request \<Rightarrow> bool" where
  "login_request_ok b \<longleftrightarrow> text_between 3 320 (lr_email b) \<and> text_between 1 1024 (lr_password b)"

definition mfa_code_request_ok :: "string \<Rightarrow> bool" where
  "mfa_code_request_ok v \<longleftrightarrow> text_between 6 64 v"

definition secret_write_request_ok :: "string \<Rightarrow> bool" where
  "secret_write_request_ok value \<longleftrightarrow> text_between 1 8192 value"

record job_create_request =
  jr_kind :: string
  jr_parameters :: "(string \<times> pyval) list"
  jr_estimated_cost :: pydecimal

definition job_create_request_ok :: "job_create_request \<Rightarrow> bool" where
  "job_create_request_ok b \<longleftrightarrow> text_between 1 80 (jr_kind b) \<and> decimal_ge_0 (jr_estimated_cost b)"

record job_response =
  jp_id :: uuid
  jp_state :: string
  jp_created :: "bool option"

record budget_override_request =
  br_hard_limit :: pydecimal
  br_reason :: string

definition budget_override_request_ok :: "budget_override_request \<Rightarrow> bool" where
  "budget_override_request_ok b \<longleftrightarrow> decimal_ge_0 (br_hard_limit b) \<and> text_between 1 500 (br_reason b)"

record privacy_policy_request =
  py_purpose :: string
  py_legal_basis :: string
  py_privacy_contact :: string
  py_market :: string
  py_named_contact_retention_days :: int
  py_policy_version :: string
  py_enabled :: bool

definition privacy_policy_request_ok :: "privacy_policy_request \<Rightarrow> bool" where
  "privacy_policy_request_ok b \<longleftrightarrow>
     text_between 1 500 (py_purpose b) \<and> text_between 1 500 (py_legal_basis b)
     \<and> text_between 3 320 (py_privacy_contact b) \<and> py_market b = ''IT_EU''
     \<and> 1 \<le> py_named_contact_retention_days b \<and> py_named_contact_retention_days b \<le> 90
     \<and> text_between 1 80 (py_policy_version b)"

record suppression_request =
  sr_kind :: string
  sr_value :: string
  sr_scope :: string
  sr_reason :: string

definition suppression_request_ok :: "suppression_request \<Rightarrow> bool" where
  "suppression_request_ok b \<longleftrightarrow>
     sr_kind b \<in> {''email'', ''phone''} \<and> text_between 3 500 (sr_value b)
     \<and> sr_scope b \<in> {''workspace'', ''global''} \<and> text_between 1 80 (sr_reason b)"

record data_subject_request_body =
  dr_request_id :: uuid
  dr_request_kind :: string
  dr_identifier_kind :: string
  dr_value :: string
  dr_replacement_value :: "string option"
  dr_suppression_scope :: string

definition data_subject_request_body_ok :: "data_subject_request_body \<Rightarrow> bool" where
  "data_subject_request_body_ok b \<longleftrightarrow>
     dr_request_kind b \<in> {''access'', ''rectification'', ''erasure'', ''opposition''}
     \<and> dr_identifier_kind b \<in> {''email'', ''phone''} \<and> text_between 3 500 (dr_value b)
     \<and> (\<forall>v \<in> set_option (dr_replacement_value b). text_between 3 500 v)
     \<and> dr_suppression_scope b \<in> {''workspace'', ''global''}"

section \<open>Answers\<close>

text \<open>
  The status line of a request: the exception handlers the application installs are those of
  \<open>HTTPException\<close> and \<open>RateLimitExceeded\<close>; every other exception is a server error.
\<close>

fun error_status :: "error \<Rightarrow> nat" where
  "error_status (HTTPException n _) = n"
| "error_status (RateLimitExceeded _) = 429"
| "error_status _ = 500"

definition respond :: "'a res \<times> store \<Rightarrow> (nat + 'a) \<times> store" where
  "respond p = (case p of (Inl e, st) \<Rightarrow> (Inl (error_status e), st) | (Inr x, st) \<Rightarrow> (Inr x, st))"

lemma respond_store [simp]: "snd (respond p) = snd p"
  by (cases p) (auto simp: respond_def split: sum.splits)

lemma denied_403_Inr [simp]: "denied_403 r = Inr x \<longleftrightarrow> r = Inr x"
  by (auto simp: denied_403_def split: sum.splits)

lemma workspace_uuid_text [simp]: "workspace_uuid (uuid_text u) = Inr u"
  by (simp add: workspace_uuid_def)

lemma denied_403_require:
  "denied_403 (require_permission u ws p mfa d) = Inl e \<Longrightarrow> error_status e = 403"
  by (auto simp: denied_403_def split: sum.splits if_splits dest: require_permission_Inl)

end
