(* ===== verification/Audit_Log.thy ===== *)
theory Audit_Log
  imports Transactions
begin

text \<open>
  The append-only audit log (src/src/application/audit_log.py): only the allowed keys of a
  detail document are kept, text is cut to the width of its column, and a missing or empty
  target becomes NULL.
\<close>

definition allowed_detail_keys :: "string list" where
  "allowed_detail_keys = [''role'', ''provider'', ''reason'', ''result'', ''count'', ''old_limit'',
     ''new_limit'', ''source'', ''scope'', ''policy_version'', ''request_type'', ''classification'']"

fun bounded_scalar :: "audit_value \<Rightarrow> audit_value" where
  "bounded_scalar (AVText s) = AVText (take 500 s)"
| "bounded_scalar v = v"

text \<open>\<open>(value or "")[:n] or None\<close>\<close>

definition clip_or_none :: "nat \<Rightarrow> string option \<Rightarrow> string option" where
  "clip_or_none n v =
    (let t = take n (case v of None \<Rightarrow> '''' | Some s \<Rightarrow> s) in if t = [] then None else Some t)"

definition audit_event_of ::
  "string \<Rightarrow> uuid option \<Rightarrow> uuid option \<Rightarrow> string option \<Rightarrow> string option \<Rightarrow>
   (string \<times> audit_value) list \<Rightarrow> string option \<Rightarrow> audit_event" where
  "audit_event_of action workspace_id actor_user_id target_type target_id details correlation_id =
    \<lparr>ae_workspace_id = workspace_id, ae_actor_user_id = actor_user_id, ae_action = take 120 action,
     ae_target_type = clip_or_none 80 target_type, ae_target_id = clip_or_none 100 target_id,
     ae_details = map (\<lambda>(k, v). (k, bounded_scalar v))
       (filter (\<lambda>(k, v). k \<in> set allowed_detail_keys) details),
     ae_correlation_id = clip_or_none 100 correlation_id\<rparr>"

definition append_audit_event ::
  "string \<Rightarrow> uuid option \<Rightarrow> uuid option \<Rightarrow> string option \<Rightarrow> string option \<Rightarrow>
   (string \<times> audit_value) list \<Rightarrow> string option \<Rightarrow> db \<Rightarrow> db" where
  "append_audit_event action workspace_id actor_user_id target_type target_id details correlation_id d =
    d\<lparr>t_audit := t_audit d @
       [audit_event_of action workspace_id actor_user_id target_type target_id details correlation_id]\<rparr>"

text \<open>Every event fits its columns, whatever the caller passes.\<close>

lemma clip_or_none_fits [simp]: "fits_opt n (clip_or_none n v)"
  by (auto simp: clip_or_none_def Let_def fits_opt_def)

lemma audit_event_of_ok: "audit_event_ok (audit_event_of a w u tt ti ds c)"
  by (simp add: audit_event_ok_def audit_event_of_def fits_def)

lemma bounded_scalar_text: "bounded_scalar v = AVText s \<Longrightarrow> length s \<le> 500"
  by (cases v) auto

lemma audit_event_of_details:
  "(k, v) \<in> set (ae_details (audit_event_of a w u tt ti ds c)) \<Longrightarrow>
   k \<in> set allowed_detail_keys \<and> (\<forall>s. v = AVText s \<longrightarrow> length s \<le> 500)"
  by (auto simp: audit_event_of_def dest: bounded_scalar_text)

text \<open>Appending an event touches no other table.\<close>

lemma append_audit_event_frame [simp]:
  "t_users (append_audit_event a w u tt ti ds c d) = t_users d"
  "t_sessions (append_audit_event a w u tt ti ds c d) = t_sessions d"
  "t_mfa (append_audit_event a w u tt ti ds c d) = t_mfa d"
  "t_workspaces (append_audit_event a w u tt ti ds c d) = t_workspaces d"
  "t_memberships (append_audit_event a w u tt ti ds c d) = t_memberships d"
  "t_credentials (append_audit_event a w u tt ti ds c d) = t_credentials d"
  "t_jobs (append_audit_event a w u tt ti ds c d) = t_jobs d"
  "t_budgets (append_audit_event a w u tt ti ds c d) = t_budgets d"
  "t_reservations (append_audit_event a w u tt ti ds c d) = t_reservations d"
  "t_ledger (append_audit_event a w u tt ti ds c d) = t_ledger d"
  "t_retention (append_audit_event a w u tt ti ds c d) = t_retention d"
  "t_policies (append_audit_event a w u tt ti ds c d) = t_policies d"
  "t_contacts (append_audit_event a w u tt ti ds c d) = t_contacts d"
  "t_suppressions (append_audit_event a w u tt ti ds c d) = t_suppressions d"
  "t_requests (append_audit_event a w u tt ti ds c d) = t_requests d"
  by (simp_all add: append_audit_event_def)

lemma append_audit_event_audit [simp]:
  "t_audit (append_audit_event a w u tt ti ds c d) = t_audit d @ [audit_event_of a w u tt ti ds c]"
  by (simp add: append_audit_event_def)

lemma integrity_audit:
  assumes "integrity_ok d" "\<And>u. w = Some u \<Longrightarrow> u \<in> wo_id ` set (t_workspaces d)"
    "\<And>u. x = Some u \<Longrightarrow> u \<in> us_id ` set (t_users d)"
  shows "integrity_ok (append_audit_event a w x tt ti ds c d)"
  using assms
  by (simp add: integrity_ok_def rows_ok_def keys_ok_def refs_ok_def append_audit_event_def audit_event_of_ok)
    (simp add: audit_event_of_def)

end
