(* ===== verification/Budgets.thy ===== *)
theory Budgets
  imports Audit_Log Usage
begin

text \<open>
  Hard budgets (src/src/application/budgets.py): a reservation sets an amount aside before a
  job runs, settling charges what it cost and frees the rest, releasing frees all of it, and
  an administrator may move the limit. Each operation appends to the ledger. The row locks
  (\<open>with_for_update\<close>) make each operation atomic, so the operations are functions of the
  database.
\<close>

section \<open>Operations\<close>

record budget_snapshot =
  sn_hard_limit :: int
  sn_spent :: int
  sn_reserved :: int
  sn_warning :: bool

text \<open>
  \<open>ratio >= threshold\<close>, with the quotient \<open>(spent + reserved) / limit\<close> of the code written as
  a product: amounts have at most 18 digits and the threshold four decimals, so the 28 digits
  of the division never round across the threshold. A zero limit counts as ratio one.
\<close>

definition over_threshold :: "int \<Rightarrow> int \<Rightarrow> int \<Rightarrow> int \<Rightarrow> bool" where
  "over_threshold limit spent reserved threshold =
    (if limit \<noteq> 0 then threshold * limit \<le> (spent + reserved) * 10000 else threshold \<le> 10000)"

definition snapshot :: "budget \<Rightarrow> budget_snapshot res" where
  "snapshot b =
    bind_res (column_cost (bu_hard_limit b)) (\<lambda>limit.
    bind_res (column_cost (bu_spent b)) (\<lambda>spent.
    bind_res (column_cost (bu_reserved b)) (\<lambda>reserved.
      Inr \<lparr>sn_hard_limit = limit, sn_spent = spent, sn_reserved = reserved,
           sn_warning = over_threshold limit spent reserved (bu_warning_threshold b)\<rparr>)))"

definition budget_of_workspace :: "uuid \<Rightarrow> db \<Rightarrow> budget option" where
  "budget_of_workspace ws d = find (\<lambda>b. bu_workspace_id b = ws) (t_budgets d)"

definition budget_by_id :: "uuid \<Rightarrow> db \<Rightarrow> budget option" where
  "budget_by_id i d = find (\<lambda>b. bu_id b = i) (t_budgets d)"

definition reservation_of_job :: "uuid \<Rightarrow> db \<Rightarrow> reservation option" where
  "reservation_of_job j d = find (\<lambda>r. re_job_id r = j) (t_reservations d)"

text \<open>Writing the columns of the row an operation has loaded.\<close>

definition put_budget :: "budget \<Rightarrow> db \<Rightarrow> db" where
  "put_budget b d = d\<lparr>t_budgets := upd_rows (\<lambda>r. bu_id r = bu_id b) (\<lambda>_. b) (t_budgets d)\<rparr>"

definition put_reservation :: "reservation \<Rightarrow> db \<Rightarrow> db" where
  "put_reservation x d =
    d\<lparr>t_reservations := upd_rows (\<lambda>r. re_id r = re_id x) (\<lambda>_. x) (t_reservations d)\<rparr>"

definition add_ledger :: "ledger_entry list \<Rightarrow> db \<Rightarrow> db" where
  "add_ledger es d = d\<lparr>t_ledger := t_ledger d @ es\<rparr>"

definition ledger_row :: "uuid \<Rightarrow> uuid option \<Rightarrow> string \<Rightarrow> int \<Rightarrow> ledger_entry" where
  "ledger_row ws job entry_type amount =
    \<lparr>le_workspace_id = ws, le_job_id = job, le_entry_type = entry_type, le_amount = amount,
     le_provider = None, le_units = None, le_reason = None\<rparr>"

text \<open>The three columns the hard stop compares, and the sum that must stay below the limit.\<close>

definition committed_plus :: "int \<Rightarrow> budget \<Rightarrow> (int \<times> int \<times> int) res" where
  "committed_plus cost b =
    bind_res (column_cost (bu_spent b)) (\<lambda>spent.
    bind_res (column_cost (bu_reserved b)) (\<lambda>reserved.
    bind_res (column_cost (bu_hard_limit b)) (\<lambda>limit.
      Inr (spent + reserved + cost, reserved, limit))))"

definition reserve ::
  "uuid \<Rightarrow> uuid \<Rightarrow> uuid \<Rightarrow> cost_value \<Rightarrow> db \<Rightarrow> reservation res \<times> db" where
  "reserve new_id workspace_id job_id amount d =
    (case normalized_cost amount of
       Inl e \<Rightarrow> (Inl e, d)
     | Inr cost \<Rightarrow>
        (case budget_of_workspace workspace_id d of
           None \<Rightarrow> (Inl (BudgetExceeded ''Budget non configurato.''), d)
         | Some b \<Rightarrow>
            (case committed_plus cost b of
               Inl e \<Rightarrow> (Inl e, d)
             | Inr (needed, reserved, limit) \<Rightarrow>
                 if needed > limit then (Inl (BudgetExceeded ''Limite di spesa raggiunto.''), d)
                 else
                   let r = \<lparr>re_id = new_id, re_workspace_id = workspace_id, re_budget_id = bu_id b,
                            re_job_id = job_id, re_amount = cost, re_settled_amount = 0,
                            re_state = ''active'', re_settled_at = None\<rparr>;
                       d1 = put_budget (b\<lparr>bu_reserved := reserved + cost\<rparr>) d;
                       d2 = d1\<lparr>t_reservations := t_reservations d1 @ [r]\<rparr>
                   in (Inr r, add_ledger [ledger_row workspace_id (Some job_id) ''reservation'' cost] d2))))"

text \<open>Loading the active reservation of a job, and its budget.\<close>

definition active_reservation :: "uuid \<Rightarrow> db \<Rightarrow> reservation res" where
  "active_reservation job_id d =
    (case reservation_of_job job_id d of
       None \<Rightarrow> Inl (ValueError ''Prenotazione non attiva.'')
     | Some r \<Rightarrow>
         if re_state r \<noteq> ''active'' then Inl (ValueError ''Prenotazione non attiva.'') else Inr r)"

definition settle_amounts :: "int \<Rightarrow> reservation \<Rightarrow> int res" where
  "settle_amounts actual r =
    bind_res (column_cost (re_amount r)) (\<lambda>amount.
      if actual > amount then Inl (BudgetExceeded ''Il costo reale supera la prenotazione.'')
      else Inr amount)"

definition budget_columns :: "budget \<Rightarrow> (int \<times> int) res" where
  "budget_columns b =
    bind_res (column_cost (bu_reserved b)) (\<lambda>reserved.
    bind_res (column_cost (bu_spent b)) (\<lambda>spent. Inr (reserved, spent)))"

definition optional_units :: "cost_value option \<Rightarrow> int option res" where
  "optional_units units =
    (case units of None \<Rightarrow> Inr None | Some u \<Rightarrow> bind_res (normalized_cost u) (\<lambda>q. Inr (Some q)))"

definition settle ::
  "int \<Rightarrow> uuid \<Rightarrow> cost_value \<Rightarrow> string option \<Rightarrow> cost_value option \<Rightarrow> db \<Rightarrow> budget_snapshot res \<times> db" where
  "settle now job_id actual_amount provider units d =
    (case normalized_cost actual_amount of
       Inl e \<Rightarrow> (Inl e, d)
     | Inr actual \<Rightarrow>
        (case active_reservation job_id d of
           Inl e \<Rightarrow> (Inl e, d)
         | Inr r \<Rightarrow>
            (case settle_amounts actual r of
               Inl e \<Rightarrow> (Inl e, d)
             | Inr amount \<Rightarrow>
                (case budget_by_id (re_budget_id r) d of
                   None \<Rightarrow> (Inl AssertionError, d)
                 | Some b \<Rightarrow>
                    (case budget_columns b of
                       Inl e \<Rightarrow> (Inl e, d)
                     | Inr (reserved, spent) \<Rightarrow>
                        (let b' = b\<lparr>bu_reserved := reserved - amount, bu_spent := spent + actual\<rparr>;
                             r' = r\<lparr>re_state := ''settled'', re_settled_amount := actual,
                                    re_settled_at := Some now\<rparr>;
                             d1 = put_reservation r' (put_budget b' d)
                         in case optional_units units of
                              Inl e \<Rightarrow> (Inl e, d1)
                            | Inr u \<Rightarrow>
                               let d2 = add_ledger [(ledger_row (re_workspace_id r) (Some job_id) ''charge'' actual)
                                          \<lparr>le_provider := provider, le_units := u\<rparr>] d1;
                                   released = amount - actual;
                                   d3 = (if released \<noteq> 0
                                         then add_ledger [ledger_row (re_workspace_id r) (Some job_id)
                                                ''release'' released] d2
                                         else d2)
                               in (snapshot b', d3)))))))"

definition release :: "int \<Rightarrow> uuid \<Rightarrow> string \<Rightarrow> db \<Rightarrow> budget_snapshot res \<times> db" where
  "release now job_id reason d =
    (case active_reservation job_id d of
       Inl e \<Rightarrow> (Inl e, d)
     | Inr r \<Rightarrow>
        (case budget_by_id (re_budget_id r) d of
           None \<Rightarrow> (Inl AssertionError, d)
         | Some b \<Rightarrow>
            (case column_cost (re_amount r) of
               Inl e \<Rightarrow> (Inl e, d)
             | Inr amount \<Rightarrow>
                (case column_cost (bu_reserved b) of
                   Inl e \<Rightarrow> (Inl e, d)
                 | Inr reserved \<Rightarrow>
                    let b' = b\<lparr>bu_reserved := reserved - amount\<rparr>;
                        r' = r\<lparr>re_state := ''released'', re_settled_at := Some now\<rparr>;
                        d1 = put_reservation r' (put_budget b' d)
                    in (snapshot b', add_ledger [(ledger_row (re_workspace_id r) (Some job_id)
                          ''release'' amount)\<lparr>le_reason := Some (take 500 reason)\<rparr>] d1)))))"

text \<open>The budget row an override may change: missing, or already committed beyond the new limit.\<close>

definition override_allowed :: "int \<Rightarrow> budget option \<Rightarrow> (budget \<times> int) res" where
  "override_allowed new_value found =
    (case found of
       None \<Rightarrow> Inl (ValueError ''Nuovo limite inferiore agli impegni correnti.'')
     | Some b \<Rightarrow>
        bind_res (budget_columns b) (\<lambda>(reserved, spent).
          if new_value < spent + reserved
          then Inl (ValueError ''Nuovo limite inferiore agli impegni correnti.'')
          else bind_res (column_cost (bu_hard_limit b)) (\<lambda>old. Inr (b, old))))"

definition override_limit ::
  "uuid \<Rightarrow> uuid \<Rightarrow> cost_value \<Rightarrow> string \<Rightarrow> db \<Rightarrow> budget_snapshot res \<times> db" where
  "override_limit workspace_id actor_user_id new_limit reason d =
    (if py_strip reason = '''' then (Inl (ValueError ''Motivazione obbligatoria.''), d)
     else case normalized_cost new_limit of
       Inl e \<Rightarrow> (Inl e, d)
     | Inr new_value \<Rightarrow>
        (case override_allowed new_value (budget_of_workspace workspace_id d) of
           Inl e \<Rightarrow> (Inl e, d)
         | Inr (b, old) \<Rightarrow>
            let b' = b\<lparr>bu_hard_limit := new_value\<rparr>;
                d1 = add_ledger [(ledger_row workspace_id None ''override'' (new_value - old))
                       \<lparr>le_reason := Some (take 500 reason)\<rparr>] (put_budget b' d);
                d2 = append_audit_event ''budget.override'' (Some workspace_id) (Some actor_user_id)
                       (Some ''usage_budget'') (Some (uuid_text (bu_id b)))
                       [(''old_limit'', AVText (decimal_text old)),
                        (''new_limit'', AVText (decimal_text new_value)),
                        (''reason'', AVText reason)] None d1
            in (snapshot b', d2)))"

section \<open>Balance of a budget\<close>

text \<open>
  The abstract account of a budget: what its active reservations set aside, what its settled
  ones cost, and what the ledger of its workspace recorded. The stored columns must agree.
\<close>

definition active_sum :: "uuid \<Rightarrow> db \<Rightarrow> int" where
  "active_sum bid d =
    sum_rows (\<lambda>r. re_budget_id r = bid \<and> re_state r = ''active'') re_amount (t_reservations d)"

definition settled_sum :: "uuid \<Rightarrow> db \<Rightarrow> int" where
  "settled_sum bid d =
    sum_rows (\<lambda>r. re_budget_id r = bid \<and> re_state r = ''settled'') re_settled_amount (t_reservations d)"

definition ledger_sum :: "uuid \<Rightarrow> string \<Rightarrow> db \<Rightarrow> int" where
  "ledger_sum ws ty d =
    sum_rows (\<lambda>l. le_workspace_id l = ws \<and> le_entry_type l = ty) le_amount (t_ledger d)"

definition budget_balanced :: "db \<Rightarrow> budget \<Rightarrow> bool" where
  "budget_balanced d b \<longleftrightarrow>
     bu_reserved b = active_sum (bu_id b) d \<and> bu_spent b = settled_sum (bu_id b) d
     \<and> bu_spent b + bu_reserved b \<le> bu_hard_limit b
     \<and> ledger_sum (bu_workspace_id b) ''charge'' d = bu_spent b
     \<and> ledger_sum (bu_workspace_id b) ''reservation'' d
         = ledger_sum (bu_workspace_id b) ''charge'' d + ledger_sum (bu_workspace_id b) ''release'' d
           + bu_reserved b"

definition reservation_home :: "db \<Rightarrow> reservation \<Rightarrow> bool" where
  "reservation_home d r \<longleftrightarrow>
     (re_budget_id r, re_workspace_id r) \<in> set (map (\<lambda>b. (bu_id b, bu_workspace_id b)) (t_budgets d))"

definition budget_inv :: "db \<Rightarrow> bool" where
  "budget_inv d \<longleftrightarrow> list_all (budget_balanced d) (t_budgets d) \<and> list_all (reservation_home d) (t_reservations d)"

lemma budget_inv_empty: "budget_inv empty_db"
  by (simp add: budget_inv_def empty_db_def)

lemma budget_invD: "budget_inv d \<Longrightarrow> b \<in> set (t_budgets d) \<Longrightarrow> budget_balanced d b"
  by (simp add: budget_inv_def list_all_iff)

lemma reservation_homeD:
  "budget_inv d \<Longrightarrow> r \<in> set (t_reservations d) \<Longrightarrow>
   \<exists>b \<in> set (t_budgets d). bu_id b = re_budget_id r \<and> bu_workspace_id b = re_workspace_id r"
  by (fastforce simp: budget_inv_def list_all_iff reservation_home_def)

text \<open>The balance reads three tables only.\<close>

lemma budget_inv_cong:
  "t_budgets d' = t_budgets d \<Longrightarrow> t_reservations d' = t_reservations d \<Longrightarrow> t_ledger d' = t_ledger d \<Longrightarrow>
   budget_inv d' = budget_inv d"
  by (simp add: budget_inv_def budget_balanced_def reservation_home_def active_sum_def settled_sum_def
      ledger_sum_def cong: list.pred_cong)

section \<open>What the row writes do\<close>

lemma put_budget_frame [simp]:
  "t_reservations (put_budget b d) = t_reservations d" "t_ledger (put_budget b d) = t_ledger d"
  "t_jobs (put_budget b d) = t_jobs d" "t_audit (put_budget b d) = t_audit d"
  "t_contacts (put_budget b d) = t_contacts d"
  by (simp_all add: put_budget_def)

lemma put_reservation_frame [simp]:
  "t_budgets (put_reservation r d) = t_budgets d" "t_ledger (put_reservation r d) = t_ledger d"
  "t_jobs (put_reservation r d) = t_jobs d" "t_audit (put_reservation r d) = t_audit d"
  by (simp_all add: put_reservation_def)

lemma add_ledger_frame [simp]:
  "t_budgets (add_ledger es d) = t_budgets d" "t_reservations (add_ledger es d) = t_reservations d"
  "t_jobs (add_ledger es d) = t_jobs d" "t_audit (add_ledger es d) = t_audit d"
  "t_ledger (add_ledger es d) = t_ledger d @ es"
  by (simp_all add: add_ledger_def)

lemma ledger_row_simps [simp]:
  "le_workspace_id (ledger_row ws j ty a) = ws" "le_job_id (ledger_row ws j ty a) = j"
  "le_entry_type (ledger_row ws j ty a) = ty" "le_amount (ledger_row ws j ty a) = a"
  by (simp_all add: ledger_row_def)

lemma sums_put_budget [simp]:
  "active_sum i (put_budget b d) = active_sum i d" "settled_sum i (put_budget b d) = settled_sum i d"
  "ledger_sum ws ty (put_budget b d) = ledger_sum ws ty d"
  by (simp_all add: active_sum_def settled_sum_def ledger_sum_def)

lemma sums_add_ledger [simp]:
  "active_sum i (add_ledger es d) = active_sum i d" "settled_sum i (add_ledger es d) = settled_sum i d"
  "ledger_sum ws ty (add_ledger es d) = ledger_sum ws ty d +
     sum_rows (\<lambda>l. le_workspace_id l = ws \<and> le_entry_type l = ty) le_amount es"
  by (simp_all add: active_sum_def settled_sum_def ledger_sum_def)

lemma ledger_sum_put_reservation [simp]: "ledger_sum ws ty (put_reservation r d) = ledger_sum ws ty d"
  by (simp add: ledger_sum_def)

lemma sums_put_reservation:
  assumes "distinct_on re_id (t_reservations d)" "r \<in> set (t_reservations d)" "re_id r' = re_id r"
  shows "active_sum i (put_reservation r' d) = active_sum i d
      - (if re_budget_id r = i \<and> re_state r = ''active'' then re_amount r else 0)
      + (if re_budget_id r' = i \<and> re_state r' = ''active'' then re_amount r' else 0)"
    and "settled_sum i (put_reservation r' d) = settled_sum i d
      - (if re_budget_id r = i \<and> re_state r = ''settled'' then re_settled_amount r else 0)
      + (if re_budget_id r' = i \<and> re_state r' = ''settled'' then re_settled_amount r' else 0)"
  using sum_rows_upd_unique [OF assms(1,2)] assms(3)
  by (simp_all add: active_sum_def settled_sum_def put_reservation_def)

lemma sums_add_reservation:
  "active_sum i (d\<lparr>t_reservations := t_reservations d @ [r]\<rparr>) = active_sum i d
     + (if re_budget_id r = i \<and> re_state r = ''active'' then re_amount r else 0)"
  "settled_sum i (d\<lparr>t_reservations := t_reservations d @ [r]\<rparr>) = settled_sum i d
     + (if re_budget_id r = i \<and> re_state r = ''settled'' then re_settled_amount r else 0)"
  "ledger_sum ws ty (d\<lparr>t_reservations := t_reservations d @ [r]\<rparr>) = ledger_sum ws ty d"
  by (simp_all add: active_sum_def settled_sum_def ledger_sum_def)

lemma homes_put_budget:
  assumes "b \<in> set (t_budgets d)" "bu_id b' = bu_id b" "bu_workspace_id b' = bu_workspace_id b"
    "distinct_on bu_id (t_budgets d)"
  shows "map (\<lambda>b. (bu_id b, bu_workspace_id b)) (t_budgets (put_budget b' d))
    = map (\<lambda>b. (bu_id b, bu_workspace_id b)) (t_budgets d)"
  using assms by (auto simp: put_budget_def upd_rows_def dest: distinct_on_eq)

text \<open>
  One step of the books: one budget row changes, together with the sums of that budget and
  of its workspace; every other budget keeps its balance.
\<close>

lemma budget_inv_step:
  assumes inv: "budget_inv d" and keys: "distinct_on bu_id (t_budgets d)" "distinct_on bu_workspace_id (t_budgets d)"
    and b: "b \<in> set (t_budgets d)" "bu_id b' = bu_id b" "bu_workspace_id b' = bu_workspace_id b"
    and budgets: "t_budgets d' = t_budgets (put_budget b' d)"
    and sums: "\<And>i. i \<noteq> bu_id b \<Longrightarrow> active_sum i d' = active_sum i d \<and> settled_sum i d' = settled_sum i d"
    and ledger: "\<And>ws ty. ws \<noteq> bu_workspace_id b \<Longrightarrow> ledger_sum ws ty d' = ledger_sum ws ty d"
    and new: "budget_balanced d' b'"
    and homes: "\<And>r. r \<in> set (t_reservations d') \<Longrightarrow>
      (re_budget_id r, re_workspace_id r) = (bu_id b, bu_workspace_id b)
      \<or> (\<exists>q \<in> set (t_reservations d). re_budget_id r = re_budget_id q \<and> re_workspace_id r = re_workspace_id q)"
  shows "budget_inv d'"
proof -
  have "budget_balanced d' c" if "c \<in> set (t_budgets d')" for c
  proof (cases "bu_id c = bu_id b")
    case True
    with that b(2) have "c = b'" by (auto simp: budgets put_budget_def set_upd_rows)
    with new show ?thesis by simp
  next
    case False
    with that b(2) have c: "c \<in> set (t_budgets d)"
      by (auto simp: budgets put_budget_def set_upd_rows split: if_splits)
    with False b(1) keys(2) have "bu_workspace_id c \<noteq> bu_workspace_id b" by (auto dest: distinct_on_eq)
    with False budget_invD [OF inv c] show ?thesis by (simp add: budget_balanced_def sums ledger)
  qed
  moreover have "reservation_home d' r" if "r \<in> set (t_reservations d')" for r
    using homes [OF that] reservation_homeD [OF inv] b(1)
      homes_put_budget [OF b(1) b(2) b(3) keys(1)]
    unfolding reservation_home_def budgets by force
  ultimately show ?thesis by (simp add: budget_inv_def list_all_iff)
qed

section \<open>Successful operations, written out\<close>

lemma committed_plus_Inr:
  "committed_plus cost b = Inr (n, res, mx) \<Longrightarrow>
   n = bu_spent b + bu_reserved b + cost \<and> res = bu_reserved b \<and> mx = bu_hard_limit b"
  by (auto simp: committed_plus_def bind_res_Inr_iff column_cost_Inr_iff)

lemma reserve_Inr:
  assumes "reserve i ws j amount d = (Inr r, d')"
  obtains cost b where "normalized_cost amount = Inr cost" "b \<in> set (t_budgets d)" "bu_workspace_id b = ws"
    "budget_of_workspace ws d = Some b"
    "bu_spent b + bu_reserved b + cost \<le> bu_hard_limit b"
    "r = \<lparr>re_id = i, re_workspace_id = ws, re_budget_id = bu_id b, re_job_id = j, re_amount = cost,
          re_settled_amount = 0, re_state = ''active'', re_settled_at = None\<rparr>"
    "d' = add_ledger [ledger_row ws (Some j) ''reservation'' cost]
       ((put_budget (b\<lparr>bu_reserved := bu_reserved b + cost\<rparr>) d)\<lparr>t_reservations := t_reservations d @ [r]\<rparr>)"
proof -
  obtain cost where c: "normalized_cost amount = Inr cost"
    using assms by (cases "normalized_cost amount") (auto simp: reserve_def)
  obtain b where b: "budget_of_workspace ws d = Some b"
    using assms c by (cases "budget_of_workspace ws d") (auto simp: reserve_def)
  obtain n res mx where p: "committed_plus cost b = Inr (n, res, mx)"
    using assms c b by (cases "committed_plus cost b") (auto simp: reserve_def)
  note v = committed_plus_Inr [OF p]
  have "b \<in> set (t_budgets d)" "bu_workspace_id b = ws"
    using b by (auto simp: budget_of_workspace_def dest: find_SomeD)
  then show ?thesis
    using assms c b p v by (intro that) (auto simp: reserve_def Let_def split: if_splits)
qed

lemma active_reservation_Inr:
  "active_reservation j d = Inr r \<Longrightarrow>
   r \<in> set (t_reservations d) \<and> re_job_id r = j \<and> re_state r = ''active''"
  by (auto simp: active_reservation_def reservation_of_job_def dest: find_SomeD split: option.splits if_splits)

lemma budget_by_id_Some: "budget_by_id i d = Some b \<Longrightarrow> b \<in> set (t_budgets d) \<and> bu_id b = i"
  by (auto simp: budget_by_id_def dest: find_SomeD)

lemma snapshot_Inr:
  "snapshot b = Inr s \<Longrightarrow>
   0 \<le> bu_reserved b \<and> 0 \<le> bu_spent b \<and> 0 \<le> bu_hard_limit b
   \<and> sn_reserved s = bu_reserved b \<and> sn_spent s = bu_spent b \<and> sn_hard_limit s = bu_hard_limit b
   \<and> sn_warning s = over_threshold (bu_hard_limit b) (bu_spent b) (bu_reserved b) (bu_warning_threshold b)"
  by (auto simp: snapshot_def bind_res_Inr_iff column_cost_Inr_iff)

lemma settle_Inr:
  assumes "settle now j amount provider units d = (Inr s, d')"
  obtains actual r b u b' r' where "normalized_cost amount = Inr actual"
    "r \<in> set (t_reservations d)" "re_job_id r = j" "re_state r = ''active''" "actual \<le> re_amount r"
    "b \<in> set (t_budgets d)" "bu_id b = re_budget_id r"
    "b' = b\<lparr>bu_reserved := bu_reserved b - re_amount r, bu_spent := bu_spent b + actual\<rparr>"
    "r' = r\<lparr>re_state := ''settled'', re_settled_amount := actual, re_settled_at := Some now\<rparr>"
    "snapshot b' = Inr s"
    "d' = add_ledger ((ledger_row (re_workspace_id r) (Some j) ''charge'' actual)\<lparr>le_provider := provider, le_units := u\<rparr> #
       (if re_amount r - actual \<noteq> 0
        then [ledger_row (re_workspace_id r) (Some j) ''release'' (re_amount r - actual)] else []))
       (put_reservation r' (put_budget b' d))"
proof -
  obtain actual where a: "normalized_cost amount = Inr actual"
    using assms by (cases "normalized_cost amount") (auto simp: settle_def)
  obtain r where r: "active_reservation j d = Inr r"
    using assms a by (cases "active_reservation j d") (auto simp: settle_def)
  obtain am where am: "settle_amounts actual r = Inr am"
    using assms a r by (cases "settle_amounts actual r") (auto simp: settle_def)
  obtain b where b: "budget_by_id (re_budget_id r) d = Some b"
    using assms a r am by (cases "budget_by_id (re_budget_id r) d") (auto simp: settle_def)
  obtain rv sp where c: "budget_columns b = Inr (rv, sp)"
    using assms a r am b by (cases "budget_columns b") (auto simp: settle_def)
  obtain u where u: "optional_units units = Inr u"
    using assms a r am b c by (cases "optional_units units") (auto simp: settle_def Let_def)
  have am': "am = re_amount r" "actual \<le> re_amount r"
    using am by (auto simp: settle_amounts_def bind_res_Inr_iff column_cost_Inr_iff split: if_splits)
  have c': "rv = bu_reserved b" "sp = bu_spent b"
    using c by (auto simp: budget_columns_def bind_res_Inr_iff column_cost_Inr_iff)
  note rb = active_reservation_Inr [OF r] budget_by_id_Some [OF b]
  show ?thesis
    by (rule that [of actual r b _ _ u])
      (use assms a r am b c u am' c' rb in \<open>auto simp: settle_def Let_def add_ledger_def split: if_splits\<close>)
qed

lemma release_Inr:
  assumes "release now j reason d = (Inr s, d')"
  obtains r b b' r' where "r \<in> set (t_reservations d)" "re_job_id r = j" "re_state r = ''active''"
    "b \<in> set (t_budgets d)" "bu_id b = re_budget_id r"
    "b' = b\<lparr>bu_reserved := bu_reserved b - re_amount r\<rparr>"
    "r' = r\<lparr>re_state := ''released'', re_settled_at := Some now\<rparr>"
    "snapshot b' = Inr s"
    "d' = add_ledger [(ledger_row (re_workspace_id r) (Some j) ''release'' (re_amount r))
        \<lparr>le_reason := Some (take 500 reason)\<rparr>] (put_reservation r' (put_budget b' d))"
proof -
  obtain r where r: "active_reservation j d = Inr r"
    using assms by (cases "active_reservation j d") (auto simp: release_def)
  obtain b where b: "budget_by_id (re_budget_id r) d = Some b"
    using assms r by (cases "budget_by_id (re_budget_id r) d") (auto simp: release_def)
  obtain am where am: "column_cost (re_amount r) = Inr am"
    using assms r b by (cases "column_cost (re_amount r)") (auto simp: release_def)
  obtain rv where rv: "column_cost (bu_reserved b) = Inr rv"
    using assms r b am by (cases "column_cost (bu_reserved b)") (auto simp: release_def)
  have "am = re_amount r" "rv = bu_reserved b" using am rv by (auto simp: column_cost_Inr_iff)
  with assms r b am rv active_reservation_Inr [OF r] budget_by_id_Some [OF b] show ?thesis
    by (intro that) (auto simp: release_def Let_def)
qed

lemma override_limit_Inr:
  assumes "override_limit ws actor new_limit reason d = (Inr s, d')"
  obtains v b b' where "normalized_cost new_limit = Inr v" "b \<in> set (t_budgets d)" "bu_workspace_id b = ws"
    "bu_spent b + bu_reserved b \<le> v" "b' = b\<lparr>bu_hard_limit := v\<rparr>" "snapshot b' = Inr s"
    "d' = append_audit_event ''budget.override'' (Some ws) (Some actor)
       (Some ''usage_budget'') (Some (uuid_text (bu_id b)))
       [(''old_limit'', AVText (decimal_text (bu_hard_limit b))), (''new_limit'', AVText (decimal_text v)),
        (''reason'', AVText reason)] None
       (add_ledger [(ledger_row ws None ''override'' (v - bu_hard_limit b))\<lparr>le_reason := Some (take 500 reason)\<rparr>]
         (put_budget b' d))"
proof -
  have ne: "py_strip reason \<noteq> ''''" using assms by (auto simp: override_limit_def split: if_splits)
  obtain v where v: "normalized_cost new_limit = Inr v"
    using assms ne by (cases "normalized_cost new_limit") (auto simp: override_limit_def)
  obtain b old where b: "override_allowed v (budget_of_workspace ws d) = Inr (b, old)"
    using assms ne v by (cases "override_allowed v (budget_of_workspace ws d)") (auto simp: override_limit_def)
  then have b': "budget_of_workspace ws d = Some b" "bu_spent b + bu_reserved b \<le> v" "old = bu_hard_limit b"
    by (auto simp: override_allowed_def bind_res_Inr_iff budget_columns_def column_cost_Inr_iff
        split: option.splits if_splits)
  have "b \<in> set (t_budgets d)" "bu_workspace_id b = ws"
    using b'(1) by (auto simp: budget_of_workspace_def dest: find_SomeD)
  with assms ne v b b' show ?thesis
    by (intro that [of v b]) (auto simp: override_limit_def Let_def)
qed

section \<open>Every operation keeps the books balanced\<close>

lemmas budget_keys = integrity_okD(6,7)

lemma reserve_inv:
  assumes "budget_inv d" "distinct_on bu_id (t_budgets d)" "distinct_on bu_workspace_id (t_budgets d)"
    "reserve i ws j amount d = (Inr r, d')"
  shows "budget_inv d'"
  using assms(4)
proof (cases rule: reserve_Inr)
  case (1 cost b)
  show ?thesis
    by (rule budget_inv_step [OF assms(1-3), of b "b\<lparr>bu_reserved := bu_reserved b + cost\<rparr>"])
      (use 1 budget_invD [OF assms(1) 1(2)] in
        \<open>auto simp: budget_balanced_def active_sum_def settled_sum_def ledger_sum_def put_budget_def add_ledger_def\<close>)
qed

lemma settle_inv:
  assumes "budget_inv d" "integrity_ok d" "settle now j amount provider units d = (Inr s, d')"
  shows "budget_inv d'"
  using assms(3)
proof (cases rule: settle_Inr)
  case (1 actual r b u b' r')
  have r': "re_id r' = re_id r" "re_budget_id r' = re_budget_id r" "re_workspace_id r' = re_workspace_id r"
    "re_state r' = ''settled''" "re_settled_amount r' = actual"
    by (simp_all add: 1(9))
  have b': "bu_id b' = bu_id b" "bu_workspace_id b' = bu_workspace_id b" "bu_hard_limit b' = bu_hard_limit b"
    "bu_reserved b' = bu_reserved b - re_amount r" "bu_spent b' = bu_spent b + actual"
    by (simp_all add: 1(8))
  note sums = sums_put_reservation [of "put_budget b' d" r r', simplified, OF integrity_okD(8) [OF assms(2)] 1(2) r'(1)]
  obtain c where c: "c \<in> set (t_budgets d)" "bu_id c = re_budget_id r" "bu_workspace_id c = re_workspace_id r"
    using reservation_homeD [OF assms(1) 1(2)] by blast
  with 1 budget_keys(1) [OF assms(2)] have ws: "bu_workspace_id b = re_workspace_id r"
    by (metis distinct_on_eq)
  have bal: "budget_balanced d b" using budget_invD [OF assms(1) 1(6)] .
  show ?thesis
  proof (rule budget_inv_step [OF assms(1) budget_keys [OF assms(2)], of b b'])
    show "budget_balanced d' b'"
      using bal 1(4,5,7) ws by (simp add: budget_balanced_def sums r' b' 1(11))
    show "active_sum i d' = active_sum i d \<and> settled_sum i d' = settled_sum i d" if "i \<noteq> bu_id b" for i
      using that 1(7) by (simp add: sums r' 1(11))
    show "ledger_sum w ty d' = ledger_sum w ty d" if "w \<noteq> bu_workspace_id b" for w ty
      using that ws by (simp add: 1(11))
    show "(re_budget_id q, re_workspace_id q) = (bu_id b, bu_workspace_id b)
      \<or> (\<exists>p \<in> set (t_reservations d). re_budget_id q = re_budget_id p \<and> re_workspace_id q = re_workspace_id p)"
      if "q \<in> set (t_reservations d')" for q
      using that 1(7) ws by (auto simp: 1(11) put_reservation_def set_upd_rows r' split: if_splits)
  qed (use 1(6) in \<open>simp_all add: b' 1(11)\<close>)
qed

lemma release_inv:
  assumes "budget_inv d" "integrity_ok d" "release now j reason d = (Inr s, d')"
  shows "budget_inv d'"
  using assms(3)
proof (cases rule: release_Inr)
  case (1 r b b' r')
  have r': "re_id r' = re_id r" "re_budget_id r' = re_budget_id r" "re_workspace_id r' = re_workspace_id r"
    "re_state r' = ''released''"
    by (simp_all add: 1(7))
  have b': "bu_id b' = bu_id b" "bu_workspace_id b' = bu_workspace_id b" "bu_hard_limit b' = bu_hard_limit b"
    "bu_reserved b' = bu_reserved b - re_amount r" "bu_spent b' = bu_spent b"
    by (simp_all add: 1(6))
  note sums = sums_put_reservation [of "put_budget b' d" r r', simplified, OF integrity_okD(8) [OF assms(2)] 1(1) r'(1)]
  obtain c where c: "c \<in> set (t_budgets d)" "bu_id c = re_budget_id r" "bu_workspace_id c = re_workspace_id r"
    using reservation_homeD [OF assms(1) 1(1)] by blast
  with 1 budget_keys(1) [OF assms(2)] have ws: "bu_workspace_id b = re_workspace_id r"
    by (metis distinct_on_eq)
  have bal: "budget_balanced d b" using budget_invD [OF assms(1) 1(4)] .
  have nonneg: "0 \<le> re_amount r"
    using integrity_ok_rowsD(2) [OF assms(2) 1(1)] by (simp add: reservation_ok_def)
  show ?thesis
  proof (rule budget_inv_step [OF assms(1) budget_keys [OF assms(2)], of b b'])
    show "budget_balanced d' b'"
      using bal 1(3,5) ws nonneg by (simp add: budget_balanced_def sums r' b' 1(9))
    show "active_sum i d' = active_sum i d \<and> settled_sum i d' = settled_sum i d" if "i \<noteq> bu_id b" for i
      using that 1(5) by (simp add: sums r' 1(9))
    show "ledger_sum w ty d' = ledger_sum w ty d" if "w \<noteq> bu_workspace_id b" for w ty
      using that ws by (simp add: 1(9))
    show "(re_budget_id q, re_workspace_id q) = (bu_id b, bu_workspace_id b)
      \<or> (\<exists>p \<in> set (t_reservations d). re_budget_id q = re_budget_id p \<and> re_workspace_id q = re_workspace_id p)"
      if "q \<in> set (t_reservations d')" for q
      using that 1(5) ws by (auto simp: 1(9) put_reservation_def set_upd_rows r' split: if_splits)
  qed (use 1(4) in \<open>simp_all add: b' 1(9)\<close>)
qed

lemma sums_audit [simp]:
  "active_sum i (append_audit_event a w u tt ti ds c d) = active_sum i d"
  "settled_sum i (append_audit_event a w u tt ti ds c d) = settled_sum i d"
  "ledger_sum ws ty (append_audit_event a w u tt ti ds c d) = ledger_sum ws ty d"
  by (simp_all add: active_sum_def settled_sum_def ledger_sum_def)

lemma override_limit_inv:
  assumes "budget_inv d" "integrity_ok d" "override_limit ws actor new_limit reason d = (Inr s, d')"
  shows "budget_inv d'"
  using assms(3)
proof (cases rule: override_limit_Inr)
  case (1 v b b')
  show ?thesis
    by (rule budget_inv_step [OF assms(1) budget_keys [OF assms(2)], of b b'])
      (use 1 budget_invD [OF assms(1) 1(2)] in \<open>auto simp: budget_balanced_def\<close>)
qed

section \<open>Integrity of the row writes\<close>

lemma integrity_put_budget:
  assumes "integrity_ok d" "b \<in> set (t_budgets d)" "bu_id b' = bu_id b"
    "bu_workspace_id b' = bu_workspace_id b" "budget_ok b'"
  shows "integrity_ok (put_budget b' d)"
proof -
  have "distinct_on bu_id (t_budgets d)" using assms(1) by (rule integrity_okD)
  then have m: "map f (upd_rows (\<lambda>r. bu_id r = bu_id b') (\<lambda>_. b') (t_budgets d)) = map f (t_budgets d)"
    if "f b' = f b" for f :: "budget \<Rightarrow> uuid"
    using assms(2,3) that by (rule map_put_row)
  note maps = m [of bu_id, OF assms(3)] m [of bu_workspace_id, OF assms(4)]
  show ?thesis
    using assms(1) assms(5)
    by (simp add: integrity_ok_def rows_ok_def keys_ok_def refs_ok_def put_budget_def list_all_put_row
        refers_target_map(1) [OF maps(1)] refers_source_map(1) [OF maps(2)] distinct_on_map [OF maps(1)]
        distinct_on_map [OF maps(2)])
qed

lemma integrity_put_reservation:
  assumes "integrity_ok d" "r \<in> set (t_reservations d)" "re_id r' = re_id r"
    "re_workspace_id r' = re_workspace_id r" "re_budget_id r' = re_budget_id r"
    "re_job_id r' = re_job_id r" "reservation_ok r'"
  shows "integrity_ok (put_reservation r' d)"
proof -
  have "distinct_on re_id (t_reservations d)" using assms(1) by (rule integrity_okD)
  then have m: "map f (upd_rows (\<lambda>r. re_id r = re_id r') (\<lambda>_. r') (t_reservations d)) = map f (t_reservations d)"
    if "f r' = f r" for f :: "reservation \<Rightarrow> uuid"
    using assms(2,3) that by (rule map_put_row)
  note maps = m [of re_id, OF assms(3)] m [of re_workspace_id, OF assms(4)]
    m [of re_budget_id, OF assms(5)] m [of re_job_id, OF assms(6)]
  show ?thesis
    using assms(1) assms(7)
    by (simp add: integrity_ok_def rows_ok_def keys_ok_def refs_ok_def put_reservation_def list_all_put_row
        refers_source_map(1) [OF maps(2)] refers_source_map(1) [OF maps(3)] refers_source_map(1) [OF maps(4)]
        distinct_on_map [OF maps(1)] distinct_on_map [OF maps(4)])
qed

lemma integrity_add_ledger:
  assumes "integrity_ok d" "list_all ledger_entry_ok es"
    "refers le_workspace_id wo_id es (t_workspaces d)" "refers_opt le_job_id jo_id es (t_jobs d)"
  shows "integrity_ok (add_ledger es d)"
  using assms by (simp add: integrity_ok_def rows_ok_def keys_ok_def refs_ok_def add_ledger_def refers_append_list)

section \<open>When the operations succeed\<close>

lemma column_cost_18: "0 \<le> q \<Longrightarrow> numeric_18_6 q \<Longrightarrow> column_cost q = Inr q"
  by (rule column_cost_id) (auto simp: numeric_18_6_def)

lemma budget_columns_valid:
  assumes "budget_ok b"
  shows "column_cost (bu_hard_limit b) = Inr (bu_hard_limit b)"
    "column_cost (bu_spent b) = Inr (bu_spent b)" "column_cost (bu_reserved b) = Inr (bu_reserved b)"
  using assms by (auto simp: budget_ok_def intro: column_cost_18)

lemma snapshot_ok: "budget_ok b \<Longrightarrow> \<exists>s. snapshot b = Inr s"
  by (simp add: snapshot_def budget_columns_valid)

lemma reservation_of_job_unique:
  "integrity_ok d \<Longrightarrow> r \<in> set (t_reservations d) \<Longrightarrow> reservation_of_job (re_job_id r) d = Some r"
  by (simp add: reservation_of_job_def find_unique integrity_okD(9))

lemma budget_by_id_unique:
  "integrity_ok d \<Longrightarrow> b \<in> set (t_budgets d) \<Longrightarrow> budget_by_id (bu_id b) d = Some b"
  by (simp add: budget_by_id_def find_unique integrity_okD(6))

lemma budget_of_workspace_unique:
  "integrity_ok d \<Longrightarrow> b \<in> set (t_budgets d) \<Longrightarrow> budget_of_workspace (bu_workspace_id b) d = Some b"
  by (simp add: budget_of_workspace_def find_unique integrity_okD(7))

text \<open>The hard stop: a reservation is granted exactly when the commitments stay within the limit.\<close>

lemma reserve_decision:
  assumes "integrity_ok d" "b \<in> set (t_budgets d)" "normalized_cost amount = Inr cost"
  shows "ok_res (fst (reserve i (bu_workspace_id b) j amount d))
    \<longleftrightarrow> bu_spent b + bu_reserved b + cost \<le> bu_hard_limit b"
  using assms integrity_ok_rowsD(1) [OF assms(1,2)]
  by (auto simp: reserve_def budget_of_workspace_unique committed_plus_def budget_columns_valid Let_def)

lemma reserve_error_unchanged: "reserve i ws j amount d = (Inl e, d') \<Longrightarrow> d' = d"
  by (auto simp: reserve_def Let_def split: sum.splits option.splits if_splits prod.splits)

lemma budget_member_of_reservation:
  assumes "budget_inv d" "integrity_ok d" "r \<in> set (t_reservations d)"
  obtains b where "b \<in> set (t_budgets d)" "bu_id b = re_budget_id r" "bu_workspace_id b = re_workspace_id r"
    "budget_balanced d b" "budget_ok b"
  using reservation_homeD [OF assms(1,3)] budget_invD [OF assms(1)] integrity_ok_rowsD(1) [OF assms(2)]
  by blast

lemma active_amount_le_reserved:
  assumes "budget_inv d" "integrity_ok d" "r \<in> set (t_reservations d)" "re_state r = ''active''"
    "b \<in> set (t_budgets d)" "bu_id b = re_budget_id r"
  shows "0 \<le> re_amount r" "re_amount r \<le> bu_reserved b"
proof -
  have nonneg: "\<And>q. q \<in> set (t_reservations d) \<Longrightarrow> 0 \<le> re_amount q"
    using integrity_ok_rowsD(2) [OF assms(2)] by (simp add: reservation_ok_def)
  then show "0 \<le> re_amount r" using assms(3) by blast
  have "re_amount r \<le> active_sum (re_budget_id r) d"
    unfolding active_sum_def by (rule sum_rows_member_le) (use assms nonneg in auto)
  with budget_invD [OF assms(1,5)] assms(6) show "re_amount r \<le> bu_reserved b"
    by (simp add: budget_balanced_def)
qed

lemma refers_member: "refers f k rows targets \<Longrightarrow> r \<in> set rows \<Longrightarrow> f r \<in> set (map k targets)"
  by (simp add: refers_def list_all_iff)

lemma release_succeeds:
  assumes inv: "budget_inv d" "integrity_ok d" and r: "r \<in> set (t_reservations d)" "re_state r = ''active''"
  obtains s d' where "release now (re_job_id r) reason d = (Inr s, d')" "integrity_ok d'"
    "t_reservations d' = upd_rows (\<lambda>q. re_id q = re_id r)
       (\<lambda>_. r\<lparr>re_state := ''released'', re_settled_at := Some now\<rparr>) (t_reservations d)"
proof -
  obtain b where b: "b \<in> set (t_budgets d)" "bu_id b = re_budget_id r" "bu_workspace_id b = re_workspace_id r"
    "budget_balanced d b" "budget_ok b"
    by (rule budget_member_of_reservation [OF inv r(1)])
  note amount = active_amount_le_reserved [OF inv r b(1,2)]
  have rok: "reservation_ok r" using integrity_ok_rowsD(2) [OF inv(2) r(1)] .
  let ?b = "b\<lparr>bu_reserved := bu_reserved b - re_amount r\<rparr>"
  let ?r = "r\<lparr>re_state := ''released'', re_settled_at := Some now\<rparr>"
  let ?l = "(ledger_row (re_workspace_id r) (Some (re_job_id r)) ''release'' (re_amount r))\<lparr>le_reason := Some (take 500 reason)\<rparr>"
  have bok: "budget_ok ?b" using b(5) amount by (auto simp: budget_ok_def numeric_18_6_def)
  obtain s where s: "snapshot ?b = Inr s" using snapshot_ok [OF bok] by blast
  have "column_cost (re_amount r) = Inr (re_amount r)"
    by (rule column_cost_18) (use rok in \<open>auto simp: reservation_ok_def\<close>)
  then have eq: "release now (re_job_id r) reason d = (Inr s, add_ledger [?l] (put_reservation ?r (put_budget ?b d)))"
    using budget_by_id_unique [OF inv(2) b(1)] b(2) r(2) s
    by (simp add: release_def active_reservation_def reservation_of_job_unique [OF inv(2) r(1)]
        budget_columns_valid [OF b(5)] Let_def)
  have refs: "re_workspace_id r \<in> wo_id ` set (t_workspaces d)" "re_job_id r \<in> jo_id ` set (t_jobs d)"
    using inv(2) refers_member [OF _ r(1)] by (auto simp: integrity_ok_def refs_ok_def)
  have "integrity_ok (add_ledger [?l] (put_reservation ?r (put_budget ?b d)))"
  proof (intro integrity_add_ledger integrity_put_reservation [where r = r] integrity_put_budget [where b = b])
    show "list_all ledger_entry_ok [?l]"
      using rok by (simp add: ledger_entry_ok_def reservation_ok_def ledger_row_def)
    show "refers le_workspace_id wo_id [?l] (t_workspaces (put_reservation ?r (put_budget ?b d)))"
      using refs by (simp add: refers_def put_budget_def put_reservation_def)
    show "refers_opt le_job_id jo_id [?l] (t_jobs (put_reservation ?r (put_budget ?b d)))"
      using refs by (simp add: refers_opt_def)
  qed (use inv b bok rok r in \<open>auto simp: reservation_ok_def\<close>)
  with eq show ?thesis by (rule that) (simp add: put_reservation_def put_budget_def)
qed


text \<open>The two outcomes of the decision.\<close>

lemma reserve_granted:
  assumes "integrity_ok d" "b \<in> set (t_budgets d)" "normalized_cost amount = Inr cost"
    and fits: "bu_spent b + bu_reserved b + cost \<le> bu_hard_limit b"
  shows "\<exists>r d'. reserve i (bu_workspace_id b) j amount d = (Inr r, d') \<and> re_amount r = cost \<and> re_state r = ''active''
    \<and> budget_by_id (bu_id b) d' = Some (b\<lparr>bu_reserved := bu_reserved b + cost\<rparr>)
    \<and> t_ledger d' = t_ledger d @ [ledger_row (bu_workspace_id b) (Some j) ''reservation'' cost]"
proof -
  have "ok_res (fst (reserve i (bu_workspace_id b) j amount d))"
    using reserve_decision [OF assms(1-3)] fits by simp
  then obtain r d' where run: "reserve i (bu_workspace_id b) j amount d = (Inr r, d')"
    by (cases "reserve i (bu_workspace_id b) j amount d") (auto simp: ok_res_def split: sum.splits)
  then obtain c q where r: "normalized_cost amount = Inr c" "q \<in> set (t_budgets d)" "bu_workspace_id q = bu_workspace_id b"
    "r = \<lparr>re_id = i, re_workspace_id = bu_workspace_id b, re_budget_id = bu_id q, re_job_id = j, re_amount = c,
          re_settled_amount = 0, re_state = ''active'', re_settled_at = None\<rparr>"
    "d' = add_ledger [ledger_row (bu_workspace_id b) (Some j) ''reservation'' c]
       ((put_budget (q\<lparr>bu_reserved := bu_reserved q + c\<rparr>) d)\<lparr>t_reservations := t_reservations d @ [r]\<rparr>)"
    by (rule reserve_Inr)
  have qb: "q = b" using r(2,3) assms(2) budget_keys(2) [OF assms(1)] by (auto dest: distinct_on_eq)
  have "find (\<lambda>x. bu_id x = bu_id b) (t_budgets (put_budget (b\<lparr>bu_reserved := bu_reserved b + c\<rparr>) d))
      = Some (b\<lparr>bu_reserved := bu_reserved b + c\<rparr>)"
    unfolding put_budget_def
    using find_put_row [OF budget_keys(1) [OF assms(1)] assms(2), of "b\<lparr>bu_reserved := bu_reserved b + c\<rparr>"] by simp
  moreover have "c = cost" using r(1) assms(3) by simp
  ultimately show ?thesis using run r(4,5) qb by (auto simp: budget_by_id_def add_ledger_def put_budget_def)
qed

lemma reserve_refused:
  assumes "integrity_ok d" "b \<in> set (t_budgets d)" "normalized_cost amount = Inr cost"
    and "bu_hard_limit b < bu_spent b + bu_reserved b + cost"
  shows "\<exists>e. reserve i (bu_workspace_id b) j amount d = (Inl e, d)"
proof -
  have "\<not> ok_res (fst (reserve i (bu_workspace_id b) j amount d))"
    using reserve_decision [OF assms(1-3)] assms(4) by simp
  then obtain e d' where run: "reserve i (bu_workspace_id b) j amount d = (Inl e, d')"
    by (cases "reserve i (bu_workspace_id b) j amount d") (auto simp: ok_res_def split: sum.splits)
  then show ?thesis using reserve_error_unchanged [OF run] by auto
qed

end
