(* ===== verification/Jobs.thy ===== *)
theory Jobs
  imports Budgets Discovery
begin

text \<open>
  The job state machine (src/src/domain/jobs.py), the service that creates jobs
  (src/src/application/jobs.py) and the worker that takes their identifiers from the queue
  (src/src/workers/broker.py, src/src/workers/jobs.py). The service is built from a budget
  service and a publisher: its \<open>reserve\<close> is an argument of the model, and publishing is
  registering the identifier as a hook that runs when the session commits.
\<close>

section \<open>States\<close>

datatype job_state = QUEUED | VALIDATING | RUNNING | COMPLETED | PARTIAL | CANCELLED | FAILED

fun job_state_value :: "job_state \<Rightarrow> string" where
  "job_state_value QUEUED = ''queued''"
| "job_state_value VALIDATING = ''validating''"
| "job_state_value RUNNING = ''running''"
| "job_state_value COMPLETED = ''completed''"
| "job_state_value PARTIAL = ''partial''"
| "job_state_value CANCELLED = ''cancelled''"
| "job_state_value FAILED = ''failed''"

definition job_states :: "job_state list" where
  "job_states = [QUEUED, VALIDATING, RUNNING, COMPLETED, PARTIAL, CANCELLED, FAILED]"

definition job_state_of_text :: "string \<Rightarrow> job_state res" where
  "job_state_of_text s =
    (case find (\<lambda>x. job_state_value x = s) job_states of
       None \<Rightarrow> Inl (ValueError (s @ '' is not a valid JobState'')) | Some x \<Rightarrow> Inr x)"

definition terminal_job_states :: "job_state list" where
  "terminal_job_states = [COMPLETED, PARTIAL, CANCELLED, FAILED]"

fun allowed_job_transitions :: "job_state \<Rightarrow> job_state list" where
  "allowed_job_transitions QUEUED = [VALIDATING, CANCELLED]"
| "allowed_job_transitions VALIDATING = [RUNNING, CANCELLED, FAILED]"
| "allowed_job_transitions RUNNING = [COMPLETED, PARTIAL, CANCELLED, FAILED]"
| "allowed_job_transitions COMPLETED = []"
| "allowed_job_transitions PARTIAL = []"
| "allowed_job_transitions CANCELLED = []"
| "allowed_job_transitions FAILED = []"

text \<open>\<open>JobState\<close> is a \<open>str\<close> enumeration: both arguments may be given as text.\<close>

definition ensure_job_transition :: "string \<Rightarrow> string \<Rightarrow> unit res" where
  "ensure_job_transition current target =
    bind_res (job_state_of_text current) (\<lambda>source_state.
    bind_res (job_state_of_text target) (\<lambda>target_state.
      if target_state \<notin> set (allowed_job_transitions source_state)
      then Inl (InvalidJobTransition (job_state_value source_state @ ''->'' @ job_state_value target_state))
      else Inr ()))"

section \<open>The job service\<close>

record job_creation =
  jc_job :: job
  jc_created :: bool

definition job_by_id :: "uuid \<Rightarrow> db \<Rightarrow> job option" where
  "job_by_id i d = find (\<lambda>j. jo_id j = i) (t_jobs d)"

definition job_by_key :: "uuid \<Rightarrow> string \<Rightarrow> db \<Rightarrow> job option" where
  "job_by_key workspace_id key d =
    find (\<lambda>j. jo_workspace_id j = workspace_id \<and> jo_idempotency_key j = key) (t_jobs d)"

definition put_job :: "job \<Rightarrow> db \<Rightarrow> db" where
  "put_job x d = d\<lparr>t_jobs := upd_rows (\<lambda>j. jo_id j = jo_id x) (\<lambda>_. x) (t_jobs d)\<rparr>"

definition new_job :: "uuid \<Rightarrow> uuid \<Rightarrow> uuid \<Rightarrow> string \<Rightarrow> pyval \<Rightarrow> int \<Rightarrow> string \<Rightarrow> job" where
  "new_job job_id workspace_id user_id kind parameters cost key =
    \<lparr>jo_id = job_id, jo_workspace_id = workspace_id, jo_created_by = user_id, jo_kind = take 80 kind,
     jo_state = ''queued'', jo_idempotency_key = key, jo_parameters = parameters,
     jo_estimated_cost = cost, jo_result_ref = None, jo_error_code = None, jo_started_at = None,
     jo_finished_at = None\<rparr>"

text \<open>\<open>event.listen(session, "after_commit", publish, once=True)\<close>\<close>

definition publish_after_commit :: "uuid \<Rightarrow> dbsession \<Rightarrow> dbsession" where
  "publish_after_commit job_id s = s\<lparr>hooks := hooks s @ [job_id]\<rparr>"

definition create ::
  "(uuid \<Rightarrow> uuid \<Rightarrow> cost_value \<Rightarrow> db \<Rightarrow> 'r res \<times> db) \<Rightarrow> uuid \<Rightarrow> uuid \<Rightarrow> uuid \<Rightarrow> string \<Rightarrow> pyval \<Rightarrow>
   cost_value \<Rightarrow> string \<Rightarrow> dbsession \<Rightarrow> job_creation res \<times> dbsession" where
  "create budgets_reserve new_id workspace_id user_id kind parameters estimated_cost idempotency_key s =
    (let key = py_strip idempotency_key in
     if key = '''' \<or> 128 < length key then (Inl (ValueError ''Chiave di idempotenza non valida.''), s)
     else case ensure_provider_payload_absent parameters of
       Inl e \<Rightarrow> (Inl e, s)
     | Inr _ \<Rightarrow>
        (case job_by_key workspace_id key (work s) of
           Some existing \<Rightarrow> (Inr \<lparr>jc_job = existing, jc_created = False\<rparr>, s)
         | None \<Rightarrow>
            (case normalized_cost estimated_cost of
               Inl e \<Rightarrow> (Inl e, s)
             | Inr cost \<Rightarrow>
                let job = new_job new_id workspace_id user_id kind parameters cost key;
                    d1 = (work s)\<lparr>t_jobs := t_jobs (work s) @ [job]\<rparr>
                in case budgets_reserve workspace_id new_id (CDec (DFin cost (- 6))) d1 of
                     (Inl e, d2) \<Rightarrow> (Inl e, s\<lparr>work := d2\<rparr>)
                   | (Inr _, d2) \<Rightarrow>
                      (Inr \<lparr>jc_job = job, jc_created = True\<rparr>,
                       (publish_after_commit new_id s)
                         \<lparr>work := append_audit_event ''job.created'' (Some workspace_id) (Some user_id)
                            (Some ''job'') (Some (uuid_text new_id)) [] None d2\<rparr>))))"

text \<open>\<open>error_code[:100] if error_code else None\<close>\<close>

definition transition :: "uuid \<Rightarrow> job_state \<Rightarrow> string option \<Rightarrow> db \<Rightarrow> job res \<times> db" where
  "transition job_id target error_code d =
    (case job_by_id job_id d of
       None \<Rightarrow> (Inl (KeyError (uuid_text job_id)), d)
     | Some j \<Rightarrow>
        (case ensure_job_transition (jo_state j) (job_state_value target) of
           Inl e \<Rightarrow> (Inl e, d)
         | Inr _ \<Rightarrow>
            let j' = j\<lparr>jo_state := job_state_value target, jo_error_code := clip_or_none 100 error_code\<rparr>
            in (Inr j', put_job j' d)))"

section \<open>The worker\<close>

definition validate_persistent_job_parameters :: "pyval \<Rightarrow> unit res" where
  "validate_persistent_job_parameters parameters = ensure_provider_payload_absent parameters"

text \<open>
  The two failing branches of \<open>process_job\<close> differ in their reason only. The job passes
  through \<open>validating\<close>; both transitions are checked before the state is written.
\<close>

definition fail_job ::
  "(uuid \<Rightarrow> string \<Rightarrow> db \<Rightarrow> 's res \<times> db) \<Rightarrow> uuid \<Rightarrow> job \<Rightarrow> string \<Rightarrow> db \<Rightarrow> unit res \<times> db" where
  "fail_job budgets_release workspace_id job reason d =
    (case ensure_job_transition (jo_state job) ''validating'' of
       Inl e \<Rightarrow> (Inl e, d)
     | Inr _ \<Rightarrow>
        let d1 = put_job (job\<lparr>jo_state := ''validating''\<rparr>) d in
        (case ensure_job_transition ''validating'' ''failed'' of
           Inl e \<Rightarrow> (Inl e, d1)
         | Inr _ \<Rightarrow>
            let d2 = put_job (job\<lparr>jo_state := ''failed'', jo_error_code := Some reason\<rparr>) d1 in
            (case budgets_release (jo_id job) reason d2 of
               (Inl e, d3) \<Rightarrow> (Inl e, d3)
             | (Inr _, d3) \<Rightarrow>
                (Inr (), append_audit_event ''job.failed'' (Some workspace_id) None (Some ''job'')
                   (Some (uuid_text (jo_id job))) [(''reason'', AVText reason)] None d3))))"

definition process_queued ::
  "(uuid \<Rightarrow> string \<Rightarrow> db \<Rightarrow> 's res \<times> db) \<Rightarrow> uuid \<Rightarrow> db \<Rightarrow> unit res \<times> db" where
  "process_queued budgets_release job_id d =
    (case resolve_job_workspace d job_id of
       None \<Rightarrow> (Inr (), d)
     | Some workspace_id \<Rightarrow>
        (case job_by_id job_id d of
           None \<Rightarrow> (Inr (), d)
         | Some job \<Rightarrow>
            if jo_state job \<noteq> ''queued'' then (Inr (), d)
            else case validate_persistent_job_parameters (jo_parameters job) of
              Inl (ProviderPayloadError _) \<Rightarrow>
                fail_job budgets_release workspace_id job ''provider_payload_not_allowed'' d
            | Inl e \<Rightarrow> (Inl e, d)
            | Inr _ \<Rightarrow> fail_job budgets_release workspace_id job ''pipeline_not_configured'' d))"

text \<open>
  The actor: the message is the text of an identifier, and the database address comes from
  the environment.
\<close>

definition process_job :: "int \<Rightarrow> string option \<Rightarrow> string \<Rightarrow> store \<Rightarrow> unit res \<times> store" where
  "process_job now database_url job_id st =
    (case uuid_parse job_id of
       Inl e \<Rightarrow> (Inl e, st)
     | Inr parsed_id \<Rightarrow>
        (case database_url of
           None \<Rightarrow> (Inl (RuntimeError ''LEADHUNTER_DATABASE_URL non configurato nel worker.''), st)
         | Some url \<Rightarrow>
            if url = '''' then (Inl (RuntimeError ''LEADHUNTER_DATABASE_URL non configurato nel worker.''), st)
            else run_session (on_db (process_queued (release now) parsed_id)) st))"

section \<open>The state machine\<close>

lemma job_state_of_text_value [simp]: "job_state_of_text (job_state_value x) = Inr x"
  by (cases x) (simp_all add: job_state_of_text_def job_states_def)

lemma job_state_of_text_Inr: "job_state_of_text s = Inr x \<longleftrightarrow> s = job_state_value x"
proof
  show "job_state_of_text s = Inr x \<Longrightarrow> s = job_state_value x"
    by (auto simp: job_state_of_text_def dest: find_SomeD split: option.splits)
qed simp

lemma ensure_job_transition_iff:
  "ensure_job_transition (job_state_value x) (job_state_value y) = Inr () \<longleftrightarrow>
   y \<in> set (allowed_job_transitions x)"
  by (simp add: ensure_job_transition_def)

lemma ensure_job_transition_error:
  "ensure_job_transition a b = Inl e \<Longrightarrow> is_ValueError e"
  by (auto simp: ensure_job_transition_def bind_res_Inl_iff job_state_of_text_def
      split: option.splits if_splits)

text \<open>Steps left to the end: no run of the machine is longer than three transitions.\<close>

fun steps_left :: "job_state \<Rightarrow> nat" where
  "steps_left QUEUED = 3"
| "steps_left VALIDATING = 2"
| "steps_left RUNNING = 1"
| "steps_left _ = 0"

inductive job_run :: "job_state \<Rightarrow> job_state list \<Rightarrow> job_state \<Rightarrow> bool" where
  stop: "job_run x [] x"
| move: "ensure_job_transition (job_state_value x) (job_state_value y) = Inr () \<Longrightarrow> job_run y ys z \<Longrightarrow>
    job_run x (y # ys) z"

inductive_cases job_run_ConsE: "job_run x (y # ys) z"

lemma transition_progress: "y \<in> set (allowed_job_transitions x) \<Longrightarrow> steps_left y < steps_left x"
  by (cases x) auto

lemma job_run_length: "job_run x ys z \<Longrightarrow> length ys + steps_left z \<le> steps_left x"
  by (induction rule: job_run.induct) (auto simp: ensure_job_transition_iff dest: transition_progress)

lemma terminal_iff_no_transition: "x \<in> set terminal_job_states \<longleftrightarrow> allowed_job_transitions x = []"
  by (cases x) (auto simp: terminal_job_states_def)

lemma job_run_terminal: "job_run x ys z \<Longrightarrow> x \<in> set terminal_job_states \<Longrightarrow> ys = [] \<and> z = x"
  by (induction rule: job_run.induct)
    (auto simp: ensure_job_transition_iff terminal_iff_no_transition)

text \<open>From every state that is not terminal there is a way to end.\<close>

lemma can_cancel: "x \<notin> set terminal_job_states \<longleftrightarrow> CANCELLED \<in> set (allowed_job_transitions x)"
  by (cases x) (auto simp: terminal_job_states_def)

section \<open>Creating a job leaves committing to the session\<close>

lemma create_frame:
  "stable (snd (create f i ws u k ps c key s)) = stable s \<and> sent (snd (create f i ws u k ps c key s)) = sent s"
  by (auto simp: create_def Let_def publish_after_commit_def split: sum.splits option.splits prod.splits)

interpretation creating: unit_of_work "create f i ws u k ps c key" for f i ws u k ps c key
  by unfold_locales (simp_all add: create_frame)

text \<open>The successful outcomes: a known key finds its job, a new key adds one job.\<close>

lemma create_Inr:
  assumes "create f i ws u k ps c key s = (Inr x, s')"
  obtains (old) j where "job_by_key ws (py_strip key) (work s) = Some j"
      "x = \<lparr>jc_job = j, jc_created = False\<rparr>" "s' = s"
    | (new) cost r d2 where "job_by_key ws (py_strip key) (work s) = None"
      "normalized_cost c = Inr cost" "payload_free ps" "py_strip key \<noteq> ''''" "length (py_strip key) \<le> 128"
      "x = \<lparr>jc_job = new_job i ws u k ps cost (py_strip key), jc_created = True\<rparr>"
      "f ws i (CDec (DFin cost (- 6))) ((work s)\<lparr>t_jobs := t_jobs (work s) @ [jc_job x]\<rparr>) = (Inr r, d2)"
      "s' = s\<lparr>hooks := hooks s @ [i],
          work := append_audit_event ''job.created'' (Some ws) (Some u) (Some ''job'') (Some (uuid_text i)) [] None d2\<rparr>"
proof -
  have key: "py_strip key \<noteq> ''''" "length (py_strip key) \<le> 128" and ps: "payload_free ps"
    using assms by (auto simp: create_def Let_def simp flip: ensure_payload_free_iff split: if_splits sum.splits)
  then have ps': "ensure_provider_payload_absent ps = Inr ()" by (simp add: ensure_payload_free_iff)
  show ?thesis
  proof (cases "job_by_key ws (py_strip key) (work s)")
    case (Some j)
    with assms key ps' show ?thesis by (intro old) (auto simp: create_def Let_def)
  next
    case None
    with assms key ps' show ?thesis
      by (auto simp: create_def Let_def publish_after_commit_def split: sum.splits prod.splits
          intro!: new [OF None _ ps key])
  qed
qed

section \<open>What the job service and the worker need of the budgets\<close>

text \<open>
  \<open>held d j\<close> says that job \<open>j\<close> has an active reservation. The laws: a failed reservation
  changes nothing; a granted one holds the job, a release frees it, and neither touches the
  jobs; the books stay balanced; and what is held can always be released.
\<close>

locale reservation_books =
  fixes books :: "db \<Rightarrow> bool"
    and held :: "db \<Rightarrow> uuid \<Rightarrow> bool"
    and hold :: "uuid \<Rightarrow> uuid \<Rightarrow> cost_value \<Rightarrow> db \<Rightarrow> 'r res \<times> db"
    and free :: "uuid \<Rightarrow> string \<Rightarrow> db \<Rightarrow> 's res \<times> db"
  assumes books_jobs: "books (d\<lparr>t_jobs := js\<rparr>) = books d"
    and books_audit: "books (append_audit_event a w u tt ti ds c d) = books d"
    and held_jobs: "held (d\<lparr>t_jobs := js\<rparr>) = held d"
    and held_audit: "held (append_audit_event a w u tt ti ds c d) = held d"
    and held_job_exists: "integrity_ok d \<Longrightarrow> held d k \<Longrightarrow> k \<in> jo_id ` set (t_jobs d)"
    and hold_books: "books d \<Longrightarrow> integrity_ok d \<Longrightarrow> hold ws k amount (d\<lparr>t_jobs := js\<rparr>) = (Inr r, d') \<Longrightarrow> books d'"
    and hold_held: "hold ws k amount d = (Inr r, d') \<Longrightarrow> held d' = (held d)(k := True)"
    and hold_jobs: "hold ws k amount d = (Inr r, d') \<Longrightarrow> t_jobs d' = t_jobs d"
    and free_books: "books d \<Longrightarrow> integrity_ok d \<Longrightarrow> free k reason d = (Inr s, d') \<Longrightarrow> books d'"
    and free_held: "integrity_ok d \<Longrightarrow> free k reason d = (Inr s, d') \<Longrightarrow> held d' = (held d)(k := False)"
    and free_frame: "free k reason d = (Inr s, d') \<Longrightarrow>
      t_jobs d' = t_jobs d \<and> t_workspaces d' = t_workspaces d"
    and free_total: "books d \<Longrightarrow> integrity_ok d \<Longrightarrow> held d k \<Longrightarrow>
      \<exists>s d'. free k reason d = (Inr s, d') \<and> integrity_ok d'"

text \<open>
  In the deployed system jobs are created queued and the worker fails them; every queued job
  is backed by an active reservation, and no failed one is.
\<close>

definition job_backed :: "(uuid \<Rightarrow> bool) \<Rightarrow> job \<Rightarrow> bool" where
  "job_backed h j \<longleftrightarrow>
     (jo_state j = ''queued'' \<and> h (jo_id j)) \<or> (jo_state j = ''failed'' \<and> \<not> h (jo_id j))"

definition jobs_backed :: "(uuid \<Rightarrow> bool) \<Rightarrow> job list \<Rightarrow> bool" where
  "jobs_backed h js \<longleftrightarrow> list_all (job_backed h) js"

lemma job_by_id_Some: "job_by_id i d = Some j \<Longrightarrow> j \<in> set (t_jobs d) \<and> jo_id j = i"
  by (auto simp: job_by_id_def dest: find_SomeD)

lemma jobs_backed_put:
  assumes "distinct_on jo_id js" "j \<in> set js" "jobs_backed h js" "jo_id j' = jo_id j"
    "jo_state j' = ''failed''"
  shows "jobs_backed (h(jo_id j := False)) (upd_rows (\<lambda>x. jo_id x = jo_id j') (\<lambda>_. j') js)"
  using assms by (auto simp: jobs_backed_def list_all_iff set_upd_rows job_backed_def dest: distinct_on_eq)

lemma put_put_job: "jo_id a = jo_id b \<Longrightarrow> put_job a (put_job b d) = put_job a d"
  by (simp add: put_job_def upd_rows_def comp_def if_distrib cong: if_cong)

lemma put_job_fields [simp]:
  "t_jobs (put_job x d) = upd_rows (\<lambda>j. jo_id j = jo_id x) (\<lambda>_. x) (t_jobs d)"
  "t_workspaces (put_job x d) = t_workspaces d"
  "t_reservations (put_job x d) = t_reservations d" "t_budgets (put_job x d) = t_budgets d"
  by (simp_all add: put_job_def)

lemma integrity_put_job:
  assumes "integrity_ok d" "j \<in> set (t_jobs d)" "jo_id j' = jo_id j" "jo_workspace_id j' = jo_workspace_id j"
    "jo_created_by j' = jo_created_by j" "jo_idempotency_key j' = jo_idempotency_key j" "job_ok j'"
  shows "integrity_ok (put_job j' d)"
proof -
  have keys: "distinct_on jo_id (t_jobs d)" using assms(1) by (rule integrity_okD)
  have m: "map f (upd_rows (\<lambda>r. jo_id r = jo_id j') (\<lambda>_. j') (t_jobs d)) = map f (t_jobs d)"
    if "f j' = f j" for f :: "job \<Rightarrow> 'a"
    using keys assms(2,3) that by (rule map_put_row)
  have k: "(jo_workspace_id j', jo_idempotency_key j') = (jo_workspace_id j, jo_idempotency_key j)"
    using assms by simp
  note maps = m [of jo_id, OF assms(3)] m [of jo_workspace_id, OF assms(4)] m [of jo_created_by, OF assms(5)]
    m [of "\<lambda>r. (jo_workspace_id r, jo_idempotency_key r)", OF k]
  show ?thesis
    using assms(1) assms(7)
    by (simp add: integrity_ok_def rows_ok_def keys_ok_def refs_ok_def put_job_def list_all_put_row
        refers_target_map [OF maps(1)] refers_source_map(1) [OF maps(2)] refers_source_map(1) [OF maps(3)]
        distinct_on_map [OF maps(1)] distinct_on_map [OF maps(4)])
qed

context reservation_books
begin

lemma create_keeps:
  assumes "books (work s)" "integrity_ok (work s)" "jobs_backed (held (work s)) (t_jobs (work s))"
    and run: "create hold i ws u k ps c key s = (Inr x, s')" and ok: "integrity_ok (work s')"
  shows "books (work s') \<and> jobs_backed (held (work s')) (t_jobs (work s'))"
  using run
proof (cases rule: create_Inr)
  case (old j)
  then show ?thesis using assms by simp
next
  case (new cost r d2)
  have jobs: "t_jobs d2 = t_jobs (work s) @ [jc_job x]" using hold_jobs [OF new(7)] by simp
  have held: "held d2 = (held (work s))(i := True)" using hold_held [OF new(7)] by (simp add: held_jobs)
  have "distinct_on jo_id (t_jobs (work s'))" using ok by (rule integrity_okD)
  then have fresh: "\<And>j. j \<in> set (t_jobs (work s)) \<Longrightarrow> jo_id j \<noteq> i"
    using new(6) jobs by (auto simp: new(8) new_job_def)
  then have "jobs_backed ((held (work s))(i := True)) (t_jobs (work s) @ [jc_job x])"
    using assms(3) new(6) by (auto simp: jobs_backed_def list_all_iff job_backed_def new_job_def)
  then show ?thesis
    using hold_books [OF assms(1,2) new(7)] by (simp add: new(8) books_audit held_audit jobs held)
qed

lemma fail_job_total:
  assumes "books d" "integrity_ok d" "jobs_backed (held d) (t_jobs d)"
    and j: "j \<in> set (t_jobs d)" "jo_state j = ''queued''" and reason: "length reason \<le> 100"
  shows "\<exists>d'. fail_job free (jo_workspace_id j) j reason d = (Inr (), d') \<and> integrity_ok d' \<and> books d'
    \<and> jobs_backed (held d') (t_jobs d') \<and> \<not> held d' (jo_id j)
    \<and> t_jobs d' = upd_rows (\<lambda>x. jo_id x = jo_id j) (\<lambda>_. j\<lparr>jo_state := ''failed'', jo_error_code := Some reason\<rparr>) (t_jobs d)"
proof -
  let ?j = "j\<lparr>jo_state := ''failed'', jo_error_code := Some reason\<rparr>"
  have held: "held d (jo_id j)"
    using assms(3) j by (auto simp: jobs_backed_def list_all_iff job_backed_def)
  have jok: "job_ok ?j" using integrity_ok_rowsD(3) [OF assms(2) j(1)] reason by (simp add: job_ok_def)
  have int2: "integrity_ok (put_job ?j d)"
    by (rule integrity_put_job [OF assms(2) j(1)]) (simp_all add: jok)
  have books2: "books (put_job ?j d)" and held2: "held (put_job ?j d) = held d"
    using assms(1) by (simp_all add: put_job_def books_jobs held_jobs)
  obtain s d3 where free: "free (jo_id j) reason (put_job ?j d) = (Inr s, d3)" and int3: "integrity_ok d3"
    using free_total [OF books2 int2, of "jo_id j" reason] held held2 by auto
  let ?d = "append_audit_event ''job.failed'' (Some (jo_workspace_id j)) None (Some ''job'')
    (Some (uuid_text (jo_id j))) [(''reason'', AVText reason)] None d3"
  have run: "fail_job free (jo_workspace_id j) j reason d = (Inr (), ?d)"
    using j(2) free by (simp add: fail_job_def put_put_job Let_def ensure_job_transition_def
        job_state_of_text_def job_states_def)
  have "jo_workspace_id j \<in> wo_id ` set (t_workspaces d)"
    using assms(2) refers_member [OF _ j(1)] by (auto simp: integrity_ok_def refs_ok_def)
  then have int: "integrity_ok ?d"
    using free_frame [OF free] by (intro integrity_audit int3) auto
  have "held d3 = (held d)(jo_id j := False)" using free_held [OF int2 free] held2 by simp
  moreover have "jobs_backed ((held d)(jo_id j := False)) (t_jobs (put_job ?j d))"
    using jobs_backed_put [OF integrity_okD(5) [OF assms(2)] j(1) assms(3), of ?j] by simp
  moreover have "books d3" using free_books [OF books2 int2 free] .
  ultimately have "integrity_ok ?d \<and> books ?d \<and> jobs_backed (held ?d) (t_jobs ?d) \<and> \<not> held ?d (jo_id j)
    \<and> t_jobs ?d = upd_rows (\<lambda>x. jo_id x = jo_id j) (\<lambda>_. ?j) (t_jobs d)"
    using int free_frame [OF free] by (simp add: books_audit held_audit)
  with run show ?thesis by blast
qed

text \<open>A queued job is failed and its reservation given back; anything else is left as it is.\<close>

lemma process_queued_total:
  assumes "books d" "integrity_ok d" "jobs_backed (held d) (t_jobs d)"
  shows "\<exists>d'. process_queued free i d = (Inr (), d') \<and> integrity_ok d' \<and> books d'
    \<and> jobs_backed (held d') (t_jobs d')
    \<and> (\<forall>j \<in> set (t_jobs d'). jo_id j = i \<longrightarrow> jo_state j = ''failed'')
    \<and> (\<forall>j \<in> set (t_jobs d). jo_id j \<noteq> i \<longrightarrow> j \<in> set (t_jobs d'))
    \<and> map jo_id (t_jobs d') = map jo_id (t_jobs d)
    \<and> (\<forall>j \<in> set (t_jobs d'). jo_state j = ''queued'' \<longrightarrow> j \<in> set (t_jobs d))"
proof (cases "job_by_id i d")
  case None
  then have "\<forall>j \<in> set (t_jobs d). jo_id j \<noteq> i" by (auto simp: job_by_id_def find_eq_None_iff)
  then show ?thesis
    using None assms by (auto simp: process_queued_def resolve_job_workspace_def job_by_id_def)
next
  case (Some j)
  note j = job_by_id_Some [OF Some]
  then have one: "\<And>x. x \<in> set (t_jobs d) \<Longrightarrow> jo_id x = i \<Longrightarrow> x = j"
    using integrity_okD(5) [OF assms(2)] by (auto dest: distinct_on_eq)
  have ws: "resolve_job_workspace d i = Some (jo_workspace_id j)"
    using Some by (simp add: resolve_job_workspace_def job_by_id_def)
  show ?thesis
  proof (cases "jo_state j = ''queued''")
    case False
    then have "jo_state j = ''failed''"
      using assms(3) j by (auto simp: jobs_backed_def list_all_iff job_backed_def)
    then show ?thesis using False Some ws one assms by (auto simp: process_queued_def)
  next
    case True
    define reason where "reason = (if payload_free (jo_parameters j) then ''pipeline_not_configured''
      else ''provider_payload_not_allowed'')"
    have "process_queued free i d = fail_job free (jo_workspace_id j) j reason d"
      using Some ws True ensure_payload_error [of "jo_parameters j"]
      by (cases "ensure_provider_payload_absent (jo_parameters j)")
        (auto simp: process_queued_def validate_persistent_job_parameters_def reason_def
          simp flip: ensure_payload_free_iff)
    moreover have "length reason \<le> 100" by (simp add: reason_def)
    ultimately obtain d' where run: "process_queued free i d = (Inr (), d')" "integrity_ok d'" "books d'"
        "jobs_backed (held d') (t_jobs d')"
      and jobs: "t_jobs d' = upd_rows (\<lambda>x. jo_id x = jo_id j)
        (\<lambda>_. j\<lparr>jo_state := ''failed'', jo_error_code := Some reason\<rparr>) (t_jobs d)"
      using fail_job_total [OF assms, of j reason] j True by auto
    have "map jo_id (t_jobs d') = map jo_id (t_jobs d)"
      using map_put_row [OF integrity_okD(5) [OF assms(2)] conjunct1 [OF j], of "j\<lparr>jo_state := ''failed'', jo_error_code := Some reason\<rparr>" jo_id]
      by (simp add: jobs)
    then show ?thesis using run j by (auto simp: jobs set_upd_rows)
  qed
qed

end

section \<open>The budgets provide it\<close>

definition has_active_reservation :: "db \<Rightarrow> uuid \<Rightarrow> bool" where
  "has_active_reservation d k \<longleftrightarrow> list_ex (\<lambda>r. re_job_id r = k \<and> re_state r = ''active'') (t_reservations d)"

lemma reserve_reservations:
  "reserve i ws j amount d = (Inr r, d') \<Longrightarrow>
   t_reservations d' = t_reservations d @ [r] \<and> re_job_id r = j \<and> re_state r = ''active'' \<and> t_jobs d' = t_jobs d"
  by (erule reserve_Inr) (simp add: put_budget_def)

lemma release_reservations:
  assumes "integrity_ok d" "release now k reason d = (Inr s, d')"
  shows "has_active_reservation d' = (has_active_reservation d)(k := False)"
  using assms(2)
proof (cases rule: release_Inr)
  case (1 r b b' r')
  have "\<And>q. q \<in> set (t_reservations d) \<Longrightarrow> re_job_id q = k \<longleftrightarrow> re_id q = re_id r"
    using 1(1,2) integrity_okD(8,9) [OF assms(1)] by (metis distinct_on_eq)
  then show ?thesis
    by (auto simp: fun_eq_iff has_active_reservation_def list_ex_iff 1(9) put_reservation_def set_upd_rows
        1(7) split: if_splits)
qed

lemma release_frame:
  "release now k reason d = (Inr s, d') \<Longrightarrow> t_jobs d' = t_jobs d \<and> t_workspaces d' = t_workspaces d"
  by (erule release_Inr) (simp add: put_budget_def put_reservation_def add_ledger_def)

lemma held_release_total:
  assumes "budget_inv d" "integrity_ok d" "has_active_reservation d k"
  shows "\<exists>s d'. release now k reason d = (Inr s, d') \<and> integrity_ok d'"
proof -
  obtain r where r: "r \<in> set (t_reservations d)" "re_job_id r = k" "re_state r = ''active''"
    using assms(3) by (auto simp: has_active_reservation_def list_ex_iff)
  show ?thesis
    by (rule release_succeeds [OF assms(1,2) r(1,3), of now reason]) (use r(2) in blast)
qed

interpretation books: reservation_books budget_inv has_active_reservation "reserve i" "release now" for i now
proof (unfold_locales, goal_cases)
  case (1 d js)
  show ?case by (rule budget_inv_cong) simp_all
next
  case (2 a w u tt ti ds c d)
  show ?case by (rule budget_inv_cong) simp_all
next
  case (5 d k)
  then obtain r where "r \<in> set (t_reservations d)" "re_job_id r = k"
    by (auto simp: has_active_reservation_def list_ex_iff)
  with integrity_ok_refsD(1) [OF 5(1)] show ?case by force
next
  case (6 d ws k amount js r d')
  have "budget_inv (d\<lparr>t_jobs := js\<rparr>) = budget_inv d" by (rule budget_inv_cong) simp_all
  with 6 show ?case by (intro reserve_inv [OF _ _ _ 6(3)]) (auto dest: integrity_okD)
next
  case (7 ws k amount d r d')
  then show ?case
    by (auto simp: fun_eq_iff has_active_reservation_def dest!: reserve_reservations)
next
  case (9 d k reason s d')
  then show ?case by (rule release_inv)
next
  case (10 d k reason s d')
  then show ?case by (rule release_reservations)
next
  case (12 d k reason)
  then show ?case by (rule held_release_total)
qed (auto simp: has_active_reservation_def fun_eq_iff dest: reserve_reservations release_frame)


lemma create_key_ok:
  "create f i ws u k ps c key s = (Inr x, s') \<Longrightarrow> py_strip key \<noteq> '''' \<and> length (py_strip key) \<le> 128"
  by (auto simp: create_def Let_def split: if_splits)

end
