(* ===== verification/Job_Routes.thy ===== *)
theory Job_Routes
  imports Http Jobs
begin

text \<open>
  The routes of jobs and budgets (src/src/web/routes/jobs.py, src/src/web/routes/usage.py) and
  the system they form with the worker: requests change the database, commits queue
  identifiers, and the worker consumes them with at-least-once delivery.
\<close>

section \<open>Jobs\<close>

text \<open>
  \<open>AuthorizationDenied\<close> becomes 403 and \<open>BudgetExceeded\<close> 409; the \<open>ValueError\<close>s of the
  service are not caught.
\<close>

fun create_job_error :: "error \<Rightarrow> error" where
  "create_job_error (AuthorizationDenied m) = HTTPException 403 m"
| "create_job_error (BudgetExceeded m) = HTTPException 409 m"
| "create_job_error e = e"

definition create_job_body ::
  "limiter \<Rightarrow> uuid \<Rightarrow> uuid \<Rightarrow> auth_context \<Rightarrow> uuid \<Rightarrow> job_create_request \<Rightarrow> string \<Rightarrow>
   dbsession \<Rightarrow> job_creation res \<times> dbsession" where
  "create_job_body limiter job_id reservation_id context workspace body key s =
    (case require_permission (ac_user_id context) workspace START_JOB (ac_mfa_verified context) (work s) of
       Inl e \<Rightarrow> (Inl e, s)
     | Inr _ \<Rightarrow>
        (case limited limiter ''job-create'' (uuid_text workspace @ '':'' @ uuid_text (ac_user_id context)) 20 60 of
           Inl e \<Rightarrow> (Inl e, s)
         | Inr _ \<Rightarrow>
            create (reserve reservation_id) job_id workspace (ac_user_id context) (jr_kind body)
              (VDict (jr_parameters body)) (CDec (jr_estimated_cost body)) key s))"

definition create_job_route ::
  "limiter \<Rightarrow> uuid \<Rightarrow> uuid \<Rightarrow> auth_context \<Rightarrow> string \<Rightarrow> job_create_request \<Rightarrow> string \<Rightarrow>
   dbsession \<Rightarrow> job_response res \<times> dbsession" where
  "create_job_route limiter job_id reservation_id context workspace_id body idempotency_key s =
    (case workspace_uuid workspace_id of
       Inl e \<Rightarrow> (Inl e, s)
     | Inr workspace \<Rightarrow>
        (case create_job_body limiter job_id reservation_id context workspace body idempotency_key s of
           (Inl e, s') \<Rightarrow> (Inl (create_job_error e), s')
         | (Inr r, s') \<Rightarrow>
            (Inr \<lparr>jp_id = jo_id (jc_job r), jp_state = jo_state (jc_job r), jp_created = Some (jc_created r)\<rparr>, s')))"

definition get_job_route :: "auth_context \<Rightarrow> string \<Rightarrow> string \<Rightarrow> db \<Rightarrow> job_response res" where
  "get_job_route context workspace_id job_id d =
    bind_res (workspace_uuid workspace_id) (\<lambda>workspace.
    bind_res (workspace_uuid job_id) (\<lambda>job_uuid.
    bind_res (denied_403 (require_permission (ac_user_id context) workspace VIEW_RESULTS
                (ac_mfa_verified context) d)) (\<lambda>_.
      case find (\<lambda>j. jo_id j = job_uuid \<and> jo_workspace_id j = workspace) (t_jobs d) of
        None \<Rightarrow> Inl (HTTPException 404 ''Job non trovato.'')
      | Some j \<Rightarrow> Inr \<lparr>jp_id = jo_id j, jp_state = jo_state j, jp_created = None\<rparr>)))"

section \<open>Budgets\<close>

definition get_budget_route :: "auth_context \<Rightarrow> string \<Rightarrow> db \<Rightarrow> budget_snapshot res" where
  "get_budget_route context workspace_id d =
    bind_res (workspace_uuid workspace_id) (\<lambda>workspace.
    bind_res (denied_403 (require_permission (ac_user_id context) workspace VIEW_RESULTS
                (ac_mfa_verified context) d)) (\<lambda>_.
      case budget_of_workspace workspace d of
        None \<Rightarrow> Inl (HTTPException 404 ''Budget non trovato.'')
      | Some b \<Rightarrow>
          bind_res (column_cost (bu_hard_limit b)) (\<lambda>limit.
          bind_res (column_cost (bu_spent b)) (\<lambda>spent.
          bind_res (column_cost (bu_reserved b)) (\<lambda>reserved.
            Inr \<lparr>sn_hard_limit = limit, sn_spent = spent, sn_reserved = reserved,
                 sn_warning = over_threshold limit spent reserved (bu_warning_threshold b)\<rparr>)))))"

definition override_budget_route ::
  "auth_context \<Rightarrow> string \<Rightarrow> budget_override_request \<Rightarrow> db \<Rightarrow> budget_snapshot res \<times> db" where
  "override_budget_route context workspace_id body d =
    (case workspace_uuid workspace_id of
       Inl e \<Rightarrow> (Inl e, d)
     | Inr workspace \<Rightarrow>
        (case denied_403 (require_permission (ac_user_id context) workspace MANAGE_BUDGET
                (ac_mfa_verified context) d) of
           Inl e \<Rightarrow> (Inl e, d)
         | Inr _ \<Rightarrow> override_limit workspace (ac_user_id context) (CDec (br_hard_limit body)) (br_reason body) d))"

section \<open>The running system\<close>

text \<open>
  What holds at every moment: the tables are consistent, the books balance, queued jobs and
  active reservations correspond, every message names a job, and every queued job still has
  its message.
\<close>

definition queue_ok :: "store \<Rightarrow> bool" where
  "queue_ok st \<longleftrightarrow>
     set (st_job_queue st) \<subseteq> (\<lambda>j. uuid_text (jo_id j)) ` set (t_jobs (st_db st))
     \<and> (\<forall>j \<in> set (t_jobs (st_db st)). jo_state j = ''queued'' \<longrightarrow> uuid_text (jo_id j) \<in> set (st_job_queue st))"

definition system_inv :: "store \<Rightarrow> bool" where
  "system_inv st \<longleftrightarrow>
     integrity_ok (st_db st) \<and> budget_inv (st_db st)
     \<and> jobs_backed (has_active_reservation (st_db st)) (t_jobs (st_db st)) \<and> queue_ok st"

section \<open>The invariant\<close>

lemma create_job_route_frame:
  "stable (snd (create_job_route l i ri c wt b k s)) = stable s \<and> sent (snd (create_job_route l i ri c wt b k s)) = sent s"
proof -
  have "stable (snd (create_job_body l i ri c ws b k s)) = stable s \<and> sent (snd (create_job_body l i ri c ws b k s)) = sent s" for ws
    by (simp add: create_job_body_def create_frame split: sum.split)
  then show ?thesis
    by (simp add: create_job_route_def split: sum.split prod.split) (metis snd_conv)
qed

interpretation job_requests: unit_of_work "create_job_route l i ri c wt b k" for l i ri c wt b k
  by unfold_locales (simp_all add: create_job_route_frame)

text \<open>What an accepted request did: the caller may start jobs, and the service succeeded.\<close>

lemma create_job_route_Inr:
  assumes "create_job_route l i ri c wt b k s = (Inr r, s')"
  obtains ws x role where "uuid_parse wt = Inr ws"
    "require_permission (ac_user_id c) ws START_JOB (ac_mfa_verified c) (work s) = Inr role"
    "create (reserve ri) i ws (ac_user_id c) (jr_kind b) (VDict (jr_parameters b)) (CDec (jr_estimated_cost b)) k s
      = (Inr x, s')"
    "r = \<lparr>jp_id = jo_id (jc_job x), jp_state = jo_state (jc_job x), jp_created = Some (jc_created x)\<rparr>"
  using assms
  by (auto simp: create_job_route_def create_job_body_def workspace_uuid_def split: sum.splits prod.splits)

lemma override_limit_frame:
  "override_limit ws u v reason d = (Inr s, d') \<Longrightarrow> t_jobs d' = t_jobs d \<and> t_reservations d' = t_reservations d"
  by (erule override_limit_Inr) simp

lemma override_budget_route_Inr:
  assumes "override_budget_route c wt b d = (Inr s, d')"
  obtains ws role where "uuid_parse wt = Inr ws"
    "require_permission (ac_user_id c) ws MANAGE_BUDGET (ac_mfa_verified c) d = Inr role"
    "override_limit ws (ac_user_id c) (CDec (br_hard_limit b)) (br_reason b) d = (Inr s, d')"
  using assms by (auto simp: override_budget_route_def workspace_uuid_def split: sum.splits)

lemma system_inv_create:
  assumes inv: "budget_inv (work s)" "integrity_ok (work s)"
      "jobs_backed (has_active_reservation (work s)) (t_jobs (work s))"
    and q: "queue_ok st" and jobs: "t_jobs (work s) = t_jobs (st_db st)" and none: "hooks s = []"
    and body: "create_job_route l i ri c wt b k s = (Inr x, s')" and ok: "integrity_ok (work s')"
  shows "system_inv (st\<lparr>st_db := work s', st_job_queue := st_job_queue st @ map uuid_text (hooks s')\<rparr>)"
    (is "system_inv ?st'")
proof -
  obtain ws y where c: "create (reserve ri) i ws (ac_user_id c) (jr_kind b) (VDict (jr_parameters b))
      (CDec (jr_estimated_cost b)) k s = (Inr y, s')"
    using body by (rule create_job_route_Inr)
  have keep: "budget_inv (work s') \<and> jobs_backed (has_active_reservation (work s')) (t_jobs (work s'))"
    by (rule books.create_keeps [OF inv c ok])
  have "queue_ok ?st'"
    using c
  proof (cases rule: create_Inr)
    case (old j)
    then show ?thesis using q by (simp add: none jobs queue_ok_def)
  next
    case (new cost rr d2)
    have "t_jobs d2 = t_jobs (st_db st) @ [jc_job y]" using books.hold_jobs [OF new(7)] by (simp add: jobs)
    then show ?thesis using q new(6) by (auto simp: none queue_ok_def new(8) new_job_def)
  qed
  then show ?thesis using keep ok by (simp add: system_inv_def)
qed

lemma system_inv_override:
  assumes inv: "system_inv st" and run: "run_session (on_db (override_budget_route c wt b)) st = (r, st')"
  shows "system_inv st'"
proof (cases r)
  case (Inl e)
  with run plain.run_error_unchanged inv show ?thesis by blast
next
  case (Inr x)
  with run obtain d where d: "override_budget_route c wt b (st_db st) = (Inr x, d)" "integrity_ok d"
    and st': "st' = st\<lparr>st_db := d\<rparr>"
    by (auto simp: run_on_db split: prod.splits sum.splits if_splits)
  obtain ws where o: "override_limit ws (ac_user_id c) (CDec (br_hard_limit b)) (br_reason b) (st_db st) = (Inr x, d)"
    using d(1) by (rule override_budget_route_Inr)
  have "budget_inv d" using inv by (intro override_limit_inv [OF _ _ o]) (simp_all add: system_inv_def)
  moreover have "has_active_reservation d = has_active_reservation (st_db st)"
    using override_limit_frame [OF o] by (simp add: fun_eq_iff has_active_reservation_def)
  ultimately show ?thesis
    using inv d(2) override_limit_frame [OF o] by (simp add: system_inv_def queue_ok_def st')
qed

text \<open>A delivered message always succeeds, and leaves its job failed with nothing reserved.\<close>

lemma process_job_total:
  assumes inv: "system_inv st" and m: "m \<in> set (st_job_queue st)" and url: "url \<noteq> ''''"
  obtains d where "process_job now (Some url) m st = (Inr (), st\<lparr>st_db := d\<rparr>)" "integrity_ok d" "budget_inv d"
    "jobs_backed (has_active_reservation d) (t_jobs d)"
    "map jo_id (t_jobs d) = map jo_id (t_jobs (st_db st))"
    "\<forall>j \<in> set (t_jobs d). uuid_text (jo_id j) = m \<longrightarrow> jo_state j = ''failed''"
    "\<forall>j \<in> set (t_jobs d). jo_state j = ''queued'' \<longrightarrow> j \<in> set (t_jobs (st_db st))"
proof -
  have "m \<in> (\<lambda>j. uuid_text (jo_id j)) ` set (t_jobs (st_db st))"
    using inv m by (auto simp: system_inv_def queue_ok_def)
  then obtain j :: job where j: "m = uuid_text (jo_id j)" by blast
  have "budget_inv (st_db st)" "integrity_ok (st_db st)"
    "jobs_backed (has_active_reservation (st_db st)) (t_jobs (st_db st))"
    using inv by (simp_all add: system_inv_def)
  from books.process_queued_total [OF this, of now "jo_id j"] obtain d
    where d: "process_queued (release now) (jo_id j) (st_db st) = (Inr (), d)" "integrity_ok d" "budget_inv d"
      "jobs_backed (has_active_reservation d) (t_jobs d)"
      "\<forall>x \<in> set (t_jobs d). jo_id x = jo_id j \<longrightarrow> jo_state x = ''failed''"
      "map jo_id (t_jobs d) = map jo_id (t_jobs (st_db st))"
      "\<forall>j \<in> set (t_jobs d). jo_state j = ''queued'' \<longrightarrow> j \<in> set (t_jobs (st_db st))"
    by blast
  have "process_job now (Some url) m st = (Inr (), st\<lparr>st_db := d\<rparr>)"
    using d(1,2) url by (simp add: process_job_def run_on_db j)
  then show ?thesis using d by (intro that) (simp_all add: j)
qed

lemma queue_ok_processed:
  assumes "queue_ok st" "map jo_id (t_jobs d) = map jo_id (t_jobs (st_db st))"
    "\<forall>j \<in> set (t_jobs d). uuid_text (jo_id j) = m \<longrightarrow> jo_state j = ''failed''"
    "\<forall>j \<in> set (t_jobs d). jo_state j = ''queued'' \<longrightarrow> j \<in> set (t_jobs (st_db st))"
  shows "queue_ok (st\<lparr>st_db := d, st_job_queue := remove1 m (st_job_queue st)\<rparr>)"
proof -
  have ids: "(\<lambda>j. uuid_text (jo_id j)) ` set (t_jobs d) = (\<lambda>j. uuid_text (jo_id j)) ` set (t_jobs (st_db st))"
    using arg_cong [OF assms(2), of "\<lambda>xs. uuid_text ` set xs"] by (simp add: image_image)
  have "set (remove1 m (st_job_queue st)) \<subseteq> set (st_job_queue st)" by (rule set_remove1_subset)
  moreover have "uuid_text (jo_id j) \<in> set (remove1 m (st_job_queue st))"
    if "j \<in> set (t_jobs d)" "jo_state j = ''queued''" for j
  proof -
    have "uuid_text (jo_id j) \<noteq> m" using that assms(3) by auto
    moreover have "uuid_text (jo_id j) \<in> set (st_job_queue st)" using that assms(1,4) by (simp add: queue_ok_def)
    ultimately show ?thesis by simp
  qed
  ultimately show ?thesis using assms(1) ids by (auto simp: queue_ok_def)
qed

end
