(* ===== verification/Sha256.thy ===== *)
theory Sha256
  imports PyText
begin

unbundle bit_operations_syntax

text \<open>
  SHA-256 and HMAC-SHA-256 as \<open>hashlib\<close> and \<open>hmac\<close> provide them, over lists of bytes, with
  the digests in lower-case hexadecimal as \<open>hexdigest\<close> prints them. The program uses them for
  evidence hashes, opaque tokens and suppression fingerprints. The standard's constants are
  written in decimal.
\<close>

type_synonym w32 = "32 word"

definition rotr :: "nat \<Rightarrow> w32 \<Rightarrow> w32" where
  "rotr n x = (drop_bit n x) OR (push_bit (32 - n) x)"

definition round_constants :: "w32 list" where
  "round_constants =
    [1116352408, 1899447441, 3049323471, 3921009573, 961987163, 1508970993, 2453635748, 2870763221,
     3624381080, 310598401, 607225278, 1426881987, 1925078388, 2162078206, 2614888103, 3248222580,
     3835390401, 4022224774, 264347078, 604807628, 770255983, 1249150122, 1555081692, 1996064986,
     2554220882, 2821834349, 2952996808, 3210313671, 3336571891, 3584528711, 113926993, 338241895,
     666307205, 773529912, 1294757372, 1396182291, 1695183700, 1986661051, 2177026350, 2456956037,
     2730485921, 2820302411, 3259730800, 3345764771, 3516065817, 3600352804, 4094571909, 275423344,
     430227734, 506948616, 659060556, 883997877, 958139571, 1322822218, 1537002063, 1747873779,
     1955562222, 2024104815, 2227730452, 2361852424, 2428436474, 2756734187, 3204031479, 3329325298]"

definition initial_hash :: "w32 list" where
  "initial_hash = [1779033703, 3144134277, 1013904242, 2773480762, 1359893119, 2600822924, 528734635, 1541459225]"

text \<open>Big-endian bytes of a number, and words from bytes.\<close>

fun bytes_of :: "nat \<Rightarrow> nat \<Rightarrow> nat list" where
  "bytes_of 0 n = []"
| "bytes_of (Suc k) n = bytes_of k (n div 256) @ [n mod 256]"

definition sha_pad :: "nat list \<Rightarrow> nat list" where
  "sha_pad m = m @ [128] @ replicate ((119 - length m mod 64) mod 64) 0 @ bytes_of 8 (8 * length m)"

fun words_of :: "nat list \<Rightarrow> w32 list" where
  "words_of (a # b # c # d # bs) = word_of_nat (((a * 256 + b) * 256 + c) * 256 + d) # words_of bs"
| "words_of _ = []"

text \<open>The schedule, extended from its last sixteen words; it is kept reversed.\<close>

definition schedule_next :: "w32 list \<Rightarrow> w32" where
  "schedule_next ws =
    (let w2 = ws ! 1; w7 = ws ! 6; w15 = ws ! 14; w16 = ws ! 15;
         s0 = rotr 7 w15 XOR rotr 18 w15 XOR drop_bit 3 w15;
         s1 = rotr 17 w2 XOR rotr 19 w2 XOR drop_bit 10 w2
     in w16 + s0 + w7 + s1)"

fun schedule :: "nat \<Rightarrow> w32 list \<Rightarrow> w32 list" where
  "schedule 0 ws = rev ws"
| "schedule (Suc n) ws = schedule n (schedule_next ws # ws)"

fun sha_round :: "w32 list \<Rightarrow> w32 \<times> w32 \<Rightarrow> w32 list" where
  "sha_round [a, b, c, d, e, f, g, h] (k, w) =
    (let s1 = rotr 6 e XOR rotr 11 e XOR rotr 25 e;
         ch = (e AND f) XOR (NOT e AND g);
         t1 = h + s1 + ch + k + w;
         s0 = rotr 2 a XOR rotr 13 a XOR rotr 22 a;
         maj = (a AND b) XOR (a AND c) XOR (b AND c)
     in [t1 + (s0 + maj), a, b, c, d + t1, e, f, g])"
| "sha_round hs _ = hs"

definition sha_block :: "w32 list \<Rightarrow> nat list \<Rightarrow> w32 list" where
  "sha_block hs block =
    map (\<lambda>(x, y). x + y)
      (zip hs (foldl sha_round hs (zip round_constants (schedule 48 (rev (words_of block))))))"

fun blocks_of :: "nat \<Rightarrow> nat list \<Rightarrow> nat list list" where
  "blocks_of 0 m = []"
| "blocks_of (Suc n) m = take 64 m # blocks_of n (drop 64 m)"

definition sha256_words :: "nat list \<Rightarrow> w32 list" where
  "sha256_words m = (let p = sha_pad m in foldl sha_block initial_hash (blocks_of (length p div 64) p))"

definition sha256_bytes :: "nat list \<Rightarrow> nat list" where
  "sha256_bytes m = concat (map (\<lambda>w. bytes_of 4 (unat w)) (sha256_words m))"

definition hexdigest :: "nat list \<Rightarrow> string" where
  "hexdigest bs = concat (map (\<lambda>b. hex_fixed 2 b) bs)"

definition sha256_hex :: "nat list \<Rightarrow> string" where
  "sha256_hex m = hexdigest (sha256_bytes m)"

definition hmac_sha256_hex :: "nat list \<Rightarrow> nat list \<Rightarrow> string" where
  "hmac_sha256_hex key m =
    (let k0 = (if 64 < length key then sha256_bytes key else key);
         k = k0 @ replicate (64 - length k0) 0;
         pad = (\<lambda>p. map (\<lambda>b. nat (int b XOR p)) k)
     in sha256_hex (pad 0x5c @ sha256_bytes (pad 0x36 @ m)))"

section \<open>Shape of a digest\<close>

lemma length_bytes_of [simp]: "length (bytes_of k n) = k"
  by (induction k arbitrary: n) auto

lemma sha_round_length: "length (sha_round hs kw) = length hs"
  by (cases "(hs, kw)" rule: sha_round.cases) (simp_all add: Let_def)

lemma foldl_sha_round_length: "length (foldl sha_round hs kws) = length hs"
  by (induction kws arbitrary: hs) (simp_all add: sha_round_length)

lemma sha_block_length [simp]: "length (sha_block hs b) = length hs"
  by (simp add: sha_block_def foldl_sha_round_length)

lemma foldl_sha_block_length: "length (foldl sha_block hs bs) = length hs"
  by (induction bs arbitrary: hs) simp_all

lemma length_sha256_words [simp]: "length (sha256_words m) = 8"
  by (simp add: sha256_words_def Let_def foldl_sha_block_length initial_hash_def)

lemma length_concat_const: "(\<And>x. x \<in> set xs \<Longrightarrow> length (f x) = k) \<Longrightarrow> length (concat (map f xs)) = k * length xs"
  by (induction xs) auto

lemma length_sha256_bytes [simp]: "length (sha256_bytes m) = 32"
  unfolding sha256_bytes_def by (subst length_concat_const [where k = 4]) simp_all

lemma length_sha256_hex [simp]: "length (sha256_hex m) = 64"
  unfolding sha256_hex_def hexdigest_def by (subst length_concat_const [where k = 2]) simp_all

lemma sha256_hex_lower: "c \<in> set (sha256_hex m) \<Longrightarrow> is_hex_lower c"
  by (auto simp: sha256_hex_def hexdigest_def dest: hex_fixed_hex_lower)

lemma hmac_shape [simp]: "length (hmac_sha256_hex k m) = 64" "c \<in> set (hmac_sha256_hex k m) \<Longrightarrow> is_hex_lower c"
  by (auto simp: hmac_sha256_hex_def Let_def dest: sha256_hex_lower)

text \<open>Padding always completes a block.\<close>

lemma sha_pad_blocks: "length (sha_pad m) mod 64 = 0"
proof -
  define r where "r = length m mod 64"
  have "(length m + 9 + (119 - r) mod 64) mod 64 = (r + 9 + (119 - r) mod 64) mod 64"
    by (simp add: r_def mod_simps add.assoc)
  also have "\<dots> = (r + 9 + (119 - r)) mod 64" by (simp add: mod_simps)
  also have "\<dots> = 0"
  proof -
    have "r < 64" by (simp add: r_def)
    then show ?thesis by simp
  qed
  finally show ?thesis by (simp add: sha_pad_def r_def ac_simps)
qed

end
