(* ===== verification/Crypto.thy ===== *)
theory Crypto
  imports Sha256
begin

text \<open>
  Secrets, passwords and tokens (src/src/infrastructure/crypto.py). What the program takes from
  third-party packages is an argument: the AES-GCM primitive, the password hasher, and the
  signing and checking of a JWT. What surrounds them is modelled, with the standard library's
  URL-safe base64, its lenient decoder, and UTF-8.
\<close>

section \<open>URL-safe base64\<close>

definition b64_char :: "nat \<Rightarrow> char" where
  "b64_char n = (if n < 26 then char_of (65 + n) else if n < 52 then char_of (71 + n)
     else if n < 62 then char_of (n - 4) else if n = 62 then CHR ''-'' else CHR ''_'')"

text \<open>Both alphabets are read, as \<open>urlsafe_b64decode\<close> translates one into the other.\<close>

definition b64_value :: "char \<Rightarrow> nat option" where
  "b64_value c =
    (let n = code c in
     if 65 \<le> n \<and> n \<le> 90 then Some (n - 65)
     else if 97 \<le> n \<and> n \<le> 122 then Some (n - 71)
     else if 48 \<le> n \<and> n \<le> 57 then Some (n + 4)
     else if c = CHR ''-'' \<or> c = CHR ''+'' then Some 62
     else if c = CHR ''_'' \<or> c = CHR ''/'' then Some 63
     else None)"

fun b64_encode :: "nat list \<Rightarrow> string" where
  "b64_encode [] = []"
| "b64_encode [a] = [b64_char (a div 4), b64_char (a mod 4 * 16), CHR ''='', CHR ''='']"
| "b64_encode [a, b] =
    [b64_char (a div 4), b64_char (a mod 4 * 16 + b div 16), b64_char (b mod 16 * 4), CHR ''='']"
| "b64_encode (a # b # c # bs) =
    b64_char (a div 4) # b64_char (a mod 4 * 16 + b div 16) # b64_char (b mod 16 * 4 + c div 64)
      # b64_char (c mod 64) # b64_encode bs"

text \<open>
  The decoder of \<open>binascii\<close>: the position in the group of four, the bits left over, and the
  number of padding characters in a row; other characters are skipped.
\<close>

fun b64_scan :: "nat \<Rightarrow> nat \<Rightarrow> nat \<Rightarrow> string \<Rightarrow> nat list option" where
  "b64_scan pos left pads [] = (if pos = 0 then Some [] else None)"
| "b64_scan pos left pads (c # cs) =
    (if c = CHR ''='' then
       (if 2 \<le> pos \<and> 4 \<le> pos + (pads + 1) then Some []
        else b64_scan pos left (if 2 \<le> pos then pads + 1 else pads) cs)
     else case b64_value c of
       None \<Rightarrow> b64_scan pos left pads cs
     | Some v \<Rightarrow>
        if pos = 0 then b64_scan 1 v 0 cs
        else if pos = 1 then map_option ((#) (left * 4 + v div 16)) (b64_scan 2 (v mod 16) 0 cs)
        else if pos = 2 then map_option ((#) (left * 16 + v div 4)) (b64_scan 3 (v mod 4) 0 cs)
        else map_option ((#) (left * 64 + v)) (b64_scan 0 0 0 cs))"

definition b64_decode :: "string \<Rightarrow> nat list option" where
  "b64_decode s = (if list_ex (\<lambda>c. 128 \<le> code c) s then None else b64_scan 0 0 0 s)"

text \<open>UTF-8 back to text, on the model's range of code points.\<close>

fun utf8_decode :: "nat list \<Rightarrow> string option" where
  "utf8_decode [] = Some []"
| "utf8_decode (b # bs) =
    (if b < 128 then map_option ((#) (char_of b)) (utf8_decode bs)
     else case bs of
       [] \<Rightarrow> None
     | c # cs \<Rightarrow> if 194 \<le> b \<and> b \<le> 195 \<and> 128 \<le> c \<and> c \<le> 191
                 then map_option ((#) (char_of ((b - 192) * 64 + (c - 128)))) (utf8_decode cs) else None)"

section \<open>Secrets\<close>

type_synonym secret_cipher = "nat list"

definition secret_cipher :: "nat list \<Rightarrow> secret_cipher res" where
  "secret_cipher key =
    (if length key \<noteq> 32 then Inl (ValueError ''La master key AES deve contenere esattamente 32 byte.'')
     else Inr key)"

definition cipher_from_base64 :: "string \<Rightarrow> secret_cipher res" where
  "cipher_from_base64 encoded =
    (case b64_decode encoded of
       None \<Rightarrow> Inl (ValueError ''Master key non valida.'') | Some key \<Rightarrow> secret_cipher key)"

text \<open>\<open>aead_encrypt key nonce plaintext associated_data\<close> and its inverse.\<close>

type_synonym aead_encrypt = "nat list \<Rightarrow> nat list \<Rightarrow> nat list \<Rightarrow> nat list \<Rightarrow> nat list"
type_synonym aead_decrypt = "nat list \<Rightarrow> nat list \<Rightarrow> nat list \<Rightarrow> nat list \<Rightarrow> nat list option"

definition secret_encrypt ::
  "aead_encrypt \<Rightarrow> secret_cipher \<Rightarrow> nat list \<Rightarrow> string \<Rightarrow> string \<Rightarrow> string res" where
  "secret_encrypt enc key nonce plaintext associated_data =
    (if plaintext = '''' then Inl (ValueError ''Il segreto non puo essere vuoto.'')
     else Inr (''v1:'' @ b64_encode (nonce @ enc key nonce (utf8 plaintext) (utf8 associated_data))))"

definition secret_decrypt :: "aead_decrypt \<Rightarrow> secret_cipher \<Rightarrow> string \<Rightarrow> string \<Rightarrow> string res" where
  "secret_decrypt dec key payload associated_data =
    (let version = before_char CHR '':'' payload; encoded = drop (Suc (length version)) payload;
         failed = Inl (SecretDecryptionError ''Segreto non autenticabile.'')
     in if CHR '':'' \<notin> set payload \<or> version \<noteq> ''v1'' then failed
        else case b64_decode encoded of
          None \<Rightarrow> failed
        | Some raw \<Rightarrow>
            (case dec key (take 12 raw) (drop 12 raw) (utf8 associated_data) of
               None \<Rightarrow> failed
             | Some plaintext \<Rightarrow> (case utf8_decode plaintext of None \<Rightarrow> failed | Some s \<Rightarrow> Inr s)))"

definition secret_fingerprint :: "secret_cipher \<Rightarrow> string \<Rightarrow> string" where
  "secret_fingerprint key value = take 32 (hmac_sha256_hex key (utf8 value))"

section \<open>Passwords\<close>

text \<open>The hasher, with the hash of a random password made when the service starts.\<close>

record password_service =
  ps_hash :: "string \<Rightarrow> string"
  ps_verify :: "string \<Rightarrow> string \<Rightarrow> bool option"
  ps_dummy_hash :: string

definition password_hash :: "password_service \<Rightarrow> string \<Rightarrow> string res" where
  "password_hash ps password =
    (if length password < 12 then Inl (ValueError ''La password deve contenere almeno 12 caratteri.'')
     else Inr (ps_hash ps password))"

text \<open>\<open>encoded or dummy\<close>; when the hasher raises, a second verification takes the time.\<close>

definition password_verify :: "password_service \<Rightarrow> string \<Rightarrow> string option \<Rightarrow> bool" where
  "password_verify ps password encoded =
    (let e = (case encoded of None \<Rightarrow> ps_dummy_hash ps | Some s \<Rightarrow> if s = '''' then ps_dummy_hash ps else s)
     in case ps_verify ps password e of None \<Rightarrow> False | Some b \<Rightarrow> b)"

section \<open>Opaque tokens\<close>

definition hash_opaque_token :: "string \<Rightarrow> string" where
  "hash_opaque_token token = sha256_hex (utf8 token)"

text \<open>\<open>secrets.compare_digest\<close> raises on text that is not ASCII.\<close>

definition compare_digest :: "string \<Rightarrow> string \<Rightarrow> bool res" where
  "compare_digest a b =
    (if list_ex (\<lambda>c. 128 \<le> code c) a \<or> list_ex (\<lambda>c. 128 \<le> code c) b then Inl TypeError else Inr (a = b))"

section \<open>Access tokens\<close>

record token_claims =
  tk_user_id :: string
  tk_session_id :: string
  tk_session_version :: int
  tk_mfa_verified :: bool

record jwt_payload =
  jw_sub :: string
  jw_sid :: string
  jw_sv :: int
  jw_mfa :: "bool option"
  jw_iss :: string
  jw_aud :: string
  jw_iat :: int
  jw_nbf :: int
  jw_exp :: int
  jw_jti :: string

text \<open>
  \<open>jwt_decode now issuer audience token\<close> is the library's check of signature, times, issuer,
  audience and required claims.
\<close>

record token_service =
  ts_issuer :: string
  ts_audience :: string
  ts_lifetime :: int
  ts_encode :: "jwt_payload \<Rightarrow> string"
  ts_decode :: "int \<Rightarrow> string \<Rightarrow> string \<Rightarrow> string \<Rightarrow> jwt_payload option"

definition token_issue :: "token_service \<Rightarrow> int \<Rightarrow> string \<Rightarrow> token_claims \<Rightarrow> string" where
  "token_issue ts now jti c =
    ts_encode ts \<lparr>jw_sub = tk_user_id c, jw_sid = tk_session_id c, jw_sv = tk_session_version c,
      jw_mfa = Some (tk_mfa_verified c), jw_iss = ts_issuer ts, jw_aud = ts_audience ts, jw_iat = now,
      jw_nbf = now, jw_exp = now + ts_lifetime ts, jw_jti = jti\<rparr>"

definition token_decode :: "token_service \<Rightarrow> int \<Rightarrow> string \<Rightarrow> token_claims res" where
  "token_decode ts now token =
    (case ts_decode ts now (ts_issuer ts) (ts_audience ts) token of
       None \<Rightarrow> Inl (TokenValidationError ''Access token non valido.'')
     | Some p \<Rightarrow> Inr \<lparr>tk_user_id = jw_sub p, tk_session_id = jw_sid p, tk_session_version = jw_sv p,
                      tk_mfa_verified = (case jw_mfa p of None \<Rightarrow> False | Some m \<Rightarrow> m)\<rparr>)"

section \<open>Reading back what was written\<close>

lemma b64_value_char: "n < 64 \<Longrightarrow> b64_value (b64_char n) = Some n"
  by (auto simp: b64_char_def b64_value_def Let_def)

lemma b64_char_not_pad: "n < 64 \<Longrightarrow> b64_char n \<noteq> CHR ''=''"
  using b64_value_char [of n] by (auto simp: b64_value_def)

lemma b64_scan_char:
  "n < 64 \<Longrightarrow> b64_scan pos left pads (b64_char n # cs) =
    (if pos = 0 then b64_scan 1 n 0 cs
     else if pos = 1 then map_option ((#) (left * 4 + n div 16)) (b64_scan 2 (n mod 16) 0 cs)
     else if pos = 2 then map_option ((#) (left * 16 + n div 4)) (b64_scan 3 (n mod 4) 0 cs)
     else map_option ((#) (left * 64 + n)) (b64_scan 0 0 0 cs))"
  by (simp add: b64_value_char b64_char_not_pad)

lemma b64_scan_encode: "\<forall>b \<in> set bs. b < 256 \<Longrightarrow> b64_scan 0 0 pads (b64_encode bs) = Some bs"
proof (induction bs arbitrary: pads rule: b64_encode.induct)
  case (2 a)
  then have "a div 4 < 64" "a mod 4 * 16 < 64" by auto
  then show ?case by (simp add: b64_scan_char del: b64_scan.simps) simp
next
  case (3 a b)
  then have "a div 4 < 64" "a mod 4 * 16 + b div 16 < 64" "b mod 16 * 4 < 64" "b div 16 < 16" by auto
  then show ?case by (simp add: b64_scan_char del: b64_scan.simps) simp
next
  case (4 a b c bs)
  then have "a div 4 < 64" "a mod 4 * 16 + b div 16 < 64" "b mod 16 * 4 + c div 64 < 64" "c mod 64 < 64"
    "b div 16 < 16" "c div 64 < 4"
    by auto
  with 4 show ?case by (simp add: b64_scan_char del: b64_scan.simps)
qed simp

lemma b64_char_ascii: "n < 64 \<Longrightarrow> code (b64_char n) < 128"
  by (auto simp: b64_char_def)

lemma b64_encode_ascii: "\<forall>b \<in> set bs. b < 256 \<Longrightarrow> c \<in> set (b64_encode bs) \<Longrightarrow> code c < 128"
  by (induction bs rule: b64_encode.induct) (auto intro!: b64_char_ascii)

lemma b64_decode_encode: "\<forall>b \<in> set bs. b < 256 \<Longrightarrow> b64_decode (b64_encode bs) = Some bs"
  using b64_encode_ascii [of bs] b64_scan_encode [of bs]
  by (auto simp: b64_decode_def list_ex_iff not_le [symmetric])

lemma code_less: "code c < 256"
  by (metis mod_less_divisor of_char_mod_256 zero_less_numeral)

lemma utf8_bytes: "b \<in> set (utf8 s) \<Longrightarrow> b < 256"
proof -
  assume "b \<in> set (utf8 s)"
  then obtain c where "b \<in> set (utf8_char c)" by (auto simp: utf8_def)
  moreover have "code c div 64 < 4" using less_mult_imp_div_less [of "code c" 4 64] code_less [of c] by simp
  moreover have "code c mod 64 < 64" by simp
  ultimately show "b < 256" by (auto simp: utf8_char_def split: if_splits)
qed

lemma utf8_decode_encode: "utf8_decode (utf8 s) = Some s"
proof (induction s)
  case Nil
  then show ?case by (simp add: utf8_def)
next
  case (Cons c s)
  have u: "utf8 (c # s) = utf8_char c @ utf8 s" by (simp add: utf8_def)
  show ?case
  proof (cases "code c < 128")
    case True
    then show ?thesis using Cons by (simp add: u utf8_char_def)
  next
    case False
    have "code c div 64 < 4" using less_mult_imp_div_less [of "code c" 4 64] code_less [of c] by simp
    moreover have "2 \<le> code c div 64" using False by (simp add: less_eq_div_iff_mult_less_eq)
    ultimately have r: "code c div 64 = 2 \<or> code c div 64 = 3" by auto
    have "(code c div 64) * 64 + code c mod 64 = code c" by simp
    then have "char_of ((192 + code c div 64 - 192) * 64 + (128 + code c mod 64 - 128)) = c" by simp
    then show ?thesis using Cons False r by (auto simp: u utf8_char_def)
  qed
qed

text \<open>What the code relies on of the AEAD library: bytes are decrypted to what was encrypted.\<close>

definition aead_lib :: "aead_encrypt \<Rightarrow> aead_decrypt \<Rightarrow> bool" where
  "aead_lib enc dec \<longleftrightarrow>
     (\<forall>key nonce p a. (\<forall>b \<in> set p. b < 256) \<longrightarrow>
        dec key nonce (enc key nonce p a) a = Some p \<and> (\<forall>b \<in> set (enc key nonce p a). b < 256))"

lemma secret_roundtrip:
  assumes lib: "aead_lib enc dec" and nonce: "length nonce = 12" "\<forall>b \<in> set nonce. b < 256"
    and run: "secret_encrypt enc key nonce plaintext aad = Inr payload"
  shows "secret_decrypt dec key payload aad = Inr plaintext"
proof -
  let ?c = "enc key nonce (utf8 plaintext) (utf8 aad)"
  have "\<forall>b \<in> set (utf8 plaintext). b < 256" using utf8_bytes by blast
  then have c: "dec key nonce ?c (utf8 aad) = Some (utf8 plaintext)" "\<forall>b \<in> set ?c. b < 256"
    using lib unfolding aead_lib_def by blast+
  then have "b64_decode (b64_encode (nonce @ ?c)) = Some (nonce @ ?c)"
    using nonce(2) by (intro b64_decode_encode) auto
  then show ?thesis
    using run c(1) nonce(1)
    by (auto simp: secret_encrypt_def secret_decrypt_def before_char_def utf8_decode_encode split: if_splits)
qed

end
