(* ===== verification/Authentication.thy ===== *)
theory Authentication
  imports Crypto Audit_Log Http
begin

text \<open>
  Sessions, multi-factor authentication and OIDC mapping
  (src/src/application/authentication.py). One operation reads the clock and the random source
  once per value in the code; the model passes one instant and one record of drawn values.
  \<open>pyotp\<close> is an argument: checking a code against a secret at an instant, and the text of the
  provisioning URI.
\<close>

record auth_service =
  as_passwords :: password_service
  as_tokens :: token_service
  as_cipher :: secret_cipher
  as_encrypt :: aead_encrypt
  as_decrypt :: aead_decrypt
  as_totp_verify :: "int \<Rightarrow> string \<Rightarrow> string \<Rightarrow> bool"
  as_provisioning_uri :: "string \<Rightarrow> string \<Rightarrow> string"
  as_refresh_lifetime :: int
  as_access_lifetime_seconds :: int

text \<open>What an operation draws: identifiers, tokens, a nonce, a secret and recovery codes.\<close>

record drawn =
  dw_session_id :: uuid
  dw_refresh :: string
  dw_csrf :: string
  dw_jti :: string
  dw_nonce :: "nat list"
  dw_secret :: string
  dw_codes :: "string list"

record auth_tokens =
  at_access_token :: string
  at_refresh_token :: string
  at_csrf_token :: string
  at_expires_in :: int

record mfa_enrollment =
  en_provisioning_uri :: string
  en_recovery_codes :: "string list"

section \<open>Rows\<close>

definition user_by_email :: "string \<Rightarrow> db \<Rightarrow> user option" where
  "user_by_email email d = find (\<lambda>u. us_email u = email) (t_users d)"

definition user_by_id :: "uuid \<Rightarrow> db \<Rightarrow> user option" where
  "user_by_id i d = find (\<lambda>u. us_id u = i) (t_users d)"

definition session_by_id :: "uuid \<Rightarrow> db \<Rightarrow> session_row option" where
  "session_by_id i d = find (\<lambda>s. se_id s = i) (t_sessions d)"

definition mfa_of_user :: "uuid \<Rightarrow> db \<Rightarrow> mfa_credential option" where
  "mfa_of_user i d = find (\<lambda>m. mf_user_id m = i) (t_mfa d)"

definition put_session :: "session_row \<Rightarrow> db \<Rightarrow> db" where
  "put_session x d = d\<lparr>t_sessions := upd_rows (\<lambda>s. se_id s = se_id x) (\<lambda>_. x) (t_sessions d)\<rparr>"

definition put_mfa :: "mfa_credential \<Rightarrow> db \<Rightarrow> db" where
  "put_mfa x d = d\<lparr>t_mfa := upd_rows (\<lambda>m. mf_user_id m = mf_user_id x) (\<lambda>_. x) (t_mfa d)\<rparr>"

section \<open>Issuing tokens\<close>

definition token_bundle :: "auth_service \<Rightarrow> drawn \<Rightarrow> int \<Rightarrow> user \<Rightarrow> session_row \<Rightarrow> auth_tokens" where
  "token_bundle svc w now user record =
    \<lparr>at_access_token = token_issue (as_tokens svc) now (dw_jti w)
       \<lparr>tk_user_id = uuid_text (us_id user), tk_session_id = uuid_text (se_id record),
        tk_session_version = us_session_version user, tk_mfa_verified = se_mfa_verified record\<rparr>,
     at_refresh_token = dw_refresh w, at_csrf_token = dw_csrf w,
     at_expires_in = as_access_lifetime_seconds svc\<rparr>"

definition create_session ::
  "auth_service \<Rightarrow> drawn \<Rightarrow> int \<Rightarrow> user \<Rightarrow> bool \<Rightarrow> db \<Rightarrow> (session_row \<times> auth_tokens) \<times> db" where
  "create_session svc w now user mfa_verified d =
    (let record = \<lparr>se_id = dw_session_id w, se_user_id = us_id user,
           se_refresh_token_hash = hash_opaque_token (dw_refresh w),
           se_csrf_token_hash = hash_opaque_token (dw_csrf w), se_mfa_verified = mfa_verified,
           se_last_seen_at = now, se_expires_at = now + as_refresh_lifetime svc, se_revoked_at = None\<rparr>
     in ((record, token_bundle svc w now user record), d\<lparr>t_sessions := t_sessions d @ [record]\<rparr>))"

text \<open>The refresh and CSRF tokens are replaced; the session keeps its expiry.\<close>

definition rotate_session :: "auth_service \<Rightarrow> drawn \<Rightarrow> int \<Rightarrow> session_row \<Rightarrow> user \<Rightarrow> db \<Rightarrow> auth_tokens \<times> db" where
  "rotate_session svc w now record user d =
    (let r = record\<lparr>se_refresh_token_hash := hash_opaque_token (dw_refresh w),
           se_csrf_token_hash := hash_opaque_token (dw_csrf w), se_last_seen_at := now\<rparr>
     in (token_bundle svc w now user r, put_session r d))"

section \<open>Logging in and out\<close>

definition login_auth :: "auth_service \<Rightarrow> drawn \<Rightarrow> int \<Rightarrow> string \<Rightarrow> string \<Rightarrow> db \<Rightarrow> auth_tokens res \<times> db" where
  "login_auth svc w now email password d =
    (let normalized = py_casefold (py_strip email);
         found = user_by_email normalized d;
         valid = password_verify (as_passwords svc) password (map_option us_password_hash found);
         denied = (Inl (AuthenticationError ''Credenziali non valide.''),
                   append_audit_event ''auth.login_failed'' None None None None
                     [(''result'', AVText ''denied'')] None d)
     in case found of
          None \<Rightarrow> denied
        | Some user \<Rightarrow>
           if \<not> valid \<or> \<not> us_is_active user then denied
           else (case create_session svc w now user False d of
                   ((record, tokens), d1) \<Rightarrow>
                     (Inr tokens, append_audit_event ''auth.login'' None (Some (us_id user)) (Some ''session'')
                        (Some (uuid_text (se_id record))) [(''result'', AVText ''success'')] None d1)))"

definition session_invalid :: "'a res" where
  "session_invalid = Inl (AuthenticationError ''Sessione non valida.'')"

text \<open>Both tokens must match; the second comparison is made only when the first one holds.\<close>

definition tokens_match :: "session_row \<Rightarrow> string \<Rightarrow> string \<Rightarrow> bool res" where
  "tokens_match record refresh_token csrf_token =
    bind_res (compare_digest (se_refresh_token_hash record) (hash_opaque_token refresh_token)) (\<lambda>same.
      if \<not> same then Inr False
      else compare_digest (se_csrf_token_hash record) (hash_opaque_token csrf_token))"

text \<open>
  A wrong token revokes the session and commits at once, so the revocation survives the
  rollback of the request; an unknown or inactive user revokes it without committing.
\<close>

definition refresh_auth ::
  "auth_service \<Rightarrow> drawn \<Rightarrow> int \<Rightarrow> uuid \<Rightarrow> string \<Rightarrow> string \<Rightarrow> dbsession \<Rightarrow> auth_tokens res \<times> dbsession" where
  "refresh_auth svc w now session_id refresh_token csrf_token s =
    (case session_by_id session_id (work s) of
       None \<Rightarrow> (session_invalid, s)
     | Some record \<Rightarrow>
        if se_revoked_at record \<noteq> None \<or> se_expires_at record \<le> now then (session_invalid, s)
        else
          let revoked = s\<lparr>work := put_session (record\<lparr>se_revoked_at := Some now\<rparr>) (work s)\<rparr> in
          (case tokens_match record refresh_token csrf_token of
             Inl e \<Rightarrow> (Inl e, s)
           | Inr False \<Rightarrow>
              (case commit_session revoked of
                 (Inl e, s1) \<Rightarrow> (Inl e, s1)
               | (Inr _, s1) \<Rightarrow> (session_invalid, s1))
           | Inr True \<Rightarrow>
              (case user_by_id (se_user_id record) (work s) of
                 None \<Rightarrow> (session_invalid, revoked)
               | Some user \<Rightarrow>
                  if \<not> us_is_active user then (session_invalid, revoked)
                  else (case rotate_session svc w now record user (work s) of
                          (tokens, d) \<Rightarrow> (Inr tokens, s\<lparr>work := d\<rparr>)))))"

definition claims_accepted :: "token_claims \<Rightarrow> int \<Rightarrow> uuid \<Rightarrow> user \<Rightarrow> session_row \<Rightarrow> bool" where
  "claims_accepted claims now user_id user record \<longleftrightarrow>
     se_user_id record = user_id \<and> se_revoked_at record = None \<and> now < se_expires_at record
     \<and> us_is_active user \<and> tk_session_version claims = us_session_version user
     \<and> tk_mfa_verified claims = se_mfa_verified record"

definition parse_claims :: "token_claims \<Rightarrow> (uuid \<times> uuid) res" where
  "parse_claims claims =
    (case (uuid_parse (tk_user_id claims), uuid_parse (tk_session_id claims)) of
       (Inr u, Inr s) \<Rightarrow> Inr (u, s) | _ \<Rightarrow> session_invalid)"

definition authenticate_access_token ::
  "auth_service \<Rightarrow> int \<Rightarrow> string \<Rightarrow> db \<Rightarrow> auth_context res \<times> db" where
  "authenticate_access_token svc now token d =
    (case token_decode (as_tokens svc) now token of
       Inl e \<Rightarrow> (Inl e, d)
     | Inr claims \<Rightarrow>
        (case parse_claims claims of
           Inl e \<Rightarrow> (Inl e, d)
         | Inr (user_id, session_id) \<Rightarrow>
            (case (session_by_id session_id d, user_by_id user_id d) of
               (Some record, Some user) \<Rightarrow>
                 if claims_accepted claims now user_id user record
                 then (Inr \<lparr>ac_user_id = user_id, ac_session_id = session_id,
                            ac_mfa_verified = se_mfa_verified record\<rparr>,
                       put_session (record\<lparr>se_last_seen_at := now\<rparr>) d)
                 else (session_invalid, d)
             | _ \<Rightarrow> (session_invalid, d))))"

definition logout_auth :: "int \<Rightarrow> auth_context \<Rightarrow> db \<Rightarrow> db" where
  "logout_auth now c d =
    (let d1 = (case session_by_id (ac_session_id c) d of
                 None \<Rightarrow> d
               | Some record \<Rightarrow>
                   if se_user_id record = ac_user_id c
                   then put_session (record\<lparr>se_revoked_at := Some now\<rparr>) d else d)
     in append_audit_event ''auth.logout'' None (Some (ac_user_id c)) (Some ''session'')
          (Some (uuid_text (ac_session_id c))) [] None d1)"

definition revoke_all :: "int \<Rightarrow> uuid \<Rightarrow> db \<Rightarrow> db" where
  "revoke_all now user_id d =
    (case user_by_id user_id d of
       None \<Rightarrow> d
     | Some user \<Rightarrow>
        d\<lparr>t_users := upd_rows (\<lambda>u. us_id u = user_id) (\<lambda>u. u\<lparr>us_session_version := us_session_version u + 1\<rparr>) (t_users d),
          t_sessions := upd_rows (\<lambda>s. se_user_id s = user_id \<and> se_revoked_at s = None)
            (\<lambda>s. s\<lparr>se_revoked_at := Some now\<rparr>) (t_sessions d)\<rparr>)"

section \<open>Multi-factor authentication\<close>

definition mfa_aad :: "uuid \<Rightarrow> string" where
  "mfa_aad user_id = ''mfa:'' @ uuid_text user_id @ '':v1''"

definition begin_mfa_enrollment :: "auth_service \<Rightarrow> drawn \<Rightarrow> auth_context \<Rightarrow> db \<Rightarrow> mfa_enrollment res \<times> db" where
  "begin_mfa_enrollment svc w c d =
    (case user_by_id (ac_user_id c) d of
       None \<Rightarrow> (Inl (AuthenticationError ''Utente non valido.''), d)
     | Some user \<Rightarrow>
        let current = mfa_of_user (ac_user_id c) d in
        if (\<exists>m \<in> set_option current. mf_confirmed_at m \<noteq> None) \<and> \<not> ac_mfa_verified c
        then (Inl (AuthenticationError ''MFA corrente richiesta per riconfigurare MFA.''), d)
        else case secret_encrypt (as_encrypt svc) (as_cipher svc) (dw_nonce w) (dw_secret w) (mfa_aad (ac_user_id c)) of
          Inl e \<Rightarrow> (Inl e, d)
        | Inr ciphertext \<Rightarrow>
           let row = \<lparr>mf_user_id = ac_user_id c, mf_secret_ciphertext = ciphertext,
                 mf_recovery_code_hashes = map hash_opaque_token (dw_codes w), mf_confirmed_at = None\<rparr>
           in (Inr \<lparr>en_provisioning_uri = as_provisioning_uri svc (dw_secret w) (us_email user),
                    en_recovery_codes = dw_codes w\<rparr>,
               (case current of None \<Rightarrow> d\<lparr>t_mfa := t_mfa d @ [row]\<rparr> | Some _ \<Rightarrow> put_mfa row d)))"

text \<open>A time-based code, or a recovery code, which is used up.\<close>

definition verified_mfa_credential ::
  "auth_service \<Rightarrow> int \<Rightarrow> uuid \<Rightarrow> string \<Rightarrow> db \<Rightarrow> mfa_credential res" where
  "verified_mfa_credential svc now user_id passcode d =
    (case mfa_of_user user_id d of
       None \<Rightarrow> Inl (AuthenticationError ''MFA non configurata.'')
     | Some m \<Rightarrow>
        bind_res (secret_decrypt (as_decrypt svc) (as_cipher svc) (mf_secret_ciphertext m) (mfa_aad user_id)) (\<lambda>secret.
          if as_totp_verify svc now secret passcode then Inr m
          else let h = hash_opaque_token passcode in
            if h \<in> set (mf_recovery_code_hashes m)
            then Inr (m\<lparr>mf_recovery_code_hashes := filter (\<lambda>x. x \<noteq> h) (mf_recovery_code_hashes m)\<rparr>)
            else Inl (AuthenticationError ''Codice MFA non valido.'')))"

text \<open>The tail of both confirmations: the session becomes verified and is rotated.\<close>

definition elevate ::
  "auth_service \<Rightarrow> drawn \<Rightarrow> int \<Rightarrow> auth_context \<Rightarrow> (user \<Rightarrow> db \<Rightarrow> db) \<Rightarrow> db \<Rightarrow> auth_tokens res \<times> db" where
  "elevate svc w now c note_event d =
    (case (session_by_id (ac_session_id c) d, user_by_id (ac_user_id c) d) of
       (Some record, Some user) \<Rightarrow>
         if se_revoked_at record \<noteq> None then (session_invalid, d)
         else (case rotate_session svc w now (record\<lparr>se_mfa_verified := True\<rparr>) user (note_event user d) of
                 (tokens, d1) \<Rightarrow> (Inr tokens, d1))
     | _ \<Rightarrow> (session_invalid, d))"

definition confirm_mfa :: "auth_service \<Rightarrow> drawn \<Rightarrow> int \<Rightarrow> auth_context \<Rightarrow> string \<Rightarrow> db \<Rightarrow> auth_tokens res \<times> db" where
  "confirm_mfa svc w now c passcode d =
    (case verified_mfa_credential svc now (ac_user_id c) passcode d of
       Inl e \<Rightarrow> (Inl e, d)
     | Inr m \<Rightarrow>
        elevate svc w now c
          (\<lambda>user. append_audit_event ''auth.mfa_confirmed'' None (Some (us_id user)) None None [] None)
          (put_mfa (m\<lparr>mf_confirmed_at := Some now\<rparr>) d))"

definition verify_mfa :: "auth_service \<Rightarrow> drawn \<Rightarrow> int \<Rightarrow> auth_context \<Rightarrow> string \<Rightarrow> db \<Rightarrow> auth_tokens res \<times> db" where
  "verify_mfa svc w now c passcode d =
    (case verified_mfa_credential svc now (ac_user_id c) passcode d of
       Inl e \<Rightarrow> (Inl e, d)
     | Inr m \<Rightarrow>
        let d1 = put_mfa m d in
        if mf_confirmed_at m = None then (Inl (AuthenticationError ''MFA non ancora confermata.''), d1)
        else elevate svc w now c (\<lambda>user d. d) d1)"

section \<open>OIDC\<close>

definition map_oidc_identity :: "uuid \<Rightarrow> string \<Rightarrow> string \<Rightarrow> uuid \<Rightarrow> db \<Rightarrow> oidc_identity res \<times> db" where
  "map_oidc_identity new_id provider subject user_id d =
    (if user_by_id user_id d = None then (Inl (AuthenticationError ''Utente locale non valido.''), d)
     else case find (\<lambda>o'. oi_provider o' = provider \<and> oi_subject o' = subject) (t_oidc d) of
       Some existing \<Rightarrow>
         if oi_user_id existing \<noteq> user_id then (Inl (AuthenticationError ''Identita OIDC gia associata.''), d)
         else (Inr existing, d)
     | None \<Rightarrow>
         let row = \<lparr>oi_id = new_id, oi_user_id = user_id, oi_provider = provider, oi_subject = subject\<rparr>
         in (Inr row, d\<lparr>t_oidc := t_oidc d @ [row]\<rparr>))"

section \<open>Sessions by identifier\<close>

lemma session_by_id_Some: "session_by_id i d = Some r \<Longrightarrow> r \<in> set (t_sessions d) \<and> se_id r = i"
  by (auto simp: session_by_id_def dest: find_SomeD)

lemma session_by_id_put:
  assumes "session_by_id i d = Some r" "se_id r' = se_id r"
  shows "session_by_id j (put_session r' d) = (if j = i then Some r' else session_by_id j d)"
proof -
  have i: "se_id r = i" using session_by_id_Some [OF assms(1)] by simp
  have "find (\<lambda>s. se_id s = i) rows = Some r \<Longrightarrow>
      find (\<lambda>s. se_id s = j) (upd_rows (\<lambda>s. se_id s = se_id r') (\<lambda>_. r') rows)
      = (if j = i then Some r' else find (\<lambda>s. se_id s = j) rows)" for rows
    using assms(2) i by (induction rows) (auto simp: find_upd_rows_other split: if_splits)
  then show ?thesis using assms(1) by (simp add: session_by_id_def put_session_def)
qed

lemma put_session_frame [simp]:
  "t_users (put_session r d) = t_users d" "t_mfa (put_session r d) = t_mfa d"
  "t_audit (put_session r d) = t_audit d" "t_oidc (put_session r d) = t_oidc d"
  by (simp_all add: put_session_def)

lemma by_id_audit [simp]:
  "session_by_id i (append_audit_event a w u tt ti ds c d) = session_by_id i d"
  "user_by_id j (append_audit_event a w u tt ti ds c d) = user_by_id j d"
  "mfa_of_user j (append_audit_event a w u tt ti ds c d) = mfa_of_user j d"
  by (simp_all add: session_by_id_def user_by_id_def mfa_of_user_def)

lemma user_by_id_put_session [simp]: "user_by_id j (put_session r d) = user_by_id j d"
  by (simp add: user_by_id_def)

lemma hash_opaque_ascii: "\<not> list_ex (\<lambda>c. 128 \<le> code c) (hash_opaque_token t)"
  using sha256_hex_lower [of _ "utf8 t"]
  by (fastforce simp: hash_opaque_token_def list_ex_iff is_hex_lower_def is_digit_def)

text \<open>Stored hashes are hexadecimal, so the comparison never raises.\<close>

definition session_hashes_ok :: "session_row \<Rightarrow> bool" where
  "session_hashes_ok r \<longleftrightarrow>
     \<not> list_ex (\<lambda>c. 128 \<le> code c) (se_refresh_token_hash r)
     \<and> \<not> list_ex (\<lambda>c. 128 \<le> code c) (se_csrf_token_hash r)"

lemma tokens_match_ok:
  "session_hashes_ok r \<Longrightarrow> tokens_match r t c =
   Inr (se_refresh_token_hash r = hash_opaque_token t \<and> se_csrf_token_hash r = hash_opaque_token c)"
  by (simp add: tokens_match_def compare_digest_def session_hashes_ok_def hash_opaque_ascii)

section \<open>Who is authenticated\<close>

lemma authenticate_Inr:
  assumes "authenticate_access_token svc now token d = (Inr c, d')"
  obtains claims row user where "token_decode (as_tokens svc) now token = Inr claims"
    "parse_claims claims = Inr (ac_user_id c, ac_session_id c)"
    "session_by_id (ac_session_id c) d = Some row" "user_by_id (ac_user_id c) d = Some user"
    "claims_accepted claims now (ac_user_id c) user row" "ac_mfa_verified c = se_mfa_verified row"
    "d' = put_session (row\<lparr>se_last_seen_at := now\<rparr>) d"
  using assms
  by (auto simp: authenticate_access_token_def session_invalid_def
      split: sum.splits option.splits prod.splits if_splits)

lemma authenticate_error_unchanged: "authenticate_access_token svc now token d = (Inl e, d') \<Longrightarrow> d' = d"
  by (auto simp: authenticate_access_token_def split: sum.splits option.splits prod.splits if_splits)

text \<open>The contract of the token library: what was issued is decoded while it is valid.\<close>

definition tokens_decode :: "token_service \<Rightarrow> bool" where
  "tokens_decode ts \<longleftrightarrow>
     (\<forall>p now. jw_iss p = ts_issuer ts \<longrightarrow> jw_aud p = ts_audience ts \<longrightarrow> jw_nbf p \<le> now \<longrightarrow> now < jw_exp p \<longrightarrow>
        ts_decode ts now (ts_issuer ts) (ts_audience ts) (ts_encode ts p) = Some p)"

lemma token_decode_issue:
  assumes "tokens_decode ts" "t \<le> now" "now < t + ts_lifetime ts"
  shows "token_decode ts now (token_issue ts t jti c) = Inr c"
proof -
  let ?p = "\<lparr>jw_sub = tk_user_id c, jw_sid = tk_session_id c, jw_sv = tk_session_version c,
      jw_mfa = Some (tk_mfa_verified c), jw_iss = ts_issuer ts, jw_aud = ts_audience ts, jw_iat = t,
      jw_nbf = t, jw_exp = t + ts_lifetime ts, jw_jti = jti\<rparr>"
  have "ts_decode ts now (ts_issuer ts) (ts_audience ts) (ts_encode ts ?p) = Some ?p"
    using assms by (simp add: tokens_decode_def)
  then show ?thesis by (simp add: token_decode_def token_issue_def)
qed

lemma login_Inr:
  assumes "login_auth svc w now email password d = (Inr tokens, d')"
  obtains user row where "user_by_email (py_casefold (py_strip email)) d = Some user"
    "password_verify (as_passwords svc) password (Some (us_password_hash user))" "us_is_active user"
    "row = \<lparr>se_id = dw_session_id w, se_user_id = us_id user,
       se_refresh_token_hash = hash_opaque_token (dw_refresh w),
       se_csrf_token_hash = hash_opaque_token (dw_csrf w), se_mfa_verified = False,
       se_last_seen_at = now, se_expires_at = now + as_refresh_lifetime svc, se_revoked_at = None\<rparr>"
    "tokens = token_bundle svc w now user row" "t_sessions d' = t_sessions d @ [row]"
    "t_users d' = t_users d"
  using assms
  by (auto simp: login_auth_def create_session_def Let_def split: option.splits if_splits)

lemma login_denied_unchanged:
  "login_auth svc w now email password d = (Inl e, d') \<Longrightarrow>
   run_session (on_db (login_auth svc w now email password)) st = (r, st') \<Longrightarrow> st_db st = d \<Longrightarrow> st' = st"
  by (auto simp: run_on_db)

text \<open>A fresh access token authenticates its user, without multi-factor verification.\<close>

lemma login_then_authenticate:
  assumes login: "login_auth svc w now email password d = (Inr tokens, d')"
    and lib: "tokens_decode (as_tokens svc)" "0 < ts_lifetime (as_tokens svc)" "0 < as_refresh_lifetime svc"
    and ok: "integrity_ok d" and fresh: "session_by_id (dw_session_id w) d = None"
  obtains user d'' where "user_by_email (py_casefold (py_strip email)) d = Some user"
    "authenticate_access_token svc now (at_access_token tokens) d' =
      (Inr \<lparr>ac_user_id = us_id user, ac_session_id = dw_session_id w, ac_mfa_verified = False\<rparr>, d'')"
proof -
  obtain user row where l: "user_by_email (py_casefold (py_strip email)) d = Some user"
    "us_is_active user"
    "row = \<lparr>se_id = dw_session_id w, se_user_id = us_id user,
       se_refresh_token_hash = hash_opaque_token (dw_refresh w),
       se_csrf_token_hash = hash_opaque_token (dw_csrf w), se_mfa_verified = False,
       se_last_seen_at = now, se_expires_at = now + as_refresh_lifetime svc, se_revoked_at = None\<rparr>"
    "tokens = token_bundle svc w now user row" "t_sessions d' = t_sessions d @ [row]"
    "t_users d' = t_users d"
    using login by (rule login_Inr)
  have session: "session_by_id (dw_session_id w) d' = Some row"
    using fresh l(3,5) by (simp add: session_by_id_def find_append)
  have "user \<in> set (t_users d)" using l(1) by (auto simp: user_by_email_def dest: find_SomeD)
  then have user: "user_by_id (us_id user) d' = Some user"
    using integrity_okD(1) [OF ok] by (simp add: user_by_id_def l(6) find_unique)
  have "token_decode (as_tokens svc) now (at_access_token tokens)
      = Inr \<lparr>tk_user_id = uuid_text (us_id user), tk_session_id = uuid_text (dw_session_id w),
             tk_session_version = us_session_version user, tk_mfa_verified = False\<rparr>"
    using token_decode_issue [OF lib(1), of now now] lib(2) l(3,4) by (simp add: token_bundle_def)
  then show ?thesis
    using that l(1,2,3) session user lib(3)
    by (simp add: authenticate_access_token_def parse_claims_def claims_accepted_def)
qed

section \<open>Refreshing\<close>

text \<open>A presented token that does not match revokes the session, and the revocation is kept.\<close>

lemma refresh_replay:
  assumes rec: "session_by_id i (st_db st) = Some r" "se_revoked_at r = None" "now < se_expires_at r"
    and hashes: "session_hashes_ok r"
    and wrong: "se_refresh_token_hash r \<noteq> hash_opaque_token t \<or> se_csrf_token_hash r \<noteq> hash_opaque_token c"
    and ok: "integrity_ok (put_session (r\<lparr>se_revoked_at := Some now\<rparr>) (st_db st))"
  shows "run_session (refresh_auth svc w now i t c) st
    = (session_invalid, st\<lparr>st_db := put_session (r\<lparr>se_revoked_at := Some now\<rparr>) (st_db st)\<rparr>)"
  using assms tokens_match_ok [OF hashes, of t c]
  by (auto simp: run_session_def refresh_auth_def begin_session_def commit_session_def session_invalid_def
      rollback_session_def end_session_def)

lemma refresh_revoked: "session_by_id i (work s) = Some r \<Longrightarrow> se_revoked_at r \<noteq> None \<Longrightarrow>
   refresh_auth svc w now i t c s = (session_invalid, s)"
  by (simp add: refresh_auth_def)

lemma authenticate_revoked:
  assumes "session_by_id i d = Some r" "se_revoked_at r \<noteq> None"
    "token_decode (as_tokens svc) now token = Inr claims" "uuid_parse (tk_session_id claims) = Inr i"
  shows "authenticate_access_token svc now token d = (session_invalid, d)"
  using assms
  by (auto simp: authenticate_access_token_def parse_claims_def claims_accepted_def session_invalid_def
      split: sum.splits option.splits)

lemma refresh_Inr:
  assumes "refresh_auth svc w now i t c s = (Inr tokens, s')"
  obtains r user where "session_by_id i (work s) = Some r" "se_revoked_at r = None" "now < se_expires_at r"
    "tokens_match r t c = Inr True" "user_by_id (se_user_id r) (work s) = Some user" "us_is_active user"
    "s' = s\<lparr>work := put_session (r\<lparr>se_refresh_token_hash := hash_opaque_token (dw_refresh w),
           se_csrf_token_hash := hash_opaque_token (dw_csrf w), se_last_seen_at := now\<rparr>) (work s)\<rparr>"
    "at_refresh_token tokens = dw_refresh w" "at_csrf_token tokens = dw_csrf w"
  using assms
  by (auto simp: refresh_auth_def session_invalid_def rotate_session_def token_bundle_def Let_def
      split: option.splits if_splits sum.splits bool.splits prod.splits)

text \<open>An inactive user: the revocation is only in the session, and the request rolls it back.\<close>

lemma refresh_inactive_rolled_back:
  assumes "session_by_id i (st_db st) = Some r" "se_revoked_at r = None" "now < se_expires_at r"
    "tokens_match r t c = Inr True" "user_by_id (se_user_id r) (st_db st) = Some user" "\<not> us_is_active user"
  shows "run_session (refresh_auth svc w now i t c) st = (session_invalid, st)"
  using assms
  by (simp add: run_session_def refresh_auth_def begin_session_def session_invalid_def rollback_session_def
      end_session_def)

section \<open>Revoking everything\<close>

lemma revoke_all_sessions:
  assumes "user_by_id u d \<noteq> None" "r \<in> set (t_sessions (revoke_all now u d))" "se_user_id r = u"
  shows "se_revoked_at r \<noteq> None"
proof -
  obtain user where "user_by_id u d = Some user" using assms(1) by blast
  then have "r \<in> (\<lambda>s. if se_user_id s = u \<and> se_revoked_at s = None then s\<lparr>se_revoked_at := Some now\<rparr> else s)
      ` set (t_sessions d)"
    using assms(2) by (simp add: revoke_all_def set_upd_rows)
  then obtain x where "r = (if se_user_id x = u \<and> se_revoked_at x = None then x\<lparr>se_revoked_at := Some now\<rparr> else x)"
    by blast
  then show ?thesis using assms(3) by (cases "se_user_id x = u \<and> se_revoked_at x = None") auto
qed

lemma revoke_all_version:
  assumes "user_by_id u d = Some user"
  shows "\<exists>user'. user_by_id u (revoke_all now u d) = Some user'
    \<and> us_session_version user' = us_session_version user + 1"
proof -
  have "find (\<lambda>x. us_id x = u) rows = Some user \<Longrightarrow> find (\<lambda>x. us_id x = u)
      (upd_rows (\<lambda>x. us_id x = u) (\<lambda>x. x\<lparr>us_session_version := us_session_version x + 1\<rparr>) rows)
      = Some (user\<lparr>us_session_version := us_session_version user + 1\<rparr>)" for rows
    by (induction rows) (auto split: if_splits)
  then show ?thesis using assms by (simp add: user_by_id_def revoke_all_def)
qed

lemma revoke_all_others:
  "filter (\<lambda>r. se_user_id r \<noteq> u) (t_sessions (revoke_all now u d)) = filter (\<lambda>r. se_user_id r \<noteq> u) (t_sessions d)"
proof -
  have "filter (\<lambda>r. se_user_id r \<noteq> u) (upd_rows (\<lambda>s. se_user_id s = u \<and> se_revoked_at s = None)
      (\<lambda>s. s\<lparr>se_revoked_at := Some now\<rparr>) rows) = filter (\<lambda>r. se_user_id r \<noteq> u) rows" for rows :: "session_row list"
    by (induction rows) auto
  then show ?thesis by (simp add: revoke_all_def split: option.split)
qed

section \<open>Multi-factor authentication\<close>

lemma mfa_of_user_put:
  assumes "mfa_of_user u d = Some m" "mf_user_id m' = mf_user_id m"
  shows "mfa_of_user u (put_mfa m' d) = Some m'"
proof -
  have "mf_user_id m = u" using assms(1) by (auto simp: mfa_of_user_def dest: find_SomeD)
  then have "find (\<lambda>x. mf_user_id x = u) rows = Some m \<Longrightarrow>
      find (\<lambda>x. mf_user_id x = u) (upd_rows (\<lambda>x. mf_user_id x = mf_user_id m') (\<lambda>_. m') rows) = Some m'" for rows
    using assms(2) by (induction rows) (auto split: if_splits)
  then show ?thesis using assms(1) by (simp add: mfa_of_user_def put_mfa_def)
qed

lemma verified_mfa_Inr:
  assumes "verified_mfa_credential svc now u passcode d = Inr m"
  obtains m0 where "mfa_of_user u d = Some m0" "mf_user_id m = mf_user_id m0"
    "mf_confirmed_at m = mf_confirmed_at m0" "mf_secret_ciphertext m = mf_secret_ciphertext m0"
    "m = m0 \<or> mf_recovery_code_hashes m = filter (\<lambda>x. x \<noteq> hash_opaque_token passcode) (mf_recovery_code_hashes m0)"
  using assms
  by (auto simp: verified_mfa_credential_def bind_res_Inr_iff Let_def split: option.splits if_splits)

lemma put_mfa_frame [simp]:
  "t_users (put_mfa m d) = t_users d" "t_sessions (put_mfa m d) = t_sessions d" "t_audit (put_mfa m d) = t_audit d"
  by (simp_all add: put_mfa_def)

lemma elevate_Inr:
  assumes "elevate svc w now c f d = (Inr tokens, d')"
  obtains row user where "session_by_id (ac_session_id c) d = Some row" "user_by_id (ac_user_id c) d = Some user"
    "se_revoked_at row = None"
    "d' = put_session (row\<lparr>se_mfa_verified := True, se_refresh_token_hash := hash_opaque_token (dw_refresh w),
       se_csrf_token_hash := hash_opaque_token (dw_csrf w), se_last_seen_at := now\<rparr>) (f user d)"
  using assms
  by (auto simp: elevate_def session_invalid_def rotate_session_def Let_def split: option.splits if_splits)

text \<open>A recovery code works once.\<close>

lemma recovery_code_once:
  assumes run: "verify_mfa svc w now c passcode d = (Inr tokens, d')"
    and not_totp: "\<And>t s. \<not> as_totp_verify svc t s passcode" and same: "ac_user_id c' = ac_user_id c"
  shows "\<exists>e. fst (verify_mfa svc w' now' c' passcode d') = Inl e"
proof -
  obtain m where m: "verified_mfa_credential svc now (ac_user_id c) passcode d = Inr m"
    using run by (cases "verified_mfa_credential svc now (ac_user_id c) passcode d") (auto simp: verify_mfa_def)
  have hashes: "hash_opaque_token passcode \<notin> set (mf_recovery_code_hashes m)"
    using m not_totp by (auto simp: verified_mfa_credential_def bind_res_Inr_iff Let_def split: option.splits if_splits)
  obtain m0 where m0: "mfa_of_user (ac_user_id c) d = Some m0" "mf_user_id m = mf_user_id m0"
    using m by (rule verified_mfa_Inr)
  have el: "elevate svc w now c (\<lambda>user d. d) (put_mfa m d) = (Inr tokens, d')"
    using run m by (auto simp: verify_mfa_def Let_def split: if_splits)
  obtain x where "d' = put_session x (put_mfa m d)"
    using el by (rule elevate_Inr) auto
  then have "mfa_of_user (ac_user_id c) d' = Some m"
    using mfa_of_user_put [OF m0] by (simp add: mfa_of_user_def)
  then have "\<exists>e. verified_mfa_credential svc now' (ac_user_id c') passcode d' = Inl e"
    using same not_totp hashes
    by (cases "secret_decrypt (as_decrypt svc) (as_cipher svc) (mf_secret_ciphertext m) (mfa_aad (ac_user_id c))")
      (auto simp: verified_mfa_credential_def Let_def)
  then show ?thesis by (auto simp: verify_mfa_def)
qed

text \<open>
  Starting an enrolment from a verified session clears the confirmation, so a session that
  never passed the second factor is then let through the guard.
\<close>

lemma enrollment_reopens:
  assumes run: "begin_mfa_enrollment svc w c d = (Inr e, d')" and m: "mfa_of_user (ac_user_id c) d = Some m"
    and user: "mf_user_id m = ac_user_id c"
  shows "\<exists>m'. mfa_of_user (ac_user_id c) d' = Some m' \<and> mf_confirmed_at m' = None"
proof -
  obtain ct where ct: "secret_encrypt (as_encrypt svc) (as_cipher svc) (dw_nonce w) (dw_secret w)
      (mfa_aad (ac_user_id c)) = Inr ct"
    using run m by (auto simp: begin_mfa_enrollment_def Let_def split: option.splits if_splits sum.splits)
  let ?row = "\<lparr>mf_user_id = ac_user_id c, mf_secret_ciphertext = ct,
    mf_recovery_code_hashes = map hash_opaque_token (dw_codes w), mf_confirmed_at = None\<rparr>"
  have "d' = put_mfa ?row d"
    using run m ct by (auto simp: begin_mfa_enrollment_def Let_def split: option.splits if_splits)
  then show ?thesis using mfa_of_user_put [OF m, of ?row] user by simp
qed

end
