(* ===== verification/IpAddress.thy ===== *)
theory IpAddress
  imports PyText
begin

unbundle bit_operations_syntax

text \<open>
  IP addresses as the standard library's \<open>ipaddress\<close> has them: reading an address, printing it
  (an IPv6 address with its longest run of zeros compressed), membership in a network, and
  \<open>is_global\<close> with the library's tables of networks that are not globally reachable. The
  URL policy rests on these.
\<close>

datatype ip_address = IPv4 "32 word" | IPv6 "128 word" "string option"

section \<open>Reading\<close>

definition decimal_value :: "string \<Rightarrow> nat" where
  "decimal_value s = foldl (\<lambda>acc c. 10 * acc + (code c - 48)) 0 s"

definition parse_octet :: "string \<Rightarrow> nat option" where
  "parse_octet s =
    (if s = [] \<or> \<not> list_all is_digit s \<or> 3 < length s \<or> (s \<noteq> ''0'' \<and> hd s = CHR ''0'') then None
     else if decimal_value s > 255 then None else Some (decimal_value s))"

fun parse_octets :: "nat \<Rightarrow> string list \<Rightarrow> nat option" where
  "parse_octets acc [] = Some acc"
| "parse_octets acc (s # ss) =
    (case parse_octet s of None \<Rightarrow> None | Some n \<Rightarrow> parse_octets (256 * acc + n) ss)"

definition parse_ipv4 :: "string \<Rightarrow> nat option" where
  "parse_ipv4 s = (let os = split_on CHR ''.'' s in if length os \<noteq> 4 then None else parse_octets 0 os)"

definition parse_hextet :: "string \<Rightarrow> nat option" where
  "parse_hextet s = (if s = [] \<or> 4 < length s then None else hex_parse 0 s)"

fun parse_hextets :: "nat \<Rightarrow> string list \<Rightarrow> nat option" where
  "parse_hextets acc [] = Some acc"
| "parse_hextets acc (s # ss) =
    (case parse_hextet s of None \<Rightarrow> None | Some n \<Rightarrow> parse_hextets (65536 * acc + n) ss)"

text \<open>\<open>'%x' % n\<close>\<close>

fun hex_text :: "nat \<Rightarrow> string" where
  "hex_text n = (if n < 16 then [hex_digit n] else hex_text (n div 16) @ [hex_digit (n mod 16)])"

declare hex_text.simps [simp del]

text \<open>An IPv4 suffix is rewritten as two hextets.\<close>

definition expand_ipv4_suffix :: "string list \<Rightarrow> string list option" where
  "expand_ipv4_suffix parts =
    (if CHR ''.'' \<in> set (last parts)
     then (case parse_ipv4 (last parts) of
             None \<Rightarrow> None
           | Some n \<Rightarrow> Some (butlast parts @ [hex_text (n div 65536), hex_text (n mod 65536)]))
     else Some parts)"

text \<open>The positions, first and last excepted, where two colons meet.\<close>

definition skip_indices :: "string list \<Rightarrow> nat list" where
  "skip_indices parts = filter (\<lambda>i. parts ! i = []) [1..<length parts - 1]"

text \<open>An address with a \<open>::\<close> at position \<open>i\<close>.\<close>

definition parse_skipped :: "string list \<Rightarrow> nat \<Rightarrow> nat option" where
  "parse_skipped parts i =
    (let hi = (if hd parts = [] then i - 1 else i);
         lo0 = length parts - i - 1;
         lo = (if last parts = [] then lo0 - 1 else lo0)
     in if hd parts = [] \<and> hi \<noteq> 0 then None
        else if last parts = [] \<and> lo \<noteq> 0 then None
        else if 8 < hi + lo + 1 then None
        else (case parse_hextets 0 (take hi parts) of
                None \<Rightarrow> None
              | Some n \<Rightarrow> parse_hextets (n * 65536 ^ (8 - (hi + lo))) (drop (length parts - lo) parts)))"

definition parse_ipv6_int :: "string \<Rightarrow> nat option" where
  "parse_ipv6_int s =
    (let parts0 = split_on CHR '':'' s in
     if s = [] \<or> length parts0 < 3 then None
     else case expand_ipv4_suffix parts0 of
       None \<Rightarrow> None
     | Some parts \<Rightarrow>
         if 9 < length parts then None
         else (case skip_indices parts of
                 [] \<Rightarrow> if length parts \<noteq> 8 \<or> hd parts = [] \<or> last parts = [] then None
                       else parse_hextets 0 parts
               | [i] \<Rightarrow> parse_skipped parts i
               | _ \<Rightarrow> None))"

text \<open>\<open>addr%scope\<close>\<close>

definition parse_ipv6 :: "string \<Rightarrow> ip_address option" where
  "parse_ipv6 s =
    (let a = before_char CHR ''%'' s; scope = drop (Suc (length a)) s in
     if CHR ''/'' \<in> set s then None
     else if CHR ''%'' \<in> set s \<and> (scope = [] \<or> CHR ''%'' \<in> set scope) then None
     else (case parse_ipv6_int a of
             None \<Rightarrow> None
           | Some n \<Rightarrow> Some (IPv6 (word_of_nat n) (if CHR ''%'' \<in> set s then Some scope else None))))"

definition parse_ip :: "string \<Rightarrow> ip_address option" where
  "parse_ip s =
    (case parse_ipv4 s of Some n \<Rightarrow> Some (IPv4 (word_of_nat n)) | None \<Rightarrow> parse_ipv6 s)"

section \<open>Printing\<close>

definition ipv4_text :: "32 word \<Rightarrow> string" where
  "ipv4_text a = (let n = unat a in
     join_with ''.'' (map nat_digits [n div 2 ^ 24, n div 2 ^ 16 mod 256, n div 256 mod 256, n mod 256]))"

definition hextets_of :: "128 word \<Rightarrow> string list" where
  "hextets_of a = map (\<lambda>i. hex_text (unat a div 65536 ^ i mod 65536)) [7, 6, 5, 4, 3, 2, 1, 0]"

text \<open>
  The longest run of ''0'' as (start, length), the first of equals: the loop of
  \<open>_compress_hextets\<close> with its current run and its best run.
\<close>

fun best_run :: "nat \<Rightarrow> nat \<times> nat \<Rightarrow> nat \<times> nat \<Rightarrow> string list \<Rightarrow> nat \<times> nat" where
  "best_run i (cs, cl) (bs, bl) [] = (bs, bl)"
| "best_run i (cs, cl) (bs, bl) (h # hs) =
    (if h = ''0''
     then (let cs' = (if cl = 0 then i else cs); cl' = cl + 1
           in best_run (i + 1) (cs', cl') (if bl < cl' then (cs', cl') else (bs, bl)) hs)
     else best_run (i + 1) (0, 0) (bs, bl) hs)"

definition compress_hextets :: "string list \<Rightarrow> string list" where
  "compress_hextets hs =
    (case best_run 0 (0, 0) (0, 0) hs of
       (s, l) \<Rightarrow>
         if 1 < l
         then (if s = 0 then [''''] else []) @ take s hs @ [''''] @ drop (s + l) hs
              @ (if s + l = length hs then [''''] else [])
         else hs)"

fun ip_text :: "ip_address \<Rightarrow> string" where
  "ip_text (IPv4 a) = ipv4_text a"
| "ip_text (IPv6 a scope) =
    join_with '':'' (compress_hextets (hextets_of a)) @ (case scope of None \<Rightarrow> [] | Some z \<Rightarrow> ''%'' @ z)"

section \<open>Networks\<close>

text \<open>A network is its first address and the length of its prefix.\<close>

definition in_net4 :: "32 word \<Rightarrow> nat \<times> nat \<Rightarrow> bool" where
  "in_net4 a net = (case net of (base, len) \<Rightarrow> unat (drop_bit (32 - len) a) = base div 2 ^ (32 - len))"

definition in_net6 :: "128 word \<Rightarrow> nat \<times> nat \<Rightarrow> bool" where
  "in_net6 a net = (case net of (base, len) \<Rightarrow> unat (drop_bit (128 - len) a) = base div 2 ^ (128 - len))"

definition net4 :: "nat \<Rightarrow> nat \<Rightarrow> nat \<Rightarrow> nat \<Rightarrow> nat \<Rightarrow> nat \<times> nat" where
  "net4 a b c d len = (((a * 256 + b) * 256 + c) * 256 + d, len)"

definition private_networks4 :: "(nat \<times> nat) list" where
  "private_networks4 = [net4 0 0 0 0 8, net4 10 0 0 0 8, net4 127 0 0 0 8, net4 169 254 0 0 16,
     net4 172 16 0 0 12, net4 192 0 0 0 24, net4 192 0 0 170 31, net4 192 0 2 0 24, net4 192 168 0 0 16,
     net4 198 18 0 0 15, net4 198 51 100 0 24, net4 203 0 113 0 24, net4 240 0 0 0 4,
     net4 255 255 255 255 32]"

definition private_exceptions4 :: "(nat \<times> nat) list" where
  "private_exceptions4 = [net4 192 0 0 9 32, net4 192 0 0 10 32]"

definition shared_network4 :: "nat \<times> nat" where
  "shared_network4 = net4 100 64 0 0 10"

definition is_private4 :: "32 word \<Rightarrow> bool" where
  "is_private4 a \<longleftrightarrow> list_ex (in_net4 a) private_networks4 \<and> \<not> list_ex (in_net4 a) private_exceptions4"

definition is_global4 :: "32 word \<Rightarrow> bool" where
  "is_global4 a \<longleftrightarrow> \<not> in_net4 a shared_network4 \<and> \<not> is_private4 a"

text \<open>A prefix written by its leading hextets.\<close>

definition net6 :: "nat list \<Rightarrow> nat \<Rightarrow> nat \<times> nat" where
  "net6 hs len = (foldl (\<lambda>acc h. acc * 65536 + h) 0 hs * 65536 ^ (8 - length hs), len)"

definition private_networks6 :: "(nat \<times> nat) list" where
  "private_networks6 = [net6 [0, 0, 0, 0, 0, 0, 0, 1] 128, net6 [0] 128, net6 [0, 0, 0, 0, 0, 0xffff] 96,
     net6 [0x64, 0xff9b, 1] 48, net6 [0x100] 64, net6 [0x2001] 23, net6 [0x2001, 0xdb8] 32,
     net6 [0x2002] 16, net6 [0xfc00] 7, net6 [0xfe80] 10]"

definition private_exceptions6 :: "(nat \<times> nat) list" where
  "private_exceptions6 = [net6 [0x2001, 1, 0, 0, 0, 0, 0, 1] 128, net6 [0x2001, 1, 0, 0, 0, 0, 0, 2] 128,
     net6 [0x2001, 3] 32, net6 [0x2001, 4, 0x112] 48, net6 [0x2001, 0x20] 28, net6 [0x2001, 0x30] 28]"

definition ipv4_mapped :: "128 word \<Rightarrow> 32 word option" where
  "ipv4_mapped a = (if drop_bit 32 a = 0xFFFF then Some (ucast a) else None)"

definition is_private6 :: "128 word \<Rightarrow> bool" where
  "is_private6 a =
    (case ipv4_mapped a of
       Some v4 \<Rightarrow> is_private4 v4
     | None \<Rightarrow> list_ex (in_net6 a) private_networks6 \<and> \<not> list_ex (in_net6 a) private_exceptions6)"

fun is_global :: "ip_address \<Rightarrow> bool" where
  "is_global (IPv4 a) = is_global4 a"
| "is_global (IPv6 a _) = (\<not> is_private6 a)"

section \<open>Printing and reading IPv4\<close>

lemma decimal_value_snoc: "decimal_value (s @ [c]) = 10 * decimal_value s + (code c - 48)"
  by (simp add: decimal_value_def)

lemma decimal_value_nat_digits: "decimal_value (nat_digits n) = n"
proof (induction n rule: nat_digits.induct)
  case (1 n)
  then show ?case
    by (cases "n < 10") (simp_all add: nat_digits.simps [of n] decimal_value_snoc, simp add: decimal_value_def)
qed

lemma nat_digits_digit: "c \<in> set (nat_digits n) \<Longrightarrow> is_digit c"
proof (induction n rule: nat_digits.induct)
  case (1 n)
  then show ?case
    by (cases "n < 10") (auto simp: nat_digits.simps [of n] is_digit_def)
qed

lemma nat_digits_not_Nil [simp]: "nat_digits n \<noteq> []"
  by (simp add: nat_digits.simps [of n])

lemma length_nat_digits: "n < 10 ^ k \<Longrightarrow> 0 < k \<Longrightarrow> length (nat_digits n) \<le> k"
proof (induction k arbitrary: n)
  case (Suc k)
  show ?case
  proof (cases "n < 10")
    case False
    then have "0 < k" using Suc.prems by (cases k) auto
    moreover have "n div 10 < 10 ^ k" using Suc.prems by (simp add: div_less_iff_less_mult mult.commute)
    ultimately show ?thesis using Suc.IH [of "n div 10"] False by (simp add: nat_digits.simps [of n])
  qed (simp add: nat_digits.simps [of n])
qed simp

lemma hd_nat_digits: "0 < n \<Longrightarrow> hd (nat_digits n) \<noteq> CHR ''0''"
proof (induction n rule: nat_digits.induct)
  case (1 n)
  show ?case
  proof (cases "n < 10")
    case True
    have "char_of (48 + n) \<noteq> CHR ''0''"
    proof
      assume "char_of (48 + n) = CHR ''0''"
      then have "code (char_of (48 + n)) = code CHR ''0''" by (rule arg_cong)
      then show False using True 1(2) by simp
    qed
    then show ?thesis using 1 True by (simp add: nat_digits.simps [of n])
  next
    case False
    then show ?thesis using 1 by (simp add: nat_digits.simps [of n] div_greater_zero_iff)
  qed
qed

lemma parse_octet_nat_digits:
  assumes "n < 256"
  shows "parse_octet (nat_digits n) = Some n"
proof -
  have "length (nat_digits n) \<le> 3" using assms by (intro length_nat_digits) auto
  moreover have "nat_digits n = ''0'' \<or> hd (nat_digits n) \<noteq> CHR ''0''"
  proof (cases "n = 0")
    case True
    then show ?thesis by (simp add: nat_digits.simps [of 0])
  qed (simp add: hd_nat_digits)
  ultimately show ?thesis
    using assms by (auto simp: parse_octet_def decimal_value_nat_digits list_all_iff dest: nat_digits_digit)
qed

lemma split_on_no_delim: "d \<notin> set s \<Longrightarrow> split_on d s = [s]"
  by (induction s) auto

lemma split_on_append: "d \<notin> set s \<Longrightarrow> split_on d (s @ d # t) = s # split_on d t"
  by (induction s) auto

lemma dot_nat_digits: "CHR ''.'' \<notin> set (nat_digits n)"
  by (auto dest!: nat_digits_digit simp: is_digit_def)

lemma parse_ipv4_text: "parse_ipv4 (ipv4_text a) = Some (unat a)"
proof -
  define n where "n = unat a"
  have n: "n < 2 ^ 32" using unsigned_less [of a, where 'a = nat] by (simp add: n_def)
  have parts: "n div 2 ^ 24 < 256" "n div 2 ^ 16 mod 256 < 256" "n div 256 mod 256 < 256" "n mod 256 < 256"
    using n by (simp_all add: div_less_iff_less_mult)
  have sum: "256 * (256 * (256 * (n div 2 ^ 24) + n div 2 ^ 16 mod 256) + n div 256 mod 256) + n mod 256 = n"
  proof -
    have "n div 2 ^ 16 = n div 256 div 256" "n div 2 ^ 24 = n div 256 div 256 div 256"
      by (simp_all add: div_mult2_eq [symmetric])
    then show ?thesis by (simp only: mult_div_mod_eq)
  qed
  have split: "split_on CHR ''.'' (ipv4_text a)
      = map nat_digits [n div 2 ^ 24, n div 2 ^ 16 mod 256, n div 256 mod 256, n mod 256]"
    by (simp add: ipv4_text_def n_def [symmetric] split_on_append split_on_no_delim dot_nat_digits del: append_Cons
        flip: append_Cons) (simp add: split_on_append split_on_no_delim dot_nat_digits)
  show ?thesis
    unfolding parse_ipv4_def split Let_def
    using parse_octet_nat_digits [OF parts(1)] parse_octet_nat_digits [OF parts(2)]
      parse_octet_nat_digits [OF parts(3)] parse_octet_nat_digits [OF parts(4)] sum
    by (simp add: n_def)
qed

end
