(* ===== verification/Regex.thy ===== *)
theory Regex
  imports PyText
begin

text \<open>
  Regular expressions, for the patterns the program compiles with \<open>re\<close> and applies with
  \<open>fullmatch\<close>. A pattern is a term that reads like the source's pattern; \<open>rx_fullmatch\<close>
  decides it by derivatives and \<open>rx_lang\<close> is the set of texts it describes. The two agree
  (\<open>rx_fullmatch_iff\<close>), so a proof about accepted text reasons about sets of strings while
  a concrete check is evaluated.
\<close>

datatype rx =
    RNone
  | REps
  | RCls "char \<Rightarrow> bool"
  | RSeq rx rx
  | RAlt rx rx
  | RRep nat nat rx
  | RStar rx

definition lang_seq :: "string set \<Rightarrow> string set \<Rightarrow> string set" where
  "lang_seq A B = {u @ v |u v. u \<in> A \<and> v \<in> B}"

fun lang_pow :: "string set \<Rightarrow> nat \<Rightarrow> string set" where
  "lang_pow A 0 = {[]}"
| "lang_pow A (Suc n) = lang_seq A (lang_pow A n)"

fun rx_lang :: "rx \<Rightarrow> string set" where
  "rx_lang RNone = {}"
| "rx_lang REps = {[]}"
| "rx_lang (RCls P) = {[c] |c. P c}"
| "rx_lang (RSeq r s) = lang_seq (rx_lang r) (rx_lang s)"
| "rx_lang (RAlt r s) = rx_lang r \<union> rx_lang s"
| "rx_lang (RRep m n r) = (\<Union>k \<in> {m..n}. lang_pow (rx_lang r) k)"
| "rx_lang (RStar r) = (\<Union>k. lang_pow (rx_lang r) k)"

section \<open>Patterns as the source writes them\<close>

definition r_chr :: "char \<Rightarrow> rx" where
  "r_chr c = RCls (\<lambda>d. d = c)"

definition r_any_of :: "string \<Rightarrow> rx" where
  "r_any_of cs = RCls (\<lambda>d. d \<in> set cs)"

definition r_opt :: "rx \<Rightarrow> rx" where
  "r_opt r = RAlt REps r"

definition r_plus :: "rx \<Rightarrow> rx" where
  "r_plus r = RSeq r (RStar r)"

fun r_seq :: "rx list \<Rightarrow> rx" where
  "r_seq [] = REps"
| "r_seq [r] = r"
| "r_seq (r # rs) = RSeq r (r_seq rs)"

definition r_lit :: "string \<Rightarrow> rx" where
  "r_lit s = r_seq (map r_chr s)"

section \<open>Matching by derivatives\<close>

fun rx_nullable :: "rx \<Rightarrow> bool" where
  "rx_nullable RNone = False"
| "rx_nullable REps = True"
| "rx_nullable (RCls P) = False"
| "rx_nullable (RSeq r s) = (rx_nullable r \<and> rx_nullable s)"
| "rx_nullable (RAlt r s) = (rx_nullable r \<or> rx_nullable s)"
| "rx_nullable (RRep m n r) = (m \<le> n \<and> (m = 0 \<or> rx_nullable r))"
| "rx_nullable (RStar r) = True"

fun mk_seq :: "rx \<Rightarrow> rx \<Rightarrow> rx" where
  "mk_seq RNone s = RNone"
| "mk_seq REps s = s"
| "mk_seq r s = RSeq r s"

fun mk_alt :: "rx \<Rightarrow> rx \<Rightarrow> rx" where
  "mk_alt RNone s = s"
| "mk_alt r RNone = r"
| "mk_alt r s = RAlt r s"

fun rx_deriv :: "char \<Rightarrow> rx \<Rightarrow> rx" where
  "rx_deriv c RNone = RNone"
| "rx_deriv c REps = RNone"
| "rx_deriv c (RCls P) = (if P c then REps else RNone)"
| "rx_deriv c (RSeq r s) =
    (if rx_nullable r then mk_alt (mk_seq (rx_deriv c r) s) (rx_deriv c s)
     else mk_seq (rx_deriv c r) s)"
| "rx_deriv c (RAlt r s) = mk_alt (rx_deriv c r) (rx_deriv c s)"
| "rx_deriv c (RRep m n r) =
    (if n = 0 \<or> n < m then RNone else mk_seq (rx_deriv c r) (RRep (m - 1) (n - 1) r))"
| "rx_deriv c (RStar r) = mk_seq (rx_deriv c r) (RStar r)"

fun rx_fullmatch :: "rx \<Rightarrow> string \<Rightarrow> bool" where
  "rx_fullmatch r [] = rx_nullable r"
| "rx_fullmatch r (c # cs) = rx_fullmatch (rx_deriv c r) cs"

section \<open>The matcher decides the language\<close>

lemma lang_pow_Nil: "[] \<in> lang_pow A n \<longleftrightarrow> n = 0 \<or> [] \<in> A"
  by (induction n) (auto simp: lang_seq_def)

lemma rx_nullable_iff: "rx_nullable r \<longleftrightarrow> [] \<in> rx_lang r"
  by (induction r) (auto simp: lang_seq_def lang_pow_Nil)

lemma mk_seq_lang [simp]: "rx_lang (mk_seq r s) = lang_seq (rx_lang r) (rx_lang s)"
  by (cases "(r, s)" rule: mk_seq.cases) (auto simp: lang_seq_def)

lemma mk_alt_lang [simp]: "rx_lang (mk_alt r s) = rx_lang r \<union> rx_lang s"
  by (cases "(r, s)" rule: mk_alt.cases) auto

lemma lang_pow_mono: "[] \<in> A \<Longrightarrow> s \<in> lang_pow A k \<Longrightarrow> k \<le> n \<Longrightarrow> s \<in> lang_pow A n"
proof (induction n)
  case 0
  then show ?case by simp
next
  case (Suc n)
  show ?case
  proof (cases "k = Suc n")
    case False
    with Suc have "s \<in> lang_pow A n" by simp
    with Suc.prems(1) show ?thesis by (force simp: lang_seq_def)
  qed (use Suc in simp)
qed

text \<open>A nonempty word of a power has a nonempty first factor, with fewer factors after it.\<close>

lemma lang_pow_Cons:
  "c # cs \<in> lang_pow A n \<Longrightarrow>
   \<exists>u v k. cs = u @ v \<and> c # u \<in> A \<and> v \<in> lang_pow A k \<and> k < n \<and> (k \<noteq> n - 1 \<longrightarrow> [] \<in> A)"
proof (induction n)
  case 0
  then show ?case by simp
next
  case (Suc n)
  then obtain x y where xy: "c # cs = x @ y" "x \<in> A" "y \<in> lang_pow A n"
    by (auto simp: lang_seq_def)
  show ?case
  proof (cases x)
    case Nil
    with xy Suc.IH obtain u v k where
      "cs = u @ v" "c # u \<in> A" "v \<in> lang_pow A k" "k < n" by auto
    with Nil xy(2) show ?thesis by (metis less_SucI)
  next
    case (Cons d u)
    with xy have "cs = u @ y" "c # u \<in> A" by auto
    with xy(3) show ?thesis by (metis diff_Suc_1 lessI)
  qed
qed

lemma rx_deriv_lang: "cs \<in> rx_lang (rx_deriv c r) \<longleftrightarrow> c # cs \<in> rx_lang r"
proof (induction r arbitrary: cs)
  case (RSeq r s)
  have "c # cs \<in> rx_lang (RSeq r s) \<longleftrightarrow>
    (\<exists>u v. cs = u @ v \<and> c # u \<in> rx_lang r \<and> v \<in> rx_lang s) \<or> ([] \<in> rx_lang r \<and> c # cs \<in> rx_lang s)"
    by (auto simp: lang_seq_def Cons_eq_append_conv)
  then show ?case
    using RSeq by (auto simp: lang_seq_def rx_nullable_iff)
next
  case (RRep m n r)
  let ?A = "rx_lang r"
  have "c # cs \<in> rx_lang (RRep m n r) \<longleftrightarrow>
    (n \<noteq> 0 \<and> m \<le> n \<and> (\<exists>u v. cs = u @ v \<and> c # u \<in> ?A \<and> v \<in> rx_lang (RRep (m - 1) (n - 1) r)))"
  proof
    assume "c # cs \<in> rx_lang (RRep m n r)"
    then obtain i where i: "m \<le> i" "i \<le> n" "c # cs \<in> lang_pow ?A i" by auto
    then obtain u v k where uv: "cs = u @ v" "c # u \<in> ?A" "v \<in> lang_pow ?A k" "k < i"
      "k \<noteq> i - 1 \<longrightarrow> [] \<in> ?A" using lang_pow_Cons by blast
    then have "v \<in> lang_pow ?A (i - 1)" using lang_pow_mono [of ?A v k "i - 1"] by fastforce
    with i uv show "n \<noteq> 0 \<and> m \<le> n \<and>
      (\<exists>u v. cs = u @ v \<and> c # u \<in> ?A \<and> v \<in> rx_lang (RRep (m - 1) (n - 1) r))"
      by (fastforce intro!: bexI [of _ "i - 1"])
  next
    assume "n \<noteq> 0 \<and> m \<le> n \<and>
      (\<exists>u v. cs = u @ v \<and> c # u \<in> ?A \<and> v \<in> rx_lang (RRep (m - 1) (n - 1) r))"
    then obtain u v k where "n \<noteq> 0" "cs = u @ v" "c # u \<in> ?A" "m - 1 \<le> k" "k \<le> n - 1" "v \<in> lang_pow ?A k"
      by auto
    then have "m \<le> Suc k" "Suc k \<le> n" "c # cs \<in> lang_pow ?A (Suc k)"
      by (auto simp: lang_seq_def) (metis append_Cons)
    then show "c # cs \<in> rx_lang (RRep m n r)" by (auto simp del: lang_pow.simps)
  qed
  then show ?case using RRep by (auto simp: lang_seq_def)
next
  case (RStar r)
  let ?A = "rx_lang r"
  have "c # cs \<in> rx_lang (RStar r) \<longleftrightarrow>
    (\<exists>u v. cs = u @ v \<and> c # u \<in> ?A \<and> v \<in> rx_lang (RStar r))"
  proof
    assume "c # cs \<in> rx_lang (RStar r)"
    then obtain i where "c # cs \<in> lang_pow ?A i" by auto
    then obtain u v k where "cs = u @ v" "c # u \<in> ?A" "v \<in> lang_pow ?A k"
      using lang_pow_Cons by blast
    then show "\<exists>u v. cs = u @ v \<and> c # u \<in> ?A \<and> v \<in> rx_lang (RStar r)" by auto
  next
    assume "\<exists>u v. cs = u @ v \<and> c # u \<in> ?A \<and> v \<in> rx_lang (RStar r)"
    then obtain u v k where "cs = u @ v" "c # u \<in> ?A" "v \<in> lang_pow ?A k" by auto
    then have "c # cs \<in> lang_pow ?A (Suc k)" by (auto simp: lang_seq_def) (metis append_Cons)
    then show "c # cs \<in> rx_lang (RStar r)" by (auto simp del: lang_pow.simps)
  qed
  then show ?case using RStar by (auto simp: lang_seq_def)
qed auto

lemma rx_fullmatch_iff: "rx_fullmatch r s \<longleftrightarrow> s \<in> rx_lang r"
  by (induction s arbitrary: r) (simp_all add: rx_nullable_iff rx_deriv_lang)

section \<open>Languages of the derived forms\<close>

lemma r_chr_lang [simp]: "rx_lang (r_chr c) = {[c]}"
  by (auto simp: r_chr_def)

lemma r_any_of_lang: "rx_lang (r_any_of cs) = {[c] |c. c \<in> set cs}"
  by (auto simp: r_any_of_def)

lemma r_opt_lang [simp]: "rx_lang (r_opt r) = insert [] (rx_lang r)"
  by (auto simp: r_opt_def)

lemma lang_seq_cls: "lang_seq {[c] |c. P c} B = {c # s |c s. P c \<and> s \<in> B}"
proof -
  have "c # s \<in> lang_seq {[c] |c. P c} B" if "P c" "s \<in> B" for c s
  proof -
    have "c # s = [c] @ s" by simp
    with that show ?thesis unfolding lang_seq_def by blast
  qed
  then show ?thesis by (auto simp: lang_seq_def)
qed

lemma lang_pow_cls: "lang_pow {[c] |c. P c} k = {s. length s = k \<and> (\<forall>c \<in> set s. P c)}"
proof (induction k)
  case 0
  then show ?case by auto
next
  case (Suc k)
  have "lang_pow {[c] |c. P c} (Suc k) = {c # s |c s. P c \<and> length s = k \<and> (\<forall>c \<in> set s. P c)}"
    by (auto simp: lang_seq_cls Suc)
  also have "\<dots> = {s. length s = Suc k \<and> (\<forall>c \<in> set s. P c)}"
    by (auto simp: length_Suc_conv)
  finally show ?case .
qed

lemma r_rep_cls_lang: "rx_lang (RRep m n (RCls P)) = {s. m \<le> length s \<and> length s \<le> n \<and> (\<forall>c \<in> set s. P c)}"
  by (auto simp: lang_pow_cls)

lemma r_plus_cls_lang: "rx_lang (r_plus (RCls P)) = {s. s \<noteq> [] \<and> (\<forall>c \<in> set s. P c)}"
proof -
  have "rx_lang (r_plus (RCls P)) = {c # s |c s. P c \<and> (\<forall>c \<in> set s. P c)}"
    by (auto simp: r_plus_def lang_seq_cls lang_pow_cls)
  also have "\<dots> = {s. s \<noteq> [] \<and> (\<forall>c \<in> set s. P c)}"
    by (auto simp: neq_Nil_conv)
  finally show ?thesis .
qed

text \<open>The characters a pattern can use.\<close>

fun rx_chars :: "rx \<Rightarrow> char \<Rightarrow> bool" where
  "rx_chars RNone c = False"
| "rx_chars REps c = False"
| "rx_chars (RCls P) c = P c"
| "rx_chars (RSeq r s) c = (rx_chars r c \<or> rx_chars s c)"
| "rx_chars (RAlt r s) c = (rx_chars r c \<or> rx_chars s c)"
| "rx_chars (RRep m n r) c = rx_chars r c"
| "rx_chars (RStar r) c = rx_chars r c"

lemma lang_pow_chars: "s \<in> lang_pow A k \<Longrightarrow> c \<in> set s \<Longrightarrow> \<exists>u \<in> A. c \<in> set u"
  by (induction k arbitrary: s) (auto simp: lang_seq_def)

lemma rx_lang_chars: "s \<in> rx_lang r \<Longrightarrow> c \<in> set s \<Longrightarrow> rx_chars r c"
proof (induction r arbitrary: s)
  case (RSeq r1 r2)
  then obtain u v where "s = u @ v" "u \<in> rx_lang r1" "v \<in> rx_lang r2" by (auto simp: lang_seq_def)
  with RSeq.IH RSeq.prems(2) show ?case by auto
next
  case (RRep m n r)
  then obtain k where "s \<in> lang_pow (rx_lang r) k" by auto
  with RRep show ?case using lang_pow_chars by fastforce
next
  case (RStar r)
  then obtain k where "s \<in> lang_pow (rx_lang r) k" by auto
  with RStar show ?case using lang_pow_chars by fastforce
qed auto

end
