(* ===== verification/Urls.thy ===== *)
theory Urls
  imports IpAddress Regex
begin

text \<open>
  URLs as \<open>urllib.parse\<close> splits and joins them: \<open>urlsplit\<close> with its \<open>hostname\<close>, \<open>port\<close>,
  \<open>username\<close> and \<open>password\<close> attributes, and \<open>urlunsplit\<close>. On code points below 256 the
  Unicode normalisation check of the network location accepts everything, so it has no
  counterpart here.
\<close>

record split_url =
  ur_scheme :: string
  ur_netloc :: string
  ur_path :: string
  ur_query :: string
  ur_fragment :: string

definition scheme_char :: "char \<Rightarrow> bool" where
  "scheme_char c \<longleftrightarrow> is_lower_az c \<or> is_upper_az c \<or> is_digit c \<or> c \<in> set ''+-.''"

text \<open>C0 controls and the space are stripped on the left; tab, CR and LF vanish anywhere.\<close>

definition clean_url :: "string \<Rightarrow> string" where
  "clean_url s = filter (\<lambda>c. code c \<notin> {9, 10, 13}) (lstrip_by (\<lambda>c. code c \<le> 32) s)"

definition split_scheme :: "string \<Rightarrow> string \<times> string" where
  "split_scheme s =
    (let i = before_char CHR '':'' s in
     if CHR '':'' \<in> set s \<and> i \<noteq> [] \<and> (is_lower_az (hd i) \<or> is_upper_az (hd i)) \<and> list_all scheme_char i
     then (py_lower i, drop (Suc (length i)) s) else ('''', s))"

definition netloc_end :: "char \<Rightarrow> bool" where
  "netloc_end c \<longleftrightarrow> c \<in> set ''/?#''"

text \<open>\<open>_check_bracketed_host\<close>: an IPv6 address, or an address of a later version.\<close>

definition future_host_rx :: rx where
  "future_host_rx = r_seq [r_chr CHR ''v'', r_plus (RCls (\<lambda>c. is_hex_lower c \<or> (65 \<le> code c \<and> code c \<le> 70))),
     r_chr CHR ''.'', r_plus (RCls (\<lambda>c. code c \<noteq> 10))]"

definition bracketed_host_ok :: "string \<Rightarrow> bool" where
  "bracketed_host_ok h =
    (if starts_with ''v'' h then rx_fullmatch future_host_rx h
     else (case parse_ip h of Some (IPv6 _ _) \<Rightarrow> True | _ \<Rightarrow> False))"

definition split_netloc :: "string \<Rightarrow> (string \<times> string) res" where
  "split_netloc s =
    (if starts_with ''//'' s
     then let netloc = takeWhile (\<lambda>c. \<not> netloc_end c) (drop 2 s);
              rest = drop (length netloc) (drop 2 s);
              op = CHR ''['' \<in> set netloc; cl = CHR '']'' \<in> set netloc
          in if op \<noteq> cl then Inl (ValueError ''Invalid IPv6 URL'')
             else if op \<and> \<not> bracketed_host_ok (before_char CHR '']''
                    (drop (Suc (length (before_char CHR ''['' netloc))) netloc))
                  then Inl (ValueError ''does not appear to be an IPv4 or IPv6 address'')
             else Inr (netloc, rest)
     else Inr ('''', s))"

definition after_char :: "char \<Rightarrow> string \<Rightarrow> string" where
  "after_char d s = drop (Suc (length (before_char d s))) s"

definition urlsplit :: "string \<Rightarrow> split_url res" where
  "urlsplit url =
    (case split_scheme (clean_url url) of
       (scheme, s1) \<Rightarrow>
         bind_res (split_netloc s1) (\<lambda>(netloc, s2).
           let fragment = after_char CHR ''#'' s2; s3 = before_char CHR ''#'' s2;
               query = after_char CHR ''?'' s3; path = before_char CHR ''?'' s3
           in Inr \<lparr>ur_scheme = scheme, ur_netloc = netloc, ur_path = path, ur_query = query,
                   ur_fragment = fragment\<rparr>))"

section \<open>The network location\<close>

definition after_last :: "char \<Rightarrow> string \<Rightarrow> string" where
  "after_last d s = rev (before_char d (rev s))"

definition url_hostinfo :: "split_url \<Rightarrow> string \<times> string option" where
  "url_hostinfo u =
    (let info = after_last CHR ''@'' (ur_netloc u);
         bracketed = after_char CHR ''['' info;
         host_port = (if CHR ''['' \<in> set info
                      then (before_char CHR '']'' bracketed, after_char CHR '':'' (after_char CHR '']'' bracketed))
                      else (before_char CHR '':'' info, after_char CHR '':'' info))
     in (fst host_port, if snd host_port = '''' then None else Some (snd host_port)))"

text \<open>The zone of a scoped address keeps its case.\<close>

definition url_hostname :: "split_url \<Rightarrow> string option" where
  "url_hostname u =
    (let h = fst (url_hostinfo u); a = before_char CHR ''%'' h in
     if h = '''' then None else Some (py_lower a @ drop (length a) h))"

definition url_port :: "split_url \<Rightarrow> nat option res" where
  "url_port u =
    (case snd (url_hostinfo u) of
       None \<Rightarrow> Inr None
     | Some p \<Rightarrow>
         if \<not> list_all is_digit p then Inl (ValueError ''Port could not be cast to integer value'')
         else if decimal_value p > 65535 then Inl (ValueError ''Port out of range 0-65535'')
         else Inr (Some (decimal_value p)))"

text \<open>\<open>username is not None or password is not None\<close>: an at sign is enough for the former.\<close>

definition url_has_credentials :: "split_url \<Rightarrow> bool" where
  "url_has_credentials u \<longleftrightarrow> CHR ''@'' \<in> set (ur_netloc u)"

text \<open>\<open>urlunsplit\<close> for a scheme of the web, which always writes the two slashes.\<close>

definition urlunsplit_web :: "split_url \<Rightarrow> string" where
  "urlunsplit_web u =
    (let path = (if ur_path u \<noteq> '''' \<and> hd (ur_path u) \<noteq> CHR ''/'' then ''/'' @ ur_path u else ur_path u)
     in ur_scheme u @ ''://'' @ ur_netloc u @ path
        @ (if ur_query u = '''' then '''' else ''?'' @ ur_query u)
        @ (if ur_fragment u = '''' then '''' else ''#'' @ ur_fragment u))"

definition is_web_url :: "string \<Rightarrow> bool" where
  "is_web_url url =
    (case urlsplit url of
       Inl _ \<Rightarrow> False
     | Inr u \<Rightarrow> ur_scheme u \<in> {''http'', ''https''} \<and> url_hostname u \<noteq> None)"

lemma split_netloc_error: "split_netloc s = Inl e \<Longrightarrow> is_ValueError e"
  by (auto simp: split_netloc_def Let_def split: if_splits)

lemma urlsplit_error: "urlsplit s = Inl e \<Longrightarrow> is_ValueError e"
  by (cases "split_scheme (clean_url s)")
    (auto simp: urlsplit_def bind_res_Inl_iff Let_def dest: split_netloc_error)

end
