(* ===== verification/Contacts.thy ===== *)
theory Contacts
  imports Urls PyValue
begin

text \<open>
  Typed business contacts (src/src/domain/contacts.py): normalising an e-mail address,
  deciding whether it is a generic alias or a person's, and the contact point with the checks
  of its constructor. Confidences are rationals: the float \<open>0.85\<close> is taken as 17/20.
\<close>

definition contact_rules_version :: string where
  "contact_rules_version = ''it-eu-business-email-v1''"

definition generic_contact_retention_days :: int where
  "generic_contact_retention_days = 365"

definition named_contact_retention_days :: int where
  "named_contact_retention_days = 90"

section \<open>E-mail addresses\<close>

text \<open>The pattern ignores case: a class of lower-case letters takes the capitals too.\<close>

definition alnum_char :: "char \<Rightarrow> bool" where
  "alnum_char c \<longleftrightarrow> is_lower_az c \<or> is_upper_az c \<or> is_digit c"

definition alnum_dash_char :: "char \<Rightarrow> bool" where
  "alnum_dash_char c \<longleftrightarrow> alnum_char c \<or> c = CHR ''-''"

definition local_char :: "char \<Rightarrow> bool" where
  "local_char c \<longleftrightarrow> alnum_char c \<or> c \<in> set ''.!#$%&'*+/=?^_`{|}~-''"

text \<open>\<open>[a-z0-9](?:[a-z0-9-]{0,61}[a-z0-9])?\<close>\<close>

definition domain_label_rx :: rx where
  "domain_label_rx = RSeq (RCls alnum_char) (r_opt (RSeq (RRep 0 61 (RCls alnum_dash_char)) (RCls alnum_char)))"

definition email_pattern :: rx where
  "email_pattern =
    r_seq [r_plus (RCls local_char), r_chr CHR ''@'', domain_label_rx,
      r_plus (RSeq (r_chr CHR ''.'') domain_label_rx)]"

definition generic_local_parts :: "string list" where
  "generic_local_parts = [''amministrazione'', ''assistenza'', ''booking'', ''commerciale'',
     ''comunicazione'', ''contact'', ''contatti'', ''customer.care'', ''customerservice'', ''hello'',
     ''help'', ''info'', ''marketing'', ''office'', ''ordini'', ''pec'', ''prenotazioni'', ''reception'',
     ''sales'', ''segreteria'', ''service'', ''support'']"

datatype contact_kind = EMAIL | PHONE

fun contact_kind_value :: "contact_kind \<Rightarrow> string" where
  "contact_kind_value EMAIL = ''email''"
| "contact_kind_value PHONE = ''phone''"

definition contact_kind_of :: "string \<Rightarrow> contact_kind res" where
  "contact_kind_of s =
    (if s = ''email'' then Inr EMAIL else if s = ''phone'' then Inr PHONE
     else Inl (ValueError (s @ '' is not a valid ContactKind'')))"

datatype contact_classification = GENERIC_BUSINESS | NAMED_PROFESSIONAL

fun classification_value :: "contact_classification \<Rightarrow> string" where
  "classification_value GENERIC_BUSINESS = ''generic_business''"
| "classification_value NAMED_PROFESSIONAL = ''named_professional''"

datatype extraction_method = REGEX | MAILTO | STRUCTURED_DATA

fun extraction_method_value :: "extraction_method \<Rightarrow> string" where
  "extraction_method_value REGEX = ''regex''"
| "extraction_method_value MAILTO = ''mailto''"
| "extraction_method_value STRUCTURED_DATA = ''structured_data''"

definition normalize_email :: "string \<Rightarrow> string res" where
  "normalize_email value =
    (let normalized = py_casefold (py_strip value) in
     if 320 < length normalized \<or> \<not> rx_fullmatch email_pattern normalized
     then Inl (ValueError ''Indirizzo email non valido.'') else Inr normalized)"

definition classify_email :: "string \<Rightarrow> contact_classification res" where
  "classify_email value =
    bind_res (normalize_email value) (\<lambda>n.
      Inr (if before_char CHR ''@'' n \<in> set generic_local_parts then GENERIC_BUSINESS
           else NAMED_PROFESSIONAL))"

section \<open>Contact points\<close>

record contact_point =
  cp_kind :: contact_kind
  cp_normalized_value :: string
  cp_display_value :: string
  cp_source_url :: "string option"
  cp_collected_at :: datetime
  cp_extraction_method :: extraction_method
  cp_confidence :: rat
  cp_classification :: contact_classification
  cp_expires_at :: datetime
  cp_evidence_sha256 :: string
  cp_rules_version :: string

text \<open>\<open>[0-9a-f]{64}\<close>\<close>

definition sha256_text :: "string \<Rightarrow> bool" where
  "sha256_text s \<longleftrightarrow> rx_fullmatch (RRep 64 64 (RCls is_hex_lower)) s"

text \<open>
  The source URL as \<open>urlsplit\<close> sees it; of a missing URL it makes an empty scheme.
\<close>

definition source_url_check :: "string option \<Rightarrow> unit res" where
  "source_url_check url =
    (case url of
       None \<Rightarrow> Inl (ValueError ''Il contatto richiede un URL sorgente HTTP(S).'')
     | Some s \<Rightarrow>
        bind_res (urlsplit s) (\<lambda>u.
          if ur_scheme u \<notin> {''http'', ''https''} \<or> url_hostname u = None
          then Inl (ValueError ''Il contatto richiede un URL sorgente HTTP(S).'') else Inr ()))"

text \<open>The checks of \<open>__post_init__\<close>, in their order.\<close>

definition make_contact_point :: "contact_point \<Rightarrow> contact_point res" where
  "make_contact_point c =
    (if \<not> is_aware (cp_collected_at c) \<or> \<not> is_aware (cp_expires_at c)
     then Inl (ValueError ''I timestamp del contatto devono includere il fuso orario.'')
     else bind_res (source_url_check (cp_source_url c)) (\<lambda>_.
       if \<not> (0 \<le> cp_confidence c \<and> cp_confidence c \<le> 1)
       then Inl (ValueError ''confidence deve essere compresa tra 0 e 1.'')
       else if \<not> sha256_text (cp_evidence_sha256 c)
       then Inl (ValueError ''Il contatto richiede un hash SHA-256 dell'evidenza.'')
       else if instant (cp_expires_at c) \<le> instant (cp_collected_at c)
       then Inl (ValueError ''La scadenza deve essere successiva alla raccolta.'')
       else Inr c))"

definition from_email ::
  "string \<Rightarrow> string option \<Rightarrow> datetime \<Rightarrow> extraction_method \<Rightarrow> string \<Rightarrow> contact_point res" where
  "from_email value source_url collected_at extraction evidence_sha256 =
    bind_res (normalize_email value) (\<lambda>normalized.
    bind_res (classify_email normalized) (\<lambda>classification.
      make_contact_point
        \<lparr>cp_kind = EMAIL, cp_normalized_value = normalized, cp_display_value = py_strip value,
         cp_source_url = source_url, cp_collected_at = collected_at, cp_extraction_method = extraction,
         cp_confidence = (if extraction = MAILTO then 1 else 17 / 20),
         cp_classification = classification,
         cp_expires_at = add_days collected_at
           (if classification = GENERIC_BUSINESS then generic_contact_retention_days
            else named_contact_retention_days),
         cp_evidence_sha256 = evidence_sha256, cp_rules_version = contact_rules_version\<rparr>))"

section \<open>Normalised addresses\<close>

lemma fold_char_fixed: "d \<in> set (fold_char c) \<Longrightarrow> fold_char d = [d]"
proof -
  have "\<forall>d \<in> set (fold_char c). fold_char d = [d]"
  proof (cases "code c = 223")
    case True
    then show ?thesis by (simp add: fold_char_def lower_char_def Let_def)
  next
    case False
    then show ?thesis
      by (auto simp: fold_char_def lower_char_def Let_def)
  qed
  then show "d \<in> set (fold_char c) \<Longrightarrow> fold_char d = [d]" by blast
qed

lemma py_casefold_fixed: "(\<And>c. c \<in> set s \<Longrightarrow> fold_char c = [c]) \<Longrightarrow> py_casefold s = s"
  by (induction s) (auto simp: py_casefold_def)

lemma py_casefold_idem [simp]: "py_casefold (py_casefold s) = py_casefold s"
  by (rule py_casefold_fixed) (auto simp: py_casefold_def intro: fold_char_fixed)

lemma email_chars: "rx_chars email_pattern c \<Longrightarrow> \<not> py_space c"
  by (auto simp: email_pattern_def domain_label_rx_def r_plus_def r_opt_def r_chr_def local_char_def
      alnum_dash_char_def alnum_char_def is_lower_az_def is_upper_az_def is_digit_def py_space_def Let_def)

lemma email_no_space: "rx_fullmatch email_pattern s \<Longrightarrow> py_strip s = s"
proof -
  assume "rx_fullmatch email_pattern s"
  then have "\<And>c. c \<in> set s \<Longrightarrow> \<not> py_space c"
    using rx_lang_chars email_chars by (auto simp: rx_fullmatch_iff)
  then show ?thesis by (intro py_strip_id) (cases s; auto)
qed

lemma normalize_email_fixed: "normalize_email v = Inr n \<Longrightarrow> normalize_email n = Inr n"
  by (auto simp: normalize_email_def Let_def email_no_space split: if_splits)

lemma classify_normalized: "normalize_email v = Inr n \<Longrightarrow> classify_email n = classify_email v"
  by (simp add: classify_email_def normalize_email_fixed)

lemma sha256_text_iff: "sha256_text s \<longleftrightarrow> length s = 64 \<and> (\<forall>c \<in> set s. is_hex_lower c)"
  by (auto simp: sha256_text_def rx_fullmatch_iff r_rep_cls_lang simp del: rx_lang.simps)

text \<open>What every accepted contact point satisfies.\<close>

definition contact_point_ok :: "contact_point \<Rightarrow> bool" where
  "contact_point_ok c \<longleftrightarrow>
     is_aware (cp_collected_at c) \<and> is_aware (cp_expires_at c)
     \<and> source_url_check (cp_source_url c) = Inr ()
     \<and> 0 \<le> cp_confidence c \<and> cp_confidence c \<le> 1 \<and> sha256_text (cp_evidence_sha256 c)
     \<and> instant (cp_collected_at c) < instant (cp_expires_at c)"

lemma make_contact_point_Inr: "make_contact_point c = Inr d \<longleftrightarrow> d = c \<and> contact_point_ok c"
  by (auto simp: make_contact_point_def contact_point_ok_def bind_res_Inr_iff split: if_splits)

lemma make_contact_point_error: "make_contact_point c = Inl e \<Longrightarrow> is_ValueError e"
  by (auto simp: make_contact_point_def source_url_check_def bind_res_Inl_iff
      dest: urlsplit_error split: if_splits option.splits)

lemma from_email_Inr:
  assumes "from_email value url when ext ev = Inr c"
  obtains n where "normalize_email value = Inr n" "contact_point_ok c" "cp_normalized_value c = n"
    "cp_kind c = EMAIL" "cp_collected_at c = when" "cp_display_value c = py_strip value"
    "classify_email value = Inr (cp_classification c)"
    "instant (cp_expires_at c) = instant when
       + (if cp_classification c = GENERIC_BUSINESS then 365 else 90) * day_us"
    "cp_extraction_method c = ext" "cp_evidence_sha256 c = ev" "cp_source_url c = url"
    "cp_rules_version c = contact_rules_version"
proof -
  obtain n where n: "normalize_email value = Inr n"
    using assms by (auto simp: from_email_def bind_res_Inr_iff)
  obtain k where k: "classify_email n = Inr k"
    using assms n by (auto simp: from_email_def bind_res_Inr_iff)
  then have "classify_email value = Inr k" using classify_normalized [OF n] by simp
  with n k assms show ?thesis
    by (intro that [of n]) (auto simp: from_email_def make_contact_point_Inr
        generic_contact_retention_days_def named_contact_retention_days_def)
qed

text \<open>Building a contact from a valid address fails on its source or its evidence only.\<close>

lemma from_email_ok_iff:
  "ok_res (from_email value url (Aware t) ext ev) \<longleftrightarrow>
   ok_res (normalize_email value) \<and> source_url_check url = Inr () \<and> sha256_text ev"
proof (cases "normalize_email value")
  case (Inr n)
  then show ?thesis
    using normalize_email_fixed [OF Inr]
    by (auto simp: from_email_def classify_email_def ok_res_iff make_contact_point_Inr contact_point_ok_def
        day_us_def generic_contact_retention_days_def named_contact_retention_days_def)
qed (simp add: from_email_def)

end
