(* ===== verification/Suppression.thy ===== *)
theory Suppression
  imports Contacts Sha256 Transactions
begin

text \<open>
  Suppression (src/src/application/suppression.py): an identifier is remembered only by the
  HMAC of its normalised form, for one workspace or for all of them. The service is its key;
  its operations are functions of the database.
\<close>

datatype suppression_scope = WORKSPACE | GLOBAL

fun suppression_scope_value :: "suppression_scope \<Rightarrow> string" where
  "suppression_scope_value WORKSPACE = ''workspace''"
| "suppression_scope_value GLOBAL = ''global''"

definition suppression_scope_of :: "string \<Rightarrow> suppression_scope res" where
  "suppression_scope_of s =
    (if s = ''workspace'' then Inr WORKSPACE else if s = ''global'' then Inr GLOBAL
     else Inl (ValueError (s @ '' is not a valid SuppressionScope'')))"

definition suppression_service :: "nat list \<Rightarrow> (nat list) res" where
  "suppression_service hmac_key =
    (if length hmac_key < 32
     then Inl (ValueError ''La chiave HMAC di suppression deve contenere almeno 32 byte.'')
     else Inr hmac_key)"

text \<open>\<open>re.sub(r"[^0-9+]", "", value.strip())\<close>\<close>

definition phone_chars :: "string \<Rightarrow> string" where
  "phone_chars s = filter (\<lambda>c. is_digit c \<or> c = CHR ''+'') (py_strip s)"

fun normalize_identifier :: "contact_kind \<Rightarrow> string \<Rightarrow> string res" where
  "normalize_identifier EMAIL value = normalize_email value"
| "normalize_identifier PHONE value =
    (let n = phone_chars value in
     if 7 \<le> length n \<and> length n \<le> 20 then Inr n
     else Inl (SuppressionError ''Numero di telefono non valido.''))"

definition fingerprint :: "nat list \<Rightarrow> contact_kind \<Rightarrow> string \<Rightarrow> string res" where
  "fingerprint hmac_key kind value =
    bind_res (normalize_identifier kind value) (\<lambda>n.
      Inr (hmac_sha256_hex hmac_key (utf8 (contact_kind_value kind @ '':'' @ n))))"

definition scope_key_of :: "suppression_scope \<Rightarrow> uuid \<Rightarrow> string" where
  "scope_key_of scope workspace_id = (if scope = GLOBAL then ''global'' else uuid_text workspace_id)"

text \<open>The entries that count for a workspace: its own and the global ones.\<close>

definition suppression_matches :: "uuid \<Rightarrow> string \<Rightarrow> string \<Rightarrow> suppression_entry \<Rightarrow> bool" where
  "suppression_matches workspace_id kind fp e \<longleftrightarrow>
     su_kind e = kind \<and> su_fingerprint e = fp
     \<and> (su_scope_key e = ''global'' \<or> su_scope_key e = uuid_text workspace_id)"

definition is_suppressed :: "nat list \<Rightarrow> uuid \<Rightarrow> contact_kind \<Rightarrow> string \<Rightarrow> db \<Rightarrow> bool res" where
  "is_suppressed hmac_key workspace_id kind value d =
    bind_res (fingerprint hmac_key kind value) (\<lambda>fp.
      Inr (list_ex (suppression_matches workspace_id (contact_kind_value kind) fp) (t_suppressions d)))"

definition suppression_reason :: "string \<Rightarrow> string" where
  "suppression_reason reason =
    (let r = take 80 (py_strip reason) in if r = '''' then ''privacy_request'' else r)"

definition suppress ::
  "nat list \<Rightarrow> uuid \<Rightarrow> uuid \<Rightarrow> contact_kind \<Rightarrow> string \<Rightarrow> suppression_scope \<Rightarrow> string \<Rightarrow> uuid option \<Rightarrow>
   db \<Rightarrow> suppression_entry res \<times> db" where
  "suppress hmac_key new_id workspace_id kind value scope reason actor_user_id d =
    (case fingerprint hmac_key kind value of
       Inl e \<Rightarrow> (Inl e, d)
     | Inr fp \<Rightarrow>
        let key = scope_key_of scope workspace_id in
        (case find (\<lambda>e. su_scope_key e = key \<and> su_kind e = contact_kind_value kind \<and> su_fingerprint e = fp)
                (t_suppressions d) of
           Some existing \<Rightarrow> (Inr existing, d)
         | None \<Rightarrow>
            let record = \<lparr>su_id = new_id, su_workspace_id = (if scope = GLOBAL then None else Some workspace_id),
                  su_scope = suppression_scope_value scope, su_scope_key = key,
                  su_kind = contact_kind_value kind, su_fingerprint = fp,
                  su_reason = suppression_reason reason, su_created_by = actor_user_id\<rparr>
            in (Inr record, d\<lparr>t_suppressions := t_suppressions d @ [record]\<rparr>)))"

section \<open>Identifiers\<close>

lemma normalize_identifier_fixed:
  "normalize_identifier kind v = Inr n \<Longrightarrow> normalize_identifier kind n = Inr n"
proof (cases kind)
  case PHONE
  assume *: "normalize_identifier kind v = Inr n"
  with PHONE have n: "n = phone_chars v" "7 \<le> length n" "length n \<le> 20" by (auto simp: Let_def split: if_splits)
  then have chars: "\<And>c. c \<in> set n \<Longrightarrow> is_digit c \<or> c = CHR ''+''" by (auto simp: phone_chars_def)
  then have "\<And>c. c \<in> set n \<Longrightarrow> \<not> py_space c" by (force simp: is_digit_def py_space_def Let_def)
  then have "py_strip n = n" by (intro py_strip_id) (cases n; auto)
  then have "phone_chars n = n" using chars by (simp add: phone_chars_def filter_id_conv)
  with n PHONE show ?thesis by (simp add: Let_def)
qed (simp add: normalize_email_fixed)

lemma fingerprint_normalized:
  "normalize_identifier kind v = Inr n \<Longrightarrow> fingerprint k kind n = fingerprint k kind v"
  by (simp add: fingerprint_def normalize_identifier_fixed)

lemma fingerprint_shape: "fingerprint k kind v = Inr fp \<Longrightarrow> length fp = 64 \<and> (\<forall>c \<in> set fp. is_hex_lower c)"
  by (auto simp: fingerprint_def bind_res_Inr_iff dest: hmac_shape(2))

lemma normalize_identifier_error: "normalize_identifier kind v = Inl e \<Longrightarrow> is_ValueError e"
  by (cases kind) (auto simp: normalize_email_def Let_def split: if_splits)

lemma fingerprint_error: "fingerprint k kind v = Inl e \<Longrightarrow> is_ValueError e"
  by (auto simp: fingerprint_def bind_res_Inl_iff dest: normalize_identifier_error)

section \<open>The contract of suppression\<close>

text \<open>
  What the other services rely on: a suppressed identifier is found afterwards, in its
  workspace or everywhere; suppressing never lifts another suppression and touches no other
  table; and the answer depends on the normalised identifier only.
\<close>

locale suppression_list =
  fixes listed :: "uuid \<Rightarrow> 'k \<Rightarrow> string \<Rightarrow> db \<Rightarrow> bool res"
    and add_entry :: "uuid \<Rightarrow> uuid \<Rightarrow> 'k \<Rightarrow> string \<Rightarrow> suppression_scope \<Rightarrow> string \<Rightarrow> uuid option \<Rightarrow>
      db \<Rightarrow> 'e res \<times> db"
    and normal :: "'k \<Rightarrow> string \<Rightarrow> string res"
  assumes listed_entry: "add_entry i ws k v scope reason actor d = (Inr e, d') \<Longrightarrow>
      scope = GLOBAL \<or> ws' = ws \<Longrightarrow> listed ws' k v d' = Inr True"
    and listed_mono: "add_entry i ws k v scope reason actor d = (r, d') \<Longrightarrow>
      listed ws' k' v' d = Inr True \<Longrightarrow> listed ws' k' v' d' = Inr True"
    and add_entry_frame: "add_entry i ws k v scope reason actor d = (r, d') \<Longrightarrow>
      \<exists>es. d' = d\<lparr>t_suppressions := t_suppressions d @ es\<rparr>"
    and listed_table: "t_suppressions d' = t_suppressions d \<Longrightarrow> listed ws k v d' = listed ws k v d"
    and listed_normal: "normal k v = normal k v' \<Longrightarrow> listed ws k v d = listed ws k v' d"
begin

text \<open>Entries accumulate along any sequence of suppressions.\<close>

fun add_entries ::
  "(uuid \<times> uuid \<times> 'k \<times> string \<times> suppression_scope \<times> string \<times> uuid option) list \<Rightarrow> db \<Rightarrow> db" where
  "add_entries [] d = d"
| "add_entries ((i, ws, k, v, scope, reason, actor) # rs) d =
    add_entries rs (snd (add_entry i ws k v scope reason actor d))"

lemma add_entries_mono: "listed ws k v d = Inr True \<Longrightarrow> listed ws k v (add_entries rs d) = Inr True"
proof (induction rs d rule: add_entries.induct)
  case (2 i ws' k' v' scope reason actor rs d)
  then show ?case by (cases "add_entry i ws' k' v' scope reason actor d") (auto intro: listed_mono)
qed simp

lemma stays_listed:
  assumes "add_entry i ws k v scope reason actor d = (Inr e, d')" "scope = GLOBAL \<or> ws' = ws"
    "normal k v' = normal k v"
  shows "listed ws' k v' (add_entries rs d') = Inr True"
  using add_entries_mono [OF listed_entry [OF assms(1,2)]] listed_normal [OF assms(3)] by simp

end

lemma suppress_Inr:
  assumes "suppress key i ws k v scope reason actor d = (Inr e, d')"
  obtains fp where "fingerprint key k v = Inr fp" "e \<in> set (t_suppressions d')"
    "su_scope_key e = scope_key_of scope ws" "su_kind e = contact_kind_value k" "su_fingerprint e = fp"
    "d' = d \<or> d' = d\<lparr>t_suppressions := t_suppressions d @ [e]\<rparr>"
proof -
  obtain fp where fp: "fingerprint key k v = Inr fp"
    using assms by (cases "fingerprint key k v") (simp_all add: suppress_def)
  let ?find = "find (\<lambda>e. su_scope_key e = scope_key_of scope ws \<and> su_kind e = contact_kind_value k \<and>
    su_fingerprint e = fp) (t_suppressions d)"
  show ?thesis
  proof (cases ?find)
    case (Some x)
    then have "x = e" "d' = d" using assms fp by (simp_all add: suppress_def)
    with find_SomeD [OF Some] fp show ?thesis by (intro that) auto
  next
    case None
    with assms fp show ?thesis by (intro that) (auto simp: suppress_def Let_def)
  qed
qed

lemma suppress_table:
  assumes "suppress key i ws k v scope reason actor d = (r, d')"
  shows "\<exists>es. d' = d\<lparr>t_suppressions := t_suppressions d @ es\<rparr>"
proof -
  have "d' = d \<or> (\<exists>e. d' = d\<lparr>t_suppressions := t_suppressions d @ [e]\<rparr>)"
    using assms by (auto simp: suppress_def Let_def split: sum.splits option.splits)
  moreover have "d = d\<lparr>t_suppressions := t_suppressions d @ []\<rparr>" by simp
  ultimately show ?thesis by blast
qed

lemma is_suppressed_more:
  "is_suppressed key ws k v d = Inr True \<Longrightarrow>
   is_suppressed key ws k v (d\<lparr>t_suppressions := t_suppressions d @ es\<rparr>) = Inr True"
  by (auto simp: is_suppressed_def bind_res_Inr_iff)

interpretation suppressing: suppression_list "is_suppressed key" "suppress key" normalize_identifier for key
proof (unfold_locales, goal_cases)
  case (1 i ws k v scope reason actor d e d' ws')
  from 1(1) obtain fp where fp: "fingerprint key k v = Inr fp" "e \<in> set (t_suppressions d')"
    "su_scope_key e = scope_key_of scope ws" "su_kind e = contact_kind_value k" "su_fingerprint e = fp"
    by (rule suppress_Inr)
  then have "suppression_matches ws' (contact_kind_value k) fp e"
    using 1(2) by (auto simp: suppression_matches_def scope_key_of_def)
  then show ?case using fp by (auto simp: is_suppressed_def list_ex_iff)
next
  case (2 i ws k v scope reason actor d r d' ws' k' v')
  then show ?case using suppress_table is_suppressed_more by blast
next
  case (3 i ws k v scope reason actor d r d')
  then show ?case by (rule suppress_table)
next
  case (4 d' d ws k v)
  then show ?case by (simp add: is_suppressed_def)
next
  case (5 k v v' ws d)
  then show ?case by (simp add: is_suppressed_def fingerprint_def)
qed

text \<open>A workspace suppression does not reach another workspace.\<close>

lemma workspace_scope_local:
  assumes "ws' \<noteq> ws" "is_suppressed key ws' k' v' d = Inr False"
    and run: "suppress key i ws k v WORKSPACE reason actor d = (Inr e, d')"
  shows "is_suppressed key ws' k' v' d' = Inr False"
proof -
  from run obtain fp where e: "su_scope_key e = scope_key_of WORKSPACE ws"
    and d': "d' = d \<or> d' = d\<lparr>t_suppressions := t_suppressions d @ [e]\<rparr>"
    by (rule suppress_Inr)
  have "length (uuid_text ws) \<noteq> length ''global''" by simp
  then have "uuid_text ws \<noteq> ''global''" by metis
  then have "\<not> suppression_matches ws' kv f e" for kv f
    using e assms(1) by (auto simp: suppression_matches_def scope_key_of_def)
  then show ?thesis using d' assms(2) by (auto simp: is_suppressed_def bind_res_Inr_iff)
qed

end
