(* ===== verification/Privacy.thy ===== *)
theory Privacy
  imports Suppression Authorization Audit_Log "HOL-Library.List_Lexorder" "HOL-Library.Char_ord"
begin

text \<open>
  Workspace privacy policies (src/src/domain/privacy.py), the gate every named contact passes
  and the export of contacts (src/src/application/privacy_policy.py), and the boundary that
  stores contacts (src/src/application/contacts.py). Where the code reads the clock the model
  takes the instant as an argument; the database orders text by its bytes.
\<close>

section \<open>Policies\<close>

definition privacy_policy_version :: string where
  "privacy_policy_version = ''it-eu-b2b-v1''"

definition retention_days :: "(string \<times> int) list" where
  "retention_days = [(''raw_html'', 7), (''intermediate_screenshot'', 30), (''named_professional'', 90),
     (''generic_business'', 365), (''selected_report_evidence'', 365), (''operational_log'', 30),
     (''minimal_audit_log'', 365)]"

datatype request_kind = ACCESS | RECTIFICATION | ERASURE | OPPOSITION

fun request_kind_value :: "request_kind \<Rightarrow> string" where
  "request_kind_value ACCESS = ''access''"
| "request_kind_value RECTIFICATION = ''rectification''"
| "request_kind_value ERASURE = ''erasure''"
| "request_kind_value OPPOSITION = ''opposition''"

definition request_kind_of :: "string \<Rightarrow> request_kind res" where
  "request_kind_of s =
    (case find (\<lambda>k. request_kind_value k = s) [ACCESS, RECTIFICATION, ERASURE, OPPOSITION] of
       None \<Rightarrow> Inl (ValueError (s @ '' is not a valid DataSubjectRequestKind'')) | Some k \<Rightarrow> Inr k)"

record privacy_policy =
  vp_workspace_id :: uuid
  vp_purpose :: string
  vp_legal_basis :: string
  vp_privacy_contact :: string
  vp_market :: string
  vp_named_contact_retention_days :: int
  vp_policy_version :: string
  vp_enabled :: bool

definition make_privacy_policy :: "privacy_policy \<Rightarrow> privacy_policy res" where
  "make_privacy_policy p =
    (if py_strip (vp_purpose p) = '''' \<or> py_strip (vp_legal_basis p) = ''''
     then Inl (ValueError ''Finalita e base giuridica sono obbligatorie.'')
     else if CHR ''@'' \<notin> set (vp_privacy_contact p) \<or> 320 < length (vp_privacy_contact p)
     then Inl (ValueError ''Referente privacy non valido.'')
     else if vp_market p \<noteq> ''IT_EU''
     then Inl (ValueError ''La prima versione supporta esclusivamente Italia/UE.'')
     else if \<not> (1 \<le> vp_named_contact_retention_days p \<and> vp_named_contact_retention_days p \<le> 90)
     then Inl (ValueError ''La retention dei contatti nominativi non puo superare 90 giorni.'')
     else if py_strip (vp_policy_version p) = ''''
     then Inl (ValueError ''La policy deve essere versionata.'')
     else Inr p)"

definition policy_is_complete :: "privacy_policy \<Rightarrow> bool" where
  "policy_is_complete p \<longleftrightarrow>
     vp_enabled p \<and> py_strip (vp_purpose p) \<noteq> '''' \<and> py_strip (vp_legal_basis p) \<noteq> ''''
     \<and> py_strip (vp_privacy_contact p) \<noteq> '''' \<and> vp_market p = ''IT_EU''
     \<and> vp_named_contact_retention_days p \<le> 90"

definition policy_of_row :: "policy_row \<Rightarrow> privacy_policy res" where
  "policy_of_row r =
    make_privacy_policy
      \<lparr>vp_workspace_id = pp_workspace_id r, vp_purpose = pp_purpose r, vp_legal_basis = pp_legal_basis r,
       vp_privacy_contact = pp_privacy_contact r, vp_market = pp_market r,
       vp_named_contact_retention_days = pp_named_contact_retention_days r,
       vp_policy_version = pp_policy_version r, vp_enabled = pp_enabled r\<rparr>"

definition policy_get :: "uuid \<Rightarrow> db \<Rightarrow> privacy_policy option res" where
  "policy_get workspace_id d =
    (case find (\<lambda>r. pp_workspace_id r = workspace_id) (t_policies d) of
       None \<Rightarrow> Inr None
     | Some r \<Rightarrow> bind_res (policy_of_row r) (\<lambda>p. Inr (Some p)))"

definition policy_put :: "privacy_policy \<Rightarrow> uuid option \<Rightarrow> db \<Rightarrow> policy_row \<times> db" where
  "policy_put policy actor_user_id d =
    (let row = \<lparr>pp_workspace_id = vp_workspace_id policy, pp_purpose = py_strip (vp_purpose policy),
           pp_legal_basis = py_strip (vp_legal_basis policy),
           pp_privacy_contact = py_casefold (py_strip (vp_privacy_contact policy)),
           pp_market = vp_market policy,
           pp_named_contact_retention_days = vp_named_contact_retention_days policy,
           pp_policy_version = vp_policy_version policy, pp_enabled = vp_enabled policy,
           pp_updated_by = actor_user_id\<rparr>
     in (row,
         if list_ex (\<lambda>r. pp_workspace_id r = vp_workspace_id policy) (t_policies d)
         then d\<lparr>t_policies := upd_rows (\<lambda>r. pp_workspace_id r = vp_workspace_id policy) (\<lambda>_. row) (t_policies d)\<rparr>
         else d\<lparr>t_policies := t_policies d @ [row]\<rparr>))"

section \<open>The gate\<close>

definition require_contact_allowed :: "contact_point \<Rightarrow> privacy_policy option \<Rightarrow> int \<Rightarrow> unit res" where
  "require_contact_allowed contact policy cutoff =
    (if instant (cp_expires_at contact) \<le> cutoff
     then Inl (PrivacyPolicyError ''Contatto scaduto non persistibile o esportabile.'')
     else if cp_classification contact = GENERIC_BUSINESS then Inr ()
     else case policy of
       None \<Rightarrow> Inl (PrivacyPolicyError ''I contatti nominativi richiedono una policy privacy Italia/UE completa.'')
     | Some p \<Rightarrow>
         if \<not> policy_is_complete p
         then Inl (PrivacyPolicyError ''I contatti nominativi richiedono una policy privacy Italia/UE completa.'')
         else if instant (add_days (cp_collected_at contact) (vp_named_contact_retention_days p))
                 < instant (cp_expires_at contact)
         then Inl (PrivacyPolicyError ''Retention nominativa superiore alla policy del workspace.'')
         else Inr ())"

section \<open>Storing contacts\<close>

record persistence_result =
  rs_persisted :: nat
  rs_suppressed :: nat
  rs_policy_rejected :: nat
  rs_expired :: nat

definition contact_row ::
  "nat list \<Rightarrow> uuid \<Rightarrow> uuid \<Rightarrow> uuid \<Rightarrow> contact_point \<Rightarrow> string \<Rightarrow> contact" where
  "contact_row hmac_key new_id workspace_id lead_id c fp =
    \<lparr>co_id = new_id, co_workspace_id = workspace_id, co_lead_id = Some lead_id,
     co_kind = contact_kind_value (cp_kind c), co_normalized_value = cp_normalized_value c,
     co_display_value = cp_display_value c, co_fingerprint = fp, co_source_type = ''official_website'',
     co_source_url = cp_source_url c, co_source_request_id = None,
     co_collected_at = instant (cp_collected_at c),
     co_extraction_method = extraction_method_value (cp_extraction_method c),
     co_confidence = cp_confidence c, co_classification = classification_value (cp_classification c),
     co_expires_at = instant (cp_expires_at c), co_evidence_sha256 = cp_evidence_sha256 c,
     co_rules_version = cp_rules_version c\<rparr>"

text \<open>
  One contact of the loop. The gate is called without the caller's instant, so it reads the
  clock: \<open>clock\<close> beside the \<open>cutoff\<close> of the loop.
\<close>

definition persist_one ::
  "nat list \<Rightarrow> int \<Rightarrow> int \<Rightarrow> uuid \<Rightarrow> uuid \<Rightarrow> privacy_policy option \<Rightarrow> uuid \<Rightarrow> contact_point \<Rightarrow>
   persistence_result \<times> db \<Rightarrow> (persistence_result \<times> db) res" where
  "persist_one hmac_key cutoff clock workspace_id lead_id policy new_id c acc =
    (case acc of (counts, d) \<Rightarrow>
       if instant (cp_expires_at c) \<le> cutoff
       then Inr (counts\<lparr>rs_expired := rs_expired counts + 1\<rparr>, d)
       else case require_contact_allowed c policy clock of
         Inl _ \<Rightarrow> Inr (counts\<lparr>rs_policy_rejected := rs_policy_rejected counts + 1\<rparr>, d)
       | Inr _ \<Rightarrow>
          bind_res (is_suppressed hmac_key workspace_id (cp_kind c) (cp_normalized_value c) d) (\<lambda>suppressed.
            if suppressed then Inr (counts\<lparr>rs_suppressed := rs_suppressed counts + 1\<rparr>, d)
            else bind_res (fingerprint hmac_key (cp_kind c) (cp_normalized_value c)) (\<lambda>fp.
              Inr (counts\<lparr>rs_persisted := rs_persisted counts + 1\<rparr>,
                   d\<lparr>t_contacts := t_contacts d @ [contact_row hmac_key new_id workspace_id lead_id c fp]\<rparr>))))"

fun persist_loop ::
  "nat list \<Rightarrow> int \<Rightarrow> int \<Rightarrow> uuid \<Rightarrow> uuid \<Rightarrow> privacy_policy option \<Rightarrow> (uuid \<times> contact_point) list \<Rightarrow>
   persistence_result \<times> db \<Rightarrow> (persistence_result \<times> db) res" where
  "persist_loop k cutoff clock ws lead policy [] acc = Inr acc"
| "persist_loop k cutoff clock ws lead policy ((i, c) # cs) acc =
    bind_res (persist_one k cutoff clock ws lead policy i c acc) (\<lambda>acc'.
      persist_loop k cutoff clock ws lead policy cs acc')"

text \<open>Each contact comes with the identifier its row would get.\<close>

definition persist_contacts ::
  "nat list \<Rightarrow> int \<Rightarrow> int \<Rightarrow> uuid \<Rightarrow> uuid \<Rightarrow> (uuid \<times> contact_point) list \<Rightarrow> db \<Rightarrow> (persistence_result \<times> db) res" where
  "persist_contacts hmac_key cutoff clock workspace_id lead_id contacts d =
    bind_res (policy_get workspace_id d) (\<lambda>policy.
      persist_loop hmac_key cutoff clock workspace_id lead_id policy contacts
        (\<lparr>rs_persisted = 0, rs_suppressed = 0, rs_policy_rejected = 0, rs_expired = 0\<rparr>, d))"

section \<open>Exporting contacts\<close>

text \<open>Deleting what has expired, with an event only when something was deleted.\<close>

definition expired_contact :: "uuid \<Rightarrow> int \<Rightarrow> contact \<Rightarrow> bool" where
  "expired_contact workspace_id cutoff c \<longleftrightarrow> co_workspace_id c = workspace_id \<and> co_expires_at c \<le> cutoff"

definition purge_for_export :: "uuid \<Rightarrow> int \<Rightarrow> db \<Rightarrow> db" where
  "purge_for_export workspace_id cutoff d =
    (let n = length (filter (expired_contact workspace_id cutoff) (t_contacts d));
         d1 = d\<lparr>t_contacts := del_rows (expired_contact workspace_id cutoff) (t_contacts d)\<rparr>
     in if n = 0 then d1
        else d1\<lparr>t_retention := t_retention d1 @
               [\<lparr>rt_workspace_id = workspace_id, rt_entity_type = ''contact_export_expiry'',
                 rt_deleted_count = int n, rt_ran_at = cutoff\<rparr>]\<rparr>)"

definition export_decision ::
  "nat list \<Rightarrow> uuid \<Rightarrow> privacy_policy option \<Rightarrow> db \<Rightarrow> contact \<Rightarrow> bool res" where
  "export_decision hmac_key workspace_id policy d c =
    bind_res (contact_kind_of (co_kind c)) (\<lambda>kind.
    bind_res (is_suppressed hmac_key workspace_id kind (co_normalized_value c) d) (\<lambda>suppressed.
      if suppressed then Inr False
      else if co_classification c = ''named_professional'' then
        (case policy of
           None \<Rightarrow> Inl (PrivacyPolicyError ''Export nominativo bloccato: policy privacy incompleta.'')
         | Some p \<Rightarrow>
             if \<not> policy_is_complete p
             then Inl (PrivacyPolicyError ''Export nominativo bloccato: policy privacy incompleta.'')
             else if co_collected_at c + vp_named_contact_retention_days p * day_us < co_expires_at c
             then Inl (PrivacyPolicyError ''Export nominativo bloccato: retention oltre la policy.'')
             else Inr True)
      else Inr True))"

fun export_loop ::
  "nat list \<Rightarrow> uuid \<Rightarrow> privacy_policy option \<Rightarrow> db \<Rightarrow> contact list \<Rightarrow> contact list res" where
  "export_loop k ws policy d [] = Inr []"
| "export_loop k ws policy d (c # cs) =
    bind_res (export_decision k ws policy d c) (\<lambda>ok.
    bind_res (export_loop k ws policy d cs) (\<lambda>rest. Inr (if ok then c # rest else rest)))"

definition exportable_contacts :: "nat list \<Rightarrow> int \<Rightarrow> uuid \<Rightarrow> db \<Rightarrow> contact list res \<times> db" where
  "exportable_contacts hmac_key cutoff workspace_id d =
    (let d1 = purge_for_export workspace_id cutoff d;
         contacts = sort_key co_normalized_value (filter (\<lambda>c. co_workspace_id c = workspace_id) (t_contacts d1))
     in (bind_res (policy_get workspace_id d1) (\<lambda>policy. export_loop hmac_key workspace_id policy d1 contacts), d1))"

definition export_for_actor ::
  "nat list \<Rightarrow> int \<Rightarrow> uuid \<Rightarrow> uuid \<Rightarrow> bool \<Rightarrow> uuid option \<Rightarrow> db \<Rightarrow> contact list res \<times> db" where
  "export_for_actor hmac_key cutoff workspace_id actor_user_id mfa_verified job_id d =
    (case require_permission actor_user_id workspace_id EXPORT_RESULTS mfa_verified d of
       Inl e \<Rightarrow> (Inl (if is_AuthorizationDenied e
                    then PrivacyPolicyError ''Export non autorizzato per il workspace.'' else e), d)
     | Inr _ \<Rightarrow>
        (case exportable_contacts hmac_key cutoff workspace_id d of
           (Inl e, d1) \<Rightarrow> (Inl e, d1)
         | (Inr contacts, d1) \<Rightarrow>
            (case policy_get workspace_id d1 of
               Inl e \<Rightarrow> (Inl e, d1)
             | Inr policy \<Rightarrow>
                (Inr contacts,
                 append_audit_event ''contacts.exported'' (Some workspace_id) (Some actor_user_id)
                   (Some (case job_id of None \<Rightarrow> ''workspace'' | Some _ \<Rightarrow> ''job''))
                   (Some (uuid_text (case job_id of None \<Rightarrow> workspace_id | Some j \<Rightarrow> j)))
                   [(''count'', AVInt (int (length contacts))),
                    (''policy_version'', AVText (case policy of None \<Rightarrow> ''generic-default''
                       | Some p \<Rightarrow> vp_policy_version p))] None d1))))"

section \<open>Policies that pass their constructor\<close>

lemma make_privacy_policy_Inr: "make_privacy_policy p = Inr q \<Longrightarrow>
   q = p \<and> py_strip (vp_purpose p) \<noteq> '''' \<and> py_strip (vp_legal_basis p) \<noteq> ''''
   \<and> CHR ''@'' \<in> set (vp_privacy_contact p) \<and> length (vp_privacy_contact p) \<le> 320
   \<and> vp_market p = ''IT_EU'' \<and> 1 \<le> vp_named_contact_retention_days p
   \<and> vp_named_contact_retention_days p \<le> 90 \<and> py_strip (vp_policy_version p) \<noteq> ''''"
  by (auto simp: make_privacy_policy_def split: if_splits)

lemma in_rstrip: "c \<in> set s \<Longrightarrow> \<not> P c \<Longrightarrow> c \<in> set (rstrip_by P s)"
  by (auto simp: rstrip_by_def) (metis Un_iff set_append set_rev set_takeWhileD takeWhile_dropWhile_id)

lemma in_lstrip: "c \<in> set s \<Longrightarrow> \<not> P c \<Longrightarrow> c \<in> set (lstrip_by P s)"
  by (auto simp: lstrip_by_def) (metis Un_iff set_append set_takeWhileD takeWhile_dropWhile_id)

lemma in_py_strip: "c \<in> set s \<Longrightarrow> \<not> py_space c \<Longrightarrow> c \<in> set (py_strip s)"
  by (simp add: py_strip_def in_rstrip in_lstrip)

lemma at_sign_not_space: "\<not> py_space CHR ''@''"
  by (simp add: py_space_def)

text \<open>A valid policy is complete exactly when it is enabled.\<close>

lemma valid_policy_complete: "make_privacy_policy p = Inr q \<Longrightarrow> policy_is_complete q \<longleftrightarrow> vp_enabled q"
  using in_py_strip [OF _ at_sign_not_space, of "vp_privacy_contact p"]
  by (auto simp: policy_is_complete_def dest!: make_privacy_policy_Inr)

lemma policy_get_valid: "policy_get ws d = Inr (Some p) \<Longrightarrow> make_privacy_policy p = Inr p"
  by (auto simp: policy_get_def policy_of_row_def bind_res_Inr_iff split: option.splits
      dest: make_privacy_policy_Inr)

lemma find_upsert: "list_ex Q rows \<Longrightarrow> Q x \<Longrightarrow> find Q (upd_rows Q (\<lambda>_. x) rows) = Some x"
  by (induction rows) auto

lemma policy_get_put:
  assumes "make_privacy_policy p = Inr q" "length (py_casefold (py_strip (vp_privacy_contact p))) \<le> 320"
  shows "\<exists>p'. policy_get (vp_workspace_id p) (snd (policy_put p actor d)) = Inr (Some p')
    \<and> vp_enabled p' = vp_enabled p
    \<and> vp_named_contact_retention_days p' = vp_named_contact_retention_days p"
proof -
  let ?row = "fst (policy_put p actor d)"
  have row: "find (\<lambda>r. pp_workspace_id r = vp_workspace_id p) (t_policies (snd (policy_put p actor d))) = Some ?row"
  proof (cases "list_ex (\<lambda>r. pp_workspace_id r = vp_workspace_id p) (t_policies d)")
    case True
    then have "find (\<lambda>r. pp_workspace_id r = vp_workspace_id p)
        (upd_rows (\<lambda>r. pp_workspace_id r = vp_workspace_id p) (\<lambda>_. ?row) (t_policies d)) = Some ?row"
      by (rule find_upsert) (simp add: policy_put_def Let_def)
    with True show ?thesis by (simp add: policy_put_def Let_def)
  next
    case False
    then have "find (\<lambda>r. pp_workspace_id r = vp_workspace_id p) (t_policies d) = None"
      by (simp add: find_eq_None_iff list_ex_iff)
    with False show ?thesis by (simp add: policy_put_def Let_def find_append)
  qed
  have "CHR ''@'' \<in> set (py_casefold (py_strip (vp_privacy_contact p)))"
  proof -
    have "fold_char CHR ''@'' = ''@''" by (simp add: fold_char_def lower_char_def)
    then show ?thesis
      using make_privacy_policy_Inr [OF assms(1)] in_py_strip [OF _ at_sign_not_space, of "vp_privacy_contact p"]
      by (force simp: py_casefold_def)
  qed
  then show ?thesis
    using row make_privacy_policy_Inr [OF assms(1)] assms(2)
    by (simp add: policy_get_def policy_of_row_def policy_put_def Let_def make_privacy_policy_def)
qed

lemma policy_get_put_other:
  "ws \<noteq> vp_workspace_id p \<Longrightarrow> policy_get ws (snd (policy_put p actor d)) = policy_get ws d"
  by (simp add: policy_get_def policy_put_def Let_def find_upd_rows_other find_append split: option.split)

section \<open>What the gate lets through\<close>

lemma require_contact_allowed_iff:
  "require_contact_allowed c policy cutoff = Inr () \<longleftrightarrow>
   cutoff < instant (cp_expires_at c)
   \<and> (cp_classification c = NAMED_PROFESSIONAL \<longrightarrow>
        (\<exists>p. policy = Some p \<and> policy_is_complete p
           \<and> instant (cp_expires_at c) \<le> instant (cp_collected_at c) + vp_named_contact_retention_days p * day_us))"
  by (cases "cp_classification c") (auto simp: require_contact_allowed_def split: option.splits)

lemma require_contact_allowed_error:
  "require_contact_allowed c policy cutoff = Inl e \<Longrightarrow> \<exists>m. e = PrivacyPolicyError m"
  by (auto simp: require_contact_allowed_def split: if_splits option.splits)

section \<open>What is stored\<close>

text \<open>The contacts a workspace may hold: unexpired, allowed by its policy and not suppressed.\<close>

definition storable ::
  "nat list \<Rightarrow> int \<Rightarrow> int \<Rightarrow> uuid \<Rightarrow> privacy_policy option \<Rightarrow> contact_point \<Rightarrow> db \<Rightarrow> bool" where
  "storable k cutoff clock ws policy c d \<longleftrightarrow>
     cutoff < instant (cp_expires_at c) \<and> require_contact_allowed c policy clock = Inr ()
     \<and> is_suppressed k ws (cp_kind c) (cp_normalized_value c) d = Inr False"

definition outcome_count :: "persistence_result \<Rightarrow> nat" where
  "outcome_count r = rs_persisted r + rs_suppressed r + rs_policy_rejected r + rs_expired r"

lemma is_suppressed_contacts:
  "is_suppressed k ws kind v (d\<lparr>t_contacts := cs\<rparr>) = is_suppressed k ws kind v d"
  by (simp add: is_suppressed_def)

lemma persist_one_Inr:
  assumes "persist_one k cutoff clock ws lead policy i c (n, d) = Inr (n', d')"
  shows "outcome_count n' = outcome_count n + 1 \<and>
    ((storable k cutoff clock ws policy c d \<and> rs_persisted n' = rs_persisted n + 1
      \<and> (\<exists>fp. fingerprint k (cp_kind c) (cp_normalized_value c) = Inr fp
          \<and> d' = d\<lparr>t_contacts := t_contacts d @ [contact_row k i ws lead c fp]\<rparr>))
    \<or> (\<not> storable k cutoff clock ws policy c d \<and> rs_persisted n' = rs_persisted n \<and> d' = d))"
proof (cases "instant (cp_expires_at c) \<le> cutoff")
  case True
  then show ?thesis using assms by (auto simp: persist_one_def storable_def outcome_count_def)
next
  case live: False
  show ?thesis
  proof (cases "require_contact_allowed c policy clock")
    case (Inl e)
    then show ?thesis using assms live by (auto simp: persist_one_def storable_def outcome_count_def)
  next
    case (Inr u)
    then obtain b where b: "is_suppressed k ws (cp_kind c) (cp_normalized_value c) d = Inr b"
      using assms live by (auto simp: persist_one_def bind_res_Inr_iff)
    show ?thesis
    proof (cases b)
      case True
      then show ?thesis using assms live Inr b by (auto simp: persist_one_def storable_def outcome_count_def)
    next
      case False
      then obtain fp where fp: "fingerprint k (cp_kind c) (cp_normalized_value c) = Inr fp"
        using assms live Inr b by (auto simp: persist_one_def bind_res_Inr_iff)
      then have "n' = n\<lparr>rs_persisted := rs_persisted n + 1\<rparr>"
        "d' = d\<lparr>t_contacts := t_contacts d @ [contact_row k i ws lead c fp]\<rparr>"
        using assms live Inr b False by (simp_all add: persist_one_def)
      then show ?thesis using live Inr b False fp by (simp add: storable_def outcome_count_def)
    qed
  qed
qed

lemma storable_contacts: "storable k cutoff clock ws policy c (d\<lparr>t_contacts := cs\<rparr>) = storable k cutoff clock ws policy c d"
  by (simp add: storable_def is_suppressed_contacts)

text \<open>The loop appends one row for each storable contact, in order, and counts every contact once.\<close>

lemma persist_loop_Inr:
  assumes "persist_loop k cutoff clock ws lead policy cs (n, d) = Inr (n', d')"
  shows "\<exists>rows. d' = d\<lparr>t_contacts := t_contacts d @ rows\<rparr>
      \<and> length rows + rs_persisted n = rs_persisted n'
      \<and> list_all2 (\<lambda>(i, c) row. \<exists>fp. fingerprint k (cp_kind c) (cp_normalized_value c) = Inr fp
            \<and> row = contact_row k i ws lead c fp)
          (filter (\<lambda>(i, c). storable k cutoff clock ws policy c d) cs) rows
      \<and> outcome_count n' = outcome_count n + length cs"
  using assms
proof (induction cs arbitrary: n d)
  case Nil
  then show ?case by (intro exI [of _ "[]"]) simp
next
  case (Cons x cs)
  obtain i c where x: "x = (i, c)" by (cases x)
  with Cons.prems obtain n1 d1 where one: "persist_one k cutoff clock ws lead policy i c (n, d) = Inr (n1, d1)"
    and rest: "persist_loop k cutoff clock ws lead policy cs (n1, d1) = Inr (n', d')"
    by (auto simp: bind_res_Inr_iff)
  from Cons.IH [OF rest] obtain rows where IH: "d' = d1\<lparr>t_contacts := t_contacts d1 @ rows\<rparr>"
      "length rows + rs_persisted n1 = rs_persisted n'"
      "list_all2 (\<lambda>(i, c) row. \<exists>fp. fingerprint k (cp_kind c) (cp_normalized_value c) = Inr fp
            \<and> row = contact_row k i ws lead c fp)
          (filter (\<lambda>(i, c). storable k cutoff clock ws policy c d1) cs) rows"
      "outcome_count n' = outcome_count n1 + length cs"
    by blast
  from persist_one_Inr [OF one] consider
    (stored) fp where "storable k cutoff clock ws policy c d" "rs_persisted n1 = rs_persisted n + 1"
      "fingerprint k (cp_kind c) (cp_normalized_value c) = Inr fp"
      "d1 = d\<lparr>t_contacts := t_contacts d @ [contact_row k i ws lead c fp]\<rparr>"
    | (skipped) "\<not> storable k cutoff clock ws policy c d" "rs_persisted n1 = rs_persisted n" "d1 = d"
    by blast
  then show ?case
  proof cases
    case stored
    then show ?thesis
      using IH persist_one_Inr [OF one] x
      by (intro exI [of _ "contact_row k i ws lead c fp # rows"]) (simp add: storable_contacts)
  next
    case skipped
    then show ?thesis using IH persist_one_Inr [OF one] x by (intro exI [of _ rows]) simp
  qed
qed

section \<open>What is exported\<close>

lemma purge_for_export_contacts:
  "t_contacts (purge_for_export ws cutoff d) = del_rows (expired_contact ws cutoff) (t_contacts d)"
  "t_suppressions (purge_for_export ws cutoff d) = t_suppressions d"
  "t_policies (purge_for_export ws cutoff d) = t_policies d"
  by (simp_all add: purge_for_export_def Let_def)

definition exportable ::
  "nat list \<Rightarrow> uuid \<Rightarrow> privacy_policy option \<Rightarrow> db \<Rightarrow> contact \<Rightarrow> bool" where
  "exportable k ws policy d c \<longleftrightarrow> export_decision k ws policy d c = Inr True"

lemma export_loop_Inr:
  "export_loop k ws policy d cs = Inr xs \<Longrightarrow>
   xs = filter (exportable k ws policy d) cs \<and> (\<forall>c \<in> set cs. ok_res (export_decision k ws policy d c))"
proof (induction cs arbitrary: xs)
  case (Cons c cs)
  then obtain b rest where "export_decision k ws policy d c = Inr b" "export_loop k ws policy d cs = Inr rest"
    "xs = (if b then c # rest else rest)" by (auto simp: bind_res_Inr_iff)
  with Cons.IH [of rest] show ?case by (auto simp: exportable_def)
qed simp

lemma export_decision_True:
  "export_decision k ws policy d c = Inr True \<longleftrightarrow>
   (\<exists>kind. contact_kind_of (co_kind c) = Inr kind
     \<and> is_suppressed k ws kind (co_normalized_value c) d = Inr False
     \<and> (co_classification c = ''named_professional'' \<longrightarrow> (\<exists>p. policy = Some p \<and> policy_is_complete p
          \<and> co_expires_at c \<le> co_collected_at c + vp_named_contact_retention_days p * day_us)))"
  by (auto simp: export_decision_def bind_res_Inr_iff split: if_splits option.splits)

text \<open>The export is the workspace's unexpired contacts that pass, in order; nothing else.\<close>

lemma exportable_contacts_Inr:
  assumes "exportable_contacts k cutoff ws d = (Inr xs, d')"
  obtains policy where "policy_get ws d = Inr policy"
    "set xs = {c \<in> set (t_contacts d). co_workspace_id c = ws \<and> cutoff < co_expires_at c
       \<and> exportable k ws policy d' c}"
    "sorted (map co_normalized_value xs)" "d' = purge_for_export ws cutoff d"
    "\<forall>c \<in> set (t_contacts d). co_workspace_id c = ws \<and> cutoff < co_expires_at c \<longrightarrow>
       ok_res (export_decision k ws policy d' c)"
proof -
  let ?d = "purge_for_export ws cutoff d"
  have d': "d' = ?d" using assms by (simp add: exportable_contacts_def Let_def)
  have "policy_get ws ?d = policy_get ws d" by (simp add: policy_get_def purge_for_export_contacts)
  with assms obtain policy where p: "policy_get ws d = Inr policy"
    and loop: "export_loop k ws policy ?d
      (sort_key co_normalized_value (filter (\<lambda>c. co_workspace_id c = ws) (t_contacts ?d))) = Inr xs"
    by (auto simp: exportable_contacts_def Let_def bind_res_Inr_iff)
  have xs: "xs = filter (exportable k ws policy ?d)
      (sort_key co_normalized_value (filter (\<lambda>c. co_workspace_id c = ws) (t_contacts ?d)))"
    using export_loop_Inr [OF loop] by blast
  show ?thesis
  proof (rule that [OF p _ _ d'])
    show "set xs = {c \<in> set (t_contacts d). co_workspace_id c = ws \<and> cutoff < co_expires_at c
       \<and> exportable k ws policy d' c}"
      by (auto simp: xs d' purge_for_export_contacts expired_contact_def)
    show "sorted (map co_normalized_value xs)" by (simp add: xs sorted_filter)
    show "\<forall>c \<in> set (t_contacts d). co_workspace_id c = ws \<and> cutoff < co_expires_at c \<longrightarrow>
       ok_res (export_decision k ws policy d' c)"
      using export_loop_Inr [OF loop] by (auto simp: d' purge_for_export_contacts expired_contact_def)
  qed
qed

end
