(* ===== verification/Requests.thy ===== *)
theory Requests
  imports Privacy
begin

text \<open>
  Data subject requests (src/src/application/data_subject_requests.py): erasure or opposition
  deletes the matching contacts and suppresses the identifier, access is recorded,
  rectification rewrites the matching contacts and suppresses the old value. A request
  identifier is used once: repeating it with the same parameters returns the same record.
\<close>

text \<open>\<open>_existing_request\<close>\<close>

definition existing_request ::
  "uuid \<Rightarrow> uuid \<Rightarrow> request_kind \<Rightarrow> contact_kind \<Rightarrow> string \<Rightarrow> db \<Rightarrow> subject_request option res" where
  "existing_request request_id workspace_id kind identifier_kind fp d =
    (case find (\<lambda>r. ds_id r = request_id) (t_requests d) of
       None \<Rightarrow> Inr None
     | Some r \<Rightarrow>
         if ds_workspace_id r \<noteq> workspace_id \<or> ds_request_kind r \<noteq> request_kind_value kind
            \<or> ds_identifier_kind r \<noteq> contact_kind_value identifier_kind \<or> ds_subject_fingerprint r \<noteq> fp
         then Inl (ValueError ''request_id gia utilizzato con parametri differenti.'')
         else Inr (Some r))"

definition contact_matches :: "uuid \<Rightarrow> contact_kind \<Rightarrow> string \<Rightarrow> contact \<Rightarrow> bool" where
  "contact_matches workspace_id kind fp c \<longleftrightarrow>
     co_workspace_id c = workspace_id \<and> co_kind c = contact_kind_value kind \<and> co_fingerprint c = fp"

definition completed_request ::
  "uuid \<Rightarrow> uuid \<Rightarrow> uuid option \<Rightarrow> request_kind \<Rightarrow> contact_kind \<Rightarrow> string \<Rightarrow> nat \<Rightarrow> int \<Rightarrow> subject_request" where
  "completed_request request_id workspace_id actor kind identifier_kind fp deleted now =
    \<lparr>ds_id = request_id, ds_workspace_id = workspace_id, ds_actor_user_id = actor,
     ds_request_kind = request_kind_value kind, ds_identifier_kind = contact_kind_value identifier_kind,
     ds_subject_fingerprint = fp, ds_status = ''completed'', ds_deleted_count = int deleted,
     ds_completed_at = Some now\<rparr>"

definition add_request :: "subject_request \<Rightarrow> db \<Rightarrow> db" where
  "add_request r d = d\<lparr>t_requests := t_requests d @ [r]\<rparr>"

definition request_event ::
  "uuid \<Rightarrow> uuid option \<Rightarrow> uuid \<Rightarrow> (string \<times> audit_value) list \<Rightarrow> db \<Rightarrow> db" where
  "request_event workspace_id actor request_id details d =
    append_audit_event ''privacy.request.completed'' (Some workspace_id) actor
      (Some ''data_subject_request'') (Some (uuid_text request_id)) details None d"

section \<open>Erasure and opposition\<close>

text \<open>
  The checks before anything is written: the kinds, the fingerprint and the earlier request.
\<close>

definition erase_checks ::
  "nat list \<Rightarrow> uuid \<Rightarrow> uuid \<Rightarrow> string \<Rightarrow> string \<Rightarrow> string \<Rightarrow> db \<Rightarrow>
   (contact_kind \<times> request_kind \<times> string \<times> subject_request option) res" where
  "erase_checks hmac_key request_id workspace_id kind value req_kind d =
    bind_res (contact_kind_of kind) (\<lambda>k.
    bind_res (request_kind_of req_kind) (\<lambda>rk.
      if rk \<notin> {ERASURE, OPPOSITION}
      then Inl (ValueError ''Tipo di richiesta non compatibile con cancellazione/suppression.'')
      else bind_res (fingerprint hmac_key k value) (\<lambda>fp.
        bind_res (existing_request request_id workspace_id rk k fp d) (\<lambda>old. Inr (k, rk, fp, old)))))"

definition erase_contacts :: "uuid \<Rightarrow> contact_kind \<Rightarrow> string \<Rightarrow> db \<Rightarrow> db" where
  "erase_contacts workspace_id kind fp d =
    d\<lparr>t_contacts := del_rows (\<lambda>c. co_id c \<in> set (map co_id (filter (contact_matches workspace_id kind fp)
        (t_contacts d)))) (t_contacts d)\<rparr>"

definition erase_and_suppress ::
  "nat list \<Rightarrow> uuid \<Rightarrow> int \<Rightarrow> uuid \<Rightarrow> uuid \<Rightarrow> uuid option \<Rightarrow> string \<Rightarrow> string \<Rightarrow> string \<Rightarrow> string \<Rightarrow>
   db \<Rightarrow> subject_request res \<times> db" where
  "erase_and_suppress hmac_key entry_id now request_id workspace_id actor kind value scope req_kind d =
    (case erase_checks hmac_key request_id workspace_id kind value req_kind d of
       Inl e \<Rightarrow> (Inl e, d)
     | Inr (k, rk, fp, Some old) \<Rightarrow> (Inr old, d)
     | Inr (k, rk, fp, None) \<Rightarrow>
        let d1 = erase_contacts workspace_id k fp d;
            deleted = length (t_contacts d) - length (t_contacts d1)
        in case suppression_scope_of scope of
             Inl e \<Rightarrow> (Inl e, d1)
           | Inr sc \<Rightarrow>
              (case suppress hmac_key entry_id workspace_id k value sc ''data_subject_erasure'' actor d1 of
                 (Inl e, d2) \<Rightarrow> (Inl e, d2)
               | (Inr _, d2) \<Rightarrow>
                  let r = completed_request request_id workspace_id actor rk k fp deleted now
                  in (Inr r, request_event workspace_id actor request_id
                        [(''result'', AVText ''completed''), (''count'', AVInt (int deleted))]
                        (add_request r d2))))"

section \<open>Access\<close>

definition access_checks ::
  "nat list \<Rightarrow> uuid \<Rightarrow> uuid \<Rightarrow> request_kind \<Rightarrow> contact_kind \<Rightarrow> string \<Rightarrow> db \<Rightarrow>
   (string \<times> subject_request option) res" where
  "access_checks hmac_key request_id workspace_id rk k value d =
    bind_res (fingerprint hmac_key k value) (\<lambda>fp.
    bind_res (existing_request request_id workspace_id rk k fp d) (\<lambda>old. Inr (fp, old)))"

definition record_access ::
  "nat list \<Rightarrow> int \<Rightarrow> uuid \<Rightarrow> uuid \<Rightarrow> uuid option \<Rightarrow> string \<Rightarrow> string \<Rightarrow> db \<Rightarrow> subject_request res \<times> db" where
  "record_access hmac_key now request_id workspace_id actor kind value d =
    (case contact_kind_of kind of
       Inl e \<Rightarrow> (Inl e, d)
     | Inr k \<Rightarrow>
        (case access_checks hmac_key request_id workspace_id ACCESS k value d of
           Inl e \<Rightarrow> (Inl e, d)
         | Inr (fp, Some old) \<Rightarrow> (Inr old, d)
         | Inr (fp, None) \<Rightarrow>
            let r = completed_request request_id workspace_id actor ACCESS k fp 0 now
            in (Inr r, request_event workspace_id actor request_id
                  [(''result'', AVText ''completed''), (''request_type'', AVText ''access''), (''count'', AVInt 0)]
                  (add_request r d))))"

text \<open>What the subject gets to see; timestamps are instants.\<close>

record subject_datum =
  sd_kind :: string
  sd_value :: string
  sd_source_type :: string
  sd_source_url :: string
  sd_collected_at :: int
  sd_classification :: string
  sd_expires_at :: int

definition subject_data :: "nat list \<Rightarrow> uuid \<Rightarrow> string \<Rightarrow> string \<Rightarrow> db \<Rightarrow> subject_datum list res" where
  "subject_data hmac_key workspace_id kind value d =
    bind_res (contact_kind_of kind) (\<lambda>k.
    bind_res (fingerprint hmac_key k value) (\<lambda>fp.
      Inr (map (\<lambda>c. \<lparr>sd_kind = co_kind c, sd_value = co_display_value c, sd_source_type = co_source_type c,
               sd_source_url = (case co_source_url c of None \<Rightarrow> '''' | Some u \<Rightarrow> u),
               sd_collected_at = co_collected_at c, sd_classification = co_classification c,
               sd_expires_at = co_expires_at c\<rparr>)
             (filter (contact_matches workspace_id k fp) (t_contacts d)))))"

section \<open>Rectification\<close>

definition put_contact :: "contact \<Rightarrow> db \<Rightarrow> db" where
  "put_contact x d = d\<lparr>t_contacts := upd_rows (\<lambda>c. co_id c = co_id x) (\<lambda>_. x) (t_contacts d)\<rparr>"

definition rectified_contact :: "uuid \<Rightarrow> contact_point \<Rightarrow> string \<Rightarrow> contact \<Rightarrow> contact" where
  "rectified_contact request_id replacement fp item =
    item\<lparr>co_normalized_value := cp_normalized_value replacement,
         co_display_value := cp_display_value replacement, co_fingerprint := fp,
         co_source_type := ''data_subject_request'', co_source_url := None,
         co_source_request_id := Some request_id, co_collected_at := instant (cp_collected_at replacement),
         co_extraction_method := extraction_method_value (cp_extraction_method replacement),
         co_confidence := cp_confidence replacement,
         co_classification := classification_value (cp_classification replacement),
         co_expires_at := instant (cp_expires_at replacement), co_evidence_sha256 := fp,
         co_rules_version := cp_rules_version replacement\<rparr>"

text \<open>One contact of the loop; \<open>clock\<close> is what the gate reads.\<close>

definition rectify_one ::
  "nat list \<Rightarrow> int \<Rightarrow> int \<Rightarrow> uuid \<Rightarrow> uuid \<Rightarrow> privacy_policy option \<Rightarrow> string \<Rightarrow> contact \<Rightarrow> db \<Rightarrow> db res" where
  "rectify_one hmac_key now clock request_id workspace_id policy replacement_value item d =
    bind_res (from_email replacement_value (co_source_url item) (Aware now) STRUCTURED_DATA
        (co_evidence_sha256 item)) (\<lambda>replacement.
    bind_res (require_contact_allowed replacement policy clock) (\<lambda>_.
    bind_res (is_suppressed hmac_key workspace_id EMAIL (cp_normalized_value replacement) d) (\<lambda>suppressed.
      if suppressed then Inl (ValueError ''Il valore corretto e presente nella suppression list.'')
      else bind_res (fingerprint hmac_key EMAIL (cp_normalized_value replacement)) (\<lambda>fp.
        Inr (put_contact (rectified_contact request_id replacement fp item) d)))))"

text \<open>On an exception the writes made so far are still in the session.\<close>

fun rectify_loop ::
  "nat list \<Rightarrow> int \<Rightarrow> int \<Rightarrow> uuid \<Rightarrow> uuid \<Rightarrow> privacy_policy option \<Rightarrow> string \<Rightarrow> contact list \<Rightarrow> db \<Rightarrow>
   unit res \<times> db" where
  "rectify_loop k now clock rid ws policy replacement [] d = (Inr (), d)"
| "rectify_loop k now clock rid ws policy replacement (c # cs) d =
    (case rectify_one k now clock rid ws policy replacement c d of
       Inl e \<Rightarrow> (Inl e, d)
     | Inr d' \<Rightarrow> rectify_loop k now clock rid ws policy replacement cs d')"

definition rectify ::
  "nat list \<Rightarrow> uuid \<Rightarrow> int \<Rightarrow> int \<Rightarrow> uuid \<Rightarrow> uuid \<Rightarrow> uuid option \<Rightarrow> string \<Rightarrow> string \<Rightarrow> string \<Rightarrow>
   db \<Rightarrow> subject_request res \<times> db" where
  "rectify hmac_key entry_id now clock request_id workspace_id actor kind value replacement_value d =
    (case contact_kind_of kind of
       Inl e \<Rightarrow> (Inl e, d)
     | Inr PHONE \<Rightarrow> (Inl (ValueError ''La rettifica automatica iniziale supporta soltanto email.''), d)
     | Inr EMAIL \<Rightarrow>
        (case access_checks hmac_key request_id workspace_id RECTIFICATION EMAIL value d of
           Inl e \<Rightarrow> (Inl e, d)
         | Inr (fp, Some old) \<Rightarrow> (Inr old, d)
         | Inr (fp, None) \<Rightarrow>
            let contacts = filter (contact_matches workspace_id EMAIL fp) (t_contacts d) in
            (case policy_get workspace_id d of
               Inl e \<Rightarrow> (Inl e, d)
             | Inr policy \<Rightarrow>
                let r = completed_request request_id workspace_id actor RECTIFICATION EMAIL fp 0 now in
                (case rectify_loop hmac_key now clock request_id workspace_id policy replacement_value contacts
                        (add_request r d) of
                   (Inl e, d1) \<Rightarrow> (Inl e, d1)
                 | (Inr _, d1) \<Rightarrow>
                    (case suppress hmac_key entry_id workspace_id EMAIL value WORKSPACE
                            ''rectified_identifier'' actor d1 of
                       (Inl e, d2) \<Rightarrow> (Inl e, d2)
                     | (Inr _, d2) \<Rightarrow>
                        (Inr r, request_event workspace_id actor request_id
                           [(''result'', AVText ''completed''), (''request_type'', AVText ''rectification''),
                            (''count'', AVInt (int (length contacts)))] d2))))))"

section \<open>Facts about the pieces\<close>

lemma contact_kind_of_value [simp]: "contact_kind_of (contact_kind_value k) = Inr k"
  by (cases k) (simp_all add: contact_kind_of_def)

lemma contact_kind_of_Inr: "contact_kind_of s = Inr k \<longleftrightarrow> s = contact_kind_value k"
  by (cases k) (auto simp: contact_kind_of_def)

lemma request_kind_of_Inr: "request_kind_of s = Inr k \<Longrightarrow> s = request_kind_value k"
  by (auto simp: request_kind_of_def simp del: find.simps dest: find_SomeD split: option.splits)

lemma request_kind_of_value [simp]: "request_kind_of (request_kind_value k) = Inr k"
  by (cases k) (simp_all add: request_kind_of_def)

lemma request_event_frame [simp]:
  "t_contacts (request_event ws a i ds d) = t_contacts d" "t_requests (request_event ws a i ds d) = t_requests d"
  "t_suppressions (request_event ws a i ds d) = t_suppressions d" "t_policies (request_event ws a i ds d) = t_policies d"
  by (simp_all add: request_event_def)

lemma add_request_frame [simp]:
  "t_contacts (add_request r d) = t_contacts d" "t_requests (add_request r d) = t_requests d @ [r]"
  "t_suppressions (add_request r d) = t_suppressions d" "t_policies (add_request r d) = t_policies d"
  by (simp_all add: add_request_def)

lemma erase_contacts_frame [simp]:
  "t_requests (erase_contacts ws k fp d) = t_requests d" "t_suppressions (erase_contacts ws k fp d) = t_suppressions d"
  by (simp_all add: erase_contacts_def)

lemma erase_contacts_set:
  assumes "distinct_on co_id (t_contacts d)"
  shows "set (t_contacts (erase_contacts ws k fp d)) = {c \<in> set (t_contacts d). \<not> contact_matches ws k fp c}"
  using assms by (auto simp: erase_contacts_def dest: distinct_on_eq)

lemma erase_contacts_count:
  assumes "distinct_on co_id (t_contacts d)"
  shows "length (t_contacts d) - length (t_contacts (erase_contacts ws k fp d))
    = length (filter (contact_matches ws k fp) (t_contacts d))"
proof -
  let ?ids = "set (map co_id (filter (contact_matches ws k fp) (t_contacts d)))"
  have "filter (\<lambda>c. co_id c \<in> ?ids) (t_contacts d) = filter (contact_matches ws k fp) (t_contacts d)"
    using assms by (intro filter_cong refl) (auto dest: distinct_on_eq)
  then show ?thesis
    using length_del_rows [of "\<lambda>c. co_id c \<in> ?ids" "t_contacts d"] by (simp add: erase_contacts_def)
qed

lemma suppress_frame:
  "suppress key i ws k v scope reason actor d = (r, d') \<Longrightarrow>
   t_contacts d' = t_contacts d \<and> t_requests d' = t_requests d \<and> t_policies d' = t_policies d"
  using suppress_table [of key i ws k v scope reason actor d r d'] by auto

section \<open>Erasure\<close>

lemma erase_checks_Inr:
  "erase_checks key rid ws kind v rk d = Inr (k, q, fp, old) \<Longrightarrow>
   kind = contact_kind_value k \<and> rk = request_kind_value q \<and> q \<in> {ERASURE, OPPOSITION}
   \<and> fingerprint key k v = Inr fp \<and> existing_request rid ws q k fp d = Inr old"
  by (auto simp: erase_checks_def bind_res_Inr_iff contact_kind_of_Inr dest: request_kind_of_Inr split: if_splits)

lemma erase_Inr_new:
  assumes "erase_and_suppress key i now rid ws actor kind v scope rk d = (Inr r, d')"
    and "find (\<lambda>r. ds_id r = rid) (t_requests d) = None"
  obtains k q fp sc e d2 where "kind = contact_kind_value k" "rk = request_kind_value q" "q \<in> {ERASURE, OPPOSITION}"
    "fingerprint key k v = Inr fp" "suppression_scope_of scope = Inr sc"
    "suppress key i ws k v sc ''data_subject_erasure'' actor (erase_contacts ws k fp d) = (Inr e, d2)"
    "r = completed_request rid ws actor q k fp
       (length (t_contacts d) - length (t_contacts (erase_contacts ws k fp d))) now"
    "t_requests d' = t_requests d @ [r]" "t_contacts d' = t_contacts (erase_contacts ws k fp d)"
    "t_suppressions d' = t_suppressions d2"
proof -
  obtain k q fp old where c: "erase_checks key rid ws kind v rk d = Inr (k, q, fp, old)"
    using assms(1) by (cases "erase_checks key rid ws kind v rk d") (auto simp: erase_and_suppress_def)
  note c' = erase_checks_Inr [OF c]
  have old: "old = None" using c' assms(2) by (auto simp: existing_request_def)
  obtain sc where sc: "suppression_scope_of scope = Inr sc"
    using assms(1) c old by (cases "suppression_scope_of scope") (auto simp: erase_and_suppress_def Let_def)
  obtain e d2 where s: "suppress key i ws k v sc ''data_subject_erasure'' actor (erase_contacts ws k fp d) = (Inr e, d2)"
    using assms(1) c old sc
    by (cases "suppress key i ws k v sc ''data_subject_erasure'' actor (erase_contacts ws k fp d)"; cases "fst (suppress key i ws k v sc ''data_subject_erasure'' actor (erase_contacts ws k fp d))")
      (auto simp: erase_and_suppress_def Let_def)
  show ?thesis
    by (rule that [of k q fp sc e d2])
      (use assms(1) c c' old sc s suppress_frame [OF s] in \<open>auto simp: erase_and_suppress_def Let_def\<close>)
qed

text \<open>The effect of a new erasure or opposition.\<close>

lemma erase_effect:
  assumes run: "erase_and_suppress key i now rid ws actor kind v scope rk d = (Inr r, d')"
    and new: "find (\<lambda>r. ds_id r = rid) (t_requests d) = None" and ok: "integrity_ok d"
    and fp: "contact_kind_of kind = Inr k" "fingerprint key k v = Inr fp"
  shows "set (t_contacts d') = {c \<in> set (t_contacts d). \<not> contact_matches ws k fp c}"
    and "ds_deleted_count r = int (length (filter (contact_matches ws k fp) (t_contacts d)))"
    and "scope = ''global'' \<or> ws' = ws \<Longrightarrow> is_suppressed key ws' k v d' = Inr True"
    and "t_requests d' = t_requests d @ [r]"
proof -
  obtain k' q fp' sc e d2 where e: "kind = contact_kind_value k'" "fingerprint key k' v = Inr fp'"
    "suppression_scope_of scope = Inr sc"
    "suppress key i ws k' v sc ''data_subject_erasure'' actor (erase_contacts ws k' fp' d) = (Inr e, d2)"
    "r = completed_request rid ws actor q k' fp'
       (length (t_contacts d) - length (t_contacts (erase_contacts ws k' fp' d))) now"
    "t_requests d' = t_requests d @ [r]" "t_contacts d' = t_contacts (erase_contacts ws k' fp' d)"
    "t_suppressions d' = t_suppressions d2"
    using run new by (rule erase_Inr_new)
  have k: "k' = k" "fp' = fp" using fp e(1,2) by auto
  have distinct: "distinct_on co_id (t_contacts d)" using ok by (rule integrity_okD)
  show "set (t_contacts d') = {c \<in> set (t_contacts d). \<not> contact_matches ws k fp c}"
    using e(7) k erase_contacts_set [OF distinct] by simp
  show "ds_deleted_count r = int (length (filter (contact_matches ws k fp) (t_contacts d)))"
    using e(5) k erase_contacts_count [OF distinct] by (simp add: completed_request_def)
  show "t_requests d' = t_requests d @ [r]" by (rule e(6))
  show "is_suppressed key ws' k v d' = Inr True" if "scope = ''global'' \<or> ws' = ws"
  proof -
    have "sc = GLOBAL \<or> ws' = ws" using that e(3) by (auto simp: suppression_scope_of_def split: if_splits)
    then have "is_suppressed key ws' k v d2 = Inr True" using suppressing.listed_entry [OF e(4)] k by simp
    then show ?thesis using suppressing.listed_table [OF e(8)] by simp
  qed
qed

text \<open>Repeating the request changes nothing and returns the same record.\<close>

lemma erase_repeat:
  assumes run: "erase_and_suppress key i now rid ws actor kind v scope rk d = (Inr r, d')"
    and new: "find (\<lambda>r. ds_id r = rid) (t_requests d) = None"
  shows "erase_and_suppress key i' now' rid ws actor' kind v scope' rk d' = (Inr r, d')"
proof -
  obtain k q fp sc e d2 n where e: "kind = contact_kind_value k" "rk = request_kind_value q" "q \<in> {ERASURE, OPPOSITION}"
    "fingerprint key k v = Inr fp" "r = completed_request rid ws actor q k fp n now"
    "t_requests d' = t_requests d @ [r]"
    using run new by (rule erase_Inr_new)
  have "find (\<lambda>r. ds_id r = rid) (t_requests d') = Some r"
    using new e(5,6) by (simp add: find_append completed_request_def)
  then have "existing_request rid ws q k fp d' = Inr (Some r)"
    using e(5) by (simp add: existing_request_def completed_request_def)
  moreover have "request_kind_of rk = Inr q" using e(2) by simp
  ultimately have "erase_checks key rid ws kind v rk d' = Inr (k, q, fp, Some r)"
    using e(1,3,4) by (simp add: erase_checks_def)
  then show ?thesis by (simp add: erase_and_suppress_def)
qed

section \<open>Rectification\<close>

text \<open>A contact without a source URL cannot be rectified: its constructor refuses it.\<close>

lemma rectify_one_without_source:
  "co_source_url item = None \<Longrightarrow> \<exists>e. rectify_one key now clock rid ws policy v item d = Inl e \<and> is_ValueError e"
proof -
  assume none: "co_source_url item = None"
  obtain e where "from_email v None (Aware now) STRUCTURED_DATA (co_evidence_sha256 item) = Inl e" "is_ValueError e"
  proof (cases "normalize_email v")
    case (Inl e)
    then show ?thesis using that by (auto simp: from_email_def normalize_email_def Let_def split: if_splits)
  next
    case (Inr n)
    then have "classify_email n \<noteq> Inl e" for e by (simp add: classify_email_def normalize_email_fixed)
    then obtain k where "classify_email n = Inr k" by (cases "classify_email n") auto
    with Inr show ?thesis
      using that by (simp add: from_email_def make_contact_point_def source_url_check_def)
  qed
  with none show ?thesis by (simp add: rectify_one_def)
qed

lemma rectify_one_Inr:
  assumes "rectify_one key now clock rid ws policy v item d = Inr d'"
  obtains x where "co_id x = co_id item" "co_source_url x = None" "co_workspace_id x = co_workspace_id item"
    "co_kind x = co_kind item" "fingerprint key EMAIL v = Inr (co_fingerprint x)" "d' = put_contact x d"
    "co_source_request_id x = Some rid" "normalize_email v = Inr (co_normalized_value x)"
    "clock < co_expires_at x" "is_suppressed key ws EMAIL (co_normalized_value x) d = Inr False"
proof -
  obtain p fp where p: "from_email v (co_source_url item) (Aware now) STRUCTURED_DATA (co_evidence_sha256 item) = Inr p"
    and a: "require_contact_allowed p policy clock = Inr ()"
    and fp: "fingerprint key EMAIL (cp_normalized_value p) = Inr fp"
    and free: "is_suppressed key ws EMAIL (cp_normalized_value p) d = Inr False"
    and d': "d' = put_contact (rectified_contact rid p fp item) d"
    using assms by (auto simp: rectify_one_def bind_res_Inr_iff split: if_splits)
  obtain n where n: "normalize_email v = Inr n" "cp_normalized_value p = n"
    using p by (rule from_email_Inr)
  then have "fingerprint key EMAIL v = Inr fp"
    using fp fingerprint_normalized [of EMAIL v n key] by simp
  with n d' a free show ?thesis
    by (intro that [of "rectified_contact rid p fp item"])
      (auto simp: rectified_contact_def require_contact_allowed_iff)
qed

lemma rectify_loop_without_source:
  assumes "c \<in> set cs" "co_source_url c = None"
  shows "fst (rectify_loop key now clock rid ws policy v cs d) \<noteq> Inr ()"
  using assms
proof (induction cs arbitrary: d)
  case (Cons x cs)
  show ?case
  proof (cases "rectify_one key now clock rid ws policy v x d")
    case (Inr d')
    then have "co_source_url x \<noteq> None" using rectify_one_without_source by (metis sum.distinct(1))
    then show ?thesis using Cons Inr by auto
  qed simp
qed simp

lemma rectify_loop_error:
  "rectify_loop key now clock rid ws policy v cs d = (Inl e, d') \<Longrightarrow>
   \<exists>c \<in> set cs. \<exists>d. rectify_one key now clock rid ws policy v c d = Inl e"
  by (induction cs arbitrary: d) (auto split: sum.splits)

end
