(* ===== verification/Workspaces.thy ===== *)
theory Workspaces
  imports Crypto Budgets Identity Regex
begin

text \<open>
  Workspaces and provider credentials: the one-time bootstrap and the creation of workspaces
  (src/src/application/workspaces.py, src/src/cli/bootstrap.py), and the write-only credential
  service (src/src/application/secrets.py). Identifiers the code draws at random are
  arguments.
\<close>

section \<open>Workspaces\<close>

text \<open>\<open>[a-z0-9][a-z0-9-]{1,78}[a-z0-9]\<close>\<close>

definition slug_char :: "char \<Rightarrow> bool" where
  "slug_char c \<longleftrightarrow> is_lower_az c \<or> is_digit c"

definition slug_pattern :: rx where
  "slug_pattern = r_seq [RCls slug_char, RRep 1 78 (RCls (\<lambda>c. slug_char c \<or> c = CHR ''-'')), RCls slug_char]"

definition new_workspace :: "uuid \<Rightarrow> string \<Rightarrow> string \<Rightarrow> workspace res" where
  "new_workspace new_id slug name =
    (let normalized_slug = py_lower (py_strip slug) in
     if \<not> rx_fullmatch slug_pattern normalized_slug then Inl (ValueError ''Slug workspace non valido.'')
     else if py_strip name = '''' then Inl (ValueError ''Nome workspace obbligatorio.'')
     else Inr \<lparr>wo_id = new_id, wo_slug = normalized_slug, wo_name = py_strip name, wo_is_active = True\<rparr>)"

definition new_budget :: "uuid \<Rightarrow> uuid \<Rightarrow> int \<Rightarrow> budget" where
  "new_budget new_id workspace_id hard_limit =
    \<lparr>bu_id = new_id, bu_workspace_id = workspace_id, bu_currency = ''EUR'', bu_hard_limit = hard_limit,
     bu_spent = 0, bu_reserved = 0, bu_warning_threshold = 8000\<rparr>"

text \<open>The identifiers drawn for a workspace, its first membership and its budget.\<close>

record workspace_ids =
  wi_user :: uuid
  wi_workspace :: uuid
  wi_membership :: uuid
  wi_budget :: uuid

definition add_owner :: "workspace_ids \<Rightarrow> uuid \<Rightarrow> int \<Rightarrow> db \<Rightarrow> db" where
  "add_owner ids user_id limit d =
    d\<lparr>t_memberships := t_memberships d @ [\<lparr>me_id = wi_membership ids, me_workspace_id = wi_workspace ids,
         me_user_id = user_id, me_role = role_value Role_ADMIN\<rparr>],
      t_budgets := t_budgets d @ [new_budget (wi_budget ids) (wi_workspace ids) limit]\<rparr>"

definition bootstrap_platform ::
  "password_service \<Rightarrow> workspace_ids \<Rightarrow> string \<Rightarrow> string \<Rightarrow> string \<Rightarrow> string \<Rightarrow> string \<Rightarrow> cost_value \<Rightarrow>
   db \<Rightarrow> (user \<times> workspace) res \<times> db" where
  "bootstrap_platform passwords ids email password display_name slug name hard_limit d =
    (if t_users d \<noteq> [] then (Inl (BootstrapError ''Bootstrap gia completato.''), d)
     else case new_workspace (wi_workspace ids) slug name of
       Inl e \<Rightarrow> (Inl e, d)
     | Inr w \<Rightarrow>
        (case password_hash passwords password of
           Inl e \<Rightarrow> (Inl e, d)
         | Inr h \<Rightarrow>
            let u = \<lparr>us_id = wi_user ids, us_email = py_casefold (py_strip email), us_password_hash = h,
                     us_display_name = py_strip display_name, us_is_active = True,
                     us_is_platform_admin = True, us_session_version = 1\<rparr>;
                d1 = d\<lparr>t_users := t_users d @ [u], t_workspaces := t_workspaces d @ [w]\<rparr>
            in case normalized_cost hard_limit of
                 Inl e \<Rightarrow> (Inl e, d1)
               | Inr limit \<Rightarrow>
                  (Inr (u, w), append_audit_event ''platform.bootstrap'' (Some (wo_id w)) (Some (us_id u))
                     (Some ''workspace'') (Some (uuid_text (wo_id w))) [] None
                     (add_owner ids (us_id u) limit d1))))"

definition create_workspace ::
  "workspace_ids \<Rightarrow> uuid \<Rightarrow> bool \<Rightarrow> string \<Rightarrow> string \<Rightarrow> cost_value \<Rightarrow> db \<Rightarrow> workspace res \<times> db" where
  "create_workspace ids actor_user_id mfa_verified slug name hard_limit d =
    (case find (\<lambda>u. us_id u = actor_user_id) (t_users d) of
       None \<Rightarrow> (Inl (PermissionError ''Amministratore di piattaforma con MFA richiesto.''), d)
     | Some actor \<Rightarrow>
        if \<not> us_is_platform_admin actor \<or> \<not> mfa_verified
        then (Inl (PermissionError ''Amministratore di piattaforma con MFA richiesto.''), d)
        else case new_workspace (wi_workspace ids) slug name of
          Inl e \<Rightarrow> (Inl e, d)
        | Inr w \<Rightarrow>
            let d1 = d\<lparr>t_workspaces := t_workspaces d @ [w]\<rparr>
            in case normalized_cost hard_limit of
                 Inl e \<Rightarrow> (Inl e, d1)
               | Inr limit \<Rightarrow>
                  (Inr w, append_audit_event ''workspace.created'' (Some (wo_id w)) (Some (us_id actor))
                     (Some ''workspace'') (Some (uuid_text (wo_id w))) [] None
                     (add_owner ids (us_id actor) limit d1)))"

text \<open>
  The command line: every variable must be set, then one session bootstraps. A variable that
  is missing and an empty one are treated alike.
\<close>

definition bootstrap_variables :: "string list" where
  "bootstrap_variables = [''DATABASE_MIGRATION_URL'', ''LEADHUNTER_BOOTSTRAP_EMAIL'',
     ''LEADHUNTER_BOOTSTRAP_PASSWORD'', ''LEADHUNTER_BOOTSTRAP_NAME'', ''LEADHUNTER_BOOTSTRAP_WORKSPACE_SLUG'',
     ''LEADHUNTER_BOOTSTRAP_WORKSPACE_NAME'', ''LEADHUNTER_BOOTSTRAP_HARD_LIMIT'']"

definition getenv :: "(string \<Rightarrow> string option) \<Rightarrow> string \<Rightarrow> string" where
  "getenv env name = (case env name of None \<Rightarrow> '''' | Some v \<Rightarrow> v)"

definition bootstrap_main ::
  "password_service \<Rightarrow> workspace_ids \<Rightarrow> (string \<Rightarrow> string option) \<Rightarrow> store \<Rightarrow> (user \<times> workspace) res \<times> store" where
  "bootstrap_main passwords ids env st =
    (let missing = filter (\<lambda>n. getenv env n = '''') bootstrap_variables in
     if missing \<noteq> []
     then (Inl (RuntimeError (''Variabili bootstrap mancanti: '' @ join_with '', '' missing)), st)
     else run_session (on_db (bootstrap_platform passwords ids
            (getenv env ''LEADHUNTER_BOOTSTRAP_EMAIL'') (getenv env ''LEADHUNTER_BOOTSTRAP_PASSWORD'')
            (getenv env ''LEADHUNTER_BOOTSTRAP_NAME'') (getenv env ''LEADHUNTER_BOOTSTRAP_WORKSPACE_SLUG'')
            (getenv env ''LEADHUNTER_BOOTSTRAP_WORKSPACE_NAME'')
            (CText (getenv env ''LEADHUNTER_BOOTSTRAP_HARD_LIMIT'')))) st)"

section \<open>Provider credentials\<close>

record credential_status =
  cs_provider :: string
  cs_fingerprint :: string
  cs_updated_at :: int

definition credential_aad :: "uuid \<Rightarrow> string \<Rightarrow> string" where
  "credential_aad workspace_id provider = ''provider:'' @ uuid_text workspace_id @ '':'' @ provider @ '':v1''"

definition credential_of :: "uuid \<Rightarrow> string \<Rightarrow> db \<Rightarrow> provider_credential option" where
  "credential_of workspace_id provider d =
    find (\<lambda>r. pc_workspace_id r = workspace_id \<and> pc_provider r = provider) (t_credentials d)"

definition status_of :: "provider_credential \<Rightarrow> credential_status" where
  "status_of r = \<lparr>cs_provider = pc_provider r, cs_fingerprint = pc_fingerprint r, cs_updated_at = pc_updated_at r\<rparr>"

definition credential_put ::
  "aead_encrypt \<Rightarrow> secret_cipher \<Rightarrow> nat list \<Rightarrow> uuid \<Rightarrow> int \<Rightarrow> uuid \<Rightarrow> uuid \<Rightarrow> string \<Rightarrow> string \<Rightarrow>
   db \<Rightarrow> credential_status res \<times> db" where
  "credential_put enc key nonce new_id now workspace_id actor_user_id provider value d =
    (let normalized = py_lower (py_strip provider); found = credential_of workspace_id normalized d in
     case secret_encrypt enc key nonce value (credential_aad workspace_id normalized) of
       Inl e \<Rightarrow> (Inl e, d)
     | Inr ciphertext \<Rightarrow>
        let rid = (case found of None \<Rightarrow> new_id | Some r \<Rightarrow> pc_id r);
            row = \<lparr>pc_id = rid, pc_workspace_id = workspace_id, pc_provider = normalized,
                   pc_ciphertext = ciphertext, pc_key_version = 1,
                   pc_fingerprint = secret_fingerprint key value, pc_updated_at = now\<rparr>;
            d1 = (case found of
                    None \<Rightarrow> d\<lparr>t_credentials := t_credentials d @ [row]\<rparr>
                  | Some r \<Rightarrow> d\<lparr>t_credentials := upd_rows (\<lambda>x. pc_id x = rid) (\<lambda>_. row) (t_credentials d)\<rparr>)
        in (Inr (status_of row),
            append_audit_event ''secret.updated'' (Some workspace_id) (Some actor_user_id)
              (Some ''provider_credential'') (Some (uuid_text rid)) [(''provider'', AVText normalized)] None d1))"

definition credential_list_status :: "uuid \<Rightarrow> db \<Rightarrow> credential_status list" where
  "credential_list_status workspace_id d =
    map status_of (filter (\<lambda>r. pc_workspace_id r = workspace_id) (t_credentials d))"

definition credential_resolve ::
  "aead_decrypt \<Rightarrow> secret_cipher \<Rightarrow> uuid \<Rightarrow> string \<Rightarrow> db \<Rightarrow> string res" where
  "credential_resolve dec key workspace_id provider d =
    (let normalized = py_lower (py_strip provider) in
     case credential_of workspace_id normalized d of
       None \<Rightarrow> Inl (KeyError normalized)
     | Some r \<Rightarrow> secret_decrypt dec key (pc_ciphertext r) (credential_aad workspace_id normalized))"

section \<open>A new workspace\<close>

lemma slug_pattern_iff:
  "rx_fullmatch slug_pattern s \<longleftrightarrow>
   3 \<le> length s \<and> length s \<le> 80 \<and> (\<forall>c \<in> set s. slug_char c \<or> c = CHR ''-'')
   \<and> hd s \<noteq> CHR ''-'' \<and> last s \<noteq> CHR ''-''"
proof -
  have dash: "\<not> slug_char CHR ''-''" by (simp add: slug_char_def is_lower_az_def is_digit_def)
  have "rx_fullmatch slug_pattern s \<longleftrightarrow>
      (\<exists>a m b. s = a # m @ [b] \<and> slug_char a \<and> slug_char b \<and> 1 \<le> length m \<and> length m \<le> 78
         \<and> (\<forall>c \<in> set m. slug_char c \<or> c = CHR ''-''))"
  proof -
    have "lang_seq {s. 1 \<le> length s \<and> length s \<le> 78 \<and> (\<forall>c \<in> set s. slug_char c \<or> c = CHR ''-'')}
        {[c] |c. slug_char c} = {m @ [b] |m b. 1 \<le> length m \<and> length m \<le> 78
          \<and> (\<forall>c \<in> set m. slug_char c \<or> c = CHR ''-'') \<and> slug_char b}"
      by (auto simp: lang_seq_def)
    then show ?thesis
      by (auto simp: slug_pattern_def rx_fullmatch_iff r_rep_cls_lang lang_seq_cls simp del: rx_lang.simps(6))
  qed
  also have "\<dots> \<longleftrightarrow> 3 \<le> length s \<and> length s \<le> 80 \<and> (\<forall>c \<in> set s. slug_char c \<or> c = CHR ''-'')
      \<and> hd s \<noteq> CHR ''-'' \<and> last s \<noteq> CHR ''-''"
  proof
    assume r: "3 \<le> length s \<and> length s \<le> 80 \<and> (\<forall>c \<in> set s. slug_char c \<or> c = CHR ''-'')
      \<and> hd s \<noteq> CHR ''-'' \<and> last s \<noteq> CHR ''-''"
    then obtain a t where "s = a # t" by (cases s) auto
    with r obtain m b where s: "s = a # m @ [b]" by (cases t rule: rev_cases) auto
    with r show "\<exists>a m b. s = a # m @ [b] \<and> slug_char a \<and> slug_char b \<and> 1 \<le> length m \<and> length m \<le> 78
        \<and> (\<forall>c \<in> set m. slug_char c \<or> c = CHR ''-'')"
      by (intro exI [of _ a] exI [of _ m] exI [of _ b]) auto
  qed (use dash in auto)
  finally show ?thesis .
qed

lemma new_workspace_Inr:
  "new_workspace i slug name = Inr w \<Longrightarrow> wo_id w = i \<and> wo_is_active w \<and> wo_slug w = py_lower (py_strip slug)
   \<and> rx_fullmatch slug_pattern (wo_slug w)"
  by (auto simp: new_workspace_def Let_def split: if_splits)

text \<open>A fresh budget is in balance with an account that has seen nothing yet.\<close>

lemma add_owner_inv:
  assumes inv: "budget_inv d" and ok: "integrity_ok d"
    and fresh: "wi_budget ids \<notin> bu_id ` set (t_budgets d)" "wi_workspace ids \<notin> wo_id ` set (t_workspaces d)"
    and limit: "0 \<le> limit"
  shows "budget_inv (add_owner ids u limit d)"
proof -
  let ?d = "add_owner ids u limit d" and ?b = "new_budget (wi_budget ids) (wi_workspace ids) limit"
  have refs: "refers re_budget_id bu_id (t_reservations d) (t_budgets d)"
    "refers le_workspace_id wo_id (t_ledger d) (t_workspaces d)"
    using ok by (simp_all add: integrity_ok_def refs_ok_def)
  have none: "active_sum (wi_budget ids) d = 0" "settled_sum (wi_budget ids) d = 0"
    unfolding active_sum_def settled_sum_def
    using refers_member [OF refs(1)] fresh(1) by (fastforce intro!: sum_rows_none)+
  have led: "ledger_sum (wi_workspace ids) ty d = 0" for ty
    unfolding ledger_sum_def using refers_member [OF refs(2)] fresh(2) by (fastforce intro!: sum_rows_none)
  have same: "active_sum i ?d = active_sum i d" "settled_sum i ?d = settled_sum i d" "ledger_sum w ty ?d = ledger_sum w ty d" for i w ty
    by (simp_all add: active_sum_def settled_sum_def ledger_sum_def add_owner_def)
  have "budget_balanced ?d ?b"
    using limit by (simp add: budget_balanced_def new_budget_def same none led)
  moreover have "budget_balanced ?d b" if "b \<in> set (t_budgets d)" for b
    using budget_invD [OF inv that] by (simp add: budget_balanced_def same)
  moreover have "reservation_home ?d r" if "r \<in> set (t_reservations d)" for r
    using inv that by (auto simp: budget_inv_def list_all_iff reservation_home_def add_owner_def)
  ultimately show ?thesis by (auto simp: budget_inv_def list_all_iff add_owner_def)
qed

section \<open>Credentials\<close>

text \<open>What was stored for a provider is what is resolved, whatever the case and the spaces.\<close>

lemma credential_of_put:
  assumes "credential_put enc key nonce i now ws u provider value d = (Inr s, d')"
  shows "\<exists>c. secret_encrypt enc key nonce value (credential_aad ws (py_lower (py_strip provider))) = Inr c
    \<and> (\<exists>r. credential_of ws (py_lower (py_strip provider)) d' = Some r \<and> pc_ciphertext r = c
         \<and> s = status_of r)"
proof -
  let ?p = "py_lower (py_strip provider)"
  obtain c where c: "secret_encrypt enc key nonce value (credential_aad ws ?p) = Inr c"
    using assms by (cases "secret_encrypt enc key nonce value (credential_aad ws ?p)")
      (auto simp: credential_put_def Let_def)
  show ?thesis
  proof (cases "credential_of ws ?p d")
    case None
    then show ?thesis
      using assms c by (auto simp: credential_put_def Let_def credential_of_def find_append append_audit_event_def)
  next
    case (Some r)
    let ?row = "\<lparr>pc_id = pc_id r, pc_workspace_id = ws, pc_provider = ?p, pc_ciphertext = c,
      pc_key_version = 1, pc_fingerprint = secret_fingerprint key value, pc_updated_at = now\<rparr>"
    have "find (\<lambda>r. pc_workspace_id r = ws \<and> pc_provider r = ?p) (upd_rows (\<lambda>x. pc_id x = pc_id r) (\<lambda>_. ?row) rows)
        = Some ?row"
      if "find (\<lambda>r. pc_workspace_id r = ws \<and> pc_provider r = ?p) rows = Some r" for rows
      using that by (induction rows) (auto split: if_splits)
    then show ?thesis
      using assms c Some by (auto simp: credential_put_def Let_def credential_of_def append_audit_event_def)
  qed
qed

text \<open>What is stored is what is resolved, also under another spelling of the provider's name.\<close>

lemma credential_put_resolve:
  assumes lib: "aead_lib enc dec" and nonce: "length nonce = 12" "\<forall>b \<in> set nonce. b < 256"
    and put: "credential_put enc key nonce i now ws u provider value d = (Inr s, d')"
    and same: "py_lower (py_strip provider') = py_lower (py_strip provider)"
  shows "credential_resolve dec key ws provider' d' = Inr value"
proof -
  obtain c r where c: "secret_encrypt enc key nonce value (credential_aad ws (py_lower (py_strip provider))) = Inr c"
    "credential_of ws (py_lower (py_strip provider)) d' = Some r" "pc_ciphertext r = c"
    using credential_of_put [OF put] by blast
  then show ?thesis
    using secret_roundtrip [OF lib nonce c(1)] same by (simp add: credential_resolve_def Let_def)
qed

end
