(* ===== verification/Web_Routes.thy ===== *)
theory Web_Routes
  imports Http Authentication Requests Workspaces
begin

text \<open>
  The routes of authentication (src/src/web/routes/auth.py), privacy
  (src/src/web/routes/privacy.py) and provider credentials (src/src/web/routes/workspaces.py),
  with the dependency that authenticates a request (src/src/web/dependencies.py). Cookies are
  a list of names and values; a service the runtime was built without is \<open>None\<close>.
\<close>

section \<open>The authenticated request\<close>

text \<open>The bearer scheme is compared without case; only \<open>AuthenticationError\<close> becomes 401.\<close>

definition current_auth ::
  "auth_service \<Rightarrow> int \<Rightarrow> (string \<times> string) option \<Rightarrow> db \<Rightarrow> auth_context res \<times> db" where
  "current_auth svc now credentials d =
    (case credentials of
       None \<Rightarrow> (Inl (HTTPException 401 ''Autenticazione richiesta.''), d)
     | Some (scheme, token) \<Rightarrow>
        if py_casefold scheme \<noteq> ''bearer'' then (Inl (HTTPException 401 ''Autenticazione richiesta.''), d)
        else (case authenticate_access_token svc now token d of
                (Inl e, d1) \<Rightarrow> (Inl (if is_AuthenticationError e then HTTPException 401 (error_text e) else e), d1)
              | (Inr c, d1) \<Rightarrow> (Inr c, d1)))"

section \<open>Authentication routes\<close>

type_synonym cookies = "(string \<times> string) list"

definition cookie :: "cookies \<Rightarrow> string \<Rightarrow> string" where
  "cookie cs name = (case map_of cs name of None \<Rightarrow> '''' | Some v \<Rightarrow> v)"

record token_answer =
  an_access_token :: string
  an_expires_in :: int
  an_cookies :: cookies

definition set_session_cookies :: "string \<Rightarrow> string \<Rightarrow> string \<Rightarrow> cookies" where
  "set_session_cookies session_id refresh csrf =
    [(''lh_session'', session_id), (''lh_refresh'', refresh), (''lh_csrf'', csrf)]"

definition token_response :: "auth_context \<Rightarrow> auth_tokens \<Rightarrow> token_answer" where
  "token_response c tokens =
    \<lparr>an_access_token = at_access_token tokens, an_expires_in = at_expires_in tokens,
     an_cookies = set_session_cookies (uuid_text (ac_session_id c)) (at_refresh_token tokens) (at_csrf_token tokens)\<rparr>"

definition auth_error :: "nat \<Rightarrow> error \<Rightarrow> error" where
  "auth_error status e = (if is_AuthenticationError e then HTTPException status (error_text e) else e)"

definition client_host :: "string option \<Rightarrow> string" where
  "client_host host = (case host of None \<Rightarrow> ''unknown'' | Some h \<Rightarrow> h)"

definition login_route ::
  "limiter \<Rightarrow> auth_service \<Rightarrow> drawn \<Rightarrow> int \<Rightarrow> string option \<Rightarrow> login_request \<Rightarrow> db \<Rightarrow> token_answer res \<times> db" where
  "login_route l svc w now host body d =
    (case limited l ''login'' (client_host host) 10 60 of
       Inl e \<Rightarrow> (Inl e, d)
     | Inr _ \<Rightarrow>
        (case login_auth svc w now (lr_email body) (lr_password body) d of
           (Inl e, d1) \<Rightarrow> (Inl (auth_error 401 e), d1)
         | (Inr tokens, d1) \<Rightarrow>
            (case authenticate_access_token svc now (at_access_token tokens) d1 of
               (Inl e, d2) \<Rightarrow> (Inl (auth_error 401 e), d2)
             | (Inr c, d2) \<Rightarrow> (Inr (token_response c tokens), d2))))"

text \<open>\<open>except (ValueError, AuthenticationError)\<close>\<close>

definition refresh_error :: "error \<Rightarrow> error" where
  "refresh_error e =
    (if is_ValueError e \<or> is_AuthenticationError e then HTTPException 401 ''Sessione non valida.'' else e)"

definition csrf_check :: "string \<Rightarrow> string \<Rightarrow> unit res" where
  "csrf_check header cookie_value =
    (if header = '''' then Inl (HTTPException 403 ''CSRF non valido.'')
     else bind_res (compare_digest header cookie_value) (\<lambda>same.
       if same then Inr () else Inl (HTTPException 403 ''CSRF non valido.'')))"

definition refresh_route ::
  "limiter \<Rightarrow> auth_service \<Rightarrow> drawn \<Rightarrow> int \<Rightarrow> string option \<Rightarrow> cookies \<Rightarrow> string \<Rightarrow>
   dbsession \<Rightarrow> token_answer res \<times> dbsession" where
  "refresh_route l svc w now host cs x_csrf_token s =
    (case limited l ''refresh'' (client_host host) 30 60 of
       Inl e \<Rightarrow> (Inl e, s)
     | Inr _ \<Rightarrow>
        (case csrf_check x_csrf_token (cookie cs ''lh_csrf'') of
           Inl e \<Rightarrow> (Inl e, s)
         | Inr _ \<Rightarrow>
            (case uuid_parse (cookie cs ''lh_session'') of
               Inl e \<Rightarrow> (Inl (refresh_error e), s)
             | Inr session_id \<Rightarrow>
                (case refresh_auth svc w now session_id (cookie cs ''lh_refresh'') x_csrf_token s of
                   (Inl e, s1) \<Rightarrow> (Inl (refresh_error e), s1)
                 | (Inr tokens, s1) \<Rightarrow>
                    (case authenticate_access_token svc now (at_access_token tokens) (work s1) of
                       (Inl e, d2) \<Rightarrow> (Inl (refresh_error e), s1\<lparr>work := d2\<rparr>)
                     | (Inr c, d2) \<Rightarrow> (Inr (token_response c tokens), s1\<lparr>work := d2\<rparr>))))))"

definition logout_route :: "int \<Rightarrow> auth_context \<Rightarrow> db \<Rightarrow> unit res \<times> db" where
  "logout_route now c d = (Inr (), logout_auth now c d)"

definition mfa_subject :: "auth_context \<Rightarrow> string option \<Rightarrow> string" where
  "mfa_subject c host = uuid_text (ac_user_id c) @ '':'' @ client_host host"

definition begin_mfa_route ::
  "limiter \<Rightarrow> auth_service \<Rightarrow> drawn \<Rightarrow> string option \<Rightarrow> auth_context \<Rightarrow> db \<Rightarrow> mfa_enrollment res \<times> db" where
  "begin_mfa_route l svc w host c d =
    (case limited l ''mfa'' (mfa_subject c host) 10 300 of
       Inl e \<Rightarrow> (Inl e, d)
     | Inr _ \<Rightarrow>
        (case begin_mfa_enrollment svc w c d of
           (Inl e, d1) \<Rightarrow> (Inl (auth_error 403 e), d1) | (Inr x, d1) \<Rightarrow> (Inr x, d1)))"

definition mfa_code_route ::
  "(auth_context \<Rightarrow> string \<Rightarrow> db \<Rightarrow> auth_tokens res \<times> db) \<Rightarrow> limiter \<Rightarrow> string option \<Rightarrow> auth_context \<Rightarrow> string \<Rightarrow>
   db \<Rightarrow> token_answer res \<times> db" where
  "mfa_code_route operation l host c passcode d =
    (case limited l ''mfa'' (mfa_subject c host) 10 300 of
       Inl e \<Rightarrow> (Inl e, d)
     | Inr _ \<Rightarrow>
        (case operation c passcode d of
           (Inl e, d1) \<Rightarrow> (Inl (auth_error 401 e), d1)
         | (Inr tokens, d1) \<Rightarrow> (Inr (token_response c tokens), d1)))"

definition confirm_mfa_route ::
  "limiter \<Rightarrow> auth_service \<Rightarrow> drawn \<Rightarrow> int \<Rightarrow> string option \<Rightarrow> auth_context \<Rightarrow> string \<Rightarrow> db \<Rightarrow> token_answer res \<times> db" where
  "confirm_mfa_route l svc w now = mfa_code_route (confirm_mfa svc w now) l"

definition verify_mfa_route ::
  "limiter \<Rightarrow> auth_service \<Rightarrow> drawn \<Rightarrow> int \<Rightarrow> string option \<Rightarrow> auth_context \<Rightarrow> string \<Rightarrow> db \<Rightarrow> token_answer res \<times> db" where
  "verify_mfa_route l svc w now = mfa_code_route (verify_mfa svc w now) l"

section \<open>Privacy routes\<close>

definition require_admin :: "auth_context \<Rightarrow> uuid \<Rightarrow> db \<Rightarrow> unit res" where
  "require_admin c workspace d =
    bind_res (denied_403 (require_permission (ac_user_id c) workspace MANAGE_WORKSPACE (ac_mfa_verified c) d))
      (\<lambda>_. Inr ())"

definition require_platform_admin_for_global :: "auth_context \<Rightarrow> string \<Rightarrow> db \<Rightarrow> unit res" where
  "require_platform_admin_for_global c scope d =
    (if scope \<noteq> ''global'' then Inr ()
     else let refused = Inl (HTTPException 403 ''La suppression globale richiede un amministratore di piattaforma con MFA.'')
          in case user_by_id (ac_user_id c) d of
               None \<Rightarrow> refused
             | Some u \<Rightarrow> if \<not> us_is_platform_admin u \<or> \<not> ac_mfa_verified c then refused else Inr ())"

definition unavailable :: "error" where
  "unavailable = HTTPException 503 ''Servizio privacy non configurato.''"

text \<open>\<open>except ValueError as exc: raise HTTPException(422, str(exc))\<close>\<close>

definition unprocessable :: "error \<Rightarrow> error" where
  "unprocessable e = (if is_ValueError e then HTTPException 422 (error_text e) else e)"

definition put_policy_route ::
  "bool \<Rightarrow> auth_context \<Rightarrow> string \<Rightarrow> privacy_policy_request \<Rightarrow> db \<Rightarrow> policy_row res \<times> db" where
  "put_policy_route configured c workspace_id body d =
    (case bind_res (workspace_uuid workspace_id) (\<lambda>ws. bind_res (require_admin c ws d) (\<lambda>_. Inr ws)) of
       Inl e \<Rightarrow> (Inl e, d)
     | Inr ws \<Rightarrow>
        if \<not> configured then (Inl unavailable, d)
        else (case make_privacy_policy \<lparr>vp_workspace_id = ws, vp_purpose = py_purpose body,
                     vp_legal_basis = py_legal_basis body, vp_privacy_contact = py_privacy_contact body,
                     vp_market = py_market body,
                     vp_named_contact_retention_days = py_named_contact_retention_days body,
                     vp_policy_version = py_policy_version body, vp_enabled = py_enabled body\<rparr> of
                Inl e \<Rightarrow> (Inl (unprocessable e), d)
              | Inr p \<Rightarrow> (case policy_put p (Some (ac_user_id c)) d of (row, d1) \<Rightarrow> (Inr row, d1))))"

record suppression_answer =
  sa_id :: string
  sa_scope :: string
  sa_created :: bool

definition create_suppression_body ::
  "nat list \<Rightarrow> uuid \<Rightarrow> auth_context \<Rightarrow> uuid \<Rightarrow> suppression_request \<Rightarrow> db \<Rightarrow> suppression_entry res \<times> db" where
  "create_suppression_body key new_id c ws body d =
    (case bind_res (contact_kind_of (sr_kind body)) (\<lambda>k.
            bind_res (suppression_scope_of (sr_scope body)) (\<lambda>sc. Inr (k, sc))) of
       Inl e \<Rightarrow> (Inl e, d)
     | Inr (k, sc) \<Rightarrow> suppress key new_id ws k (sr_value body) sc (sr_reason body) (Some (ac_user_id c)) d)"

definition create_suppression_route ::
  "nat list option \<Rightarrow> uuid \<Rightarrow> auth_context \<Rightarrow> string \<Rightarrow> suppression_request \<Rightarrow> db \<Rightarrow> suppression_answer res \<times> db" where
  "create_suppression_route service new_id c workspace_id body d =
    (case bind_res (workspace_uuid workspace_id) (\<lambda>ws. bind_res (require_admin c ws d) (\<lambda>_.
            case service of None \<Rightarrow> Inl unavailable
            | Some key \<Rightarrow> bind_res (require_platform_admin_for_global c (sr_scope body) d) (\<lambda>_. Inr (ws, key)))) of
       Inl e \<Rightarrow> (Inl e, d)
     | Inr (ws, key) \<Rightarrow>
        (case create_suppression_body key new_id c ws body d of
           (Inl e, d1) \<Rightarrow> (Inl (unprocessable e), d1)
         | (Inr r, d1) \<Rightarrow>
            (Inr \<lparr>sa_id = uuid_text (su_id r), sa_scope = su_scope r, sa_created = True\<rparr>, d1)))"

record request_answer =
  ra_request_id :: uuid
  ra_status :: string
  ra_deleted_count :: int
  ra_data :: "subject_datum list"

definition request_answer_of :: "subject_request \<Rightarrow> request_answer" where
  "request_answer_of r =
    \<lparr>ra_request_id = ds_id r, ra_status = ds_status r, ra_deleted_count = ds_deleted_count r, ra_data = []\<rparr>"

text \<open>The body of the \<open>try\<close> block; \<open>entry_id\<close> is the identifier a suppression entry would get.\<close>

definition process_request_body ::
  "nat list \<Rightarrow> uuid \<Rightarrow> int \<Rightarrow> int \<Rightarrow> auth_context \<Rightarrow> uuid \<Rightarrow> data_subject_request_body \<Rightarrow>
   db \<Rightarrow> request_answer res \<times> db" where
  "process_request_body key entry_id now clock c ws body d =
    (let actor = Some (ac_user_id c) in
     if dr_request_kind body = ''access'' then
       (case subject_data key ws (dr_identifier_kind body) (dr_value body) d of
          Inl e \<Rightarrow> (Inl e, d)
        | Inr data \<Rightarrow>
           (case record_access key now (dr_request_id body) ws actor (dr_identifier_kind body) (dr_value body) d of
              (Inl e, d1) \<Rightarrow> (Inl e, d1)
            | (Inr r, d1) \<Rightarrow> (Inr \<lparr>ra_request_id = ds_id r, ra_status = ds_status r, ra_deleted_count = 0,
                                ra_data = data\<rparr>, d1)))
     else if dr_request_kind body = ''rectification'' then
       (case dr_replacement_value body of
          None \<Rightarrow> (Inl (HTTPException 422 ''replacement_value obbligatorio.''), d)
        | Some v \<Rightarrow>
           if v = '''' then (Inl (HTTPException 422 ''replacement_value obbligatorio.''), d)
           else (case rectify key entry_id now clock (dr_request_id body) ws actor (dr_identifier_kind body)
                        (dr_value body) v d of
                   (Inl e, d1) \<Rightarrow> (Inl e, d1) | (Inr r, d1) \<Rightarrow> (Inr (request_answer_of r), d1)))
     else
       (case require_platform_admin_for_global c (dr_suppression_scope body) d of
          Inl e \<Rightarrow> (Inl e, d)
        | Inr _ \<Rightarrow>
           (case erase_and_suppress key entry_id now (dr_request_id body) ws actor (dr_identifier_kind body)
                   (dr_value body) (dr_suppression_scope body) (dr_request_kind body) d of
              (Inl e, d1) \<Rightarrow> (Inl e, d1) | (Inr r, d1) \<Rightarrow> (Inr (request_answer_of r), d1))))"

definition process_request_route ::
  "nat list option \<Rightarrow> uuid \<Rightarrow> int \<Rightarrow> int \<Rightarrow> auth_context \<Rightarrow> string \<Rightarrow> data_subject_request_body \<Rightarrow>
   db \<Rightarrow> request_answer res \<times> db" where
  "process_request_route service entry_id now clock c workspace_id body d =
    (case bind_res (workspace_uuid workspace_id) (\<lambda>ws. bind_res (require_admin c ws d) (\<lambda>_.
            case service of None \<Rightarrow> Inl unavailable | Some key \<Rightarrow> Inr (ws, key))) of
       Inl e \<Rightarrow> (Inl e, d)
     | Inr (ws, key) \<Rightarrow>
        (case process_request_body key entry_id now clock c ws body d of
           (Inl e, d1) \<Rightarrow> (Inl (unprocessable e), d1) | (Inr r, d1) \<Rightarrow> (Inr r, d1)))"

section \<open>Credential routes\<close>

definition put_secret_route ::
  "aead_encrypt \<Rightarrow> secret_cipher \<Rightarrow> nat list \<Rightarrow> uuid \<Rightarrow> int \<Rightarrow> auth_context \<Rightarrow> string \<Rightarrow> string \<Rightarrow> string \<Rightarrow>
   db \<Rightarrow> credential_status res \<times> db" where
  "put_secret_route enc key nonce new_id now c workspace_id provider value d =
    (case bind_res (workspace_uuid workspace_id) (\<lambda>ws.
            bind_res (denied_403 (require_permission (ac_user_id c) ws MANAGE_SECRETS (ac_mfa_verified c) d))
              (\<lambda>_. Inr ws)) of
       Inl e \<Rightarrow> (Inl e, d)
     | Inr ws \<Rightarrow> credential_put enc key nonce new_id now ws (ac_user_id c) provider value d)"

definition list_secrets_route :: "auth_context \<Rightarrow> string \<Rightarrow> db \<Rightarrow> credential_status list res" where
  "list_secrets_route c workspace_id d =
    bind_res (workspace_uuid workspace_id) (\<lambda>ws.
    bind_res (denied_403 (require_permission (ac_user_id c) ws MANAGE_SECRETS (ac_mfa_verified c) d)) (\<lambda>_.
      Inr (credential_list_status ws d)))"

section \<open>Facts\<close>

text \<open>Only a verified administrator of the workspace passes \<open>_require_admin\<close>.\<close>

lemma require_admin_iff:
  "require_admin c ws d = Inr () \<longleftrightarrow>
   (\<exists>m. membership_of (ac_user_id c) ws d = Some m \<and> me_role m = ''admin'') \<and> ac_mfa_verified c"
proof -
  have "MANAGE_WORKSPACE \<in> set (role_permissions r) \<longleftrightarrow> r = Role_ADMIN" for r
    by (cases r) (simp_all add: all_permissions_def)
  then show ?thesis
    by (auto simp: require_admin_def bind_res_Inr_iff require_permission_Inr_iff is_manage_iff)
qed

lemma global_scope_iff:
  "require_platform_admin_for_global c scope d = Inr () \<longleftrightarrow>
   scope \<noteq> ''global'' \<or> (\<exists>u. user_by_id (ac_user_id c) d = Some u \<and> us_is_platform_admin u \<and> ac_mfa_verified c)"
  by (auto simp: require_platform_admin_for_global_def Let_def split: option.splits)

text \<open>An expired or forged access token: the error is no \<open>AuthenticationError\<close>, so it is not mapped.\<close>

lemma invalid_token_not_mapped:
  assumes "py_casefold scheme = ''bearer''" "token_decode (as_tokens svc) now token = Inl e"
  shows "current_auth svc now (Some (scheme, token)) d = (Inl (TokenValidationError ''Access token non valido.''), d)"
  using assms
  by (auto simp: current_auth_def authenticate_access_token_def token_decode_def split: option.splits)

end
