(* ===== verification/Retention.thy ===== *)
theory Retention
  imports Privacy
begin

text \<open>
  Retention: purging expired lead attributes (src/src/application/retention.py), the bounded
  batches that delete expired contacts (src/src/workers/retention.py) and the scheduler that
  queues one message per active workspace (src/src/workers/retention_scheduler.py).
\<close>

section \<open>Lead attributes\<close>

definition expired_attribute :: "uuid \<Rightarrow> int \<Rightarrow> lead_attribute \<Rightarrow> bool" where
  "expired_attribute workspace_id cutoff a \<longleftrightarrow>
     la_workspace_id a = workspace_id \<and> (case la_expires_at a of None \<Rightarrow> False | Some t \<Rightarrow> t \<le> cutoff)"

definition purge_expired_attributes :: "uuid \<Rightarrow> int \<Rightarrow> db \<Rightarrow> nat \<times> db" where
  "purge_expired_attributes workspace_id cutoff d =
    (let n = length (filter (expired_attribute workspace_id cutoff) (t_attributes d));
         d1 = d\<lparr>t_attributes := del_rows (expired_attribute workspace_id cutoff) (t_attributes d)\<rparr>
     in (n, d1\<lparr>t_retention := t_retention d1 @
           [\<lparr>rt_workspace_id = workspace_id, rt_entity_type = ''lead_attributes'',
             rt_deleted_count = int n, rt_ran_at = cutoff\<rparr>]\<rparr>))"

section \<open>Batches of contacts\<close>

record retention_batch =
  rb_deleted_by_category :: "(string \<times> nat) list"
  rb_has_more :: bool

text \<open>\<open>order_by(expires_at, id).limit(batch_size)\<close>\<close>

definition expired_ids :: "uuid \<Rightarrow> int \<Rightarrow> nat \<Rightarrow> db \<Rightarrow> uuid list" where
  "expired_ids workspace_id cutoff batch_size d =
    map co_id (take batch_size (sort_key co_expires_at (sort_key co_id
      (filter (expired_contact workspace_id cutoff) (t_contacts d)))))"

definition run_retention_batch :: "uuid \<Rightarrow> int \<Rightarrow> nat \<Rightarrow> db \<Rightarrow> retention_batch res \<times> db" where
  "run_retention_batch workspace_id cutoff batch_size d =
    (if \<not> (1 \<le> batch_size \<and> batch_size \<le> 5000)
     then (Inl (ValueError ''batch_size deve essere compreso tra 1 e 5000.''), d)
     else
       let ids = expired_ids workspace_id cutoff batch_size d;
           d1 = d\<lparr>t_contacts := del_rows (\<lambda>c. co_id c \<in> set ids) (t_contacts d)\<rparr>;
           n = length (t_contacts d) - length (t_contacts d1)
       in (Inr \<lparr>rb_deleted_by_category = [(''contact'', n)], rb_has_more = (length ids = batch_size)\<rparr>,
           d1\<lparr>t_retention := t_retention d1 @
             [\<lparr>rt_workspace_id = workspace_id, rt_entity_type = ''contact'',
               rt_deleted_count = int n, rt_ran_at = cutoff\<rparr>]\<rparr>))"

text \<open>The actor: one batch of the default size, and itself again while a batch was full.\<close>

definition enforce_workspace_retention :: "int \<Rightarrow> string option \<Rightarrow> string \<Rightarrow> store \<Rightarrow> unit res \<times> store" where
  "enforce_workspace_retention now database_url workspace_id st =
    (case uuid_parse workspace_id of
       Inl e \<Rightarrow> (Inl e, st)
     | Inr ws \<Rightarrow>
        if database_url \<in> {None, Some ''''}
        then (Inl (RuntimeError ''LEADHUNTER_DATABASE_URL non configurato nel worker.''), st)
        else (case run_session (on_db (run_retention_batch ws now 500)) st of
                (Inl e, st1) \<Rightarrow> (Inl e, st1)
              | (Inr b, st1) \<Rightarrow>
                 (Inr (), if rb_has_more b
                          then st1\<lparr>st_retention_queue := st_retention_queue st1 @ [uuid_text ws]\<rparr>
                          else st1)))"

section \<open>The scheduler\<close>

definition enqueue_active_workspaces :: "store \<Rightarrow> nat \<times> store" where
  "enqueue_active_workspaces st =
    (let ids = sort_key id (map wo_id (filter wo_is_active (t_workspaces (st_db st))))
     in (length ids, st\<lparr>st_retention_queue := st_retention_queue st @ map uuid_text ids\<rparr>))"

text \<open>One round of the scheduler's loop: only the holder of the Redis lock queues.\<close>

definition scheduler_round :: "bool \<Rightarrow> store \<Rightarrow> store" where
  "scheduler_round acquired st = (if acquired then snd (enqueue_active_workspaces st) else st)"

text \<open>\<open>int(text)\<close>: white space around, a sign, digits with single underscores between.\<close>

definition int_of_text :: "string \<Rightarrow> int option" where
  "int_of_text s =
    (let t = py_strip s;
         neg = starts_with ''-'' t;
         u = (if neg \<or> starts_with ''+'' t then drop 1 t else t);
         groups = split_on CHR ''_'' u
     in if [] \<in> set groups \<or> \<not> list_all is_digit (concat groups) then None
        else Some (if neg then - int (decimal_value (concat groups)) else int (decimal_value (concat groups))))"

definition schedule_interval :: "string \<Rightarrow> int res" where
  "schedule_interval raw_value =
    (if py_strip raw_value = '''' then Inr 3600
     else case int_of_text raw_value of
       None \<Rightarrow> Inl (ValueError ''Intervallo retention non valido.'')
     | Some v \<Rightarrow> if v < 300 then Inl (ValueError ''L'intervallo retention minimo e 300 secondi.'') else Inr v)"

section \<open>A batch\<close>

definition expired_count :: "uuid \<Rightarrow> int \<Rightarrow> db \<Rightarrow> nat" where
  "expired_count ws cutoff d = length (filter (expired_contact ws cutoff) (t_contacts d))"

lemma length_expired_ids: "length (expired_ids ws cutoff n d) = min n (expired_count ws cutoff d)"
  by (simp add: expired_ids_def expired_count_def min.commute)

lemma expired_ids_expired:
  "i \<in> set (expired_ids ws cutoff n d) \<Longrightarrow> \<exists>c \<in> set (t_contacts d). co_id c = i \<and> expired_contact ws cutoff c"
  by (auto simp: expired_ids_def dest!: in_set_takeD)

lemma distinct_expired_ids:
  assumes "distinct_on co_id (t_contacts d)"
  shows "distinct (expired_ids ws cutoff n d)"
proof -
  let ?xs = "sort_key co_expires_at (sort_key co_id (filter (expired_contact ws cutoff) (t_contacts d)))"
  have "distinct (map co_id (t_contacts d))" using assms by (simp add: distinct_on_def)
  then have "distinct (map co_id (filter (expired_contact ws cutoff) (t_contacts d)))"
    by (rule distinct_map_filter)
  then have "distinct ?xs" "inj_on co_id (set ?xs)" by (simp_all add: distinct_map)
  then have "distinct (map co_id ?xs)" by (simp add: distinct_map)
  then show ?thesis by (simp add: expired_ids_def take_map [symmetric])
qed

text \<open>The rows whose identifiers were chosen are exactly as many as the identifiers.\<close>

lemma length_filter_ids:
  assumes "distinct_on co_id cs" "distinct ids" "set ids \<subseteq> co_id ` set cs"
  shows "length (filter (\<lambda>c. co_id c \<in> set ids) cs) = length ids"
proof -
  have "distinct (map co_id (filter (\<lambda>c. co_id c \<in> set ids) cs))"
    using assms(1) by (simp add: distinct_on_def distinct_map_filter)
  moreover have "set (map co_id (filter (\<lambda>c. co_id c \<in> set ids) cs)) = set ids" using assms(3) by auto
  ultimately have "length (map co_id (filter (\<lambda>c. co_id c \<in> set ids) cs)) = length ids"
    using assms(2) by (metis distinct_card)
  then show ?thesis by simp
qed

lemma batch_result:
  assumes keys: "distinct_on co_id (t_contacts d)" and size: "1 \<le> n" "n \<le> 5000"
  obtains b d' where "run_retention_batch ws cutoff n d = (Inr b, d')"
    "rb_has_more b \<longleftrightarrow> n \<le> expired_count ws cutoff d"
    "expired_count ws cutoff d' = expired_count ws cutoff d - n"
    "set (t_contacts d') \<subseteq> set (t_contacts d)"
    "\<And>c. c \<in> set (t_contacts d) \<Longrightarrow> \<not> expired_contact ws cutoff c \<Longrightarrow> c \<in> set (t_contacts d')"
    "d' = d\<lparr>t_contacts := t_contacts d', t_retention := t_retention d @
       [\<lparr>rt_workspace_id = ws, rt_entity_type = ''contact'',
         rt_deleted_count = int (min n (expired_count ws cutoff d)), rt_ran_at = cutoff\<rparr>]\<rparr>"
    "distinct_on co_id (t_contacts d')"
proof -
  let ?ids = "expired_ids ws cutoff n d"
  let ?cs = "del_rows (\<lambda>c. co_id c \<in> set ?ids) (t_contacts d)"
  have sub: "set ?ids \<subseteq> co_id ` set (t_contacts d)" using expired_ids_expired by fastforce
  have only: "\<And>c. c \<in> set (t_contacts d) \<Longrightarrow> co_id c \<in> set ?ids \<Longrightarrow> expired_contact ws cutoff c"
    using expired_ids_expired keys by (metis distinct_on_eq)
  have len: "length (filter (\<lambda>c. co_id c \<in> set ?ids) (t_contacts d)) = min n (expired_count ws cutoff d)"
    using length_filter_ids [OF keys distinct_expired_ids [OF keys] sub] by (simp add: length_expired_ids)
  have n_del: "length (t_contacts d) - length ?cs = min n (expired_count ws cutoff d)"
    using length_del_rows [of "\<lambda>c. co_id c \<in> set ?ids" "t_contacts d"] len by simp
  let ?d = "d\<lparr>t_contacts := ?cs, t_retention := t_retention d @
       [\<lparr>rt_workspace_id = ws, rt_entity_type = ''contact'',
         rt_deleted_count = int (min n (expired_count ws cutoff d)), rt_ran_at = cutoff\<rparr>]\<rparr>"
  have run: "run_retention_batch ws cutoff n d =
      (Inr \<lparr>rb_deleted_by_category = [(''contact'', min n (expired_count ws cutoff d))],
            rb_has_more = (length ?ids = n)\<rparr>, ?d)"
    using size n_del by (simp add: run_retention_batch_def Let_def)
  have "expired_count ws cutoff d = length (filter (expired_contact ws cutoff) ?cs)
      + length (filter (\<lambda>c. co_id c \<in> set ?ids) (t_contacts d))"
  proof -
    have "filter (expired_contact ws cutoff) ?cs = filter (\<lambda>c. co_id c \<notin> set ?ids) (filter (expired_contact ws cutoff) (t_contacts d))"
      by (simp add: del_rows_def conj_commute)
    moreover have "filter (\<lambda>c. co_id c \<in> set ?ids) (t_contacts d)
        = filter (\<lambda>c. co_id c \<in> set ?ids) (filter (expired_contact ws cutoff) (t_contacts d))"
      by (simp, rule filter_cong) (auto dest: only)
    ultimately show ?thesis
      using sum_length_filter_compl [of "\<lambda>c. co_id c \<in> set ?ids" "filter (expired_contact ws cutoff) (t_contacts d)"]
      by (simp add: expired_count_def)
  qed
  then have "expired_count ws cutoff ?d = expired_count ws cutoff d - n"
    using len by (simp add: expired_count_def)
  then show ?thesis
    by (intro that [OF run]) (use keys only in \<open>auto simp: length_expired_ids distinct_on_del_rows\<close>)
qed

section \<open>The batches drain a workspace\<close>

lemma refers_subset: "refers f k rows targets \<Longrightarrow> set rows' \<subseteq> set rows \<Longrightarrow> refers f k rows' targets"
  by (auto simp: refers_def list_all_iff)

lemma refers_opt_subset: "refers_opt f k rows targets \<Longrightarrow> set rows' \<subseteq> set rows \<Longrightarrow> refers_opt f k rows' targets"
  by (auto simp: refers_opt_def list_all_iff)

lemma list_all_subset: "list_all P rows \<Longrightarrow> set rows' \<subseteq> set rows \<Longrightarrow> list_all P rows'"
  by (auto simp: list_all_iff)

lemma integrity_fewer_contacts:
  assumes "integrity_ok d" "set cs \<subseteq> set (t_contacts d)" "distinct_on co_id cs"
    and "ws \<in> wo_id ` set (t_workspaces d)" "rt_workspace_id e = ws" "retention_event_ok e"
  shows "integrity_ok (d\<lparr>t_contacts := cs, t_retention := t_retention d @ [e]\<rparr>)"
proof -
  have "list_all contact_ok cs" "refers co_workspace_id wo_id cs (t_workspaces d)"
    "refers_opt co_lead_id ld_id cs (t_leads d)" "refers_opt co_source_request_id ds_id cs (t_requests d)"
    using assms(1,2) by (auto simp: integrity_ok_def rows_ok_def refs_ok_def
        intro: list_all_subset refers_subset refers_opt_subset)
  then show ?thesis
    using assms by (simp add: integrity_ok_def rows_ok_def keys_ok_def refs_ok_def)
qed

fun run_retention_queue :: "nat \<Rightarrow> int \<Rightarrow> string \<Rightarrow> store \<Rightarrow> store" where
  "run_retention_queue 0 now url st = st"
| "run_retention_queue (Suc k) now url st =
    (case st_retention_queue st of
       [] \<Rightarrow> st
     | m # q \<Rightarrow> run_retention_queue k now url
         (snd (enforce_workspace_retention now (Some url) m (st\<lparr>st_retention_queue := q\<rparr>))))"

text \<open>One delivery: a batch is committed, and the message comes back while the batch was full.\<close>

lemma enforce_once:
  assumes ok: "integrity_ok (st_db st)" and ws: "ws \<in> wo_id ` set (t_workspaces (st_db st))" and url: "url \<noteq> ''''"
  obtains d' where "enforce_workspace_retention now (Some url) (uuid_text ws) st
      = (Inr (), st\<lparr>st_db := d', st_retention_queue := st_retention_queue st
           @ (if 500 \<le> expired_count ws now (st_db st) then [uuid_text ws] else [])\<rparr>)"
    "integrity_ok d'" "t_workspaces d' = t_workspaces (st_db st)"
    "expired_count ws now d' = expired_count ws now (st_db st) - 500"
    "set (t_contacts d') \<subseteq> set (t_contacts (st_db st))"
    "\<forall>c \<in> set (t_contacts (st_db st)). \<not> expired_contact ws now c \<longrightarrow> c \<in> set (t_contacts d')"
proof -
  obtain b d' where b: "run_retention_batch ws now 500 (st_db st) = (Inr b, d')"
    "rb_has_more b \<longleftrightarrow> 500 \<le> expired_count ws now (st_db st)"
    "expired_count ws now d' = expired_count ws now (st_db st) - 500"
    "set (t_contacts d') \<subseteq> set (t_contacts (st_db st))"
    "\<And>c. c \<in> set (t_contacts (st_db st)) \<Longrightarrow> \<not> expired_contact ws now c \<Longrightarrow> c \<in> set (t_contacts d')"
    and d': "d' = (st_db st)\<lparr>t_contacts := t_contacts d', t_retention := t_retention (st_db st) @
       [\<lparr>rt_workspace_id = ws, rt_entity_type = ''contact'',
         rt_deleted_count = int (min 500 (expired_count ws now (st_db st))), rt_ran_at = now\<rparr>]\<rparr>"
    and keys: "distinct_on co_id (t_contacts d')"
    by (rule batch_result [OF integrity_okD(10) [OF ok], of 500 ws now]) auto
  have int: "integrity_ok d'"
    by (subst d', rule integrity_fewer_contacts [OF ok b(4) keys ws])
      (simp_all add: retention_event_ok_def fits_def)
  have "t_workspaces d' = t_workspaces (st_db st)" by (subst d') simp
  then show ?thesis
    by (intro that [OF _ int]) (use b url int in \<open>auto simp: enforce_workspace_retention_def run_on_db\<close>)
qed

lemma drain:
  assumes "integrity_ok (st_db st)" "ws \<in> wo_id ` set (t_workspaces (st_db st))" "url \<noteq> ''''"
    "st_retention_queue st = [uuid_text ws]"
  shows "st_retention_queue (run_retention_queue (Suc (expired_count ws now (st_db st) div 500)) now url st) = []
    \<and> expired_count ws now (st_db (run_retention_queue (Suc (expired_count ws now (st_db st) div 500)) now url st)) = 0
    \<and> (\<forall>c \<in> set (t_contacts (st_db st)). \<not> expired_contact ws now c \<longrightarrow>
         c \<in> set (t_contacts (st_db (run_retention_queue (Suc (expired_count ws now (st_db st) div 500)) now url st))))"
  using assms
proof (induction "expired_count ws now (st_db st) div 500" arbitrary: st)
  case 0
  let ?st = "st\<lparr>st_retention_queue := []\<rparr>"
  have st: "integrity_ok (st_db ?st)" "ws \<in> wo_id ` set (t_workspaces (st_db ?st))" "url \<noteq> ''''"
    using 0(2-4) by simp_all
  obtain d' where d': "enforce_workspace_retention now (Some url) (uuid_text ws) ?st
      = (Inr (), ?st\<lparr>st_db := d', st_retention_queue := st_retention_queue ?st
           @ (if 500 \<le> expired_count ws now (st_db ?st) then [uuid_text ws] else [])\<rparr>)"
    "integrity_ok d'" "t_workspaces d' = t_workspaces (st_db ?st)"
    "expired_count ws now d' = expired_count ws now (st_db ?st) - 500"
    "set (t_contacts d') \<subseteq> set (t_contacts (st_db ?st))"
    "\<forall>c \<in> set (t_contacts (st_db ?st)). \<not> expired_contact ws now c \<longrightarrow> c \<in> set (t_contacts d')"
    by (rule enforce_once [OF st, where now = now])
  have "expired_count ws now (st_db st) < 500" using 0(1) by (simp add: div_eq_0_iff)
  then show ?case using d' 0 by simp
next
  case (Suc k)
  let ?st = "st\<lparr>st_retention_queue := []\<rparr>"
  have st: "integrity_ok (st_db ?st)" "ws \<in> wo_id ` set (t_workspaces (st_db ?st))" "url \<noteq> ''''"
    using Suc.prems by simp_all
  obtain d' where d': "enforce_workspace_retention now (Some url) (uuid_text ws) ?st
      = (Inr (), ?st\<lparr>st_db := d', st_retention_queue := st_retention_queue ?st
           @ (if 500 \<le> expired_count ws now (st_db ?st) then [uuid_text ws] else [])\<rparr>)"
    "integrity_ok d'" "t_workspaces d' = t_workspaces (st_db ?st)"
    "expired_count ws now d' = expired_count ws now (st_db ?st) - 500"
    "set (t_contacts d') \<subseteq> set (t_contacts (st_db ?st))"
    "\<forall>c \<in> set (t_contacts (st_db ?st)). \<not> expired_contact ws now c \<longrightarrow> c \<in> set (t_contacts d')"
    by (rule enforce_once [OF st, where now = now])
  let ?st' = "st\<lparr>st_db := d', st_retention_queue := [uuid_text ws]\<rparr>"
  have big: "500 \<le> expired_count ws now (st_db st)" using Suc(2) by (cases "expired_count ws now (st_db st) < 500") auto
  have k: "k = expired_count ws now (st_db ?st') div 500" using Suc(2) big d'(4) by (simp add: le_div_geq)
  have step: "run_retention_queue (Suc n) now url st = run_retention_queue n now url ?st'" for n
    using d'(1) big Suc.prems(4) by simp
  from Suc(1) [OF k] d' Suc.prems k show ?case
    unfolding Suc(2) [symmetric] step by auto
qed

end
