(* ===== verification/System.thy ===== *)
theory System
  imports Job_Routes Web_Routes Retention
begin

text \<open>
  The deployed program as one transition system: the requests of the API
  (src/src/web/routes/*.py), each authenticated in the session that serves it
  (src/src/web/dependencies.py), the bootstrap command (src/src/cli/bootstrap.py), the service
  operations without a route, the workers of both queues (src/src/workers/broker.py,
  src/src/workers/retention.py) and the retention scheduler
  (src/src/workers/retention_scheduler.py). One transition is one request, one delivery or one
  round; sessions do not interleave, as the row locks of the services make the commits behave.
\<close>

section \<open>Authenticated requests\<close>

text \<open>
  \<open>Depends(current_auth)\<close> and \<open>Depends(db_session)\<close>: the context is read in the same session
  the handler then works in, and an error of either rolls both back.
\<close>

definition authenticated ::
  "auth_service \<Rightarrow> int \<Rightarrow> (string \<times> string) option \<Rightarrow> (auth_context \<Rightarrow> db \<Rightarrow> 'a res \<times> db) \<Rightarrow> db \<Rightarrow> 'a res \<times> db" where
  "authenticated svc now credentials handler d =
    (case current_auth svc now credentials d of
       (Inl e, d1) \<Rightarrow> (Inl e, d1) | (Inr c, d1) \<Rightarrow> handler c d1)"

definition authenticated_session ::
  "auth_service \<Rightarrow> int \<Rightarrow> (string \<times> string) option \<Rightarrow> (auth_context \<Rightarrow> dbsession \<Rightarrow> 'a res \<times> dbsession) \<Rightarrow>
   dbsession \<Rightarrow> 'a res \<times> dbsession" where
  "authenticated_session svc now credentials handler s =
    (case current_auth svc now credentials (work s) of
       (Inl e, d1) \<Rightarrow> (Inl e, s\<lparr>work := d1\<rparr>) | (Inr c, d1) \<Rightarrow> handler c (s\<lparr>work := d1\<rparr>))"

text \<open>Services whose result carries the state only on success.\<close>

definition kept_on_error :: "(db \<Rightarrow> ('a \<times> db) res) \<Rightarrow> db \<Rightarrow> 'a res \<times> db" where
  "kept_on_error f d = (case f d of Inl e \<Rightarrow> (Inl e, d) | Inr (x, d') \<Rightarrow> (Inr x, d'))"

section \<open>The transitions\<close>

text \<open>
  A message leaves its queue once the worker has returned; it stays when the worker raised, and
  the broker may deliver it twice. The retention actor takes its message and may queue another. The
  key of the suppression service is one for the whole system, in the environment.
\<close>

inductive system_step :: "nat list \<Rightarrow> store \<Rightarrow> store \<Rightarrow> bool" for hmac_key where
  bootstrap: "bootstrap_main passwords ids env st = (r1, st') \<Longrightarrow> system_step hmac_key st st'"
| workspace_created:
    "run_session (on_db (create_workspace ids actor mfa slug name limit)) st = (r2, st') \<Longrightarrow> system_step hmac_key st st'"
| login: "run_session (on_db (login_route l svc w now host credentials)) st = (r3, st') \<Longrightarrow> system_step hmac_key st st'"
| refresh: "run_session (refresh_route l svc w now host cookies csrf) st = (r4, st') \<Longrightarrow> system_step hmac_key st st'"
| logout: "run_session (on_db (authenticated svc now bearer (logout_route now))) st = (r5, st') \<Longrightarrow> system_step hmac_key st st'"
| sessions_revoked: "run_session (on_db (\<lambda>d. (Inr (), revoke_all now u d))) st = (r6, st') \<Longrightarrow> system_step hmac_key st st'"
| mfa_begun: "run_session (on_db (authenticated svc now bearer (begin_mfa_route l svc w host))) st = (r7, st') \<Longrightarrow>
    system_step hmac_key st st'"
| mfa_confirmed: "run_session (on_db (authenticated svc now bearer (\<lambda>c. confirm_mfa_route l svc w now host c passcode))) st
      = (r8, st') \<Longrightarrow> system_step hmac_key st st'"
| mfa_verified: "run_session (on_db (authenticated svc now bearer (\<lambda>c. verify_mfa_route l svc w now host c passcode))) st
      = (r9, st') \<Longrightarrow> system_step hmac_key st st'"
| identity_mapped: "run_session (on_db (map_oidc_identity i provider subject u)) st = (r10, st') \<Longrightarrow> system_step hmac_key st st'"
| job_requested: "run_session (authenticated_session svc now bearer
        (\<lambda>c. create_job_route l i ri c wt job_body key)) st = (r11, st') \<Longrightarrow> system_step hmac_key st st'"
| budget_overridden: "run_session (on_db (authenticated svc now bearer (\<lambda>c. override_budget_route c wt limit_body))) st
      = (r12, st') \<Longrightarrow> system_step hmac_key st st'"
| policy_put: "run_session (on_db (authenticated svc now bearer (\<lambda>c. put_policy_route configured c wt policy_body))) st
      = (r13, st') \<Longrightarrow> system_step hmac_key st st'"
| suppressed: "service \<in> {None, Some hmac_key} \<Longrightarrow> run_session (on_db (authenticated svc now bearer
        (\<lambda>c. create_suppression_route service i c wt suppression_body))) st = (r14, st') \<Longrightarrow> system_step hmac_key st st'"
| subject_request: "service \<in> {None, Some hmac_key} \<Longrightarrow> run_session (on_db (authenticated svc now bearer
        (\<lambda>c. process_request_route service i now clock c wt request_body))) st = (r15, st') \<Longrightarrow> system_step hmac_key st st'"
| secret_put: "run_session (on_db (authenticated svc now bearer
        (\<lambda>c. put_secret_route enc cipher nonce i now c wt provider secret))) st = (r16, st') \<Longrightarrow> system_step hmac_key st st'"
| contacts_persisted: "run_session (on_db (kept_on_error (persist_contacts hmac_key cutoff clock ws lead contacts))) st
      = (r17, st') \<Longrightarrow> system_step hmac_key st st'"
| contacts_exported: "run_session (on_db (export_for_actor hmac_key cutoff ws u mfa job_id)) st = (r18, st') \<Longrightarrow>
    system_step hmac_key st st'"
| attributes_purged: "run_session (on_db (\<lambda>d. case purge_expired_attributes ws cutoff d of (n, d') \<Rightarrow> (Inr n, d'))) st
      = (r19, st') \<Longrightarrow> system_step hmac_key st st'"
| scheduled: "system_step hmac_key st (scheduler_round acquired st)"
| retention_delivered: "m \<in> set (st_retention_queue st) \<Longrightarrow>
    enforce_workspace_retention now url_opt m st = (Inr (), st') \<Longrightarrow>
    system_step hmac_key st (st'\<lparr>st_retention_queue := remove1 m (st_retention_queue st')\<rparr>)"
| retention_raised: "m \<in> set (st_retention_queue st) \<Longrightarrow>
    enforce_workspace_retention now url_opt m st = (Inl e, st') \<Longrightarrow> system_step hmac_key st st'"
| job_delivered: "m \<in> set (st_job_queue st) \<Longrightarrow> process_job now (Some url) m st = (Inr (), st') \<Longrightarrow>
    system_step hmac_key st (st'\<lparr>st_job_queue := remove1 m (st_job_queue st')\<rparr>)"
| job_raised: "m \<in> set (st_job_queue st) \<Longrightarrow> process_job now url_opt m st = (Inl e, st') \<Longrightarrow> system_step hmac_key st st'"
| job_redelivered: "m \<in> set (st_job_queue st) \<Longrightarrow> system_step hmac_key st (st\<lparr>st_job_queue := m # st_job_queue st\<rparr>)"

section \<open>What leaves the books alone\<close>

definition books_of :: "db \<Rightarrow> job list \<times> budget list \<times> reservation list \<times> ledger_entry list" where
  "books_of d = (t_jobs d, t_budgets d, t_reservations d, t_ledger d)"

lemma books_of_updates [simp]:
  "books_of (d\<lparr>t_sessions := x1\<rparr>) = books_of d" "books_of (d\<lparr>t_users := x2\<rparr>) = books_of d"
  "books_of (d\<lparr>t_mfa := x3\<rparr>) = books_of d" "books_of (d\<lparr>t_oidc := x4\<rparr>) = books_of d"
  "books_of (d\<lparr>t_credentials := x5\<rparr>) = books_of d" "books_of (d\<lparr>t_policies := x6\<rparr>) = books_of d"
  "books_of (d\<lparr>t_contacts := x7\<rparr>) = books_of d" "books_of (d\<lparr>t_suppressions := x8\<rparr>) = books_of d"
  "books_of (d\<lparr>t_requests := x9\<rparr>) = books_of d" "books_of (d\<lparr>t_retention := x10\<rparr>) = books_of d"
  "books_of (d\<lparr>t_attributes := x11\<rparr>) = books_of d" "books_of (d\<lparr>t_audit := x12\<rparr>) = books_of d"
  by (simp_all add: books_of_def)

lemma books_of_rows [simp]:
  "books_of (append_audit_event a w u tt ti ds c d) = books_of d"
  "books_of (put_session r d) = books_of d" "books_of (put_mfa m d) = books_of d"
  "books_of (put_contact x d) = books_of d" "books_of (add_request q d) = books_of d"
  "books_of (request_event ws y i ds d) = books_of d" "books_of (erase_contacts ws k fp d) = books_of d"
  by (simp_all add: put_session_def put_mfa_def put_contact_def add_request_def request_event_def erase_contacts_def
      append_audit_event_def)

section \<open>Every other operation keeps the books\<close>

lemma authenticate_books: "authenticate_access_token svc now token d = (r, d') \<Longrightarrow> books_of d' = books_of d"
  by (auto simp: authenticate_access_token_def split: sum.splits prod.splits option.splits if_splits)

lemma current_auth_books: "current_auth svc now bearer d = (r, d') \<Longrightarrow> books_of d' = books_of d"
  by (auto simp: current_auth_def dest: authenticate_books split: sum.splits prod.splits option.splits if_splits)

lemma authenticated_books:
  assumes h: "\<And>c d r d'. h c d = (r, d') \<Longrightarrow> books_of d' = books_of d"
    and run: "authenticated svc now bearer h d = (r, d')"
  shows "books_of d' = books_of d"
proof (cases "current_auth svc now bearer d")
  case (Pair x d1)
  then show ?thesis using run current_auth_books [OF Pair] h
    by (cases x) (auto simp: authenticated_def)
qed

lemma login_auth_books: "login_auth svc w now email password d = (r, d') \<Longrightarrow> books_of d' = books_of d"
  by (auto simp: login_auth_def Let_def create_session_def split: option.splits if_splits)

lemma login_route_books: "login_route l svc w now host body d = (r, d') \<Longrightarrow> books_of d' = books_of d"
  by (auto simp: login_route_def dest!: login_auth_books authenticate_books
      split: sum.splits prod.splits)

lemma logout_books: "logout_route now c d = (r, d') \<Longrightarrow> books_of d' = books_of d"
  by (auto simp: logout_route_def logout_auth_def Let_def split: option.splits)

lemma revoke_all_books [simp]: "books_of (revoke_all now u d) = books_of d"
  by (simp add: revoke_all_def split: option.split)

lemma begin_mfa_books: "begin_mfa_route l svc w host c d = (r, d') \<Longrightarrow> books_of d' = books_of d"
  by (auto simp: begin_mfa_route_def begin_mfa_enrollment_def Let_def
      split: sum.splits prod.splits option.splits if_splits)

lemma elevate_books:
  assumes "\<And>u d. books_of (f u d) = books_of d"
  shows "elevate svc w now c f d = (r, d') \<Longrightarrow> books_of d' = books_of d"
  using assms by (auto simp: elevate_def rotate_session_def Let_def split: option.splits if_splits)

lemma confirm_mfa_books: "confirm_mfa svc w now c passcode d = (r, d') \<Longrightarrow> books_of d' = books_of d"
  by (auto simp: confirm_mfa_def split: sum.splits
      dest!: elevate_books [rotated])

lemma verify_mfa_books: "verify_mfa svc w now c passcode d = (r, d') \<Longrightarrow> books_of d' = books_of d"
  by (auto simp: verify_mfa_def Let_def split: sum.splits if_splits
      dest!: elevate_books [rotated])

lemma mfa_code_route_books:
  assumes "\<And>c p d r d'. op c p d = (r, d') \<Longrightarrow> books_of d' = books_of d"
  shows "mfa_code_route op l host c passcode d = (r, d') \<Longrightarrow> books_of d' = books_of d"
  by (auto simp: mfa_code_route_def split: sum.splits prod.splits dest: assms)

lemma mfa_routes_books:
  "confirm_mfa_route l svc w now host c passcode d = (r, d') \<Longrightarrow> books_of d' = books_of d"
  "verify_mfa_route l svc w now host c passcode d = (r, d') \<Longrightarrow> books_of d' = books_of d"
  unfolding confirm_mfa_route_def verify_mfa_route_def
  by (erule mfa_code_route_books [rotated], erule confirm_mfa_books)
    (erule mfa_code_route_books [rotated], erule verify_mfa_books)

lemma oidc_books: "map_oidc_identity i p s u d = (r, d') \<Longrightarrow> books_of d' = books_of d"
  by (auto simp: map_oidc_identity_def Let_def split: if_splits option.splits)

lemma put_policy_books: "put_policy_route configured c wt body d = (r, d') \<Longrightarrow> books_of d' = books_of d"
  by (auto simp: put_policy_route_def policy_put_def Let_def split: sum.splits prod.splits if_splits)

lemma suppress_books: "suppress key i ws k v sc reason actor d = (r, d') \<Longrightarrow> books_of d' = books_of d"
  by (drule suppress_table) auto

lemma create_suppression_books: "create_suppression_route key i c wt body d = (r, d') \<Longrightarrow> books_of d' = books_of d"
  by (auto simp: create_suppression_route_def create_suppression_body_def split: sum.splits prod.splits
      dest!: suppress_books)

lemma erase_books: "erase_and_suppress key i now rid ws a kind v sc rk d = (r, d') \<Longrightarrow> books_of d' = books_of d"
  by (auto simp: erase_and_suppress_def Let_def split: sum.splits prod.splits option.splits
      dest!: suppress_books)

lemma record_access_books: "record_access key now rid ws a kind v d = (r, d') \<Longrightarrow> books_of d' = books_of d"
  by (auto simp: record_access_def Let_def split: sum.splits prod.splits option.splits)

lemma rectify_loop_books: "rectify_loop k now clock rid ws p v cs d = (r, d') \<Longrightarrow> books_of d' = books_of d"
proof (induction cs arbitrary: d)
  case Nil
  then show ?case by simp
next
  case (Cons c cs)
  show ?case
  proof (cases "rectify_one k now clock rid ws p v c d")
    case (Inl e)
    then show ?thesis using Cons.prems by simp
  next
    case (Inr d1)
    then obtain x where "d1 = put_contact x d" by (rule rectify_one_Inr)
    moreover have "books_of d' = books_of d1" using Cons Inr by simp
    ultimately show ?thesis by simp
  qed
qed


lemma rectify_books: "rectify k i now clock rid ws a kind v rep d = (r, d') \<Longrightarrow> books_of d' = books_of d"
  by (auto simp: rectify_def Let_def split: sum.splits prod.splits option.splits contact_kind.splits
      dest!: rectify_loop_books suppress_books)

lemma process_request_books: "process_request_route key i now clock c wt body d = (r, d') \<Longrightarrow> books_of d' = books_of d"
  by (auto simp: process_request_route_def process_request_body_def Let_def
      split: sum.splits prod.splits option.splits if_splits
      dest!: rectify_books record_access_books erase_books)

lemma put_secret_books: "put_secret_route enc key nonce i now c wt p v d = (r, d') \<Longrightarrow> books_of d' = books_of d"
  by (auto simp: put_secret_route_def credential_put_def Let_def split: sum.splits option.splits)

lemma persist_books:
  assumes "kept_on_error (persist_contacts k cutoff clock ws lead cs) d = (r, d')"
  shows "books_of d' = books_of d"
proof (cases "persist_contacts k cutoff clock ws lead cs d")
  case (Inr y)
  then obtain n d1 where y: "y = (n, d1)" by (cases y)
  obtain policy where "persist_loop k cutoff clock ws lead policy cs
      (\<lparr>rs_persisted = 0, rs_suppressed = 0, rs_policy_rejected = 0, rs_expired = 0\<rparr>, d) = Inr (n, d1)"
    using Inr y by (auto simp: persist_contacts_def bind_res_Inr_iff)
  from persist_loop_Inr [OF this] have "books_of d1 = books_of d" by auto
  then show ?thesis using assms Inr y by (simp add: kept_on_error_def)
qed (use assms in \<open>simp add: kept_on_error_def\<close>)

lemma purge_for_export_books [simp]: "books_of (purge_for_export ws cutoff d) = books_of d"
  by (simp add: purge_for_export_def Let_def)

lemma export_books: "export_for_actor k cutoff ws u mfa job d = (r, d') \<Longrightarrow> books_of d' = books_of d"
  by (auto simp: export_for_actor_def exportable_contacts_def Let_def split: sum.splits prod.splits option.splits)

lemma purge_attributes_books: "purge_expired_attributes ws cutoff d = (n, d') \<Longrightarrow> books_of d' = books_of d"
  by (auto simp: purge_expired_attributes_def Let_def)

lemma batch_books: "run_retention_batch ws cutoff n d = (r, d') \<Longrightarrow> books_of d' = books_of d"
  by (auto simp: run_retention_batch_def Let_def split: if_splits)

section \<open>Sessions that keep the books\<close>

text \<open>The invariant reads the four tables, the integrity of the store and the queue of jobs.\<close>

lemma system_inv_books:
  assumes inv: "system_inv st" and books: "books_of d = books_of (st_db st)" and ok: "integrity_ok d"
  shows "system_inv (st\<lparr>st_db := d, st_retention_queue := q\<rparr>)"
proof -
  have t: "t_jobs d = t_jobs (st_db st)" "t_budgets d = t_budgets (st_db st)"
    "t_reservations d = t_reservations (st_db st)" "t_ledger d = t_ledger (st_db st)"
    using books by (simp_all add: books_of_def)
  have "budget_inv d = budget_inv (st_db st)" by (rule budget_inv_cong) (fact t)+
  moreover have "has_active_reservation d = has_active_reservation (st_db st)"
    by (simp add: fun_eq_iff has_active_reservation_def t)
  ultimately show ?thesis using inv ok by (simp add: system_inv_def queue_ok_def t)
qed

lemma system_inv_db:
  "system_inv st \<Longrightarrow> books_of d = books_of (st_db st) \<Longrightarrow> integrity_ok d \<Longrightarrow> system_inv (st\<lparr>st_db := d\<rparr>)"
  using system_inv_books [of st d "st_retention_queue st"] by simp

lemma system_inv_on_db:
  assumes inv: "system_inv st" and run: "run_session (on_db f) st = (r, st')"
    and books: "\<And>r d'. f (st_db st) = (r, d') \<Longrightarrow> books_of d' = books_of (st_db st)"
  shows "system_inv st'"
  using run inv by (auto simp: run_on_db split: prod.splits sum.splits if_splits dest!: books intro: system_inv_db)


lemma system_inv_request:
  assumes "system_inv st" "run_session (on_db (authenticated svc now bearer h)) st = (r, st')"
    and "\<And>c d r d'. h c d = (r, d') \<Longrightarrow> books_of d' = books_of d"
  shows "system_inv st'"
  by (rule system_inv_on_db [OF assms(1,2)]) (rule authenticated_books [OF assms(3)])

section \<open>Requests that move the books\<close>

lemma integrity_put_session:
  assumes "integrity_ok d" "r \<in> set (t_sessions d)" "se_id r' = se_id r" "se_user_id r' = se_user_id r"
    "session_row_ok r'"
  shows "integrity_ok (put_session r' d)"
proof -
  have keys: "distinct_on se_id (t_sessions d)" using assms(1) by (rule integrity_okD)
  have m: "map f (upd_rows (\<lambda>s. se_id s = se_id r') (\<lambda>_. r') (t_sessions d)) = map f (t_sessions d)"
    if "f r' = f r" for f :: "session_row \<Rightarrow> 'a"
    using keys assms(2,3) that by (rule map_put_row)
  note maps = m [of se_id, OF assms(3)] m [of se_user_id, OF assms(4)]
  show ?thesis
    using assms(1,5)
    by (simp add: integrity_ok_def rows_ok_def keys_ok_def refs_ok_def put_session_def list_all_put_row
        refers_source_map(1) [OF maps(2)] distinct_on_map [OF maps(1)])
qed

lemma current_auth_integrity:
  assumes ok: "integrity_ok d" and run: "current_auth svc now bearer d = (r, d')"
  shows "integrity_ok d'"
proof -
  have touched: "integrity_ok e" if a: "authenticate_access_token svc now token d = (Inr c, e)" for token c e
  proof -
    obtain row where row: "session_by_id (ac_session_id c) d = Some row"
      and e: "e = put_session (row\<lparr>se_last_seen_at := now\<rparr>) d"
      using authenticate_Inr [OF a] by metis
    have m: "row \<in> set (t_sessions d)" using session_by_id_Some [OF row] by simp
    then have "session_row_ok row" using ok by (simp add: integrity_ok_def rows_ok_def list_all_iff)
    then show ?thesis unfolding e by (intro integrity_put_session [OF ok m]) (simp_all add: session_row_ok_def)
  qed
  show ?thesis
    using run ok
    by (auto simp: current_auth_def dest: authenticate_error_unchanged intro: touched
        split: option.splits prod.splits sum.splits if_splits)
qed

text \<open>After authentication the invariant holds of the state the handler starts from.\<close>

lemma system_inv_authenticated:
  assumes "system_inv st" "current_auth svc now bearer (st_db st) = (r, d)"
  shows "system_inv (st\<lparr>st_db := d\<rparr>)"
  using assms current_auth_books [OF assms(2)] current_auth_integrity [OF _ assms(2)]
  by (intro system_inv_db) (simp_all add: system_inv_def)

lemma authenticated_session_frame:
  assumes "\<And>c s. stable (snd (h c s)) = stable s \<and> sent (snd (h c s)) = sent s"
  shows "stable (snd (authenticated_session svc now bearer h s)) = stable s
    \<and> sent (snd (authenticated_session svc now bearer h s)) = sent s"
proof (cases "current_auth svc now bearer (work s)")
  case (Pair x d1)
  then show ?thesis using assms [of _ "s\<lparr>work := d1\<rparr>"] by (cases x) (simp_all add: authenticated_session_def)
qed

interpretation authenticated_jobs:
  unit_of_work "authenticated_session svc now bearer (\<lambda>c. create_job_route l i ri c wt body key)"
  for svc now bearer l i ri wt body key
  using authenticated_session_frame [of "\<lambda>c. create_job_route l i ri c wt body key" for l i ri wt body key]
  by unfold_locales (simp_all add: create_job_route_frame)

lemma system_inv_job_requested:
  assumes inv: "system_inv st"
    and run: "run_session (authenticated_session svc now bearer (\<lambda>c. create_job_route l i ri c wt body key)) st = (r, st')"
  shows "system_inv st'"
proof (cases r)
  case (Inl e)
  with run authenticated_jobs.run_error_unchanged inv show ?thesis by blast
next
  case (Inr x)
  let ?s = "begin_session (st_db st)"
  obtain s' where body: "authenticated_session svc now bearer (\<lambda>c. create_job_route l i ri c wt body key) ?s = (Inr x, s')"
    and ok: "integrity_ok (work s')"
    and st': "st' = st\<lparr>st_db := work s', st_job_queue := st_job_queue st @ map uuid_text (hooks s')\<rparr>"
    using run Inr by (auto simp: authenticated_jobs.run_success)
  have w: "work ?s = st_db st" "hooks ?s = []" by (simp_all add: begin_session_def)
  obtain c d1 where auth: "current_auth svc now bearer (st_db st) = (Inr c, d1)"
    and route: "create_job_route l i ri c wt body key (?s\<lparr>work := d1\<rparr>) = (Inr x, s')"
    using body by (auto simp: authenticated_session_def w split: prod.splits sum.splits)
  have inv1: "system_inv (st\<lparr>st_db := d1\<rparr>)" by (rule system_inv_authenticated [OF inv auth])
  have "system_inv (st\<lparr>st_db := d1\<rparr>\<lparr>st_db := work s',
      st_job_queue := st_job_queue (st\<lparr>st_db := d1\<rparr>) @ map uuid_text (hooks s')\<rparr>)"
    by (rule system_inv_create [OF _ _ _ _ _ _ route ok]) (use inv1 in \<open>simp_all add: system_inv_def w\<close>)
  then show ?thesis by (simp add: st')
qed

lemma system_inv_overridden:
  assumes inv: "system_inv st"
    and run: "run_session (on_db (authenticated svc now bearer (\<lambda>c. override_budget_route c wt body))) st = (r, st')"
  shows "system_inv st'"
proof (cases r)
  case (Inl e)
  with run plain.run_error_unchanged inv show ?thesis by blast
next
  case (Inr x)
  then obtain d where d: "authenticated svc now bearer (\<lambda>c. override_budget_route c wt body) (st_db st) = (Inr x, d)"
    "integrity_ok d" and st': "st' = st\<lparr>st_db := d\<rparr>"
    using run by (auto simp: run_on_db split: prod.splits sum.splits if_splits)
  obtain c d1 where auth: "current_auth svc now bearer (st_db st) = (Inr c, d1)"
    and route: "override_budget_route c wt body d1 = (Inr x, d)"
    using d(1) by (auto simp: authenticated_def split: prod.splits sum.splits)
  have "run_session (on_db (override_budget_route c wt body)) (st\<lparr>st_db := d1\<rparr>) = (Inr x, st')"
    by (simp add: run_on_db route d(2) st')
  then show ?thesis by (rule system_inv_override [OF system_inv_authenticated [OF inv auth]])
qed


section \<open>New workspaces\<close>

text \<open>
  The commit checks the keys, so the identifiers drawn were fresh; then the new budget is
  balanced and nothing else moved.
\<close>

lemma system_inv_owner:
  assumes inv: "system_inv st"
    and d1: "d1 = (st_db st)\<lparr>t_users := us, t_workspaces := t_workspaces (st_db st) @ [w]\<rparr>"
    and w: "wo_id w = wi_workspace ids" and limit: "0 \<le> limit"
    and d: "d = append_audit_event a x y tt ti ds c (add_owner ids u limit d1)" and ok: "integrity_ok d"
  shows "system_inv (st\<lparr>st_db := d\<rparr>)"
proof -
  have frame: "t_jobs d = t_jobs (st_db st)" "t_reservations d = t_reservations (st_db st)"
    "t_ledger d = t_ledger (st_db st)"
    "t_budgets d = t_budgets (st_db st) @ [new_budget (wi_budget ids) (wi_workspace ids) limit]"
    "t_workspaces d = t_workspaces (st_db st) @ [w]"
    by (simp_all add: d d1 add_owner_def)
  have "distinct_on bu_id (t_budgets d)" "distinct_on wo_id (t_workspaces d)"
    using ok by (simp_all add: integrity_ok_def keys_ok_def)
  then have fresh: "wi_budget ids \<notin> bu_id ` set (t_budgets (st_db st))"
    "wi_workspace ids \<notin> wo_id ` set (t_workspaces (st_db st))"
    by (simp_all add: frame distinct_on_def new_budget_def w)
  have "budget_inv (add_owner ids u limit (st_db st))"
    using inv by (intro add_owner_inv [OF _ _ fresh limit]) (simp_all add: system_inv_def)
  moreover have "t_budgets (add_owner ids u limit (st_db st)) = t_budgets d"
    "t_reservations (add_owner ids u limit (st_db st)) = t_reservations d"
    "t_ledger (add_owner ids u limit (st_db st)) = t_ledger d"
    by (simp_all add: frame) (simp_all add: add_owner_def)
  ultimately have "budget_inv d" by (metis budget_inv_cong)
  moreover have "has_active_reservation d = has_active_reservation (st_db st)"
    by (simp add: fun_eq_iff has_active_reservation_def frame)
  ultimately show ?thesis using inv ok by (simp add: system_inv_def queue_ok_def frame)
qed

lemma system_inv_bootstrap:
  assumes inv: "system_inv st" and run: "bootstrap_main passwords ids env st = (r, st')"
  shows "system_inv st'"
proof -
  have step: "system_inv st'"
    if run: "run_session (on_db (bootstrap_platform passwords ids e p n s m limit_text)) st = (r, st')"
    for e p n s m limit_text
  proof (cases r)
    case (Inl e)
    with run plain.run_error_unchanged inv show ?thesis by blast
  next
    case (Inr x)
    then obtain d where d: "bootstrap_platform passwords ids e p n s m limit_text (st_db st) = (Inr x, d)"
      "integrity_ok d" and st': "st' = st\<lparr>st_db := d\<rparr>"
      using run by (auto simp: run_on_db split: prod.splits sum.splits if_splits)
    obtain us w limit where u: "new_workspace (wi_workspace ids) s m = Inr w" "normalized_cost limit_text = Inr limit"
      "d = append_audit_event ''platform.bootstrap'' (Some (wo_id w)) (Some (wi_user ids)) (Some ''workspace'')
        (Some (uuid_text (wo_id w))) [] None (add_owner ids (wi_user ids) limit ((st_db st)\<lparr>t_users := us,
           t_workspaces := t_workspaces (st_db st) @ [w]\<rparr>))"
      using d(1) by (auto simp: bootstrap_platform_def Let_def split: if_splits sum.splits intro: that)
    from u(1,2) have "wo_id w = wi_workspace ids" "0 \<le> limit" by (auto dest: new_workspace_Inr)
    then show ?thesis unfolding st' by (rule system_inv_owner [OF inv refl _ _ u(3) d(2)])
  qed
  then show ?thesis using run inv by (auto simp: bootstrap_main_def Let_def split: if_splits)
qed

lemma system_inv_workspace:
  assumes inv: "system_inv st"
    and run: "run_session (on_db (create_workspace ids actor mfa slug name limit_text)) st = (r, st')"
  shows "system_inv st'"
proof (cases r)
  case (Inl e)
  with run plain.run_error_unchanged inv show ?thesis by blast
next
  case (Inr w)
  then obtain d where d: "create_workspace ids actor mfa slug name limit_text (st_db st) = (Inr w, d)"
    "integrity_ok d" and st': "st' = st\<lparr>st_db := d\<rparr>"
    using run by (auto simp: run_on_db split: prod.splits sum.splits if_splits)
  obtain uid limit where u: "new_workspace (wi_workspace ids) slug name = Inr w" "normalized_cost limit_text = Inr limit"
    "d = append_audit_event ''workspace.created'' (Some (wo_id w)) (Some uid) (Some ''workspace'')
      (Some (uuid_text (wo_id w))) [] None
      (add_owner ids uid limit ((st_db st)\<lparr>t_workspaces := t_workspaces (st_db st) @ [w]\<rparr>))"
    using d(1) by (auto simp: create_workspace_def Let_def split: option.splits if_splits sum.splits intro: that)
  have "(st_db st)\<lparr>t_workspaces := t_workspaces (st_db st) @ [w]\<rparr>
      = (st_db st)\<lparr>t_users := t_users (st_db st), t_workspaces := t_workspaces (st_db st) @ [w]\<rparr>" by simp
  moreover have "wo_id w = wi_workspace ids" "0 \<le> limit" using u(1,2) by (auto dest: new_workspace_Inr)
  ultimately show ?thesis unfolding st' by (rule system_inv_owner [OF inv _ _ _ u(3) d(2)])
qed

section \<open>Refreshing, which may commit on its own\<close>

definition session_keeps :: "store \<Rightarrow> dbsession \<Rightarrow> bool" where
  "session_keeps st s \<longleftrightarrow> books_of (work s) = books_of (st_db st) \<and> books_of (stable s) = books_of (st_db st)
     \<and> integrity_ok (stable s) \<and> hooks s = [] \<and> sent s = []"

lemma session_keeps_commit:
  "session_keeps st s \<Longrightarrow> commit_session s = (r, s') \<Longrightarrow> session_keeps st s'"
  by (auto simp: session_keeps_def commit_session_def split: if_splits)

lemma session_keeps_work:
  "session_keeps st s \<Longrightarrow> books_of d = books_of (work s) \<Longrightarrow> session_keeps st (s\<lparr>work := d\<rparr>)"
  by (simp add: session_keeps_def)

lemma refresh_auth_keeps:
  assumes "session_keeps st s" "refresh_auth svc w now i t c s = (r, s')"
  shows "session_keeps st s'"
  using assms
  by (auto simp: refresh_auth_def Let_def rotate_session_def session_keeps_work
      split: option.splits if_splits sum.splits bool.splits prod.splits
      dest!: session_keeps_commit [rotated])

lemma refresh_route_keeps:
  assumes "session_keeps st s" "refresh_route l svc w now host cs x s = (r, s')"
  shows "session_keeps st s'"
proof -
  have after: "session_keeps st (s1\<lparr>work := d2\<rparr>)"
    if "refresh_auth svc w now i t c s = (q, s1)" "authenticate_access_token svc now token (work s1) = (q', d2)"
    for i t c q s1 token q' d2
    using refresh_auth_keeps [OF assms(1) that(1)] authenticate_books [OF that(2)] by (rule session_keeps_work)
  show ?thesis
    using assms refresh_auth_keeps [OF assms(1)]
    by (auto simp: refresh_route_def split: sum.splits prod.splits dest: after)
qed

lemma run_refresh:
  assumes ok: "integrity_ok (st_db st)" and run: "run_session (refresh_route l svc w now host cs x) st = (r, st')"
  obtains d where "st' = st\<lparr>st_db := d\<rparr>" "books_of d = books_of (st_db st)" "integrity_ok d"
proof -
  obtain q s where b: "refresh_route l svc w now host cs x (begin_session (st_db st)) = (q, s)"
    by (cases "refresh_route l svc w now host cs x (begin_session (st_db st))")
  have keep: "session_keeps st s"
    by (rule refresh_route_keeps [OF _ b]) (use ok in \<open>simp add: session_keeps_def begin_session_def\<close>)
  have "\<exists>s'. st' = end_session st s' \<and> session_keeps st s'"
  proof (cases q)
    case (Inl e)
    have "session_keeps st (rollback_session s)" using keep by (simp add: session_keeps_def rollback_session_def)
    then show ?thesis using run b Inl by (auto simp: run_session_def)
  next
    case (Inr x)
    obtain q' s' where c: "commit_session s = (q', s')" by (cases "commit_session s")
    show ?thesis using run b Inr c session_keeps_commit [OF keep c] by (cases q') (auto simp: run_session_def)
  qed
  then obtain s' where "st' = st\<lparr>st_db := stable s'\<rparr>" "session_keeps st s'"
    by (auto simp: end_session_def session_keeps_def)
  then show ?thesis by (intro that [of "stable s'"]) (simp_all add: session_keeps_def)
qed

lemma system_inv_refresh:
  assumes inv: "system_inv st" and run: "run_session (refresh_route l svc w now host cs x) st = (r, st')"
  shows "system_inv st'"
proof -
  have "integrity_ok (st_db st)" using inv by (simp add: system_inv_def)
  from run_refresh [OF this run] show ?thesis by (metis inv system_inv_db)
qed

section \<open>The invariant\<close>

lemma system_inv_retention_queue: "system_inv (st\<lparr>st_retention_queue := q\<rparr>) = system_inv st"
  by (simp add: system_inv_def queue_ok_def)

lemma system_inv_enforced:
  assumes inv: "system_inv st" and run: "enforce_workspace_retention now url m st = (r, st')"
  shows "system_inv st'"
proof -
  have "system_inv st1" if "run_session (on_db (run_retention_batch ws now 500)) st = (q, st1)" for ws q st1
    by (rule system_inv_on_db [OF inv that]) (rule batch_books)
  then show ?thesis using run inv
    by (auto simp: enforce_workspace_retention_def system_inv_retention_queue split: sum.splits prod.splits if_splits)
qed

lemma system_inv_delivered:
  assumes inv: "system_inv st" and m: "m \<in> set (st_job_queue st)"
    and run: "process_job now (Some url) m st = (Inr (), st')"
  shows "system_inv (st'\<lparr>st_job_queue := remove1 m (st_job_queue st')\<rparr>)"
proof -
  have url: "url \<noteq> ''''" using run by (auto simp: process_job_def split: sum.splits)
  obtain d where d: "process_job now (Some url) m st = (Inr (), st\<lparr>st_db := d\<rparr>)" "integrity_ok d" "budget_inv d"
    "jobs_backed (has_active_reservation d) (t_jobs d)"
    "map jo_id (t_jobs d) = map jo_id (t_jobs (st_db st))"
    "\<forall>j \<in> set (t_jobs d). uuid_text (jo_id j) = m \<longrightarrow> jo_state j = ''failed''"
    "\<forall>j \<in> set (t_jobs d). jo_state j = ''queued'' \<longrightarrow> j \<in> set (t_jobs (st_db st))"
    by (rule process_job_total [OF inv m url])
  have "queue_ok st" using inv by (simp add: system_inv_def)
  from queue_ok_processed [OF this d(5-7)] show ?thesis using run d(1-4) by (auto simp: system_inv_def)
qed

lemma system_inv_raised:
  assumes inv: "system_inv st" and m: "m \<in> set (st_job_queue st)"
    and run: "process_job now url m st = (Inl e, st')"
  shows "st' = st"
proof (cases "url \<in> {None, Some ''''}")
  case True
  then show ?thesis using run by (auto simp: process_job_def split: sum.splits)
next
  case False
  then obtain u where u: "url = Some u" "u \<noteq> ''''" by auto
  obtain d where "process_job now (Some u) m st = (Inr (), st\<lparr>st_db := d\<rparr>)"
    by (rule process_job_total [OF inv m u(2)])
  then show ?thesis using run u by simp
qed

lemma system_inv_step:
  assumes "system_step key st st'" "system_inv st"
  shows "system_inv st'"
  using assms
proof (induction rule: system_step.induct)
  case bootstrap
  show ?case by (rule system_inv_bootstrap [OF bootstrap(2,1)])
next
  case workspace_created
  show ?case by (rule system_inv_workspace [OF workspace_created(2,1)])
next
  case login
  show ?case by (rule system_inv_on_db [OF login(2,1)]) (erule login_route_books)
next
  case refresh
  show ?case by (rule system_inv_refresh [OF refresh(2,1)])
next
  case logout
  show ?case by (rule system_inv_request [OF logout(2,1)]) (erule logout_books)
next
  case sessions_revoked
  show ?case by (rule system_inv_on_db [OF sessions_revoked(2,1)]) auto
next
  case mfa_begun
  show ?case by (rule system_inv_request [OF mfa_begun(2,1)]) (erule begin_mfa_books)
next
  case mfa_confirmed
  show ?case by (rule system_inv_request [OF mfa_confirmed(2,1)]) (erule mfa_routes_books(1))
next
  case mfa_verified
  show ?case by (rule system_inv_request [OF mfa_verified(2,1)]) (erule mfa_routes_books(2))
next
  case identity_mapped
  show ?case by (rule system_inv_on_db [OF identity_mapped(2,1)]) (erule oidc_books)
next
  case job_requested
  show ?case by (rule system_inv_job_requested [OF job_requested(2,1)])
next
  case budget_overridden
  show ?case by (rule system_inv_overridden [OF budget_overridden(2,1)])
next
  case policy_put
  show ?case by (rule system_inv_request [OF policy_put(2,1)]) (erule put_policy_books)
next
  case suppressed
  show ?case by (rule system_inv_request [OF suppressed(3,2)]) (erule create_suppression_books)
next
  case subject_request
  show ?case by (rule system_inv_request [OF subject_request(3,2)]) (erule process_request_books)
next
  case secret_put
  show ?case by (rule system_inv_request [OF secret_put(2,1)]) (erule put_secret_books)
next
  case contacts_persisted
  show ?case by (rule system_inv_on_db [OF contacts_persisted(2,1)]) (erule persist_books)
next
  case contacts_exported
  show ?case by (rule system_inv_on_db [OF contacts_exported(2,1)]) (erule export_books)
next
  case attributes_purged
  show ?case by (rule system_inv_on_db [OF attributes_purged(2,1)]) (auto split: prod.splits dest: purge_attributes_books)
next
  case scheduled
  then show ?case by (simp add: scheduler_round_def enqueue_active_workspaces_def Let_def system_inv_retention_queue)
next
  case retention_delivered
  then show ?case by (simp add: system_inv_retention_queue) (blast intro: system_inv_enforced)
next
  case retention_raised
  then show ?case by (blast intro: system_inv_enforced)
next
  case job_delivered
  then show ?case by (blast intro: system_inv_delivered)
next
  case job_raised
  then show ?case by (auto dest: system_inv_raised)
next
  case job_redelivered
  then show ?case by (auto simp: system_inv_def queue_ok_def)
qed

text \<open>The empty database a migration leaves, and everything reached from it.\<close>

definition empty_store :: store where
  "empty_store = \<lparr>st_db = empty_db, st_job_queue = [], st_retention_queue = []\<rparr>"

lemma system_inv_empty: "system_inv empty_store"
  by (simp add: system_inv_def empty_store_def integrity_ok_empty budget_inv_empty queue_ok_def jobs_backed_def)
    (simp add: empty_db_def)

lemma system_inv_reachable: "(system_step key)\<^sup>*\<^sup>* st st' \<Longrightarrow> system_inv st \<Longrightarrow> system_inv st'"
  by (induction rule: rtranclp_induct) (auto intro: system_inv_step)

end
