(* ===== verification/Safety.thy ===== *)
theory Safety
  imports System
begin

text \<open>
  What no run of the system can do, whatever requests arrive and however the queues deliver:
  rewrite the history (audit events, ledger entries, suppressions, requests of data subjects,
  retention events), or store a contact that is suppressed.
\<close>

section \<open>The relation every transition keeps\<close>

text \<open>A suppression entry that counts for the contact's workspace, kind and fingerprint.\<close>

definition barred :: "db \<Rightarrow> contact \<Rightarrow> bool" where
  "barred d c \<longleftrightarrow>
     list_ex (suppression_matches (co_workspace_id c) (co_kind c) (co_fingerprint c)) (t_suppressions d)"

definition history_grows :: "db \<Rightarrow> db \<Rightarrow> bool" where
  "history_grows d d' \<longleftrightarrow>
     prefix (t_audit d) (t_audit d') \<and> prefix (t_ledger d) (t_ledger d')
     \<and> prefix (t_suppressions d) (t_suppressions d') \<and> prefix (t_requests d) (t_requests d')
     \<and> prefix (t_retention d) (t_retention d')"

definition keeps :: "db \<Rightarrow> db \<Rightarrow> bool" where
  "keeps d d' \<longleftrightarrow> history_grows d d' \<and>
     list_all (\<lambda>c. c \<in> set (t_contacts d) \<or> \<not> barred d c) (t_contacts d')"

lemma keeps_refl [simp, intro!]: "keeps d d"
  by (simp add: keeps_def history_grows_def list_all_iff)

lemma barred_grows: "history_grows d d' \<Longrightarrow> barred d c \<Longrightarrow> barred d' c"
  by (auto simp: history_grows_def barred_def list_ex_iff dest: set_mono_prefix)

lemma history_grows_trans: "history_grows a b \<Longrightarrow> history_grows b c \<Longrightarrow> history_grows a c"
  by (auto simp: history_grows_def intro: prefix_order.trans)

lemma keeps_trans [trans]:
  assumes "keeps a b" "keeps b c"
  shows "keeps a c"
proof -
  have h: "history_grows a b" "history_grows b c" using assms by (simp_all add: keeps_def)
  have "x \<in> set (t_contacts a) \<or> \<not> barred a x" if "x \<in> set (t_contacts c)" for x
    using that assms barred_grows [OF h(1)] by (auto simp: keeps_def list_all_iff)
  then show ?thesis using history_grows_trans [OF h] by (simp add: keeps_def list_all_iff)
qed

lemma keeps_updates [simp]:
  "keeps d (e\<lparr>t_sessions := x1\<rparr>) = keeps d e" "keeps d (e\<lparr>t_users := x2\<rparr>) = keeps d e"
  "keeps d (e\<lparr>t_mfa := x3\<rparr>) = keeps d e" "keeps d (e\<lparr>t_oidc := x4\<rparr>) = keeps d e"
  "keeps d (e\<lparr>t_credentials := x5\<rparr>) = keeps d e" "keeps d (e\<lparr>t_policies := x6\<rparr>) = keeps d e"
  "keeps d (e\<lparr>t_attributes := x7\<rparr>) = keeps d e" "keeps d (e\<lparr>t_workspaces := x8\<rparr>) = keeps d e"
  "keeps d (e\<lparr>t_memberships := x9\<rparr>) = keeps d e" "keeps d (e\<lparr>t_budgets := x10\<rparr>) = keeps d e"
  "keeps d (e\<lparr>t_jobs := x11\<rparr>) = keeps d e" "keeps d (e\<lparr>t_reservations := x12\<rparr>) = keeps d e"
  by (simp_all add: keeps_def history_grows_def)

lemma keeps_append:
  "keeps d e \<Longrightarrow> keeps d (e\<lparr>t_audit := t_audit e @ as\<rparr>)"
  "keeps d e \<Longrightarrow> keeps d (e\<lparr>t_ledger := t_ledger e @ ls\<rparr>)"
  "keeps d e \<Longrightarrow> keeps d (e\<lparr>t_suppressions := t_suppressions e @ ss\<rparr>)"
  "keeps d e \<Longrightarrow> keeps d (e\<lparr>t_requests := t_requests e @ qs\<rparr>)"
  "keeps d e \<Longrightarrow> keeps d (e\<lparr>t_retention := t_retention e @ rs\<rparr>)"
  by (simp_all add: keeps_def history_grows_def)

lemma keeps_contacts:
  assumes "keeps d e" "\<forall>c \<in> set cs. c \<in> set (t_contacts e) \<or> \<not> barred e c"
  shows "keeps d (e\<lparr>t_contacts := cs\<rparr>)"
proof -
  have "keeps e (e\<lparr>t_contacts := cs\<rparr>)" using assms(2) by (simp add: keeps_def list_all_iff history_grows_def)
  with assms(1) show ?thesis by (rule keeps_trans)
qed

lemma keeps_fewer_contacts: "keeps d e \<Longrightarrow> keeps d (e\<lparr>t_contacts := del_rows P (t_contacts e)\<rparr>)"
  by (rule keeps_contacts) (auto simp: del_rows_def)

lemmas keeps_rules = keeps_append keeps_fewer_contacts

lemma keeps_rows [intro!]:
  "keeps d e \<Longrightarrow> keeps d (append_audit_event a w u tt ti ds c e)"
  "keeps d e \<Longrightarrow> keeps d (put_session r e)" "keeps d e \<Longrightarrow> keeps d (put_mfa m e)"
  "keeps d e \<Longrightarrow> keeps d (add_request q e)" "keeps d e \<Longrightarrow> keeps d (request_event ws y i ds e)"
  "keeps d e \<Longrightarrow> keeps d (erase_contacts ws k fp e)" "keeps d e \<Longrightarrow> keeps d (put_budget b e)"
  "keeps d e \<Longrightarrow> keeps d (put_reservation v e)" "keeps d e \<Longrightarrow> keeps d (put_job j e)"
  "keeps d e \<Longrightarrow> keeps d (add_ledger ls e)"
  by (simp_all add: put_session_def put_mfa_def add_request_def request_event_def erase_contacts_def
      append_audit_event_def put_budget_def put_reservation_def put_job_def add_ledger_def keeps_rules)


section \<open>Operation by operation\<close>

lemma authenticate_keeps: "authenticate_access_token svc now token d = (r, d') \<Longrightarrow> keeps d d'"
  by (auto simp: authenticate_access_token_def split: sum.splits prod.splits option.splits if_splits)

lemma current_auth_keeps: "current_auth svc now bearer d = (r, d') \<Longrightarrow> keeps d d'"
  by (auto simp: current_auth_def dest: authenticate_keeps split: sum.splits prod.splits option.splits if_splits)

lemma authenticated_keeps:
  assumes h: "\<And>c d r d'. h c d = (r, d') \<Longrightarrow> keeps d d'"
    and run: "authenticated svc now bearer h d = (r, d')"
  shows "keeps d d'"
proof (cases "current_auth svc now bearer d")
  case (Pair x d1)
  then have "keeps d d1" by (rule current_auth_keeps)
  then show ?thesis using run Pair h by (cases x) (auto simp: authenticated_def intro: keeps_trans)
qed

lemma login_auth_keeps: "login_auth svc w now email password d = (r, d') \<Longrightarrow> keeps d d'"
  by (auto simp: login_auth_def Let_def create_session_def split: option.splits if_splits)

lemma login_route_keeps: "login_route l svc w now host body d = (r, d') \<Longrightarrow> keeps d d'"
  by (auto simp: login_route_def dest!: login_auth_keeps authenticate_keeps
      split: sum.splits prod.splits intro: keeps_trans)

lemma logout_keeps: "logout_route now c d = (r, d') \<Longrightarrow> keeps d d'"
  by (auto simp: logout_route_def logout_auth_def Let_def split: option.splits)

lemma revoke_all_keeps: "keeps d (revoke_all now u d)"
  by (simp add: revoke_all_def split: option.split)

lemma begin_mfa_keeps: "begin_mfa_route l svc w host c d = (r, d') \<Longrightarrow> keeps d d'"
  by (auto simp: begin_mfa_route_def begin_mfa_enrollment_def Let_def
      split: sum.splits prod.splits option.splits if_splits)

lemma elevate_keeps:
  assumes "\<And>u d. keeps d (f u d)"
  shows "elevate svc w now c f d = (r, d') \<Longrightarrow> keeps d d'"
  using assms by (auto simp: elevate_def rotate_session_def Let_def split: option.splits if_splits)

lemma confirm_mfa_keeps:
  assumes "confirm_mfa svc w now c passcode d = (r, d')"
  shows "keeps d d'"
proof (cases "verified_mfa_credential svc now (ac_user_id c) passcode d")
  case (Inr m)
  let ?d = "put_mfa (m\<lparr>mf_confirmed_at := Some now\<rparr>) d"
  have "keeps ?d d'"
    using assms Inr by (auto simp: confirm_mfa_def elim!: elevate_keeps [rotated])
  then show ?thesis by (rule keeps_trans [rotated]) auto
qed (use assms in \<open>simp add: confirm_mfa_def\<close>)

lemma verify_mfa_keeps:
  assumes "verify_mfa svc w now c passcode d = (r, d')"
  shows "keeps d d'"
proof (cases "verified_mfa_credential svc now (ac_user_id c) passcode d")
  case (Inr m)
  have "keeps (put_mfa m d) d'"
    using assms Inr by (auto simp: verify_mfa_def Let_def elim!: elevate_keeps [rotated] split: if_splits)
  then show ?thesis by (rule keeps_trans [rotated]) auto
qed (use assms in \<open>simp add: verify_mfa_def\<close>)

lemma mfa_code_route_keeps:
  assumes "\<And>c p d r d'. op c p d = (r, d') \<Longrightarrow> keeps d d'"
  shows "mfa_code_route op l host c passcode d = (r, d') \<Longrightarrow> keeps d d'"
  by (auto simp: mfa_code_route_def split: sum.splits prod.splits dest: assms)

lemma mfa_routes_keeps:
  "confirm_mfa_route l svc w now host c passcode d = (r, d') \<Longrightarrow> keeps d d'"
  "verify_mfa_route l svc w now host c passcode d = (r, d') \<Longrightarrow> keeps d d'"
  unfolding confirm_mfa_route_def verify_mfa_route_def
  by (erule mfa_code_route_keeps [rotated], erule confirm_mfa_keeps)
    (erule mfa_code_route_keeps [rotated], erule verify_mfa_keeps)

lemma oidc_keeps: "map_oidc_identity i p s u d = (r, d') \<Longrightarrow> keeps d d'"
  by (auto simp: map_oidc_identity_def Let_def split: if_splits option.splits)

lemma put_policy_keeps: "put_policy_route configured c wt body d = (r, d') \<Longrightarrow> keeps d d'"
  by (auto simp: put_policy_route_def policy_put_def Let_def split: sum.splits prod.splits if_splits)

lemma suppress_keeps: "suppress key i ws k v sc reason actor d = (r, d') \<Longrightarrow> keeps d d'"
  by (drule suppress_table) (auto intro: keeps_append)

lemma create_suppression_keeps: "create_suppression_route key i c wt body d = (r, d') \<Longrightarrow> keeps d d'"
  by (auto simp: create_suppression_route_def create_suppression_body_def split: sum.splits prod.splits
      dest!: suppress_keeps)

lemma erase_keeps:
  assumes "erase_and_suppress key i now rid ws a kind v sc rk d = (r, d')"
  shows "keeps d d'"
proof -
  have "keeps d d2" if "suppress key j w k u s reason actor (erase_contacts ws q fp d) = (x, d2)"
    for j w k u s reason actor q fp x d2
    using suppress_keeps [OF that] by (rule keeps_trans [rotated]) auto
  then show ?thesis
    using assms by (auto simp: erase_and_suppress_def Let_def split: sum.splits prod.splits option.splits)
qed

lemma record_access_keeps: "record_access key now rid ws a kind v d = (r, d') \<Longrightarrow> keeps d d'"
  by (auto simp: record_access_def Let_def split: sum.splits prod.splits option.splits)


text \<open>A contact whose identifier is not suppressed is not barred.\<close>

lemma not_barred:
  assumes "is_suppressed key ws k v d = Inr False" "fingerprint key k v = Inr fp"
    "co_workspace_id c = ws" "co_kind c = contact_kind_value k" "co_fingerprint c = fp"
  shows "\<not> barred d c"
  using assms by (simp add: is_suppressed_def barred_def)

lemma rectify_one_keeps:
  assumes "rectify_one key now clock rid ws p v item d = Inr d'"
    and item: "co_workspace_id item = ws" "co_kind item = contact_kind_value EMAIL"
  shows "keeps d d'"
  using assms(1)
proof (rule rectify_one_Inr)
  fix x
  assume x: "co_workspace_id x = co_workspace_id item" "co_kind x = co_kind item"
    "fingerprint key EMAIL v = Inr (co_fingerprint x)" "d' = put_contact x d"
    "normalize_email v = Inr (co_normalized_value x)"
    "is_suppressed key ws EMAIL (co_normalized_value x) d = Inr False"
  have "fingerprint key EMAIL (co_normalized_value x) = Inr (co_fingerprint x)"
    using x(3,5) fingerprint_normalized [of EMAIL v "co_normalized_value x" key] by simp
  then have "\<not> barred d x" using x item by (intro not_barred [OF x(6)]) simp_all
  then have "keeps d (d\<lparr>t_contacts := upd_rows (\<lambda>c. co_id c = co_id x) (\<lambda>_. x) (t_contacts d)\<rparr>)"
    by (intro keeps_contacts) (auto simp: set_upd_rows)
  then show ?thesis by (simp add: x(4) put_contact_def)
qed

lemma rectify_loop_keeps:
  assumes "rectify_loop k now clock rid ws p v cs d = (r, d')"
    and "\<forall>c \<in> set cs. co_workspace_id c = ws \<and> co_kind c = contact_kind_value EMAIL"
  shows "keeps d d'"
  using assms
proof (induction cs arbitrary: d)
  case Nil
  then show ?case by simp
next
  case (Cons c cs)
  show ?case
  proof (cases "rectify_one k now clock rid ws p v c d")
    case (Inl e)
    then show ?thesis using Cons.prems by simp
  next
    case (Inr d1)
    have "keeps d d1" using rectify_one_keeps [OF Inr] Cons.prems by simp
    moreover have "keeps d1 d'" using Cons Inr by simp
    ultimately show ?thesis by (rule keeps_trans)
  qed
qed

lemma rectify_keeps:
  assumes "rectify k i now clock rid ws a kind v rep d = (r, d')"
  shows "keeps d d'"
proof -
  have loop: "keeps d d1"
    if "rectify_loop k now clock rid ws p rep (filter (contact_matches ws EMAIL fp) (t_contacts d)) (add_request q d) = (x, d1)"
    for p fp q x d1
    by (rule keeps_trans [OF _ rectify_loop_keeps [OF that]]) (auto simp: contact_matches_def)
  have both: "keeps d d2" if "suppress key j w EMAIL u sc reason actor d1 = (y, d2)" "keeps d d1"
    for key j w u sc reason actor d1 y d2
    using that(2) suppress_keeps [OF that(1)] by (rule keeps_trans)
  show ?thesis
    using assms
    by (auto simp: rectify_def Let_def split: sum.splits prod.splits option.splits contact_kind.splits
        dest: loop both)
qed

lemma process_request_keeps: "process_request_route key i now clock c wt body d = (r, d') \<Longrightarrow> keeps d d'"
  by (auto simp: process_request_route_def process_request_body_def Let_def
      split: sum.splits prod.splits option.splits if_splits
      dest!: rectify_keeps record_access_keeps erase_keeps)

lemma put_secret_keeps: "put_secret_route enc key nonce i now c wt p v d = (r, d') \<Longrightarrow> keeps d d'"
  by (auto simp: put_secret_route_def credential_put_def Let_def split: sum.splits option.splits)

lemma persist_one_keeps:
  assumes "persist_one k cutoff clock ws lead policy i c (n, d) = Inr (n', d')"
  shows "keeps d d'"
proof -
  from persist_one_Inr [OF assms] consider (same) "d' = d"
    | (stored) fp where "is_suppressed k ws (cp_kind c) (cp_normalized_value c) d = Inr False"
      "fingerprint k (cp_kind c) (cp_normalized_value c) = Inr fp"
      "d' = d\<lparr>t_contacts := t_contacts d @ [contact_row k i ws lead c fp]\<rparr>"
    by (auto simp: storable_def)
  then show ?thesis
  proof cases
    case stored
    have "\<not> barred d (contact_row k i ws lead c fp)"
      by (rule not_barred [OF stored(1,2)]) (simp_all add: contact_row_def)
    then show ?thesis unfolding stored(3) by (intro keeps_contacts) auto
  qed simp
qed

lemma persist_loop_keeps:
  "persist_loop k cutoff clock ws lead policy cs (n, d) = Inr (n', d') \<Longrightarrow> keeps d d'"
proof (induction cs arbitrary: n d)
  case (Cons ic cs)
  obtain i c where ic: "ic = (i, c)" by (cases ic)
  obtain n1 d1 where "persist_one k cutoff clock ws lead policy i c (n, d) = Inr (n1, d1)"
    "persist_loop k cutoff clock ws lead policy cs (n1, d1) = Inr (n', d')"
    using Cons.prems by (auto simp: ic bind_res_Inr_iff)
  then show ?case using Cons.IH persist_one_keeps keeps_trans by blast
qed simp

lemma persist_keeps:
  "kept_on_error (persist_contacts k cutoff clock ws lead cs) d = (r, d') \<Longrightarrow> keeps d d'"
  by (auto simp: kept_on_error_def persist_contacts_def bind_res_Inr_iff
      split: sum.splits dest: persist_loop_keeps)

lemma purge_for_export_keeps: "keeps d (purge_for_export ws cutoff d)"
  by (auto simp: purge_for_export_def Let_def intro: keeps_rules keeps_append(5) [where e = "d\<lparr>t_contacts := x\<rparr>" for x, simplified])

lemma export_keeps: "export_for_actor k cutoff ws u mfa job d = (r, d') \<Longrightarrow> keeps d d'"
  by (auto simp: export_for_actor_def exportable_contacts_def Let_def purge_for_export_keeps
      split: sum.splits prod.splits option.splits)

lemma purge_attributes_keeps: "purge_expired_attributes ws cutoff d = (n, d') \<Longrightarrow> keeps d d'"
  using keeps_append(5) [of d "d\<lparr>t_attributes := x\<rparr>" for x]
  by (auto simp: purge_expired_attributes_def Let_def)

lemma batch_keeps: "run_retention_batch ws cutoff n d = (r, d') \<Longrightarrow> keeps d d'"
  using keeps_append(5) [of d "d\<lparr>t_contacts := del_rows P (t_contacts d)\<rparr>" for P] keeps_fewer_contacts [of d d]
  by (auto simp: run_retention_batch_def Let_def split: if_splits)


section \<open>The operations that move the books\<close>

lemma reserve_keeps: "reserve i ws j amount d = (r, d') \<Longrightarrow> keeps d d'"
  by (auto simp: reserve_def Let_def split: sum.splits option.splits prod.splits if_splits)

lemma release_keeps: "release now j reason d = (r, d') \<Longrightarrow> keeps d d'"
  by (auto simp: release_def Let_def split: sum.splits option.splits)

lemma override_keeps: "override_budget_route c wt b d = (r, d') \<Longrightarrow> keeps d d'"
  by (auto simp: override_budget_route_def override_limit_def Let_def split: sum.splits prod.splits if_splits)

lemma add_owner_keeps [intro!]: "keeps d e \<Longrightarrow> keeps d (add_owner ids u limit e)"
  by (simp add: add_owner_def)

lemma bootstrap_platform_keeps: "bootstrap_platform pw ids e p n s m limit d = (r, d') \<Longrightarrow> keeps d d'"
  by (auto simp: bootstrap_platform_def Let_def split: sum.splits if_splits)

lemma create_workspace_keeps: "create_workspace ids actor mfa s m limit d = (r, d') \<Longrightarrow> keeps d d'"
  by (auto simp: create_workspace_def Let_def split: sum.splits if_splits option.splits)

lemma create_keeps_history:
  assumes "create (reserve ri) i ws u kind ps cost key s = (r, s')"
  shows "keeps (work s) (work s')"
proof -
  have r: "keeps d d2" if "reserve ri ws i amount (d\<lparr>t_jobs := js\<rparr>) = (x, d2)" for d amount js x d2
    using reserve_keeps [OF that] by (rule keeps_trans [rotated]) simp
  show ?thesis
    using assms
    by (auto simp: create_def Let_def publish_after_commit_def split: sum.splits option.splits prod.splits if_splits
        dest: r)
qed

lemma create_job_route_keeps:
  "create_job_route l i ri c wt body key s = (r, s') \<Longrightarrow> keeps (work s) (work s')"
  by (auto simp: create_job_route_def create_job_body_def split: sum.splits prod.splits dest!: create_keeps_history)

lemma fail_job_keeps:
  assumes "fail_job (release now) ws job reason d = (r, d')"
  shows "keeps d d'"
proof -
  have rel: "keeps e d3" if "release now j reason (put_job a (put_job b e)) = (x, d3)" for j a b e x d3
    using release_keeps [OF that] by (rule keeps_trans [rotated]) auto
  show ?thesis
    using assms by (auto simp: fail_job_def Let_def split: sum.splits prod.splits dest: rel)
qed

lemma process_queued_keeps: "process_queued (release now) i d = (r, d') \<Longrightarrow> keeps d d'"
  by (auto simp: process_queued_def split: option.splits if_splits sum.splits error.splits dest: fail_job_keeps)

section \<open>Sessions and transitions\<close>

lemma run_on_db_keeps:
  assumes "run_session (on_db f) st = (r, st')" "\<And>r d'. f (st_db st) = (r, d') \<Longrightarrow> keeps (st_db st) d'"
  shows "keeps (st_db st) (st_db st')"
  using assms by (auto simp: run_on_db split: prod.splits sum.splits if_splits)

lemma run_request_keeps:
  assumes "run_session (on_db (authenticated svc now bearer h)) st = (r, st')"
    and "\<And>c d r d'. h c d = (r, d') \<Longrightarrow> keeps d d'"
  shows "keeps (st_db st) (st_db st')"
  by (rule run_on_db_keeps [OF assms(1)]) (rule authenticated_keeps [OF assms(2)])

lemma refresh_auth_grows:
  assumes "keeps d (work s)" "keeps d (stable s)" "refresh_auth svc w now i t c s = (r, s')"
  shows "keeps d (work s') \<and> keeps d (stable s')"
  using assms
  by (auto simp: refresh_auth_def Let_def rotate_session_def commit_session_def
      split: option.splits if_splits sum.splits bool.splits prod.splits)

lemma run_refresh_keeps:
  assumes "run_session (refresh_route l svc w now host cs x) st = (r, st')"
  shows "keeps (st_db st) (st_db st')"
proof -
  let ?d = "st_db st"
  obtain q s where b: "refresh_route l svc w now host cs x (begin_session ?d) = (q, s)"
    by (cases "refresh_route l svc w now host cs x (begin_session ?d)")
  have r: "keeps ?d (work s1) \<and> keeps ?d (stable s1)"
    if "refresh_auth svc w now i t c (begin_session ?d) = (y, s1)" for i t c y s1
    by (rule refresh_auth_grows [OF _ _ that]) (simp_all add: begin_session_def)
  have a: "keeps ?d d2" if "authenticate_access_token svc now token (work s1) = (y, d2)" "keeps ?d (work s1)"
    for token s1 y d2
    using that(2) authenticate_keeps [OF that(1)] by (rule keeps_trans)
  have "keeps ?d (work s) \<and> keeps ?d (stable s)"
    using b r by (auto simp: refresh_route_def begin_session_def split: sum.splits prod.splits dest: a)
  then show ?thesis
    using assms b
    by (auto simp: run_session_def commit_session_def rollback_session_def end_session_def
        split: sum.splits prod.splits if_splits)
qed

lemma run_job_requested_keeps:
  assumes "run_session (authenticated_session svc now bearer (\<lambda>c. create_job_route l i ri c wt body key)) st = (r, st')"
  shows "keeps (st_db st) (st_db st')"
proof (cases r)
  case (Inl e)
  with assms authenticated_jobs.run_error_unchanged show ?thesis by (metis keeps_refl)
next
  case (Inr x)
  then obtain s' where body: "authenticated_session svc now bearer (\<lambda>c. create_job_route l i ri c wt body key)
      (begin_session (st_db st)) = (Inr x, s')" and st': "st_db st' = work s'"
    using assms by (auto simp: authenticated_jobs.run_success)
  obtain c d1 where "current_auth svc now bearer (st_db st) = (Inr c, d1)"
    "create_job_route l i ri c wt body key (begin_session (st_db st)\<lparr>work := d1\<rparr>) = (Inr x, s')"
    using body by (auto simp: authenticated_session_def begin_session_def split: prod.splits sum.splits)
  then have "keeps (st_db st) d1" "keeps d1 (work s')"
    by (auto dest: current_auth_keeps create_job_route_keeps)
  then show ?thesis unfolding st' by (rule keeps_trans)
qed

lemma run_enforced_keeps:
  assumes "enforce_workspace_retention now url m st = (r, st')"
  shows "keeps (st_db st) (st_db st')"
proof -
  have "keeps (st_db st) (st_db st1)" if "run_session (on_db (run_retention_batch ws now 500)) st = (q, st1)" for ws q st1
    by (rule run_on_db_keeps [OF that]) (rule batch_keeps)
  then show ?thesis using assms
    by (auto simp: enforce_workspace_retention_def split: sum.splits prod.splits if_splits)
qed

lemma run_process_job_keeps:
  assumes "process_job now url m st = (r, st')"
  shows "keeps (st_db st) (st_db st')"
proof -
  have "keeps (st_db st) (st_db st1)" if "run_session (on_db (process_queued (release now) i)) st = (q, st1)" for i q st1
    by (rule run_on_db_keeps [OF that]) (rule process_queued_keeps)
  then show ?thesis using assms by (auto simp: process_job_def split: sum.splits option.splits if_splits)
qed

lemma run_bootstrap_keeps:
  assumes "bootstrap_main passwords ids env st = (r, st')"
  shows "keeps (st_db st) (st_db st')"
proof -
  have "keeps (st_db st) (st_db st1)"
    if "run_session (on_db (bootstrap_platform passwords ids e p n s m limit)) st = (q, st1)" for e p n s m limit q st1
    by (rule run_on_db_keeps [OF that]) (rule bootstrap_platform_keeps)
  then show ?thesis using assms by (auto simp: bootstrap_main_def Let_def split: if_splits)
qed


text \<open>Every transition keeps the history and stores no suppressed contact.\<close>

lemma step_keeps: "system_step key st st' \<Longrightarrow> keeps (st_db st) (st_db st')"
proof (induction rule: system_step.induct)
  case bootstrap
  then show ?case by (rule run_bootstrap_keeps)
next
  case workspace_created
  then show ?case by (rule run_on_db_keeps) (erule create_workspace_keeps)
next
  case login
  then show ?case by (rule run_on_db_keeps) (erule login_route_keeps)
next
  case refresh
  then show ?case by (rule run_refresh_keeps)
next
  case logout
  then show ?case by (rule run_request_keeps) (erule logout_keeps)
next
  case sessions_revoked
  then show ?case by (rule run_on_db_keeps) (auto intro: revoke_all_keeps)
next
  case mfa_begun
  then show ?case by (rule run_request_keeps) (erule begin_mfa_keeps)
next
  case mfa_confirmed
  then show ?case by (rule run_request_keeps) (erule mfa_routes_keeps(1))
next
  case mfa_verified
  then show ?case by (rule run_request_keeps) (erule mfa_routes_keeps(2))
next
  case identity_mapped
  then show ?case by (rule run_on_db_keeps) (erule oidc_keeps)
next
  case job_requested
  then show ?case by (rule run_job_requested_keeps)
next
  case budget_overridden
  then show ?case by (rule run_request_keeps) (erule override_keeps)
next
  case policy_put
  then show ?case by (rule run_request_keeps) (erule put_policy_keeps)
next
  case suppressed
  from suppressed(2) show ?case by (rule run_request_keeps) (erule create_suppression_keeps)
next
  case subject_request
  from subject_request(2) show ?case by (rule run_request_keeps) (erule process_request_keeps)
next
  case secret_put
  then show ?case by (rule run_request_keeps) (erule put_secret_keeps)
next
  case contacts_persisted
  then show ?case by (rule run_on_db_keeps) (erule persist_keeps)
next
  case contacts_exported
  then show ?case by (rule run_on_db_keeps) (erule export_keeps)
next
  case attributes_purged
  then show ?case by (rule run_on_db_keeps) (auto split: prod.splits dest: purge_attributes_keeps)
next
  case scheduled
  show ?case by (simp add: scheduler_round_def enqueue_active_workspaces_def Let_def)
next
  case retention_delivered
  from run_enforced_keeps [OF retention_delivered(2)] show ?case by simp
next
  case retention_raised
  from retention_raised(2) show ?case by (rule run_enforced_keeps)
next
  case job_delivered
  from run_process_job_keeps [OF job_delivered(2)] show ?case by simp
next
  case job_raised
  from job_raised(2) show ?case by (rule run_process_job_keeps)
next
  case job_redelivered
  show ?case by simp
qed

lemma reachable_keeps: "(system_step key)\<^sup>*\<^sup>* st st' \<Longrightarrow> keeps (st_db st) (st_db st')"
  by (induction rule: rtranclp_induct) (auto dest: step_keeps intro: keeps_trans)

section \<open>Consequences\<close>

lemma keeps_listed:
  assumes "keeps d d'" "is_suppressed key ws k v d = Inr True"
  shows "is_suppressed key ws k v d' = Inr True"
proof -
  have "set (t_suppressions d) \<subseteq> set (t_suppressions d')"
    using assms(1) by (simp add: keeps_def history_grows_def set_mono_prefix)
  then show ?thesis using assms(2) by (auto simp: is_suppressed_def bind_res_Inr_iff list_ex_iff)
qed

text \<open>Once a suppressed subject has no contact left in a workspace, none comes back.\<close>

lemma keeps_erased:
  assumes k: "keeps d d'" and listed: "is_suppressed key ws kind v d = Inr True"
    and fp: "fingerprint key kind v = Inr fp"
    and none: "\<forall>c \<in> set (t_contacts d). \<not> contact_matches ws kind fp c"
  shows "\<forall>c \<in> set (t_contacts d'). \<not> contact_matches ws kind fp c"
proof (intro ballI notI)
  fix c
  assume c: "c \<in> set (t_contacts d')" "contact_matches ws kind fp c"
  then have "c \<notin> set (t_contacts d)" using none by auto
  then have "\<not> barred d c" using k c(1) by (auto simp: keeps_def list_all_iff)
  moreover have "barred d c"
    using listed fp c(2) by (simp add: is_suppressed_def barred_def contact_matches_def)
  ultimately show False ..
qed

end
