(* ===== verification/Progress.thy ===== *)
theory Progress
  imports System
begin

text \<open>
  Who can move a spending limit, and what the worker achieves: the only transition that changes
  the limit of an existing budget is an override by a verified administrator of its workspace,
  and delivering the queue once leaves no queued job and nothing reserved.
\<close>

section \<open>Limits\<close>

definition limits_of :: "db \<Rightarrow> (uuid \<times> uuid \<times> int) list" where
  "limits_of d = map (\<lambda>b. (bu_id b, bu_workspace_id b, bu_hard_limit b)) (t_budgets d)"

lemma limits_of_books: "books_of d' = books_of d \<Longrightarrow> limits_of d' = limits_of d"
  by (simp add: books_of_def limits_of_def)

lemma limits_of_put_budget:
  assumes "distinct_on bu_id (t_budgets d)" "b \<in> set (t_budgets d)" "bu_id b' = bu_id b" "bu_workspace_id b' = bu_workspace_id b"
    "bu_hard_limit b' = bu_hard_limit b"
  shows "limits_of (put_budget b' d) = limits_of d"
proof -
  show ?thesis unfolding limits_of_def put_budget_def
    using map_put_row [of bu_id "t_budgets d" b b' "\<lambda>b. (bu_id b, bu_workspace_id b, bu_hard_limit b)"] assms
    by simp
qed

lemma limits_of_frame [simp]:
  "limits_of (append_audit_event a w u tt ti ds c d) = limits_of d" "limits_of (add_ledger es d) = limits_of d"
  "limits_of (put_reservation r d) = limits_of d" "limits_of (put_job j d) = limits_of d"
  "limits_of (d\<lparr>t_jobs := js\<rparr>) = limits_of d" "limits_of (d\<lparr>t_reservations := rs\<rparr>) = limits_of d"
  by (simp_all add: limits_of_def put_job_def)

lemma reserve_limits:
  assumes "distinct_on bu_id (t_budgets d)" "reserve i ws j amount (d\<lparr>t_jobs := js\<rparr>) = (Inr r, d')"
  shows "limits_of d' = limits_of d"
  using assms(2)
proof (rule reserve_Inr)
  fix cost b
  assume b: "b \<in> set (t_budgets (d\<lparr>t_jobs := js\<rparr>))"
    and d': "d' = add_ledger [ledger_row ws (Some j) ''reservation'' cost]
       ((put_budget (b\<lparr>bu_reserved := bu_reserved b + cost\<rparr>) (d\<lparr>t_jobs := js\<rparr>))
         \<lparr>t_reservations := t_reservations (d\<lparr>t_jobs := js\<rparr>) @ [r]\<rparr>)"
  have "put_budget (b\<lparr>bu_reserved := bu_reserved b + cost\<rparr>) (d\<lparr>t_jobs := js\<rparr>)
      = (put_budget (b\<lparr>bu_reserved := bu_reserved b + cost\<rparr>) d)\<lparr>t_jobs := js\<rparr>" by (simp add: put_budget_def)
  then show ?thesis using b by (simp add: d' limits_of_put_budget [OF assms(1)])
qed

lemma release_limits:
  assumes "distinct_on bu_id (t_budgets d)" "release now j reason d = (Inr s, d')"
  shows "limits_of d' = limits_of d"
  using assms(2) by (rule release_Inr) (simp add: limits_of_put_budget [OF assms(1)])

lemma create_job_limits:
  assumes "integrity_ok (work s)" "create_job_route l i ri c wt body key s = (Inr x, s')"
  shows "limits_of (work s') = limits_of (work s)"
  using assms(2)
proof (rule create_job_route_Inr)
  fix ws y
  assume "create (reserve ri) i ws (ac_user_id c) (jr_kind body) (VDict (jr_parameters body))
      (CDec (jr_estimated_cost body)) key s = (Inr y, s')"
  then show ?thesis
  proof (cases rule: create_Inr)
    case (new cost r d2)
    then show ?thesis using reserve_limits [OF integrity_okD(6) [OF assms(1)] new(7)] by simp
  qed simp
qed


lemma fail_job_limits:
  assumes "distinct_on bu_id (t_budgets d)" "fail_job (release now) ws job reason d = (Inr (), d')"
  shows "limits_of d' = limits_of d"
proof -
  have rel: "limits_of d3 = limits_of d" if "release now j reason (put_job a (put_job b d)) = (Inr x, d3)" for j a b x d3
    using release_limits [OF _ that] assms(1) by simp
  show ?thesis
    using assms(2) by (auto simp: fail_job_def Let_def split: sum.splits prod.splits dest: rel)
qed

lemma process_queued_limits:
  assumes "distinct_on bu_id (t_budgets d)" "process_queued (release now) i d = (Inr (), d')"
  shows "limits_of d' = limits_of d"
  using assms(2)
  by (auto simp: process_queued_def split: option.splits if_splits sum.splits error.splits
      dest: fail_job_limits [OF assms(1)])

lemma run_on_db_limits:
  assumes "run_session (on_db f) st = (r, st')" "\<And>x d'. f (st_db st) = (Inr x, d') \<Longrightarrow> prefix (limits_of (st_db st)) (limits_of d')"
  shows "prefix (limits_of (st_db st)) (limits_of (st_db st'))"
  using assms by (auto simp: run_on_db split: prod.splits sum.splits if_splits)

lemma run_on_db_books:
  assumes "run_session (on_db f) st = (r, st')" "\<And>r d'. f (st_db st) = (r, d') \<Longrightarrow> books_of d' = books_of (st_db st)"
  shows "limits_of (st_db st') = limits_of (st_db st)"
  using assms(1) by (auto simp: run_on_db split: prod.splits sum.splits if_splits dest!: assms(2) intro: limits_of_books)

lemma run_request_books:
  assumes "run_session (on_db (authenticated svc now bearer h)) st = (r, st')"
    and "\<And>c d r d'. h c d = (r, d') \<Longrightarrow> books_of d' = books_of d"
  shows "limits_of (st_db st') = limits_of (st_db st)"
  by (rule run_on_db_books [OF assms(1)]) (rule authenticated_books [OF assms(2)])

text \<open>A session of an active, verified administrator of the workspace.\<close>

definition verified_admin_session :: "db \<Rightarrow> uuid \<Rightarrow> session_row \<Rightarrow> bool" where
  "verified_admin_session d ws s \<longleftrightarrow>
     se_mfa_verified s \<and> se_revoked_at s = None \<and>
     (\<exists>u m. user_by_id (se_user_id s) d = Some u \<and> us_is_active u
        \<and> membership_of (se_user_id s) ws d = Some m \<and> me_role m = ''admin'')"

lemma override_by_admin:
  assumes run: "run_session (on_db (authenticated svc now bearer (\<lambda>c. override_budget_route c wt body))) st = (r, st')"
    and keys: "distinct_on bu_id (t_budgets (st_db st))"
    and b: "b \<in> set (t_budgets (st_db st))" "b' \<in> set (t_budgets (st_db st'))" "bu_id b' = bu_id b"
      "bu_hard_limit b' \<noteq> bu_hard_limit b"
  shows "\<exists>s \<in> set (t_sessions (st_db st)). verified_admin_session (st_db st) (bu_workspace_id b) s"
proof -
  have changed: "st' \<noteq> st" using b keys by (auto dest: distinct_on_eq)
  then obtain x d where d: "authenticated svc now bearer (\<lambda>c. override_budget_route c wt body) (st_db st) = (Inr x, d)"
    and st': "st_db st' = d"
    using run by (auto simp: run_on_db split: prod.splits sum.splits if_splits)
  obtain c d1 where auth: "current_auth svc now bearer (st_db st) = (Inr c, d1)"
    and route: "override_budget_route c wt body d1 = (Inr x, d)"
    using d(1) by (auto simp: authenticated_def split: prod.splits sum.splits)
  obtain token where token: "authenticate_access_token svc now token (st_db st) = (Inr c, d1)"
    using auth by (auto simp: current_auth_def split: option.splits prod.splits sum.splits if_splits)
  obtain claims row user where row: "session_by_id (ac_session_id c) (st_db st) = Some row"
    "user_by_id (ac_user_id c) (st_db st) = Some user" "claims_accepted claims now (ac_user_id c) user row"
    "ac_mfa_verified c = se_mfa_verified row" "d1 = put_session (row\<lparr>se_last_seen_at := now\<rparr>) (st_db st)"
    by (rule authenticate_Inr [OF token])
  have d1: "t_budgets d1 = t_budgets (st_db st)" "t_memberships d1 = t_memberships (st_db st)"
    by (simp_all add: row(5) put_session_def)
  obtain ws role where ws: "require_permission (ac_user_id c) ws MANAGE_BUDGET (ac_mfa_verified c) d1 = Inr role"
    "override_limit ws (ac_user_id c) (CDec (br_hard_limit body)) (br_reason body) d1 = (Inr x, d)"
    using route by (rule override_budget_route_Inr)
  have member: "\<exists>m. membership_of (ac_user_id c) ws d1 = Some m \<and> me_role m = ''admin''" "ac_mfa_verified c"
    using ws(1) manage_needs_admin [of MANAGE_BUDGET role] by (auto simp: require_permission_Inr_iff is_manage_iff)
  have "bu_workspace_id b = ws"
    using ws(2)
  proof (rule override_limit_Inr)
    fix v e e'
    assume e: "e \<in> set (t_budgets d1)" "bu_workspace_id e = ws" "e' = e\<lparr>bu_hard_limit := v\<rparr>"
      and "d = append_audit_event ''budget.override'' (Some ws) (Some (ac_user_id c))
       (Some ''usage_budget'') (Some (uuid_text (bu_id e)))
       [(''old_limit'', AVText (decimal_text (bu_hard_limit e))), (''new_limit'', AVText (decimal_text v)),
        (''reason'', AVText (br_reason body))] None
       (add_ledger [(ledger_row ws None ''override'' (v - bu_hard_limit e))\<lparr>le_reason := Some (take 500 (br_reason body))\<rparr>]
         (put_budget e' d1))"
    then have "b' \<in> set (upd_rows (\<lambda>r. bu_id r = bu_id e) (\<lambda>_. e') (t_budgets (st_db st)))"
      using b(2) by (simp add: st' put_budget_def d1)
    then have "b' = e' \<or> b' \<in> set (t_budgets (st_db st))" by (auto simp: set_upd_rows)
    then have "bu_id e = bu_id b" using b keys e(3) by (auto dest: distinct_on_eq)
    then have "b = e" using b(1) keys e(1) by (auto simp: d1 dest: distinct_on_eq)
    then show ?thesis using e(2) by simp
  qed
  moreover have "membership_of (ac_user_id c) ws d1 = membership_of (ac_user_id c) ws (st_db st)"
    by (simp add: membership_of_def d1)
  ultimately have "verified_admin_session (st_db st) (bu_workspace_id b) row"
    using row member by (auto simp: verified_admin_session_def claims_accepted_def)
  then show ?thesis using session_by_id_Some [OF row(1)] by blast
qed


text \<open>Every other transition leaves the limits of the budgets there were.\<close>

lemma enforced_limits:
  assumes "enforce_workspace_retention now url m st = (r, st')"
  shows "limits_of (st_db st') = limits_of (st_db st)"
proof -
  have "limits_of (st_db st1) = limits_of (st_db st)"
    if "run_session (on_db (run_retention_batch ws now 500)) st = (q, st1)" for ws q st1
    by (rule run_on_db_books [OF that]) (rule batch_books)
  then show ?thesis using assms
    by (auto simp: enforce_workspace_retention_def split: sum.splits prod.splits if_splits)
qed

lemma process_job_limits:
  assumes "distinct_on bu_id (t_budgets (st_db st))" "process_job now url m st = (r, st')"
  shows "prefix (limits_of (st_db st)) (limits_of (st_db st'))"
proof -
  have "prefix (limits_of (st_db st)) (limits_of (st_db st1))"
    if "run_session (on_db (process_queued (release now) i)) st = (q, st1)" for i q st1
    by (rule run_on_db_limits [OF that]) (auto dest: process_queued_limits [OF assms(1)])
  then show ?thesis using assms(2) by (auto simp: process_job_def split: sum.splits option.splits if_splits)
qed

lemma bootstrap_limits:
  assumes "bootstrap_main passwords ids env st = (r, st')"
  shows "prefix (limits_of (st_db st)) (limits_of (st_db st'))"
proof -
  have "prefix (limits_of (st_db st)) (limits_of (st_db st1))"
    if "run_session (on_db (bootstrap_platform passwords ids e p n s m limit)) st = (q, st1)" for e p n s m limit q st1
    by (rule run_on_db_limits [OF that])
      (auto simp: bootstrap_platform_def Let_def limits_of_def add_owner_def split: if_splits sum.splits)
  then show ?thesis using assms by (auto simp: bootstrap_main_def Let_def split: if_splits)
qed

lemma job_requested_limits:
  assumes ok: "integrity_ok (st_db st)"
    and run: "run_session (authenticated_session svc now bearer (\<lambda>c. create_job_route l i ri c wt body key)) st = (r, st')"
  shows "limits_of (st_db st') = limits_of (st_db st)"
proof (cases r)
  case (Inl e)
  with run authenticated_jobs.run_error_unchanged show ?thesis by metis
next
  case (Inr x)
  then obtain s' where body: "authenticated_session svc now bearer (\<lambda>c. create_job_route l i ri c wt body key)
      (begin_session (st_db st)) = (Inr x, s')" and st': "st_db st' = work s'"
    using run by (auto simp: authenticated_jobs.run_success)
  obtain c d1 where auth: "current_auth svc now bearer (st_db st) = (Inr c, d1)"
    and route: "create_job_route l i ri c wt body key (begin_session (st_db st)\<lparr>work := d1\<rparr>) = (Inr x, s')"
    using body by (auto simp: authenticated_session_def begin_session_def split: prod.splits sum.splits)
  have "integrity_ok d1" by (rule current_auth_integrity [OF ok auth])
  then have "limits_of (work s') = limits_of d1" using create_job_limits [OF _ route] by simp
  then show ?thesis using limits_of_books [OF current_auth_books [OF auth]] by (simp add: st')
qed

lemma step_limits:
  assumes "system_step key st st'" "system_inv st"
  shows "prefix (limits_of (st_db st)) (limits_of (st_db st')) \<or>
    (\<exists>svc now bearer wt body r.
       run_session (on_db (authenticated svc now bearer (\<lambda>c. override_budget_route c wt body))) st = (r, st'))"
  using assms
proof (induction rule: system_step.induct)
  case bootstrap
  then show ?case by (blast intro: bootstrap_limits)
next
  case workspace_created
  show ?case
    by (rule disjI1, rule run_on_db_limits [OF workspace_created(1)])
      (auto simp: create_workspace_def Let_def limits_of_def add_owner_def split: if_splits sum.splits option.splits)
next
  case login
  show ?case by (rule disjI1) (simp add: run_on_db_books [OF login(1) login_route_books])
next
  case refresh
  show ?case
    by (rule disjI1, rule run_refresh [OF _ refresh(1)])
      (use refresh(2) in \<open>auto simp: system_inv_def dest: limits_of_books\<close>)
next
  case logout
  show ?case by (rule disjI1) (simp add: run_request_books [OF logout(1) logout_books])
next
  case sessions_revoked
  have "limits_of (st_db st') = limits_of (st_db st)" if "run_session (on_db (\<lambda>d. (Inr (), revoke_all now u d))) st = (r, st')"
    for now u st r st' by (rule run_on_db_books [OF that]) auto
  then show ?case using sessions_revoked(1) by simp
next
  case mfa_begun
  show ?case by (rule disjI1) (simp add: run_request_books [OF mfa_begun(1) begin_mfa_books])
next
  case mfa_confirmed
  show ?case by (rule disjI1) (simp add: run_request_books [OF mfa_confirmed(1) mfa_routes_books(1)])
next
  case mfa_verified
  show ?case by (rule disjI1) (simp add: run_request_books [OF mfa_verified(1) mfa_routes_books(2)])
next
  case identity_mapped
  show ?case by (rule disjI1) (simp add: run_on_db_books [OF identity_mapped(1) oidc_books])
next
  case job_requested
  then show ?case by (auto simp: system_inv_def dest!: job_requested_limits)
next
  case budget_overridden
  then show ?case by blast
next
  case policy_put
  show ?case by (rule disjI1) (simp add: run_request_books [OF policy_put(1) put_policy_books])
next
  case suppressed
  show ?case by (rule disjI1) (simp add: run_request_books [OF suppressed(2) create_suppression_books])
next
  case subject_request
  show ?case by (rule disjI1) (simp add: run_request_books [OF subject_request(2) process_request_books])
next
  case secret_put
  show ?case by (rule disjI1) (simp add: run_request_books [OF secret_put(1) put_secret_books])
next
  case contacts_persisted
  show ?case by (rule disjI1) (simp add: run_on_db_books [OF contacts_persisted(1) persist_books])
next
  case contacts_exported
  show ?case by (rule disjI1) (simp add: run_on_db_books [OF contacts_exported(1) export_books])
next
  case attributes_purged
  have "limits_of (st_db st') = limits_of (st_db st)"
    if "run_session (on_db (\<lambda>d. case purge_expired_attributes ws cutoff d of (n, d') \<Rightarrow> (Inr n, d'))) st = (r, st')"
    for ws cutoff st r st'
    by (rule run_on_db_books [OF that]) (auto split: prod.splits dest: purge_attributes_books)
  then show ?case using attributes_purged(1) by simp
next
  case scheduled
  show ?case by (simp add: scheduler_round_def enqueue_active_workspaces_def Let_def)
next
  case retention_delivered
  show ?case by (rule disjI1) (simp add: enforced_limits [OF retention_delivered(2)])
next
  case retention_raised
  show ?case by (rule disjI1) (simp add: enforced_limits [OF retention_raised(2)])
next
  case job_delivered
  show ?case
    by (rule disjI1, use job_delivered(3) process_job_limits [OF _ job_delivered(2)] in
        \<open>simp add: system_inv_def integrity_okD(6)\<close>)
next
  case job_raised
  show ?case
    by (rule disjI1, use job_raised(3) process_job_limits [OF _ job_raised(2)] in
        \<open>simp add: system_inv_def integrity_okD(6)\<close>)
next
  case job_redelivered
  show ?case by simp
qed


text \<open>A limit moves only by the hand of a verified administrator of the workspace.\<close>

lemma limit_needs_admin:
  assumes step: "system_step key st st'" and inv: "system_inv st"
    and b: "b \<in> set (t_budgets (st_db st))" "b' \<in> set (t_budgets (st_db st'))" "bu_id b' = bu_id b"
      "bu_hard_limit b' \<noteq> bu_hard_limit b"
  shows "\<exists>s \<in> set (t_sessions (st_db st)). verified_admin_session (st_db st) (bu_workspace_id b) s"
  using step_limits [OF step inv]
proof (elim disjE exE)
  assume p: "prefix (limits_of (st_db st)) (limits_of (st_db st'))"
  let ?f = "\<lambda>b. (bu_id b, bu_workspace_id b, bu_hard_limit b)"
  have "?f b \<in> set (limits_of (st_db st'))"
    using set_mono_prefix [OF p] b(1) by (auto simp: limits_of_def)
  then obtain b1 where b1: "b1 \<in> set (t_budgets (st_db st'))" "bu_id b1 = bu_id b" "bu_hard_limit b1 = bu_hard_limit b"
    by (auto simp: limits_of_def)
  have "distinct_on bu_id (t_budgets (st_db st'))"
    using system_inv_step [OF step inv] integrity_okD(6) by (simp add: system_inv_def)
  then have "b1 = b'" using b1 b(2,3) by (auto dest: distinct_on_eq)
  then show ?thesis using b1 b(4) by simp
next
  fix svc now bearer wt body r
  assume run: "run_session (on_db (authenticated svc now bearer (\<lambda>c. override_budget_route c wt body))) st = (r, st')"
  have "distinct_on bu_id (t_budgets (st_db st))" using inv integrity_okD(6) by (simp add: system_inv_def)
  then show ?thesis using override_by_admin [OF run] b by blast
qed

section \<open>Delivering the queue\<close>

fun run_job_queue :: "nat \<Rightarrow> int \<Rightarrow> string \<Rightarrow> store \<Rightarrow> store" where
  "run_job_queue 0 now url st = st"
| "run_job_queue (Suc k) now url st =
    (case st_job_queue st of
       [] \<Rightarrow> st
     | m # q \<Rightarrow>
        (case process_job now (Some url) m st of
           (Inr _, st') \<Rightarrow> run_job_queue k now url (st'\<lparr>st_job_queue := remove1 m (st_job_queue st')\<rparr>)
         | (Inl _, st') \<Rightarrow> run_job_queue k now url st'))"

lemma run_job_queue_inv:
  assumes "system_inv st" "url \<noteq> ''''"
  shows "system_inv (run_job_queue k now url st)
    \<and> (system_step key)\<^sup>*\<^sup>* st (run_job_queue k now url st)
    \<and> length (st_job_queue (run_job_queue k now url st)) = length (st_job_queue st) - k"
  using assms
proof (induction k arbitrary: st)
  case (Suc k)
  show ?case
  proof (cases "st_job_queue st")
    case (Cons m q)
    then have m: "m \<in> set (st_job_queue st)" by simp
    obtain d where p: "process_job now (Some url) m st = (Inr (), st\<lparr>st_db := d\<rparr>)"
      by (rule process_job_total [OF Suc.prems(1) m Suc.prems(2)])
    let ?st = "st\<lparr>st_db := d\<rparr>\<lparr>st_job_queue := remove1 m (st_job_queue (st\<lparr>st_db := d\<rparr>))\<rparr>"
    have "system_step key st ?st" using m p by (rule system_step.job_delivered)
    moreover have "system_inv ?st" by (rule system_inv_delivered [OF Suc.prems(1) m p])
    ultimately show ?thesis
      using Suc.IH [of ?st] Suc.prems(2) Cons p by (auto intro: converse_rtranclp_into_rtranclp)
  qed (use Suc.prems in simp)
qed simp

text \<open>With an empty queue no job is queued, so no reservation is active and nothing is reserved.\<close>

lemma empty_queue_settled:
  assumes inv: "system_inv st" and empty: "st_job_queue st = []"
  shows "j \<in> set (t_jobs (st_db st)) \<Longrightarrow> jo_state j = ''failed''"
    and "b \<in> set (t_budgets (st_db st)) \<Longrightarrow> bu_reserved b = 0"
proof -
  have failed: "jo_state j = ''failed'' \<and> \<not> has_active_reservation (st_db st) (jo_id j)"
    if "j \<in> set (t_jobs (st_db st))" for j
    using inv empty that by (auto simp: system_inv_def queue_ok_def jobs_backed_def list_all_iff job_backed_def)
  then show "j \<in> set (t_jobs (st_db st)) \<Longrightarrow> jo_state j = ''failed''" by blast
  have ok: "integrity_ok (st_db st)" using inv by (simp add: system_inv_def)
  have "re_state r \<noteq> ''active''" if r: "r \<in> set (t_reservations (st_db st))" for r
  proof
    assume "re_state r = ''active''"
    then have "has_active_reservation (st_db st) (re_job_id r)" using r by (auto simp: has_active_reservation_def list_ex_iff)
    moreover obtain j where "j \<in> set (t_jobs (st_db st))" "jo_id j = re_job_id r"
      using integrity_ok_refsD(1) [OF ok r] by blast
    ultimately show False using failed by metis
  qed
  then have "active_sum i (st_db st) = 0" for i
    by (auto simp: active_sum_def intro!: sum_rows_none)
  then show "b \<in> set (t_budgets (st_db st)) \<Longrightarrow> bu_reserved b = 0"
    using inv budget_invD [of "st_db st" b] by (simp add: system_inv_def budget_balanced_def)
qed

end
