(* ===== verification/Scenario.thy ===== *)
theory Scenario
  imports Safety Progress
begin

text \<open>
  Concrete instances of what the code takes from outside (password hasher, token library,
  authenticated encryption) and one concrete installation: the state the bootstrap command
  leaves. The theorems of the root theory are applied to them, so their hypotheses can hold.
\<close>

section \<open>The libraries\<close>

definition demo_passwords :: password_service where
  "demo_passwords = \<lparr>ps_hash = (\<lambda>p. ''argon:'' @ p), ps_verify = (\<lambda>p e. Some (e = ''argon:'' @ p)),
     ps_dummy_hash = ''argon''\<rparr>"

text \<open>Fields of a token are escaped character by character and ended by a dot.\<close>

fun put_field :: "string \<Rightarrow> string" where
  "put_field [] = ''.''"
| "put_field (c # cs) = CHR ''x'' # c # put_field cs"

fun get_field :: "string \<Rightarrow> string \<times> string" where
  "get_field (x # c # cs) = (if x = CHR ''x'' then (case get_field cs of (f, rest) \<Rightarrow> (c # f, rest)) else ([], c # cs))"
| "get_field [x] = ([], [])"
| "get_field [] = ([], [])"

lemma get_put_field [simp]: "get_field (put_field s @ rest) = (s, rest)"
proof (induction s)
  case Nil
  show ?case by (cases rest) simp_all
qed simp

definition put_int :: "int \<Rightarrow> string" where
  "put_int i = (if i < 0 then ''-'' @ nat_digits (nat (- i)) else nat_digits (nat i))"

definition get_int :: "string \<Rightarrow> int" where
  "get_int s = (if starts_with ''-'' s then - int (decimal_value (drop 1 s)) else int (decimal_value s))"

lemma get_put_int [simp]: "get_int (put_int i) = i"
proof (cases "i < 0")
  case True
  then show ?thesis by (simp add: get_int_def put_int_def starts_with_def decimal_value_nat_digits)
next
  case False
  have "hd (nat_digits (nat i)) \<noteq> CHR ''-''"
    using nat_digits_digit [of "hd (nat_digits (nat i))" "nat i"] by (auto simp: is_digit_def)
  then have "\<not> starts_with ''-'' (nat_digits (nat i))"
    by (cases "nat_digits (nat i)") (simp_all add: starts_with_def)
  with False show ?thesis by (simp add: get_int_def put_int_def decimal_value_nat_digits)
qed

definition demo_encode :: "jwt_payload \<Rightarrow> string" where
  "demo_encode p = put_field (jw_sub p) @ put_field (jw_sid p) @ put_field (put_int (jw_sv p))
     @ put_field (case jw_mfa p of None \<Rightarrow> ''n'' | Some b \<Rightarrow> if b then ''t'' else ''f'')
     @ put_field (jw_iss p) @ put_field (jw_aud p) @ put_field (put_int (jw_iat p))
     @ put_field (put_int (jw_nbf p)) @ put_field (put_int (jw_exp p)) @ put_field (jw_jti p)"

definition demo_payload :: "string \<Rightarrow> jwt_payload" where
  "demo_payload t =
    (let (sub, t) = get_field t; (sid, t) = get_field t; (sv, t) = get_field t; (mfa, t) = get_field t;
         (iss, t) = get_field t; (aud, t) = get_field t; (iat, t) = get_field t; (nbf, t) = get_field t;
         (ex, t) = get_field t; (jti, t) = get_field t
     in \<lparr>jw_sub = sub, jw_sid = sid, jw_sv = get_int sv,
          jw_mfa = (if mfa = ''n'' then None else Some (mfa = ''t'')), jw_iss = iss, jw_aud = aud,
          jw_iat = get_int iat, jw_nbf = get_int nbf, jw_exp = get_int ex, jw_jti = jti\<rparr>)"

definition demo_tokens :: token_service where
  "demo_tokens = \<lparr>ts_issuer = ''lead-hunter'', ts_audience = ''api'', ts_lifetime = 900000000,
     ts_encode = demo_encode,
     ts_decode = (\<lambda>now iss aud t. let p = demo_payload t in
        if jw_iss p = iss \<and> jw_aud p = aud \<and> jw_nbf p \<le> now \<and> now < jw_exp p then Some p else None)\<rparr>"

lemma get_put_field_end [simp]: "get_field (put_field s) = (s, [])"
  using get_put_field [of s "[]"] by simp

lemma demo_payload_encode [simp]: "demo_payload (demo_encode p) = p"
  by (cases p) (auto simp: demo_payload_def demo_encode_def Let_def split: option.split)

lemma demo_tokens_decode: "tokens_decode demo_tokens"
  by (simp add: tokens_decode_def demo_tokens_def)

text \<open>Encryption that only appends a tag: enough for the round trips, which use nothing else.\<close>

definition demo_encrypt :: aead_encrypt where
  "demo_encrypt key nonce plaintext aad = plaintext @ [0]"

definition demo_decrypt :: aead_decrypt where
  "demo_decrypt key nonce ciphertext aad =
    (if ciphertext \<noteq> [] \<and> last ciphertext = 0 then Some (butlast ciphertext) else None)"

section \<open>An installation\<close>

definition demo_ids :: workspace_ids where
  "demo_ids = \<lparr>wi_user = 1, wi_workspace = 2, wi_membership = 3, wi_budget = 4\<rparr>"

definition demo_env :: "string \<Rightarrow> string option" where
  "demo_env = map_of [(''DATABASE_MIGRATION_URL'', ''postgresql://db''),
     (''LEADHUNTER_BOOTSTRAP_EMAIL'', ''Ada@Example.com''), (''LEADHUNTER_BOOTSTRAP_PASSWORD'', ''correct horse battery''),
     (''LEADHUNTER_BOOTSTRAP_NAME'', ''Ada''), (''LEADHUNTER_BOOTSTRAP_WORKSPACE_SLUG'', ''acme-it''),
     (''LEADHUNTER_BOOTSTRAP_WORKSPACE_NAME'', ''Acme''), (''LEADHUNTER_BOOTSTRAP_HARD_LIMIT'', ''100'')]"

definition demo_store :: store where
  "demo_store = snd (bootstrap_main demo_passwords demo_ids demo_env empty_store)"


definition demo_user :: user where
  "demo_user = \<lparr>us_id = 1, us_email = ''ada@example.com'', us_password_hash = ''argon:correct horse battery'',
     us_display_name = ''Ada'', us_is_active = True, us_is_platform_admin = True, us_session_version = 1\<rparr>"

definition demo_workspace :: workspace where
  "demo_workspace = \<lparr>wo_id = 2, wo_slug = ''acme-it'', wo_name = ''Acme'', wo_is_active = True\<rparr>"

definition demo_membership :: membership where
  "demo_membership = \<lparr>me_id = 3, me_workspace_id = 2, me_user_id = 1, me_role = ''admin''\<rparr>"

definition demo_budget :: budget where
  "demo_budget = new_budget 4 2 100000000"

definition demo_db :: db where
  "demo_db = empty_db\<lparr>t_users := [demo_user], t_workspaces := [demo_workspace],
     t_memberships := [demo_membership], t_budgets := [demo_budget],
     t_audit := [audit_event_of ''platform.bootstrap'' (Some 2) (Some 1) (Some ''workspace'')
        (Some (uuid_text 2)) [] None]\<rparr>"

lemma demo_cost: "normalized_cost (CText ''100'') = Inr 100000000"
  by code_simp

lemma demo_slug: "rx_fullmatch slug_pattern ''acme-it''"
  unfolding slug_pattern_iff by code_simp

lemma demo_texts: "py_lower (py_strip ''acme-it'') = ''acme-it''" "py_strip ''Acme'' = ''Acme''" "py_strip ''Ada'' = ''Ada''"
  "py_casefold (py_strip ''Ada@Example.com'') = ''ada@example.com''"
  by code_simp+

lemma demo_bootstrap:
  "bootstrap_platform demo_passwords demo_ids ''Ada@Example.com'' ''correct horse battery'' ''Ada'' ''acme-it''
     ''Acme'' (CText ''100'') empty_db = (Inr (demo_user, demo_workspace), demo_db)"
  by (simp add: bootstrap_platform_def new_workspace_def demo_slug demo_texts demo_cost demo_passwords_def
      password_hash_def demo_ids_def empty_db_def demo_user_def demo_workspace_def demo_db_def add_owner_def
      demo_membership_def demo_budget_def append_audit_event_def Let_def del: rx_fullmatch.simps)

lemma demo_integrity: "integrity_ok demo_db"
  by (simp add: integrity_ok_def rows_ok_def keys_ok_def refs_ok_def demo_db_def empty_db_def refers_def refers_opt_def
      user_ok_def workspace_ok_def membership_ok_def budget_ok_def demo_user_def demo_workspace_def
      demo_membership_def demo_budget_def new_budget_def fits_def numeric_18_6_def audit_event_of_ok distinct_on_def)
    (simp add: audit_event_of_def)

lemma demo_env_values:
  "filter (\<lambda>n. getenv demo_env n = '''') bootstrap_variables = []"
  "getenv demo_env ''LEADHUNTER_BOOTSTRAP_EMAIL'' = ''Ada@Example.com''"
  "getenv demo_env ''LEADHUNTER_BOOTSTRAP_PASSWORD'' = ''correct horse battery''"
  "getenv demo_env ''LEADHUNTER_BOOTSTRAP_NAME'' = ''Ada''"
  "getenv demo_env ''LEADHUNTER_BOOTSTRAP_WORKSPACE_SLUG'' = ''acme-it''"
  "getenv demo_env ''LEADHUNTER_BOOTSTRAP_WORKSPACE_NAME'' = ''Acme''"
  "getenv demo_env ''LEADHUNTER_BOOTSTRAP_HARD_LIMIT'' = ''100''"
  by code_simp+

lemma demo_store_eq: "demo_store = \<lparr>st_db = demo_db, st_job_queue = [], st_retention_queue = []\<rparr>"
  by (simp add: demo_store_def bootstrap_main_def demo_env_values run_on_db empty_store_def demo_bootstrap demo_integrity)

lemma demo_reachable: "(system_step key)\<^sup>*\<^sup>* empty_store demo_store"
  by (rule r_into_rtranclp, rule system_step.bootstrap [where passwords = demo_passwords and ids = demo_ids and env = demo_env])
    (simp add: demo_store_def prod_eq_iff)


section \<open>The installation at work\<close>

text \<open>
  The same installation with a verified session of its administrator, a job waiting in the
  queue with its reservation, a lead and a contact found on a website.
\<close>

definition live_session :: session_row where
  "live_session = \<lparr>se_id = 5, se_user_id = 1, se_refresh_token_hash = hash_opaque_token ''refresh'',
     se_csrf_token_hash = hash_opaque_token ''csrf'', se_mfa_verified = True, se_last_seen_at = 0,
     se_expires_at = 1000000000000000, se_revoked_at = None\<rparr>"

definition live_job :: job where
  "live_job = new_job 6 2 1 ''discovery'' (VDict []) 5000000 ''key-1''"

definition live_reservation :: reservation where
  "live_reservation = \<lparr>re_id = 7, re_workspace_id = 2, re_budget_id = 4, re_job_id = 6, re_amount = 5000000,
     re_settled_amount = 0, re_state = ''active'', re_settled_at = None\<rparr>"

definition live_lead :: lead_row where
  "live_lead = \<lparr>ld_id = 8, ld_workspace_id = 2, ld_job_id = 6, ld_status = ''new''\<rparr>"

definition demo_key :: "nat list" where
  "demo_key = replicate 32 7"

definition live_fp :: string where
  "live_fp = hmac_sha256_hex demo_key (utf8 ''email:info@acme.it'')"

definition live_evidence :: string where
  "live_evidence = replicate 64 CHR ''a''"

definition live_point :: contact_point where
  "live_point = \<lparr>cp_kind = EMAIL, cp_normalized_value = ''info@acme.it'', cp_display_value = ''Info@Acme.it'',
     cp_source_url = Some ''https://acme.it/contatti'', cp_collected_at = Aware 0, cp_extraction_method = MAILTO,
     cp_confidence = 1, cp_classification = GENERIC_BUSINESS, cp_expires_at = Aware (365 * day_us),
     cp_evidence_sha256 = live_evidence, cp_rules_version = contact_rules_version\<rparr>"

definition live_contact :: contact where
  "live_contact = contact_row demo_key 9 2 8 live_point live_fp"

definition live_budget :: budget where
  "live_budget = demo_budget\<lparr>bu_reserved := 5000000\<rparr>"

definition live_db :: db where
  "live_db = demo_db\<lparr>t_sessions := [live_session], t_jobs := [live_job], t_budgets := [live_budget],
     t_reservations := [live_reservation], t_ledger := [ledger_row 2 (Some 6) ''reservation'' 5000000],
     t_leads := [live_lead], t_contacts := [live_contact]\<rparr>"

definition live_store :: store where
  "live_store = \<lparr>st_db = live_db, st_job_queue = [uuid_text 6], st_retention_queue = []\<rparr>"

lemma live_email: "normalize_email ''Info@Acme.it'' = Inr ''info@acme.it''"
    "normalize_email ''info@acme.it'' = Inr ''info@acme.it''"
    "classify_email ''info@acme.it'' = Inr GENERIC_BUSINESS" "py_strip ''Info@Acme.it'' = ''Info@Acme.it''"
  by code_simp+

lemma live_source: "source_url_check (Some ''https://acme.it/contatti'') = Inr ()"
  by code_simp

lemma live_evidence_ok: "sha256_text live_evidence"
  by (simp add: sha256_text_iff live_evidence_def is_hex_lower_def is_digit_def)

lemma live_from_email:
  "from_email ''Info@Acme.it'' (Some ''https://acme.it/contatti'') (Aware 0) MAILTO live_evidence = Inr live_point"
  by (simp add: from_email_def live_email make_contact_point_def live_source live_evidence_ok live_point_def
      generic_contact_retention_days_def day_us_def)

lemma live_fingerprint: "fingerprint demo_key EMAIL ''info@acme.it'' = Inr live_fp"
    "fingerprint demo_key EMAIL ''Info@Acme.it'' = Inr live_fp"
  by (simp_all add: fingerprint_def live_email live_fp_def)

lemma live_tables [simp]:
  "t_users live_db = [demo_user]" "t_sessions live_db = [live_session]" "t_workspaces live_db = [demo_workspace]"
  "t_memberships live_db = [demo_membership]" "t_budgets live_db = [live_budget]" "t_jobs live_db = [live_job]"
  "t_reservations live_db = [live_reservation]" "t_contacts live_db = [live_contact]" "t_leads live_db = [live_lead]"
  "t_ledger live_db = [ledger_row 2 (Some 6) ''reservation'' 5000000]" "t_suppressions live_db = []"
  "t_requests live_db = []" "t_policies live_db = []" "t_mfa live_db = []" "t_credentials live_db = []"
  "t_oidc live_db = []" "t_retention live_db = []" "t_attributes live_db = []" "t_job_attempts live_db = []"
  "t_evidence live_db = []" "t_references live_db = []"
  by (simp_all add: live_db_def demo_db_def empty_db_def)

lemma live_budget_columns [simp]:
  "bu_id live_budget = 4" "bu_workspace_id live_budget = 2" "bu_spent live_budget = 0"
  "bu_reserved live_budget = 5000000" "bu_hard_limit live_budget = 100000000"
  by (simp_all add: live_budget_def demo_budget_def new_budget_def)

lemma live_audit: "t_audit live_db = t_audit demo_db"
  by (simp add: live_db_def)

lemmas live_defs = demo_user_def live_session_def demo_workspace_def demo_membership_def live_budget_def demo_budget_def
  new_budget_def live_job_def new_job_def live_reservation_def live_contact_def contact_row_def live_point_def live_lead_def

lemma live_integrity: "integrity_ok live_db"
proof -
  have a: "rows_ok demo_db" "refs_ok demo_db" using demo_integrity by (simp_all add: integrity_ok_def)
  have "rows_ok live_db"
    using a(1)
    by (simp add: rows_ok_def live_audit)
      (simp add: live_defs user_ok_def workspace_ok_def membership_ok_def session_row_ok_def budget_ok_def job_ok_def reservation_ok_def ledger_entry_ok_def
        lead_row_ok_def contact_ok_def fits_def fits_opt_def numeric_18_6_def hash_opaque_token_def live_fp_def
        live_evidence_def contact_rules_version_def ledger_row_def)
  moreover have "keys_ok live_db" by (simp add: keys_ok_def distinct_on_def)
  moreover have "refs_ok live_db"
    using a(2)
    by (simp add: refs_ok_def live_audit)
      (simp add: refers_def refers_opt_def live_defs demo_db_def empty_db_def ledger_row_def)
  ultimately show ?thesis by (simp add: integrity_ok_def)
qed

lemma live_inv: "system_inv live_store"
proof -
  have "budget_inv live_db"
    by (simp add: budget_inv_def budget_balanced_def reservation_home_def active_sum_def settled_sum_def
        ledger_sum_def sum_rows_def live_defs ledger_row_def)
  moreover have "jobs_backed (has_active_reservation live_db) (t_jobs live_db)"
    by (simp add: jobs_backed_def job_backed_def has_active_reservation_def live_defs)
  moreover have "queue_ok live_store" by (simp add: queue_ok_def live_store_def live_job_def new_job_def)
  ultimately show ?thesis by (simp add: system_inv_def live_integrity live_store_def)
qed


section \<open>An erasure in that installation\<close>

definition erased_entry :: suppression_entry where
  "erased_entry = \<lparr>su_id = 20, su_workspace_id = Some 2, su_scope = ''workspace'', su_scope_key = uuid_text 2,
     su_kind = ''email'', su_fingerprint = live_fp, su_reason = ''data_subject_erasure'', su_created_by = Some 1\<rparr>"

definition erased_request :: subject_request where
  "erased_request = completed_request 21 2 (Some 1) ERASURE EMAIL live_fp 1 100"

definition erased_db :: db where
  "erased_db = live_db\<lparr>t_contacts := [], t_suppressions := [erased_entry], t_requests := [erased_request],
     t_audit := t_audit live_db @ [audit_event_of ''privacy.request.completed'' (Some 2) (Some 1)
       (Some ''data_subject_request'') (Some (uuid_text 21))
       [(''result'', AVText ''completed''), (''count'', AVInt 1)] None]\<rparr>"

definition erased_store :: store where
  "erased_store = live_store\<lparr>st_db := erased_db\<rparr>"

lemma erased_reason: "suppression_reason ''data_subject_erasure'' = ''data_subject_erasure''"
  by code_simp

lemma erased_result:
  "erase_and_suppress demo_key 20 100 21 2 (Some 1) ''email'' ''Info@Acme.it'' ''workspace'' ''erasure'' live_db
    = (Inr erased_request, erased_db)"
  by (simp add: erase_and_suppress_def erase_checks_def contact_kind_of_def request_kind_of_def live_fingerprint
      existing_request_def suppression_scope_of_def suppress_def erase_contacts_def contact_matches_def live_defs Let_def
      erased_reason scope_key_of_def erased_request_def erased_db_def erased_entry_def request_event_def add_request_def
      append_audit_event_def)


lemma erased_integrity: "integrity_ok erased_db"
proof -
  let ?d = "live_db\<lparr>t_contacts := [], t_suppressions := [erased_entry], t_requests := [erased_request]\<rparr>"
  have a: "rows_ok live_db" "refs_ok live_db" "keys_ok live_db" using live_integrity by (simp_all add: integrity_ok_def)
  have "rows_ok ?d"
    using a(1) by (simp add: rows_ok_def)
      (simp add: suppression_entry_ok_def subject_request_ok_def erased_entry_def erased_request_def
        completed_request_def fits_def live_fp_def)
  moreover have "keys_ok ?d" using a(3) by (simp add: keys_ok_def distinct_on_def)
  moreover have "refs_ok ?d"
    using a(2) by (simp add: refs_ok_def)
      (simp add: refers_def refers_opt_def erased_entry_def erased_request_def completed_request_def live_defs)
  ultimately have "integrity_ok ?d" by (simp add: integrity_ok_def)
  then have "integrity_ok (append_audit_event ''privacy.request.completed'' (Some 2) (Some 1)
       (Some ''data_subject_request'') (Some (uuid_text 21))
       [(''result'', AVText ''completed''), (''count'', AVInt 1)] None ?d)"
    by (rule integrity_audit) (simp_all add: live_defs)
  then show ?thesis by (simp add: append_audit_event_def erased_db_def)
qed

lemma erased_run:
  "run_session (on_db (erase_and_suppress demo_key 20 100 21 2 (Some 1) ''email'' ''Info@Acme.it'' ''workspace''
     ''erasure'')) live_store = (Inr erased_request, erased_store)"
  by (simp add: run_on_db live_store_def erased_result erased_integrity erased_store_def)


section \<open>The administrator's requests\<close>

definition demo_svc :: auth_service where
  "demo_svc = \<lparr>as_passwords = demo_passwords, as_tokens = demo_tokens, as_cipher = demo_key,
     as_encrypt = demo_encrypt, as_decrypt = demo_decrypt,
     as_totp_verify = (\<lambda>now secret passcode. passcode = ''123456''),
     as_provisioning_uri = (\<lambda>secret email. ''otpauth:'' @ email), as_refresh_lifetime = 1000000000,
     as_access_lifetime_seconds = 900\<rparr>"

definition live_token :: string where
  "live_token = token_issue demo_tokens 0 ''jti'' \<lparr>tk_user_id = uuid_text 1, tk_session_id = uuid_text 5,
     tk_session_version = 1, tk_mfa_verified = True\<rparr>"

definition live_context :: auth_context where
  "live_context = \<lparr>ac_user_id = 1, ac_session_id = 5, ac_mfa_verified = True\<rparr>"

lemma live_authenticated: "authenticate_access_token demo_svc 0 live_token live_db = (Inr live_context, live_db)"
proof -
  have "token_decode demo_tokens 0 live_token = Inr \<lparr>tk_user_id = uuid_text 1, tk_session_id = uuid_text 5,
      tk_session_version = 1, tk_mfa_verified = True\<rparr>"
    unfolding live_token_def by (rule token_decode_issue [OF demo_tokens_decode]) (simp_all add: demo_tokens_def)
  moreover have "put_session (live_session\<lparr>se_last_seen_at := 0\<rparr>) live_db = live_db"
    by (simp add: put_session_def upd_rows_def live_session_def live_db_def)
  ultimately show ?thesis
    by (simp add: authenticate_access_token_def demo_svc_def parse_claims_def session_by_id_def user_by_id_def
        claims_accepted_def live_context_def) (simp add: live_session_def demo_user_def)
qed

lemma live_bearer: "current_auth demo_svc 0 (Some (''Bearer'', live_token)) live_db = (Inr live_context, live_db)"
proof -
  have "py_casefold ''Bearer'' = ''bearer''" by code_simp
  then show ?thesis by (simp add: current_auth_def live_authenticated)
qed

lemma live_admin: "require_permission 1 2 p True live_db = Inr Role_ADMIN"
proof -
  have "membership_of 1 2 live_db = Some demo_membership" by (simp add: membership_of_def demo_membership_def)
  moreover have "p \<in> set (role_permissions Role_ADMIN)" by (simp add: all_permissions_complete)
  ultimately show ?thesis by (simp add: require_permission_Inr_iff demo_membership_def)
qed

definition raised_budget :: budget where
  "raised_budget = live_budget\<lparr>bu_hard_limit := 200000000\<rparr>"

definition raised_db :: db where
  "raised_db = live_db\<lparr>t_budgets := [raised_budget],
     t_ledger := t_ledger live_db @ [(ledger_row 2 None ''override'' 100000000)\<lparr>le_reason := Some ''more''\<rparr>],
     t_audit := t_audit live_db @ [audit_event_of ''budget.override'' (Some 2) (Some 1) (Some ''usage_budget'')
       (Some (uuid_text 4)) [(''old_limit'', AVText (decimal_text 100000000)),
         (''new_limit'', AVText (decimal_text 200000000)), (''reason'', AVText ''more'')] None]\<rparr>"

lemma raised_result:
  "\<exists>s. override_limit 2 1 (CDec (DFin 200 0)) ''more'' live_db = (Inr s, raised_db)"
proof -
  have "normalized_cost (CDec (DFin 200 0)) = Inr 200000000" by code_simp
  moreover have "py_strip ''more'' = ''more''" by code_simp
  ultimately show ?thesis
    by (simp add: override_limit_def override_allowed_def budget_columns_def budget_of_workspace_def Let_def snapshot_def
        live_budget_def demo_budget_def new_budget_def raised_db_def raised_budget_def put_budget_def add_ledger_def
        append_audit_event_def upd_rows_def bind_res_def)
qed


lemma raised_integrity: "integrity_ok raised_db"
proof -
  let ?d = "put_budget raised_budget live_db"
  let ?l = "(ledger_row 2 None ''override'' 100000000)\<lparr>le_reason := Some ''more''\<rparr>"
  have d: "?d = live_db\<lparr>t_budgets := [raised_budget]\<rparr>"
    by (simp add: put_budget_def upd_rows_def raised_budget_def)
  have "integrity_ok ?d"
    by (rule integrity_put_budget [OF live_integrity, of live_budget])
      (simp_all add: raised_budget_def budget_ok_def live_defs numeric_18_6_def fits_def)
  then have "integrity_ok (add_ledger [?l] ?d)"
    by (rule integrity_add_ledger)
      (simp_all add: ledger_entry_ok_def ledger_row_def refers_def refers_opt_def d live_defs fits_opt_def fits_def
        numeric_18_6_def)
  then have "integrity_ok (append_audit_event ''budget.override'' (Some 2) (Some 1) (Some ''usage_budget'')
       (Some (uuid_text 4)) [(''old_limit'', AVText (decimal_text 100000000)),
         (''new_limit'', AVText (decimal_text 200000000)), (''reason'', AVText ''more'')] None
       (add_ledger [?l] ?d))"
    by (rule integrity_audit) (simp_all add: d live_defs add_ledger_def)
  then show ?thesis by (simp add: raised_db_def d add_ledger_def append_audit_event_def)
qed

definition raised_store :: store where
  "raised_store = live_store\<lparr>st_db := raised_db\<rparr>"

lemma raised_step: "system_step key live_store raised_store"
proof -
  obtain s where s: "override_limit 2 1 (CDec (DFin 200 0)) ''more'' live_db = (Inr s, raised_db)"
    using raised_result by blast
  have "override_budget_route live_context (uuid_text 2) \<lparr>br_hard_limit = DFin 200 0, br_reason = ''more''\<rparr> live_db
      = (Inr s, raised_db)"
    by (simp add: override_budget_route_def live_context_def live_admin denied_403_def s)
  then have "run_session (on_db (authenticated demo_svc 0 (Some (''Bearer'', live_token)) (\<lambda>c. override_budget_route c
      (uuid_text 2) \<lparr>br_hard_limit = DFin 200 0, br_reason = ''more''\<rparr>))) live_store = (Inr s, raised_store)"
    by (simp add: run_on_db live_store_def authenticated_def live_bearer raised_integrity raised_store_def)
  then show ?thesis by (rule system_step.budget_overridden)
qed


lemma demo_aead: "aead_lib demo_encrypt demo_decrypt"
  by (auto simp: aead_lib_def demo_encrypt_def demo_decrypt_def)

end
