(* ===== verification/Cases.thy ===== *)
theory Cases
  imports Scenario
begin

text \<open>
  Further concrete states of the running installation, for the operations whose theorems are
  applied to one: a session whose refresh token was rotated away, a confirmed second factor with
  one recovery code left, a stored provider secret, a complete privacy policy.
\<close>

definition demo_drawn :: drawn where
  "demo_drawn = \<lparr>dw_session_id = 11, dw_refresh = ''r'', dw_csrf = ''c'', dw_jti = ''j'',
     dw_nonce = replicate 12 0, dw_secret = ''JBSWY3DP'', dw_codes = [''code-1'']\<rparr>"

section \<open>A session whose token was replaced\<close>

definition rotated_session :: session_row where
  "rotated_session = live_session\<lparr>se_refresh_token_hash := ''rotated away''\<rparr>"

definition rotated_store :: store where
  "rotated_store = live_store\<lparr>st_db := live_db\<lparr>t_sessions := [rotated_session]\<rparr>\<rparr>"

lemma rotated_length: "length ''rotated away'' \<noteq> 64"
  by simp

lemma rotated_differs: "se_refresh_token_hash rotated_session \<noteq> hash_opaque_token t"
proof -
  have "length (hash_opaque_token t) = 64" by (simp add: hash_opaque_token_def)
  then have "hash_opaque_token t \<noteq> ''rotated away''" using rotated_length by (metis (no_types))
  then show ?thesis by (simp add: rotated_session_def)
qed

lemma rotated_hashes: "session_hashes_ok rotated_session"
proof -
  have "\<not> list_ex (\<lambda>c. 128 \<le> code c) ''rotated away''" by code_simp
  then show ?thesis using hash_opaque_ascii [of "''csrf''"]
    by (simp add: session_hashes_ok_def rotated_session_def live_session_def)
qed

lemma rotated_integrity:
  "integrity_ok (put_session (rotated_session\<lparr>se_revoked_at := t\<rparr>) (st_db rotated_store))"
proof -
  have "integrity_ok (put_session (rotated_session\<lparr>se_revoked_at := t\<rparr>) live_db)"
    by (rule integrity_put_session [OF live_integrity, of live_session])
      (simp_all add: rotated_session_def session_row_ok_def fits_def live_session_def hash_opaque_token_def)
  moreover have "put_session (rotated_session\<lparr>se_revoked_at := t\<rparr>) (st_db rotated_store)
      = put_session (rotated_session\<lparr>se_revoked_at := t\<rparr>) live_db"
    by (simp add: put_session_def upd_rows_def rotated_store_def rotated_session_def)
  ultimately show ?thesis by simp
qed

section \<open>A second factor with one recovery code\<close>

definition demo_ciphertext :: string where
  "demo_ciphertext = ''v1:'' @ b64_encode (replicate 12 0 @ demo_encrypt demo_key (replicate 12 0)
     (utf8 ''JBSWY3DP'') (utf8 (mfa_aad 1)))"

definition demo_mfa :: mfa_credential where
  "demo_mfa = \<lparr>mf_user_id = 1, mf_secret_ciphertext = demo_ciphertext,
     mf_recovery_code_hashes = [hash_opaque_token ''code-1''], mf_confirmed_at = Some 0\<rparr>"

definition mfa_db :: db where
  "mfa_db = live_db\<lparr>t_mfa := [demo_mfa]\<rparr>"

lemma demo_secret: "secret_decrypt demo_decrypt demo_key demo_ciphertext (mfa_aad 1) = Inr ''JBSWY3DP''"
  by (rule secret_roundtrip [OF demo_aead, of "replicate 12 0"])
    (simp_all add: secret_encrypt_def demo_ciphertext_def)

definition recovery_svc :: auth_service where
  "recovery_svc = demo_svc\<lparr>as_totp_verify := (\<lambda>now secret passcode. False)\<rparr>"

lemma recovery_run: "\<exists>tokens d'. verify_mfa recovery_svc demo_drawn 0 live_context ''code-1'' mfa_db = (Inr tokens, d')"
proof -
  have "mfa_of_user 1 mfa_db = Some demo_mfa" by (simp add: mfa_of_user_def mfa_db_def demo_mfa_def)
  then have "verified_mfa_credential recovery_svc 0 1 ''code-1'' mfa_db
      = Inr (demo_mfa\<lparr>mf_recovery_code_hashes := []\<rparr>)"
    using demo_secret
    by (simp add: verified_mfa_credential_def recovery_svc_def demo_svc_def demo_mfa_def Let_def)
  moreover have "session_by_id 5 (put_mfa m mfa_db) = Some live_session"
      "user_by_id 1 (put_mfa m mfa_db) = Some demo_user" for m
    by (simp_all add: session_by_id_def user_by_id_def mfa_db_def) (simp_all add: live_session_def demo_user_def)
  ultimately show ?thesis
    by (simp add: verify_mfa_def live_context_def demo_mfa_def Let_def elevate_def live_session_def split: prod.split)
qed

section \<open>A stored secret\<close>

lemma demo_secret_put:
  "\<exists>s d'. credential_put demo_encrypt demo_key (replicate 12 0) 40 0 2 1 ''OpenAI '' ''sk-1234'' live_db = (Inr s, d')"
  by (simp add: credential_put_def Let_def secret_encrypt_def split: option.split)

section \<open>A complete privacy policy\<close>

definition demo_policy :: privacy_policy where
  "demo_policy = \<lparr>vp_workspace_id = 2, vp_purpose = ''sales'', vp_legal_basis = ''legitimate interest'',
     vp_privacy_contact = ''DPO@acme.it'', vp_market = ''IT_EU'', vp_named_contact_retention_days = 90,
     vp_policy_version = ''1'', vp_enabled = True\<rparr>"

lemma demo_policy_ok: "make_privacy_policy demo_policy = Inr demo_policy"
  by code_simp

lemma demo_policy_contact: "length (py_casefold (py_strip (vp_privacy_contact demo_policy))) \<le> 320"
  by code_simp

end
