(* ===== verification/Isolation.thy ===== *)
theory Isolation
  imports Safety
begin

text \<open>
  Tenants stay apart: whatever one transition of the system does, the rows of at most one workspace
  change. A request works on the workspace of its path, a delivery on that of its job or message, a
  new workspace on itself. For deliveries this needs that a job and its reservation belong to one
  workspace, which every transition keeps.
\<close>

section \<open>The rows of a workspace\<close>

record tenant_rows =
  td_credentials :: "provider_credential list"
  td_jobs :: "job list"
  td_budgets :: "budget list"
  td_reservations :: "reservation list"
  td_ledger :: "ledger_entry list"
  td_audit :: "audit_event list"
  td_leads :: "lead_row list"
  td_evidence :: "evidence_row list"
  td_attributes :: "lead_attribute list"
  td_references :: "provider_reference list"
  td_retention :: "retention_event list"
  td_policies :: "policy_row list"
  td_contacts :: "contact list"
  td_suppressions :: "suppression_entry list"
  td_requests :: "subject_request list"

definition rows_of_tenant :: "uuid \<Rightarrow> db \<Rightarrow> tenant_rows" where
  "rows_of_tenant ws d = \<lparr>
     td_credentials = filter (\<lambda>r. pc_workspace_id r = ws) (t_credentials d),
     td_jobs = filter (\<lambda>r. jo_workspace_id r = ws) (t_jobs d),
     td_budgets = filter (\<lambda>r. bu_workspace_id r = ws) (t_budgets d),
     td_reservations = filter (\<lambda>r. re_workspace_id r = ws) (t_reservations d),
     td_ledger = filter (\<lambda>r. le_workspace_id r = ws) (t_ledger d),
     td_audit = filter (\<lambda>r. ae_workspace_id r = Some ws) (t_audit d),
     td_leads = filter (\<lambda>r. ld_workspace_id r = ws) (t_leads d),
     td_evidence = filter (\<lambda>r. ev_workspace_id r = ws) (t_evidence d),
     td_attributes = filter (\<lambda>r. la_workspace_id r = ws) (t_attributes d),
     td_references = filter (\<lambda>r. pr_workspace_id r = ws) (t_references d),
     td_retention = filter (\<lambda>r. rt_workspace_id r = ws) (t_retention d),
     td_policies = filter (\<lambda>r. pp_workspace_id r = ws) (t_policies d),
     td_contacts = filter (\<lambda>r. co_workspace_id r = ws) (t_contacts d),
     td_suppressions = filter (\<lambda>r. su_workspace_id r = Some ws) (t_suppressions d),
     td_requests = filter (\<lambda>r. ds_workspace_id r = ws) (t_requests d)\<rparr>"

text \<open>Only the rows of \<open>ws\<close> differ.\<close>

definition confined :: "uuid \<Rightarrow> db \<Rightarrow> db \<Rightarrow> bool" where
  "confined ws d d' \<longleftrightarrow> (\<forall>v. v = ws \<or> rows_of_tenant v d' = rows_of_tenant v d)"

lemma confined_refl [simp, intro!]: "confined ws d d"
  by (simp add: confined_def)

lemma confined_trans [trans]: "confined ws a b \<Longrightarrow> confined ws b c \<Longrightarrow> confined ws a c"
  by (metis confined_def)

lemma confined_global [simp]:
  "confined ws d (e\<lparr>t_sessions := x1\<rparr>) = confined ws d e" "confined ws d (e\<lparr>t_users := x2\<rparr>) = confined ws d e"
  "confined ws d (e\<lparr>t_mfa := x3\<rparr>) = confined ws d e" "confined ws d (e\<lparr>t_oidc := x4\<rparr>) = confined ws d e"
  "confined ws d (e\<lparr>t_workspaces := x5\<rparr>) = confined ws d e" "confined ws d (e\<lparr>t_memberships := x6\<rparr>) = confined ws d e"
  by (simp_all add: confined_def rows_of_tenant_def)

text \<open>A table may change where the rows of the other workspaces stay.\<close>

definition same_elsewhere :: "('r \<Rightarrow> uuid option) \<Rightarrow> uuid \<Rightarrow> 'r list \<Rightarrow> 'r list \<Rightarrow> bool" where
  "same_elsewhere owner ws rows rows' \<longleftrightarrow>
    (\<forall>v. v = ws \<or> filter (\<lambda>r. owner r = Some v) rows' = filter (\<lambda>r. owner r = Some v) rows)"

lemma confined_change:
    "same_elsewhere (\<lambda>r. Some (pc_workspace_id r)) ws (t_credentials e) rows_credentials \<Longrightarrow> confined ws e (e\<lparr>t_credentials := rows_credentials\<rparr>)"
    "same_elsewhere (\<lambda>r. Some (jo_workspace_id r)) ws (t_jobs e) rows_jobs \<Longrightarrow> confined ws e (e\<lparr>t_jobs := rows_jobs\<rparr>)"
    "same_elsewhere (\<lambda>r. Some (bu_workspace_id r)) ws (t_budgets e) rows_budgets \<Longrightarrow> confined ws e (e\<lparr>t_budgets := rows_budgets\<rparr>)"
    "same_elsewhere (\<lambda>r. Some (re_workspace_id r)) ws (t_reservations e) rows_reservations \<Longrightarrow> confined ws e (e\<lparr>t_reservations := rows_reservations\<rparr>)"
    "same_elsewhere (\<lambda>r. Some (le_workspace_id r)) ws (t_ledger e) rows_ledger \<Longrightarrow> confined ws e (e\<lparr>t_ledger := rows_ledger\<rparr>)"
    "same_elsewhere ae_workspace_id ws (t_audit e) rows_audit \<Longrightarrow> confined ws e (e\<lparr>t_audit := rows_audit\<rparr>)"
    "same_elsewhere (\<lambda>r. Some (la_workspace_id r)) ws (t_attributes e) rows_attributes \<Longrightarrow> confined ws e (e\<lparr>t_attributes := rows_attributes\<rparr>)"
    "same_elsewhere (\<lambda>r. Some (rt_workspace_id r)) ws (t_retention e) rows_retention \<Longrightarrow> confined ws e (e\<lparr>t_retention := rows_retention\<rparr>)"
    "same_elsewhere (\<lambda>r. Some (pp_workspace_id r)) ws (t_policies e) rows_policies \<Longrightarrow> confined ws e (e\<lparr>t_policies := rows_policies\<rparr>)"
    "same_elsewhere (\<lambda>r. Some (co_workspace_id r)) ws (t_contacts e) rows_contacts \<Longrightarrow> confined ws e (e\<lparr>t_contacts := rows_contacts\<rparr>)"
    "same_elsewhere su_workspace_id ws (t_suppressions e) rows_suppressions \<Longrightarrow> confined ws e (e\<lparr>t_suppressions := rows_suppressions\<rparr>)"
    "same_elsewhere (\<lambda>r. Some (ds_workspace_id r)) ws (t_requests e) rows_requests \<Longrightarrow> confined ws e (e\<lparr>t_requests := rows_requests\<rparr>)"
  by (simp_all add: confined_def same_elsewhere_def rows_of_tenant_def)

lemma confined_table:
  assumes "confined ws d e"
  shows
    "same_elsewhere (\<lambda>r. Some (pc_workspace_id r)) ws (t_credentials e) rows_credentials \<Longrightarrow> confined ws d (e\<lparr>t_credentials := rows_credentials\<rparr>)"
    "same_elsewhere (\<lambda>r. Some (jo_workspace_id r)) ws (t_jobs e) rows_jobs \<Longrightarrow> confined ws d (e\<lparr>t_jobs := rows_jobs\<rparr>)"
    "same_elsewhere (\<lambda>r. Some (bu_workspace_id r)) ws (t_budgets e) rows_budgets \<Longrightarrow> confined ws d (e\<lparr>t_budgets := rows_budgets\<rparr>)"
    "same_elsewhere (\<lambda>r. Some (re_workspace_id r)) ws (t_reservations e) rows_reservations \<Longrightarrow> confined ws d (e\<lparr>t_reservations := rows_reservations\<rparr>)"
    "same_elsewhere (\<lambda>r. Some (le_workspace_id r)) ws (t_ledger e) rows_ledger \<Longrightarrow> confined ws d (e\<lparr>t_ledger := rows_ledger\<rparr>)"
    "same_elsewhere ae_workspace_id ws (t_audit e) rows_audit \<Longrightarrow> confined ws d (e\<lparr>t_audit := rows_audit\<rparr>)"
    "same_elsewhere (\<lambda>r. Some (la_workspace_id r)) ws (t_attributes e) rows_attributes \<Longrightarrow> confined ws d (e\<lparr>t_attributes := rows_attributes\<rparr>)"
    "same_elsewhere (\<lambda>r. Some (rt_workspace_id r)) ws (t_retention e) rows_retention \<Longrightarrow> confined ws d (e\<lparr>t_retention := rows_retention\<rparr>)"
    "same_elsewhere (\<lambda>r. Some (pp_workspace_id r)) ws (t_policies e) rows_policies \<Longrightarrow> confined ws d (e\<lparr>t_policies := rows_policies\<rparr>)"
    "same_elsewhere (\<lambda>r. Some (co_workspace_id r)) ws (t_contacts e) rows_contacts \<Longrightarrow> confined ws d (e\<lparr>t_contacts := rows_contacts\<rparr>)"
    "same_elsewhere su_workspace_id ws (t_suppressions e) rows_suppressions \<Longrightarrow> confined ws d (e\<lparr>t_suppressions := rows_suppressions\<rparr>)"
    "same_elsewhere (\<lambda>r. Some (ds_workspace_id r)) ws (t_requests e) rows_requests \<Longrightarrow> confined ws d (e\<lparr>t_requests := rows_requests\<rparr>)"
  by (rule confined_trans [OF assms], erule confined_change)+

lemma filter_upd_other:
  "(\<And>r. r \<in> set rows \<Longrightarrow> Q r \<Longrightarrow> \<not> P r \<and> \<not> P (f r)) \<Longrightarrow> filter P (upd_rows Q f rows) = filter P rows"
  by (induction rows) auto

lemma filter_del_other:
  "(\<And>r. r \<in> set rows \<Longrightarrow> Q r \<Longrightarrow> \<not> P r) \<Longrightarrow> filter P (del_rows Q rows) = filter P rows"
  by (induction rows) auto

lemma same_elsewhere_append:
  "list_all (\<lambda>r. owner r \<in> {None, Some ws}) new \<Longrightarrow> same_elsewhere owner ws rows (rows @ new)"
  by (auto simp: same_elsewhere_def filter_empty_conv list_all_iff)

lemma same_elsewhere_upd:
  "(\<And>r. r \<in> set rows \<Longrightarrow> Q r \<Longrightarrow> owner r = Some ws \<and> owner (f r) = Some ws) \<Longrightarrow> same_elsewhere owner ws rows (upd_rows Q f rows)"
  using filter_upd_other [of rows Q "\<lambda>r. owner r = Some v" f for v] by (fastforce simp: same_elsewhere_def)

lemma same_elsewhere_del:
  "(\<And>r. r \<in> set rows \<Longrightarrow> Q r \<Longrightarrow> owner r = Some ws) \<Longrightarrow> same_elsewhere owner ws rows (del_rows Q rows)"
  using filter_del_other [of rows Q "\<lambda>r. owner r = Some v" for v] by (fastforce simp: same_elsewhere_def)

text \<open>A row replaced under its key.\<close>

lemma same_elsewhere_put:
  assumes "distinct_on k rows" "x \<in> set rows" "k x' = k x" "owner x = Some ws" "owner x' = Some ws"
  shows "same_elsewhere owner ws rows (upd_rows (\<lambda>r. k r = k x') (\<lambda>_. x') rows)"
  using assms by (intro same_elsewhere_upd) (auto dest: distinct_on_eq)

lemmas confined_added = confined_table [OF _ same_elsewhere_append]

lemma confined_put:
  assumes "confined ws d e"
  shows "distinct_on bu_id (t_budgets e) \<Longrightarrow> b \<in> set (t_budgets e) \<Longrightarrow> bu_id b' = bu_id b \<Longrightarrow> bu_workspace_id b = ws \<Longrightarrow>
      bu_workspace_id b' = ws \<Longrightarrow> confined ws d (put_budget b' e)"
    "distinct_on re_id (t_reservations e) \<Longrightarrow> v \<in> set (t_reservations e) \<Longrightarrow> re_id v' = re_id v \<Longrightarrow> re_workspace_id v = ws \<Longrightarrow>
      re_workspace_id v' = ws \<Longrightarrow> confined ws d (put_reservation v' e)"
    "distinct_on jo_id (t_jobs e) \<Longrightarrow> j \<in> set (t_jobs e) \<Longrightarrow> jo_id j' = jo_id j \<Longrightarrow> jo_workspace_id j = ws \<Longrightarrow>
      jo_workspace_id j' = ws \<Longrightarrow> confined ws d (put_job j' e)"
    "distinct_on co_id (t_contacts e) \<Longrightarrow> c \<in> set (t_contacts e) \<Longrightarrow> co_id c' = co_id c \<Longrightarrow> co_workspace_id c = ws \<Longrightarrow>
      co_workspace_id c' = ws \<Longrightarrow> confined ws d (put_contact c' e)"
  unfolding put_budget_def put_reservation_def put_job_def put_contact_def
  by (rule confined_table [OF assms same_elsewhere_put], assumption+, simp, simp)+

lemma confined_rows [intro!]:
  "confined ws d e \<Longrightarrow> w \<in> {None, Some ws} \<Longrightarrow> confined ws d (append_audit_event a w u tt ti ds c e)"
  "confined ws d e \<Longrightarrow> confined ws d (put_session r e)" "confined ws d e \<Longrightarrow> confined ws d (put_mfa m e)"
  "confined ws d e \<Longrightarrow> ds_workspace_id q = ws \<Longrightarrow> confined ws d (add_request q e)"
  "confined ws d e \<Longrightarrow> confined ws d (request_event ws y i ds e)"
  "confined ws d e \<Longrightarrow> list_all (\<lambda>l. le_workspace_id l = ws) ls \<Longrightarrow> confined ws d (add_ledger ls e)"
  by (auto simp: put_session_def put_mfa_def add_request_def request_event_def append_audit_event_def add_ledger_def
      audit_event_of_def intro!: confined_added)

section \<open>Operations on accounts touch no tenant\<close>

lemma authenticate_confined: "authenticate_access_token svc now token d = (r, d') \<Longrightarrow> confined ws d d'"
  by (auto simp: authenticate_access_token_def split: sum.splits prod.splits option.splits if_splits)

lemma current_auth_confined: "current_auth svc now bearer d = (r, d') \<Longrightarrow> confined ws d d'"
  by (auto simp: current_auth_def dest: authenticate_confined split: sum.splits prod.splits option.splits if_splits)

lemma login_auth_confined: "login_auth svc w now email password d = (r, d') \<Longrightarrow> confined ws d d'"
  by (auto simp: login_auth_def Let_def create_session_def split: option.splits if_splits)

lemma login_route_confined: "login_route l svc w now host body d = (r, d') \<Longrightarrow> confined ws d d'"
  by (auto simp: login_route_def dest!: login_auth_confined authenticate_confined
      split: sum.splits prod.splits intro: confined_trans)

lemma logout_confined: "logout_route now c d = (r, d') \<Longrightarrow> confined ws d d'"
  by (auto simp: logout_route_def logout_auth_def Let_def split: option.splits)

lemma revoke_all_confined: "confined ws d (revoke_all now u d)"
  by (simp add: revoke_all_def split: option.split)

lemma begin_mfa_confined: "begin_mfa_route l svc w host c d = (r, d') \<Longrightarrow> confined ws d d'"
  by (auto simp: begin_mfa_route_def begin_mfa_enrollment_def Let_def
      split: sum.splits prod.splits option.splits if_splits)

lemma elevate_confined:
  assumes "\<And>u d. confined ws d (f u d)"
  shows "elevate svc w now c f d = (r, d') \<Longrightarrow> confined ws d d'"
  using assms by (auto simp: elevate_def rotate_session_def Let_def split: option.splits if_splits)

lemma confirm_mfa_confined:
  assumes "confirm_mfa svc w now c passcode d = (r, d')"
  shows "confined ws d d'"
proof (cases "verified_mfa_credential svc now (ac_user_id c) passcode d")
  case (Inr m)
  let ?d = "put_mfa (m\<lparr>mf_confirmed_at := Some now\<rparr>) d"
  have "confined ws ?d d'"
    using assms Inr by (auto simp: confirm_mfa_def elim!: elevate_confined [rotated])
  then show ?thesis by (rule confined_trans [rotated]) auto
qed (use assms in \<open>simp add: confirm_mfa_def\<close>)

lemma verify_mfa_confined:
  assumes "verify_mfa svc w now c passcode d = (r, d')"
  shows "confined ws d d'"
proof (cases "verified_mfa_credential svc now (ac_user_id c) passcode d")
  case (Inr m)
  have "confined ws (put_mfa m d) d'"
    using assms Inr by (auto simp: verify_mfa_def Let_def elim!: elevate_confined [rotated] split: if_splits)
  then show ?thesis by (rule confined_trans [rotated]) auto
qed (use assms in \<open>simp add: verify_mfa_def\<close>)

lemma mfa_code_route_confined:
  assumes "\<And>c p d r d'. op c p d = (r, d') \<Longrightarrow> confined ws d d'"
  shows "mfa_code_route op l host c passcode d = (r, d') \<Longrightarrow> confined ws d d'"
  by (auto simp: mfa_code_route_def split: sum.splits prod.splits dest: assms)

lemma mfa_routes_confined:
  "confirm_mfa_route l svc w now host c passcode d = (r, d') \<Longrightarrow> confined ws d d'"
  "verify_mfa_route l svc w now host c passcode d = (r, d') \<Longrightarrow> confined ws d d'"
  unfolding confirm_mfa_route_def verify_mfa_route_def
  by (erule mfa_code_route_confined [rotated], erule confirm_mfa_confined)
    (erule mfa_code_route_confined [rotated], erule verify_mfa_confined)

lemma oidc_confined: "map_oidc_identity i p s u d = (r, d') \<Longrightarrow> confined ws d d'"
  by (auto simp: map_oidc_identity_def Let_def split: if_splits option.splits)

section \<open>Operations on a workspace stay inside it\<close>

lemma suppress_confined: "suppress key i ws k v sc reason actor d = (r, d') \<Longrightarrow> confined ws d d'"
  by (auto simp: suppress_def Let_def split: sum.splits option.splits intro!: confined_added)

lemma erased_confined: "confined ws d e \<Longrightarrow> distinct_on co_id (t_contacts e) \<Longrightarrow> confined ws d (erase_contacts ws k fp e)"
  unfolding erase_contacts_def
  by (rule confined_table, assumption, rule same_elsewhere_del) (auto simp: contact_matches_def dest: distinct_on_eq)

lemma erase_confined:
  assumes "erase_and_suppress key i now rid ws a kind v sc rk d = (r, d')" "distinct_on co_id (t_contacts d)"
  shows "confined ws d d'"
proof -
  have "confined ws d d2" if "suppress key j ws k u s reason actor (erase_contacts ws q fp d) = (x, d2)"
    for j k u s reason actor q fp x d2
    using erased_confined [OF confined_refl assms(2)] suppress_confined [OF that] by (rule confined_trans)
  then show ?thesis
    using assms(1) erased_confined [OF confined_refl assms(2)]
    by (auto simp: erase_and_suppress_def Let_def completed_request_def split: sum.splits prod.splits option.splits)
qed

lemma record_access_confined: "record_access key now rid ws a kind v d = (r, d') \<Longrightarrow> confined ws d d'"
  by (auto simp: record_access_def Let_def completed_request_def split: sum.splits prod.splits option.splits)

lemma map_upd_key: "map k (upd_rows (\<lambda>r. k r = k x) (\<lambda>_. x) rows) = map k rows"
  by (induction rows) auto

lemma rectify_loop_confined:
  assumes "rectify_loop k now clock rid ws p v cs d = (r, d')" "distinct_on co_id (t_contacts d)"
    and "\<forall>c \<in> set cs. co_workspace_id c = ws \<and> (\<exists>c' \<in> set (t_contacts d). co_id c' = co_id c \<and> co_workspace_id c' = ws)"
  shows "confined ws d d'"
  using assms
proof (induction cs arbitrary: d)
  case (Cons c cs)
  show ?case
  proof (cases "rectify_one k now clock rid ws p v c d")
    case (Inr d1)
    then obtain x where x: "co_id x = co_id c" "co_workspace_id x = co_workspace_id c" "d1 = put_contact x d"
      by (rule rectify_one_Inr)
    obtain c' where c': "c' \<in> set (t_contacts d)" "co_id c' = co_id c" "co_workspace_id c' = ws" "co_workspace_id c = ws"
      using bspec [OF Cons.prems(3) list.set_intros(1)] by blast
    have one: "confined ws d d1"
      unfolding x(3) by (rule confined_put(4) [OF confined_refl Cons.prems(2) c'(1)]) (simp_all only: x(1,2) c'(2-4))
    have rows: "t_contacts d1 = upd_rows (\<lambda>r. co_id r = co_id x) (\<lambda>_. x) (t_contacts d)" by (simp add: x(3) put_contact_def)
    have ids: "map co_id (t_contacts d1) = map co_id (t_contacts d)" unfolding rows by (rule map_upd_key)
    have "distinct_on co_id (t_contacts d1)" using Cons.prems(2) ids by (simp add: distinct_on_def)
    moreover have "\<exists>b' \<in> set (t_contacts d1). co_id b' = co_id b \<and> co_workspace_id b' = ws"
      if b: "b \<in> set cs" for b
    proof -
      obtain b' where b': "b' \<in> set (t_contacts d)" "co_id b' = co_id b" "co_workspace_id b' = ws"
        using Cons.prems(3) b by auto
      have "(if co_id b' = co_id x then x else b') \<in> set (t_contacts d1)"
        unfolding rows set_upd_rows by (rule imageI) (rule b'(1))
      then show ?thesis by (rule bexI [rotated]) (simp add: b' x(2) c'(4))
    qed
    ultimately have "confined ws d1 d'" using Cons.IH [of d1] Cons.prems Inr by simp
    with one show ?thesis by (rule confined_trans)
  qed (use Cons.prems in simp)
qed simp


lemma rectify_confined:
  assumes "rectify k i now clock rid ws a kind v rep d = (r, d')" "distinct_on co_id (t_contacts d)"
  shows "confined ws d d'"
proof -
  have loop: "confined ws d d1"
    if "rectify_loop k now clock rid ws p rep (filter (contact_matches ws EMAIL fp) (t_contacts d)) (add_request q d) = (x, d1)"
      "ds_workspace_id q = ws" for p fp q x d1
    using that(2) by (intro confined_trans [OF _ rectify_loop_confined [OF that(1)]])
      (auto simp: contact_matches_def add_request_def assms(2) intro!: confined_added)
  have both: "confined ws d d2" if "suppress key j ws EMAIL u sc reason actor d1 = (y, d2)" "confined ws d d1"
    for key j u sc reason actor d1 y d2
    using that(2) suppress_confined [OF that(1)] by (rule confined_trans)
  show ?thesis
    using assms(1)
    by (auto simp: rectify_def Let_def completed_request_def split: sum.splits prod.splits option.splits contact_kind.splits
        dest!: loop dest: both)
qed

lemma process_body_confined:
  "process_request_body key i now clock c ws body d = (r, d') \<Longrightarrow> distinct_on co_id (t_contacts d) \<Longrightarrow> confined ws d d'"
  by (auto simp: process_request_body_def Let_def split: sum.splits prod.splits option.splits if_splits
      dest: rectify_confined record_access_confined erase_confined)

text \<open>A route works on the workspace of its path.\<close>

definition path_workspace :: "string \<Rightarrow> uuid" where
  "path_workspace wt = (case workspace_uuid wt of Inr ws \<Rightarrow> ws | Inl e \<Rightarrow> 0)"

lemma process_request_confined:
  "process_request_route key i now clock c wt body d = (r, d') \<Longrightarrow> distinct_on co_id (t_contacts d) \<Longrightarrow>
   confined (path_workspace wt) d d'"
  by (auto simp: process_request_route_def path_workspace_def bind_res_Inr_iff split: sum.splits prod.splits option.splits
      dest: process_body_confined)

lemma create_suppression_confined:
  "create_suppression_route key i c wt body d = (r, d') \<Longrightarrow> confined (path_workspace wt) d d'"
  by (auto simp: create_suppression_route_def create_suppression_body_def path_workspace_def bind_res_Inr_iff
      split: sum.splits prod.splits option.splits dest: suppress_confined)

lemma put_policy_confined: "put_policy_route configured c wt body d = (r, d') \<Longrightarrow> confined (path_workspace wt) d d'"
  by (auto simp: put_policy_route_def policy_put_def path_workspace_def bind_res_Inr_iff Let_def make_privacy_policy_def
      split: sum.splits prod.splits if_splits intro!: confined_table same_elsewhere_upd same_elsewhere_append)

lemma put_secret_confined:
  assumes "put_secret_route enc key nonce i now c wt p v d = (r, d')" "distinct_on pc_id (t_credentials d)"
  shows "confined (path_workspace wt) d d'"
  using assms
  by (auto simp: put_secret_route_def credential_put_def path_workspace_def bind_res_Inr_iff Let_def credential_of_def
      split: sum.splits option.splits intro!: confined_rows confined_table same_elsewhere_upd same_elsewhere_append
      dest: find_SomeD distinct_on_eq)

lemma persist_confined:
  assumes "kept_on_error (persist_contacts k cutoff clock ws lead cs) d = (r, d')"
  shows "confined ws d d'"
proof (cases "persist_contacts k cutoff clock ws lead cs d")
  case (Inr y)
  then obtain n d1 where y: "y = (n, d1)" by (cases y)
  obtain policy where "persist_loop k cutoff clock ws lead policy cs
      (\<lparr>rs_persisted = 0, rs_suppressed = 0, rs_policy_rejected = 0, rs_expired = 0\<rparr>, d) = Inr (n, d1)"
    using Inr y by (auto simp: persist_contacts_def bind_res_Inr_iff)
  from persist_loop_Inr [OF this] obtain rows where d1: "d1 = d\<lparr>t_contacts := t_contacts d @ rows\<rparr>"
    and rows: "list_all2 (\<lambda>(i, c) row. \<exists>fp. fingerprint k (cp_kind c) (cp_normalized_value c) = Inr fp
            \<and> row = contact_row k i ws lead c fp)
          (filter (\<lambda>(i, c). storable k cutoff clock ws policy c d) cs) rows" by blast
  have "list_all2 (\<lambda>x row. co_workspace_id row = ws) (filter (\<lambda>(i, c). storable k cutoff clock ws policy c d) cs) rows"
    by (rule list_all2_mono [OF rows]) (auto simp: contact_row_def)
  then have "co_workspace_id row = ws" if "row \<in> set rows" for row
    using that by (auto simp: list_all2_conv_all_nth in_set_conv_nth)
  then have "confined ws d d1" unfolding d1 by (intro confined_added) (auto simp: list_all_iff)
  then show ?thesis using assms Inr y by (simp add: kept_on_error_def)
qed (use assms in \<open>simp add: kept_on_error_def\<close>)


lemma confined_retention:
  "confined ws d e \<Longrightarrow> t_retention e = rows \<Longrightarrow> list_all (\<lambda>r. rt_workspace_id r = ws) new \<Longrightarrow>
   confined ws d (e\<lparr>t_retention := rows @ new\<rparr>)"
  by (drule confined_added(8) [of ws d e new]) (simp_all add: list_all_iff)

lemma export_confined: "export_for_actor k cutoff ws u mfa job d = (r, d') \<Longrightarrow> confined ws d d'"
  by (auto simp: export_for_actor_def exportable_contacts_def purge_for_export_def expired_contact_def Let_def
      split: sum.splits prod.splits option.splits if_splits intro!: confined_retention confined_table(10) same_elsewhere_del)

lemma purge_attributes_confined: "purge_expired_attributes ws cutoff d = (n, d') \<Longrightarrow> confined ws d d'"
  by (auto simp: purge_expired_attributes_def expired_attribute_def Let_def
      intro!: confined_retention confined_table(7) same_elsewhere_del)

lemma expired_ids_confined:
  assumes "c \<in> set (t_contacts d)" "co_id c \<in> set (expired_ids ws cutoff n d)" "distinct_on co_id (t_contacts d)"
  shows "co_workspace_id c = ws"
proof -
  obtain c' where c': "c' \<in> set (t_contacts d)" "co_id c' = co_id c" "expired_contact ws cutoff c'"
    using assms(2) by (auto simp: expired_ids_def dest!: in_set_takeD)
  then have "c' = c" using distinct_on_eq [OF assms(3) c'(1) assms(1)] by simp
  then show ?thesis using c'(3) by (simp add: expired_contact_def)
qed

lemma batch_confined: "run_retention_batch ws cutoff n d = (r, d') \<Longrightarrow> distinct_on co_id (t_contacts d) \<Longrightarrow> confined ws d d'"
  by (auto simp: run_retention_batch_def Let_def split: if_splits
      intro!: confined_retention confined_table(10) same_elsewhere_del expired_ids_confined)

section \<open>Operations that move the books\<close>

definition linked :: "db \<Rightarrow> bool" where
  "linked d \<longleftrightarrow>
     set (map (\<lambda>r. (re_job_id r, re_workspace_id r)) (t_reservations d)) \<subseteq> set (map (\<lambda>j. (jo_id j, jo_workspace_id j)) (t_jobs d))"

lemma linked_empty [simp]: "linked empty_db"
  by (simp add: linked_def empty_db_def)

lemma linked_books: "books_of d' = books_of d \<Longrightarrow> linked d' = linked d"
  by (simp add: linked_def books_of_def)

lemma linked_job:
  assumes "linked d" "integrity_ok d" "r \<in> set (t_reservations d)" "j \<in> set (t_jobs d)" "re_job_id r = jo_id j"
  shows "re_workspace_id r = jo_workspace_id j"
proof -
  obtain j' where "j' \<in> set (t_jobs d)" "jo_id j' = re_job_id r" "jo_workspace_id j' = re_workspace_id r"
    using assms(1,3) by (fastforce simp: linked_def)
  then show ?thesis using distinct_on_eq [OF integrity_okD(5) [OF assms(2)], of j' j] assms(4,5) by simp
qed

lemma reserve_confined:
  assumes "reserve i ws j amount d = (Inr r, d')" "distinct_on bu_id (t_budgets d)"
  shows "confined ws d d'"
  using assms(1)
proof (rule reserve_Inr)
  fix cost b
  assume b: "b \<in> set (t_budgets d)" "bu_workspace_id b = ws"
    and r: "r = \<lparr>re_id = i, re_workspace_id = ws, re_budget_id = bu_id b, re_job_id = j, re_amount = cost,
          re_settled_amount = 0, re_state = ''active'', re_settled_at = None\<rparr>"
    and d': "d' = add_ledger [ledger_row ws (Some j) ''reservation'' cost]
       ((put_budget (b\<lparr>bu_reserved := bu_reserved b + cost\<rparr>) d)\<lparr>t_reservations := t_reservations d @ [r]\<rparr>)"
  let ?e = "put_budget (b\<lparr>bu_reserved := bu_reserved b + cost\<rparr>) d"
  have "confined ws d ?e" using b assms(2) by (intro confined_put(1) [OF confined_refl, where b = b]) simp_all
  then have "confined ws d (?e\<lparr>t_reservations := t_reservations ?e @ [r]\<rparr>)" by (rule confined_added) (simp add: r)
  then show ?thesis unfolding d' by (intro confined_rows) (simp_all add: put_budget_def ledger_row_def)
qed

lemma release_confined:
  assumes "release now j reason d = (Inr s, d')" "budget_inv d" "integrity_ok d"
    and ws: "\<forall>r \<in> set (t_reservations d). re_job_id r \<noteq> j \<or> re_workspace_id r = ws"
  shows "confined ws d d' \<and> (linked d' = linked d)"
  using assms(1)
proof (rule release_Inr)
  fix r b b' r'
  assume r: "r \<in> set (t_reservations d)" "re_job_id r = j" and b: "b \<in> set (t_budgets d)" "bu_id b = re_budget_id r"
    and b': "b' = b\<lparr>bu_reserved := bu_reserved b - re_amount r\<rparr>"
    and r': "r' = r\<lparr>re_state := ''released'', re_settled_at := Some now\<rparr>"
    and d': "d' = add_ledger [(ledger_row (re_workspace_id r) (Some j) ''release'' (re_amount r))
        \<lparr>le_reason := Some (take 500 reason)\<rparr>] (put_reservation r' (put_budget b' d))"
  have w: "re_workspace_id r = ws" using ws r by auto
  obtain b2 where "b2 \<in> set (t_budgets d)" "bu_id b2 = re_budget_id r" "bu_workspace_id b2 = re_workspace_id r"
    using reservation_homeD [OF assms(2) r(1)] by blast
  then have bw: "bu_workspace_id b = ws" using distinct_on_eq [OF integrity_okD(6) [OF assms(3)], of b2 b] b w by simp
  have "confined ws d (put_budget b' d)"
    by (rule confined_put(1) [OF confined_refl integrity_okD(6) [OF assms(3)] b(1)]) (simp_all add: b' bw)
  then have "confined ws d (put_reservation r' (put_budget b' d))"
    by (rule confined_put(2) [where v = r]) (simp_all add: put_budget_def integrity_okD(8) [OF assms(3)] r r' w)
  then have "confined ws d d'" unfolding d' by (intro confined_rows) (simp_all add: ledger_row_def w)
  moreover have "map (\<lambda>r. (re_job_id r, re_workspace_id r)) (t_reservations d') = map (\<lambda>r. (re_job_id r, re_workspace_id r)) (t_reservations d)"
    unfolding d' put_reservation_def add_ledger_def put_budget_def
    using map_put_row [OF integrity_okD(8) [OF assms(3)] r(1), of r' "\<lambda>r. (re_job_id r, re_workspace_id r)"] by (simp add: r')
  moreover have "t_jobs d' = t_jobs d" by (simp add: d' put_reservation_def put_budget_def add_ledger_def)
  ultimately show ?thesis unfolding linked_def by simp
qed


lemma override_confined:
  assumes "override_budget_route c wt b d = (Inr s, d')" "integrity_ok d"
  shows "confined (path_workspace wt) d d' \<and> linked d' = linked d"
proof -
  obtain ws role where ws: "uuid_parse wt = Inr ws"
    and o: "override_limit ws (ac_user_id c) (CDec (br_hard_limit b)) (br_reason b) d = (Inr s, d')"
    using assms(1) by (rule override_budget_route_Inr)
  have p: "path_workspace wt = ws" by (simp add: path_workspace_def workspace_uuid_def ws)
  from o show ?thesis unfolding p
  proof (rule override_limit_Inr)
    fix v x x'
    assume x: "x \<in> set (t_budgets d)" "bu_workspace_id x = ws" "x' = x\<lparr>bu_hard_limit := v\<rparr>"
      and d': "d' = append_audit_event ''budget.override'' (Some ws) (Some (ac_user_id c))
       (Some ''usage_budget'') (Some (uuid_text (bu_id x)))
       [(''old_limit'', AVText (decimal_text (bu_hard_limit x))), (''new_limit'', AVText (decimal_text v)),
        (''reason'', AVText (br_reason b))] None
       (add_ledger [(ledger_row ws None ''override'' (v - bu_hard_limit x))\<lparr>le_reason := Some (take 500 (br_reason b))\<rparr>]
         (put_budget x' d))"
    have "confined ws d (put_budget x' d)"
      by (rule confined_put(1) [OF confined_refl integrity_okD(6) [OF assms(2)] x(1)]) (simp_all add: x)
    then have "confined ws d d'" unfolding d' by (intro confined_rows) (simp_all add: ledger_row_def)
    then show "confined ws d d' \<and> linked d' = linked d"
      by (simp add: d' linked_def append_audit_event_def add_ledger_def put_budget_def)
  qed
qed

lemma create_job_confined:
  assumes "create_job_route l i ri c wt body key s = (Inr x, s')" "integrity_ok (work s)" "linked (work s)"
  shows "confined (path_workspace wt) (work s) (work s') \<and> linked (work s')"
proof -
  obtain ws y where ws: "uuid_parse wt = Inr ws"
    and c: "create (reserve ri) i ws (ac_user_id c) (jr_kind body) (VDict (jr_parameters body))
      (CDec (jr_estimated_cost body)) key s = (Inr y, s')"
    using assms(1) by (rule create_job_route_Inr)
  have p: "path_workspace wt = ws" by (simp add: path_workspace_def workspace_uuid_def ws)
  from c show ?thesis
  proof (cases rule: create_Inr)
    case (new cost r d2)
    let ?j = "new_job i ws (ac_user_id c) (jr_kind body) (VDict (jr_parameters body)) cost (py_strip key)"
    let ?d = "(work s)\<lparr>t_jobs := t_jobs (work s) @ [?j]\<rparr>"
    have run: "reserve ri ws i (CDec (DFin cost (- 6))) ?d = (Inr r, d2)" using new(6,7) by simp
    have "confined ws (work s) ?d" by (rule confined_added [OF confined_refl]) (simp add: new_job_def)
    moreover have "confined ws ?d d2" using integrity_okD(6) [OF assms(2)] by (intro reserve_confined [OF run]) simp
    ultimately have "confined ws (work s) d2" by (rule confined_trans)
    moreover have "linked d2"
      using run
      by (rule reserve_Inr) (use assms(3) in \<open>auto simp: linked_def add_ledger_def put_budget_def new_job_def\<close>)
    ultimately show ?thesis unfolding new(8) p
      by (intro conjI) (simp, intro confined_rows, simp_all add: linked_def append_audit_event_def)
  qed (use assms(3) in simp)
qed

lemma fail_job_confined:
  assumes run: "fail_job (release now) ws job reason d = (Inr x, d')" and ok: "integrity_ok d" and inv: "budget_inv d"
    and link: "linked d" and job: "job \<in> set (t_jobs d)" "jo_workspace_id job = ws"
    and reason: "length reason \<le> 100"
  shows "confined ws d d' \<and> linked d'"
proof -
  let ?j1 = "job\<lparr>jo_state := ''validating''\<rparr>" and ?j2 = "job\<lparr>jo_state := ''failed'', jo_error_code := Some reason\<rparr>"
  obtain y d3 where rel: "release now (jo_id job) reason (put_job ?j2 (put_job ?j1 d)) = (Inr y, d3)"
    and d': "d' = append_audit_event ''job.failed'' (Some ws) None (Some ''job'')
                   (Some (uuid_text (jo_id job))) [(''reason'', AVText reason)] None d3"
    using run by (auto simp: fail_job_def Let_def split: sum.splits prod.splits)
  let ?d2 = "put_job ?j2 d"
  have d2: "put_job ?j2 (put_job ?j1 d) = ?d2" by (rule put_put_job) simp
  have s: "confined ws d ?d2" by (rule confined_put(3) [OF confined_refl integrity_okD(5) [OF ok] job(1)]) (simp_all add: job)
  have m: "map (\<lambda>j. (jo_id j, jo_workspace_id j)) (t_jobs ?d2) = map (\<lambda>j. (jo_id j, jo_workspace_id j)) (t_jobs d)"
    unfolding put_job_def
    using map_put_row [OF integrity_okD(5) [OF ok] job(1), of ?j2 "\<lambda>j. (jo_id j, jo_workspace_id j)"] by simp
  have f: "t_reservations ?d2 = t_reservations d" "t_budgets ?d2 = t_budgets d" "t_ledger ?d2 = t_ledger d"
    by (simp_all add: put_job_def)
  have home: "\<forall>r \<in> set (t_reservations ?d2). re_job_id r \<noteq> jo_id job \<or> re_workspace_id r = ws"
    using linked_job [OF link ok _ job(1)] job(2) by (auto simp: f)
  have "job_ok ?j2" using integrity_ok_rowsD(3) [OF ok job(1)] reason by (simp add: job_ok_def)
  then have ok2: "integrity_ok ?d2" by (intro integrity_put_job [OF ok job(1)]) simp_all
  have "budget_inv ?d2" using inv budget_inv_cong [OF f(2,1,3)] by simp
  then have "confined ws ?d2 d3 \<and> linked d3 = linked ?d2" by (intro release_confined [OF rel [unfolded d2] _ ok2 home])
  moreover have "linked ?d2" using link unfolding linked_def m f .
  ultimately have "confined ws d d3" "linked d3" using confined_trans [OF s] by auto
  then show ?thesis unfolding d' by (intro conjI) (intro confined_rows, simp_all add: linked_def append_audit_event_def)
qed


lemma process_queued_confined:
  assumes "process_queued (release now) i d = (Inr x, d')" "integrity_ok d" "budget_inv d" "linked d"
  shows "\<exists>ws. confined ws d d' \<and> linked d'"
proof (cases "d' = d")
  case False
  then have "\<exists>job reason ws y. job_by_id i d = Some job \<and> resolve_job_workspace d i = Some ws
      \<and> fail_job (release now) ws job reason d = (Inr y, d')
      \<and> (reason = ''provider_payload_not_allowed'' \<or> reason = ''pipeline_not_configured'')"
    using assms(1) by (auto simp: process_queued_def split: option.splits if_splits sum.splits error.splits)
  then obtain job reason ws y where job: "job_by_id i d = Some job" and w: "resolve_job_workspace d i = Some ws"
    and run: "fail_job (release now) ws job reason d = (Inr y, d')"
    and reason: "reason = ''provider_payload_not_allowed'' \<or> reason = ''pipeline_not_configured''" by blast
  have j: "job \<in> set (t_jobs d)" "jo_id job = i" using job_by_id_Some [OF job] by simp_all
  have "ws = jo_workspace_id job" using w job by (simp add: resolve_job_workspace_def job_by_id_def)
  moreover have "length reason \<le> 100" using reason by auto
  ultimately show ?thesis using fail_job_confined [OF run assms(2-4) j(1)] by auto
qed (use assms(4) in blast)

section \<open>New workspaces\<close>

lemma add_owner_confined: "confined (wi_workspace ids) d e \<Longrightarrow> confined (wi_workspace ids) d (add_owner ids u limit e)"
  unfolding add_owner_def
  using confined_added(3) [of "wi_workspace ids" d
      "e\<lparr>t_memberships := t_memberships e @ [\<lparr>me_id = wi_membership ids, me_workspace_id = wi_workspace ids,
         me_user_id = u, me_role = role_value Role_ADMIN\<rparr>]\<rparr>" "[new_budget (wi_budget ids) (wi_workspace ids) limit]"]
  by (simp add: new_budget_def)

lemma add_owner_linked: "linked (add_owner ids u limit d) = linked d"
  by (simp add: linked_def add_owner_def)

lemma linked_other [simp]:
  "linked (append_audit_event a w u tt ti ds c d) = linked d" "linked (d\<lparr>t_users := us\<rparr>) = linked d"
  "linked (d\<lparr>t_workspaces := xs\<rparr>) = linked d"
  by (simp_all add: linked_def append_audit_event_def)

lemma bootstrap_confined:
  "bootstrap_platform pw ids e p n s m limit d = (r, d') \<Longrightarrow> confined (wi_workspace ids) d d' \<and> linked d' = linked d"
  by (auto simp: bootstrap_platform_def Let_def add_owner_linked dest: new_workspace_Inr
      intro!: confined_rows add_owner_confined split: sum.splits if_splits)

lemma create_workspace_confined:
  "create_workspace ids actor mfa s m limit d = (r, d') \<Longrightarrow> confined (wi_workspace ids) d d' \<and> linked d' = linked d"
  by (auto simp: create_workspace_def Let_def add_owner_linked dest: new_workspace_Inr new_workspace_Inr [OF sym]
      intro!: confined_rows add_owner_confined split: sum.splits if_splits option.splits)


section \<open>Transitions\<close>

text \<open>What a transition keeps: the links, and the rows of all tenants but one.\<close>

definition one_tenant :: "db \<Rightarrow> db \<Rightarrow> bool" where
  "one_tenant d d' \<longleftrightarrow> (\<exists>ws. confined ws d d') \<and> linked d'"

lemma run_on_db_tenant:
  assumes "run_session (on_db f) st = (r, st')" "linked (st_db st)"
    "\<And>x d'. f (st_db st) = (Inr x, d') \<Longrightarrow> one_tenant (st_db st) d'"
  shows "one_tenant (st_db st) (st_db st')"
proof (cases "st_db st' = st_db st")
  case True
  then show ?thesis using assms(2) unfolding one_tenant_def by auto
next
  case False
  then obtain x d' where "f (st_db st) = (Inr x, d')" "st_db st' = d'"
    using assms(1) by (auto simp: run_on_db split: prod.splits sum.splits if_splits)
  then show ?thesis using assms(3) by simp
qed

lemma one_tenant_books: "confined ws d d' \<Longrightarrow> books_of d' = books_of d \<Longrightarrow> linked d \<Longrightarrow> one_tenant d d'"
  unfolding one_tenant_def using linked_books [of d' d] by blast

lemma run_request_tenant:
  assumes run: "run_session (on_db (authenticated svc now bearer h)) st = (r, st')" and inv: "linked (st_db st)" "integrity_ok (st_db st)"
    and h: "\<And>c d x d'. h c d = (Inr x, d') \<Longrightarrow> integrity_ok d \<Longrightarrow> confined ws d d'"
    and books: "\<And>c d x d'. h c d = (Inr x, d') \<Longrightarrow> integrity_ok d \<Longrightarrow> linked d' = linked d"
  shows "one_tenant (st_db st) (st_db st')"
proof (rule run_on_db_tenant [OF run inv(1)])
  fix x d'
  assume "authenticated svc now bearer h (st_db st) = (Inr x, d')"
  then obtain c d1 where a: "current_auth svc now bearer (st_db st) = (Inr c, d1)" "h c d1 = (Inr x, d')"
    by (auto simp: authenticated_def split: prod.splits sum.splits)
  have ok: "integrity_ok d1" by (rule current_auth_integrity [OF inv(2) a(1)])
  have "confined ws (st_db st) d'" by (rule confined_trans [OF current_auth_confined [OF a(1)] h [OF a(2) ok]])
  moreover have "linked d'" using books [OF a(2) ok] linked_books [OF current_auth_books [OF a(1)]] inv(1) by simp
  ultimately show "one_tenant (st_db st) d'" unfolding one_tenant_def by blast
qed

lemma refresh_auth_confined:
  assumes "confined ws d (work s)" "confined ws d (stable s)" "refresh_auth svc w now i t c s = (r, s')"
  shows "confined ws d (work s') \<and> confined ws d (stable s')"
  using assms
  by (auto simp: refresh_auth_def Let_def rotate_session_def commit_session_def
      split: option.splits if_splits sum.splits bool.splits prod.splits)

lemma run_refresh_confined:
  assumes "run_session (refresh_route l svc w now host cs x) st = (r, st')"
  shows "confined ws (st_db st) (st_db st')"
proof -
  let ?d = "st_db st"
  obtain q s where b: "refresh_route l svc w now host cs x (begin_session ?d) = (q, s)"
    by (cases "refresh_route l svc w now host cs x (begin_session ?d)")
  have r: "confined ws ?d (work s1) \<and> confined ws ?d (stable s1)"
    if "refresh_auth svc w now i t c (begin_session ?d) = (y, s1)" for i t c y s1
    by (rule refresh_auth_confined [OF _ _ that]) (simp_all add: begin_session_def)
  have a: "confined ws ?d d2" if "authenticate_access_token svc now token (work s1) = (y, d2)" "confined ws ?d (work s1)"
    for token s1 y d2
    using that(2) authenticate_confined [OF that(1)] by (rule confined_trans)
  have "confined ws ?d (work s) \<and> confined ws ?d (stable s)"
    using b r by (auto simp: refresh_route_def begin_session_def split: sum.splits prod.splits dest: a)
  then show ?thesis
    using assms b
    by (auto simp: run_session_def commit_session_def rollback_session_def end_session_def
        split: sum.splits prod.splits if_splits)
qed


lemma system_invD: "system_inv st \<Longrightarrow> integrity_ok (st_db st)" "system_inv st \<Longrightarrow> budget_inv (st_db st)"
  by (simp_all add: system_inv_def)

lemma credential_ids: "integrity_ok d \<Longrightarrow> distinct_on pc_id (t_credentials d)"
  by (simp add: integrity_ok_def keys_ok_def)

lemma job_requested_tenant:
  assumes inv: "linked (st_db st)" "integrity_ok (st_db st)"
    and run: "run_session (authenticated_session svc now bearer (\<lambda>c. create_job_route l i ri c wt body key)) st = (r, st')"
  shows "one_tenant (st_db st) (st_db st')"
proof (cases r)
  case (Inl e)
  with run authenticated_jobs.run_error_unchanged have "st' = st" by metis
  then show ?thesis using inv unfolding one_tenant_def by auto
next
  case (Inr x)
  then obtain s' where body: "authenticated_session svc now bearer (\<lambda>c. create_job_route l i ri c wt body key)
      (begin_session (st_db st)) = (Inr x, s')" and st': "st_db st' = work s'"
    using run by (auto simp: authenticated_jobs.run_success)
  obtain c d1 where auth: "current_auth svc now bearer (st_db st) = (Inr c, d1)"
    and route: "create_job_route l i ri c wt body key (begin_session (st_db st)\<lparr>work := d1\<rparr>) = (Inr x, s')"
    using body by (auto simp: authenticated_session_def begin_session_def split: prod.splits sum.splits)
  have ok: "integrity_ok d1" by (rule current_auth_integrity [OF inv(2) auth])
  have "linked d1" using linked_books [OF current_auth_books [OF auth]] inv(1) by simp
  then have "confined (path_workspace wt) d1 (work s') \<and> linked (work s')" using create_job_confined [OF route] ok by simp
  then show ?thesis using confined_trans [OF current_auth_confined [OF auth]] unfolding one_tenant_def st' by blast
qed

lemma enforced_tenant:
  assumes "enforce_workspace_retention now url m st = (r, st')" "linked (st_db st)" "integrity_ok (st_db st)"
  shows "one_tenant (st_db st) (st_db st')"
proof -
  have run: "one_tenant (st_db st) (st_db st1)" if "run_session (on_db (run_retention_batch ws now 500)) st = (q, st1)" for ws q st1
  proof (rule run_on_db_tenant [OF that assms(2)])
    fix x d'
    assume b: "run_retention_batch ws now 500 (st_db st) = (Inr x, d')"
    show "one_tenant (st_db st) d'"
      by (rule one_tenant_books [OF batch_confined [OF b integrity_okD(10) [OF assms(3)]] batch_books [OF b] assms(2)])
  qed
  have same: "one_tenant (st_db st) (st_db st)" using assms(2) unfolding one_tenant_def by auto
  show ?thesis
  proof (cases "st_db st' = st_db st")
    case False
    then show ?thesis using assms(1)
      by (auto simp: enforce_workspace_retention_def split: sum.splits prod.splits if_splits dest: run)
  qed (simp add: same)
qed

lemma process_job_tenant:
  assumes "process_job now url m st = (r, st')" "linked (st_db st)" "integrity_ok (st_db st)" "budget_inv (st_db st)"
  shows "one_tenant (st_db st) (st_db st')"
proof -
  have run: "one_tenant (st_db st) (st_db st1)" if "run_session (on_db (process_queued (release now) i)) st = (q, st1)" for i q st1
    by (rule run_on_db_tenant [OF that assms(2)])
      (use process_queued_confined assms(2-4) in \<open>unfold one_tenant_def, blast\<close>)
  have same: "one_tenant (st_db st) (st_db st)" using assms(2) unfolding one_tenant_def by auto
  show ?thesis
  proof (cases "st_db st' = st_db st")
    case False
    then show ?thesis using assms(1)
      by (auto simp: process_job_def split: sum.splits option.splits if_splits dest: run)
  qed (simp add: same)
qed

lemma bootstrap_tenant:
  assumes "bootstrap_main passwords ids env st = (r, st')" "linked (st_db st)"
  shows "one_tenant (st_db st) (st_db st')"
proof -
  have run: "one_tenant (st_db st) (st_db st1)"
    if "run_session (on_db (bootstrap_platform passwords ids e p n s m limit)) st = (q, st1)" for e p n s m limit q st1
    by (rule run_on_db_tenant [OF that assms(2)]) (use bootstrap_confined assms(2) in \<open>unfold one_tenant_def, blast\<close>)
  have same: "one_tenant (st_db st) (st_db st)" using assms(2) unfolding one_tenant_def by auto
  show ?thesis
  proof (cases "st_db st' = st_db st")
    case False
    then show ?thesis using assms(1)
      by (auto simp: bootstrap_main_def Let_def split: if_splits dest: run)
  qed (simp add: same)
qed

lemma step_tenant:
  assumes "system_step key st st'" "system_inv st" "linked (st_db st)"
  shows "one_tenant (st_db st) (st_db st')"
  using assms
proof (induction rule: system_step.induct)
  case (bootstrap passwords ids env st r1 st')
  then show ?case by (blast intro: bootstrap_tenant)
next
  case (workspace_created ids actor mfa slug name limit st r2 st')
  show ?case
    by (rule run_on_db_tenant [OF workspace_created(1,3)])
      (use create_workspace_confined workspace_created(3) in \<open>unfold one_tenant_def, blast\<close>)
next
  case login
  show ?case
    by (rule run_on_db_tenant [OF login(1,3)]) (blast intro: one_tenant_books login_route_confined login_route_books login(3))
next
  case refresh
  have "books_of (st_db st') = books_of (st_db st)" if "run_session (refresh_route l svc w now host cs x) st = (r, st')"
    "integrity_ok (st_db st)" for l svc w now host cs x st r st'
    using that by (auto elim!: run_refresh)
  from this [OF refresh(1)] show ?case
    using refresh(2,3) by (intro one_tenant_books [OF run_refresh_confined [OF refresh(1)]]) (simp_all add: system_inv_def)
next
  case sessions_revoked
  show ?case
    by (rule run_on_db_tenant [OF sessions_revoked(1,3)])
      (auto intro!: one_tenant_books revoke_all_confined sessions_revoked(3))
next
  case identity_mapped
  show ?case
    by (rule run_on_db_tenant [OF identity_mapped(1,3)]) (blast intro: one_tenant_books oidc_confined oidc_books identity_mapped(3))
next
  case job_requested
  then show ?case by (blast intro: job_requested_tenant dest: system_invD)
next
  case contacts_persisted
  show ?case
    by (rule run_on_db_tenant [OF contacts_persisted(1,3)])
      (blast intro: one_tenant_books persist_confined persist_books contacts_persisted(3))
next
  case contacts_exported
  show ?case
    by (rule run_on_db_tenant [OF contacts_exported(1,3)])
      (blast intro: one_tenant_books export_confined export_books contacts_exported(3))
next
  case attributes_purged
  show ?case
    by (rule run_on_db_tenant [OF attributes_purged(1,3)])
      (auto split: prod.splits intro!: one_tenant_books attributes_purged(3) dest: purge_attributes_confined purge_attributes_books)
next
  case scheduled
  then show ?case by (auto simp: scheduler_round_def enqueue_active_workspaces_def Let_def one_tenant_def)
next
  case retention_delivered
  then show ?case by (auto dest: enforced_tenant system_invD)
next
  case retention_raised
  then show ?case by (auto dest: enforced_tenant system_invD)
next
  case job_delivered
  then show ?case by (auto dest: process_job_tenant system_invD)
next
  case job_raised
  then show ?case by (auto dest: process_job_tenant system_invD)
next
  case job_redelivered
  then show ?case by (auto simp: one_tenant_def)
next
  case logout
  show ?case
    by (rule run_request_tenant [OF logout(1,3)]) (use logout(2) in \<open>auto simp: system_inv_def dest: logout_confined logout_books linked_books\<close>)
next
  case mfa_begun
  show ?case
    by (rule run_request_tenant [OF mfa_begun(1,3)])
      (use mfa_begun(2) in \<open>auto simp: system_inv_def dest: begin_mfa_confined begin_mfa_books linked_books\<close>)
next
  case mfa_confirmed
  show ?case
    by (rule run_request_tenant [OF mfa_confirmed(1,3)])
      (use mfa_confirmed(2) in \<open>auto simp: system_inv_def dest: mfa_routes_confined(1) mfa_routes_books(1) linked_books\<close>)
next
  case mfa_verified
  show ?case
    by (rule run_request_tenant [OF mfa_verified(1,3)])
      (use mfa_verified(2) in \<open>auto simp: system_inv_def dest: mfa_routes_confined(2) mfa_routes_books(2) linked_books\<close>)
next
  case budget_overridden
  show ?case
    by (rule run_request_tenant [OF budget_overridden(1,3)])
      (use budget_overridden(2) in \<open>auto simp: system_inv_def dest: override_confined\<close>)
next
  case policy_put
  show ?case
    by (rule run_request_tenant [OF policy_put(1,3)])
      (use policy_put(2) in \<open>auto simp: system_inv_def dest: put_policy_confined put_policy_books linked_books\<close>)
next
  case suppressed
  show ?case
    by (rule run_request_tenant [OF suppressed(2,4)])
      (use suppressed(3) in \<open>auto simp: system_inv_def dest: create_suppression_confined create_suppression_books linked_books\<close>)
next
  case subject_request
  show ?case
    by (rule run_request_tenant [OF subject_request(2,4)])
      (use subject_request(3) in \<open>auto simp: system_inv_def integrity_okD dest: process_request_confined process_request_books linked_books\<close>)
next
  case secret_put
  show ?case
    by (rule run_request_tenant [OF secret_put(1,3)])
      (use secret_put(2) in \<open>auto simp: system_inv_def dest: put_secret_confined put_secret_books linked_books credential_ids\<close>)
qed


lemma linked_reachable:
  assumes "(system_step key)\<^sup>*\<^sup>* empty_store st"
  shows "linked (st_db st)"
  using assms
proof (induction rule: rtranclp_induct)
  case base
  show ?case by (simp add: empty_store_def)
next
  case (step st st')
  have "system_inv st" by (rule system_inv_reachable [OF step(1) system_inv_empty])
  then show ?case using step_tenant [OF step(2)] step.IH by (simp add: one_tenant_def)
qed

end
