(* ===== verification/Url_Policy.thy ===== *)
theory Url_Policy
  imports Urls "HOL-Library.List_Lexorder" "HOL-Library.Char_ord"
begin

text \<open>
  The network policy of the crawler (src/src/security/url_policy.py): every address the browser
  is about to visit is split, its scheme, host and port are checked, its host is resolved and
  every resolved address must be a global one; the first set of addresses seen for a host is
  pinned until the pins are reset.

  The resolver of the operating system is a parameter: it answers a host and a port with the
  address texts of its records, or with nothing when it raises. So is the IDNA encoding of a
  host that is not ASCII; for ASCII hosts the codec's own fast path is written out. A Python
  set of texts is a sorted list without duplicates.
\<close>

type_synonym resolver = "string \<Rightarrow> nat \<Rightarrow> string list option"
type_synonym idna_codec = "string \<Rightarrow> string option"

record url_decision =
  ud_normalized_url :: string
  ud_hostname :: string
  ud_port :: nat
  ud_resolved_ips :: "string list"

record url_policy =
  up_allowed_ports :: "nat list"
  up_max_redirects :: nat
  up_max_url_length :: nat
  up_dns_pins :: "(string \<times> string list) list"

definition safe_url_policy :: "nat list \<Rightarrow> int \<Rightarrow> nat \<Rightarrow> url_policy" where
  "safe_url_policy allowed_ports max_redirects max_url_length =
    \<lparr>up_allowed_ports = allowed_ports, up_max_redirects = nat (max 0 max_redirects),
     up_max_url_length = max_url_length, up_dns_pins = []\<rparr>"

definition default_url_policy :: url_policy where
  "default_url_policy = safe_url_policy [80, 443] 5 2048"

definition reset_dns_pins :: "url_policy \<Rightarrow> url_policy" where
  "reset_dns_pins p = p\<lparr>up_dns_pins := []\<rparr>"

definition text_set :: "string list \<Rightarrow> string list" where
  "text_set xs = sort (remdups xs)"

definition pin_of :: "string \<Rightarrow> url_policy \<Rightarrow> string list option" where
  "pin_of host p = map_of (up_dns_pins p) host"

section \<open>Hosts\<close>

text \<open>
  The codec accepts an ASCII name whose labels have fewer than 64 characters, none of them
  empty except the last; the empty name encodes to itself.
\<close>

definition idna_ascii_ok :: "string \<Rightarrow> bool" where
  "idna_ascii_ok h =
    (let labels = split_on CHR ''.'' h in
     h = '''' \<or> (list_all (\<lambda>l. l \<noteq> '''' \<and> length l < 64) (butlast labels) \<and> length (last labels) < 64))"

definition idna_encode :: "idna_codec \<Rightarrow> string \<Rightarrow> string option" where
  "idna_encode codec h =
    (if list_all (\<lambda>c. code c < 128) h then (if idna_ascii_ok h then Some h else None)
     else codec h)"

definition normalize_host :: "idna_codec \<Rightarrow> string \<Rightarrow> string option" where
  "normalize_host codec h = map_option py_lower (idna_encode codec (rstrip_by (\<lambda>c. c = CHR ''.'') h))"

definition is_local_host :: "string \<Rightarrow> bool" where
  "is_local_host h \<longleftrightarrow> h = '''' \<or> h = ''localhost'' \<or> ends_with ''.localhost'' h"

text \<open>The hosts a link is restricted to; a host that cannot be encoded raises \<open>UnicodeError\<close>.\<close>

fun normalize_hosts :: "idna_codec \<Rightarrow> string list \<Rightarrow> string list res" where
  "normalize_hosts codec [] = Inr []"
| "normalize_hosts codec (h # hs) =
    (case normalize_host codec h of
       None \<Rightarrow> Inl (ValueError ''label empty or too long'')
     | Some n \<Rightarrow> bind_res (normalize_hosts codec hs) (\<lambda>ns. Inr (n # ns)))"

section \<open>Addresses\<close>

definition raw_addresses :: "resolver \<Rightarrow> string \<Rightarrow> nat \<Rightarrow> string list res" where
  "raw_addresses resolver hostname port =
    (case parse_ip hostname of
       Some literal \<Rightarrow> Inr [ip_text literal]
     | None \<Rightarrow>
        (case resolver hostname port of
           None \<Rightarrow> Inl (UrlPolicyError ''dns_failure'')
         | Some records \<Rightarrow> Inr (map (before_char CHR ''%'') records)))"

definition unmapped :: "ip_address \<Rightarrow> ip_address" where
  "unmapped a =
    (case a of
       IPv6 n z \<Rightarrow> (case ipv4_mapped n of Some v4 \<Rightarrow> IPv4 v4 | None \<Rightarrow> a)
     | IPv4 n \<Rightarrow> a)"

definition public_address :: "string \<Rightarrow> string res" where
  "public_address raw =
    (case parse_ip raw of
       None \<Rightarrow> Inl (UrlPolicyError ''invalid_ip'')
     | Some a \<Rightarrow>
         if \<not> is_global (unmapped a) then Inl (UrlPolicyError ''non_public_ip'')
         else Inr (ip_text (unmapped a)))"

fun public_addresses :: "string list \<Rightarrow> string list res" where
  "public_addresses [] = Inr []"
| "public_addresses (r # rs) =
    bind_res (public_address r) (\<lambda>a. bind_res (public_addresses rs) (\<lambda>as. Inr (a # as)))"

text \<open>
  The code iterates over a set; here its elements come in the order of the records, which only
  decides which of two errors is reported.
\<close>

definition resolve_public_addresses :: "resolver \<Rightarrow> string \<Rightarrow> nat \<Rightarrow> string list res" where
  "resolve_public_addresses resolver hostname port =
    bind_res (raw_addresses resolver hostname port) (\<lambda>raw.
      if raw = [] then Inl (UrlPolicyError ''dns_empty'')
      else bind_res (public_addresses raw) (\<lambda>as. Inr (text_set as)))"

section \<open>The decision\<close>

definition default_port_of :: "string \<Rightarrow> nat" where
  "default_port_of scheme = (if scheme = ''https'' then 443 else 80)"

text \<open>What the syntax alone decides: the parts of the URL, its host and its port.\<close>

definition checked_parts :: "idna_codec \<Rightarrow> url_policy \<Rightarrow> string \<Rightarrow> (split_url \<times> string \<times> nat) res" where
  "checked_parts codec policy url =
    (if py_strip url = '''' then Inl (UrlPolicyError ''empty_url'')
     else if up_max_url_length policy < length url then Inl (UrlPolicyError ''url_too_long'')
     else if url \<noteq> py_strip url \<or> list_ex (\<lambda>c. code c < 32) url then Inl (UrlPolicyError ''invalid_characters'')
     else bind_res (urlsplit url) (\<lambda>u.
       if ur_scheme u \<notin> {''http'', ''https''} then Inl (UrlPolicyError ''invalid_scheme'')
       else if url_has_credentials u then Inl (UrlPolicyError ''credentials_forbidden'')
       else case url_hostname u of
         None \<Rightarrow> Inl (UrlPolicyError ''missing_hostname'')
       | Some h \<Rightarrow>
          (case normalize_host codec h of
             None \<Rightarrow> Inl (UrlPolicyError ''invalid_hostname'')
           | Some hostname \<Rightarrow>
               if is_local_host hostname then Inl (UrlPolicyError ''local_hostname'')
               else (case url_port u of
                  Inl _ \<Rightarrow> Inl (UrlPolicyError ''invalid_port'')
                | Inr given \<Rightarrow>
                    let port = (case given of
                                  Some p \<Rightarrow> if p = 0 then default_port_of (ur_scheme u) else p
                                | None \<Rightarrow> default_port_of (ur_scheme u))
                    in if port \<notin> set (up_allowed_ports policy) then Inl (UrlPolicyError ''port_forbidden'')
                       else Inr (u, hostname, port)))))"

definition check_allowed_hosts :: "idna_codec \<Rightarrow> string list option \<Rightarrow> string \<Rightarrow> unit res" where
  "check_allowed_hosts codec allowed_hosts hostname =
    (case allowed_hosts of
       None \<Rightarrow> Inr ()
     | Some hosts \<Rightarrow> bind_res (normalize_hosts codec hosts) (\<lambda>ns.
         if hostname \<notin> set ns then Inl (UrlPolicyError ''host_forbidden'') else Inr ()))"

definition normalized_url :: "split_url \<Rightarrow> string \<Rightarrow> nat \<Rightarrow> string" where
  "normalized_url u hostname port =
    (let host = (if CHR '':'' \<in> set hostname then ''['' @ hostname @ '']'' else hostname);
         netloc = (if port \<noteq> default_port_of (ur_scheme u) then host @ CHR '':'' # nat_digits port else host)
     in urlunsplit_web \<lparr>ur_scheme = ur_scheme u, ur_netloc = netloc,
          ur_path = (if ur_path u = '''' then ''/'' else ur_path u), ur_query = ur_query u, ur_fragment = ''''\<rparr>)"

definition validate ::
  "idna_codec \<Rightarrow> resolver \<Rightarrow> string \<Rightarrow> string list option \<Rightarrow> url_policy \<Rightarrow> url_decision res \<times> url_policy" where
  "validate codec resolver url allowed_hosts policy =
    (case checked_parts codec policy url of
       Inl e \<Rightarrow> (Inl e, policy)
     | Inr (u, hostname, port) \<Rightarrow>
        (case check_allowed_hosts codec allowed_hosts hostname of
           Inl e \<Rightarrow> (Inl e, policy)
         | Inr _ \<Rightarrow>
            (case resolve_public_addresses resolver hostname port of
               Inl e \<Rightarrow> (Inl e, policy)
             | Inr current \<Rightarrow>
                (case pin_of hostname policy of
                   Some previous \<Rightarrow>
                     if previous \<noteq> current then (Inl (UrlPolicyError ''dns_rebinding''), policy)
                     else (Inr \<lparr>ud_normalized_url = normalized_url u hostname port, ud_hostname = hostname,
                                 ud_port = port, ud_resolved_ips = current\<rparr>, policy)
                 | None \<Rightarrow>
                     (Inr \<lparr>ud_normalized_url = normalized_url u hostname port, ud_hostname = hostname,
                            ud_port = port, ud_resolved_ips = current\<rparr>,
                      policy\<lparr>up_dns_pins := (hostname, current) # up_dns_pins policy\<rparr>)))))"

section \<open>What an accepted URL satisfies\<close>

definition is_public_text :: "string \<Rightarrow> bool" where
  "is_public_text s \<longleftrightarrow> (\<exists>a. s = ip_text a \<and> is_global a \<and> unmapped a = a)"

lemma unmapped_idem: "unmapped (unmapped a) = unmapped a"
  by (auto simp: unmapped_def split: ip_address.split option.split)

lemma public_address_Inr: "public_address r = Inr s \<Longrightarrow> is_public_text s"
  by (auto simp: public_address_def is_public_text_def unmapped_idem split: option.splits if_splits)

lemma public_addresses_Inr:
  "public_addresses rs = Inr ss \<Longrightarrow> length ss = length rs \<and> (\<forall>s \<in> set ss. is_public_text s)"
  by (induction rs arbitrary: ss) (auto simp: bind_res_Inr_iff dest: public_address_Inr)

lemma public_address_error: "public_address r = Inl e \<Longrightarrow> e = UrlPolicyError ''invalid_ip'' \<or> e = UrlPolicyError ''non_public_ip''"
  by (auto simp: public_address_def split: option.splits if_splits)

lemma set_text_set [simp]: "set (text_set xs) = set xs"
  by (simp add: text_set_def)

lemma text_set_empty [simp]: "text_set xs = [] \<longleftrightarrow> xs = []"
  by (metis set_text_set set_empty)

lemma resolve_Inr:
  assumes "resolve_public_addresses resolver h port = Inr ips"
  shows "ips \<noteq> [] \<and> distinct ips \<and> sorted ips \<and> (\<forall>s \<in> set ips. is_public_text s)"
proof -
  obtain raw as where raw: "raw \<noteq> []" "public_addresses raw = Inr as" "ips = text_set as"
    using assms by (auto simp: resolve_public_addresses_def bind_res_Inr_iff split: if_splits)
  have "distinct (text_set as)" "sorted (text_set as)" by (simp_all add: text_set_def)
  then show ?thesis using public_addresses_Inr [OF raw(2)] raw by auto
qed

lemma checked_parts_Inr:
  assumes "checked_parts codec p url = Inr (u, h, port)"
  shows "urlsplit url = Inr u \<and> ur_scheme u \<in> {''http'', ''https''} \<and> \<not> url_has_credentials u
    \<and> (\<exists>h0. url_hostname u = Some h0 \<and> normalize_host codec h0 = Some h) \<and> \<not> is_local_host h
    \<and> port \<in> set (up_allowed_ports p) \<and> length url \<le> up_max_url_length p"
  using assms
  by (auto simp: checked_parts_def bind_res_Inr_iff Let_def split: if_splits option.splits sum.splits)

text \<open>Acceptance, spelled out; refusal never changes the policy's state.\<close>

lemma validate_Inr:
  assumes "validate codec resolver url hosts p = (Inr dec, p')"
  obtains u where "checked_parts codec p url = Inr (u, ud_hostname dec, ud_port dec)"
    "check_allowed_hosts codec hosts (ud_hostname dec) = Inr ()"
    "resolve_public_addresses resolver (ud_hostname dec) (ud_port dec) = Inr (ud_resolved_ips dec)"
    "pin_of (ud_hostname dec) p \<in> {None, Some (ud_resolved_ips dec)}"
    "pin_of (ud_hostname dec) p' = Some (ud_resolved_ips dec)"
    "\<And>h. h \<noteq> ud_hostname dec \<Longrightarrow> pin_of h p' = pin_of h p"
    "ud_normalized_url dec = normalized_url u (ud_hostname dec) (ud_port dec)"
    "up_allowed_ports p' = up_allowed_ports p" "up_max_url_length p' = up_max_url_length p"
    "up_max_redirects p' = up_max_redirects p"
  using assms
  by (auto simp: validate_def pin_of_def split: sum.splits prod.splits option.splits if_splits)

lemma validate_Inl: "validate codec resolver url hosts p = (Inl e, p') \<Longrightarrow> p' = p"
  by (auto simp: validate_def split: sum.splits prod.splits option.splits if_splits)

lemma pin_kept:
  assumes "validate codec resolver url hosts p = (r, p')" "pin_of h p = Some ips"
  shows "pin_of h p' = Some ips"
proof (cases r)
  case (Inl e)
  then show ?thesis using assms validate_Inl by metis
next
  case (Inr dec)
  with assms(1) have run: "validate codec resolver url hosts p = (Inr dec, p')" by simp
  from run show ?thesis
  proof (rule validate_Inr)
    assume a: "pin_of (ud_hostname dec) p \<in> {None, Some (ud_resolved_ips dec)}"
      "pin_of (ud_hostname dec) p' = Some (ud_resolved_ips dec)"
      "\<And>h. h \<noteq> ud_hostname dec \<Longrightarrow> pin_of h p' = pin_of h p"
    then show ?thesis using assms(2) by (cases "h = ud_hostname dec") auto
  qed
qed

section \<open>A crawl's worth of validations\<close>

text \<open>
  A guard decides questions one after the other over a state of its own. It promises that a
  decision pins the answer it saw, that no pin is ever moved, and that a refusal changes nothing;
  then all decisions of a run about one key saw the same answer.
\<close>

fun decide_all :: "('q \<Rightarrow> 'p \<Rightarrow> 'd res \<times> 'p) \<Rightarrow> 'q list \<Rightarrow> 'p \<Rightarrow> 'd res list \<times> 'p" where
  "decide_all decide [] p = ([], p)"
| "decide_all decide (q # qs) p =
    (case decide q p of (r, p1) \<Rightarrow> (case decide_all decide qs p1 of (rs, p2) \<Rightarrow> (r # rs, p2)))"

locale pinning_guard =
  fixes decide :: "'q \<Rightarrow> 'p \<Rightarrow> 'd res \<times> 'p"
    and pin :: "'k \<Rightarrow> 'p \<Rightarrow> 'v option"
    and key_of :: "'d \<Rightarrow> 'k"
    and answer_of :: "'d \<Rightarrow> 'v"
    and inv :: "'p \<Rightarrow> bool"
    and sound :: "'d \<Rightarrow> bool"
  assumes decision_pins: "decide q p = (Inr d, p') \<Longrightarrow> pin (key_of d) p' = Some (answer_of d)"
    and pin_stays: "decide q p = (r, p') \<Longrightarrow> pin k p = Some v \<Longrightarrow> pin k p' = Some v"
    and inv_stays: "decide q p = (r, p') \<Longrightarrow> inv p \<Longrightarrow> inv p'"
    and decision_sound: "decide q p = (Inr d, p') \<Longrightarrow> inv p \<Longrightarrow> sound d"
begin

lemma pins_stay: "decide_all decide qs p = (rs, p') \<Longrightarrow> pin k p = Some v \<Longrightarrow> pin k p' = Some v"
proof (induction qs arbitrary: p rs)
  case (Cons q qs)
  then show ?case by (auto split: prod.splits dest: pin_stays)
qed simp

lemma all_decided:
  "decide_all decide qs p = (rs, p') \<Longrightarrow> inv p \<Longrightarrow> Inr d \<in> set rs \<Longrightarrow>
   pin (key_of d) p' = Some (answer_of d) \<and> sound d"
proof (induction qs arbitrary: p rs)
  case (Cons q qs)
  obtain r p1 rs1 where s: "decide q p = (r, p1)" "decide_all decide qs p1 = (rs1, p')" "rs = r # rs1"
    using Cons.prems(1) by (auto split: prod.splits)
  show ?case
  proof (cases "Inr d \<in> set rs1")
    case True
    then show ?thesis using Cons.IH [OF s(2) inv_stays [OF s(1) Cons.prems(2)]] by simp
  next
    case False
    then have "decide q p = (Inr d, p1)" using Cons.prems(3) s by simp
    then show ?thesis using decision_pins pins_stay [OF s(2)] decision_sound Cons.prems(2) by blast
  qed
qed simp

lemma decisions_agree:
  assumes "decide_all decide qs p = (rs, p')" "inv p" "Inr d \<in> set rs" "Inr e \<in> set rs" "key_of d = key_of e"
  shows "answer_of d = answer_of e"
  using all_decided [OF assms(1-3)] all_decided [OF assms(1,2,4)] assms(5) by simp

end

text \<open>Requests in a row, each with what the resolver answers at that moment.\<close>

type_synonym url_request = "resolver \<times> string \<times> string list option"

definition validate_one :: "idna_codec \<Rightarrow> url_request \<Rightarrow> url_policy \<Rightarrow> url_decision res \<times> url_policy" where
  "validate_one codec q p = (case q of (resolver, url, hosts) \<Rightarrow> validate codec resolver url hosts p)"

definition validate_all :: "idna_codec \<Rightarrow> url_request list \<Rightarrow> url_policy \<Rightarrow> url_decision res list \<times> url_policy" where
  "validate_all codec = decide_all (validate_one codec)"

text \<open>A decision of a policy with these ports: a public host, on an allowed port, at public addresses only.\<close>

definition decision_ok :: "nat list \<Rightarrow> url_decision \<Rightarrow> bool" where
  "decision_ok ports d \<longleftrightarrow> ud_port d \<in> set ports \<and> \<not> is_local_host (ud_hostname d) \<and> ud_resolved_ips d \<noteq> []
     \<and> distinct (ud_resolved_ips d) \<and> list_all is_public_text (ud_resolved_ips d)"

lemma validate_ports: "validate codec resolver url hosts p = (r, p') \<Longrightarrow> up_allowed_ports p' = up_allowed_ports p"
proof (cases r)
  case (Inl e)
  then show "validate codec resolver url hosts p = (r, p') \<Longrightarrow> ?thesis" by (auto dest: validate_Inl)
next
  case (Inr d)
  moreover assume "validate codec resolver url hosts p = (r, p')"
  ultimately have "validate codec resolver url hosts p = (Inr d, p')" by simp
  then show ?thesis by (rule validate_Inr)
qed

lemma validate_decision_ok:
  assumes "validate codec resolver url hosts p = (Inr d, p')"
  shows "decision_ok (up_allowed_ports p) d"
  using assms
proof (rule validate_Inr)
  fix u
  assume "checked_parts codec p url = Inr (u, ud_hostname d, ud_port d)"
    and "resolve_public_addresses resolver (ud_hostname d) (ud_port d) = Inr (ud_resolved_ips d)"
  then show ?thesis using checked_parts_Inr resolve_Inr by (auto simp: decision_ok_def list_all_iff)
qed

interpretation pins: pinning_guard "validate_one codec" pin_of ud_hostname ud_resolved_ips
    "\<lambda>p. up_allowed_ports p = ports" "decision_ok ports" for codec ports
proof
  fix q p d p'
  assume "validate_one codec q p = (Inr d, p')"
  then obtain resolver url hosts where run: "validate codec resolver url hosts p = (Inr d, p')"
    by (auto simp: validate_one_def split: prod.splits)
  then show "pin_of (ud_hostname d) p' = Some (ud_resolved_ips d)" by (rule validate_Inr)
  show "up_allowed_ports p = ports \<Longrightarrow> decision_ok ports d" using validate_decision_ok [OF run] by simp
next
  fix q p r p' k v
  assume "validate_one codec q p = (r, p')"
  then obtain resolver url hosts where run: "validate codec resolver url hosts p = (r, p')"
    by (auto simp: validate_one_def split: prod.splits)
  show "pin_of k p = Some v \<Longrightarrow> pin_of k p' = Some v" by (rule pin_kept [OF run])
  show "up_allowed_ports p = ports \<Longrightarrow> up_allowed_ports p' = ports" using validate_ports [OF run] by simp
qed

end
