(* ===== verification/Url_Join.thy ===== *)
theory Url_Join
  imports Urls
begin

text \<open>
  \<open>urllib.parse\<close> beyond splitting: \<open>urlparse\<close>, which takes the parameters off the last path
  segment, and \<open>urljoin\<close>, which resolves a reference against the address of the page it stands
  on (\<open>urljoin(result.url, href)\<close> in src/src/crawler.py). The base is a web address, so the
  scheme is always one of those with a network location, parameters and relative references.
\<close>

definition uses_params :: "string \<Rightarrow> bool" where
  "uses_params scheme \<longleftrightarrow> scheme \<in> {'''', ''ftp'', ''hdl'', ''prospero'', ''http'', ''https'', ''shttp'', ''rtsp'',
     ''rtsps'', ''sip'', ''sips'', ''mms'', ''sftp'', ''tel''}"

text \<open>\<open>_splitparams\<close>: the first semicolon of the last segment starts the parameters.\<close>

definition split_params :: "string \<Rightarrow> string \<times> string" where
  "split_params path =
    (let segment = after_last CHR ''/'' path; lead = take (length path - length segment) path
     in (lead @ before_char CHR '';'' segment, after_char CHR '';'' segment))"

record parsed_url =
  pu_scheme :: string
  pu_netloc :: string
  pu_path :: string
  pu_params :: string
  pu_query :: string
  pu_fragment :: string

definition urlparse_default :: "string \<Rightarrow> string \<Rightarrow> parsed_url res" where
  "urlparse_default scheme url =
    bind_res (urlsplit url) (\<lambda>u.
      let s = (if ur_scheme u = '''' then scheme else ur_scheme u);
          pp = (if uses_params s \<and> CHR '';'' \<in> set (ur_path u) then split_params (ur_path u) else (ur_path u, ''''))
      in Inr \<lparr>pu_scheme = s, pu_netloc = ur_netloc u, pu_path = fst pp, pu_params = snd pp,
              pu_query = ur_query u, pu_fragment = ur_fragment u\<rparr>)"

definition urlparse :: "string \<Rightarrow> parsed_url res" where
  "urlparse url = urlparse_default '''' url"

definition urlunparse_web :: "parsed_url \<Rightarrow> string" where
  "urlunparse_web u =
    urlunsplit_web \<lparr>ur_scheme = pu_scheme u, ur_netloc = pu_netloc u,
      ur_path = (if pu_params u = '''' then pu_path u else pu_path u @ CHR '';'' # pu_params u),
      ur_query = pu_query u, ur_fragment = pu_fragment u\<rparr>"

text \<open>The dots of a path: \<open>..\<close> drops the segment before it, \<open>.\<close> nothing.\<close>

fun resolve_dots :: "string list \<Rightarrow> string list \<Rightarrow> string list" where
  "resolve_dots acc [] = acc"
| "resolve_dots acc (seg # segs) =
    (if seg = ''..'' then resolve_dots (butlast acc) segs
     else if seg = ''.'' then resolve_dots acc segs
     else resolve_dots (acc @ [seg]) segs)"

text \<open>Empty segments vanish from the middle of a path that was put together.\<close>

definition drop_empty_middle :: "string list \<Rightarrow> string list" where
  "drop_empty_middle segs =
    (if length segs \<le> 1 then segs
     else hd segs # filter (\<lambda>x. x \<noteq> '''') (butlast (tl segs)) @ [last segs])"

definition join_paths :: "string \<Rightarrow> string \<Rightarrow> string" where
  "join_paths base_path path =
    (let base_parts = split_on CHR ''/'' base_path;
         base_parts = (if last base_parts \<noteq> '''' then butlast base_parts else base_parts);
         segments = (if starts_with ''/'' path then split_on CHR ''/'' path
                     else drop_empty_middle (base_parts @ split_on CHR ''/'' path));
         resolved = resolve_dots [] segments @ (if last segments \<in> {''.'', ''..''} then [''''] else []);
         joined = join_with ''/'' resolved
     in if joined = '''' then ''/'' else joined)"

definition urljoin :: "string \<Rightarrow> string \<Rightarrow> string res" where
  "urljoin base url =
    (if base = '''' then Inr url else if url = '''' then Inr base
     else bind_res (urlparse base) (\<lambda>b. bind_res (urlparse_default (pu_scheme b) url) (\<lambda>u.
       if pu_scheme u \<noteq> pu_scheme b then Inr url
       else if pu_netloc u \<noteq> '''' then Inr (urlunparse_web u)
       else if pu_path u = '''' \<and> pu_params u = ''''
       then Inr (urlunparse_web (u\<lparr>pu_netloc := pu_netloc b, pu_path := pu_path b, pu_params := pu_params b,
              pu_query := (if pu_query u = '''' then pu_query b else pu_query u)\<rparr>))
       else Inr (urlunparse_web (u\<lparr>pu_netloc := pu_netloc b, pu_path := join_paths (pu_path b) (pu_path u)\<rparr>)))))"

lemma urljoin_error: "urljoin base url = Inl e \<Longrightarrow> is_ValueError e"
  by (auto simp: urljoin_def urlparse_def urlparse_default_def bind_res_Inl_iff Let_def
      dest: urlsplit_error split: if_splits)

text \<open>Resolution never leaves a dot segment behind.\<close>

lemma resolve_dots_clean:
  "set acc \<inter> {''.'', ''..''} = {} \<Longrightarrow> set (resolve_dots acc segs) \<inter> {''.'', ''..''} = {}"
proof (induction segs arbitrary: acc)
  case (Cons seg segs)
  have "set (butlast acc) \<inter> {''.'', ''..''} = {}"
    using Cons.prems by (auto dest: in_set_butlastD)
  then show ?case using Cons by auto
qed simp

end
