(* ===== verification/Crawl.thy ===== *)
theory Crawl
  imports Contacts Sha256
begin

text \<open>
  The values a crawl produces (src/src/domain/crawl.py): the evidence of one fetched page, the
  result of a crawl with the views computed from it, and the fail-closed rule that decides
  whether its pages suffice for an audit. The dictionary of pages is the list of its items in
  insertion order. The clock reading of \<open>from_content\<close> is an argument, kept as an instant where
  the code keeps its ISO text; the human-readable \<open>error\<close> of a result is left out.
\<close>

definition min_audit_page_chars :: nat where
  "min_audit_page_chars = 120"

definition min_audit_total_chars :: nat where
  "min_audit_total_chars = 200"

datatype crawl_status = Crawl_PENDING | Crawl_SUCCESS | Crawl_PARTIAL | Crawl_BLOCKED | Crawl_FAILED | Crawl_EMPTY | Crawl_INVALID_RESPONSE

fun crawl_status_value :: "crawl_status \<Rightarrow> string" where
  "crawl_status_value Crawl_PENDING = ''pending''"
| "crawl_status_value Crawl_SUCCESS = ''success''"
| "crawl_status_value Crawl_PARTIAL = ''partial''"
| "crawl_status_value Crawl_BLOCKED = ''blocked''"
| "crawl_status_value Crawl_FAILED = ''failed''"
| "crawl_status_value Crawl_EMPTY = ''empty''"
| "crawl_status_value Crawl_INVALID_RESPONSE = ''invalid_response''"

section \<open>Evidence of a page\<close>

record page_evidence =
  pe_requested_url :: string
  pe_final_url :: string
  pe_status_code :: "int option"
  pe_content_type :: string
  pe_content_length :: nat
  pe_content_sha256 :: string
  pe_retrieved_at :: int
  pe_valid :: bool
  pe_failure_code :: "string option"

definition is_supported_content_type :: "string \<Rightarrow> bool" where
  "is_supported_content_type content_type \<longleftrightarrow>
     content_type = '''' \<or>
     py_lower (py_strip (before_char CHR '';'' content_type))
       \<in> {''text/html'', ''application/xhtml+xml'', ''text/plain''}"

definition failure_code_of :: "int option \<Rightarrow> string \<Rightarrow> string \<Rightarrow> string" where
  "failure_code_of status_code content_type content =
    (case status_code of
       None \<Rightarrow> ''missing_status_code''
     | Some n \<Rightarrow>
         if \<not> (200 \<le> n \<and> n < 300) then ''http_status_not_success''
         else if \<not> is_supported_content_type content_type then ''unsupported_content_type''
         else if length (py_strip content) < min_audit_page_chars then ''content_too_short''
         else ''invalid_page_evidence'')"

definition page_evidence_of ::
  "int \<Rightarrow> string \<Rightarrow> string \<Rightarrow> int option \<Rightarrow> string \<Rightarrow> string \<Rightarrow> string option \<Rightarrow> page_evidence" where
  "page_evidence_of now requested_url final_url status_code content_type content failure_code =
    (let valid = failure_code = None
           \<and> (case status_code of None \<Rightarrow> False | Some n \<Rightarrow> 200 \<le> n \<and> n < 300)
           \<and> is_supported_content_type content_type
           \<and> min_audit_page_chars \<le> length (py_strip content)
     in \<lparr>pe_requested_url = requested_url, pe_final_url = final_url, pe_status_code = status_code,
         pe_content_type = content_type, pe_content_length = length (py_strip content),
         pe_content_sha256 = sha256_hex (utf8 content), pe_retrieved_at = now, pe_valid = valid,
         pe_failure_code =
           (case failure_code of
              Some c \<Rightarrow> if c \<noteq> '''' then Some c
                else if valid then None else Some (failure_code_of status_code content_type content)
            | None \<Rightarrow> if valid then None else Some (failure_code_of status_code content_type content))\<rparr>)"

section \<open>Auditable pages\<close>

definition auditable_lengths :: "(string \<times> string) list \<Rightarrow> nat list" where
  "auditable_lengths pages =
    map (\<lambda>(url, content). length (py_strip content))
      (filter (\<lambda>(url, content). (starts_with ''http://'' url \<or> starts_with ''https://'' url)
          \<and> min_audit_page_chars \<le> length (py_strip content)) pages)"

definition ensure_auditable_pages :: "(string \<times> string) list \<Rightarrow> unit res" where
  "ensure_auditable_pages pages =
    (if pages = [] then Inl (CrawlEvidenceError ''crawl_pages_empty'')
     else if auditable_lengths pages = [] then Inl (CrawlEvidenceError ''no_valid_page_evidence'')
     else if sum_list (auditable_lengths pages) < min_audit_total_chars
     then Inl (CrawlEvidenceError ''insufficient_total_content'')
     else Inr ())"

section \<open>The result of a crawl\<close>

record crawl_result =
  cw_url :: string
  cw_requested_url :: string
  cw_pages :: "(string \<times> string) list"
  cw_evidence :: "page_evidence list"
  cw_contacts :: "contact_point list"
  cw_raw_html_home :: string
  cw_is_dynamic :: bool
  cw_status :: crawl_status
  cw_error_code :: "string option"
  cw_blocked_request_codes :: "string list"

definition new_crawl_result :: "string \<Rightarrow> string \<Rightarrow> crawl_result" where
  "new_crawl_result url requested_url =
    \<lparr>cw_url = url, cw_requested_url = (if requested_url = '''' then url else requested_url), cw_pages = [],
     cw_evidence = [], cw_contacts = [], cw_raw_html_home = '''', cw_is_dynamic = True, cw_status = Crawl_PENDING,
     cw_error_code = None, cw_blocked_request_codes = []\<rparr>"

definition valid_evidence :: "crawl_result \<Rightarrow> page_evidence list" where
  "valid_evidence r = filter pe_valid (cw_evidence r)"

definition crawl_emails :: "crawl_result \<Rightarrow> string list" where
  "crawl_emails r = map cp_display_value (filter (\<lambda>c. contact_kind_value (cp_kind c) = ''email'') (cw_contacts r))"

definition is_auditable :: "crawl_result \<Rightarrow> bool" where
  "is_auditable r \<longleftrightarrow>
     cw_status r \<in> {Crawl_SUCCESS, Crawl_PARTIAL} \<and> ok_res (ensure_auditable_pages (cw_pages r)) \<and> valid_evidence r \<noteq> []"

definition audit_rejection_reason :: "crawl_result \<Rightarrow> string" where
  "audit_rejection_reason r =
    (if is_auditable r then ''''
     else if cw_error_code r \<noteq> None \<and> cw_error_code r \<noteq> Some '''' then the (cw_error_code r)
     else case ensure_auditable_pages (cw_pages r) of
            Inl e \<Rightarrow> error_text e
          | Inr _ \<Rightarrow> crawl_status_value (cw_status r))"

section \<open>Properties\<close>

lemma page_evidence_valid_iff:
  "pe_valid (page_evidence_of now req fin status ct content fc) \<longleftrightarrow>
   fc = None \<and> (\<exists>n. status = Some n \<and> 200 \<le> n \<and> n < 300) \<and> is_supported_content_type ct
   \<and> 120 \<le> length (py_strip content)"
  by (auto simp: page_evidence_of_def Let_def min_audit_page_chars_def split: option.splits)

text \<open>A page is valid or it has a failure code, never both and never neither.\<close>

lemma page_evidence_code:
  "fc \<noteq> Some '''' \<Longrightarrow>
   pe_failure_code (page_evidence_of now req fin status ct content fc) = None \<longleftrightarrow>
   pe_valid (page_evidence_of now req fin status ct content fc)"
  by (auto simp: page_evidence_of_def Let_def split: option.splits)

lemma failure_code_never_generic:
  "\<not> pe_valid (page_evidence_of now req fin status ct content None) \<Longrightarrow>
   failure_code_of status ct content \<noteq> ''invalid_page_evidence''"
  by (auto simp: page_evidence_of_def failure_code_of_def Let_def split: option.splits)

lemma auditable_iff:
  "ensure_auditable_pages pages = Inr () \<longleftrightarrow>
   auditable_lengths pages \<noteq> [] \<and> 200 \<le> sum_list (auditable_lengths pages)"
  by (auto simp: ensure_auditable_pages_def min_audit_total_chars_def auditable_lengths_def)

lemma ok_auditable: "ok_res (ensure_auditable_pages pages) \<longleftrightarrow> ensure_auditable_pages pages = Inr ()"
  by (cases "ensure_auditable_pages pages") (auto simp: ok_res_def)

lemma auditable_error: "ensure_auditable_pages pages = Inl e \<Longrightarrow> \<exists>m. e = CrawlEvidenceError m \<and> m \<noteq> ''''"
  by (auto simp: ensure_auditable_pages_def split: if_splits)

lemma crawl_status_text: "crawl_status_value s \<noteq> ''''"
  by (cases s) simp_all

text \<open>Exactly the auditable results come without a reason for rejection.\<close>

lemma rejection_reason_iff: "audit_rejection_reason r = '''' \<longleftrightarrow> is_auditable r"
proof (cases "is_auditable r \<or> (cw_error_code r \<noteq> None \<and> cw_error_code r \<noteq> Some '''')")
  case True
  then show ?thesis by (auto simp: audit_rejection_reason_def)
next
  case False
  have "error_text e \<noteq> ''''" if "ensure_auditable_pages (cw_pages r) = Inl e" for e
    using auditable_error [OF that] by auto
  with False show ?thesis
    using crawl_status_text [of "cw_status r"] by (auto simp: audit_rejection_reason_def split: sum.split)
qed

end
