(* ===== verification/Pattern.thy ===== *)
theory Pattern
  imports PyText
begin

text \<open>
  Searching with regular expressions as Python's \<open>re\<close> does it: a backtracking matcher that
  tries the alternatives of a pattern in order of preference (repetitions are greedy), so the
  first match found at the leftmost position is the one \<open>search\<close>, \<open>findall\<close> and \<open>sub\<close> use.
  Assertions that look at the neighbouring characters (word boundaries, one-character
  lookarounds) are part of the patterns; groups are the pieces of a pattern given as a list.
\<close>

section \<open>Patterns\<close>

datatype pat =
    PEps
  | PCls "char \<Rightarrow> bool"
  | PLook "char option \<Rightarrow> char option \<Rightarrow> bool"
  | PSeq pat pat
  | PAlt pat pat
  | PStar pat

fun p_seq :: "pat list \<Rightarrow> pat" where
  "p_seq [] = PEps"
| "p_seq [p] = p"
| "p_seq (p # ps) = PSeq p (p_seq ps)"

fun p_alt :: "pat list \<Rightarrow> pat" where
  "p_alt [] = PCls (\<lambda>_. False)"
| "p_alt [p] = p"
| "p_alt (p # ps) = PAlt p (p_alt ps)"

definition p_opt :: "pat \<Rightarrow> pat" where
  "p_opt p = PAlt p PEps"

definition p_plus :: "pat \<Rightarrow> pat" where
  "p_plus p = PSeq p (PStar p)"

text \<open>\<open>p{0,n}\<close> and \<open>p{m,}\<close>\<close>

fun p_upto :: "nat \<Rightarrow> pat \<Rightarrow> pat" where
  "p_upto 0 p = PEps"
| "p_upto (Suc n) p = PAlt (PSeq p (p_upto n p)) PEps"

fun p_times :: "nat \<Rightarrow> pat \<Rightarrow> pat" where
  "p_times 0 p = PEps"
| "p_times (Suc n) p = PSeq p (p_times n p)"

definition p_atleast :: "nat \<Rightarrow> pat \<Rightarrow> pat" where
  "p_atleast m p = PSeq (p_times m p) (PStar p)"

definition p_lit :: "string \<Rightarrow> pat" where
  "p_lit s = p_seq (map (\<lambda>c. PCls (\<lambda>d. d = c)) s)"

text \<open>A literal without regard to case.\<close>

definition p_lit_ci :: "string \<Rightarrow> pat" where
  "p_lit_ci s = p_seq (map (\<lambda>c. PCls (\<lambda>d. lower_char d = lower_char c)) s)"

section \<open>Character classes\<close>

text \<open>\<open>\w\<close>: the letters, digits and numeric signs below 256, and the underscore.\<close>

definition word_char :: "char \<Rightarrow> bool" where
  "word_char c \<longleftrightarrow> (let n = code c in
     is_digit c \<or> is_lower_az c \<or> is_upper_az c \<or> c = CHR ''_''
     \<or> n \<in> {170, 178, 179, 181, 185, 186, 188, 189, 190} \<or> (192 \<le> n \<and> n \<noteq> 215 \<and> n \<noteq> 247))"

definition not_newline :: "char \<Rightarrow> bool" where
  "not_newline c \<longleftrightarrow> code c \<noteq> 10"

definition is_word_at :: "char option \<Rightarrow> bool" where
  "is_word_at c = (case c of None \<Rightarrow> False | Some c \<Rightarrow> word_char c)"

definition p_boundary :: pat where
  "p_boundary = PLook (\<lambda>l r. is_word_at l \<noteq> is_word_at r)"

definition p_not_before :: "(char \<Rightarrow> bool) \<Rightarrow> pat" where
  "p_not_before P = PLook (\<lambda>l r. case l of None \<Rightarrow> True | Some c \<Rightarrow> \<not> P c)"

definition p_not_after :: "(char \<Rightarrow> bool) \<Rightarrow> pat" where
  "p_not_after P = PLook (\<lambda>l r. case r of None \<Rightarrow> True | Some c \<Rightarrow> \<not> P c)"

section \<open>Matching\<close>

definition head_of :: "string \<Rightarrow> char option" where
  "head_of s = (case s of [] \<Rightarrow> None | c # _ \<Rightarrow> Some c)"

text \<open>The character before what is left after \<open>n\<close> characters of \<open>s\<close> were taken.\<close>

definition char_before :: "char option \<Rightarrow> string \<Rightarrow> nat \<Rightarrow> char option" where
  "char_before b s n = (if n = 0 then b else Some (s ! (n - 1)))"

text \<open>
  The lengths of the matches of a pattern at the front of \<open>s\<close>, in order of preference; \<open>b\<close> is
  the character before. A further round of a repetition must consume something.
\<close>

fun star_ends :: "nat \<Rightarrow> (char option \<Rightarrow> string \<Rightarrow> nat list) \<Rightarrow> char option \<Rightarrow> string \<Rightarrow> nat list" where
  "star_ends 0 f b s = [0]"
| "star_ends (Suc k) f b s =
    concat (map (\<lambda>n. map (\<lambda>m. n + m) (star_ends k f (char_before b s n) (drop n s)))
      (filter (\<lambda>n. 0 < n) (f b s))) @ [0]"

fun match_ends :: "pat \<Rightarrow> char option \<Rightarrow> string \<Rightarrow> nat list" where
  "match_ends PEps b s = [0]"
| "match_ends (PCls P) b s = (case s of [] \<Rightarrow> [] | c # _ \<Rightarrow> if P c then [1] else [])"
| "match_ends (PLook Q) b s = (if Q b (head_of s) then [0] else [])"
| "match_ends (PSeq p q) b s =
    concat (map (\<lambda>n. map (\<lambda>m. n + m) (match_ends q (char_before b s n) (drop n s))) (match_ends p b s))"
| "match_ends (PAlt p q) b s = match_ends p b s @ match_ends q b s"
| "match_ends (PStar p) b s = star_ends (length s) (match_ends p) b s"

text \<open>The pieces of the first match of a list of patterns, one after the other.\<close>

fun group_ends :: "pat list \<Rightarrow> char option \<Rightarrow> string \<Rightarrow> nat list list" where
  "group_ends [] b s = [[]]"
| "group_ends (p # ps) b s =
    concat (map (\<lambda>n. map (\<lambda>ms. n # ms) (group_ends ps (char_before b s n) (drop n s))) (match_ends p b s))"

fun cut_pieces :: "nat list \<Rightarrow> string \<Rightarrow> string list" where
  "cut_pieces [] s = []"
| "cut_pieces (n # ns) s = take n s # cut_pieces ns (drop n s)"

definition match_groups :: "pat list \<Rightarrow> char option \<Rightarrow> string \<Rightarrow> string list option" where
  "match_groups ps b s = (case group_ends ps b s of [] \<Rightarrow> None | ns # _ \<Rightarrow> Some (cut_pieces ns s))"

section \<open>Searching\<close>

text \<open>\<open>re.match\<close> at the start, and \<open>re.search\<close> anywhere.\<close>

definition pat_match :: "pat \<Rightarrow> string \<Rightarrow> string option" where
  "pat_match p s = (case match_ends p None s of [] \<Rightarrow> None | n # _ \<Rightarrow> Some (take n s))"

fun search_from :: "pat \<Rightarrow> char option \<Rightarrow> string \<Rightarrow> bool" where
  "search_from p b s =
    (match_ends p b s \<noteq> [] \<or> (case s of [] \<Rightarrow> False | c # cs \<Rightarrow> search_from p (Some c) cs))"

definition pat_search :: "pat \<Rightarrow> string \<Rightarrow> bool" where
  "pat_search p s = search_from p None s"

text \<open>
  \<open>findall\<close> and \<open>sub\<close> for patterns without empty matches: scan on after each match.
\<close>

fun findall_from :: "nat \<Rightarrow> pat \<Rightarrow> char option \<Rightarrow> string \<Rightarrow> string list" where
  "findall_from 0 p b s = []"
| "findall_from (Suc k) p b s =
    (case filter (\<lambda>n. 0 < n) (take 1 (match_ends p b s)) of
       n # _ \<Rightarrow> take n s # findall_from k p (char_before b s n) (drop n s)
     | [] \<Rightarrow> (case s of [] \<Rightarrow> [] | c # cs \<Rightarrow> findall_from k p (Some c) cs))"

definition pat_findall :: "pat \<Rightarrow> string \<Rightarrow> string list" where
  "pat_findall p s = findall_from (Suc (length s)) p None s"

fun sub_from :: "nat \<Rightarrow> pat list \<Rightarrow> (string list \<Rightarrow> string) \<Rightarrow> char option \<Rightarrow> string \<Rightarrow> string" where
  "sub_from 0 ps f b s = s"
| "sub_from (Suc k) ps f b s =
    (case s of
       [] \<Rightarrow> []
     | c # cs \<Rightarrow>
        (case group_ends ps b s of
           [] \<Rightarrow> c # sub_from k ps f (Some c) cs
         | ns # _ \<Rightarrow>
            if sum_list ns = 0 then c # sub_from k ps f (Some c) cs
            else f (cut_pieces ns s) @ sub_from k ps f (char_before b s (sum_list ns)) (drop (sum_list ns) s)))"

definition pat_sub :: "pat list \<Rightarrow> (string list \<Rightarrow> string) \<Rightarrow> string \<Rightarrow> string" where
  "pat_sub ps f s = sub_from (Suc (length s)) ps f None s"

section \<open>What a match is\<close>

text \<open>The relation the matcher computes, without preferences.\<close>

inductive matches :: "pat \<Rightarrow> char option \<Rightarrow> string \<Rightarrow> nat \<Rightarrow> bool" where
  eps: "matches PEps b s 0"
| cls: "P c \<Longrightarrow> matches (PCls P) b (c # s) (Suc 0)"
| look: "Q b (head_of s) \<Longrightarrow> matches (PLook Q) b s 0"
| seq: "matches p b s n \<Longrightarrow> matches q (char_before b s n) (drop n s) m \<Longrightarrow> matches (PSeq p q) b s (n + m)"
| alt1: "matches p b s n \<Longrightarrow> matches (PAlt p q) b s n"
| alt2: "matches q b s n \<Longrightarrow> matches (PAlt p q) b s n"
| star0: "matches (PStar p) b s 0"
| star1: "matches p b s n \<Longrightarrow> 0 < n \<Longrightarrow> matches (PStar p) (char_before b s n) (drop n s) m
    \<Longrightarrow> matches (PStar p) b s (n + m)"

inductive_cases matches_epsE: "matches PEps b s n"
inductive_cases matches_clsE: "matches (PCls P) b s n"
inductive_cases matches_lookE: "matches (PLook Q) b s n"
inductive_cases matches_seqE: "matches (PSeq p q) b s n"
inductive_cases matches_altE: "matches (PAlt p q) b s n"
inductive_cases matches_starE: "matches (PStar p) b s n"

lemma matches_length: "matches p b s n \<Longrightarrow> n \<le> length s"
  by (induction rule: matches.induct) auto

lemma star_ends_sound:
  assumes "\<And>b s n. n \<in> set (f b s) \<Longrightarrow> matches p b s n"
  shows "n \<in> set (star_ends k f b s) \<Longrightarrow> matches (PStar p) b s n"
proof (induction k arbitrary: b s n)
  case (Suc k)
  then show ?case using assms by (auto intro: star0 star1)
qed (auto intro: star0)

lemma star_ends_complete:
  assumes "\<And>b s n. matches p b s n \<Longrightarrow> n \<in> set (f b s)"
  shows "matches (PStar p) b s n \<Longrightarrow> length s \<le> k \<Longrightarrow> n \<in> set (star_ends k f b s)"
proof (induction k arbitrary: b s n)
  case 0
  then have "n \<le> 0" using matches_length [OF 0(1)] by simp
  then show ?case by simp
next
  case (Suc k)
  from Suc.prems(1) show ?case
  proof (rule matches_starE)
    fix n1 m assume *: "n = n1 + m" "matches p b s n1" "0 < n1" "matches (PStar p) (char_before b s n1) (drop n1 s) m"
    have "n1 \<le> length s" using *(2) by (rule matches_length)
    then have "m \<in> set (star_ends k f (char_before b s n1) (drop n1 s))"
      using Suc.IH [OF *(4)] Suc.prems(2) *(3) by simp
    then show "n \<in> set (star_ends (Suc k) f b s)" using assms [OF *(2)] *(1,3) by (auto intro!: bexI [of _ n1])
  qed simp
qed

lemma sums_iff:
  "n \<in> set (concat (map (\<lambda>i. map (\<lambda>j. i + j) (B i)) A)) \<longleftrightarrow> (\<exists>i \<in> set A. \<exists>j \<in> set (B i). n = i + j)" for n :: nat
  by auto

text \<open>The matcher finds exactly the matches.\<close>

lemma match_ends_iff: "n \<in> set (match_ends p b s) \<longleftrightarrow> matches p b s n"
proof (induction p arbitrary: b s n)
  case (PStar p)
  then show ?case
    using star_ends_sound [of "match_ends p" p] star_ends_complete [of p "match_ends p" b s n "length s"] by auto
next
  case (PSeq p q)
  have "n \<in> set (match_ends (PSeq p q) b s) \<longleftrightarrow>
      (\<exists>i j. n = i + j \<and> matches p b s i \<and> matches q (char_before b s i) (drop i s) j)"
    unfolding match_ends.simps sums_iff PSeq.IH Bex_def by blast
  then show ?case by (auto intro: seq elim: matches_seqE)
qed (auto intro: matches.intros elim: matches_epsE matches_clsE matches_lookE matches_altE split: list.splits)

lemma search_from_iff:
  "search_from p b s \<longleftrightarrow> (\<exists>i n. i \<le> length s \<and> matches p (char_before b s i) (drop i s) n)"
proof (induction s arbitrary: b)
  case Nil
  have "match_ends p b [] \<noteq> [] \<longleftrightarrow> (\<exists>n. n \<in> set (match_ends p b []))" by (metis all_not_in_conv set_empty)
  then show ?case by (simp add: match_ends_iff char_before_def)
next
  case (Cons c cs)
  have e: "match_ends p b (c # cs) \<noteq> [] \<longleftrightarrow> (\<exists>n. n \<in> set (match_ends p b (c # cs)))" by (metis all_not_in_conv set_empty)
  have "(\<exists>i n. i \<le> length (c # cs) \<and> matches p (char_before b (c # cs) i) (drop i (c # cs)) n)
    \<longleftrightarrow> (\<exists>n. matches p b (c # cs) n) \<or> (\<exists>i n. i \<le> length cs \<and> matches p (char_before (Some c) cs i) (drop i cs) n)"
    (is "?L \<longleftrightarrow> ?R")
  proof
    assume ?L
    then obtain i n where i: "i \<le> length (c # cs)" "matches p (char_before b (c # cs) i) (drop i (c # cs)) n" by blast
    show ?R
    proof (cases i)
      case 0
      then show ?thesis using i(2) by (auto simp: char_before_def)
    next
      case (Suc j)
      have "char_before b (c # cs) (Suc j) = char_before (Some c) cs j"
        by (cases j) (simp_all add: char_before_def)
      then show ?thesis using i Suc by auto
    qed
  next
    assume ?R
    then show ?L
    proof
      assume "\<exists>n. matches p b (c # cs) n"
      then show ?L by (auto intro!: exI [of _ 0] simp: char_before_def)
    next
      assume "\<exists>i n. i \<le> length cs \<and> matches p (char_before (Some c) cs i) (drop i cs) n"
      then obtain i n where i: "i \<le> length cs" "matches p (char_before (Some c) cs i) (drop i cs) n" by blast
      have "char_before b (c # cs) (Suc i) = char_before (Some c) cs i"
        by (cases i) (simp_all add: char_before_def)
      with i show ?L by (intro exI [of _ "Suc i"] exI [of _ n]) simp
    qed
  qed
  then show ?case using Cons.IH [of "Some c"] e by (simp add: match_ends_iff)
qed

section \<open>Replacing\<close>

lemma p_seq_ends: "match_ends (p_seq ps) b s = map sum_list (group_ends ps b s)"
proof (induction ps arbitrary: b s rule: p_seq.induct)
  case (2 p)
  have "concat (map (\<lambda>n. [[n]]) ns) = map (\<lambda>n. [n]) ns" for ns :: "nat list" by (induction ns) auto
  then show ?case by (simp add: comp_def)
next
  case (3 p q qs)
  then show ?case by (simp add: map_concat comp_def del: group_ends.simps(2) add: group_ends.simps(2) [of p])
qed simp

lemma sub_from_unmatched: "\<not> search_from (p_seq ps) b s \<Longrightarrow> sub_from k ps f b s = s"
proof (induction k arbitrary: b s)
  case (Suc k)
  show ?case
  proof (cases s)
    case (Cons c cs)
    then have "group_ends ps b s = []" "\<not> search_from (p_seq ps) (Some c) cs"
      using Suc.prems by (simp_all add: p_seq_ends)
    then show ?thesis using Cons Suc.IH by simp
  qed simp
qed simp

text \<open>A text in which the pattern is not found stays as it is.\<close>

lemma pat_sub_unmatched: "\<not> pat_search (p_seq ps) s \<Longrightarrow> pat_sub ps f s = s"
  unfolding pat_sub_def pat_search_def by (rule sub_from_unmatched)

section \<open>White space around a line\<close>

text \<open>A pattern whose assertions take white space for the end of the text.\<close>

fun space_blind :: "pat \<Rightarrow> bool" where
  "space_blind (PLook Q) = (\<forall>w b a. py_space w \<longrightarrow> Q (Some w) a = Q None a \<and> Q b (Some w) = Q b None)"
| "space_blind (PSeq p q) = (space_blind p \<and> space_blind q)"
| "space_blind (PAlt p q) = (space_blind p \<and> space_blind q)"
| "space_blind (PStar p) = space_blind p"
| "space_blind _ = True"

lemma space_not_word: "py_space w \<Longrightarrow> \<not> word_char w"
  by (auto simp: py_space_def word_char_def Let_def is_digit_def is_lower_az_def is_upper_az_def)

lemma space_blind_boundary [simp]: "space_blind p_boundary"
  by (auto simp: p_boundary_def is_word_at_def space_not_word)

lemma space_blind_seq [simp]: "space_blind (p_seq ps) \<longleftrightarrow> list_all space_blind ps"
  by (induction ps rule: p_seq.induct) auto

lemma space_blind_alt [simp]: "space_blind (p_alt ps) \<longleftrightarrow> list_all space_blind ps"
  by (induction ps rule: p_alt.induct) auto

lemma space_blind_lit [simp]: "space_blind (p_lit s)" "space_blind (p_lit_ci s)"
  by (auto simp: p_lit_def p_lit_ci_def list_all_iff)

lemma space_blind_upto [simp]: "space_blind p \<Longrightarrow> space_blind (p_upto n p)"
  by (induction n) auto

lemma space_blind_opt [simp]: "space_blind (p_opt p) \<longleftrightarrow> space_blind p"
  by (auto simp: p_opt_def)

lemma matches_before_space:
  "matches p b s n \<Longrightarrow> space_blind p \<Longrightarrow> list_all py_space ws \<Longrightarrow> matches p b (s @ ws) n"
proof (induction rule: matches.induct)
  case (look Q b s)
  have "Q b (head_of (s @ ws))"
    using look by (cases s; cases ws) (auto simp: head_of_def)
  then show ?case by (rule matches.look)
next
  case (seq p b s n q m)
  have "n \<le> length s" using seq.hyps(1) by (rule matches_length)
  then have "char_before b (s @ ws) n = char_before b s n" "drop n (s @ ws) = drop n s @ ws"
    by (auto simp: char_before_def nth_append)
  then show ?case using seq by (auto intro!: matches.seq)
next
  case (star1 p b s n m)
  have "n \<le> length s" using star1.hyps(1) by (rule matches_length)
  then have "char_before b (s @ ws) n = char_before b s n" "drop n (s @ ws) = drop n s @ ws"
    by (auto simp: char_before_def nth_append)
  then show ?case using star1 by (auto intro!: matches.star1)
qed (auto intro: matches.intros)

lemma matches_after_space:
  "matches p b s n \<Longrightarrow> space_blind p \<Longrightarrow> b = None \<Longrightarrow> py_space w \<Longrightarrow> matches p (Some w) s n"
proof (induction rule: matches.induct)
  case (seq p b s n q m)
  then have "matches q (char_before (Some w) s n) (drop n s) m" by (cases "n = 0") (auto simp: char_before_def)
  then show ?case using seq by (auto intro: matches.seq)
next
  case (star1 p b s n m)
  then show ?case by (auto intro!: matches.star1 simp: char_before_def)
qed (auto intro: matches.intros)

text \<open>What is found in a line is found with white space around it.\<close>

lemma pat_search_trimmed:
  assumes "pat_search p l" "space_blind p" "list_all py_space us" "list_all py_space ws"
  shows "pat_search p (us @ l @ ws)"
proof -
  obtain i n where i: "i \<le> length l" "matches p (char_before None l i) (drop i l) n"
    using assms(1) unfolding pat_search_def search_from_iff by blast
  let ?t = "us @ l @ ws" and ?j = "length us + i"
  have m: "matches p (char_before None l i) (drop ?j ?t) n"
    using matches_before_space [OF i(2) assms(2,4)] i(1) by simp
  have "matches p (char_before None ?t ?j) (drop ?j ?t) n"
  proof (cases "i = 0 \<and> us \<noteq> []")
    case True
    then have "char_before None ?t ?j = Some (last us)" "py_space (last us)" "char_before None l i = None"
      using assms(3) by (auto simp: char_before_def nth_append last_conv_nth list_all_iff)
    then show ?thesis using matches_after_space [OF m assms(2)] by simp
  next
    case False
    then have "char_before None ?t ?j = char_before None l i"
      using i(1) by (auto simp: char_before_def nth_append)
    then show ?thesis using m by simp
  qed
  moreover have "?j \<le> length ?t" using i(1) by simp
  ultimately show ?thesis unfolding pat_search_def search_from_iff by blast
qed

text \<open>What a pattern over some characters takes consists of these characters.\<close>

fun only :: "(char \<Rightarrow> bool) \<Rightarrow> pat \<Rightarrow> bool" where
  "only P (PCls Q) = (\<forall>c. Q c \<longrightarrow> P c)"
| "only P (PSeq p q) = (only P p \<and> only P q)"
| "only P (PAlt p q) = (only P p \<and> only P q)"
| "only P (PStar p) = only P p"
| "only P _ = True"

lemma only_taken: "matches p b s n \<Longrightarrow> only P p \<Longrightarrow> list_all P (take n s)"
  by (induction rule: matches.induct) (auto simp: take_add)

text \<open>A sequence is found only where its first parts are.\<close>

lemma p_seq_Cons_iff: "matches (p_seq (p # ps)) b s n \<longleftrightarrow>
  (\<exists>i j. n = i + j \<and> matches p b s i \<and> matches (p_seq ps) (char_before b s i) (drop i s) j)"
proof (cases ps)
  case Nil
  have "matches PEps b' s' j \<longleftrightarrow> j = 0" for b' s' j by (auto intro: eps elim: matches_epsE)
  then show ?thesis using Nil by simp
next
  case (Cons q qs)
  then show ?thesis by (auto elim!: matches_seqE intro: seq)
qed

lemma p_seq_front: "matches (p_seq (ps @ qs)) b s n \<Longrightarrow> \<exists>m. matches (p_seq ps) b s m"
proof (induction ps arbitrary: b s n)
  case Nil
  then show ?case by (auto intro: eps)
next
  case (Cons p ps)
  then show ?case unfolding append_Cons p_seq_Cons_iff by blast
qed

lemma pat_search_front: "pat_search (p_seq (ps @ qs)) s \<Longrightarrow> pat_search (p_seq ps) s"
  unfolding pat_search_def search_from_iff using p_seq_front by blast

lemma pat_search_alt: "pat_search (PAlt p q) s \<longleftrightarrow> pat_search p s \<or> pat_search q s"
  unfolding pat_search_def search_from_iff by (blast elim: matches_altE intro: alt1 alt2)

lemma pat_search_any: "pat_search (p_alt ps) s \<Longrightarrow> \<exists>p \<in> set ps. pat_search p s"
proof (induction ps rule: p_alt.induct)
  case 1
  have "\<not> matches (PCls (\<lambda>_. False)) b t n" for b t n by (auto elim: matches_clsE)
  then show ?case using 1 unfolding pat_search_def search_from_iff by simp
qed (auto simp: pat_search_alt)

text \<open>A part of a sequence that was found was found itself.\<close>

lemma p_seq_part: "matches (p_seq ps) b s n \<Longrightarrow> p \<in> set ps \<Longrightarrow> \<exists>b' i m. matches p b' (drop i s) m"
proof (induction ps arbitrary: b s n)
  case (Cons q ps)
  obtain i j where m: "matches q b s i" "matches (p_seq ps) (char_before b s i) (drop i s) j"
    using Cons.prems(1) unfolding p_seq_Cons_iff by blast
  show ?case
  proof (cases "p = q")
    case True
    then show ?thesis using m(1) by (intro exI [of _ b] exI [of _ 0] exI [of _ i]) simp
  next
    case False
    then obtain b' k l where "matches p b' (drop k (drop i s)) l" using Cons.IH [OF m(2)] Cons.prems(2) by auto
    then show ?thesis by auto
  qed
qed simp

lemma p_alt_part: "matches (p_alt ps) b s n \<Longrightarrow> \<exists>p \<in> set ps. matches p b s n"
  by (induction ps rule: p_alt.induct) (auto elim: matches_clsE matches_altE)

lemma p_lit_ci_taken: "matches (p_lit_ci w) b s n \<Longrightarrow> n = length w \<and> py_lower (take n s) = py_lower w \<and> n \<le> length s"
proof (induction w arbitrary: b s n)
  case Nil
  then show ?case by (auto simp: p_lit_ci_def py_lower_def elim: matches_epsE)
next
  case (Cons c w)
  obtain i j where m: "n = i + j" "matches (PCls (\<lambda>d. lower_char d = lower_char c)) b s i"
      "matches (p_lit_ci w) (char_before b s i) (drop i s) j"
    using Cons.prems unfolding p_lit_ci_def list.map p_seq_Cons_iff by blast
  obtain d ds where "s = d # ds" "lower_char d = lower_char c" "i = 1" using m(2) by (auto elim: matches_clsE)
  then show ?case using Cons.IH [OF m(3)] m(1) by (auto simp: py_lower_def)
qed

text \<open>A word found without regard to case is contained in the lower-cased text.\<close>

lemma contains_strI: "contains_str w (u @ w @ v)"
proof (induction u)
  case Nil
  have "starts_with w (w @ v)" by (simp add: starts_with_def)
  then show ?case by (cases "w @ v") auto
qed simp

lemma p_lit_ci_contained: "matches (p_lit_ci w) b (drop i s) n \<Longrightarrow> contains_str (py_lower w) (py_lower s)"
proof -
  assume "matches (p_lit_ci w) b (drop i s) n"
  then have n: "py_lower (take n (drop i s)) = py_lower w" using p_lit_ci_taken by blast
  have "py_lower s = py_lower (take i s @ take n (drop i s) @ drop n (drop i s))"
    by (simp only: append_take_drop_id)
  also have "\<dots> = py_lower (take i s) @ py_lower w @ py_lower (drop n (drop i s))"
    using n by (simp add: py_lower_def)
  finally show ?thesis using contains_strI by metis
qed

lemma word_contained:
  assumes "pat_search (p_seq ps) s" "p_alt (map p_lit_ci ws) \<in> set ps"
  shows "\<exists>w \<in> set ws. contains_str (py_lower w) (py_lower s)"
proof -
  obtain b i n where "matches (p_seq ps) b (drop i s) n"
    using assms(1) unfolding pat_search_def search_from_iff by blast
  then obtain b' j m where "matches (p_alt (map p_lit_ci ws)) b' (drop j (drop i s)) m"
    using p_seq_part assms(2) by blast
  then obtain w where "w \<in> set ws" "matches (p_lit_ci w) b' (drop (j + i) s) m"
    using p_alt_part by fastforce
  then show ?thesis using p_lit_ci_contained by blast
qed

text \<open>A pattern without a match anywhere finds nothing.\<close>

lemma findall_nothing:
  "(\<And>b i n. \<not> matches p b (drop i s) n) \<Longrightarrow> findall_from k p b s = []"
proof (induction k arbitrary: b s)
  case (Suc k)
  have "match_ends p b s = []" using Suc.prems [of b 0] match_ends_iff [of _ p b s] by (metis drop0 list.set_intros(1) neq_Nil_conv)
  moreover have "findall_from k p b' (tl s) = []" for b'
    using Suc.IH [of "tl s" b'] Suc.prems by (metis drop_Suc)
  ultimately show ?case by (cases s) auto
qed simp

end
