(* ===== verification/Lines.thy ===== *)
theory Lines
  imports Pattern
begin

text \<open>
  Text as a sequence of lines: \<open>str.splitlines\<close> on the line boundaries below 256, and the
  white-space cleaning that both the crawler (\<open>_clean_whitespace\<close>, src/src/crawler.py) and the
  sanitizer (src/src/security/untrusted_content.py) finish with.
\<close>

definition line_break :: "char \<Rightarrow> bool" where
  "line_break c \<longleftrightarrow> code c \<in> {10, 11, 12, 13, 28, 29, 30, 133}"

text \<open>The line being read is \<open>cur\<close>; a carriage return takes the line feed after it along.\<close>

fun splitlines_from :: "string \<Rightarrow> string \<Rightarrow> string list" where
  "splitlines_from cur [] = (if cur = [] then [] else [cur])"
| "splitlines_from cur [c] = (if line_break c then [cur] else [cur @ [c]])"
| "splitlines_from cur (c # d # cs) =
    (if code c = 13 \<and> code d = 10 then cur # splitlines_from [] cs
     else if line_break c then cur # splitlines_from [] (d # cs)
     else splitlines_from (cur @ [c]) (d # cs))"

definition splitlines :: "string \<Rightarrow> string list" where
  "splitlines s = splitlines_from [] s"

abbreviation newline :: char where
  "newline \<equiv> char_of (10 :: nat)"

text \<open>\<open>re.sub(r'\n{3,}', '\n\n', s)\<close> and \<open>re.sub(r' {3,}', ' ', s)\<close>\<close>

definition collapse_newlines :: "string \<Rightarrow> string" where
  "collapse_newlines s = pat_sub [p_atleast 3 (PCls (\<lambda>c. c = newline))] (\<lambda>_. [newline, newline]) s"

definition collapse_spaces :: "string \<Rightarrow> string" where
  "collapse_spaces s = pat_sub [p_atleast 3 (PCls (\<lambda>c. c = CHR '' ''))] (\<lambda>_. '' '') s"

definition clean_whitespace :: "string \<Rightarrow> string" where
  "clean_whitespace text =
    py_strip (collapse_spaces (collapse_newlines (join_with [newline] (map py_rstrip (splitlines text)))))"

section \<open>Lines\<close>

lemma splitlines_no_break:
  "list_all (\<lambda>c. \<not> line_break c) cur \<Longrightarrow> l \<in> set (splitlines_from cur s) \<Longrightarrow> list_all (\<lambda>c. \<not> line_break c) l"
  by (induction cur s rule: splitlines_from.induct) (auto split: if_splits)

lemma splitlines_lines: "l \<in> set (splitlines s) \<Longrightarrow> list_all (\<lambda>c. \<not> line_break c) l"
  using splitlines_no_break [of "[]" l s] by (simp add: splitlines_def)

lemma clean_whitespace_stripped: "py_strip (clean_whitespace s) = clean_whitespace s"
  by (simp add: clean_whitespace_def)

section \<open>Joining and splitting\<close>

lemma split_append:
  "split_on d (s @ t) = butlast (split_on d s) @ (last (split_on d s) @ hd (split_on d t)) # tl (split_on d t)"
proof (induction s)
  case Nil
  show ?case using list.collapse [OF split_on_nonempty [of d t]] by simp
next
  case (Cons c s)
  then show ?case by (cases "split_on d s") (auto split: list.splits)
qed

lemma split_join:
  assumes "\<And>l. l \<in> set ls \<Longrightarrow> d \<notin> set l" "ls \<noteq> []"
  shows "split_on d (join_with [d] ls) = ls"
  using assms
proof (induction ls)
  case (Cons l ls)
  have l: "split_on d l = [l]" using Cons.prems(1) by (intro split_on_absent) simp
  show ?case
  proof (cases ls)
    case (Cons m ms)
    then have "split_on d (join_with [d] ls) = ls" using Cons.IH Cons.prems(1) by simp
    then show ?thesis using l Cons by (simp add: split_append)
  qed (use l in simp)
qed simp

text \<open>The lines of a text without its surrounding white space are its lines, trimmed.\<close>

definition trimmed :: "string \<Rightarrow> string \<Rightarrow> bool" where
  "trimmed l' l \<longleftrightarrow> (\<exists>us ws. l = us @ l' @ ws \<and> list_all py_space us \<and> list_all py_space ws)"

lemma trimmedI: "list_all py_space us \<Longrightarrow> list_all py_space ws \<Longrightarrow> trimmed l (us @ l @ ws)"
  by (auto simp: trimmed_def)

lemma split_pieces: "l \<in> set (split_on d s) \<Longrightarrow> set l \<subseteq> set s"
proof (induction d s arbitrary: l rule: split_on.induct)
  case (2 d c cs)
  then show ?case by (auto split: list.splits if_splits) fastforce+
qed simp

lemma line_spaces: "list_all py_space us \<Longrightarrow> l \<in> set (split_on d us) \<Longrightarrow> list_all py_space l"
  using split_pieces [of l d us] by (auto simp: list_all_iff)

lemma lines_after_space:
  assumes "list_all py_space us" "l' \<in> set (split_on d t)"
  shows "\<exists>l \<in> set (split_on d (us @ t)). trimmed l' l"
proof (cases "l' = hd (split_on d t)")
  case True
  have "list_all py_space (last (split_on d us))" using assms(1) line_spaces last_in_set [OF split_on_nonempty] by blast
  then have "trimmed l' (last (split_on d us) @ l')" using trimmedI [of _ "[]"] by simp
  then show ?thesis using True by (auto simp: split_append)
next
  case False
  then have "l' \<in> set (tl (split_on d t))" using assms(2) by (cases "split_on d t") auto
  moreover have "trimmed l' l'" using trimmedI [of "[]" "[]"] by simp
  ultimately show ?thesis by (auto simp: split_append)
qed

lemma lines_before_space:
  assumes "list_all py_space ws" "l' \<in> set (split_on d t)"
  shows "\<exists>l \<in> set (split_on d (t @ ws)). trimmed l' l"
proof (cases "l' = last (split_on d t)")
  case True
  have "list_all py_space (hd (split_on d ws))" using assms(1) line_spaces hd_in_set [OF split_on_nonempty] by blast
  then have "trimmed l' (l' @ hd (split_on d ws))" using trimmedI [of "[]"] by simp
  then show ?thesis using True by (auto simp: split_append)
next
  case False
  then have "l' \<in> set (butlast (split_on d t))"
    using assms(2) by (cases "split_on d t" rule: rev_cases) auto
  moreover have "trimmed l' l'" using trimmedI [of "[]" "[]"] by simp
  ultimately show ?thesis by (auto simp: split_append)
qed

lemma trimmed_trans: "trimmed a b \<Longrightarrow> trimmed b c \<Longrightarrow> trimmed a c"
  unfolding trimmed_def by (metis append.assoc list_all_append)

lemma py_strip_parts: "\<exists>us ws. s = us @ py_strip s @ ws \<and> list_all py_space us \<and> list_all py_space ws"
proof -
  let ?t = "dropWhile py_space s"
  have "?t = rev (dropWhile py_space (rev ?t)) @ rev (takeWhile py_space (rev ?t))"
    by (metis rev_append rev_rev_ident takeWhile_dropWhile_id)
  moreover have "s = takeWhile py_space s @ ?t" by simp
  moreover have "list_all py_space (takeWhile py_space s)" "list_all py_space (rev (takeWhile py_space (rev ?t)))"
    by (auto simp: list_all_iff dest: set_takeWhileD)
  ultimately show ?thesis unfolding py_strip_def lstrip_by_def rstrip_by_def by metis
qed

lemma lines_of_strip:
  assumes "l' \<in> set (split_on d (py_strip s))"
  shows "\<exists>l \<in> set (split_on d s). trimmed l' l"
proof -
  obtain us ws where s: "s = us @ py_strip s @ ws" "list_all py_space us" "list_all py_space ws"
    using py_strip_parts by blast
  obtain m where "m \<in> set (split_on d (py_strip s @ ws))" "trimmed l' m"
    using lines_before_space [OF s(3) assms] by blast
  then show ?thesis using lines_after_space [OF s(2), of m d "py_strip s @ ws"] s(1) trimmed_trans by metis
qed

lemma rstrip_trimmed: "trimmed (py_rstrip l) l"
proof -
  have "l = rev (dropWhile py_space (rev l)) @ rev (takeWhile py_space (rev l))"
    by (metis rev_append rev_rev_ident takeWhile_dropWhile_id)
  moreover have "list_all py_space (rev (takeWhile py_space (rev l)))"
    by (auto simp: list_all_iff dest: set_takeWhileD)
  ultimately show ?thesis using trimmedI [of "[]"] unfolding py_rstrip_def rstrip_by_def by (metis append_Nil list.pred_inject(1))
qed

text \<open>Cutting runs of line feeds down leaves no line that was not there, but empty ones.\<close>

lemma newline_run:
  assumes "group_ends [p_atleast 3 (PCls (\<lambda>c. c = newline))] b s = ns # nss"
  shows "\<exists>n. ns = [n] \<and> take n s = replicate n newline \<and> n \<le> length s"
proof -
  let ?p = "p_atleast 3 (PCls (\<lambda>c. c = newline))"
  have "ns \<in> set (group_ends [?p] b s)" using assms by simp
  then obtain n where n: "ns = [n]" "n \<in> set (match_ends ?p b s)" by auto
  then have m: "matches ?p b s n" by (simp add: match_ends_iff)
  have "only (\<lambda>c. c = newline) ?p" by (simp add: p_atleast_def numeral_3_eq_3)
  then have "list_all (\<lambda>c. c = newline) (take n s)" using only_taken [OF m] by blast
  then have "take n s = replicate (length (take n s)) newline"
    by (metis (mono_tags, lifting) list_all_iff replicate_length_same)
  moreover have "n \<le> length s" using m by (rule matches_length)
  ultimately show ?thesis using n(1) by auto
qed

lemma split_newlines: "split_on d (replicate n d @ t) = replicate n [] @ split_on d t"
  by (induction n) auto

lemma collapse_from_lines:
  defines "f \<equiv> \<lambda>k. sub_from k [p_atleast 3 (PCls (\<lambda>c. c = newline))] (\<lambda>_. [newline, newline])"
  shows "hd (split_on newline (f k b s)) = hd (split_on newline s)
   \<and> set (tl (split_on newline (f k b s))) \<subseteq> insert [] (set (tl (split_on newline s)))"
proof (induction k arbitrary: b s)
  case (Suc k)
  let ?g = "group_ends [p_atleast 3 (PCls (\<lambda>c. c = newline))]"
  show ?case
  proof (cases s)
    case (Cons c cs)
    show ?thesis
    proof (cases "?g b s = [] \<or> sum_list (hd (?g b s)) = 0")
      case True
      then have e: "f (Suc k) b s = c # f k (Some c) cs"
        using Cons by (auto simp: f_def simp del: group_ends.simps split: list.splits)
      show ?thesis
      proof (cases "c = newline")
        case True
        then show ?thesis using Suc.IH [of "Some c" cs] e Cons
          by (cases "split_on newline cs"; cases "split_on newline (f k (Some c) cs)") auto
      next
        case False
        then show ?thesis using Suc.IH [of "Some c" cs] e Cons
          by (cases "split_on newline cs"; cases "split_on newline (f k (Some c) cs)") auto
      qed
    next
      case False
      then obtain ns nss where g: "?g b s = ns # nss" by (cases "?g b s") auto
      obtain n where n: "ns = [n]" "take n s = replicate n newline" "n \<le> length s" using newline_run [OF g] by blast
      have pos: "0 < n" using False g n(1) by simp
      let ?o = "f k (char_before b s n) (drop n s)"
      have e: "f (Suc k) b s = [newline, newline] @ ?o"
        using Cons g n(1) pos by (simp add: f_def del: group_ends.simps)
      have s: "split_on newline s = replicate n [] @ split_on newline (drop n s)"
        using n(2) split_newlines [of newline n "drop n s"] by (metis append_take_drop_id)
      obtain m where m: "n = Suc m" using pos by (cases n) auto
      show ?thesis using Suc.IH [of "char_before b s n" "drop n s"] e s m
        by (cases "split_on newline ?o"; cases "split_on newline (drop n s)") auto
    qed
  qed (simp add: f_def)
qed (auto simp: f_def)

lemma collapse_lines:
  assumes "l \<in> set (split_on newline (collapse_newlines s))"
  shows "l = [] \<or> l \<in> set (split_on newline s)"
  using assms collapse_from_lines [of "Suc (length s)" None s] list.set_sel [OF split_on_nonempty [of newline s]]
  unfolding collapse_newlines_def pat_sub_def
  by (cases "split_on newline (sub_from (Suc (length s)) [p_atleast 3 (PCls (\<lambda>c. c = newline))] (\<lambda>_. [newline, newline]) None s)")
    (auto simp del: sub_from.simps)

end
