(* ===== verification/Crawler.thy ===== *)
theory Crawler
  imports Url_Policy Url_Join Crawl Lines
begin

text \<open>
  The crawler (src/src/crawler.py): a crawl of one site through the URL policy, from the
  requested address to the pages, evidence and contacts it may keep.

  What the code takes from outside is the record \<open>crawl_world\<close>: the browser library (the
  navigations and requests its hooks see during a fetch, and what the fetch returns), the
  operating system's resolver and clock, the start of the browser, and the HTML parser's list of
  \<open>href\<close> values. Each use reads the tick counter of the crawler's state, so nothing about them is
  assumed to stay the same during a crawl.
\<close>

section \<open>What the browser library returns\<close>

record page_markdown =
  mk_fit :: string
  mk_raw :: string
  mk_text :: string

record provider_result =
  pr_success :: bool
  pr_url :: string
  pr_html :: string
  pr_markdown :: "page_markdown option"
  pr_internal_links :: "string list"
  pr_status_code :: "int option"
  pr_redirected_status_code :: "int option"
  pr_response_headers :: "(string \<times> string) list"

datatype fetch_outcome = Fetch_raised error | Fetched "provider_result option"

text \<open>A navigation about to start, or a request with the length of its redirect chain.\<close>

datatype browser_event = Navigate string | Request string nat

record crawl_world =
  wd_codec :: idna_codec
  wd_resolver :: "nat \<Rightarrow> resolver"
  wd_clock :: "nat \<Rightarrow> int"
  wd_start :: "nat \<Rightarrow> error option"
  wd_browse :: "nat \<Rightarrow> string \<Rightarrow> browser_event list \<times> fetch_outcome"
  wd_hrefs :: "string \<Rightarrow> string list"

record crawler_state =
  hc_policy :: url_policy
  hc_blocked :: "string list"
  hc_started :: bool
  hc_tick :: nat

definition new_crawler :: "url_policy \<Rightarrow> crawler_state" where
  "new_crawler policy = \<lparr>hc_policy = policy, hc_blocked = [], hc_started = False, hc_tick = 0\<rparr>"

definition check_url ::
  "crawl_world \<Rightarrow> string \<Rightarrow> string list option \<Rightarrow> crawler_state \<Rightarrow> url_decision res \<times> crawler_state" where
  "check_url w url hosts st =
    (case validate (wd_codec w) (wd_resolver w (hc_tick st)) url hosts (hc_policy st) of
       (r, p) \<Rightarrow> (r, st\<lparr>hc_policy := p, hc_tick := Suc (hc_tick st)\<rparr>))"

section \<open>The browser's hooks\<close>

datatype route_action = Route_abort | Route_continue | Route_raised error

definition secure_route :: "crawl_world \<Rightarrow> string \<Rightarrow> nat \<Rightarrow> crawler_state \<Rightarrow> route_action \<times> crawler_state" where
  "secure_route w url redirect_depth st =
    (case check_url w url None st of
       (Inl (UrlPolicyError c), st1) \<Rightarrow> (Route_abort, st1\<lparr>hc_blocked := hc_blocked st1 @ [c]\<rparr>)
     | (Inl e, st1) \<Rightarrow> (Route_raised e, st1)
     | (Inr _, st1) \<Rightarrow>
         if up_max_redirects (hc_policy st1) < redirect_depth
         then (Route_abort, st1\<lparr>hc_blocked := hc_blocked st1 @ [''too_many_redirects'']\<rparr>)
         else (Route_continue, st1))"

definition validate_navigation :: "crawl_world \<Rightarrow> string \<Rightarrow> crawler_state \<Rightarrow> unit res \<times> crawler_state" where
  "validate_navigation w url st =
    (case check_url w url None st of (Inl e, st1) \<Rightarrow> (Inl e, st1) | (Inr _, st1) \<Rightarrow> (Inr (), st1))"

fun run_event :: "crawl_world \<Rightarrow> browser_event \<Rightarrow> crawler_state \<Rightarrow> crawler_state" where
  "run_event w (Navigate url) st = snd (validate_navigation w url st)"
| "run_event w (Request url depth) st = snd (secure_route w url depth st)"

definition arun :: "crawl_world \<Rightarrow> string \<Rightarrow> crawler_state \<Rightarrow> fetch_outcome \<times> crawler_state" where
  "arun w url st =
    (case wd_browse w (hc_tick st) url of
       (events, outcome) \<Rightarrow> (outcome, fold (run_event w) events (st\<lparr>hc_tick := Suc (hc_tick st)\<rparr>)))"

section \<open>Reading a fetched page\<close>

text \<open>\<open>a or b\<close> on status codes: zero and nothing both give way.\<close>

definition page_metadata :: "provider_result \<Rightarrow> int option \<times> string" where
  "page_metadata r =
    (let redirected = pr_redirected_status_code r;
         status = (if redirected = None \<or> redirected = Some 0 then pr_status_code r else redirected);
         content_type = (case find (\<lambda>(k, v). py_lower k = ''content-type'') (pr_response_headers r) of
                           None \<Rightarrow> '''' | Some (k, v) \<Rightarrow> v)
     in (status, content_type))"

definition choose_markdown :: "page_markdown option \<Rightarrow> string" where
  "choose_markdown md =
    (case md of
       None \<Rightarrow> ''''
     | Some m \<Rightarrow>
         if length (py_strip (mk_fit m)) < 100 then (if mk_raw m \<noteq> '''' then mk_raw m else mk_text m)
         else mk_fit m)"

section \<open>Contacts of a page\<close>

definition email_local_char :: "char \<Rightarrow> bool" where
  "email_local_char c \<longleftrightarrow> is_lower_az c \<or> is_upper_az c \<or> is_digit c \<or> c \<in> set ''._%+-''"

definition email_domain_char :: "char \<Rightarrow> bool" where
  "email_domain_char c \<longleftrightarrow> is_lower_az c \<or> is_upper_az c \<or> is_digit c \<or> c \<in> set ''.-''"

definition email_regex :: pat where
  "email_regex = p_seq [p_plus (PCls email_local_char), PCls (\<lambda>c. c = CHR ''@''), p_plus (PCls email_domain_char),
     PCls (\<lambda>c. c = CHR ''.''), p_atleast 2 (PCls (\<lambda>c. is_lower_az c \<or> is_upper_az c))]"

definition email_blacklist_domains :: "string list" where
  "email_blacklist_domains = [''example.com'', ''sentry.io'', ''wixpress.com'', ''placeholder.com'',
     ''domain.com'', ''email.com'', ''yoursite.com'', ''test.com'']"

definition email_blacklist_extensions :: "string list" where
  "email_blacklist_extensions = [''.png'', ''.jpg'', ''.jpeg'', ''.gif'', ''.svg'', ''.webp'', ''.ico'']"

definition set_default :: "(string \<times> 'v) list \<Rightarrow> string \<Rightarrow> 'v \<Rightarrow> (string \<times> 'v) list" where
  "set_default d k v = (if k \<in> fst ` set d then d else d @ [(k, v)])"

text \<open>A mailto link: the address up to the first question mark, if it starts like one.\<close>

definition mailto_address :: "string \<Rightarrow> string option" where
  "mailto_address href =
    (if starts_with ''mailto:'' href
     then let email = py_lower (py_strip (before_char CHR ''?'' (replace_str ''mailto:'' '''' href)))
          in if pat_match email_regex email = None then None else Some email
     else None)"

definition found_emails :: "crawl_world \<Rightarrow> string \<Rightarrow> string \<Rightarrow> (string \<times> extraction_method) list" where
  "found_emails w html markdown =
    (let texts = map py_lower (pat_findall email_regex html @ pat_findall email_regex markdown);
         by_regex = foldl (\<lambda>d m. set_default d m REGEX) [] texts
     in foldl (\<lambda>d href. case mailto_address href of None \<Rightarrow> d | Some e \<Rightarrow> dict_set d e MAILTO)
          by_regex (wd_hrefs w html))"

definition is_system_email :: "string \<Rightarrow> bool" where
  "is_system_email email \<longleftrightarrow>
    (let parts = split_on CHR ''@'' email;
         ext = (if CHR ''.'' \<in> set email then CHR ''.'' # after_last CHR ''.'' email else '''')
     in length parts \<noteq> 2 \<or> parts ! 1 \<in> set email_blacklist_domains \<or> ext \<in> set email_blacklist_extensions)"

definition extract_contacts ::
  "crawl_world \<Rightarrow> string \<Rightarrow> string \<Rightarrow> string \<Rightarrow> int \<Rightarrow> string \<Rightarrow> contact_point list" where
  "extract_contacts w html markdown source_url collected_at evidence_sha256 =
    concat (map (\<lambda>(email, m).
        if is_system_email email then []
        else case from_email email (Some source_url) (Aware collected_at) m evidence_sha256 of
               Inl _ \<Rightarrow> [] | Inr c \<Rightarrow> [c])
      (found_emails w html markdown))"

text \<open>Of two contacts with one value the surer one stays, the first of equals.\<close>

fun merge_contacts ::
  "(string \<times> contact_point) list \<Rightarrow> contact_point list \<Rightarrow> (string \<times> contact_point) list" where
  "merge_contacts target [] = target"
| "merge_contacts target (c # cs) =
    merge_contacts
      (case dict_get target (cp_normalized_value c) of
         None \<Rightarrow> dict_set target (cp_normalized_value c) c
       | Some existing \<Rightarrow>
           if cp_confidence existing < cp_confidence c
           then dict_set target (cp_normalized_value c) c else target) cs"

section \<open>Internal links\<close>

definition priority_path_patterns :: "string list" where
  "priority_path_patterns = [''/contatt'', ''/contact'', ''/chi-siamo'', ''/about'', ''/servi'', ''/service'',
     ''/privacy'', ''/cookie'', ''/legal'', ''/impress'', ''/team'', ''/azienda'']"

definition is_priority_path :: "string \<Rightarrow> bool" where
  "is_priority_path path \<longleftrightarrow> list_ex (\<lambda>p. contains_str p (py_lower path)) priority_path_patterns"

fun join_links :: "string \<Rightarrow> string list \<Rightarrow> string list res" where
  "join_links base [] = Inr []"
| "join_links base (href # hrefs) =
    (if href = '''' then join_links base hrefs
     else bind_res (urljoin base href) (\<lambda>u. bind_res (join_links base hrefs) (\<lambda>us. Inr (u # us))))"

text \<open>
  The links worth visiting, in order. A refusal of the policy skips the link; any other
  exception leaves the loop and with it the crawl.
\<close>

fun priority_links ::
  "crawl_world \<Rightarrow> string \<Rightarrow> string list \<Rightarrow> string list \<Rightarrow> string list \<Rightarrow> string list \<Rightarrow> crawler_state \<Rightarrow>
   string list res \<times> crawler_state" where
  "priority_links w base_domain hosts seen acc [] st = (Inr acc, st)"
| "priority_links w base_domain hosts seen acc (l # ls) st =
    (case check_url w l (Some hosts) st of
       (Inl (UrlPolicyError _), st1) \<Rightarrow> priority_links w base_domain hosts seen acc ls st1
     | (Inl e, st1) \<Rightarrow> (Inl e, st1)
     | (Inr dec, st1) \<Rightarrow>
        (case urlparse (ud_normalized_url dec) of
           Inl e \<Rightarrow> (Inl e, st1)
         | Inr p \<Rightarrow>
             if (pu_netloc p \<noteq> '''' \<and> pu_netloc p \<noteq> base_domain)
                \<or> (pu_scheme p \<noteq> '''' \<and> pu_scheme p \<notin> {''http'', ''https''})
                \<or> ud_normalized_url dec \<in> set seen \<or> \<not> is_priority_path (pu_path p)
             then priority_links w base_domain hosts seen acc ls st1
             else priority_links w base_domain hosts (ud_normalized_url dec # seen)
                    (acc @ [ud_normalized_url dec]) ls st1))"

text \<open>\<open>xs[:n]\<close> for any integer.\<close>

definition slice_to :: "int \<Rightarrow> 'a list \<Rightarrow> 'a list" where
  "slice_to n xs = (if 0 \<le> n then take (nat n) xs else take (length xs - nat (- n)) xs)"

section \<open>Pages\<close>

text \<open>What a crawl has gathered so far: its result and the contacts by value.\<close>

type_synonym gathered = "crawl_result \<times> (string \<times> contact_point) list"

definition add_evidence :: "page_evidence \<Rightarrow> crawl_result \<Rightarrow> crawl_result" where
  "add_evidence e r = r\<lparr>cw_evidence := cw_evidence r @ [e]\<rparr>"

definition now_of :: "crawl_world \<Rightarrow> crawler_state \<Rightarrow> int" where
  "now_of w st = wd_clock w (hc_tick st)"

text \<open>A page that could not be fetched leaves evidence of the failure only.\<close>

definition failed_page :: "crawl_world \<Rightarrow> string \<Rightarrow> int option \<times> string \<Rightarrow> string \<Rightarrow> crawler_state \<Rightarrow> page_evidence" where
  "failed_page w url meta failure st =
    page_evidence_of (now_of w st) url url (fst meta) (snd meta) '''' (Some failure)"

definition page_content :: "provider_result \<Rightarrow> string" where
  "page_content p = clean_whitespace (choose_markdown (pr_markdown p))"

text \<open>A fetched page under the address the policy accepted: evidence, then page and contacts.\<close>

definition keep_page ::
  "crawl_world \<Rightarrow> string \<Rightarrow> string \<Rightarrow> provider_result \<Rightarrow> crawler_state \<Rightarrow> gathered \<Rightarrow> bool \<times> gathered" where
  "keep_page w requested final_url p st g =
    (let content = page_content p; meta = page_metadata p;
         e = page_evidence_of (now_of w st) requested final_url (fst meta) (snd meta) content None;
         r = add_evidence e (fst g)
     in if \<not> pe_valid e then (False, (r, snd g))
        else (True, (r\<lparr>cw_pages := dict_set (cw_pages r) final_url content\<rparr>,
               merge_contacts (snd g)
                 (extract_contacts w (pr_html p) (choose_markdown (pr_markdown p)) final_url
                    (pe_retrieved_at e) (pe_content_sha256 e)))))"

text \<open>One internal page; every exception becomes evidence of a failed page.\<close>

definition visit_page ::
  "crawl_world \<Rightarrow> string list \<Rightarrow> string \<Rightarrow> gathered \<Rightarrow> crawler_state \<Rightarrow> bool \<times> gathered \<times> crawler_state" where
  "visit_page w hosts url g st =
    (let broken = (\<lambda>st'. (False, (add_evidence (failed_page w url (None, '''') ''page_exception'' st') (fst g), snd g), st'))
     in case arun w url st of
       (Fetch_raised e, st1) \<Rightarrow> broken st1
     | (Fetched None, st1) \<Rightarrow>
         (False, (add_evidence (failed_page w url (None, '''') ''page_fetch_failed'' st1) (fst g), snd g), st1)
     | (Fetched (Some p), st1) \<Rightarrow>
         if \<not> pr_success p
         then (False, (add_evidence (failed_page w url (page_metadata p) ''page_fetch_failed'' st1) (fst g), snd g), st1)
         else (case check_url w (if pr_url p = '''' then url else pr_url p) (Some hosts) st1 of
                 (Inl e, st2) \<Rightarrow> broken st2
               | (Inr dec, st2) \<Rightarrow>
                   (case keep_page w url (ud_normalized_url dec) p st2 g of (kept, g') \<Rightarrow> (kept, g', st2))))"

fun visit_pages ::
  "crawl_world \<Rightarrow> int \<Rightarrow> string list \<Rightarrow> string list \<Rightarrow> int \<Rightarrow> gathered \<Rightarrow> crawler_state \<Rightarrow> gathered \<times> crawler_state" where
  "visit_pages w max_pages hosts [] crawled g st = (g, st)"
| "visit_pages w max_pages hosts (u # us) crawled g st =
    (if max_pages \<le> crawled then (g, st)
     else (case visit_page w hosts u g st of
             (kept, g', st') \<Rightarrow> visit_pages w max_pages hosts us (if kept then crawled + 1 else crawled) g' st'))"

section \<open>A crawl\<close>

text \<open>Exceptions that leave the body of \<open>crawl\<close>.\<close>

definition blocked_or_failed :: "error \<Rightarrow> crawl_result \<Rightarrow> crawl_result" where
  "blocked_or_failed e r =
    (case e of
       UrlPolicyError c \<Rightarrow> r\<lparr>cw_status := Crawl_BLOCKED, cw_error_code := Some c\<rparr>
     | _ \<Rightarrow> r\<lparr>cw_status := Crawl_FAILED, cw_error_code := Some ''crawler_exception''\<rparr>)"

text \<open>The verdict over what was gathered.\<close>

definition conclude :: "gathered \<Rightarrow> string list \<Rightarrow> crawl_result" where
  "conclude g blocked =
    (let r = (fst g)\<lparr>cw_contacts := sort_key cp_normalized_value (map snd (snd g)),
           cw_blocked_request_codes := blocked\<rparr>
     in case ensure_auditable_pages (cw_pages r) of
          Inl e \<Rightarrow> r\<lparr>cw_status := Crawl_EMPTY, cw_error_code := Some (error_text e)\<rparr>
        | Inr _ \<Rightarrow>
            r\<lparr>cw_status := (if blocked \<noteq> [] \<or> list_ex (\<lambda>e. \<not> pe_valid e) (cw_evidence r)
                           then Crawl_PARTIAL else Crawl_SUCCESS)\<rparr>)"

text \<open>From the homepage on: its evidence, the links on it, the pages behind them.\<close>

definition crawl_site ::
  "crawl_world \<Rightarrow> int \<Rightarrow> url_decision \<Rightarrow> url_decision \<Rightarrow> provider_result \<Rightarrow> crawl_result \<Rightarrow> crawler_state \<Rightarrow>
   crawl_result \<times> crawler_state" where
  "crawl_site w max_pages initial final home r0 st =
    (let hosts = [ud_hostname initial, ud_hostname final];
         r1 = r0\<lparr>cw_raw_html_home := pr_html home, cw_url := ud_normalized_url final\<rparr>
     in case keep_page w (ud_normalized_url initial) (ud_normalized_url final) home st (r1, []) of
       (False, (r, _)) \<Rightarrow>
         let code = pe_failure_code (last (cw_evidence r))
         in (r\<lparr>cw_status := (if code = Some ''content_too_short'' then Crawl_EMPTY else Crawl_INVALID_RESPONSE),
               cw_error_code := code\<rparr>, st)
     | (True, g) \<Rightarrow>
        (case join_links (ud_normalized_url final) (pr_internal_links home) of
           Inl e \<Rightarrow> (blocked_or_failed e (fst g), st)
         | Inr raw \<Rightarrow>
            (case urlparse (ud_normalized_url final) of
               Inl e \<Rightarrow> (blocked_or_failed e (fst g), st)
             | Inr base \<Rightarrow>
                (case priority_links w (pu_netloc base) hosts [ud_normalized_url final] [] raw st of
                   (Inl e, st1) \<Rightarrow> (blocked_or_failed e (fst g), st1)
                 | (Inr links, st1) \<Rightarrow>
                    (case visit_pages w max_pages hosts (slice_to (max_pages - 1) links) 1 g st1 of
                       (g', st2) \<Rightarrow> (conclude g' (hc_blocked st2), st2))))))"

definition start_browser :: "crawl_world \<Rightarrow> crawler_state \<Rightarrow> unit res \<times> crawler_state" where
  "start_browser w st =
    (if hc_started st then (Inr (), st)
     else case wd_start w (hc_tick st) of
            Some e \<Rightarrow> (Inl e, st\<lparr>hc_started := True, hc_tick := Suc (hc_tick st)\<rparr>)
          | None \<Rightarrow> (Inr (), st\<lparr>hc_started := True, hc_tick := Suc (hc_tick st)\<rparr>))"

definition crawl :: "crawl_world \<Rightarrow> int \<Rightarrow> string \<Rightarrow> crawler_state \<Rightarrow> crawl_result \<times> crawler_state" where
  "crawl w max_pages url st =
    (let r0 = new_crawl_result url url
     in case check_url w url None (st\<lparr>hc_policy := reset_dns_pins (hc_policy st), hc_blocked := []\<rparr>) of
       (Inl e, st1) \<Rightarrow> (blocked_or_failed e r0, st1)
     | (Inr initial, st1) \<Rightarrow>
        let r1 = r0\<lparr>cw_url := ud_normalized_url initial\<rparr> in
        (case start_browser w st1 of
           (Inl e, st2) \<Rightarrow> (blocked_or_failed e r1, st2)
         | (Inr _, st2) \<Rightarrow>
            (case arun w (ud_normalized_url initial) st2 of
               (Fetch_raised e, st3) \<Rightarrow> (blocked_or_failed e r1, st3)
             | (Fetched home, st3) \<Rightarrow>
                 if home = None \<or> \<not> pr_success (the home)
                 then (if hc_blocked st3 \<noteq> []
                       then r1\<lparr>cw_blocked_request_codes := hc_blocked st3, cw_status := Crawl_BLOCKED,
                              cw_error_code := Some (last (hc_blocked st3))\<rparr>
                       else r1\<lparr>cw_status := Crawl_FAILED, cw_error_code := Some ''homepage_fetch_failed''\<rparr>, st3)
                 else (case check_url w (if pr_url (the home) = '''' then ud_normalized_url initial
                                         else pr_url (the home)) None st3 of
                         (Inl e, st4) \<Rightarrow> (blocked_or_failed e r1, st4)
                       | (Inr final, st4) \<Rightarrow> crawl_site w max_pages initial final (the home) r1 st4))))"

definition close_crawler :: "crawler_state \<Rightarrow> crawler_state" where
  "close_crawler st = st\<lparr>hc_started := False\<rparr>"

section \<open>What a crawl may hold\<close>

text \<open>An address the policy accepted at some moment, with every resolved address public.\<close>

definition accepted_url :: "crawl_world \<Rightarrow> string \<Rightarrow> bool" where
  "accepted_url w u \<longleftrightarrow>
    (\<exists>t url hosts p dec p'. validate (wd_codec w) (wd_resolver w t) url hosts p = (Inr dec, p')
       \<and> u = ud_normalized_url dec \<and> \<not> is_local_host (ud_hostname dec) \<and> ud_resolved_ips dec \<noteq> []
       \<and> (\<forall>s \<in> set (ud_resolved_ips dec). is_public_text s))"

lemma check_url_accepted:
  assumes "check_url w url hosts st = (Inr dec, st')"
  shows "accepted_url w (ud_normalized_url dec)"
proof -
  obtain p' where v: "validate (wd_codec w) (wd_resolver w (hc_tick st)) url hosts (hc_policy st) = (Inr dec, p')"
    using assms by (auto simp: check_url_def split: prod.splits)
  obtain u where u: "checked_parts (wd_codec w) (hc_policy st) url = Inr (u, ud_hostname dec, ud_port dec)"
    and ips: "resolve_public_addresses (wd_resolver w (hc_tick st)) (ud_hostname dec) (ud_port dec) = Inr (ud_resolved_ips dec)"
    using v by (rule validate_Inr)
  show ?thesis
    unfolding accepted_url_def using v checked_parts_Inr [OF u] resolve_Inr [OF ips] by blast
qed

text \<open>An address needs an at sign.\<close>

lemma no_email_without_at: "CHR ''@'' \<notin> set s \<Longrightarrow> pat_findall email_regex s = []"
proof -
  assume s: "CHR ''@'' \<notin> set s"
  have "\<not> matches email_regex b (drop i s) n" for b i n
  proof
    assume "matches email_regex b (drop i s) n"
    then obtain b' j m where "matches (PCls (\<lambda>c. c = CHR ''@'')) b' (drop j (drop i s)) m"
      using p_seq_part [of _ b "drop i s" n "PCls (\<lambda>c. c = CHR ''@'')"] unfolding email_regex_def by fastforce
    then have "CHR ''@'' \<in> set (drop j (drop i s))" by (auto elim: matches_clsE)
    then show False using s by (meson in_set_dropD)
  qed
  then show ?thesis unfolding pat_findall_def by (rule findall_nothing)
qed

text \<open>Evidence behind a page, and behind a contact.\<close>

definition page_backed :: "crawl_world \<Rightarrow> page_evidence list \<Rightarrow> string \<times> string \<Rightarrow> bool" where
  "page_backed w es uc \<longleftrightarrow> accepted_url w (fst uc) \<and>
     (\<exists>e \<in> set es. pe_valid e \<and> pe_final_url e = fst uc \<and> pe_content_sha256 e = sha256_hex (utf8 (snd uc)))"

definition contact_backed :: "page_evidence list \<Rightarrow> string list \<Rightarrow> contact_point \<Rightarrow> bool" where
  "contact_backed es urls c \<longleftrightarrow> contact_point_ok c \<and>
     (\<exists>e \<in> set es. pe_valid e \<and> cp_source_url c = Some (pe_final_url e) \<and> pe_final_url e \<in> set urls
        \<and> cp_evidence_sha256 c = pe_content_sha256 e \<and> cp_collected_at c = Aware (pe_retrieved_at e))"

definition gathered_ok :: "crawl_world \<Rightarrow> gathered \<Rightarrow> bool" where
  "gathered_ok w g \<longleftrightarrow> distinct (dict_keys (cw_pages (fst g)))
     \<and> (\<forall>uc \<in> set (cw_pages (fst g)). page_backed w (cw_evidence (fst g)) uc)
     \<and> (\<forall>e \<in> set (cw_evidence (fst g)). pe_valid e \<longrightarrow> pe_final_url e \<in> set (dict_keys (cw_pages (fst g))))
     \<and> distinct (dict_keys (snd g))
     \<and> (\<forall>(k, c) \<in> set (snd g). k = cp_normalized_value c
          \<and> contact_backed (cw_evidence (fst g)) (dict_keys (cw_pages (fst g))) c)"

lemma page_backed_more: "page_backed w es uc \<Longrightarrow> set es \<subseteq> set es' \<Longrightarrow> page_backed w es' uc"
  by (auto simp: page_backed_def)

lemma contact_backed_more:
  "contact_backed es urls c \<Longrightarrow> set es \<subseteq> set es' \<Longrightarrow> set urls \<subseteq> set urls' \<Longrightarrow> contact_backed es' urls' c"
  unfolding contact_backed_def by blast

lemma set_dict_set: "x \<in> set (dict_set d k v) \<Longrightarrow> x = (k, v) \<or> x \<in> set d"
  by (induction d k v rule: dict_set.induct) (auto split: if_splits)

lemma length_dict_set: "length (dict_set d k v) \<le> Suc (length d)"
  by (induction d k v rule: dict_set.induct) auto

lemma gathered_evidence:
  assumes "gathered_ok w (r, cs)" "pe_valid e \<Longrightarrow> pe_final_url e \<in> set (dict_keys (cw_pages r))"
  shows "gathered_ok w (add_evidence e r, cs)"
proof -
  have "set (cw_evidence r) \<subseteq> set (cw_evidence (add_evidence e r))" by (auto simp: add_evidence_def)
  then show ?thesis
    using assms page_backed_more contact_backed_more [OF _ _ subset_refl]
    by (fastforce simp: gathered_ok_def add_evidence_def)
qed

lemma failed_page_invalid: "\<not> pe_valid (failed_page w url meta failure st)"
  by (simp add: failed_page_def page_evidence_of_def Let_def)

lemma extract_contacts_backed:
  assumes "c \<in> set (extract_contacts w html md url t sha)"
  shows "contact_point_ok c \<and> cp_source_url c = Some url \<and> cp_evidence_sha256 c = sha \<and> cp_collected_at c = Aware t"
proof -
  obtain email m where "from_email email (Some url) (Aware t) m sha = Inr c"
    using assms by (auto simp: extract_contacts_def split: if_splits sum.splits)
  then show ?thesis by (rule from_email_Inr) simp
qed

lemma merge_contacts_inv:
  assumes "distinct (dict_keys target)" "\<forall>(k, c) \<in> set target. k = cp_normalized_value c \<and> Q c"
    and "\<forall>c \<in> set cs. Q c"
  shows "distinct (dict_keys (merge_contacts target cs))
    \<and> (\<forall>(k, c) \<in> set (merge_contacts target cs). k = cp_normalized_value c \<and> Q c)"
  using assms
proof (induction target cs rule: merge_contacts.induct)
  case (2 target c cs)
  define t where "t = (case dict_get target (cp_normalized_value c) of
         None \<Rightarrow> dict_set target (cp_normalized_value c) c
       | Some existing \<Rightarrow>
           if cp_confidence existing < cp_confidence c
           then dict_set target (cp_normalized_value c) c else target)"
  have t: "t = target \<or> t = dict_set target (cp_normalized_value c) c" by (simp add: t_def split: option.split)
  have "distinct (dict_keys t)" using t 2(2) distinct_keys_dict_set [of target] by auto
  moreover have "\<forall>(k, c) \<in> set t. k = cp_normalized_value c \<and> Q c"
    using t 2(3,4) by (auto dest!: set_dict_set)
  ultimately show ?case using 2(1,4) by (simp add: t_def)
qed simp

lemma keep_page_ok:
  assumes "gathered_ok w (r, cs)" "accepted_url w final" "keep_page w requested final p st (r, cs) = (kept, g)"
  shows "gathered_ok w g"
proof -
  let ?content = "page_content p" and ?meta = "page_metadata p"
  define e where "e = page_evidence_of (now_of w st) requested final (fst ?meta) (snd ?meta) ?content None"
  have e: "pe_final_url e = final" "pe_content_sha256 e = sha256_hex (utf8 ?content)"
    by (simp_all add: e_def page_evidence_of_def Let_def)
  show ?thesis
  proof (cases "pe_valid e")
    case False
    then have "gathered_ok w (add_evidence e r, cs)" by (intro gathered_evidence [OF assms(1)]) simp
    then show ?thesis using assms(3) False by (simp add: keep_page_def Let_def e_def)
  next
    case True
    let ?r = "(add_evidence e r)\<lparr>cw_pages := dict_set (cw_pages r) final ?content\<rparr>"
    let ?new = "extract_contacts w (pr_html p) (choose_markdown (pr_markdown p)) final (pe_retrieved_at e) (pe_content_sha256 e)"
    let ?es = "cw_evidence r @ [e]" and ?urls = "dict_keys (dict_set (cw_pages r) final ?content)"
    have g: "g = (?r, merge_contacts cs ?new)"
      using assms(3) True by (simp add: keep_page_def Let_def e_def add_evidence_def)
    have r: "cw_evidence ?r = ?es" "cw_pages ?r = dict_set (cw_pages r) final ?content" by (simp_all add: add_evidence_def)
    have "set (cw_evidence r) \<subseteq> set ?es" "set (dict_keys (cw_pages r)) \<subseteq> set ?urls" by auto
    note more = page_backed_more [OF _ this(1)] contact_backed_more [OF _ this]
    have pages: "\<forall>uc \<in> set (dict_set (cw_pages r) final ?content). page_backed w ?es uc"
    proof
      fix uc assume "uc \<in> set (dict_set (cw_pages r) final ?content)"
      then have "uc = (final, ?content) \<or> uc \<in> set (cw_pages r)" by (rule set_dict_set)
      then show "page_backed w ?es uc"
      proof
        assume "uc = (final, ?content)"
        then show ?thesis using True assms(2) e by (auto simp: page_backed_def)
      next
        assume "uc \<in> set (cw_pages r)"
        then show ?thesis using assms(1) more(1) by (simp add: gathered_ok_def)
      qed
    qed
    have placed: "\<forall>e \<in> set ?es. pe_valid e \<longrightarrow> pe_final_url e \<in> set ?urls"
      using assms(1) e by (auto simp: gathered_ok_def)
    have keys: "distinct ?urls"
      using assms(1) distinct_keys_dict_set [of "cw_pages r"] by (simp add: gathered_ok_def)
    have new: "\<forall>c \<in> set ?new. contact_backed ?es ?urls c"
    proof
      fix c assume "c \<in> set ?new"
      note c = extract_contacts_backed [OF this]
      show "contact_backed ?es ?urls c" unfolding contact_backed_def using c True e(1) by (auto intro!: bexI [of _ e])
    qed
    have old: "\<forall>(k, c) \<in> set cs. k = cp_normalized_value c \<and> contact_backed ?es ?urls c"
      using assms(1) more(2) by (auto simp: gathered_ok_def)
    have "distinct (dict_keys cs)" using assms(1) by (simp add: gathered_ok_def)
    then show ?thesis
      using merge_contacts_inv [OF _ old new] pages placed keys r by (simp add: gathered_ok_def g)
  qed
qed

lemma keep_page_count:
  assumes "keep_page w requested final p st g = (kept, g')"
  shows "length (cw_pages (fst g')) \<le> length (cw_pages (fst g)) + (if kept then 1 else 0)"
  using assms length_dict_set [of "cw_pages (fst g)" final "page_content p"]
  by (auto simp: keep_page_def Let_def add_evidence_def split: if_splits)

lemma visit_page_ok:
  assumes "gathered_ok w g" "visit_page w hosts url g st = (kept, g', st')"
  shows "gathered_ok w g' \<and> length (cw_pages (fst g')) \<le> length (cw_pages (fst g)) + (if kept then 1 else 0)"
proof -
  obtain r cs where g: "g = (r, cs)" by (cases g) auto
  have fail: "gathered_ok w (add_evidence e r, cs) \<and> length (cw_pages (add_evidence e r)) = length (cw_pages r)"
    if "\<not> pe_valid e" for e
    using gathered_evidence [of w r cs e] assms(1) that by (auto simp: g add_evidence_def)
  show ?thesis
  proof (cases "\<exists>e. \<not> pe_valid e \<and> g' = (add_evidence e r, cs) \<and> \<not> kept")
    case True
    then show ?thesis using fail by (auto simp: g)
  next
    case False
    then obtain p f dec st1 st2 where c: "check_url w f (Some hosts) st1 = (Inr dec, st2)"
      "keep_page w url (ud_normalized_url dec) p st2 (r, cs) = (kept, g')"
      using assms(2)
      by (auto simp: visit_page_def g Let_def failed_page_invalid split: prod.splits fetch_outcome.splits option.splits if_splits sum.splits)
    then show ?thesis
      using keep_page_ok [OF assms(1) [unfolded g] check_url_accepted [OF c(1)] c(2)] keep_page_count [OF c(2)] by (simp add: g)
  qed
qed

lemma visit_pages_ok:
  assumes "gathered_ok w g" "visit_pages w max_pages hosts us n g st = (g', st')"
    and "int (length (cw_pages (fst g))) \<le> n" "n \<le> max 1 max_pages"
  shows "gathered_ok w g' \<and> int (length (cw_pages (fst g'))) \<le> max 1 max_pages"
  using assms
proof (induction us arbitrary: n g st)
  case (Cons u us)
  show ?case
  proof (cases "max_pages \<le> n")
    case True
    then show ?thesis using Cons.prems by simp
  next
    case False
    obtain kept g1 st1 where v: "visit_page w hosts u g st = (kept, g1, st1)" by (cases "visit_page w hosts u g st") auto
    note ok = visit_page_ok [OF Cons.prems(1) v]
    have run: "visit_pages w max_pages hosts us (if kept then n + 1 else n) g1 st1 = (g', st')"
      using Cons.prems(2) False v by simp
    have "int (length (cw_pages (fst g1))) \<le> (if kept then n + 1 else n)" using ok Cons.prems(3) by (auto split: if_splits)
    moreover have "(if kept then n + 1 else n) \<le> max 1 max_pages" using False Cons.prems(4) by (auto simp: max_def)
    ultimately show ?thesis using Cons.IH [OF _ run] ok by blast
  qed
qed simp

section \<open>The result of a crawl\<close>

text \<open>The three things every result satisfies, whatever the browser returned.\<close>

definition result_backed :: "crawl_world \<Rightarrow> crawl_result \<Rightarrow> bool" where
  "result_backed w r \<longleftrightarrow> distinct (dict_keys (cw_pages r))
     \<and> (\<forall>uc \<in> set (cw_pages r). page_backed w (cw_evidence r) uc)
     \<and> (\<forall>e \<in> set (cw_evidence r). pe_valid e \<longrightarrow> pe_final_url e \<in> set (dict_keys (cw_pages r)))
     \<and> distinct (map cp_normalized_value (cw_contacts r)) \<and> sorted (map cp_normalized_value (cw_contacts r))
     \<and> (\<forall>c \<in> set (cw_contacts r). contact_backed (cw_evidence r) (dict_keys (cw_pages r)) c)"

definition verdict_ok :: "crawl_result \<Rightarrow> bool" where
  "verdict_ok r \<longleftrightarrow> (cw_status r \<in> {Crawl_SUCCESS, Crawl_PARTIAL} \<longleftrightarrow> is_auditable r)
     \<and> (cw_status r = Crawl_SUCCESS \<longrightarrow> cw_blocked_request_codes r = [] \<and> list_all pe_valid (cw_evidence r))
     \<and> cw_status r \<noteq> Crawl_PENDING"

lemma contacts_of_gathered:
  assumes "distinct (dict_keys cs)" "\<forall>(k, c) \<in> set cs. k = cp_normalized_value c"
  shows "distinct (map cp_normalized_value (map snd cs))"
proof -
  have "map cp_normalized_value (map snd cs) = dict_keys cs"
    using assms(2) by (auto simp: dict_keys_def)
  with assms(1) show ?thesis by simp
qed

lemma conclude_ok:
  assumes "gathered_ok w g"
  shows "result_backed w (conclude g blocked) \<and> verdict_ok (conclude g blocked)
    \<and> cw_pages (conclude g blocked) = cw_pages (fst g)"
proof -
  let ?cs = "sort_key cp_normalized_value (map snd (snd g))"
  define r where "r = (fst g)\<lparr>cw_contacts := ?cs, cw_blocked_request_codes := blocked\<rparr>"
  have "distinct (map cp_normalized_value (map snd (snd g)))"
    by (rule contacts_of_gathered) (use assms in \<open>auto simp: gathered_ok_def\<close>)
  then have d: "distinct (map cp_normalized_value ?cs)"
    by (auto simp: distinct_map inj_on_def)
  have s: "sorted (map cp_normalized_value ?cs)" by simp
  have b: "\<forall>c \<in> set ?cs. contact_backed (cw_evidence r) (dict_keys (cw_pages r)) c"
    using assms by (auto simp: gathered_ok_def r_def)
  have base: "result_backed w r"
    using assms d s b by (simp add: result_backed_def gathered_ok_def r_def)
  have valid: "valid_evidence (r\<lparr>cw_status := st\<rparr>) \<noteq> []" if "ensure_auditable_pages (cw_pages r) = Inr ()" for st
  proof -
    have "cw_pages r \<noteq> []" using that by (auto simp: ensure_auditable_pages_def)
    then obtain uc where "uc \<in> set (cw_pages r)" by (cases "cw_pages r") auto
    then show ?thesis using base by (auto simp: result_backed_def page_backed_def valid_evidence_def filter_empty_conv)
  qed
  have c: "conclude g blocked = (case ensure_auditable_pages (cw_pages r) of
          Inl e \<Rightarrow> r\<lparr>cw_status := Crawl_EMPTY, cw_error_code := Some (error_text e)\<rparr>
        | Inr _ \<Rightarrow> r\<lparr>cw_status := (if blocked \<noteq> [] \<or> list_ex (\<lambda>e. \<not> pe_valid e) (cw_evidence r)
                           then Crawl_PARTIAL else Crawl_SUCCESS)\<rparr>)"
    by (simp only: conclude_def r_def Let_def)
  show ?thesis
  proof (cases "ensure_auditable_pages (cw_pages r)")
    case (Inl e)
    then show ?thesis using c base
      by (simp add: verdict_ok_def result_backed_def is_auditable_def) (simp add: r_def)
  next
    case (Inr u)
    let ?r = "conclude g blocked"
    have r: "?r = r\<lparr>cw_status := cw_status ?r\<rparr>" "cw_status ?r \<in> {Crawl_SUCCESS, Crawl_PARTIAL}" "cw_pages ?r = cw_pages r"
      "cw_status ?r = Crawl_SUCCESS \<longrightarrow> blocked = [] \<and> list_all pe_valid (cw_evidence r)"
      using Inr c by (auto simp: list_ex_iff list_all_iff)
    have "valid_evidence ?r \<noteq> []" using valid Inr r(1) by (metis old.unit.exhaust)
    then have "is_auditable ?r" using r Inr by (simp add: is_auditable_def ok_auditable)
    moreover have "result_backed w ?r" using base by (subst r(1)) (simp add: result_backed_def)
    moreover have "cw_blocked_request_codes ?r = blocked" "cw_evidence ?r = cw_evidence r" using Inr c by (simp_all add: r_def)
    ultimately show ?thesis using r by (auto simp: verdict_ok_def r_def)
  qed
qed

lemma nothing_gathered:
  "cw_pages r = [] \<Longrightarrow> cw_contacts r = [] \<Longrightarrow> valid_evidence r = [] \<Longrightarrow> cw_status r \<in> {Crawl_BLOCKED, Crawl_FAILED, Crawl_EMPTY, Crawl_INVALID_RESPONSE}
   \<Longrightarrow> result_backed w r \<and> verdict_ok r"
  by (auto simp: result_backed_def verdict_ok_def is_auditable_def dict_keys_def valid_evidence_def filter_empty_conv)

lemma blocked_or_failed_frame:
  "cw_pages (blocked_or_failed e r) = cw_pages r" "cw_contacts (blocked_or_failed e r) = cw_contacts r"
  "cw_evidence (blocked_or_failed e r) = cw_evidence r"
  "cw_status (blocked_or_failed e r) \<in> {Crawl_BLOCKED, Crawl_FAILED}"
  by (simp_all add: blocked_or_failed_def split: error.split)

lemma gathered_stopped:
  assumes "gathered_ok w g" "cw_contacts (fst g) = []"
  shows "result_backed w (blocked_or_failed e (fst g)) \<and> verdict_ok (blocked_or_failed e (fst g))"
  using assms blocked_or_failed_frame [of e "fst g"]
  by (auto simp: result_backed_def verdict_ok_def is_auditable_def gathered_ok_def)

lemma keep_page_contacts:
  "keep_page w requested final p st g = (kept, g') \<Longrightarrow> cw_contacts (fst g') = cw_contacts (fst g)
   \<and> (\<not> kept \<longrightarrow> cw_pages (fst g') = cw_pages (fst g))"
  by (auto simp: keep_page_def Let_def add_evidence_def split: if_splits)

lemma visit_page_contacts:
  assumes "visit_page w hosts url g st = (kept, g', st')"
  shows "cw_contacts (fst g') = cw_contacts (fst g)"
  using assms
  by (auto simp: visit_page_def Let_def add_evidence_def dest!: keep_page_contacts
      split: prod.splits fetch_outcome.splits option.splits if_splits sum.splits)

lemma crawl_site_ok:
  assumes run: "crawl_site w max_pages initial final home r0 st = (r, st')"
    and start: "cw_pages r0 = []" "cw_contacts r0 = []" "cw_evidence r0 = []" and accepted: "accepted_url w (ud_normalized_url final)"
  shows "result_backed w r \<and> verdict_ok r \<and> int (length (cw_pages r)) \<le> max 1 max_pages"
proof -
  let ?r1 = "r0\<lparr>cw_raw_html_home := pr_html home, cw_url := ud_normalized_url final\<rparr>"
  obtain kept g where k: "keep_page w (ud_normalized_url initial) (ud_normalized_url final) home st (?r1, []) = (kept, g)"
    by (cases "keep_page w (ud_normalized_url initial) (ud_normalized_url final) home st (?r1, [])") auto
  have "gathered_ok w (?r1, [])" using start by (simp add: gathered_ok_def dict_keys_def)
  then have g: "gathered_ok w g" by (rule keep_page_ok [OF _ accepted k])
  have n: "int (length (cw_pages (fst g))) \<le> 1" "cw_contacts (fst g) = []" "\<not> kept \<longrightarrow> cw_pages (fst g) = []"
    using keep_page_count [OF k] keep_page_contacts [OF k] start by (auto split: if_splits)
  show ?thesis
  proof (cases kept)
    case False
    then obtain s c where "r = (fst g)\<lparr>cw_status := s, cw_error_code := c\<rparr>" "s \<in> {Crawl_EMPTY, Crawl_INVALID_RESPONSE}"
      using run k by (cases g) (auto simp: crawl_site_def Let_def)
    moreover have "valid_evidence (fst g) = []"
      using g n(3) False by (auto simp: gathered_ok_def valid_evidence_def filter_empty_conv dict_keys_def)
    ultimately show ?thesis using nothing_gathered [of r w] n False by (auto simp: valid_evidence_def)
  next
    case True
    then consider e where "r = blocked_or_failed e (fst g)"
      | hosts links st1 g' st2 where "visit_pages w max_pages hosts links 1 g st1 = (g', st2)" "r = conclude g' (hc_blocked st2)"
      using run k by (auto simp: crawl_site_def Let_def split: sum.splits prod.splits)
    then show ?thesis
    proof cases
      case 1
      then show ?thesis using gathered_stopped [OF g n(2), of e] blocked_or_failed_frame [of e "fst g"] n(1) by auto
    next
      case 2
      have "gathered_ok w g' \<and> int (length (cw_pages (fst g'))) \<le> max 1 max_pages"
        using visit_pages_ok [OF g 2(1) n(1)] by simp
      then show ?thesis using conclude_ok [of w g' "hc_blocked st2"] 2(2) by simp
    qed
  qed
qed

lemma crawl_ok:
  assumes run: "crawl w max_pages url st = (r, st')"
  shows "result_backed w r \<and> verdict_ok r \<and> int (length (cw_pages r)) \<le> max 1 max_pages"
proof -
  consider e r1 where "r = blocked_or_failed e r1" "cw_pages r1 = []" "cw_contacts r1 = []" "cw_evidence r1 = []"
    | "cw_pages r = []" "cw_contacts r = []" "cw_evidence r = []" "cw_status r \<in> {Crawl_BLOCKED, Crawl_FAILED}"
    | initial final home r1 st4 u st3 where "crawl_site w max_pages initial final home r1 st4 = (r, st')"
      "cw_pages r1 = []" "cw_contacts r1 = []" "cw_evidence r1 = []" "check_url w u None st3 = (Inr final, st4)"
    using run
    by (auto simp: crawl_def Let_def new_crawl_result_def split: prod.splits sum.splits fetch_outcome.splits if_splits)
  then show ?thesis
  proof cases
    case 1
    then show ?thesis using nothing_gathered [of r w] blocked_or_failed_frame [of e r1] by (auto simp: valid_evidence_def)
  next
    case 2
    then show ?thesis using nothing_gathered [of r w] by (auto simp: valid_evidence_def)
  next
    case 3
    show ?thesis by (rule crawl_site_ok [OF 3(1-4) check_url_accepted [OF 3(5)]])
  qed
qed

end
