(* ===== verification/Guards.thy ===== *)
theory Guards
  imports Lines PyValue Url_Policy Discovery
begin

text \<open>
  Guards around untrusted and personal data: cells of a spreadsheet
  (src/src/security/spreadsheet.py), fragments of HTML and log lines
  (src/src/security/presentation.py), diagnostics (src/src/security/privacy.py), text on its way
  to a language model (src/src/security/untrusted_content.py) and the opt-in geolocation lookup
  (src/src/security/geolocation.py).
\<close>

section \<open>Spreadsheet cells\<close>

definition is_number :: "pyval \<Rightarrow> bool" where
  "is_number v \<longleftrightarrow> (case v of VInt _ \<Rightarrow> True | VFloat _ \<Rightarrow> True | _ \<Rightarrow> False)"

definition formula_prefixes :: "string list" where
  "formula_prefixes = [''='', ''+'', ''-'', ''@'']"

definition leading_ignorable :: "char \<Rightarrow> bool" where
  "leading_ignorable c \<longleftrightarrow> code c \<in> {32, 9, 13, 10}"

definition looks_like_formula :: "string \<Rightarrow> bool" where
  "looks_like_formula s \<longleftrightarrow> list_ex (\<lambda>p. starts_with p (lstrip_by leading_ignorable s)) formula_prefixes"

definition sanitize_spreadsheet_value :: "(pyval \<Rightarrow> string) \<Rightarrow> pyval \<Rightarrow> pyval" where
  "sanitize_spreadsheet_value repr_of v =
    (if v = VNone then VStr ''''
     else if is_number v then v
     else let s = py_str repr_of v
          in VStr (if looks_like_formula s then CHR 0x27 # s else s))"

definition is_text_cell :: "pyval \<Rightarrow> bool" where
  "is_text_cell v \<longleftrightarrow> \<not> is_number v"

lemma guarded_not_formula: "\<not> looks_like_formula (CHR 0x27 # s)"
  by (simp add: looks_like_formula_def formula_prefixes_def lstrip_by_def leading_ignorable_def starts_with_def)

text \<open>What is written is a number, or a text no spreadsheet takes for a formula.\<close>

lemma sanitized_cell:
  "is_number (sanitize_spreadsheet_value repr_of v) \<or>
   (\<exists>s. sanitize_spreadsheet_value repr_of v = VStr s \<and> \<not> looks_like_formula s)"
proof (cases "v = VNone \<or> is_number v")
  case True
  have "\<not> looks_like_formula ''''"
    by (simp add: looks_like_formula_def formula_prefixes_def lstrip_by_def starts_with_def)
  then show ?thesis using True by (auto simp: sanitize_spreadsheet_value_def)
next
  case False
  then show ?thesis
    using guarded_not_formula by (auto simp: sanitize_spreadsheet_value_def Let_def)
qed

section \<open>HTML fragments\<close>

text \<open>\<open>html.escape(s, quote=True)\<close>: the ampersand is replaced first, so characters are independent.\<close>

definition escape_char :: "char \<Rightarrow> string" where
  "escape_char c =
    (if code c = 38 then ''&amp;'' else if code c = 60 then ''&lt;'' else if code c = 62 then ''&gt;''
     else if code c = 34 then ''&quot;'' else if code c = 39 then ''&#x27;'' else [c])"

definition html_escape :: "string \<Rightarrow> string" where
  "html_escape s = concat (map escape_char s)"

definition escape_dynamic_html :: "(pyval \<Rightarrow> string) \<Rightarrow> pyval \<Rightarrow> string" where
  "escape_dynamic_html repr_of v = html_escape (py_str repr_of v)"

definition dquote :: string where
  "dquote = [CHR 0x22]"

definition status_class :: "string \<Rightarrow> string" where
  "status_class s =
    (if s = ''running'' then ''status-running'' else if s = ''done'' then ''status-success''
     else if s = ''fail'' then ''status-fail'' else ''status-idle'')"

text \<open>The lines of the keyword card; the icons lie outside the range of the model's texts.\<close>

definition build_keyword_card_html ::
  "(pyval \<Rightarrow> string) \<Rightarrow> (string \<Rightarrow> string) \<Rightarrow> pyval \<Rightarrow> pyval \<Rightarrow> string \<Rightarrow> pyval \<Rightarrow> string" where
  "build_keyword_card_html repr_of icon_of keyword count status footer =
    (let normalized = (if status = ''done'' \<and> count \<in> {VInt 0, VFloat (FNum 0), VBool False} then ''fail'' else status);
         esc = escape_dynamic_html repr_of; nl = [newline]; pad = replicate 8 CHR '' ''
     in nl @ pad @ ''<div class='' @ dquote @ ''keyword-card '' @ status_class normalized @ dquote @ ''>'' @ nl
        @ pad @ ''    <div class='' @ dquote @ ''card-title'' @ dquote @ ''>'' @ esc keyword @ ''</div>'' @ nl
        @ pad @ ''    <div class='' @ dquote @ ''card-value'' @ dquote @ ''>'' @ esc count @ ''</div>'' @ nl
        @ pad @ ''    <div class='' @ dquote @ ''card-footer'' @ dquote @ ''>'' @ icon_of normalized @ '' '' @ esc footer @ ''</div>'' @ nl
        @ pad @ ''</div>'' @ nl @ ''    '')"

text \<open>The clock in front of the elapsed time is such a text too; an empty time leaves its line blank.\<close>

definition build_phase_card_html ::
  "(pyval \<Rightarrow> string) \<Rightarrow> string \<Rightarrow> pyval \<Rightarrow> pyval \<Rightarrow> pyval \<Rightarrow> string" where
  "build_phase_card_html repr_of clock icon words elapsed =
    (let esc = escape_dynamic_html repr_of; nl = [newline]; pad = replicate 8 CHR '' '';
         time_html = (if esc elapsed = '''' then ''''
           else ''<span class='' @ dquote @ ''phase-time'' @ dquote @ ''>'' @ clock @ '' '' @ esc elapsed @ ''</span>'')
     in nl @ pad @ ''<div class='' @ dquote @ ''phase-card'' @ dquote @ ''>'' @ nl
        @ pad @ ''    <span class='' @ dquote @ ''phase-icon'' @ dquote @ ''>'' @ esc icon @ ''</span>'' @ nl
        @ pad @ ''    <span class='' @ dquote @ ''phase-text'' @ dquote @ ''>'' @ esc words @ ''</span>'' @ nl
        @ pad @ ''    '' @ time_html @ nl
        @ pad @ ''</div>'' @ nl @ ''    '')"

definition control_char :: "char \<Rightarrow> bool" where
  "control_char c \<longleftrightarrow> (let n = code c in n \<le> 8 \<or> n = 11 \<or> n = 12 \<or> (14 \<le> n \<and> n \<le> 31) \<or> n = 127)"

definition normalize_log_message :: "(pyval \<Rightarrow> string) \<Rightarrow> pyval \<Rightarrow> nat \<Rightarrow> string" where
  "normalize_log_message repr_of v max_length = take max_length (filter (\<lambda>c. \<not> control_char c) (py_str repr_of v))"

text \<open>Escaped text has no character with a meaning in HTML, and the escape is reversible.\<close>

lemma escape_char_safe: "d \<in> set (escape_char c) \<Longrightarrow> code d \<notin> {60, 62, 34, 39}"
  by (auto simp: escape_char_def split: if_splits)

lemma html_escape_safe: "d \<in> set (html_escape s) \<Longrightarrow> code d \<notin> {60, 62, 34, 39}"
  using escape_char_safe by (auto simp: html_escape_def)

section \<open>Diagnostics\<close>

text \<open>The redactions, each the pieces of its pattern and what replaces them.\<close>

definition token_char :: "char \<Rightarrow> bool" where
  "token_char c \<longleftrightarrow> is_lower_az c \<or> is_upper_az c \<or> is_digit c \<or> c \<in> set ''._~+/=-''"

definition address_char :: "char \<Rightarrow> bool" where
  "address_char c \<longleftrightarrow> word_char c \<or> c \<in> set ''.+-''"

definition host_char :: "char \<Rightarrow> bool" where
  "host_char c \<longleftrightarrow> word_char c \<or> c = CHR ''-''"

definition one_of :: "string \<Rightarrow> pat" where
  "one_of cs = PCls (\<lambda>c. c \<in> set cs)"

definition secret_name :: pat where
  "secret_name = p_alt
    [p_seq [p_lit_ci ''api'', p_opt (one_of ''_-''), p_lit_ci ''key''],
     p_seq [p_lit_ci ''access'', p_opt (one_of ''_-''), p_lit_ci ''token''],
     p_seq [p_lit_ci ''refresh'', p_opt (one_of ''_-''), p_lit_ci ''token''],
     p_lit_ci ''token'', p_lit_ci ''secret'', p_lit_ci ''password'']"

definition ip_octet :: pat where
  "ip_octet = p_alt
    [p_seq [p_lit ''25'', one_of ''012345''],
     p_seq [p_lit ''2'', one_of ''01234'', PCls is_digit],
     p_seq [p_opt (p_lit ''1''), p_opt (PCls is_digit), PCls is_digit]]"

definition digit_or_dot :: "char \<Rightarrow> bool" where
  "digit_or_dot c \<longleftrightarrow> is_digit c \<or> c = CHR ''.''"

definition redactions :: "(pat list \<times> (string list \<Rightarrow> string)) list" where
  "redactions =
    [([p_boundary, p_lit_ci ''bearer'', p_plus (PCls py_space), p_plus (PCls token_char)],
      \<lambda>_. ''Bearer [REDACTED_TOKEN]''),
     ([p_boundary, secret_name, p_seq [PStar (PCls py_space), one_of '':='', PStar (PCls py_space)],
       p_plus (PCls (\<lambda>c. \<not> py_space c \<and> c \<notin> set ''&,;''))],
      \<lambda>g. g ! 1 @ g ! 2 @ ''[REDACTED_SECRET]''),
     ([p_seq [one_of ''?&'', p_alt [p_lit_ci ''key'', p_lit_ci ''api_key'', p_lit_ci ''token'', p_lit_ci ''access_token''],
              p_lit ''=''],
       p_plus (PCls (\<lambda>c. \<not> py_space c \<and> c \<notin> set ''&#''))],
      \<lambda>g. g ! 0 @ ''[REDACTED_SECRET]''),
     ([p_not_before address_char, p_plus (PCls address_char), p_lit ''@'', p_plus (PCls host_char),
       p_plus (PSeq (p_lit ''.'') (p_plus (PCls host_char)))],
      \<lambda>_. ''[REDACTED_EMAIL]''),
     ([p_not_before digit_or_dot, ip_octet, p_times 3 (PSeq (p_lit ''.'') ip_octet), p_not_after digit_or_dot],
      \<lambda>_. ''[REDACTED_IP]'')]"

definition redact_text :: "string \<Rightarrow> string" where
  "redact_text s = foldl (\<lambda>t (ps, f). pat_sub ps f t) s redactions"

definition redact_sensitive_text :: "(pyval \<Rightarrow> string) \<Rightarrow> pyval \<Rightarrow> nat \<Rightarrow> string" where
  "redact_sensitive_text repr_of v max_length = take max_length (redact_text (py_str repr_of v))"

text \<open>Where no pattern matches, the text is kept as it is.\<close>

lemma redact_text_unmatched:
  assumes "\<And>ps f. (ps, f) \<in> set redactions \<Longrightarrow> \<not> pat_search (p_seq ps) s"
  shows "redact_text s = s"
proof -
  have "foldl (\<lambda>t (ps, f). pat_sub ps f t) s rs = s" if "set rs \<subseteq> set redactions" for rs
    using that
  proof (induction rs)
    case (Cons r rs)
    obtain ps f where r: "r = (ps, f)" by (cases r)
    then have "\<not> pat_search (p_seq ps) s" using Cons.prems assms [of ps f] by simp
    then have "pat_sub ps f s = s" by (rule pat_sub_unmatched)
    with Cons r show ?case by simp
  qed simp
  then show ?thesis by (simp add: redact_text_def)
qed

section \<open>Diagnostic files\<close>

text \<open>
  A directory tree as the purge sees it: what the root is, and for every entry below it whether
  it is a link or a regular file, the path it resolves to and when that was modified.
\<close>

datatype root_kind = Root_missing | Root_directory | Root_other

record diagnostic_entry =
  de_path :: "string list"
  de_is_symlink :: bool
  de_is_file :: bool
  de_resolved :: "string list"
  de_mtime :: rat

definition inside :: "string list \<Rightarrow> string list \<Rightarrow> bool" where
  "inside base p \<longleftrightarrow> length base < length p \<and> take (length base) p = base"

definition expired_file :: "string list \<Rightarrow> rat \<Rightarrow> diagnostic_entry \<Rightarrow> bool" where
  "expired_file base cutoff e \<longleftrightarrow>
    (if de_is_symlink e \<or> \<not> de_is_file e then False
     else if \<not> inside base (de_resolved e) then False
     else de_mtime e < cutoff)"

text \<open>The loop: how many files went, and the entries that are left.\<close>

fun purge_loop :: "string list \<Rightarrow> rat \<Rightarrow> diagnostic_entry list \<Rightarrow> nat \<times> diagnostic_entry list" where
  "purge_loop base cutoff [] = (0, [])"
| "purge_loop base cutoff (e # es) =
    (case purge_loop base cutoff es of
       (n, kept) \<Rightarrow> if expired_file base cutoff e then (Suc n, kept) else (n, e # kept))"

definition purge_expired_diagnostic_files ::
  "root_kind \<Rightarrow> string list \<Rightarrow> int \<Rightarrow> rat \<Rightarrow> diagnostic_entry list \<Rightarrow> (nat \<times> diagnostic_entry list) res" where
  "purge_expired_diagnostic_files kind base retention_hours now es =
    (if retention_hours < 1 then Inl (ValueError ''retention_hours must be at least 1'')
     else if kind = Root_missing then Inr (0, es)
     else if kind = Root_other then Inl (ValueError ''diagnostic root must be a directory'')
     else Inr (purge_loop base (now - of_int (retention_hours * 3600)) es))"

lemma purge_loop_eq:
  "purge_loop base cutoff es = (length (filter (expired_file base cutoff) es), filter (\<lambda>e. \<not> expired_file base cutoff e) es)"
  by (induction es) auto

section \<open>Geolocation\<close>

text \<open>
  The answer of the HTTP client: a reply, its own exception, or another one. Reading a decimal
  text as a float is the runtime's (\<open>float_text\<close>); an integer too large for a float overflows.
\<close>

record geo_reply =
  gr_status :: int
  gr_content_length :: nat
  gr_json :: "pyval option"

datatype geo_outcome = Geo_reply geo_reply | Geo_request_error | Geo_raised error

record approximate_location =
  al_latitude :: rat
  al_longitude :: rat

definition max_response_bytes :: nat where
  "max_response_bytes = 32768"

definition float_of_value :: "(string \<Rightarrow> pyfloat option) \<Rightarrow> pyval \<Rightarrow> pyfloat res" where
  "float_of_value float_text v =
    (case v of
       VInt i \<Rightarrow> if \<bar>i\<bar> < 2 ^ 1024 - 2 ^ 970 then Inr (FNum (of_int i)) else Inl OverflowError
     | VBool b \<Rightarrow> Inr (FNum (if b then 1 else 0))
     | VFloat f \<Rightarrow> Inr f
     | VStr s \<Rightarrow> (case float_text s of Some f \<Rightarrow> Inr f | None \<Rightarrow> Inl (ValueError ''could not convert string to float''))
     | _ \<Rightarrow> Inl TypeError)"

text \<open>\<open>_validated_coordinate\<close>: only \<open>TypeError\<close> and \<open>ValueError\<close> are translated.\<close>

definition validated_coordinate :: "(string \<Rightarrow> pyfloat option) \<Rightarrow> pyval \<Rightarrow> rat \<Rightarrow> rat \<Rightarrow> rat res" where
  "validated_coordinate float_text v lo hi =
    (if v = VBool True \<or> v = VBool False then Inl (GeolocationError ''Coordinate ricevute non valide.'')
     else case float_of_value float_text v of
       Inl e \<Rightarrow> if e = TypeError \<or> is_ValueError e then Inl (GeolocationError ''Coordinate ricevute non valide.'') else Inl e
     | Inr c \<Rightarrow>
        (case c of
           FNum x \<Rightarrow> if float_between lo c hi then Inr x
                      else Inl (GeolocationError ''Coordinate ricevute fuori intervallo.'')
         | _ \<Rightarrow> Inl (GeolocationError ''Coordinate ricevute fuori intervallo.'')))"

definition item_or_none :: "(string \<times> pyval) list \<Rightarrow> string \<Rightarrow> pyval" where
  "item_or_none d k = (case dict_get d k of Some v \<Rightarrow> v | None \<Rightarrow> VNone)"

definition location_of :: "(string \<Rightarrow> pyfloat option) \<Rightarrow> pyval \<Rightarrow> approximate_location res" where
  "location_of float_text payload =
    (case payload of
       VDict d \<Rightarrow>
         if dict_get d ''success'' \<noteq> Some (VBool True)
         then Inl (GeolocationError ''Il provider non ha restituito una posizione valida.'')
         else bind_res (validated_coordinate float_text (item_or_none d ''latitude'') (- 90) 90) (\<lambda>lat.
              bind_res (validated_coordinate float_text (item_or_none d ''longitude'') (- 180) 180) (\<lambda>lng.
                Inr \<lparr>al_latitude = lat, al_longitude = lng\<rparr>))
     | _ \<Rightarrow> Inl (GeolocationError ''Il provider non ha restituito una posizione valida.''))"

definition configured_geolocation_endpoint :: "(string \<Rightarrow> string option) \<Rightarrow> string" where
  "configured_geolocation_endpoint env =
    py_strip (case env ''IP_GEOLOCATION_URL'' of Some v \<Rightarrow> v | None \<Rightarrow> ''https://ipwho.is/'')"

definition read_geo_reply :: "geo_outcome \<Rightarrow> pyval res" where
  "read_geo_reply out =
    (case out of
       Geo_reply r \<Rightarrow>
         if gr_status r \<noteq> 200 then Inl (GeolocationError ''Il provider non ha restituito una posizione valida.'')
         else if max_response_bytes < gr_content_length r then Inl (GeolocationError ''Risposta del provider troppo grande.'')
         else (case gr_json r of
                 Some v \<Rightarrow> Inr v
               | None \<Rightarrow> Inl (GeolocationError ''Geolocalizzazione temporaneamente non disponibile.''))
     | Geo_request_error \<Rightarrow> Inl (GeolocationError ''Geolocalizzazione temporaneamente non disponibile.'')
     | Geo_raised e \<Rightarrow>
         if is_ValueError e \<or> e = TypeError
         then Inl (GeolocationError ''Geolocalizzazione temporaneamente non disponibile.'') else Inl e)"

text \<open>The lookup; \<open>http_get\<close> is asked at most once, for the URL the policy has accepted.\<close>

definition geo_target :: "(string \<Rightarrow> string option) \<Rightarrow> string option \<Rightarrow> string" where
  "geo_target env endpoint =
    (if endpoint \<noteq> None \<and> endpoint \<noteq> Some '''' then the endpoint else configured_geolocation_endpoint env)"

definition unsafe_provider :: "error \<Rightarrow> error" where
  "unsafe_provider e =
    (case e of
       UrlPolicyError _ \<Rightarrow> GeolocationError ''Provider di geolocalizzazione non raggiungibile in sicurezza.''
     | _ \<Rightarrow> e)"

definition geo_decision :: "idna_codec \<Rightarrow> resolver \<Rightarrow> string \<Rightarrow> url_policy \<Rightarrow> url_decision res" where
  "geo_decision codec resolver target policy =
    bind_res (urlsplit target) (\<lambda>u.
      if ur_scheme u \<noteq> ''https'' then Inl (GeolocationError ''Il provider di geolocalizzazione deve usare HTTPS.'')
      else case url_hostname u of
        None \<Rightarrow> Inl (GeolocationError ''Provider di geolocalizzazione non valido.'')
      | Some h \<Rightarrow>
          if h = '''' then Inl (GeolocationError ''Provider di geolocalizzazione non valido.'')
          else (case fst (validate codec resolver target (Some [h]) policy) of
                  Inl e \<Rightarrow> Inl (unsafe_provider e)
                | Inr dec \<Rightarrow> Inr dec))"

definition lookup_approximate_location ::
  "idna_codec \<Rightarrow> resolver \<Rightarrow> (string \<Rightarrow> pyfloat option) \<Rightarrow> (string \<Rightarrow> string option) \<Rightarrow> (string \<Rightarrow> geo_outcome)
   \<Rightarrow> string option \<Rightarrow> url_policy option \<Rightarrow> approximate_location res" where
  "lookup_approximate_location codec resolver float_text env http_get endpoint given =
    bind_res (geo_decision codec resolver (geo_target env endpoint)
        (case given of Some p \<Rightarrow> p | None \<Rightarrow> safe_url_policy [443] 5 2048)) (\<lambda>dec.
      bind_res (read_geo_reply (http_get (ud_normalized_url dec))) (location_of float_text))"

lemma validated_coordinate_Inr:
  "validated_coordinate float_text v lo hi = Inr x \<Longrightarrow> lo \<le> x \<and> x \<le> hi"
  by (auto simp: validated_coordinate_def split: if_splits sum.splits pyfloat.splits)

lemma location_bounds:
  assumes "location_of float_text v = Inr loc"
  shows "- 90 \<le> al_latitude loc \<and> al_latitude loc \<le> 90 \<and> - 180 \<le> al_longitude loc \<and> al_longitude loc \<le> 180"
  using assms
  by (auto simp: location_of_def bind_res_Inr_iff Let_def split: pyval.splits if_splits dest!: validated_coordinate_Inr)

text \<open>An accepted provider: HTTPS, on an allowed port, every resolved address public.\<close>

lemma geo_decision_Inr:
  assumes "geo_decision codec resolver target p = Inr dec"
  shows "(\<exists>u. urlsplit target = Inr u \<and> ur_scheme u = ''https'') \<and> ud_port dec \<in> set (up_allowed_ports p)
    \<and> ud_resolved_ips dec \<noteq> [] \<and> (\<forall>s \<in> set (ud_resolved_ips dec). is_public_text s)"
proof -
  obtain u h where u: "urlsplit target = Inr u" "ur_scheme u = ''https''"
    and v: "fst (validate codec resolver target (Some [h]) p) = Inr dec"
    using assms
    by (cases "urlsplit target"; cases "url_hostname (projr (urlsplit target))")
      (auto simp: geo_decision_def split: if_splits sum.splits)
  obtain p' where "validate codec resolver target (Some [h]) p = (Inr dec, p')" using v by (metis prod.collapse)
  then obtain w where "checked_parts codec p target = Inr (w, ud_hostname dec, ud_port dec)"
    "resolve_public_addresses resolver (ud_hostname dec) (ud_port dec) = Inr (ud_resolved_ips dec)"
    by (rule validate_Inr)
  then show ?thesis using u checked_parts_Inr resolve_Inr by blast
qed

end
