(* ===== verification/Json.thy ===== *)
theory Json
  imports Guards Crypto
begin

text \<open>
  Values as JSON texts, printed as \<open>json.dumps\<close> of Python's standard library does with
  \<open>ensure_ascii=False\<close> and the tightest separators, and a reader that gives the value back:
  whatever a text holds, its JSON string ends where it was meant to end.
\<close>

section \<open>Printing\<close>

text \<open>\<open>json.dumps(v, ensure_ascii=False, separators=(",", ":"))\<close>; \<open>float_repr\<close> prints a float.\<close>

definition json_char :: "char \<Rightarrow> string" where
  "json_char c =
    (let n = code c; esc = (\<lambda>d. [CHR 0x5C, d]) in
     if n = 34 then esc (CHR 0x22) else if n = 92 then esc (CHR 0x5C)
     else if n = 10 then esc CHR ''n'' else if n = 13 then esc CHR ''r'' else if n = 9 then esc CHR ''t''
     else if n = 8 then esc CHR ''b'' else if n = 12 then esc CHR ''f''
     else if n < 32 then esc CHR ''u'' @ hex_fixed 4 n
     else [c])"

definition json_string :: "string \<Rightarrow> string" where
  "json_string s = dquote @ concat (map json_char s) @ dquote"

fun json_text :: "(pyfloat \<Rightarrow> string) \<Rightarrow> pyval \<Rightarrow> string" where
  "json_text float_repr VNone = ''null''"
| "json_text float_repr (VBool b) = (if b then ''true'' else ''false'')"
| "json_text float_repr (VInt i) = int_text i"
| "json_text float_repr (VFloat f) = float_repr f"
| "json_text float_repr (VStr s) = json_string s"
| "json_text float_repr (VList vs) = ''['' @ join_with '','' (map (json_text float_repr) vs) @ '']''"
| "json_text float_repr (VTuple vs) = ''['' @ join_with '','' (map (json_text float_repr) vs) @ '']''"
| "json_text float_repr (VDict d) =
    ''{'' @ join_with '','' (map (\<lambda>(k, v). json_string k @ '':'' @ json_text float_repr v) d) @ ''}''"

section \<open>Reading\<close>

definition unescaped :: "char \<Rightarrow> nat" where
  "unescaped d = (if d = CHR ''n'' then 10 else if d = CHR ''r'' then 13 else if d = CHR ''t'' then 9
                  else if d = CHR ''b'' then 8 else if d = CHR ''f'' then 12 else code d)"

fun read_string :: "string \<Rightarrow> (string \<times> string) option" where
  "read_string [] = None"
| "read_string (c # cs) =
    (if code c = 34 then Some ([], cs)
     else if code c = 92 then
       (case cs of
          [] \<Rightarrow> None
        | d # r \<Rightarrow>
           if code d = 117 then
             (case r of
                x1 # x2 # x3 # x4 # r' \<Rightarrow>
                  (case hex_parse 0 [x1, x2, x3, x4] of
                     None \<Rightarrow> None
                   | Some n \<Rightarrow> map_option (\<lambda>(t, u). (char_of n # t, u)) (read_string r'))
              | _ \<Rightarrow> None)
           else map_option (\<lambda>(t, u). (char_of (unescaped d) # t, u)) (read_string r))
     else map_option (\<lambda>(t, u). (c # t, u)) (read_string cs))"

definition read_nat :: "string \<Rightarrow> nat \<times> string" where
  "read_nat s = (decimal_value (takeWhile is_digit s), dropWhile is_digit s)"

definition read_int :: "string \<Rightarrow> int \<times> string" where
  "read_int s =
    (if starts_with ''-'' s then (case read_nat (drop 1 s) of (n, r) \<Rightarrow> (- int n, r))
     else (case read_nat s of (n, r) \<Rightarrow> (int n, r)))"

text \<open>Values without floats; the fuel bounds the depth and the length of the lists.\<close>

fun read_value :: "nat \<Rightarrow> string \<Rightarrow> (pyval \<times> string) option"
and read_list :: "nat \<Rightarrow> string \<Rightarrow> (pyval list \<times> string) option"
and read_items :: "nat \<Rightarrow> string \<Rightarrow> ((string \<times> pyval) list \<times> string) option" where
  "read_value 0 s = None"
| "read_value (Suc k) s =
    (if starts_with ''null'' s then Some (VNone, drop 4 s)
     else if starts_with ''true'' s then Some (VBool True, drop 4 s)
     else if starts_with ''false'' s then Some (VBool False, drop 5 s)
     else if starts_with dquote s then map_option (\<lambda>(t, r). (VStr t, r)) (read_string (drop 1 s))
     else if starts_with ''[]'' s then Some (VList [], drop 2 s)
     else if starts_with ''['' s then map_option (\<lambda>(vs, r). (VList vs, r)) (read_list k (drop 1 s))
     else if starts_with ''{}'' s then Some (VDict [], drop 2 s)
     else if starts_with ''{'' s then map_option (\<lambda>(d, r). (VDict d, r)) (read_items k (drop 1 s))
     else (case read_int s of (i, r) \<Rightarrow> Some (VInt i, r)))"
| "read_list 0 s = None"
| "read_list (Suc k) s =
    (case read_value k s of
       None \<Rightarrow> None
     | Some (v, r) \<Rightarrow>
        if starts_with '']'' r then Some ([v], drop 1 r)
        else if starts_with '','' r then map_option (\<lambda>(vs, q). (v # vs, q)) (read_list k (drop 1 r))
        else None)"
| "read_items 0 s = None"
| "read_items (Suc k) s =
    (if \<not> starts_with dquote s then None
     else case read_string (drop 1 s) of
       None \<Rightarrow> None
     | Some (key, r) \<Rightarrow>
        if \<not> starts_with '':'' r then None
        else case read_value k (drop 1 r) of
          None \<Rightarrow> None
        | Some (v, q) \<Rightarrow>
           if starts_with ''}'' q then Some ([(key, v)], drop 1 q)
           else if starts_with '','' q then map_option (\<lambda>(d, t). ((key, v) # d, t)) (read_items k (drop 1 q))
           else None)"

section \<open>A string ends where it was meant to\<close>

lemma four_elements: "length xs = 4 \<Longrightarrow> \<exists>a b c d. xs = [a, b, c, d]"
  by (auto simp: numeral_eq_Suc length_Suc_conv)

lemma hex_four: "n < 256 \<Longrightarrow> \<exists>a b c d. hex_fixed 4 n = [a, b, c, d] \<and> hex_parse 0 [a, b, c, d] = Some n"
  using four_elements [of "hex_fixed 4 n"] hex_parse_hex_fixed [of 0 4 n]
  by (auto simp del: hex_parse.simps hex_fixed.simps)

lemma code_inj: "code c = code d \<Longrightarrow> c = d"
  by simp

lemma char_34: "char_of (34 :: nat) = CHR 0x22"
  by (rule code_inj) simp

lemma char_92: "char_of (92 :: nat) = CHR 0x5C"
  by (rule code_inj) simp

lemma read_escape:
  "code d \<noteq> 117 \<Longrightarrow> read_string (CHR 0x5C # d # r) = map_option (\<lambda>(t, u). (char_of (unescaped d) # t, u)) (read_string r)"
  by (subst read_string.simps) simp

lemma read_hex:
  "hex_parse 0 [x1, x2, x3, x4] = Some n \<Longrightarrow>
   read_string (CHR 0x5C # CHR ''u'' # x1 # x2 # x3 # x4 # r) = map_option (\<lambda>(t, u). (char_of n # t, u)) (read_string r)"
  by (subst read_string.simps) (simp del: hex_parse.simps)

lemma read_plain: "code c \<noteq> 34 \<Longrightarrow> code c \<noteq> 92 \<Longrightarrow> read_string (c # r) = map_option (\<lambda>(t, u). (c # t, u)) (read_string r)"
  by (subst read_string.simps) simp

lemma read_json_char: "read_string (json_char c @ rest) = map_option (\<lambda>(t, u). (c # t, u)) (read_string rest)"
proof -
  have n: "code c < 256" by (rule code_less)
  have same: "char_of (code c) = c" by simp
  consider "code c \<in> {34, 92}" | "code c \<in> {10, 13, 9, 8, 12}" | "code c < 32" "code c \<notin> {10, 13, 9, 8, 12}"
    | "32 \<le> code c" "code c \<notin> {34, 92}"
    by fastforce
  then show ?thesis
  proof cases
    case 1
    then have "c = CHR 0x22 \<or> c = CHR 0x5C"
      using code_inj [of c "CHR 0x22"] code_inj [of c "CHR 0x5C"] by auto
    then show ?thesis
      by (auto simp: json_char_def Let_def read_escape unescaped_def char_34 char_92 simp del: read_string.simps)
  next
    case 2
    then obtain n :: nat where "c = char_of n" "n \<in> {10, 13, 9, 8, 12}" by (metis same)
    then show ?thesis by (auto simp: json_char_def Let_def read_escape unescaped_def simp del: read_string.simps)
  next
    case 3
    obtain x1 x2 x3 x4 where x: "hex_fixed 4 (code c) = [x1, x2, x3, x4]" "hex_parse 0 [x1, x2, x3, x4] = Some (code c)"
      using hex_four [OF n] by blast
    have "json_char c = CHR 0x5C # CHR ''u'' # [x1, x2, x3, x4]"
      using 3 x(1) by (simp add: json_char_def Let_def del: hex_fixed.simps)
    then show ?thesis using read_hex [OF x(2)] same by (simp del: hex_parse.simps read_string.simps)
  next
    case 4
    then show ?thesis by (simp add: json_char_def Let_def read_plain del: read_string.simps)
  qed
qed

lemma read_json_string: "read_string (drop 1 (json_string s) @ rest) = Some (s, rest)"
proof -
  have "read_string (concat (map json_char s) @ dquote @ rest) = Some (s, rest)"
    by (induction s) (simp_all add: read_json_char dquote_def)
  then show ?thesis by (simp add: json_string_def dquote_def)
qed

section \<open>The value comes back\<close>

fun plain_value :: "pyval \<Rightarrow> bool" where
  "plain_value (VFloat f) = False"
| "plain_value (VTuple vs) = False"
| "plain_value (VList vs) = list_all plain_value vs"
| "plain_value (VDict d) = list_all (\<lambda>(k, v). plain_value v) d"
| "plain_value _ = True"

definition stops :: "string \<Rightarrow> bool" where
  "stops rest \<longleftrightarrow> (case rest of [] \<Rightarrow> True | c # _ \<Rightarrow> \<not> is_digit c)"

lemma read_nat_digits: "stops rest \<Longrightarrow> read_nat (nat_digits n @ rest) = (n, rest)"
proof -
  assume r: "stops rest"
  have t: "takeWhile is_digit rest = []" "dropWhile is_digit rest = rest"
    using r by (cases rest; simp add: stops_def)+
  have "\<forall>c \<in> set (nat_digits n). is_digit c" using nat_digits_digit by blast
  then show ?thesis using t
    by (simp add: read_nat_def takeWhile_append2 dropWhile_append2 decimal_value_nat_digits del: nat_digits.simps)
qed

lemma first_digit: obtains c cs where "nat_digits n = c # cs" "is_digit c"
  using nat_digits_digit [of _ n] nat_digits_not_Nil [of n] by (cases "nat_digits n") auto

lemma read_int_text: "stops rest \<Longrightarrow> read_int (int_text i @ rest) = (i, rest)"
proof -
  assume r: "stops rest"
  obtain c cs where c: "nat_digits (nat i) = c # cs" "is_digit c" by (rule first_digit)
  then have "\<not> starts_with ''-'' (nat_digits (nat i) @ rest)" by (auto simp: starts_with_def is_digit_def)
  then show ?thesis using read_nat_digits [OF r]
    by (auto simp: read_int_def int_text_def starts_with_def simp del: nat_digits.simps)
qed

lemma int_text_first: obtains c cs where "int_text i = c # cs" "is_digit c \<or> c = CHR ''-''"
proof (cases "i < 0")
  case False
  obtain c cs where "nat_digits (nat i) = c # cs" "is_digit c" by (rule first_digit)
  then show ?thesis using that False by (simp add: int_text_def)
qed (use that in \<open>simp add: int_text_def\<close>)

text \<open>The first character of a printed value tells its kind.\<close>

lemma json_text_first:
  "plain_value v \<Longrightarrow> \<exists>c cs. json_text fr v = c # cs \<and> c \<noteq> CHR '']'' \<and> c \<noteq> CHR ''}''"
proof (cases v)
  case (VInt i)
  then show ?thesis by (cases rule: int_text_first [of i]) (auto simp: is_digit_def)
qed (auto simp: json_string_def dquote_def)

lemma starts_Cons [simp]:
  "starts_with (a # p) (c # s) \<longleftrightarrow> a = c \<and> starts_with p s" "starts_with [] s" "\<not> starts_with (a # p) []"
  by (auto simp: starts_with_def)

lemma read_list_text:
  assumes "\<And>v k rest. v \<in> set vs \<Longrightarrow> plain_value v \<Longrightarrow> size v < k \<Longrightarrow> stops rest \<Longrightarrow>
             read_value k (json_text fr v @ rest) = Some (v, rest)"
    and "vs \<noteq> []" "list_all plain_value vs" "size_list size vs < k"
  shows "read_list k (join_with '','' (map (json_text fr) vs) @ '']'' @ rest) = Some (vs, rest)"
  using assms
proof (induction vs arbitrary: k)
  case (Cons v vs)
  obtain j where k: "k = Suc j" using Cons.prems(4) by (cases k) auto
  have v: "read_value j (json_text fr v @ q) = Some (v, q)" if "stops q" for q
    using Cons.prems(1) [of v j q] Cons.prems(3,4) k that by simp
  show ?case
  proof (cases vs)
    case Nil
    then show ?thesis using v [of "'']'' @ rest"] k by (simp add: stops_def is_digit_def)
  next
    case (Cons w ws)
    have "read_list j (join_with '','' (map (json_text fr) vs) @ '']'' @ rest) = Some (vs, rest)"
      using Cons.prems(3,4) k Cons by (intro Cons.IH Cons.prems(1)) auto
    then show ?thesis
      using v [of "'','' @ join_with '','' (map (json_text fr) vs) @ '']'' @ rest"] k Cons
      by (simp add: stops_def is_digit_def)
  qed
qed simp

lemma read_items_text:
  assumes "\<And>x v k rest. (x, v) \<in> set d \<Longrightarrow> plain_value v \<Longrightarrow> size v < k \<Longrightarrow> stops rest \<Longrightarrow>
             read_value k (json_text fr v @ rest) = Some (v, rest)"
    and "d \<noteq> []" "list_all (\<lambda>(x, v). plain_value v) d" "size_list (size_prod (\<lambda>_. 0) size) d < k"
  shows "read_items k (join_with '','' (map (\<lambda>(x, v). json_string x @ '':'' @ json_text fr v) d) @ ''}'' @ rest) = Some (d, rest)"
  using assms
proof (induction d arbitrary: k)
  case (Cons xv d)
  obtain x v where xv: "xv = (x, v)" by (cases xv)
  obtain j where k: "k = Suc j" using Cons.prems(4) by (cases k) auto
  have v: "read_value j (json_text fr v @ q) = Some (v, q)" if "stops q" for q
    using Cons.prems(1) [of x v j q] Cons.prems(3,4) k xv that by simp
  have key: "starts_with dquote (json_string x @ q)" "read_string (drop 1 (json_string x @ q)) = Some (x, q)" for q
    using read_json_string [of x q] by (simp_all add: json_string_def dquote_def)
  show ?case
  proof (cases d)
    case Nil
    then show ?thesis using v [of "''}'' @ rest"] k xv key by (simp add: stops_def is_digit_def)
  next
    case (Cons w ws)
    let ?more = "join_with '','' (map (\<lambda>(x, v). json_string x @ '':'' @ json_text fr v) d) @ ''}'' @ rest"
    have "read_items j ?more = Some (d, rest)"
      using Cons.prems(3,4) k Cons xv by (intro Cons.IH Cons.prems(1)) auto
    then show ?thesis
      using v [of "'','' @ ?more"] k Cons xv key
      by (simp add: stops_def is_digit_def)
  qed
qed simp

lemma read_json_text:
  "plain_value v \<Longrightarrow> size v < k \<Longrightarrow> stops rest \<Longrightarrow> read_value k (json_text fr v @ rest) = Some (v, rest)"
proof (induction v arbitrary: k rest)
  case (VInt i)
  then obtain j where k: "k = Suc j" by (cases k) auto
  obtain c cs where c: "int_text i = c # cs" "is_digit c \<or> c = CHR ''-''" by (rule int_text_first)
  then have "c \<notin> set ''ntf[{'' \<union> {CHR 0x22}" by (auto simp: is_digit_def)
  moreover have "read_int ((c # cs) @ rest) = (i, rest)" using read_int_text [OF VInt.prems(3), of i] c(1) by simp
  ultimately show ?case using k c(1) by (auto simp: dquote_def)
next
  case (VStr s)
  then obtain j where k: "k = Suc j" by (cases k) auto
  show ?case using k read_json_string [of s rest] by (simp add: json_string_def dquote_def)
next
  case (VList vs)
  then obtain j where k: "k = Suc j" by (cases k) auto
  show ?case
  proof (cases vs)
    case (Cons w ws)
    obtain c cs where c: "json_text fr w = c # cs" "c \<noteq> CHR '']''"
      using json_text_first [of w fr] VList.prems(1) Cons by auto
    have "read_list j (join_with '','' (map (json_text fr) vs) @ '']'' @ rest) = Some (vs, rest)"
      using VList k Cons by (intro read_list_text) auto
    moreover have "\<exists>q. join_with '','' (map (json_text fr) vs) = c # q" using Cons c by (cases ws) auto
    ultimately show ?thesis using k c(2) by (auto simp: dquote_def simp del: read_list.simps)
  qed (use k in \<open>simp add: dquote_def\<close>)
next
  case (VDict d)
  then obtain j where k: "k = Suc j" by (cases k) auto
  show ?case
  proof (cases d)
    case (Cons w ws)
    have "read_items j (join_with '','' (map (\<lambda>(x, v). json_string x @ '':'' @ json_text fr v) d) @ ''}'' @ rest) = Some (d, rest)"
    proof (rule read_items_text)
      show "read_value n (json_text fr v @ q) = Some (v, q)"
        if "(x, v) \<in> set d" "plain_value v" "size v < n" "stops q" for x v n q
        using VDict.IH [of "(x, v)" v n q] that by simp
    qed (use VDict.prems k Cons in auto)
    moreover have "\<exists>q. join_with '','' (map (\<lambda>(x, v). json_string x @ '':'' @ json_text fr v) d) = CHR 0x22 # q"
      using Cons by (cases w; cases ws) (auto simp: dquote_def json_string_def)
    ultimately show ?thesis using k by (auto simp: dquote_def simp del: read_items.simps)
  qed (use k in \<open>simp add: dquote_def\<close>)
qed (auto simp: dquote_def gr0_conv_Suc)

end
