(* ===== verification/Audit_Output.thy ===== *)
theory Audit_Output
  imports Untrusted
begin

text \<open>
  The contract for the output of the audit model (src/src/domain/audit.py): from whatever JSON
  value came back, a score from 1 to 10 and four texts within their bounds, or an error.
\<close>

record website_audit =
  wa_website_score :: int
  wa_diagnosis :: string
  wa_site_brief :: string
  wa_framework :: string
  wa_cold_message :: string

definition bounded_string :: "pyval \<Rightarrow> string \<Rightarrow> nat \<Rightarrow> string res" where
  "bounded_string v field_name max_length =
    (case v of
       VStr s \<Rightarrow>
         let normalized = py_strip s in
         if normalized = '''' then Inl (AuditValidationError (field_name @ '' vuoto''))
         else if max_length < length normalized then Inl (AuditValidationError (field_name @ '' supera il limite''))
         else Inr normalized
     | _ \<Rightarrow> Inl (AuditValidationError (field_name @ '' deve essere una stringa.'')))"

text \<open>The score as a text: an optional denominator of ten, white space anywhere between.\<close>

definition end_of_text :: pat where
  "end_of_text = PLook (\<lambda>l r. r = None)"

definition score_parts :: "pat list" where
  "score_parts =
    [PStar (PCls py_space), PAlt (p_lit ''10'') (PCls (\<lambda>c. c \<in> set ''123456789'')),
     p_opt (p_seq [PStar (PCls py_space), p_lit ''/'', PStar (PCls py_space), p_lit ''10'']),
     PStar (PCls py_space), end_of_text]"

definition text_score :: "string \<Rightarrow> int option" where
  "text_score s = map_option (\<lambda>g. int (decimal_value (g ! 1))) (match_groups score_parts None s)"

text \<open>
  \<open>int(raw_score) == raw_score\<close> on a float: \<open>int\<close> truncates, and raises on a value that is no
  number, which none of the handlers of the contract expects.
\<close>

definition numeric_score :: "pyfloat \<Rightarrow> int res" where
  "numeric_score f =
    (case f of
       FNum x \<Rightarrow> if of_int \<lfloor>x\<rfloor> = x then Inr \<lfloor>x\<rfloor> else Inl (AuditValidationError ''website_score non valido.'')
     | FNan \<Rightarrow> Inl (ValueError ''cannot convert float NaN to integer'')
     | _ \<Rightarrow> Inl OverflowError)"

definition score_of :: "pyval \<Rightarrow> int res" where
  "score_of v =
    (case v of
       VStr s \<Rightarrow> (case text_score s of Some n \<Rightarrow> Inr n | None \<Rightarrow> Inl (AuditValidationError ''website_score non valido.''))
     | VInt i \<Rightarrow> Inr i
     | VFloat f \<Rightarrow> numeric_score f
     | _ \<Rightarrow> Inl (AuditValidationError ''website_score non valido.''))"

definition audit_required :: "string list" where
  "audit_required = [''website_score'', ''diagnosis'', ''site_brief'', ''cold_message'']"

definition missing_fields :: "(string \<times> pyval) list \<Rightarrow> string list" where
  "missing_fields d = filter (\<lambda>f. dict_get d f = None) audit_required"

definition from_llm :: "pyval \<Rightarrow> website_audit res" where
  "from_llm payload =
    (case payload of
       VDict d \<Rightarrow>
         if missing_fields d \<noteq> []
         then Inl (AuditValidationError (''Campi obbligatori mancanti: '' @ join_with '', '' (missing_fields d)))
         else bind_res (score_of (item_or_none d ''website_score'')) (\<lambda>score.
              if \<not> (1 \<le> score \<and> score \<le> 10) then Inl (AuditValidationError ''website_score fuori intervallo.'')
              else bind_res (bounded_string (item_or_none d ''diagnosis'') ''diagnosis'' 4000) (\<lambda>diagnosis.
                   bind_res (bounded_string (item_or_none d ''site_brief'') ''site_brief'' 2000) (\<lambda>site_brief.
                   bind_res (bounded_string (case dict_get d ''framework'' of Some v \<Rightarrow> v | None \<Rightarrow> VStr ''Non rilevato'')
                               ''framework'' 200) (\<lambda>framework.
                   bind_res (bounded_string (item_or_none d ''cold_message'') ''cold_message'' 2000) (\<lambda>cold_message.
                     Inr \<lparr>wa_website_score = score, wa_diagnosis = diagnosis, wa_site_brief = site_brief,
                          wa_framework = framework, wa_cold_message = cold_message\<rparr>)))))
     | _ \<Rightarrow> Inl (AuditValidationError (CHR ''L'' # CHR 0x27 # ''output AI deve essere un oggetto JSON.'')))"

definition to_public_dict :: "website_audit \<Rightarrow> (string \<times> pyval) list" where
  "to_public_dict a =
    [(''website_score'', VInt (wa_website_score a)), (''diagnosis'', VStr (wa_diagnosis a)),
     (''site_brief'', VStr (wa_site_brief a)), (''framework'', VStr (wa_framework a)),
     (''cold_message'', VStr (wa_cold_message a))]"

section \<open>What an accepted audit satisfies\<close>

definition stripped_within :: "nat \<Rightarrow> string \<Rightarrow> bool" where
  "stripped_within n s \<longleftrightarrow> s \<noteq> '''' \<and> py_strip s = s \<and> length s \<le> n"

lemma bounded_string_Inr: "bounded_string v f n = Inr t \<longleftrightarrow> (\<exists>s. v = VStr s \<and> t = py_strip s) \<and> stripped_within n t"
  by (cases v) (auto simp: bounded_string_def stripped_within_def Let_def)

definition audit_ok :: "website_audit \<Rightarrow> bool" where
  "audit_ok a \<longleftrightarrow> 1 \<le> wa_website_score a \<and> wa_website_score a \<le> 10 \<and> stripped_within 4000 (wa_diagnosis a)
    \<and> stripped_within 2000 (wa_site_brief a) \<and> stripped_within 200 (wa_framework a)
    \<and> stripped_within 2000 (wa_cold_message a)"

lemma from_llm_ok: "from_llm v = Inr a \<Longrightarrow> audit_ok a"
  by (auto simp: from_llm_def bind_res_Inr_iff bounded_string_Inr audit_ok_def split: pyval.splits if_splits)

lemma missing_Nil [simp]: "missing_fields d = [] \<longleftrightarrow> (\<forall>f \<in> set audit_required. dict_get d f \<noteq> None)"
  by (auto simp: missing_fields_def filter_empty_conv)

text \<open>An accepted audit, published and read again, is the same audit.\<close>

lemma from_llm_public: "audit_ok a \<Longrightarrow> from_llm (VDict (to_public_dict a)) = Inr a"
proof -
  assume a: "audit_ok a"
  have [simp]: "bounded_string (VStr s) f n = Inr s" if "stripped_within n s" for f n s
    using that bounded_string_Inr [of "VStr s" f n s] by (auto simp: stripped_within_def)
  have "\<forall>f \<in> set audit_required. dict_get (to_public_dict a) f \<noteq> None"
    by (auto simp: audit_required_def to_public_dict_def dict_get_def)
  then show ?thesis
    using a by (simp add: from_llm_def audit_ok_def item_or_none_def score_of_def to_public_dict_def dict_get_def)
qed

text \<open>
  A text score is a number from 1 to 10 with white space, and possibly a denominator, around it.
\<close>

lemma group_ends_Cons:
  "ns \<in> set (group_ends (p # ps) b s) \<longleftrightarrow>
   (\<exists>n ms. ns = n # ms \<and> n \<in> set (match_ends p b s) \<and> ms \<in> set (group_ends ps (char_before b s n) (drop n s)))"
  by auto

lemma score_piece:
  assumes "j \<in> set (match_ends (PAlt (p_lit ''10'') (PCls (\<lambda>c. c \<in> set ''123456789''))) b t)"
  shows "take j t = ''10'' \<or> (\<exists>c \<in> set ''123456789''. take j t = [c])"
proof (cases t)
  case (Cons c cs)
  then show ?thesis using assms by (cases cs) (auto simp: p_lit_def split: if_splits)
qed (use assms in \<open>auto simp: p_lit_def\<close>)

lemma text_score_bounds: "text_score s = Some n \<Longrightarrow> 1 \<le> n \<and> n \<le> 10"
proof -
  assume "text_score s = Some n"
  then obtain ns where ns: "ns \<in> set (group_ends score_parts None s)" "n = int (decimal_value (cut_pieces ns s ! 1))"
    by (auto simp: text_score_def match_groups_def split: list.splits)
  obtain i j ms where m: "ns = i # j # ms"
      "j \<in> set (match_ends (PAlt (p_lit ''10'') (PCls (\<lambda>c. c \<in> set ''123456789''))) (char_before None s i) (drop i s))"
    using ns(1) unfolding score_parts_def group_ends_Cons by blast
  have "take j (drop i s) = ''10'' \<or> (\<exists>c \<in> set ''123456789''. take j (drop i s) = [c])"
    using m(2) by (rule score_piece)
  then show ?thesis using ns(2) m(1) by (auto simp: decimal_value_def)
qed

text \<open>The errors: all but the conversion of a float that is no number are of the contract's class.\<close>

lemma score_error:
  "score_of v = Inl e \<Longrightarrow> (\<exists>m. e = AuditValidationError m)
    \<or> (v = VFloat FNan \<and> e = ValueError ''cannot convert float NaN to integer'')
    \<or> (v \<in> {VFloat FInf, VFloat FNegInf} \<and> e = OverflowError)"
  by (auto simp: score_of_def numeric_score_def split: pyval.splits pyfloat.splits if_splits option.splits)

lemma bounded_string_error: "bounded_string v f n = Inl e \<Longrightarrow> \<exists>m. e = AuditValidationError m"
  by (auto simp: bounded_string_def Let_def split: pyval.splits if_splits)

lemma from_llm_error:
  assumes "from_llm v = Inl e"
  shows "(\<exists>m. e = AuditValidationError m) \<or>
    (\<exists>d f. v = VDict d \<and> dict_get d ''website_score'' = Some (VFloat f) \<and>
       ((f = FNan \<and> e = ValueError ''cannot convert float NaN to integer'') \<or> (f \<in> {FInf, FNegInf} \<and> e = OverflowError)))"
proof (cases v)
  case (VDict d)
  show ?thesis
  proof (cases "missing_fields d \<noteq> []")
    case False
    then obtain w where w: "dict_get d ''website_score'' = Some w" by (auto simp: audit_required_def)
    show ?thesis
    proof (cases "score_of w")
      case (Inl x)
      then have "e = x" using assms VDict False w
        by (simp add: from_llm_def item_or_none_def del: missing_Nil)
      then show ?thesis using score_error [OF Inl] VDict w by auto
    next
      case (Inr n)
      then show ?thesis using assms VDict False w
        by (auto simp: from_llm_def item_or_none_def bind_res_Inl_iff simp del: missing_Nil
            split: if_splits dest: bounded_string_error)
    qed
  qed (use assms VDict in \<open>auto simp: from_llm_def\<close>)
qed (use assms in \<open>auto simp: from_llm_def\<close>)

end
