(* ===== verification/Title_Case.thy ===== *)
theory Title_Case
  imports PyText
begin

text \<open>
  \<open>str.title\<close>: a letter after no letter is capital, every other letter is small. The capitals of
  two small letters (181 and 255) lie outside the range of the model's texts; these stay small.
\<close>

definition is_cased :: "char \<Rightarrow> bool" where
  "is_cased c \<longleftrightarrow> (let n = code c in is_lower_az c \<or> is_upper_az c \<or> n \<in> {170, 181, 186}
     \<or> (192 \<le> n \<and> n \<noteq> 215 \<and> n \<noteq> 247))"

definition title_char :: "char \<Rightarrow> string" where
  "title_char c =
    (let n = code c in
     if is_lower_az c \<or> (224 \<le> n \<and> n \<le> 254 \<and> n \<noteq> 247) then [char_of (n - 32)]
     else if n = 223 then ''Ss'' else [c])"

fun title_from :: "bool \<Rightarrow> string \<Rightarrow> string" where
  "title_from inside [] = []"
| "title_from inside (c # cs) = (if inside then [lower_char c] else title_char c) @ title_from (is_cased c) cs"

definition py_title :: "string \<Rightarrow> string" where
  "py_title s = title_from False s"

end
