(* ===== verification/Provenance.thy ===== *)
theory Provenance
  imports Crawl Privacy Discovery Url_Join
begin

text \<open>
  Verified leads: the provenance of every field (src/src/domain/provenance.py), the lead built
  from the evidence of a crawl (src/src/application/provenance.py), the service that stores
  provider references and verified leads (src/src/application/discovery.py) and the policy that
  decides what may be exported (src/src/application/export_policy.py).

  The HTML parser is a parameter: the content of the \<open>og:site_name\<close> element and the title text of
  a page. Fresh identifiers and the clock are arguments. Values that come out of an audit are
  dynamic; the text Python gives a number or a container is the parameter \<open>repr_of\<close>.
\<close>

section \<open>Provenance\<close>

datatype data_source = OFFICIAL_WEBSITE | USER_INPUT | PROVIDER_REFERENCE

fun data_source_value :: "data_source \<Rightarrow> string" where
  "data_source_value OFFICIAL_WEBSITE = ''official_website''"
| "data_source_value USER_INPUT = ''user_input''"
| "data_source_value PROVIDER_REFERENCE = ''provider_reference''"

record field_provenance =
  fp_source :: data_source
  fp_source_url :: "string option"
  fp_collected_at :: datetime
  fp_evidence_sha256 :: "string option"
  fp_expires_at :: "datetime option"
  fp_confidence :: rat
  fp_data_classification :: string

definition make_field_provenance :: "field_provenance \<Rightarrow> field_provenance res" where
  "make_field_provenance p =
    (if \<not> (0 \<le> fp_confidence p \<and> fp_confidence p \<le> 1)
     then Inl (ValueError ''confidence deve essere compresa tra 0 e 1'') else Inr p)"

record verified_lead =
  vl_business_name :: string
  vl_category :: string
  vl_website :: string
  vl_contacts :: "contact_point list"
  vl_website_score :: pyval
  vl_framework :: string
  vl_diagnosis :: string
  vl_site_brief :: string
  vl_cold_message :: string
  vl_provenance :: "(string \<times> field_provenance) list"

definition extracted_emails :: "verified_lead \<Rightarrow> string list" where
  "extracted_emails l = map cp_display_value (vl_contacts l)"

datatype export_value =
    EV_value pyval
  | EV_texts "string list"
  | EV_contacts "contact_point list"
  | EV_provenance "(string \<times> field_provenance) list"

definition to_export_record :: "verified_lead \<Rightarrow> (string \<times> export_value) list" where
  "to_export_record l =
    [(''export_classification'', EV_value (VStr ''verified_report'')),
     (''business_name'', EV_value (VStr (vl_business_name l))), (''category'', EV_value (VStr (vl_category l))),
     (''website'', EV_value (VStr (vl_website l))), (''extracted_email'', EV_texts (extracted_emails l)),
     (''contacts'', EV_contacts (vl_contacts l)), (''website_score'', EV_value (vl_website_score l)),
     (''framework'', EV_value (VStr (vl_framework l))), (''diagnosis'', EV_value (VStr (vl_diagnosis l))),
     (''site_brief'', EV_value (VStr (vl_site_brief l))), (''cold_message'', EV_value (VStr (vl_cold_message l))),
     (''provenance'', EV_provenance (vl_provenance l))]"

section \<open>Building a lead from a crawl\<close>

record html_parser =
  hp_site_name :: "string \<Rightarrow> string option"
  hp_title :: "string \<Rightarrow> string option"

text \<open>Everything before the first occurrence of \<open>sep\<close>.\<close>

fun before_str :: "string \<Rightarrow> string \<Rightarrow> string" where
  "before_str sep [] = []"
| "before_str sep (c # cs) = (if starts_with sep (c # cs) then [] else c # before_str sep cs)"

text \<open>The two separators with dashes outside the range of the model never occur in its texts.\<close>

definition shorten_title :: "string \<Rightarrow> string" where
  "shorten_title title =
    (case find (\<lambda>sep. contains_str sep title) ['' | '', '' - ''] of
       None \<Rightarrow> title
     | Some sep \<Rightarrow> before_str sep title)"

definition official_site_name :: "html_parser \<Rightarrow> string \<Rightarrow> string \<Rightarrow> string res" where
  "official_site_name hp html url =
    (let meta = hp_site_name hp html; title = hp_title hp html;
         short = (case title of None \<Rightarrow> '''' | Some t \<Rightarrow> if t = '''' then '''' else shorten_title (py_strip t));
         host = bind_res (urlsplit url) (\<lambda>u.
           let h = (case url_hostname u of None \<Rightarrow> ''Sito ufficiale'' | Some h \<Rightarrow> h)
           in Inr (take 200 (if starts_with ''www.'' h then drop 4 h else h)))
     in case meta of
          Some m \<Rightarrow> if m \<noteq> '''' then Inr (take 200 (py_strip m))
                    else if short \<noteq> '''' then Inr (take 200 short) else host
        | None \<Rightarrow> if short \<noteq> '''' then Inr (take 200 short) else host)"

definition audit_get :: "(string \<times> pyval) list \<Rightarrow> string \<Rightarrow> pyval" where
  "audit_get audit k = (case dict_get audit k of None \<Rightarrow> VNone | Some v \<Rightarrow> v)"

definition audit_text :: "(pyval \<Rightarrow> string) \<Rightarrow> (string \<times> pyval) list \<Rightarrow> string \<Rightarrow> string" where
  "audit_text repr_of audit k = (let v = audit_get audit k in if truthy v then py_str repr_of v else '''')"

definition audit_fields :: "string list" where
  "audit_fields = [''website_score'', ''framework'', ''diagnosis'', ''site_brief'', ''cold_message'']"

text \<open>Fields of the audit that are neither missing nor the empty text.\<close>

definition given_fields :: "(string \<times> pyval) list \<Rightarrow> string list" where
  "given_fields data = filter (\<lambda>k. audit_get data k \<noteq> VNone \<and> audit_get data k \<noteq> VStr '''') audit_fields"

definition site_provenance :: "page_evidence \<Rightarrow> field_provenance" where
  "site_provenance evidence =
    \<lparr>fp_source = OFFICIAL_WEBSITE, fp_source_url = Some (pe_final_url evidence),
     fp_collected_at = Aware (pe_retrieved_at evidence), fp_evidence_sha256 = Some (pe_content_sha256 evidence),
     fp_expires_at = None, fp_confidence = 1, fp_data_classification = ''business_contact''\<rparr>"

definition user_provenance :: "int \<Rightarrow> field_provenance" where
  "user_provenance now =
    \<lparr>fp_source = USER_INPUT, fp_source_url = None, fp_collected_at = Aware now, fp_evidence_sha256 = None,
     fp_expires_at = None, fp_confidence = 1, fp_data_classification = ''business_contact''\<rparr>"

definition build_verified_lead ::
  "html_parser \<Rightarrow> (pyval \<Rightarrow> string) \<Rightarrow> int \<Rightarrow> crawl_result \<Rightarrow> string \<Rightarrow> (string \<times> pyval) list option \<Rightarrow> verified_lead res" where
  "build_verified_lead hp repr_of now crawl search_keyword audit =
    (if \<not> is_auditable crawl \<or> valid_evidence crawl = []
     then Inl (ValueError ''Il crawl non contiene evidenza verificabile.'')
     else
       let evidence = hd (valid_evidence crawl); official_url = pe_final_url evidence;
           site = site_provenance evidence;
           data = (case audit of None \<Rightarrow> [] | Some a \<Rightarrow> a)
       in bind_res (official_site_name hp (cw_raw_html_home crawl) official_url) (\<lambda>name.
            Inr \<lparr>vl_business_name = name, vl_category = py_strip search_keyword, vl_website = official_url,
              vl_contacts = cw_contacts crawl, vl_website_score = audit_get data ''website_score'',
              vl_framework = audit_text repr_of data ''framework'', vl_diagnosis = audit_text repr_of data ''diagnosis'',
              vl_site_brief = audit_text repr_of data ''site_brief'',
              vl_cold_message = audit_text repr_of data ''cold_message'',
              vl_provenance = [(''business_name'', site), (''website'', site), (''category'', user_provenance now)]
                @ map (\<lambda>k. (k, site)) (given_fields data)\<rparr>))"

section \<open>Storing\<close>

definition place_id_refresh_days :: int where
  "place_id_refresh_days = 365"

definition persist_provider_reference ::
  "uuid \<Rightarrow> uuid \<Rightarrow> uuid \<Rightarrow> transient_candidate \<Rightarrow> uuid option \<Rightarrow> db \<Rightarrow> provider_reference \<times> db" where
  "persist_provider_reference new_id workspace_id job_id candidate lead_id d =
    (let row = \<lparr>pr_id = new_id, pr_workspace_id = workspace_id, pr_job_id = job_id, pr_lead_id = lead_id,
           pr_provider = tc_provider candidate, pr_external_id = tc_external_id candidate,
           pr_last_verified_at = instant (tc_collected_at candidate),
           pr_refresh_after = instant (add_days (tc_collected_at candidate) place_id_refresh_days)\<rparr>
     in (row, d\<lparr>t_references := t_references d @ [row]\<rparr>))"

fun export_value_empty :: "export_value \<Rightarrow> bool" where
  "export_value_empty (EV_value v) \<longleftrightarrow> v \<in> {VNone, VStr '''', VList [], VTuple []}"
| "export_value_empty (EV_texts ts) \<longleftrightarrow> ts = []"
| "export_value_empty (EV_contacts cs) \<longleftrightarrow> cs = []"
| "export_value_empty (EV_provenance d) \<longleftrightarrow> False"

text \<open>\<open>", ".join\<close> raises on anything but texts.\<close>

fun list_texts :: "pyval list \<Rightarrow> string list res" where
  "list_texts [] = Inr []"
| "list_texts (VStr s # vs) = bind_res (list_texts vs) (\<lambda>ts. Inr (s # ts))"
| "list_texts (_ # vs) = Inl TypeError"

fun serialize_value :: "(pyval \<Rightarrow> string) \<Rightarrow> string \<Rightarrow> export_value \<Rightarrow> string res" where
  "serialize_value repr_of dict_repr (EV_value (VList vs)) = bind_res (list_texts vs) (\<lambda>ts. Inr (join_with '', '' ts))"
| "serialize_value repr_of dict_repr (EV_value (VTuple vs)) = bind_res (list_texts vs) (\<lambda>ts. Inr (join_with '', '' ts))"
| "serialize_value repr_of dict_repr (EV_value v) = Inr (py_str repr_of v)"
| "serialize_value repr_of dict_repr (EV_texts ts) = Inr (join_with '', '' ts)"
| "serialize_value repr_of dict_repr (EV_contacts cs) = Inl TypeError"
| "serialize_value repr_of dict_repr (EV_provenance d) = Inr dict_repr"

text \<open>One evidence row per pair of address and hash; \<open>fresh\<close> numbers the identifiers drawn.\<close>

type_synonym evidence_keys = "((string \<times> string) \<times> uuid) list"

definition evidence_for ::
  "(nat \<Rightarrow> uuid) \<Rightarrow> uuid \<Rightarrow> uuid \<Rightarrow> field_provenance \<Rightarrow> evidence_keys \<times> db \<Rightarrow> uuid option \<times> evidence_keys \<times> db" where
  "evidence_for fresh workspace_id lead_id p acc =
    (case (fp_source_url p, fp_evidence_sha256 p) of
       (Some url, Some sha) \<Rightarrow>
         if url = '''' \<or> sha = '''' then (None, acc)
         else (case map_of (fst acc) (url, sha) of
                 Some i \<Rightarrow> (Some i, acc)
               | None \<Rightarrow>
                   let i = fresh (length (fst acc));
                       row = \<lparr>ev_id = i, ev_workspace_id = workspace_id, ev_lead_id = lead_id, ev_source_url = url,
                              ev_content_sha256 = sha, ev_collected_at = instant (fp_collected_at p)\<rparr>
                   in (Some i, ((url, sha), i) # fst acc, (snd acc)\<lparr>t_evidence := t_evidence (snd acc) @ [row]\<rparr>))
     | _ \<Rightarrow> (None, acc))"

definition persist_field ::
  "(pyval \<Rightarrow> string) \<Rightarrow> string \<Rightarrow> (nat \<Rightarrow> uuid) \<Rightarrow> uuid \<Rightarrow> uuid \<Rightarrow> (string \<times> export_value) list \<Rightarrow>
   string \<Rightarrow> field_provenance \<Rightarrow> evidence_keys \<times> db \<Rightarrow> unit res \<times> evidence_keys \<times> db" where
  "persist_field repr_of dict_repr fresh workspace_id lead_id values field_name p acc =
    (if fp_source p \<notin> {OFFICIAL_WEBSITE, USER_INPUT}
     then (Inl (DiscoveryPersistenceError ''provider_content_cannot_be_persisted_as_attribute''), acc)
     else case map_of values field_name of
       None \<Rightarrow> (Inr (), acc)
     | Some v \<Rightarrow>
        if export_value_empty v then (Inr (), acc)
        else (case evidence_for fresh workspace_id lead_id p acc of
          (eid, keys, d) \<Rightarrow>
            (case serialize_value repr_of dict_repr v of
               Inl e \<Rightarrow> (Inl e, keys, d)
             | Inr text \<Rightarrow>
                (Inr (), keys, d\<lparr>t_attributes := t_attributes d @
                  [\<lparr>la_workspace_id = workspace_id, la_lead_id = lead_id, la_evidence_id = eid,
                    la_field_name = field_name, la_value_text = text, la_source = data_source_value (fp_source p),
                    la_source_url = fp_source_url p, la_collected_at = instant (fp_collected_at p),
                    la_expires_at = map_option instant (fp_expires_at p), la_confidence = fp_confidence p,
                    la_data_classification = fp_data_classification p\<rparr>]\<rparr>))))"

fun persist_fields ::
  "(pyval \<Rightarrow> string) \<Rightarrow> string \<Rightarrow> (nat \<Rightarrow> uuid) \<Rightarrow> uuid \<Rightarrow> uuid \<Rightarrow> (string \<times> export_value) list \<Rightarrow>
   (string \<times> field_provenance) list \<Rightarrow> evidence_keys \<times> db \<Rightarrow> unit res \<times> evidence_keys \<times> db" where
  "persist_fields repr_of dict_repr fresh ws lead values [] acc = (Inr (), acc)"
| "persist_fields repr_of dict_repr fresh ws lead values ((k, p) # ps) acc =
    (case persist_field repr_of dict_repr fresh ws lead values k p acc of
       (Inl e, acc') \<Rightarrow> (Inl e, acc')
     | (Inr _, acc') \<Rightarrow> persist_fields repr_of dict_repr fresh ws lead values ps acc')"

definition persist_verified_lead ::
  "(pyval \<Rightarrow> string) \<Rightarrow> string \<Rightarrow> (nat \<Rightarrow> uuid) \<Rightarrow> uuid \<Rightarrow> uuid \<Rightarrow> uuid \<Rightarrow> verified_lead \<Rightarrow> db \<Rightarrow> lead_row res \<times> db" where
  "persist_verified_lead repr_of dict_repr fresh new_id workspace_id job_id lead d =
    (if vl_provenance lead = [] then (Inl (DiscoveryPersistenceError ''missing_provenance''), d)
     else
       let row = \<lparr>ld_id = new_id, ld_workspace_id = workspace_id, ld_job_id = job_id, ld_status = ''verified''\<rparr>
       in case persist_fields repr_of dict_repr fresh workspace_id new_id (to_export_record lead) (vl_provenance lead)
                 ([], d\<lparr>t_leads := t_leads d @ [row]\<rparr>) of
            (Inl e, acc) \<Rightarrow> (Inl e, snd acc)
          | (Inr _, acc) \<Rightarrow> (Inr row, snd acc))"

section \<open>Exporting\<close>

text \<open>What reaches the export: a candidate of the provider, a verified lead, a plain record.\<close>

datatype export_item =
    Item_candidate transient_candidate
  | Item_verified verified_lead
  | Item_mapping "string option" "(string \<times> data_source option) list"
  | Item_other bool

definition forbidden_fields :: "(string \<times> data_source option) list \<Rightarrow> string list" where
  "forbidden_fields provenance =
    map fst (filter (\<lambda>(k, s). s \<notin> {Some OFFICIAL_WEBSITE, Some USER_INPUT}) provenance)"

fun check_contacts ::
  "(contact_point \<Rightarrow> bool) option \<Rightarrow> privacy_policy option \<Rightarrow> int \<Rightarrow> contact_point list \<Rightarrow> unit res" where
  "check_contacts checker policy cutoff [] = Inr ()"
| "check_contacts checker policy cutoff (c # cs) =
    bind_res (require_contact_allowed c policy cutoff) (\<lambda>_.
      if (case checker of None \<Rightarrow> False | Some f \<Rightarrow> f c)
      then Inl (ExportPolicyError ''Export bloccato dalla suppression policy.'')
      else check_contacts checker policy cutoff cs)"

definition require_provenance :: "(string \<times> data_source option) list \<Rightarrow> unit res" where
  "require_provenance provenance =
    (if provenance = [] then Inl (ExportPolicyError ''Record privo di provenienza verificabile.'')
     else if forbidden_fields provenance \<noteq> []
     then Inl (ExportPolicyError (''Campi non esportabili per provenienza: ''
            @ join_with '', '' (sort (remdups (forbidden_fields provenance)))))
     else Inr ())"

fun require_verified ::
  "(contact_point \<Rightarrow> bool) option \<Rightarrow> privacy_policy option \<Rightarrow> int \<Rightarrow> export_item \<Rightarrow> unit res" where
  "require_verified checker policy cutoff (Item_candidate c) =
    Inl (ExportPolicyError ''Contenuto del provider non esportabile.'')"
| "require_verified checker policy cutoff (Item_other is_transient) =
    Inl (ExportPolicyError (if is_transient then ''Contenuto del provider non esportabile.''
      else ''Record privo di classificazione verificata.''))"
| "require_verified checker policy cutoff (Item_mapping classification provenance) =
    (if classification \<noteq> Some ''verified_report''
     then Inl (ExportPolicyError ''Record privo di classificazione verificata.'')
     else require_provenance provenance)"
| "require_verified checker policy cutoff (Item_verified l) =
    bind_res (require_provenance (map (\<lambda>(k, p). (k, Some (fp_source p))) (vl_provenance l))) (\<lambda>_.
      if vl_contacts l \<noteq> [] \<and> checker = None
      then Inl (ExportPolicyError ''Export contatti bloccato: verifica suppression non configurata.'')
      else check_contacts checker policy cutoff (vl_contacts l))"

definition require_exportable ::
  "export_item list \<Rightarrow> string \<Rightarrow> privacy_policy option \<Rightarrow> (contact_point \<Rightarrow> bool) option \<Rightarrow> int \<Rightarrow> unit res" where
  "require_exportable items mode policy checker cutoff =
    (if mode = ''no_website''
     then Inl (ExportPolicyError ''I risultati Google Places senza sito sono transitori e non possono essere esportati.'')
     else all_res (require_verified checker policy cutoff) items)"

section \<open>Built leads\<close>

lemma given_fields_subset: "set (given_fields data) \<subseteq> set audit_fields" "distinct (given_fields data)"
  by (auto simp: given_fields_def audit_fields_def)

lemma fixed_fields: "''business_name'' \<notin> set audit_fields" "''website'' \<notin> set audit_fields" "''category'' \<notin> set audit_fields"
  by (simp_all add: audit_fields_def)

lemma build_verified_lead_Inr:
  assumes "build_verified_lead hp repr_of now crawl keyword audit = Inr l"
  obtains data where "is_auditable crawl" "valid_evidence crawl \<noteq> []"
    "vl_website l = pe_final_url (hd (valid_evidence crawl))" "vl_contacts l = cw_contacts crawl"
    "vl_provenance l = [(''business_name'', site_provenance (hd (valid_evidence crawl))),
         (''website'', site_provenance (hd (valid_evidence crawl))), (''category'', user_provenance now)]
       @ map (\<lambda>k. (k, site_provenance (hd (valid_evidence crawl)))) (given_fields data)"
    "vl_website_score l = audit_get data ''website_score''"
  using assms by (auto simp: build_verified_lead_def Let_def bind_res_Inr_iff split: if_splits)

lemma built_provenance:
  assumes "build_verified_lead hp repr_of now crawl keyword audit = Inr l"
  shows "vl_provenance l \<noteq> []" "distinct (map fst (vl_provenance l))"
    "(k, p) \<in> set (vl_provenance l) \<Longrightarrow> p = site_provenance (hd (valid_evidence crawl)) \<or> p = user_provenance now"
    "(k, p) \<in> set (vl_provenance l) \<Longrightarrow> k \<in> set ([''business_name'', ''website'', ''category''] @ audit_fields)"
proof -
  obtain data where d: "vl_provenance l = [(''business_name'', site_provenance (hd (valid_evidence crawl))),
         (''website'', site_provenance (hd (valid_evidence crawl))), (''category'', user_provenance now)]
       @ map (\<lambda>k. (k, site_provenance (hd (valid_evidence crawl)))) (given_fields data)"
    using assms by (rule build_verified_lead_Inr)
  have "''business_name'' \<notin> set (given_fields data)" "''website'' \<notin> set (given_fields data)"
      "''category'' \<notin> set (given_fields data)"
    using given_fields_subset(1) [of data] fixed_fields by blast+
  moreover have "map fst (vl_provenance l) = [''business_name'', ''website'', ''category''] @ given_fields data"
    by (simp add: d comp_def)
  ultimately show "distinct (map fst (vl_provenance l))" using given_fields_subset(2) [of data] by simp
  show "vl_provenance l \<noteq> []" by (simp add: d)
  show "p = site_provenance (hd (valid_evidence crawl)) \<or> p = user_provenance now" if "(k, p) \<in> set (vl_provenance l)"
    using that by (auto simp: d)
  show "k \<in> set ([''business_name'', ''website'', ''category''] @ audit_fields)" if "(k, p) \<in> set (vl_provenance l)"
    using that given_fields_subset(1) [of data] by (auto simp: d)
qed

text \<open>The values of a built lead are texts, except the score of the audit.\<close>

lemma export_record_values:
  assumes "k \<in> set ([''business_name'', ''website'', ''category''] @ audit_fields)"
  shows "\<exists>v. map_of (to_export_record l) k = Some (EV_value v) \<and> (v = vl_website_score l \<or> (\<exists>s. v = VStr s))"
proof -
  have "k = ''business_name'' \<or> k = ''website'' \<or> k = ''category'' \<or> k = ''website_score'' \<or> k = ''framework''
      \<or> k = ''diagnosis'' \<or> k = ''site_brief'' \<or> k = ''cold_message''"
    using assms by (simp add: audit_fields_def)
  then show ?thesis by (elim disjE) (simp_all add: to_export_record_def)
qed

section \<open>The export gate\<close>

lemma forbidden_none_iff:
  "forbidden_fields ps = [] \<longleftrightarrow> (\<forall>(k, s) \<in> set ps. s \<in> {Some OFFICIAL_WEBSITE, Some USER_INPUT})"
  by (auto simp: forbidden_fields_def filter_empty_conv)

lemma require_provenance_iff:
  "require_provenance ps = Inr () \<longleftrightarrow> ps \<noteq> [] \<and> (\<forall>(k, s) \<in> set ps. s \<in> {Some OFFICIAL_WEBSITE, Some USER_INPUT})"
  using forbidden_none_iff [of ps] by (simp add: require_provenance_def)

lemma check_contacts_iff:
  "check_contacts checker policy cutoff cs = Inr () \<longleftrightarrow>
   (\<forall>c \<in> set cs. require_contact_allowed c policy cutoff = Inr () \<and> (\<forall>f. checker = Some f \<longrightarrow> \<not> f c))"
proof (induction cs)
  case (Cons c cs)
  then show ?case by (cases "require_contact_allowed c policy cutoff") (auto split: option.splits)
qed simp

definition item_exportable ::
  "(contact_point \<Rightarrow> bool) option \<Rightarrow> privacy_policy option \<Rightarrow> int \<Rightarrow> export_item \<Rightarrow> bool" where
  "item_exportable checker policy cutoff i \<longleftrightarrow>
    (case i of
       Item_verified l \<Rightarrow>
         vl_provenance l \<noteq> [] \<and> (\<forall>(k, p) \<in> set (vl_provenance l). fp_source p \<in> {OFFICIAL_WEBSITE, USER_INPUT})
         \<and> (vl_contacts l = [] \<or> (\<exists>f. checker = Some f \<and> (\<forall>c \<in> set (vl_contacts l). \<not> f c)))
         \<and> (\<forall>c \<in> set (vl_contacts l). require_contact_allowed c policy cutoff = Inr ())
     | Item_mapping classification ps \<Rightarrow>
         classification = Some ''verified_report'' \<and> ps \<noteq> []
         \<and> (\<forall>(k, s) \<in> set ps. s \<in> {Some OFFICIAL_WEBSITE, Some USER_INPUT})
     | _ \<Rightarrow> False)"

lemma require_verified_iff: "require_verified checker policy cutoff i = Inr () \<longleftrightarrow> item_exportable checker policy cutoff i"
proof (cases i)
  case (Item_verified l)
  let ?ps = "map (\<lambda>(k, p). (k, Some (fp_source p))) (vl_provenance l)"
  have "require_provenance ?ps = Inr () \<longleftrightarrow>
      vl_provenance l \<noteq> [] \<and> (\<forall>(k, p) \<in> set (vl_provenance l). fp_source p \<in> {OFFICIAL_WEBSITE, USER_INPUT})"
    by (auto simp: require_provenance_iff)
  moreover have "(\<exists>u. require_provenance ?ps = Inr u) \<longleftrightarrow> require_provenance ?ps = Inr ()" by auto
  ultimately show ?thesis
    using Item_verified
    by (cases checker) (auto simp: item_exportable_def bind_res_Inr_iff check_contacts_iff)
qed (auto simp: item_exportable_def require_provenance_iff)

lemma require_exportable_iff:
  "require_exportable items mode policy checker cutoff = Inr () \<longleftrightarrow>
   mode \<noteq> ''no_website'' \<and> (\<forall>i \<in> set items. item_exportable checker policy cutoff i)"
  by (simp add: require_exportable_def all_res_ok_iff require_verified_iff)

section \<open>Stored leads\<close>

lemma reference_again_fails:
  assumes "r \<in> set (t_references d)" "pr_workspace_id r = ws" "pr_provider r = tc_provider c"
    "pr_external_id r = tc_external_id c"
  shows "\<not> integrity_ok (snd (persist_provider_reference i ws job c lead d))"
proof
  let ?key = "\<lambda>r. (pr_workspace_id r, pr_provider r, pr_external_id r)"
  assume "integrity_ok (snd (persist_provider_reference i ws job c lead d))"
  then have "distinct_on ?key (t_references (snd (persist_provider_reference i ws job c lead d)))"
    by (simp add: integrity_ok_def keys_ok_def)
  moreover have "?key r \<in> ?key ` set (t_references d)" using assms(1) by (rule imageI)
  ultimately show False
    using assms(2-4) by (simp add: persist_provider_reference_def Let_def distinct_on_def)
qed

definition storable_field :: "(string \<times> export_value) list \<Rightarrow> string \<Rightarrow> bool" where
  "storable_field values k \<longleftrightarrow> (case map_of values k of None \<Rightarrow> False | Some v \<Rightarrow> \<not> export_value_empty v)"

text \<open>An attribute row written from a provenance, with the evidence row it points to.\<close>

definition attribute_from ::
  "uuid \<Rightarrow> uuid \<Rightarrow> evidence_row list \<Rightarrow> string \<times> field_provenance \<Rightarrow> lead_attribute \<Rightarrow> bool" where
  "attribute_from ws lead es kp a \<longleftrightarrow>
     la_workspace_id a = ws \<and> la_lead_id a = lead \<and> la_field_name a = fst kp
     \<and> la_source a = data_source_value (fp_source (snd kp)) \<and> la_source_url a = fp_source_url (snd kp)
     \<and> (\<forall>i. la_evidence_id a = Some i \<longrightarrow>
          (\<exists>e \<in> set es. ev_id e = i \<and> ev_lead_id e = lead \<and> la_source_url a = Some (ev_source_url e)
             \<and> fp_evidence_sha256 (snd kp) = Some (ev_content_sha256 e)))"

lemma attribute_from_more: "attribute_from ws lead es kp a \<Longrightarrow> set es \<subseteq> set es' \<Longrightarrow> attribute_from ws lead es' kp a"
  unfolding attribute_from_def by blast

definition keys_backed :: "uuid \<Rightarrow> evidence_row list \<Rightarrow> evidence_keys \<Rightarrow> bool" where
  "keys_backed lead es ks \<longleftrightarrow> (\<forall>((u, s), i) \<in> set ks.
     \<exists>e \<in> set es. ev_id e = i \<and> ev_lead_id e = lead \<and> ev_source_url e = u \<and> ev_content_sha256 e = s)"

lemma keys_backed_find:
  assumes "keys_backed lead es ks" "map_of ks (u, s) = Some i"
  shows "\<exists>e \<in> set es. ev_id e = i \<and> ev_lead_id e = lead \<and> ev_source_url e = u \<and> ev_content_sha256 e = s"
  using assms map_of_SomeD [OF assms(2)] by (fastforce simp: keys_backed_def)

lemma evidence_for_spec:
  assumes "evidence_for fresh ws lead p (ks, d) = (eid, ks', d')" "keys_backed lead (t_evidence d) ks"
  shows "\<exists>es. d' = d\<lparr>t_evidence := t_evidence d @ es\<rparr> \<and> keys_backed lead (t_evidence d') ks'
    \<and> (\<forall>i. eid = Some i \<longrightarrow> (\<exists>e \<in> set (t_evidence d'). ev_id e = i \<and> ev_lead_id e = lead
         \<and> fp_source_url p = Some (ev_source_url e) \<and> fp_evidence_sha256 p = Some (ev_content_sha256 e)))"
proof (cases "\<exists>url sha. fp_source_url p = Some url \<and> fp_evidence_sha256 p = Some sha \<and> url \<noteq> '''' \<and> sha \<noteq> ''''")
  case False
  then have "eid = None \<and> ks' = ks \<and> d' = d"
    using assms(1) by (auto simp: evidence_for_def split: option.splits if_splits)
  then show ?thesis using assms(2) by (intro exI [of _ "[]"]) simp
next
  case True
  then obtain url sha where u: "fp_source_url p = Some url" "fp_evidence_sha256 p = Some sha" "url \<noteq> ''''" "sha \<noteq> ''''" by blast
  show ?thesis
  proof (cases "map_of ks (url, sha)")
    case (Some i)
    then have "eid = Some i \<and> ks' = ks \<and> d' = d" using assms(1) u by (simp add: evidence_for_def)
    then show ?thesis using assms(2) keys_backed_find [OF assms(2) Some] u by (intro exI [of _ "[]"]) auto
  next
    case None
    define row where "row = \<lparr>ev_id = fresh (length ks), ev_workspace_id = ws, ev_lead_id = lead, ev_source_url = url,
                              ev_content_sha256 = sha, ev_collected_at = instant (fp_collected_at p)\<rparr>"
    have "eid = Some (ev_id row) \<and> ks' = ((url, sha), ev_id row) # ks \<and> d' = d\<lparr>t_evidence := t_evidence d @ [row]\<rparr>"
      using assms(1) u None by (simp add: evidence_for_def Let_def row_def)
    then show ?thesis
      using assms(2) u by (intro exI [of _ "[row]"]) (auto simp: keys_backed_def row_def)
  qed
qed

lemma data_source_value_inj: "data_source_value a = data_source_value b \<longleftrightarrow> a = b"
  by (cases a; cases b) simp_all

lemma persist_field_Inr:
  assumes run: "persist_field repr_of dr fresh ws lead values k p (ks, d) = (Inr u, ks', d')"
    and keys: "keys_backed lead (t_evidence d) ks"
  shows "fp_source p \<in> {OFFICIAL_WEBSITE, USER_INPUT} \<and> keys_backed lead (t_evidence d') ks'
    \<and> (\<exists>es as. d' = d\<lparr>t_evidence := t_evidence d @ es, t_attributes := t_attributes d @ as\<rparr>
         \<and> list_all2 (attribute_from ws lead (t_evidence d')) (if storable_field values k then [(k, p)] else []) as)"
proof (cases "storable_field values k")
  case False
  then have "fp_source p \<in> {OFFICIAL_WEBSITE, USER_INPUT} \<and> ks' = ks \<and> d' = d"
    using run by (auto simp: persist_field_def storable_field_def split: option.splits if_splits)
  then show ?thesis using keys False by (intro conjI exI [of _ "[]"]) simp_all
next
  case True
  then obtain v where v: "map_of values k = Some v" "\<not> export_value_empty v"
    by (auto simp: storable_field_def split: option.splits)
  have src: "fp_source p \<in> {OFFICIAL_WEBSITE, USER_INPUT}"
    using run by (auto simp: persist_field_def split: if_splits)
  obtain eid ks1 d1 where e: "evidence_for fresh ws lead p (ks, d) = (eid, ks1, d1)"
    by (cases "evidence_for fresh ws lead p (ks, d)") auto
  obtain tx where t: "serialize_value repr_of dr v = Inr tx"
    using run v src e by (cases "serialize_value repr_of dr v") (auto simp: persist_field_def split: if_splits)
  let ?a = "\<lparr>la_workspace_id = ws, la_lead_id = lead, la_evidence_id = eid,
                    la_field_name = k, la_value_text = tx, la_source = data_source_value (fp_source p),
                    la_source_url = fp_source_url p, la_collected_at = instant (fp_collected_at p),
                    la_expires_at = map_option instant (fp_expires_at p), la_confidence = fp_confidence p,
                    la_data_classification = fp_data_classification p\<rparr>"
  have d': "ks' = ks1 \<and> d' = d1\<lparr>t_attributes := t_attributes d1 @ [?a]\<rparr>"
    using run v src e t by (auto simp: persist_field_def)
  obtain es where es: "d1 = d\<lparr>t_evidence := t_evidence d @ es\<rparr>" "keys_backed lead (t_evidence d1) ks1"
    "\<forall>i. eid = Some i \<longrightarrow> (\<exists>e \<in> set (t_evidence d1). ev_id e = i \<and> ev_lead_id e = lead
         \<and> fp_source_url p = Some (ev_source_url e) \<and> fp_evidence_sha256 p = Some (ev_content_sha256 e))"
    using evidence_for_spec [OF e keys] by blast
  have "attribute_from ws lead (t_evidence d') (k, p) ?a"
    using es(3) d' by (simp add: attribute_from_def)
  then show ?thesis
    using src d' es True by (intro conjI exI [of _ es] exI [of _ "[?a]"]) simp_all
qed

lemma persist_fields_Inr:
  assumes "persist_fields repr_of dr fresh ws lead values ps (ks, d) = (Inr u, ks', d')"
    and "keys_backed lead (t_evidence d) ks"
  shows "(\<forall>(k, p) \<in> set ps. fp_source p \<in> {OFFICIAL_WEBSITE, USER_INPUT})
    \<and> (\<exists>es as. d' = d\<lparr>t_evidence := t_evidence d @ es, t_attributes := t_attributes d @ as\<rparr>
         \<and> list_all2 (attribute_from ws lead (t_evidence d')) (filter (\<lambda>(k, p). storable_field values k) ps) as)"
  using assms
proof (induction ps arbitrary: ks d)
  case Nil
  then show ?case by (auto intro!: exI [of _ "[]"])
next
  case (Cons kp ps)
  obtain k p where kp: "kp = (k, p)" by (cases kp)
  obtain u1 ks1 d1 where one: "persist_field repr_of dr fresh ws lead values k p (ks, d) = (Inr u1, ks1, d1)"
    and rest: "persist_fields repr_of dr fresh ws lead values ps (ks1, d1) = (Inr u, ks', d')"
    using Cons.prems(1) by (auto simp: kp split: prod.splits sum.splits)
  note p1 = persist_field_Inr [OF one Cons.prems(2)]
  then obtain es1 as1 where d1: "d1 = d\<lparr>t_evidence := t_evidence d @ es1, t_attributes := t_attributes d @ as1\<rparr>"
    "list_all2 (attribute_from ws lead (t_evidence d1)) (if storable_field values k then [(k, p)] else []) as1" by blast
  have ih: "\<forall>(k, p) \<in> set ps. fp_source p \<in> {OFFICIAL_WEBSITE, USER_INPUT}"
    "\<exists>es as. d' = d1\<lparr>t_evidence := t_evidence d1 @ es, t_attributes := t_attributes d1 @ as\<rparr>
         \<and> list_all2 (attribute_from ws lead (t_evidence d')) (filter (\<lambda>(k, p). storable_field values k) ps) as"
    using Cons.IH [OF rest] p1 by blast+
  then obtain es2 as2 where d2: "d' = d1\<lparr>t_evidence := t_evidence d1 @ es2, t_attributes := t_attributes d1 @ as2\<rparr>"
    "list_all2 (attribute_from ws lead (t_evidence d')) (filter (\<lambda>(k, p). storable_field values k) ps) as2" by blast
  have "set (t_evidence d1) \<subseteq> set (t_evidence d')" by (auto simp: d2(1))
  then have first: "list_all2 (attribute_from ws lead (t_evidence d')) (if storable_field values k then [(k, p)] else []) as1"
    using d1(2) by (auto elim!: list_all2_mono intro: attribute_from_more)
  have "list_all2 (attribute_from ws lead (t_evidence d'))
      ((if storable_field values k then [(k, p)] else []) @ filter (\<lambda>(k, p). storable_field values k) ps) (as1 @ as2)"
    using first d2(2) by (rule list_all2_appendI)
  moreover have "(if storable_field values k then [(k, p)] else []) @ filter (\<lambda>(k, p). storable_field values k) ps
      = filter (\<lambda>(k, p). storable_field values k) (kp # ps)" by (simp add: kp)
  moreover have "d' = d\<lparr>t_evidence := t_evidence d @ es1 @ es2, t_attributes := t_attributes d @ as1 @ as2\<rparr>"
    by (simp add: d1(1) d2(1))
  ultimately show ?case using ih(1) p1 kp
    by (intro conjI exI [of _ "es1 @ es2"] exI [of _ "as1 @ as2"]) simp_all
qed

lemma persist_verified_lead_Inr:
  assumes "persist_verified_lead repr_of dr fresh i ws job lead d = (Inr row, d')"
  shows "ld_id row = i \<and> ld_status row = ''verified''
    \<and> (\<forall>(k, p) \<in> set (vl_provenance lead). fp_source p \<in> {OFFICIAL_WEBSITE, USER_INPUT})
    \<and> (\<exists>es as. d' = d\<lparr>t_leads := t_leads d @ [row], t_evidence := t_evidence d @ es, t_attributes := t_attributes d @ as\<rparr>
         \<and> list_all2 (attribute_from ws i (t_evidence d'))
             (filter (\<lambda>(k, p). storable_field (to_export_record lead) k) (vl_provenance lead)) as)"
proof -
  have row: "row = \<lparr>ld_id = i, ld_workspace_id = ws, ld_job_id = job, ld_status = ''verified''\<rparr>"
    and "\<exists>u ks. persist_fields repr_of dr fresh ws i (to_export_record lead) (vl_provenance lead)
      ([], d\<lparr>t_leads := t_leads d @ [row]\<rparr>) = (Inr u, ks, d')"
    using assms by (auto simp: persist_verified_lead_def Let_def split: if_splits sum.splits prod.splits)
  then obtain u ks where run: "persist_fields repr_of dr fresh ws i (to_export_record lead) (vl_provenance lead)
      ([], d\<lparr>t_leads := t_leads d @ [row]\<rparr>) = (Inr u, ks, d')" by blast
  have "keys_backed i (t_evidence (d\<lparr>t_leads := t_leads d @ [row]\<rparr>)) []" by (simp add: keys_backed_def)
  from persist_fields_Inr [OF run this] row show ?thesis by simp
qed

text \<open>A lead with a plain score never makes the service fail.\<close>

lemma persist_field_ok:
  assumes "fp_source p \<in> {OFFICIAL_WEBSITE, USER_INPUT}"
    and "\<And>v. map_of values k = Some v \<Longrightarrow> \<not> export_value_empty v \<Longrightarrow> \<exists>t. serialize_value repr_of dr v = Inr t"
  shows "\<exists>acc'. persist_field repr_of dr fresh ws lead values k p acc = (Inr (), acc')"
proof (cases "storable_field values k")
  case True
  then obtain v where v: "map_of values k = Some v" "\<not> export_value_empty v"
    by (auto simp: storable_field_def split: option.splits)
  then obtain t where "serialize_value repr_of dr v = Inr t" using assms(2) by blast
  then show ?thesis using assms(1) v by (simp add: persist_field_def split: prod.split)
qed (use assms(1) in \<open>auto simp: persist_field_def storable_field_def split: option.splits\<close>)

lemma persist_fields_ok:
  assumes "\<And>k p. (k, p) \<in> set ps \<Longrightarrow> fp_source p \<in> {OFFICIAL_WEBSITE, USER_INPUT}
      \<and> (\<forall>v. map_of values k = Some v \<longrightarrow> \<not> export_value_empty v \<longrightarrow> (\<exists>t. serialize_value repr_of dr v = Inr t))"
  shows "\<exists>acc'. persist_fields repr_of dr fresh ws lead values ps acc = (Inr (), acc')"
  using assms
proof (induction ps arbitrary: acc)
  case (Cons kp ps)
  obtain k p where kp: "kp = (k, p)" by (cases kp)
  have "\<exists>acc1. persist_field repr_of dr fresh ws lead values k p acc = (Inr (), acc1)"
    by (rule persist_field_ok) (use Cons.prems [of k p] kp in auto)
  then obtain acc1 where "persist_field repr_of dr fresh ws lead values k p acc = (Inr (), acc1)" by blast
  moreover have "\<exists>acc'. persist_fields repr_of dr fresh ws lead values ps acc1 = (Inr (), acc')"
    by (rule Cons.IH) (rule Cons.prems, simp)
  ultimately show ?case by (simp add: kp)
qed simp

lemma built_lead_persists:
  assumes b: "build_verified_lead hp repr_of now crawl keyword audit = Inr l"
    and score: "\<And>vs. vl_website_score l \<noteq> VList vs \<and> vl_website_score l \<noteq> VTuple vs"
  shows "\<exists>row d'. persist_verified_lead repr_of dr fresh i ws job l d = (Inr row, d')"
proof -
  have "\<exists>acc'. persist_fields repr_of dr fresh ws i (to_export_record l) (vl_provenance l) acc = (Inr (), acc')" for acc
  proof (rule persist_fields_ok)
    fix k p assume kp: "(k, p) \<in> set (vl_provenance l)"
    have "fp_source p \<in> {OFFICIAL_WEBSITE, USER_INPUT}"
      using built_provenance(3) [OF b kp] by (auto simp: site_provenance_def user_provenance_def)
    moreover obtain v where "map_of (to_export_record l) k = Some (EV_value v)" "v = vl_website_score l \<or> (\<exists>s. v = VStr s)"
      using export_record_values [OF built_provenance(4) [OF b kp]] by blast
    moreover have "\<exists>t. serialize_value repr_of dr (EV_value v) = Inr t"
    proof -
      have "v \<noteq> VList vs \<and> v \<noteq> VTuple vs" for vs using calculation(3) score [of vs] by auto
      then show ?thesis by (cases v) auto
    qed
    ultimately show "fp_source p \<in> {OFFICIAL_WEBSITE, USER_INPUT} \<and> (\<forall>v. map_of (to_export_record l) k = Some v
        \<longrightarrow> \<not> export_value_empty v \<longrightarrow> (\<exists>t. serialize_value repr_of dr v = Inr t))" by simp
  qed
  then obtain acc' where "persist_fields repr_of dr fresh ws i (to_export_record l) (vl_provenance l)
      ([], d\<lparr>t_leads := t_leads d @ [\<lparr>ld_id = i, ld_workspace_id = ws, ld_job_id = job, ld_status = ''verified''\<rparr>]\<rparr>)
      = (Inr (), acc')" by blast
  then show ?thesis
    using built_provenance(1) [OF b] by (cases acc') (simp add: persist_verified_lead_def Let_def)
qed

end
