(* ===== verification/Exporter.thy ===== *)
theory Exporter
  imports Auditor Provenance
begin

text \<open>
  The spreadsheet export (src/src/exporter.py): gate, columns, rows, guarded cells, colours and
  widths. The workbook library is a parameter: which values it takes into a cell, and whether the
  file can be saved. Fonts, borders and frozen panes are left out.
\<close>

section \<open>Columns and rows\<close>

definition no_website_columns :: "string list" where
  "no_website_columns = [''Business Name'', ''Website status'', ''Provider'']"

definition website_columns :: "string list" where
  "website_columns =
    [''Business Name'', ''Category'', ''Website'', ''Extracted Email'', ''Website Score'', ''Framework'',
     ''Diagnosis'', ''Site Brief'', ''Cold Message'']"

text \<open>A lead as the caller passes it: a verified lead, a mapping with what the gate reads of it, or anything else.\<close>

datatype sheet_lead =
    Sheet_verified verified_lead
  | Sheet_mapping "string option" "(string \<times> data_source option) list" "(string \<times> pyval) list"
  | Sheet_other export_item

fun item_of_lead :: "sheet_lead \<Rightarrow> export_item" where
  "item_of_lead (Sheet_verified l) = Item_verified l"
| "item_of_lead (Sheet_mapping classification sources given) = Item_mapping classification sources"
| "item_of_lead (Sheet_other i) = i"

text \<open>The values of a lead's own record; the rows never read its contacts and provenance.\<close>

fun value_of_export :: "export_value \<Rightarrow> pyval" where
  "value_of_export (EV_value v) = v"
| "value_of_export (EV_texts ts) = VList (map VStr ts)"
| "value_of_export (EV_contacts cs) = VTuple []"
| "value_of_export (EV_provenance ps) = VDict []"

fun lead_fields :: "sheet_lead \<Rightarrow> (string \<times> pyval) list" where
  "lead_fields (Sheet_verified l) = map (\<lambda>(k, v). (k, value_of_export v)) (to_export_record l)"
| "lead_fields (Sheet_mapping classification sources given) = given"
| "lead_fields (Sheet_other i) = []"

definition field_or :: "(string \<times> pyval) list \<Rightarrow> string \<Rightarrow> string \<Rightarrow> pyval" where
  "field_or d k fallback = (case dict_get d k of Some v \<Rightarrow> v | None \<Rightarrow> VStr fallback)"

definition email_cell :: "(string \<times> pyval) list \<Rightarrow> pyval res" where
  "email_cell d =
    (let v = field_or d ''extracted_email'' '''' in
     bind_res (case v of VList vs \<Rightarrow> bind_res (list_texts vs) (\<lambda>ts. Inr (VStr (join_with '', '' ts))) | _ \<Rightarrow> Inr v)
       (\<lambda>w. Inr (if truthy w then w else VStr ''N/A'')))"

definition website_row :: "(string \<times> pyval) list \<Rightarrow> pyval list res" where
  "website_row d =
    bind_res (email_cell d) (\<lambda>email. Inr
      [field_or d ''business_name'' ''N/A'', field_or d ''category'' ''N/A'', field_or d ''website'' ''N/A'', email,
       field_or d ''website_score'' ''N/A'', field_or d ''framework'' ''N/A'', field_or d ''diagnosis'' ''N/A'',
       field_or d ''site_brief'' ''N/A'', field_or d ''cold_message'' ''N/A''])"

fun format_website_rows :: "sheet_lead list \<Rightarrow> pyval list list res" where
  "format_website_rows [] = Inr []"
| "format_website_rows (l # ls) =
    bind_res (website_row (lead_fields l)) (\<lambda>r. bind_res (format_website_rows ls) (\<lambda>rs. Inr (r # rs)))"

definition format_no_website_rows :: "transient_candidate list \<Rightarrow> string list list" where
  "format_no_website_rows leads =
    map (\<lambda>c. [if tc_display_name c = '''' then ''N/A'' else tc_display_name c, ''Senza sito'', at_label (tc_attribution c)]) leads"

section \<open>Widths\<close>

definition cell_length :: "(pyval \<Rightarrow> string) \<Rightarrow> pyval \<Rightarrow> nat" where
  "cell_length repr_of v = (if truthy v then length (py_str repr_of v) else 0)"

definition width_limit :: "string \<Rightarrow> nat" where
  "width_limit name =
    (if name \<in> {''Diagnosis'', ''Cold Message'', ''Site Brief''} then 50
     else if name \<in> {''Business Summary'', ''Key Weakness'', ''Address''} then 40 else 30)"

definition column_width :: "(pyval \<Rightarrow> string) \<Rightarrow> pyval list list \<Rightarrow> nat \<Rightarrow> string \<Rightarrow> nat" where
  "column_width repr_of rows i name =
    min (foldl max (length name) (map (\<lambda>r. cell_length repr_of (r ! i)) (filter (\<lambda>r. i < length r) rows)) + 2) (width_limit name)"

definition calculate_column_widths :: "(pyval \<Rightarrow> string) \<Rightarrow> string list \<Rightarrow> pyval list list \<Rightarrow> nat list" where
  "calculate_column_widths repr_of columns rows =
    map (\<lambda>i. column_width repr_of rows i (columns ! i)) [0 ..< length columns]"

section \<open>The sheet\<close>

datatype cell_fill = No_fill | Alternate_row | Score_red | Score_yellow | Score_green

record sheet_cell =
  ce_value :: pyval
  ce_is_text :: bool
  ce_fill :: cell_fill

record sheet =
  sh_header :: "string list"
  sh_rows :: "sheet_cell list list"
  sh_widths :: "nat list"

text \<open>Data rows are numbered from 2.\<close>

definition data_cell :: "(pyval \<Rightarrow> string) \<Rightarrow> nat \<Rightarrow> pyval \<Rightarrow> sheet_cell" where
  "data_cell repr_of row_idx v =
    (let safe = sanitize_spreadsheet_value repr_of v in
     \<lparr>ce_value = safe, ce_is_text = is_text_cell safe, ce_fill = (if even row_idx then Alternate_row else No_fill)\<rparr>)"

definition score_fill :: "pyval \<Rightarrow> cell_fill \<Rightarrow> cell_fill res" where
  "score_fill v old =
    (case (if truthy v then int_of_value v else Inr 0) of
       Inr n \<Rightarrow> Inr (if n \<le> 3 then Score_red else if n \<le> 6 then Score_yellow else Score_green)
     | Inl e \<Rightarrow> if e = TypeError \<or> is_ValueError e then Inr old else Inl e)"

definition score_column :: nat where
  "score_column = 4"

definition data_row :: "(pyval \<Rightarrow> string) \<Rightarrow> nat \<Rightarrow> pyval list \<Rightarrow> sheet_cell list res" where
  "data_row repr_of row_idx vs =
    (let cells = map (data_cell repr_of row_idx) vs; c = cells ! score_column in
     bind_res (score_fill (ce_value c) (ce_fill c)) (\<lambda>f. Inr (cells[score_column := c\<lparr>ce_fill := f\<rparr>])))"

fun data_rows :: "(pyval \<Rightarrow> string) \<Rightarrow> nat \<Rightarrow> pyval list list \<Rightarrow> sheet_cell list list res" where
  "data_rows repr_of row_idx [] = Inr []"
| "data_rows repr_of row_idx (r # rs) =
    bind_res (data_row repr_of row_idx r) (\<lambda>c. bind_res (data_rows repr_of (Suc row_idx) rs) (\<lambda>cs. Inr (c # cs)))"

datatype export_outcome = Nothing_to_export | Written sheet | Not_written

record workbook_library =
  wl_cell_ok :: "pyval \<Rightarrow> bool"
  wl_save_ok :: "sheet \<Rightarrow> bool"
  wl_repr :: "pyval \<Rightarrow> string"

text \<open>Whatever goes wrong while the workbook is filled is printed, and no file is written.\<close>

definition write_workbook :: "workbook_library \<Rightarrow> pyval list list \<Rightarrow> export_outcome" where
  "write_workbook wb rows =
    (case data_rows (wl_repr wb) 2 rows of
       Inl _ \<Rightarrow> Not_written
     | Inr cells \<Rightarrow>
        let s = \<lparr>sh_header = website_columns, sh_rows = cells,
                 sh_widths = calculate_column_widths (wl_repr wb) website_columns rows\<rparr>
        in if list_all (list_all (\<lambda>c. wl_cell_ok wb (ce_value c))) cells \<and> wl_save_ok wb s then Written s else Not_written)"

definition export_to_excel ::
  "workbook_library \<Rightarrow> sheet_lead list \<Rightarrow> string \<Rightarrow> privacy_policy option \<Rightarrow> (contact_point \<Rightarrow> bool) option \<Rightarrow> int
   \<Rightarrow> export_outcome res" where
  "export_to_excel wb leads mode policy checker cutoff =
    (if leads = [] then Inr Nothing_to_export
     else bind_res (require_exportable (map item_of_lead leads) mode policy checker cutoff) (\<lambda>_.
       if mode = ''with_website''
       then bind_res (format_website_rows leads) (\<lambda>rows. Inr (write_workbook wb rows))
       else Inl (RuntimeError ''Esportazione no_website non consentita.'')))"

section \<open>What an exported sheet satisfies\<close>

definition guarded_cell :: "sheet_cell \<Rightarrow> bool" where
  "guarded_cell c \<longleftrightarrow> (is_number (ce_value c) \<and> \<not> ce_is_text c)
     \<or> (ce_is_text c \<and> (\<exists>s. ce_value c = VStr s \<and> \<not> looks_like_formula s))"

lemma data_cell_guarded: "guarded_cell (data_cell repr_of i v)"
  using sanitized_cell [of repr_of v]
  by (auto simp: data_cell_def guarded_cell_def Let_def is_text_cell_def is_number_def)

lemma data_row_guarded:
  assumes "data_row repr_of i vs = Inr cells" "length vs = 9"
  shows "map ce_value cells = map (sanitize_spreadsheet_value repr_of) vs \<and> list_all guarded_cell cells"
proof -
  let ?cs = "map (data_cell repr_of i) vs"
  obtain f where c: "cells = ?cs[score_column := (?cs ! score_column)\<lparr>ce_fill := f\<rparr>]"
    using assms(1) by (auto simp: data_row_def Let_def bind_res_Inr_iff)
  have n: "score_column < length ?cs" using assms(2) by (simp add: score_column_def)
  have g: "guarded_cell ((?cs ! score_column)\<lparr>ce_fill := f\<rparr>)"
    using data_cell_guarded [of repr_of i "vs ! score_column"] n by (simp add: guarded_cell_def)
  have "map ce_value cells = map ce_value ?cs"
    unfolding c map_update using n by (metis list_update_id nth_map sheet_cell.select_convs(1) sheet_cell.surjective sheet_cell.update_convs(3))
  moreover have "map ce_value ?cs = map (sanitize_spreadsheet_value repr_of) vs"
    by (simp add: data_cell_def Let_def)
  moreover have "list_all guarded_cell cells"
    unfolding c list_all_iff using g data_cell_guarded by (auto dest!: set_update_subset_insert [THEN subsetD])
  ultimately show ?thesis by simp
qed

lemma data_rows_guarded:
  "data_rows repr_of i rows = Inr cells \<Longrightarrow> \<forall>r \<in> set rows. length r = 9 \<Longrightarrow>
   map (map ce_value) cells = map (map (sanitize_spreadsheet_value repr_of)) rows \<and> list_all (list_all guarded_cell) cells"
proof (induction repr_of i rows arbitrary: cells rule: data_rows.induct)
  case (2 repr_of i r rs)
  then obtain c cs where c: "data_row repr_of i r = Inr c" "data_rows repr_of (Suc i) rs = Inr cs" "cells = c # cs"
    by (auto simp: bind_res_Inr_iff)
  then show ?case using "2.IH" [OF c(2)] "2.prems"(2) data_row_guarded [OF c(1)] by simp
qed simp

lemma website_row_length: "website_row d = Inr r \<Longrightarrow> length r = 9"
  by (auto simp: website_row_def bind_res_Inr_iff)

lemma format_rows_Inr:
  "format_website_rows ls = Inr rows \<Longrightarrow>
   length rows = length ls \<and> (\<forall>i < length ls. website_row (lead_fields (ls ! i)) = Inr (rows ! i)) \<and> (\<forall>r \<in> set rows. length r = 9)"
proof (induction ls arbitrary: rows)
  case (Cons l ls)
  then obtain r rs where r: "website_row (lead_fields l) = Inr r" "format_website_rows ls = Inr rs" "rows = r # rs"
    by (auto simp: bind_res_Inr_iff)
  then show ?case using Cons.IH [OF r(2)] website_row_length [OF r(1)] by (auto simp: nth_Cons split: nat.splits)
qed simp

text \<open>
  A written sheet has one row per lead, in their order, with the guarded values of that lead; no
  text in it is taken for a formula; every lead passed the gate.
\<close>

lemma export_written:
  assumes "export_to_excel wb leads mode policy checker cutoff = Inr (Written s)"
  shows "mode = ''with_website'' \<and> (\<forall>l \<in> set leads. item_exportable checker policy cutoff (item_of_lead l))
    \<and> sh_header s = website_columns
    \<and> (\<exists>rows. format_website_rows leads = Inr rows
         \<and> map (map ce_value) (sh_rows s) = map (map (sanitize_spreadsheet_value (wl_repr wb))) rows)
    \<and> list_all (list_all guarded_cell) (sh_rows s)"
proof -
  have gate: "require_exportable (map item_of_lead leads) mode policy checker cutoff = Inr ()" "mode = ''with_website''"
    using assms by (auto simp: export_to_excel_def bind_res_Inr_iff split: if_splits)
  obtain rows where rows: "format_website_rows leads = Inr rows" "write_workbook wb rows = Written s"
    using assms by (auto simp: export_to_excel_def bind_res_Inr_iff split: if_splits)
  then obtain cells where cells: "data_rows (wl_repr wb) 2 rows = Inr cells" "sh_rows s = cells" "sh_header s = website_columns"
    by (auto simp: write_workbook_def Let_def split: sum.splits if_splits)
  have r: "\<forall>r \<in> set rows. length r = 9" using format_rows_Inr [OF rows(1)] by simp
  have g: "map (map ce_value) cells = map (map (sanitize_spreadsheet_value (wl_repr wb))) rows"
    "list_all (list_all guarded_cell) cells" using data_rows_guarded [OF cells(1) r] by simp_all
  then show ?thesis using gate require_exportable_iff g cells(2,3) rows(1) by auto
qed

text \<open>
  A verified lead handed over as its own record is checked for the provenance of its fields only:
  neither the privacy policy nor the suppression list is asked about the contacts in it.
\<close>

definition record_of_lead :: "verified_lead \<Rightarrow> sheet_lead" where
  "record_of_lead l = Sheet_mapping (Some ''verified_report'')
     (map (\<lambda>(k, p). (k, Some (fp_source p))) (vl_provenance l)) (lead_fields (Sheet_verified l))"

lemma record_skips_privacy:
  assumes "vl_provenance l \<noteq> []" "\<forall>(k, p) \<in> set (vl_provenance l). fp_source p \<in> {OFFICIAL_WEBSITE, USER_INPUT}"
  shows "require_exportable [item_of_lead (record_of_lead l)] ''with_website'' policy checker cutoff = Inr ()"
  using assms by (auto simp: require_exportable_iff item_exportable_def record_of_lead_def)

text \<open>No column is wider than its limit.\<close>

lemma width_bounds:
  "w \<in> set (calculate_column_widths repr_of columns rows) \<Longrightarrow> w \<le> 50"
  by (auto simp: calculate_column_widths_def column_width_def width_limit_def)

end
