(* ===== verification/Lead_Filters.thy ===== *)
theory Lead_Filters
  imports Guards Url_Join Lines Title_Case
begin

text \<open>
  The filters that qualify a lead (src/src/filters.py): reviews, the age of the business, online
  shops, chains, social networks, and the categories and address shown for it. The registry that
  answers WHOIS queries and the current year are parameters. A lead is the decoded answer of the
  places provider; an address has its components and its formatted text as typed fields.
\<close>

section \<open>Reviews\<close>

text \<open>A number as Python compares it; anything else raises \<open>TypeError\<close>.\<close>

definition number_of :: "pyval \<Rightarrow> pyfloat res" where
  "number_of v =
    (case v of
       VInt i \<Rightarrow> Inr (FNum (of_int i))
     | VBool b \<Rightarrow> Inr (FNum (if b then 1 else 0))
     | VFloat f \<Rightarrow> Inr f
     | _ \<Rightarrow> Inl TypeError)"

definition float_less :: "pyfloat \<Rightarrow> rat \<Rightarrow> bool" where
  "float_less f r = (case f of FNum x \<Rightarrow> x < r | FNegInf \<Rightarrow> True | _ \<Rightarrow> False)"

definition float_less_eq :: "pyfloat \<Rightarrow> rat \<Rightarrow> bool" where
  "float_less_eq f r = (case f of FNum x \<Rightarrow> x \<le> r | FNegInf \<Rightarrow> True | _ \<Rightarrow> False)"

definition float_greater :: "pyfloat \<Rightarrow> rat \<Rightarrow> bool" where
  "float_greater f r = (case f of FNum x \<Rightarrow> r < x | FInf \<Rightarrow> True | _ \<Rightarrow> False)"

definition filter_by_reviews :: "(string \<Rightarrow> pyfloat option) \<Rightarrow> (string \<times> pyval) list \<Rightarrow> rat \<Rightarrow> rat \<Rightarrow> bool res" where
  "filter_by_reviews float_text place min_rating max_reviews =
    (let rating = item_or_none place ''rating'';
         count = (case dict_get place ''userRatingCount'' of Some v \<Rightarrow> v | None \<Rightarrow> VInt 0)
     in if rating = VNone then Inr False
        else bind_res (float_of_value float_text rating) (\<lambda>r.
          if float_less_eq r min_rating then Inr False
          else bind_res (number_of count) (\<lambda>n.
            Inr (\<not> (float_less n 1 \<or> float_greater n max_reviews)))))"

section \<open>Age\<close>

datatype whois_date = Date_year int | Date_other

datatype whois_answer = Whois_raised | Whois_none | Whois_single whois_date | Whois_many "whois_date list"

definition check_whois_age :: "whois_answer \<Rightarrow> int \<Rightarrow> bool option" where
  "check_whois_age w cutoff_year =
    (let judged = (\<lambda>d. case d of Date_year y \<Rightarrow> Some (y \<le> cutoff_year) | Date_other \<Rightarrow> None)
     in case w of
          Whois_single d \<Rightarrow> judged d
        | Whois_many (d # _) \<Rightarrow> judged d
        | _ \<Rightarrow> None)"

text \<open>All matches of a pattern as its pieces, from left to right.\<close>

fun find_groups :: "nat \<Rightarrow> pat list \<Rightarrow> char option \<Rightarrow> string \<Rightarrow> string list list" where
  "find_groups 0 ps b s = []"
| "find_groups (Suc k) ps b s =
    (case s of
       [] \<Rightarrow> []
     | c # cs \<Rightarrow>
        (case group_ends ps b s of
           [] \<Rightarrow> find_groups k ps (Some c) cs
         | ns # _ \<Rightarrow>
            if sum_list ns = 0 then find_groups k ps (Some c) cs
            else cut_pieces ns s # find_groups k ps (char_before b s (sum_list ns)) (drop (sum_list ns) s)))"

definition findall_groups :: "pat list \<Rightarrow> string \<Rightarrow> string list list" where
  "findall_groups ps s = find_groups (Suc (length s)) ps None s"

definition some_spaces :: pat where
  "some_spaces = p_plus (PCls py_space)"

definition four_digits :: pat where
  "four_digits = p_times 4 (PCls is_digit)"

definition word_in :: "string list \<Rightarrow> pat" where
  "word_in ws = p_alt (map p_lit ws)"

text \<open>The last piece of every pattern is the number it captures, but for the boundary after it.\<close>

definition year_patterns :: "(nat \<times> pat list) list" where
  "year_patterns =
    [(4, [p_alt [p_seq [p_lit ''fondat'', one_of ''aoe''], p_seq [p_lit ''nat'', p_opt (p_lit ''a'')],
                 p_seq [p_lit ''costituit'', one_of ''aoe''], p_seq [p_lit ''attiv'', one_of ''aoi'']],
          some_spaces, p_alt [p_lit ''nel'', p_seq [p_lit ''nel'', p_opt (PCls (\<lambda>c. c = CHR 0x27))]], some_spaces, four_digits]),
     (3, [p_boundary, p_lit ''dal'', some_spaces, four_digits, p_boundary]),
     (3, [p_boundary, p_lit ''since'', some_spaces, four_digits, p_boundary]),
     (4, [p_boundary, p_lit ''established'', some_spaces, p_opt (p_seq [p_lit ''in'', some_spaces]), four_digits, p_boundary]),
     (5, [p_boundary, p_lit ''fin'', some_spaces, p_lit ''dal'', some_spaces, four_digits, p_boundary])]"

definition duration_patterns :: "(nat \<times> pat list) list" where
  "duration_patterns =
    [(4, [p_lit ''da'', some_spaces,
          p_alt [p_lit ''oltre'', p_seq [p_lit (''pi'' @ [CHR 0xF9]), some_spaces, p_lit ''di''], p_lit ''quasi''], some_spaces,
          p_plus (PCls is_digit), some_spaces, p_lit ''ann'', one_of ''io'']),
     (3, [p_alt [p_lit ''over'', p_seq [p_lit ''more'', some_spaces, p_lit ''than'']], some_spaces, PEps,
          p_plus (PCls is_digit), some_spaces, p_lit ''year'', p_opt (p_lit ''s'')]),
     (0, [p_plus (PCls is_digit), some_spaces, p_lit ''ann'', p_opt (p_lit ''i''), some_spaces, p_lit ''di'', some_spaces,
          p_lit ''esperienza''])]"

definition captured :: "(nat \<times> pat list) list \<Rightarrow> string \<Rightarrow> int list" where
  "captured patterns s =
    concat (map (\<lambda>(i, ps). map (\<lambda>g. int (decimal_value (g ! i))) (findall_groups ps s)) patterns)"

text \<open>The first plausible year decides, then the first duration; without either there is no answer.\<close>

definition check_copywriting_age :: "string \<Rightarrow> int \<Rightarrow> int \<Rightarrow> int \<Rightarrow> bool option" where
  "check_copywriting_age html_text current_year cutoff_year min_years =
    (if html_text = '''' then None
     else case filter (\<lambda>y. 1900 \<le> y \<and> y \<le> current_year) (captured year_patterns (py_lower html_text)) of
       y # _ \<Rightarrow> Some (y \<le> cutoff_year)
     | [] \<Rightarrow> (case captured duration_patterns (py_lower html_text) of n # _ \<Rightarrow> Some (min_years \<le> n) | [] \<Rightarrow> None))"

definition filter_by_business_age :: "(string \<Rightarrow> whois_answer) \<Rightarrow> int \<Rightarrow> string \<Rightarrow> string \<Rightarrow> int \<Rightarrow> bool" where
  "filter_by_business_age whois current_year domain html_text min_years =
    (let cutoff_year = current_year - min_years in
     if check_whois_age (whois domain) cutoff_year = Some True then True
     else if check_copywriting_age html_text current_year cutoff_year min_years = Some True then True
     else True)"

section \<open>Shops, chains, social networks\<close>

definition filter_ecommerce :: "string \<Rightarrow> string list \<Rightarrow> bool" where
  "filter_ecommerce html_text indicators =
    (if html_text = '''' then False
     else 2 \<le> length (filter (\<lambda>i. contains_str (py_lower i) (py_lower html_text)) indicators))"

text \<open>The names are stripped, so the end of a name is where its text ends.\<close>

definition p_start :: pat where
  "p_start = PLook (\<lambda>l r. l = None)"

definition p_end :: pat where
  "p_end = PLook (\<lambda>l r. r = None)"

definition cut_matches :: "pat list \<Rightarrow> string \<Rightarrow> string" where
  "cut_matches ps s = pat_sub ps (\<lambda>_. '''') s"

definition normalize_brand_name :: "string \<Rightarrow> string" where
  "normalize_brand_name name0 =
    (let name1 = cut_matches [p_start, p_alt [p_lit ''il'', p_lit ''la'', p_lit ''lo'', p_seq [p_lit ''l'', PCls (\<lambda>c. c = CHR 0x27)],
           p_lit ''i'', p_lit ''gli'', p_lit ''le'', p_lit ''the'', p_lit ''a'', p_lit ''an''], some_spaces] name0;
         name2 = cut_matches [p_plus (PCls (\<lambda>c. py_space c \<or> c = CHR ''-'')), p_plus (PCls is_digit), p_end] name1;
         name3 = cut_matches [PStar (PCls py_space), p_lit ''-'', PStar (PCls py_space), p_plus (PCls word_char), p_end] name2
     in py_strip (filter (\<lambda>c. word_char c \<or> py_space c) name3))"

definition filter_franchise :: "string \<Rightarrow> string list \<Rightarrow> string list \<Rightarrow> bool" where
  "filter_franchise business_name all_names known_franchises =
    (if business_name = '''' then False
     else let name_lower = py_strip (py_lower business_name); normalized = normalize_brand_name name_lower in
       if list_ex (\<lambda>f. contains_str (py_lower f) name_lower) known_franchises then True
       else normalized \<noteq> '''' \<and> 3 \<le> length normalized
         \<and> 3 \<le> length (filter (\<lambda>n. contains_str normalized (normalize_brand_name (py_strip (py_lower n)))) all_names))"

definition filter_social_media :: "string \<Rightarrow> string list \<Rightarrow> bool" where
  "filter_social_media domain social_domains =
    (if domain = '''' then False else list_ex (\<lambda>s. contains_str s (py_lower domain)) social_domains)"

definition extract_domain :: "string \<Rightarrow> string" where
  "extract_domain url =
    (case urlparse url of
       Inl _ \<Rightarrow> url
     | Inr u \<Rightarrow>
        let domain = (if pu_netloc u = '''' then pu_path u else pu_netloc u)
        in if starts_with ''www.'' domain then drop 4 domain else domain)"

section \<open>Categories\<close>

definition category_translations :: "(string \<times> string) list" where
  "category_translations =
    [(''restaurant'', ''Ristorante''), (''italian_restaurant'', ''Ristorante Italiano''),
    (''pizza_restaurant'', ''Pizzeria''), (''pizza'', ''Pizzeria''), (''pizzeria'', ''Pizzeria''),
    (''bar'', ''Bar''), (''bar_or_pub'', ''Bar''), (''pub'', ''Pub/Bar''), (''cafe'', ''Bar''),
    (''cafe_or_coffee_shop'', ''Bar''), (''coffee_shop'', ''Bar''), (''gelateria'', ''Gelateria''),
    (''ice_cream_parlor'', ''Gelateria''), (''bakery'', ''Panificio/Pasticceria''),
    (''bakery_or_pastry_shop'', ''Panificio/Pasticceria''), (''pastry_shop'', ''Pasticceria''),
    (''dentist'', ''Dentista''), (''dental_clinic'', ''Studio Dentistico''), (''lawyer'', ''Avvocato''),
    (''plumber'', ''Idraulico''), (''electrician'', ''Elettricista''), (''beauty_salon'', ''Centro Estetico''),
    (''hair_care'', ''Parrucchiere''), (''hair_salon'', ''Parrucchiere''), (''spa'', ''Centro Benessere''),
    (''gym'', ''Palestra''), (''fitness_center'', ''Palestra''), (''hotel'', ''Hotel''),
    (''lodging'', ''Hotel/Alloggio''), (''store'', ''Negozio''),
    (''clothing_store'', ''Negozio di Abbigliamento''), (''supermarket'', ''Supermercato''),
    (''grocery_or_supermarket'', ''Supermercato''), (''pharmacy'', ''Farmacia''),
    (''drugstore'', ''Farmacia''), (''medical_clinic'', ''Poliambulatorio''), (''doctor'', ''Medico''),
    (''physiotherapist'', ''Fisioterapista''), (''veterinary_care'', ''Veterinario''),
    (''real_estate_agency'', ''Agenzia Immobiliare''), (''travel_agency'', ''Agenzia di Viaggi''),
    (''car_repair'', ''Officina Meccanica''), (''car_dealer'', ''Concessionario Auto''),
    (''car_wash'', ''Autolavaggio''), (''car_rental'', ''Noleggio Auto''), (''laundry'', ''Lavanderia''),
    (''dry_cleaning'', ''Lavanderia''), (''florist'', ''Fioraio''), (''jewelry_store'', ''Gioielleria''),
    (''book_store'', ''Libreria''), (''pet_store'', ''Negozio per Animali''),
    (''electronics_store'', ''Negozio di Elettronica''), (''furniture_store'', ''Negozio di Mobili''),
    (''hardware_store'', ''Ferramenta''), (''bicycle_store'', ''Negozio di Biciclette''),
    (''school'', ''Scuola''), (''university'', ''Universit'' @ [CHR 0xE0]),
    (''amusement_park'', ''Parco Divertimenti''), (''art_gallery'', ''Galleria d'Arte''),
    (''museum'', ''Museo''), (''night_club'', ''Discoteca''), (''cinema'', ''Cinema''),
    (''movie_theater'', ''Cinema''), (''stadium'', ''Stadio''), (''accounting'', ''Studio Commercialista''),
    (''insurance_agency'', ''Agenzia Assicurativa''), (''bank'', ''Banca''),
    (''finance'', ''Servizi Finanziari''), (''post_office'', ''Ufficio Postale''), (''police'', ''Polizia''),
    (''hospital'', ''Ospedale''), (''funeral_home'', ''Impresa Funebre''),
    (''moving_company'', ''Ditta di Traslochi''), (''painter'', ''Imbianchino''),
    (''roofing_contractor'', ''Coperture Edili''), (''locksmith'', ''Fabbro''), (''park'', ''Parco''),
    (''parking'', ''Parcheggio''), (''cemetery'', ''Cimitero''), (''church'', ''Chiesa''),
    (''place_of_worship'', ''Luogo di Culto'')]"

definition ignored_types :: "string list" where
  "ignored_types =
    [''point_of_interest'', ''establishment'', ''food'', ''store'', ''health'', ''general_contractor'', ''local_business'', ''political'', ''finance'', ''lodging'']"

definition category_tag :: "string \<Rightarrow> string" where
  "category_tag t =
    (case map_of category_translations t of
       Some tag \<Rightarrow> tag
     | None \<Rightarrow> py_title (map (\<lambda>c. if c = CHR ''_'' then CHR '' '' else c) t))"

fun clean_tags :: "string list \<Rightarrow> string list \<Rightarrow> string list" where
  "clean_tags seen [] = seen"
| "clean_tags seen (t # ts) =
    (let t_lower = py_lower t in
     if t_lower \<in> set ignored_types then clean_tags seen ts
     else if category_tag t_lower \<in> set seen then clean_tags seen ts
     else clean_tags (seen @ [category_tag t_lower]) ts)"

definition clean_and_translate_categories :: "string list \<Rightarrow> string \<Rightarrow> string" where
  "clean_and_translate_categories raw_types search_kw =
    (let tags = clean_tags [] raw_types;
         kw = (if search_kw = '''' then '''' else py_title (py_strip search_kw));
         shown = (if tags = [] \<and> kw \<noteq> '''' then [kw] else tags)
     in if shown = [] then ''N/A'' else join_with '', '' (take 2 shown))"

section \<open>Addresses\<close>

record address_component =
  ac_types :: "string list"
  ac_long_text :: "string option"

record lead_address =
  la_components :: "address_component list"
  la_formatted :: "string option"
  la_search_keyword :: "string option"

definition long_text :: "address_component \<Rightarrow> string" where
  "long_text c = (case ac_long_text c of Some s \<Rightarrow> s | None \<Rightarrow> '''')"

text \<open>The route, the street number and the locality found so far.\<close>

fun read_components :: "address_component list \<Rightarrow> string \<times> string \<times> string \<Rightarrow> string \<times> string \<times> string" where
  "read_components [] found = found"
| "read_components (c # cs) (route, number, locality) =
    read_components cs
      (if ''route'' \<in> set (ac_types c) then (long_text c, number, locality)
       else if ''street_number'' \<in> set (ac_types c) then (route, long_text c, locality)
       else if ''locality'' \<in> set (ac_types c) then (route, number, long_text c)
       else (route, number, locality))"

definition formatted_address :: "lead_address \<Rightarrow> string option" where
  "formatted_address l =
    (case la_formatted l of Some s \<Rightarrow> if s = '''' \<or> s = ''N/A'' then None else Some s | None \<Rightarrow> None)"

definition address_parts :: "string \<Rightarrow> string list" where
  "address_parts s = map py_strip (split_on CHR '','' s)"

text \<open>\<open>isdigit\<close> also holds of the superscripts.\<close>

definition digit_sign :: "char \<Rightarrow> bool" where
  "digit_sign c \<longleftrightarrow> is_digit c \<or> code c \<in> {178, 179, 185}"

definition is_street_number :: "string \<Rightarrow> bool" where
  "is_street_number p \<longleftrightarrow> length p \<le> 8 \<and> (list_ex digit_sign p \<or> py_lower p \<in> {''snc'', ''s.n.c.''})"

definition street_of :: "lead_address \<Rightarrow> string \<Rightarrow> string \<Rightarrow> string" where
  "street_of l route number =
    (if route \<noteq> '''' then (if number \<noteq> '''' then route @ '', '' @ number else route)
     else case formatted_address l of
       None \<Rightarrow> ''N/A''
     | Some s \<Rightarrow>
        (case address_parts s of
           p0 # p1 # _ \<Rightarrow> if is_street_number p1 then p0 @ '', '' @ p1 else p0
         | _ \<Rightarrow> s))"

definition five_digits :: "pat list" where
  "five_digits = [p_boundary, p_times 5 (PCls is_digit), p_boundary]"

definition capital :: pat where
  "capital = PCls is_upper_az"

definition without_codes :: "string \<Rightarrow> string" where
  "without_codes s =
    (let a = py_strip (cut_matches five_digits s);
         b = py_strip (cut_matches [p_boundary, capital, capital, p_boundary] a)
     in py_strip (cut_matches [p_lit ''('', capital, capital, p_lit '')''] b))"

definition names_italy :: "string \<Rightarrow> bool" where
  "names_italy p \<longleftrightarrow> contains_str ''italia'' (py_lower p) \<or> contains_str ''italy'' (py_lower p)"

definition locality_from_text :: "string \<Rightarrow> string" where
  "locality_from_text s =
    (let parts = address_parts s in
     case filter (\<lambda>p. \<not> names_italy p \<and> pat_search (p_seq five_digits) p) parts of
       candidate # _ \<Rightarrow> without_codes candidate
     | [] \<Rightarrow>
        if 2 \<le> length parts
        then (if py_lower (last parts) \<in> {''italia'', ''italy''} \<and> 3 \<le> length parts
              then parts ! (length parts - 2) else last parts)
        else '''')"

definition locality_of :: "lead_address \<Rightarrow> string \<Rightarrow> string" where
  "locality_of l given =
    (let raw = (if given \<noteq> '''' then given
                else case formatted_address l of Some s \<Rightarrow> locality_from_text s | None \<Rightarrow> '''');
         cleaned = (if raw = '''' then '''' else rstrip_by (\<lambda>c. c \<in> set '', '') (lstrip_by (\<lambda>c. c \<in> set '', '') (without_codes raw)))
     in if cleaned = '''' \<or> py_lower cleaned = ''n/a''
        then py_title (case la_search_keyword l of Some k \<Rightarrow> k | None \<Rightarrow> ''N/A'') else cleaned)"

definition extract_address_details :: "lead_address \<Rightarrow> string \<times> string" where
  "extract_address_details l =
    (case read_components (la_components l) ('''', '''', '''') of
       (route, number, locality) \<Rightarrow> (street_of l route number, locality_of l locality))"

section \<open>What the filters decide\<close>

text \<open>The age filter lets every lead pass, also one both checks found too young.\<close>

lemma age_filter_passes: "filter_by_business_age whois y domain html n"
  by (simp add: filter_by_business_age_def Let_def)

lemma reviews_iff:
  "filter_by_reviews float_text place lo hi = Inr True \<longleftrightarrow>
   item_or_none place ''rating'' \<noteq> VNone \<and>
   (\<exists>r. float_of_value float_text (item_or_none place ''rating'') = Inr r \<and> \<not> float_less_eq r lo) \<and>
   (\<exists>n. number_of (case dict_get place ''userRatingCount'' of Some v \<Rightarrow> v | None \<Rightarrow> VInt 0) = Inr n
        \<and> \<not> float_less n 1 \<and> \<not> float_greater n hi)"
  by (auto simp: filter_by_reviews_def Let_def bind_res_Inr_iff split: if_splits)

lemma clean_tags_distinct: "distinct seen \<Longrightarrow> distinct (clean_tags seen ts)"
  by (induction seen ts rule: clean_tags.induct) (auto simp: Let_def)

lemma set_clean_tags:
  "set (clean_tags seen ts) = set seen \<union> category_tag ` py_lower ` {t \<in> set ts. py_lower t \<notin> set ignored_types}"
  by (induction seen ts rule: clean_tags.induct) (auto simp: Let_def)

end
