(* ===== verification/Places.thy ===== *)
theory Places
  imports Auditor Discovery
begin

text \<open>
  The Google Places provider (src/src/providers/discovery/google_places.py) behind its facade
  (src/src/scraper.py): a grid of searches around a centre, each with retries, and candidates
  read from answers nobody has validated. The HTTP client is a function from the number of the
  attempt to what it does; the cosine of the latitude is a parameter; distances and degrees are
  rationals. Waiting between requests leaves no trace.
\<close>

section \<open>The provider\<close>

definition google_attribution :: provider_attribution where
  "google_attribution = \<lparr>at_provider = ''google_places'', at_label = ''Google Maps'',
     at_terms_url = ''https://cloud.google.com/terms/maps-platform/eea'',
     at_privacy_url = ''https://policies.google.com/privacy''\<rparr>"

record places_provider =
  gp_api_key :: string
  gp_places_url :: string
  gp_field_mask :: string
  gp_grid_size :: nat
  gp_grid_step_km :: rat
  gp_radius_m :: rat
  gp_max_attempts :: nat

definition new_places_provider ::
  "string \<Rightarrow> string \<Rightarrow> string \<Rightarrow> nat \<Rightarrow> rat \<Rightarrow> rat \<Rightarrow> int \<Rightarrow> places_provider res" where
  "new_places_provider api_key places_url field_mask grid_size step radius max_attempts =
    (if py_strip api_key = '''' then Inl (ValueError ''GOOGLE_API_KEY mancante.'')
     else Inr \<lparr>gp_api_key = py_strip api_key, gp_places_url = places_url, gp_field_mask = field_mask,
       gp_grid_size = grid_size, gp_grid_step_km = step, gp_radius_m = radius,
       gp_max_attempts = nat (max 1 max_attempts)\<rparr>)"

section \<open>The grid\<close>

text \<open>\<open>round(x, 6)\<close>, ties to the even neighbour.\<close>

definition round6 :: "rat \<Rightarrow> rat" where
  "round6 x =
    (let y = x * 10 ^ 6; n = \<lfloor>y\<rfloor>; d = y - of_int n
     in of_int (if 1 / 2 < d \<or> (d = 1 / 2 \<and> odd n) then n + 1 else n) / 10 ^ 6)"

definition offsets :: "nat \<Rightarrow> int list" where
  "offsets size0 = (let k = int (size0 div 2) in [- k .. k])"

definition generate_grid :: "(rat \<Rightarrow> rat) \<Rightarrow> places_provider \<Rightarrow> rat \<Rightarrow> rat \<Rightarrow> (rat \<times> rat) list" where
  "generate_grid cos_degrees p lat lng =
    (let lat_step = gp_grid_step_km p / (11132 / 100);
         cosine = max \<bar>cos_degrees lat\<bar> (1 / 100);
         lng_step = gp_grid_step_km p / (11132 / 100 * cosine)
     in concat (map (\<lambda>i. map (\<lambda>j. (round6 (lat + of_int i * lat_step), round6 (lng + of_int j * lng_step)))
          (offsets (gp_grid_size p))) (offsets (gp_grid_size p))))"

section \<open>One search\<close>

text \<open>
  What a request ends in: an accepted answer with its body as JSON if it is, a timeout, an HTTP
  error with its status (0 when the exception has no response), another exception of the HTTP
  library, or any other exception.
\<close>

datatype post_outcome = Posted "pyval option" | Post_timeout | Post_http_error nat | Post_request_error | Post_error

text \<open>What an attempt leads to: an answer, an error, or the next attempt.\<close>

datatype post_step = Answer "pyval option" | Failed string | Next_attempt

definition post_step_of :: "nat \<Rightarrow> nat \<Rightarrow> post_outcome \<Rightarrow> post_step" where
  "post_step_of max_attempts n out =
    (case out of
       Posted body \<Rightarrow> Answer body
     | Post_timeout \<Rightarrow> if n = max_attempts then Failed ''provider_timeout'' else Next_attempt
     | Post_http_error status \<Rightarrow>
         if n = max_attempts \<or> (status \<noteq> 0 \<and> status < 500 \<and> status \<noteq> 429) then Failed ''provider_http_error''
         else Next_attempt
     | Post_request_error \<Rightarrow> if n = max_attempts then Failed ''provider_unavailable'' else Next_attempt
     | Post_error \<Rightarrow> Failed ''provider_protocol_error'')"

text \<open>Attempt \<open>n\<close> and the ones after it, \<open>k\<close> in all; the answer and the number of the last request.\<close>

fun post_loop :: "nat \<Rightarrow> (nat \<Rightarrow> post_outcome) \<Rightarrow> nat \<Rightarrow> nat \<Rightarrow> pyval option res \<times> nat" where
  "post_loop max_attempts client n 0 = (Inl (DiscoveryProviderError ''provider_unavailable''), n - 1)"
| "post_loop max_attempts client n (Suc k) =
    (case post_step_of max_attempts n (client n) of
       Answer body \<Rightarrow> (Inr body, n)
     | Failed m \<Rightarrow> (Inl (DiscoveryProviderError m), n)
     | Next_attempt \<Rightarrow> post_loop max_attempts client (Suc n) k)"

definition raw_places :: "pyval option \<Rightarrow> pyval list res" where
  "raw_places body =
    (case body of
       Some (VDict d) \<Rightarrow>
         (case dict_get d ''places'' of
            None \<Rightarrow> Inr []
          | Some (VList vs) \<Rightarrow> Inr vs
          | Some _ \<Rightarrow> Inl (DiscoveryProviderError ''provider_invalid_response''))
     | _ \<Rightarrow> Inl (DiscoveryProviderError ''provider_invalid_response''))"

text \<open>\<open>str(v or "").strip()\<close>\<close>

definition stripped_text :: "(pyval \<Rightarrow> string) \<Rightarrow> pyval \<Rightarrow> string" where
  "stripped_text repr_of v = (if truthy v then py_strip (py_str repr_of v) else '''')"

definition candidate_of_raw :: "(pyval \<Rightarrow> string) \<Rightarrow> int \<Rightarrow> pyval \<Rightarrow> transient_candidate option res" where
  "candidate_of_raw repr_of now raw =
    bind_res (method_get raw ''id'' VNone) (\<lambda>i.
      if stripped_text repr_of i = '''' then Inr None
      else bind_res (method_get raw ''displayName'' VNone) (\<lambda>dn.
           bind_res (method_get (if truthy dn then dn else VDict []) ''text'' VNone) (\<lambda>name.
           bind_res (method_get raw ''websiteUri'' VNone) (\<lambda>uri.
             Inr (Some \<lparr>tc_provider = ''google_places'', tc_external_id = stripped_text repr_of i,
               tc_display_name = stripped_text repr_of name,
               tc_website_url = (if stripped_text repr_of uri = '''' then None else Some (stripped_text repr_of uri)),
               tc_collected_at = Aware now, tc_attribution = google_attribution\<rparr>)))))"

fun candidates_of :: "(pyval \<Rightarrow> string) \<Rightarrow> int \<Rightarrow> pyval list \<Rightarrow> transient_candidate list res" where
  "candidates_of repr_of now [] = Inr []"
| "candidates_of repr_of now (r # rs) =
    bind_res (candidate_of_raw repr_of now r) (\<lambda>c.
    bind_res (candidates_of repr_of now rs) (\<lambda>cs. Inr (case c of Some x \<Rightarrow> x # cs | None \<Rightarrow> cs)))"

definition fetch :: "(pyval \<Rightarrow> string) \<Rightarrow> int \<Rightarrow> places_provider \<Rightarrow> (nat \<Rightarrow> post_outcome) \<Rightarrow> transient_candidate list res \<times> nat" where
  "fetch repr_of now p client =
    (case post_loop (gp_max_attempts p) client 1 (gp_max_attempts p) of
       (r, n) \<Rightarrow> (bind_res r (\<lambda>body. bind_res (raw_places body) (candidates_of repr_of now)), n))"

section \<open>A discovery\<close>

text \<open>
  A search at a point asks for the query's text and language around it; the client answers for
  the point.
\<close>

record place_search =
  ps_text :: string
  ps_language :: string
  ps_lat :: rat
  ps_lng :: rat
  ps_radius :: rat

type_synonym places_client = "place_search \<Rightarrow> nat \<Rightarrow> post_outcome"

definition search_at :: "places_provider \<Rightarrow> discovery_query \<Rightarrow> rat \<times> rat \<Rightarrow> place_search" where
  "search_at p q pt = \<lparr>ps_text = dq_text q, ps_language = dq_language q, ps_lat = fst pt, ps_lng = snd pt,
     ps_radius = gp_radius_m p\<rparr>"

fun fetch_all ::
  "(pyval \<Rightarrow> string) \<Rightarrow> int \<Rightarrow> places_provider \<Rightarrow> places_client \<Rightarrow> discovery_query \<Rightarrow> (rat \<times> rat) list
   \<Rightarrow> transient_candidate list res \<times> nat" where
  "fetch_all repr_of now p client q [] = (Inr [], 0)"
| "fetch_all repr_of now p client q (pt # pts) =
    (case fetch repr_of now p (client (search_at p q pt)) of
       (Inl e, n) \<Rightarrow> (Inl e, n)
     | (Inr cs, n) \<Rightarrow>
        (case fetch_all repr_of now p client q pts of
           (r, m) \<Rightarrow> (bind_res r (\<lambda>ds. Inr (cs @ ds)), n + m)))"

definition coordinate :: "pyfloat \<Rightarrow> rat" where
  "coordinate f = (case f of FNum x \<Rightarrow> x | _ \<Rightarrow> 0)"

text \<open>The coordinates of a query are numbers; the calls made are counted.\<close>

definition discover ::
  "(rat \<Rightarrow> rat) \<Rightarrow> (pyval \<Rightarrow> string) \<Rightarrow> int \<Rightarrow> places_provider \<Rightarrow> places_client \<Rightarrow> discovery_query \<Rightarrow> discovery_batch res \<times> nat" where
  "discover cos_degrees repr_of now p client q =
    (case fetch_all repr_of now p client q
       (generate_grid cos_degrees p (coordinate (dq_center_lat q)) (coordinate (dq_center_lng q))) of
       (r, n) \<Rightarrow> (bind_res r (\<lambda>cs. Inr \<lparr>db_candidates = unique_candidates cs, db_attribution = google_attribution\<rparr>), n))"

text \<open>The facade the pipeline calls.\<close>

definition scrape_entire_grid ::
  "(rat \<Rightarrow> rat) \<Rightarrow> (pyval \<Rightarrow> string) \<Rightarrow> int \<Rightarrow> places_provider \<Rightarrow> places_client \<Rightarrow> string \<Rightarrow> rat \<Rightarrow> rat
   \<Rightarrow> transient_candidate list res \<times> nat" where
  "scrape_entire_grid cos_degrees repr_of now p client text0 lat lng =
    (case make_discovery_query text0 (FNum lat) (FNum lng) ''it'' of
       Inl e \<Rightarrow> (Inl e, 0)
     | Inr q \<Rightarrow> (case discover cos_degrees repr_of now p client q of
                  (r, n) \<Rightarrow> (bind_res r (\<lambda>b. Inr (db_candidates b)), n)))"

section \<open>What a discovery guarantees\<close>

lemma offsets_length: "length (offsets n) = 2 * (n div 2) + 1"
  by (simp add: offsets_def Let_def)

lemma concat_length: "length (concat (map (\<lambda>i. map (f i) ys) xs)) = length xs * length ys"
  by (induction xs) simp_all

lemma grid_length: "length (generate_grid c p lat lng) = (2 * (gp_grid_size p div 2) + 1) ^ 2"
  unfolding generate_grid_def Let_def concat_length offsets_length power2_eq_square by simp

text \<open>
  Of the attempts that remain, at least one is made; the last one made decides, and all before
  it asked for another.
\<close>

lemma post_loop_spec:
  assumes "post_loop m client n k = (r, j)" "n + k = Suc m" "0 < k"
  shows "n \<le> j \<and> j \<le> m \<and> (\<forall>i. n \<le> i \<and> i < j \<longrightarrow> post_step_of m i (client i) = Next_attempt) \<and>
    (case r of Inr body \<Rightarrow> client j = Posted body | Inl e \<Rightarrow> \<exists>msg. e = DiscoveryProviderError msg \<and> post_step_of m j (client j) = Failed msg)"
  using assms
proof (induction m client n k rule: post_loop.induct)
  case (2 m client n k)
  show ?case
  proof (cases "post_step_of m n (client n)")
    case (Answer body)
    then have "client n = Posted body"
      by (auto simp: post_step_of_def split: post_outcome.splits if_splits)
    then show ?thesis using 2 Answer by auto
  next
    case (Failed msg)
    then show ?thesis using 2 by auto
  next
    case Next_attempt
    then have "n \<noteq> m" by (auto simp: post_step_of_def split: post_outcome.splits if_splits)
    then have k: "0 < k" using "2.prems"(2) by auto
    have ih: "Suc n \<le> j \<and> j \<le> m \<and> (\<forall>i. Suc n \<le> i \<and> i < j \<longrightarrow> post_step_of m i (client i) = Next_attempt) \<and>
      (case r of Inr body \<Rightarrow> client j = Posted body | Inl e \<Rightarrow> \<exists>msg. e = DiscoveryProviderError msg \<and> post_step_of m j (client j) = Failed msg)"
      using "2.IH" [OF Next_attempt] "2.prems" Next_attempt k by simp
    have "post_step_of m i (client i) = Next_attempt" if "n \<le> i" "i < j" for i
      using that ih Next_attempt by (cases "i = n") auto
    then show ?thesis using ih by auto
  qed
qed simp

definition google_candidate :: "transient_candidate \<Rightarrow> bool" where
  "google_candidate c \<longleftrightarrow> tc_provider c = ''google_places'' \<and> tc_external_id c \<noteq> '''' \<and> py_strip (tc_external_id c) = tc_external_id c
     \<and> tc_attribution c = google_attribution \<and> tc_website_url c \<noteq> Some ''''"

lemma stripped_text_stripped: "py_strip (stripped_text repr_of v) = stripped_text repr_of v"
  by (simp add: stripped_text_def)

lemma candidate_of_raw_google: "candidate_of_raw repr_of now raw = Inr (Some c) \<Longrightarrow> google_candidate c"
  by (auto simp: candidate_of_raw_def bind_res_Inr_iff google_candidate_def stripped_text_stripped split: if_splits)

lemma candidates_google: "candidates_of repr_of now rs = Inr cs \<Longrightarrow> c \<in> set cs \<Longrightarrow> google_candidate c"
  by (induction rs arbitrary: cs) (auto simp: bind_res_Inr_iff dest: candidate_of_raw_google split: option.splits)

lemma candidates_error: "candidates_of repr_of now rs = Inl e \<Longrightarrow> e = AttributeError"
  by (induction rs) (auto simp: bind_res_Inl_iff candidate_of_raw_def method_get_def split: pyval.splits if_splits)

definition provider_error :: "error \<Rightarrow> bool" where
  "provider_error e \<longleftrightarrow> e = AttributeError \<or> (\<exists>m. e = DiscoveryProviderError m)"

lemma fetch_spec:
  assumes "fetch repr_of now p client = (r, n)"
  shows "n \<le> gp_max_attempts p \<and>
    (case r of Inr cs \<Rightarrow> (\<forall>c \<in> set cs. google_candidate c) | Inl e \<Rightarrow> provider_error e)"
proof -
  obtain q where q: "post_loop (gp_max_attempts p) client 1 (gp_max_attempts p) = (q, n)"
      "r = bind_res q (\<lambda>body. bind_res (raw_places body) (candidates_of repr_of now))"
    using assms(1) by (auto simp: fetch_def split: prod.splits)
  have s: "n \<le> gp_max_attempts p \<and> (\<forall>e. q = Inl e \<longrightarrow> provider_error e)"
  proof (cases "gp_max_attempts p")
    case 0
    then show ?thesis using q(1) by (auto simp: provider_error_def)
  next
    case (Suc k)
    then show ?thesis using post_loop_spec [OF q(1)] by (auto simp: provider_error_def)
  qed
  have raw: "raw_places body = Inl e \<Longrightarrow> provider_error e" for body e
    by (auto simp: raw_places_def provider_error_def split: option.splits pyval.splits)
  show ?thesis
  proof (cases r)
    case (Inl e)
    then show ?thesis using s raw q(2) candidates_error by (auto simp: bind_res_Inl_iff provider_error_def)
  next
    case (Inr cs)
    then show ?thesis using s q(2) candidates_google by (auto simp: bind_res_Inr_iff)
  qed
qed

lemma fetch_all_spec:
  assumes "fetch_all repr_of now p client q pts = (r, n)"
  shows "n \<le> gp_max_attempts p * length pts \<and>
    (case r of Inr cs \<Rightarrow> (\<forall>c \<in> set cs. google_candidate c) | Inl e \<Rightarrow> provider_error e)"
  using assms
proof (induction pts arbitrary: r n)
  case (Cons pt pts)
  obtain f k where f: "fetch repr_of now p (client (search_at p q pt)) = (f, k)" by fastforce
  have fs: "k \<le> gp_max_attempts p \<and> (case f of Inr cs \<Rightarrow> (\<forall>c \<in> set cs. google_candidate c) | Inl e \<Rightarrow> provider_error e)"
    by (rule fetch_spec [OF f])
  show ?case
  proof (cases f)
    case (Inl e)
    then have "r = Inl e" "n = k" using Cons.prems f by auto
    then show ?thesis using fs Inl by (auto simp: algebra_simps)
  next
    case (Inr cs)
    obtain g m where g: "fetch_all repr_of now p client q pts = (g, m)" by fastforce
    then have r: "r = bind_res g (\<lambda>ds. Inr (cs @ ds))" "n = k + m" using Cons.prems f Inr by auto
    have "m \<le> gp_max_attempts p * length pts \<and>
        (case g of Inr cs \<Rightarrow> (\<forall>c \<in> set cs. google_candidate c) | Inl e \<Rightarrow> provider_error e)"
      by (rule Cons.IH [OF g])
    then show ?thesis using r fs Inr by (cases g) (auto simp: algebra_simps)
  qed
qed simp

text \<open>
  A discovery gives distinct candidates of the provider, or one of its errors, within the allowed
  number of requests.
\<close>

lemma discover_spec:
  assumes "discover cos_degrees repr_of now p client q = (r, n)"
  shows "n \<le> gp_max_attempts p * (2 * (gp_grid_size p div 2) + 1) ^ 2 \<and>
    (case r of Inr b \<Rightarrow> distinct_on candidate_key (db_candidates b) \<and> (\<forall>c \<in> set (db_candidates b). google_candidate c)
     | Inl e \<Rightarrow> provider_error e)"
proof -
  let ?g = "generate_grid cos_degrees p (coordinate (dq_center_lat q)) (coordinate (dq_center_lng q))"
  obtain f where f: "fetch_all repr_of now p client q ?g = (f, n)"
      "r = bind_res f (\<lambda>cs. Inr \<lparr>db_candidates = unique_candidates cs, db_attribution = google_attribution\<rparr>)"
    using assms by (auto simp: discover_def split: prod.splits)
  have s: "n \<le> gp_max_attempts p * length ?g \<and>
      (case f of Inr cs \<Rightarrow> (\<forall>c \<in> set cs. google_candidate c) | Inl e \<Rightarrow> provider_error e)"
    by (rule fetch_all_spec [OF f(1)])
  show ?thesis
  proof (cases f)
    case (Inl e)
    then show ?thesis using s f(2) by (simp add: grid_length)
  next
    case (Inr cs)
    have u: "distinct_on candidate_key (unique_candidates cs) \<and> (\<exists>ys. unique_candidates cs = ys \<and> subseq ys cs)"
      using unique_loop_spec [of "[]" "[]" cs] by (simp add: unique_candidates_def distinct_on_def)
    then obtain N where "unique_candidates cs = nths cs N" by (auto simp: subseq_conv_nths)
    then have "set (unique_candidates cs) \<subseteq> set cs" using set_nths_subset by metis
    then show ?thesis using s f(2) Inr u by (auto simp: grid_length)
  qed
qed

end
