(* ===== verification/Settings.thy ===== *)
theory Settings
  imports Auditor Places Crypto
begin

text \<open>
  Runtime settings: the command line's environment (src/src/settings.py over the constants of
  src/src/config.py), the assembly of scraper and auditor from them
  (src/src/application/container.py, src/src/scraper.py), and the server's settings
  (src/src/web/settings.py).
\<close>

section \<open>Constants\<close>

definition google_places_v1_url :: string where
  "google_places_v1_url = ''https://places.googleapis.com/v1/places:searchText''"

definition google_geocoding_url :: string where
  "google_geocoding_url = ''https://maps.googleapis.com/maps/api/geocode/json''"

definition openrouter_base_url :: string where
  "openrouter_base_url = ''https://openrouter.ai/api/v1''"

definition default_llm_model :: string where
  "default_llm_model = ''meta-llama/llama-3.1-8b-instruct''"

definition default_llm_model_free :: string where
  "default_llm_model_free = ''google/gemini-2.5-flash:free''"

definition default_token_mode :: string where
  "default_token_mode = ''high_fidelity''"

definition field_mask :: string where
  "field_mask = ''places.id,'' @ ''places.displayName,'' @ ''places.websiteUri,'' @ ''places.attributions''"

definition ecommerce_indicators :: "string list" where
  "ecommerce_indicators =
    [''cart'', ''checkout'', ''shopify'', ''woocommerce'', ''add-to-cart'', ''add_to_cart'', ''stripe'', ''snipcart'',
     ''bigcommerce'', ''prestashop'', ''magento'', ''opencart'', ''wc-add-to-cart'', ''product-price'', ''shop-now'',
     ''buy-now'', ''carrello'', ''acquista'']"

definition known_franchises :: "string list" where
  "known_franchises =
    [''mcdonald'', ''burger king'', ''kfc'', ''subway'', ''domino'' @ [CHR 0x27] @ ''s pizza'',
     ''starbucks'', ''autogrill'', ''old wild west'', ''roadhouse'', ''alice pizza'',
     ''la piadineria'', ''spontini'', ''rossopomodoro'', ''billy tacos'',
     ''eurospin'', ''lidl'', ''aldi'', ''conad'', ''coop'', ''esselunga'', ''carrefour'',
     ''penny market'', ''md discount'', ''iper'', ''bennet'', ''pam'', ''despar'',
     ''leroy merlin'', ''bricoman'', ''ikea'', ''mondo convenienza'', ''maisons du monde'',
     ''jean louis david'', ''naturhouse'', ''mail boxes etc'', ''kipoint'',
     ''virgin active'', ''anytime fitness'', ''mcfit'',
     ''salmoiraghi'', ''grand vision'', ''fielmann'',
     ''norauto'', ''midas'', ''euromaster'']"

definition social_media_domains :: "string list" where
  "social_media_domains =
    [''facebook.com'', ''instagram.com'', ''linkedin.com'', ''twitter.com'', ''x.com'', ''tiktok.com'', ''youtube.com'',
     ''pinterest.com'', ''wa.me'', ''linktr.ee'', ''msha.ke'', ''lnk.bio'']"

section \<open>The command line's settings\<close>

record application_settings =
  st_google_api_key :: string
  st_openrouter_api_key :: string
  st_google_places_url :: string
  st_google_geocoding_url :: string
  st_openrouter_base_url :: string
  st_llm_model :: string
  st_llm_model_free :: string
  st_token_mode :: string

type_synonym environment = "string \<Rightarrow> string option"

definition env_value :: "environment \<Rightarrow> string \<Rightarrow> string \<Rightarrow> string" where
  "env_value vs name fallback = py_strip (case vs name of Some v \<Rightarrow> v | None \<Rightarrow> fallback)"

definition env_choice :: "environment \<Rightarrow> string \<Rightarrow> string \<Rightarrow> string list \<Rightarrow> string res" where
  "env_choice vs name fallback allowed =
    (let v = env_value vs name fallback in
     if v \<notin> set allowed
     then Inl (SettingsValueError (name @ '' non valido; valori consentiti: '' @ join_with '', '' (text_set allowed)))
     else Inr v)"

text \<open>\<open>username\<close> and \<open>password\<close> are absent exactly when the network location has no at sign.\<close>

definition env_https_url :: "environment \<Rightarrow> string \<Rightarrow> string \<Rightarrow> string res" where
  "env_https_url vs name fallback =
    (let v = env_value vs name fallback in
     bind_res (urlsplit v) (\<lambda>u.
       if ur_scheme u \<noteq> ''https'' \<or> url_hostname u = None \<or> url_hostname u = Some '''' \<or> url_has_credentials u
       then Inl (SettingsValueError (name @ '' deve essere un URL HTTPS senza credenziali.''))
       else Inr v))"

definition settings_from_mapping :: "environment \<Rightarrow> application_settings res" where
  "settings_from_mapping vs =
    bind_res (env_https_url vs ''GOOGLE_PLACES_V1_URL'' google_places_v1_url) (\<lambda>places_url.
    bind_res (env_https_url vs ''GOOGLE_GEOCODING_URL'' google_geocoding_url) (\<lambda>geocoding_url.
    bind_res (env_https_url vs ''OPENROUTER_BASE_URL'' openrouter_base_url) (\<lambda>base_url.
    bind_res (env_choice vs ''TOKEN_MODE'' default_token_mode [''high_fidelity'', ''optimized'']) (\<lambda>token_mode.
      Inr \<lparr>st_google_api_key = env_value vs ''GOOGLE_API_KEY'' '''',
           st_openrouter_api_key = env_value vs ''OPENROUTER_API_KEY'' '''',
           st_google_places_url = places_url, st_google_geocoding_url = geocoding_url,
           st_openrouter_base_url = base_url,
           st_llm_model = env_value vs ''LLM_MODEL'' default_llm_model,
           st_llm_model_free = env_value vs ''LLM_MODEL_FREE'' default_llm_model_free,
           st_token_mode = token_mode\<rparr>))))"

definition require_settings :: "(string \<times> string) list \<Rightarrow> unit res" where
  "require_settings required =
    (let missing = map fst (filter (\<lambda>(name, v). v = '''') required) in
     if missing \<noteq> [] then Inl (SettingsValidationError missing) else Inr ())"

definition require_google :: "application_settings \<Rightarrow> unit res" where
  "require_google s = require_settings [(''GOOGLE_API_KEY'', st_google_api_key s)]"

definition require_openrouter :: "application_settings \<Rightarrow> unit res" where
  "require_openrouter s = require_settings [(''OPENROUTER_API_KEY'', st_openrouter_api_key s)]"

definition require_pipeline :: "application_settings \<Rightarrow> string \<Rightarrow> unit res" where
  "require_pipeline s mode =
    require_settings ((''GOOGLE_API_KEY'', st_google_api_key s)
      # (if mode = ''with_website'' then [(''OPENROUTER_API_KEY'', st_openrouter_api_key s)] else []))"

section \<open>Assembly\<close>

text \<open>The facade builds the provider it is not given, with the defaults of the provider.\<close>

definition lead_scraper :: "string \<Rightarrow> string \<Rightarrow> string \<Rightarrow> places_provider res" where
  "lead_scraper api_key places_url fmask =
    (if places_url = '''' \<or> fmask = '''' then Inl (ValueError ''Configurazione Google Places incompleta.'')
     else new_places_provider api_key places_url fmask 3 2 2000 2)"

definition build_scraper :: "application_settings \<Rightarrow> places_provider res" where
  "build_scraper s =
    bind_res (require_google s) (\<lambda>_. lead_scraper (st_google_api_key s) (st_google_places_url s) field_mask)"

text \<open>
  What surrounds the auditor: the private prompt module and how its functions are called, and the
  tools of the sanitizer with the JSON of the standard library.
\<close>

record auditor_tools =
  bt_import :: "string \<Rightarrow> prompt_module option"
  bt_prompts :: "prompt_module \<Rightarrow> prompts"
  bt_tools :: text_tools
  bt_json_loads :: "string \<Rightarrow> pyval option"
  bt_float_repr :: "pyfloat \<Rightarrow> string"
  bt_float_text :: "string \<Rightarrow> pyfloat option"

definition default_prompt_module :: string where
  "default_prompt_module = ''src.prompts''"

definition build_auditor :: "auditor_tools \<Rightarrow> application_settings \<Rightarrow> auditor res" where
  "build_auditor t s =
    bind_res (require_openrouter s) (\<lambda>_.
    bind_res (new_auditor_check False (st_openrouter_api_key s)) (\<lambda>_.
    bind_res (load_prompt_provider (bt_import t) default_prompt_module) (\<lambda>m.
      Inr \<lparr>au_model = st_llm_model s, au_model_free = st_llm_model_free s, au_prompts = bt_prompts t m,
           au_tools = bt_tools t, au_json_loads = bt_json_loads t, au_float_repr = bt_float_repr t,
           au_float_text = bt_float_text t\<rparr>)))"

text \<open>
  \<open>f"area_{lat:.4f}_{lng:.4f}"\<close> with the signs and points replaced; the sign of a negative number
  that rounds to zero stays.
\<close>

definition round_half_even_rat :: "rat \<Rightarrow> int" where
  "round_half_even_rat y =
    (let n = \<lfloor>y\<rfloor>; d = y - of_int n in if 1 / 2 < d \<or> (d = 1 / 2 \<and> odd n) then n + 1 else n)"

definition fixed4 :: "rat \<Rightarrow> string" where
  "fixed4 x =
    (let n = nat (round_half_even_rat (\<bar>x\<bar> * 10 ^ 4))
     in (if x < 0 then ''-'' else '''') @ nat_digits (n div 10 ^ 4) @ ''.'' @ pad_left 4 CHR ''0'' (nat_digits (n mod 10 ^ 4)))"

definition get_city_name :: "rat \<Rightarrow> rat \<Rightarrow> string" where
  "get_city_name lat lng =
    map (\<lambda>c. if c = CHR ''-'' then CHR ''m'' else if c = CHR ''.'' then CHR ''_'' else c)
      (''area_'' @ fixed4 lat @ ''_'' @ fixed4 lng)"

section \<open>The server's settings\<close>

definition production_database :: "string \<Rightarrow> string res" where
  "production_database v =
    (if \<not> starts_with ''postgresql+psycopg://'' v
     then Inl (ValueError ''Il server richiede PostgreSQL tramite psycopg.'') else Inr v)"

definition key_of_32 :: "string \<Rightarrow> string \<Rightarrow> nat list res" where
  "key_of_32 message encoded =
    (case b64_decode encoded of
       None \<Rightarrow> Inl (ValueError ''Incorrect padding'')
     | Some key \<Rightarrow> if length key \<noteq> 32 then Inl (ValueError message) else Inr key)"

definition server_master_key :: "string \<Rightarrow> nat list res" where
  "server_master_key encoded = key_of_32 ''LEADHUNTER_MASTER_KEY_BASE64 deve decodificare 32 byte.'' encoded"

definition suppression_hmac_key :: "string \<Rightarrow> nat list res" where
  "suppression_hmac_key encoded =
    key_of_32 ''LEADHUNTER_SUPPRESSION_HMAC_KEY_BASE64 deve decodificare 32 byte.'' encoded"

section \<open>What loaded settings satisfy\<close>

lemma urlsplit_empty: "urlsplit '''' = Inr u \<Longrightarrow> ur_scheme u = ''''"
  by (auto simp: urlsplit_def split_scheme_def clean_url_def split_netloc_def before_char_def after_char_def lstrip_by_def starts_with_def)

lemma require_settings_iff: "require_settings rs = Inr () \<longleftrightarrow> (\<forall>(name, v) \<in> set rs. v \<noteq> '''')"
  by (auto simp: require_settings_def Let_def filter_empty_conv)

definition https_without_credentials :: "string \<Rightarrow> bool" where
  "https_without_credentials v \<longleftrightarrow>
    (\<exists>u h. urlsplit v = Inr u \<and> ur_scheme u = ''https'' \<and> url_hostname u = Some h \<and> h \<noteq> '''' \<and> \<not> url_has_credentials u)"

lemma env_https_url_Inr: "env_https_url vs name d = Inr v \<Longrightarrow> v = env_value vs name d \<and> https_without_credentials v"
  by (auto simp: env_https_url_def https_without_credentials_def Let_def bind_res_Inr_iff split: if_splits)

lemma env_choice_Inr: "env_choice vs name d allowed = Inr v \<Longrightarrow> v \<in> set allowed"
  by (auto simp: env_choice_def Let_def split: if_splits)

lemma settings_from_mapping_Inr:
  assumes "settings_from_mapping vs = Inr s"
  shows "https_without_credentials (st_google_places_url s) \<and> https_without_credentials (st_google_geocoding_url s)
    \<and> https_without_credentials (st_openrouter_base_url s) \<and> st_token_mode s \<in> {''high_fidelity'', ''optimized''}"
  using assms env_https_url_Inr env_choice_Inr
  by (fastforce simp: settings_from_mapping_def bind_res_Inr_iff)

text \<open>With what the pipeline requires, nothing the settings decide stops the assembly.\<close>

lemma build_scraper_ready:
  assumes "settings_from_mapping vs = Inr s" "require_pipeline s mode = Inr ()"
  shows "\<exists>p. build_scraper s = Inr p \<and> 0 < gp_max_attempts p \<and> gp_grid_size p = 3"
proof -
  have key: "st_google_api_key s \<noteq> ''''" using assms(2) by (simp add: require_pipeline_def require_settings_iff)
  have "py_strip (st_google_api_key s) = st_google_api_key s"
    using assms(1) by (auto simp: settings_from_mapping_def bind_res_Inr_iff env_value_def)
  moreover have "st_google_places_url s \<noteq> ''''"
  proof
    assume e: "st_google_places_url s = ''''"
    have "https_without_credentials ''''" using settings_from_mapping_Inr [OF assms(1)] e by simp
    then show False by (auto simp: https_without_credentials_def dest: urlsplit_empty)
  qed
  moreover have "require_google s = Inr ()" using key by (simp add: require_google_def require_settings_iff)
  ultimately show ?thesis using key
    by (simp add: build_scraper_def lead_scraper_def new_places_provider_def field_mask_def)
qed

end
