(* ===== verification/Pipeline.thy ===== *)
theory Pipeline
  imports Crawler Exporter Lead_Filters Settings
begin

text \<open>
  The orchestrator and the command line (src/main.py): searching, the crawl of each site, the
  audits that run beside the crawls and finish in any order, and what the command line does with
  the outcome. Progress callbacks, logging and the browser's own cleanup leave no trace.
\<close>

section \<open>The orchestrator\<close>

record orchestrator =
  or_mode :: string
  or_provider :: places_provider
  or_auditor :: "auditor option"
  or_all_leads :: "(string \<times> verified_lead) list"
  or_transient :: "transient_candidate list"

text \<open>
  What a run meets: the discovery service, the world of the crawler, the registry answers, the
  model of each lead, and the moments at which leads are built.
\<close>

record pipeline_world =
  pw_cos :: "rat \<Rightarrow> rat"
  pw_repr :: "pyval \<Rightarrow> string"
  pw_now :: int
  pw_client :: places_client
  pw_crawl :: crawl_world
  pw_parser :: html_parser
  pw_whois :: "string \<Rightarrow> whois_answer"
  pw_year :: int
  pw_page_chats :: "string \<Rightarrow> string \<Rightarrow> chat"
  pw_chats :: "string \<Rightarrow> chat"
  pw_built_at :: "string \<Rightarrow> int"
  pw_audited_at :: "string \<Rightarrow> int"

definition search :: "pipeline_world \<Rightarrow> places_provider \<Rightarrow> rat \<Rightarrow> rat \<Rightarrow> string \<Rightarrow> transient_candidate list res" where
  "search w p lat lng keyword = fst (scrape_entire_grid (pw_cos w) (pw_repr w) (pw_now w) p (pw_client w) keyword lat lng)"

section \<open>Gathering candidates\<close>

definition has_website :: "transient_candidate \<Rightarrow> bool" where
  "has_website c \<longleftrightarrow> tc_website_url c \<noteq> None \<and> tc_website_url c \<noteq> Some ''''"

definition website_of :: "transient_candidate \<Rightarrow> string" where
  "website_of c = (case tc_website_url c of Some u \<Rightarrow> u | None \<Rightarrow> '''')"

text \<open>The new places of one answer, for the keyword that found them, and the keys seen by then.\<close>

fun add_places ::
  "bool \<Rightarrow> string \<Rightarrow> transient_candidate list \<Rightarrow> (string \<times> string) list \<times> (transient_candidate \<times> string) list
   \<Rightarrow> (string \<times> string) list \<times> (transient_candidate \<times> string) list" where
  "add_places with_site keyword [] acc = acc"
| "add_places with_site keyword (c # cs) (seen, found) =
    add_places with_site keyword cs
      (if has_website c = with_site \<and> candidate_key c \<notin> set seen
       then (candidate_key c # seen, found @ [(c, keyword)]) else (seen, found))"

fun gather ::
  "bool \<Rightarrow> (string \<Rightarrow> transient_candidate list res) \<Rightarrow> string list
   \<Rightarrow> (string \<times> string) list \<times> (transient_candidate \<times> string) list \<Rightarrow> (transient_candidate \<times> string) list res" where
  "gather with_site find_places [] acc = Inr (snd acc)"
| "gather with_site find_places (keyword # kws) acc =
    bind_res (find_places keyword) (\<lambda>places. gather with_site find_places kws (add_places with_site keyword places acc))"

definition run_no_website ::
  "pipeline_world \<Rightarrow> rat \<Rightarrow> rat \<Rightarrow> string list \<Rightarrow> orchestrator \<Rightarrow> transient_candidate list res \<times> orchestrator" where
  "run_no_website w lat lng kws o1 =
    (case gather False (search w (or_provider o1) lat lng) kws ([], []) of
       Inl e \<Rightarrow> (Inl e, o1)
     | Inr found \<Rightarrow> (let results = map fst found in
         if results = [] then (Inr [], o1) else (Inr results, o1\<lparr>or_transient := results\<rparr>)))"

definition not_social :: "transient_candidate \<times> string \<Rightarrow> bool" where
  "not_social ck \<longleftrightarrow> \<not> filter_social_media (extract_domain (website_of (fst ck))) social_media_domains"

section \<open>Crawls and audits side by side\<close>

record audit_task =
  ta_id :: string
  ta_crawl :: crawl_result
  ta_keyword :: string
  ta_lead :: verified_lead

record streaming =
  sr_crawler :: crawler_state
  sr_pending :: "audit_task list"
  sr_leads :: "(string \<times> verified_lead) list"
  sr_valid :: "string list"
  sr_queued :: nat
  sr_finished :: nat

text \<open>
  One candidate: its crawl, and the task of its audit when the crawl is auditable, a lead can be
  built from it and the filters let it pass. What the lead says before its audit only feeds the
  filters and the request. Building the lead may raise, which the loop reports and forgets.
\<close>

datatype crawl_verdict = Rejected | Errored | Accepted audit_task

definition accept_crawl :: "pipeline_world \<Rightarrow> int \<Rightarrow> transient_candidate \<Rightarrow> string \<Rightarrow> crawl_result \<Rightarrow> crawl_verdict" where
  "accept_crawl w min_age place keyword r =
    (if \<not> is_auditable r then Rejected
     else case build_verified_lead (pw_parser w) (pw_repr w) (pw_built_at w (tc_external_id place)) r keyword None of
       Inl _ \<Rightarrow> Errored
     | Inr l \<Rightarrow>
        if \<not> filter_by_business_age (pw_whois w) (pw_year w) (extract_domain (vl_website l)) (cw_raw_html_home r) min_age
        then Rejected
        else if filter_franchise (vl_business_name l) [] known_franchises then Rejected
        else Accepted \<lparr>ta_id = tc_external_id place, ta_crawl = r, ta_keyword = keyword, ta_lead = l\<rparr>)"

definition crawl_candidate ::
  "pipeline_world \<Rightarrow> int \<Rightarrow> int \<Rightarrow> transient_candidate \<times> string \<Rightarrow> crawler_state \<Rightarrow> crawl_verdict \<times> crawler_state" where
  "crawl_candidate w max_pages min_age ck cs =
    (case crawl (pw_crawl w) max_pages (website_of (fst ck)) cs of
       (r, cs') \<Rightarrow> (accept_crawl w min_age (fst ck) (snd ck) r, cs'))"

definition submit :: "audit_task \<Rightarrow> streaming \<Rightarrow> streaming" where
  "submit t s = s\<lparr>sr_valid := sr_valid s @ [ta_id t], sr_queued := Suc (sr_queued s), sr_pending := sr_pending s @ [t]\<rparr>"

text \<open>What the future of a task holds once it is done.\<close>

definition task_audit :: "pipeline_world \<Rightarrow> auditor \<Rightarrow> audit_task \<Rightarrow> (string \<times> pyval) list res" where
  "task_audit w a t =
    bind_res (audit_website a (pw_page_chats w (ta_id t)) (pw_chats w (ta_id t)) (cw_pages (ta_crawl t))
        (VStr (vl_business_name (ta_lead t))) (VStr (vl_category (ta_lead t))) (VInt 0) (VInt 0) 3)
      (\<lambda>r. Inr (fst r))"

definition task_lead :: "pipeline_world \<Rightarrow> auditor \<Rightarrow> audit_task \<Rightarrow> verified_lead res" where
  "task_lead w a t =
    bind_res (task_audit w a t) (\<lambda>d.
      build_verified_lead (pw_parser w) (pw_repr w) (pw_audited_at w (ta_id t)) (ta_crawl t) (ta_keyword t) (Some d))"

definition collect :: "pipeline_world \<Rightarrow> auditor \<Rightarrow> audit_task \<Rightarrow> streaming \<Rightarrow> streaming" where
  "collect w a t s =
    (case task_lead w a t of
       Inl _ \<Rightarrow> s\<lparr>sr_finished := Suc (sr_finished s)\<rparr>
     | Inr l \<Rightarrow> s\<lparr>sr_leads := dict_set (sr_leads s) (ta_id t) l, sr_finished := Suc (sr_finished s)\<rparr>)"

fun collect_all :: "pipeline_world \<Rightarrow> auditor \<Rightarrow> audit_task list \<Rightarrow> streaming \<Rightarrow> streaming" where
  "collect_all w a [] s = s"
| "collect_all w a (t # ts) s = collect_all w a ts (collect w a t s)"

text \<open>
  A schedule says which pending audits are done at each poll, and when the ones left after the
  last crawl complete.
\<close>

record schedule =
  sd_ready :: "nat \<Rightarrow> audit_task \<Rightarrow> bool"
  sd_finish :: "audit_task \<Rightarrow> nat"

definition poll :: "pipeline_world \<Rightarrow> auditor \<Rightarrow> schedule \<Rightarrow> nat \<Rightarrow> streaming \<Rightarrow> streaming" where
  "poll w a sd i s =
    collect_all w a (filter (sd_ready sd i) (sr_pending s))
      (s\<lparr>sr_pending := filter (\<lambda>t. \<not> sd_ready sd i t) (sr_pending s)\<rparr>)"

text \<open>A rejected candidate goes on with the next one; the audits are polled after the others.\<close>

definition after_crawl :: "pipeline_world \<Rightarrow> auditor \<Rightarrow> schedule \<Rightarrow> nat \<Rightarrow> crawl_verdict \<Rightarrow> streaming \<Rightarrow> streaming" where
  "after_crawl w a sd i v s =
    (case v of
       Rejected \<Rightarrow> s
     | Errored \<Rightarrow> poll w a sd i s
     | Accepted t \<Rightarrow> poll w a sd i (submit t s))"

fun stream ::
  "pipeline_world \<Rightarrow> auditor \<Rightarrow> schedule \<Rightarrow> int \<Rightarrow> int \<Rightarrow> nat \<Rightarrow> (transient_candidate \<times> string) list \<Rightarrow> streaming \<Rightarrow> streaming" where
  "stream w a sd max_pages min_age i [] s = s"
| "stream w a sd max_pages min_age i (ck # cks) s =
    (case crawl_candidate w max_pages min_age ck (sr_crawler s) of
       (v, cs) \<Rightarrow> stream w a sd max_pages min_age (Suc i) cks (after_crawl w a sd i v (s\<lparr>sr_crawler := cs\<rparr>)))"

definition finish :: "pipeline_world \<Rightarrow> auditor \<Rightarrow> schedule \<Rightarrow> streaming \<Rightarrow> streaming" where
  "finish w a sd s =
    collect_all w a (sort_key (sd_finish sd) (sr_pending s)) (s\<lparr>sr_pending := [], sr_crawler := close_crawler (sr_crawler s)\<rparr>)"

text \<open>\<open>[all_leads[i] for i in valid_ids if i in all_leads]\<close>\<close>

definition leads_of :: "(string \<times> verified_lead) list \<Rightarrow> string list \<Rightarrow> verified_lead list" where
  "leads_of leads ids = List.map_filter (dict_get leads) ids"

definition no_auditor :: error where
  "no_auditor = RuntimeError ''Auditor non configurato per la pipeline with_website.''"

record run_options =
  ro_min_age :: int
  ro_max_pages :: int
  ro_policy :: url_policy
  ro_schedule :: schedule

definition start_streaming :: "run_options \<Rightarrow> orchestrator \<Rightarrow> streaming" where
  "start_streaming opt o1 = \<lparr>sr_crawler = new_crawler (ro_policy opt), sr_pending = [], sr_leads = or_all_leads o1,
     sr_valid = [], sr_queued = 0, sr_finished = 0\<rparr>"

definition streamed :: "pipeline_world \<Rightarrow> run_options \<Rightarrow> auditor \<Rightarrow> (transient_candidate \<times> string) list \<Rightarrow> streaming \<Rightarrow> streaming" where
  "streamed w opt a cks s =
    finish w a (ro_schedule opt) (stream w a (ro_schedule opt) (ro_max_pages opt) (ro_min_age opt) 1 cks s)"

definition run_with_website ::
  "pipeline_world \<Rightarrow> run_options \<Rightarrow> rat \<Rightarrow> rat \<Rightarrow> string list \<Rightarrow> orchestrator \<Rightarrow> verified_lead list res \<times> orchestrator" where
  "run_with_website w opt lat lng kws o1 =
    (case or_auditor o1 of
       None \<Rightarrow> (Inl no_auditor, o1)
     | Some a \<Rightarrow>
        (case gather True (search w (or_provider o1) lat lng) kws ([], []) of
           Inl e \<Rightarrow> (Inl e, o1)
         | Inr found \<Rightarrow>
            (let chosen = filter not_social found in
             if chosen = [] then (Inr [], o1)
             else let s = streamed w opt a chosen (start_streaming opt o1)
                  in (Inr (leads_of (sr_leads s) (sr_valid s)), o1\<lparr>or_all_leads := sr_leads s\<rparr>))))"

datatype pipeline_result = Verified_leads "verified_lead list" | Transient_leads "transient_candidate list"

definition run_orchestrator ::
  "pipeline_world \<Rightarrow> run_options \<Rightarrow> rat \<Rightarrow> rat \<Rightarrow> string list \<Rightarrow> orchestrator \<Rightarrow> pipeline_result res \<times> orchestrator" where
  "run_orchestrator w opt lat lng kws o1 =
    (if or_mode o1 = ''with_website''
     then if or_auditor o1 = None then (Inl no_auditor, o1)
          else (case run_with_website w opt lat lng kws o1 of
                  (r, o2) \<Rightarrow> (bind_res r (\<lambda>ls. Inr (Verified_leads ls)), o2))
     else (case run_no_website w lat lng kws o1 of
             (r, o2) \<Rightarrow> (bind_res r (\<lambda>cs. Inr (Transient_leads cs)), o2)))"

definition create_orchestrator :: "auditor_tools \<Rightarrow> string \<Rightarrow> application_settings \<Rightarrow> orchestrator res" where
  "create_orchestrator t mode s =
    bind_res (require_pipeline s mode) (\<lambda>_.
    bind_res (build_scraper s) (\<lambda>p.
    bind_res (if mode = ''with_website'' then bind_res (build_auditor t s) (\<lambda>a. Inr (Some a)) else Inr None) (\<lambda>a.
      Inr \<lparr>or_mode = mode, or_provider = p, or_auditor = a, or_all_leads = [], or_transient = []\<rparr>)))"

section \<open>The command line\<close>

text \<open>The arguments of a search; a keyword list that is given is not empty.\<close>

record cli_args =
  ca_lat :: "rat option"
  ca_lng :: "rat option"
  ca_kws :: "string list"
  ca_out :: string
  ca_mode :: string
  ca_options :: run_options

datatype cli_outcome =
    Cli_exit nat
  | Cli_exported export_outcome string
  | Cli_listed "string list" string
  | Cli_nothing

definition output_dir :: string where
  "output_dir = ''outputs''"

text \<open>A file name without a directory goes to the output directory.\<close>

definition in_output_dir :: "string \<Rightarrow> string" where
  "in_output_dir f = (if CHR ''/'' \<in> set f then f else output_dir @ ''/'' @ f)"

definition output_file :: "string \<Rightarrow> rat \<Rightarrow> rat \<Rightarrow> string \<Rightarrow> string" where
  "output_file date lat lng out =
    in_output_dir (if out = ''leads_output.xlsx'' then ''Lead_Hunter_'' @ get_city_name lat lng @ ''_'' @ date @ ''.xlsx'' else out)"

definition shown_name :: "transient_candidate \<Rightarrow> string" where
  "shown_name c = (if tc_display_name c = '''' then ''Attivit'' @ [CHR 0xE0] @ '' senza nome'' else tc_display_name c)"

fun is_SettingsError :: "error \<Rightarrow> bool" where
  "is_SettingsError (SettingsValidationError _) = True"
| "is_SettingsError (SettingsValueError _) = True"
| "is_SettingsError _ = False"

text \<open>\<open>if not args.lat\<close>: a coordinate of zero counts as missing.\<close>

definition missing_coordinate :: "rat option \<Rightarrow> bool" where
  "missing_coordinate x \<longleftrightarrow> x = None \<or> x = Some 0"

definition report_outcome :: "workbook_library \<Rightarrow> int \<Rightarrow> string \<Rightarrow> string \<Rightarrow> pipeline_result \<Rightarrow> cli_outcome res" where
  "report_outcome wb now mode file r =
    (case r of
       Verified_leads ls \<Rightarrow>
         if ls = [] then Inr Cli_nothing
         else bind_res (export_to_excel wb (map Sheet_verified ls) mode None None now) (\<lambda>x. Inr (Cli_exported x file))
     | Transient_leads cs \<Rightarrow>
         if cs = [] then Inr Cli_nothing
         else Inr (Cli_listed (map shown_name cs) (at_terms_url google_attribution)))"

definition run_cli ::
  "auditor_tools \<Rightarrow> pipeline_world \<Rightarrow> workbook_library \<Rightarrow> int \<Rightarrow> string \<Rightarrow> environment \<Rightarrow> cli_args \<Rightarrow> cli_outcome res" where
  "run_cli t w wb now date vs args =
    (case settings_from_mapping vs of
       Inl e \<Rightarrow> if is_SettingsError e then Inr (Cli_exit 2) else Inl e
     | Inr s \<Rightarrow>
        if missing_coordinate (ca_lat args) \<or> missing_coordinate (ca_lng args) \<or> ca_kws args = [] then Inr (Cli_exit 1)
        else case create_orchestrator t (ca_mode args) s of
          Inl e \<Rightarrow> if is_SettingsError e then Inr (Cli_exit 2) else Inl e
        | Inr o1 \<Rightarrow>
            bind_res (fst (run_orchestrator w (ca_options args) (the (ca_lat args)) (the (ca_lng args)) (ca_kws args) o1))
              (report_outcome wb now (ca_mode args)
                (output_file date (the (ca_lat args)) (the (ca_lng args)) (ca_out args))))"

text \<open>What an interrupted command writes.\<close>

definition emergency_export :: "workbook_library \<Rightarrow> int \<Rightarrow> string \<Rightarrow> orchestrator \<Rightarrow> cli_outcome res" where
  "emergency_export wb now mode o1 =
    (if mode = ''with_website'' \<and> or_all_leads o1 \<noteq> []
     then bind_res (export_to_excel wb (map (\<lambda>kl. Sheet_verified (snd kl)) (or_all_leads o1)) mode None None now)
            (\<lambda>x. Inr (Cli_exported x (output_dir @ ''/salvataggio_emergenza.xlsx'')))
     else Inr Cli_nothing)"

section \<open>The order in which audits finish\<close>

text \<open>
  The reference crawls one candidate after the other and says which audits the crawls lead to;
  what a task leaves behind is its lead, or what the orchestrator held for it when it failed.
\<close>

fun accepted_tasks ::
  "pipeline_world \<Rightarrow> int \<Rightarrow> int \<Rightarrow> (transient_candidate \<times> string) list \<Rightarrow> crawler_state \<Rightarrow> audit_task list \<times> crawler_state" where
  "accepted_tasks w mp ma [] cs = ([], cs)"
| "accepted_tasks w mp ma (ck # cks) cs =
    (case crawl_candidate w mp ma ck cs of
       (v, cs1) \<Rightarrow> (case accepted_tasks w mp ma cks cs1 of
          (ts, cs2) \<Rightarrow> ((case v of Accepted t \<Rightarrow> [t] | _ \<Rightarrow> []) @ ts, cs2)))"

definition lead_after :: "pipeline_world \<Rightarrow> auditor \<Rightarrow> (string \<times> verified_lead) list \<Rightarrow> audit_task \<Rightarrow> verified_lead option" where
  "lead_after w a leads t = (case task_lead w a t of Inr l \<Rightarrow> Some l | Inl _ \<Rightarrow> dict_get leads (ta_id t))"

definition leads_when ::
  "pipeline_world \<Rightarrow> auditor \<Rightarrow> (string \<times> verified_lead) list \<Rightarrow> audit_task list \<Rightarrow> string \<Rightarrow> verified_lead option" where
  "leads_when w a leads finished k =
    (case find (\<lambda>t. ta_id t = k) finished of Some t \<Rightarrow> lead_after w a leads t | None \<Rightarrow> dict_get leads k)"

definition streaming_inv ::
  "pipeline_world \<Rightarrow> auditor \<Rightarrow> (string \<times> verified_lead) list \<Rightarrow> audit_task list \<Rightarrow> streaming \<Rightarrow> bool" where
  "streaming_inv w a leads tasks s \<longleftrightarrow> sr_valid s = map ta_id tasks \<and> sr_queued s = length tasks \<and>
    (\<exists>finished. mset (finished @ sr_pending s) = mset tasks \<and> sr_finished s = length finished
       \<and> (\<forall>k. dict_get (sr_leads s) k = leads_when w a leads finished k))"

lemma collect_frame [simp]:
  "sr_crawler (collect w a t s) = sr_crawler s" "sr_pending (collect w a t s) = sr_pending s"
  "sr_valid (collect w a t s) = sr_valid s" "sr_queued (collect w a t s) = sr_queued s"
  "sr_finished (collect w a t s) = Suc (sr_finished s)"
  by (simp_all add: collect_def split: sum.split)

lemma collect_all_frame [simp]:
  "sr_crawler (collect_all w a ts s) = sr_crawler s" "sr_pending (collect_all w a ts s) = sr_pending s"
  "sr_valid (collect_all w a ts s) = sr_valid s" "sr_queued (collect_all w a ts s) = sr_queued s"
  "sr_finished (collect_all w a ts s) = sr_finished s + length ts"
  by (induction w a ts s rule: collect_all.induct) simp_all

lemma collect_leads:
  assumes "\<forall>k. dict_get (sr_leads s) k = leads_when w a leads finished k" "ta_id t \<notin> ta_id ` set finished"
  shows "dict_get (sr_leads (collect w a t s)) k = leads_when w a leads (finished @ [t]) k"
proof -
  have "find (\<lambda>x. ta_id x = ta_id t) finished = None" using assms(2) by (metis (mono_tags, lifting) find_None_iff imageI)
  then show ?thesis
    using assms(1) by (auto simp: collect_def leads_when_def lead_after_def find_append split: sum.splits option.splits)
qed

lemma collect_all_leads:
  assumes "\<forall>k. dict_get (sr_leads s) k = leads_when w a leads finished k" "distinct_on ta_id (finished @ ts)"
  shows "dict_get (sr_leads (collect_all w a ts s)) k = leads_when w a leads (finished @ ts) k"
  using assms
proof (induction ts arbitrary: finished s)
  case (Cons t ts)
  have "ta_id t \<notin> ta_id ` set finished" using Cons.prems(2) by (auto simp: distinct_on_def)
  then have "\<forall>k. dict_get (sr_leads (collect w a t s)) k = leads_when w a leads (finished @ [t]) k"
    using collect_leads [OF Cons.prems(1)] by simp
  then show ?case using Cons.IH [of "collect w a t s" "finished @ [t]"] Cons.prems(2) by simp
qed simp

lemma distinct_on_mset: "mset xs = mset ys \<Longrightarrow> distinct_on k xs \<longleftrightarrow> distinct_on k ys"
  unfolding distinct_on_def by (metis mset_map mset_eq_imp_distinct_iff)

text \<open>A group of pending audits completes.\<close>

lemma collected_inv:
  assumes inv: "streaming_inv w a leads tasks s" and d: "distinct_on ta_id tasks"
    and split: "mset (ts @ rest) = mset (sr_pending s)"
    and s': "sr_pending s' = rest" "sr_valid s' = sr_valid s" "sr_queued s' = sr_queued s" "sr_finished s' = sr_finished s"
      "sr_leads s' = sr_leads s"
  shows "streaming_inv w a leads tasks (collect_all w a ts s')"
proof -
  obtain finished where f: "mset (finished @ sr_pending s) = mset tasks" "sr_finished s = length finished"
    "\<forall>k. dict_get (sr_leads s') k = leads_when w a leads finished k" using inv s'(5) by (auto simp: streaming_inv_def)
  have m: "mset ((finished @ ts) @ rest) = mset tasks" using f(1) split by simp
  have "distinct_on ta_id (finished @ ts)"
    using distinct_on_mset [OF m, of ta_id] d by (simp add: distinct_on_def) blast
  then have "dict_get (sr_leads (collect_all w a ts s')) k = leads_when w a leads (finished @ ts) k" for k
    by (rule collect_all_leads [OF f(3)])
  then have "\<exists>f. mset (f @ rest) = mset tasks \<and> sr_finished s + length ts = length f
      \<and> (\<forall>k. dict_get (sr_leads (collect_all w a ts s')) k = leads_when w a leads f k)"
    using m f(2) by (intro exI [of _ "finished @ ts"]) simp
  then show ?thesis using inv s'(1-4) by (simp add: streaming_inv_def)
qed

lemma poll_inv:
  assumes "streaming_inv w a leads tasks s" "distinct_on ta_id tasks"
  shows "streaming_inv w a leads tasks (poll w a sd i s)"
  unfolding poll_def by (rule collected_inv [OF assms]) (simp_all add: multiset_partition [symmetric])

lemma submit_inv: "streaming_inv w a leads tasks s \<Longrightarrow> streaming_inv w a leads (tasks @ [t]) (submit t s)"
  by (auto simp: streaming_inv_def submit_def)

lemma poll_crawler [simp]: "sr_crawler (poll w a sd i s) = sr_crawler s"
  by (simp add: poll_def)

lemma after_crawl_inv:
  assumes "streaming_inv w a leads tasks s" "distinct_on ta_id (tasks @ (case v of Accepted t \<Rightarrow> [t] | _ \<Rightarrow> []))"
  shows "streaming_inv w a leads (tasks @ (case v of Accepted t \<Rightarrow> [t] | _ \<Rightarrow> [])) (after_crawl w a sd i v s)
    \<and> sr_crawler (after_crawl w a sd i v s) = sr_crawler s"
  using assms poll_inv [of w a leads] submit_inv [OF assms(1)]
  by (cases v) (simp_all add: after_crawl_def submit_def)

lemma stream_inv:
  assumes "streaming_inv w a leads tasks s"
    and "distinct_on ta_id (tasks @ fst (accepted_tasks w mp ma cks (sr_crawler s)))"
  shows "streaming_inv w a leads (tasks @ fst (accepted_tasks w mp ma cks (sr_crawler s))) (stream w a sd mp ma i cks s)"
  using assms
proof (induction cks arbitrary: tasks s i)
  case (Cons ck cks)
  obtain v cs where v: "crawl_candidate w mp ma ck (sr_crawler s) = (v, cs)" by fastforce
  let ?new = "case v of Accepted t \<Rightarrow> [t] | _ \<Rightarrow> []" and ?s = "after_crawl w a sd i v (s\<lparr>sr_crawler := cs\<rparr>)"
  have all: "tasks @ fst (accepted_tasks w mp ma (ck # cks) (sr_crawler s)) = (tasks @ ?new) @ fst (accepted_tasks w mp ma cks cs)"
    using v by (simp split: prod.split)
  have "streaming_inv w a leads tasks (s\<lparr>sr_crawler := cs\<rparr>)" using Cons.prems(1) by (simp add: streaming_inv_def)
  then have step: "streaming_inv w a leads (tasks @ ?new) ?s \<and> sr_crawler ?s = cs"
    using after_crawl_inv [of w a leads tasks "s\<lparr>sr_crawler := cs\<rparr>" v sd i] Cons.prems(2) all
    by (simp add: distinct_on_def) blast
  have "distinct_on ta_id ((tasks @ ?new) @ fst (accepted_tasks w mp ma cks cs))" using Cons.prems(2) all by metis
  then have "streaming_inv w a leads ((tasks @ ?new) @ fst (accepted_tasks w mp ma cks cs)) (stream w a sd mp ma (Suc i) cks ?s)"
    using Cons.IH [of "tasks @ ?new" ?s] step by simp
  then show ?case using v all by simp
qed simp

lemma leads_of_finished:
  assumes "\<forall>k. dict_get ls k = leads_when w a leads finished k" "mset finished = mset tasks" "distinct_on ta_id tasks"
  shows "leads_of ls (map ta_id tasks) = List.map_filter (lead_after w a leads) tasks"
proof -
  have d: "distinct_on ta_id finished" using assms(2,3) distinct_on_mset by blast
  have "dict_get ls (ta_id t) = lead_after w a leads t" if "t \<in> set tasks" for t
  proof -
    have "t \<in> set finished" using that mset_eq_setD [OF assms(2)] by simp
    then have "find (\<lambda>x. ta_id x = ta_id t) finished = Some t" by (rule find_unique [OF d])
    then show ?thesis using assms(1) by (simp add: leads_when_def)
  qed
  then show ?thesis by (auto simp: leads_of_def map_filter_def filter_map comp_def intro!: map_cong filter_cong)
qed

text \<open>Whatever the schedule: every accepted audit is collected once, and the leads are those of the reference.\<close>

lemma streamed_leads:
  assumes ts: "ts = fst (accepted_tasks w (ro_max_pages opt) (ro_min_age opt) cks (new_crawler (ro_policy opt)))" "distinct_on ta_id ts"
    and s: "s = streamed w opt a cks (start_streaming opt o1)"
  shows "leads_of (sr_leads s) (sr_valid s) = List.map_filter (lead_after w a (or_all_leads o1)) ts
    \<and> sr_pending s = [] \<and> sr_finished s = length ts \<and> sr_queued s = length ts"
proof -
  let ?s0 = "start_streaming opt o1"
  let ?s1 = "stream w a (ro_schedule opt) (ro_max_pages opt) (ro_min_age opt) 1 cks ?s0"
  have start: "streaming_inv w a (or_all_leads o1) [] ?s0"
    by (auto simp: streaming_inv_def start_streaming_def leads_when_def)
  have d: "distinct_on ta_id ([] @ fst (accepted_tasks w (ro_max_pages opt) (ro_min_age opt) cks (sr_crawler ?s0)))"
    using ts by (simp add: start_streaming_def)
  have one: "streaming_inv w a (or_all_leads o1) ts ?s1"
    using stream_inv [OF start d] ts by (simp add: start_streaming_def)
  have two: "streaming_inv w a (or_all_leads o1) ts s \<and> sr_pending s = []"
    unfolding s streamed_def finish_def by (intro conjI collected_inv [OF one ts(2)]) simp_all
  then obtain finished where "mset finished = mset ts" "sr_finished s = length finished"
    "\<forall>k. dict_get (sr_leads s) k = leads_when w a (or_all_leads o1) finished k" by (auto simp: streaming_inv_def)
  then show ?thesis
    using two leads_of_finished [of "sr_leads s" w a "or_all_leads o1" finished ts] ts(2) mset_eq_length [of finished ts]
    by (simp add: streaming_inv_def)
qed

section \<open>What a run returns\<close>

definition found_places :: "(transient_candidate \<Rightarrow> bool) \<Rightarrow> (string \<times> string) list \<times> (transient_candidate \<times> string) list \<Rightarrow> bool" where
  "found_places Q acc \<longleftrightarrow> distinct_on (\<lambda>ck. candidate_key (fst ck)) (snd acc)
     \<and> set (fst acc) = (\<lambda>ck. candidate_key (fst ck)) ` set (snd acc) \<and> (\<forall>ck \<in> set (snd acc). Q (fst ck))"

lemma found_more:
  assumes "found_places Q (seen, found)" "Q c" "candidate_key c \<notin> set seen"
  shows "found_places Q (candidate_key c # seen, found @ [(c, k)])"
  using assms by (simp add: found_places_def distinct_on_def)

lemma add_places_found:
  "found_places (\<lambda>c. has_website c = b \<and> Q c) acc \<Longrightarrow> \<forall>c \<in> set cs. Q c \<Longrightarrow>
   found_places (\<lambda>c. has_website c = b \<and> Q c) (add_places b keyword cs acc)"
proof (induction b keyword cs acc rule: add_places.induct)
  case (2 b keyword c cs seen found)
  then have "found_places (\<lambda>c. has_website c = b \<and> Q c)
      (if has_website c = b \<and> candidate_key c \<notin> set seen then (candidate_key c # seen, found @ [(c, keyword)]) else (seen, found))"
    using found_more [of "\<lambda>c. has_website c = b \<and> Q c" seen found c keyword] by simp
  then show ?case using 2 by simp
qed simp

lemma gather_spec:
  assumes "gather b find_places kws acc = Inr found" "found_places (\<lambda>c. has_website c = b \<and> Q c) acc"
    and "\<And>k cs c. find_places k = Inr cs \<Longrightarrow> c \<in> set cs \<Longrightarrow> Q c"
  shows "distinct_on (\<lambda>ck. candidate_key (fst ck)) found \<and> (\<forall>ck \<in> set found. has_website (fst ck) = b \<and> Q (fst ck))"
  using assms(1,2)
proof (induction kws arbitrary: acc)
  case (Cons k ks)
  then obtain cs where "find_places k = Inr cs" "gather b find_places ks (add_places b k cs acc) = Inr found"
    by (auto simp: bind_res_Inr_iff)
  then show ?case using Cons.IH add_places_found [OF Cons.prems(2)] assms(3) by blast
qed (auto simp: found_places_def)

lemma search_google:
  assumes "search w p lat lng k = Inr cs" "c \<in> set cs"
  shows "google_candidate c"
proof -
  obtain q r n where d: "discover (pw_cos w) (pw_repr w) (pw_now w) p (pw_client w) q = (r, n)"
    "bind_res r (\<lambda>b. Inr (db_candidates b)) = Inr cs"
    using assms(1) by (auto simp: search_def scrape_entire_grid_def split: sum.splits prod.splits)
  then show ?thesis using discover_spec [OF d(1)] assms(2) by (auto simp: bind_res_Inr_iff)
qed

text \<open>One provider answers, so its identifiers tell the candidates apart.\<close>

lemma searched_distinct:
  assumes "gather b (search w p lat lng) kws ([], []) = Inr found"
  shows "distinct_on (\<lambda>ck. tc_external_id (fst ck)) (filter Q found)
    \<and> (\<forall>ck \<in> set found. has_website (fst ck) = b \<and> google_candidate (fst ck))"
proof -
  have "distinct_on (\<lambda>ck. candidate_key (fst ck)) found \<and> (\<forall>ck \<in> set found. has_website (fst ck) = b \<and> google_candidate (fst ck))"
    by (rule gather_spec [OF assms]) (auto simp: found_places_def dest: search_google)
  moreover from this have "inj_on (\<lambda>ck. tc_external_id (fst ck)) (set found)"
    by (fastforce simp: inj_on_def distinct_on_def distinct_map candidate_key_def google_candidate_def)
  ultimately show ?thesis
    by (auto simp: distinct_on_def distinct_map intro: inj_on_subset)
qed

lemma accepted_ids:
  "distinct_on (\<lambda>ck. tc_external_id (fst ck)) cks \<Longrightarrow>
   distinct_on ta_id (fst (accepted_tasks w mp ma cks cs))
   \<and> ta_id ` set (fst (accepted_tasks w mp ma cks cs)) \<subseteq> (\<lambda>ck. tc_external_id (fst ck)) ` set cks"
proof (induction cks arbitrary: cs)
  case (Cons ck cks)
  obtain v cs1 where v: "crawl_candidate w mp ma ck cs = (v, cs1)" by fastforce
  have id: "ta_id t = tc_external_id (fst ck)" if "v = Accepted t" for t
    using v that by (auto simp: crawl_candidate_def accept_crawl_def split: prod.splits if_splits sum.splits)
  obtain ts cs2 where ts: "accepted_tasks w mp ma cks cs1 = (ts, cs2)" by fastforce
  have ih: "distinct_on ta_id ts" "ta_id ` set ts \<subseteq> (\<lambda>ck. tc_external_id (fst ck)) ` set cks"
    using Cons.IH [of cs1] Cons.prems ts by (simp_all add: distinct_on_def)
  have new: "tc_external_id (fst ck) \<notin> ta_id ` set ts" using ih(2) Cons.prems by (auto simp: distinct_on_def)
  show ?case
  proof (cases "\<exists>t. v = Accepted t")
    case True
    then obtain t where t: "v = Accepted t" by blast
    show ?thesis using v ts t id [OF t] ih new by (simp add: distinct_on_def subset_insertI2)
  next
    case False
    then show ?thesis using v ts ih by (cases v) (simp_all add: subset_insertI2)
  qed
qed simp

definition task_ok :: "pipeline_world \<Rightarrow> int \<Rightarrow> audit_task \<Rightarrow> bool" where
  "task_ok w max_pages t \<longleftrightarrow> result_backed (pw_crawl w) (ta_crawl t) \<and> is_auditable (ta_crawl t)
     \<and> int (length (cw_pages (ta_crawl t))) \<le> max 1 max_pages
     \<and> \<not> filter_franchise (vl_business_name (ta_lead t)) [] known_franchises"

lemma accepted_tasks_ok: "t \<in> set (fst (accepted_tasks w mp ma cks cs)) \<Longrightarrow> task_ok w mp t"
proof (induction cks arbitrary: cs)
  case (Cons ck cks)
  obtain v cs1 where v: "crawl_candidate w mp ma ck cs = (v, cs1)" by fastforce
  then consider "v = Accepted t" | "t \<in> set (fst (accepted_tasks w mp ma cks cs1))"
    using Cons.prems by (cases v) (auto split: prod.splits)
  then show ?case
  proof cases
    case 1
    obtain r where r: "crawl (pw_crawl w) mp (website_of (fst ck)) cs = (r, cs1)" "accept_crawl w ma (fst ck) (snd ck) r = Accepted t"
      using v 1 by (auto simp: crawl_candidate_def split: prod.splits)
    then show ?thesis using crawl_ok [OF r(1)]
      by (auto simp: task_ok_def accept_crawl_def split: if_splits sum.splits)
  qed (rule Cons.IH)
qed simp

text \<open>
  A lead that carries an audit: its site is an address the policy accepted, its contacts are
  those of a backed crawl, its fields come from the site or the user, and its score is within the
  audit's range, or zero for an audit that failed.
\<close>

definition lead_backed :: "pipeline_world \<Rightarrow> verified_lead \<Rightarrow> bool" where
  "lead_backed w l \<longleftrightarrow> accepted_url (pw_crawl w) (vl_website l)
     \<and> (\<exists>r. result_backed (pw_crawl w) r \<and> is_auditable r \<and> vl_contacts l = cw_contacts r \<and> vl_website l \<in> set (dict_keys (cw_pages r)))
     \<and> vl_provenance l \<noteq> [] \<and> (\<forall>(k, p) \<in> set (vl_provenance l). fp_source p \<in> {OFFICIAL_WEBSITE, USER_INPUT})
     \<and> (\<exists>n. vl_website_score l = VInt n \<and> 0 \<le> n \<and> n \<le> 10)"

lemma task_lead_backed:
  assumes "task_lead w a t = Inr l" "task_ok w mp t"
  shows "lead_backed w l"
proof -
  obtain d n where d: "audit_website a (pw_page_chats w (ta_id t)) (pw_chats w (ta_id t)) (cw_pages (ta_crawl t))
        (VStr (vl_business_name (ta_lead t))) (VStr (vl_category (ta_lead t))) (VInt 0) (VInt 0) 3 = Inr (d, n)"
    and b: "build_verified_lead (pw_parser w) (pw_repr w) (pw_audited_at w (ta_id t)) (ta_crawl t) (ta_keyword t) (Some d) = Inr l"
    using assms(1) by (auto simp: task_lead_def task_audit_def bind_res_Inr_iff)
  let ?r = "ta_crawl t"
  have r: "result_backed (pw_crawl w) ?r" "is_auditable ?r" using assms(2) by (simp_all add: task_ok_def)
  have l: "valid_evidence ?r \<noteq> []" "vl_website l = pe_final_url (hd (valid_evidence ?r))" "vl_contacts l = cw_contacts ?r"
    "vl_website_score l = audit_get d ''website_score''"
    using b by (auto simp: build_verified_lead_def Let_def bind_res_Inr_iff split: if_splits)
  have "hd (valid_evidence ?r) \<in> set (valid_evidence ?r)" using l(1) by simp
  then have key: "vl_website l \<in> set (dict_keys (cw_pages ?r))"
    using r(1) l(2) by (auto simp: result_backed_def valid_evidence_def)
  then have "accepted_url (pw_crawl w) (vl_website l)"
    using r(1) by (auto simp: result_backed_def page_backed_def dict_keys_def)
  moreover have "d = failed_audit \<or> (\<exists>x. audit_ok x \<and> d = to_public_dict x)" using audit_website_Inr [OF d] by blast
  then have "\<exists>n. vl_website_score l = VInt n \<and> 0 \<le> n \<and> n \<le> 10"
    by (auto simp: l(4) audit_get_def failed_audit_def to_public_dict_def dict_get_def audit_ok_def)
  moreover have "fp_source p \<in> {OFFICIAL_WEBSITE, USER_INPUT}" if "(k, p) \<in> set (vl_provenance l)" for k p
    using built_provenance(3) [OF b that] by (auto simp: site_provenance_def user_provenance_def)
  ultimately show ?thesis
    using r key l(3) built_provenance(1) [OF b] unfolding lead_backed_def by blast
qed

text \<open>The pipeline without its concurrency: search, crawl in turn, audit what was accepted.\<close>

definition reference_run ::
  "pipeline_world \<Rightarrow> run_options \<Rightarrow> rat \<Rightarrow> rat \<Rightarrow> string list \<Rightarrow> orchestrator \<Rightarrow> verified_lead list res" where
  "reference_run w opt lat lng kws o1 =
    (case or_auditor o1 of
       None \<Rightarrow> Inl no_auditor
     | Some a \<Rightarrow> bind_res (gather True (search w (or_provider o1) lat lng) kws ([], [])) (\<lambda>found.
         Inr (List.map_filter (lead_after w a (or_all_leads o1))
           (fst (accepted_tasks w (ro_max_pages opt) (ro_min_age opt) (filter not_social found) (new_crawler (ro_policy opt)))))))"

lemma run_is_reference: "fst (run_with_website w opt lat lng kws o1) = reference_run w opt lat lng kws o1"
proof (cases "\<exists>a found. or_auditor o1 = Some a \<and> gather True (search w (or_provider o1) lat lng) kws ([], []) = Inr found")
  case False
  then show ?thesis by (auto simp: run_with_website_def reference_run_def split: option.split sum.split)
next
  case True
  then obtain a found where a: "or_auditor o1 = Some a" "gather True (search w (or_provider o1) lat lng) kws ([], []) = Inr found"
    by blast
  let ?cks = "filter not_social found"
  let ?ts = "fst (accepted_tasks w (ro_max_pages opt) (ro_min_age opt) ?cks (new_crawler (ro_policy opt)))"
  have "distinct_on ta_id ?ts"
    using accepted_ids searched_distinct [OF a(2)] by blast
  from streamed_leads [OF refl this refl, of a o1] show ?thesis
    using a by (cases "?cks = []") (simp_all add: run_with_website_def reference_run_def Let_def map_filter_simps)
qed

lemma reference_backed:
  assumes "reference_run w opt lat lng kws o1 = Inr leads" "\<forall>kl \<in> set (or_all_leads o1). lead_backed w (snd kl)"
  shows "list_all (lead_backed w) leads"
proof -
  obtain a ts where ls: "leads = List.map_filter (lead_after w a (or_all_leads o1)) ts" "\<forall>t \<in> set ts. task_ok w (ro_max_pages opt) t"
    using assms(1) accepted_tasks_ok by (fastforce simp: reference_run_def bind_res_Inr_iff split: option.splits)
  have "lead_backed w l" if "lead_after w a (or_all_leads o1) t = Some l" "t \<in> set ts" for t l
  proof (cases "task_lead w a t")
    case (Inl e)
    then have "(ta_id t, l) \<in> set (or_all_leads o1)" using that(1) by (simp add: lead_after_def dict_get_def map_of_SomeD)
    then show ?thesis using assms(2) by auto
  next
    case (Inr x)
    then show ?thesis using that ls(2) task_lead_backed by (auto simp: lead_after_def)
  qed
  then show ?thesis by (auto simp: ls(1) list_all_iff map_filter_def)
qed

text \<open>An accepted task always ends in a lead: that of its crawl, with the audit's texts added.\<close>

definition same_site :: "verified_lead \<Rightarrow> verified_lead \<Rightarrow> bool" where
  "same_site l l' \<longleftrightarrow> vl_business_name l = vl_business_name l' \<and> vl_category l = vl_category l'
     \<and> vl_website l = vl_website l' \<and> vl_contacts l = vl_contacts l'"

lemma build_audited:
  assumes "build_verified_lead hp repr_of now r keyword None = Inr l0"
  shows "\<exists>l. build_verified_lead hp repr_of now' r keyword (Some d) = Inr l \<and> same_site l l0"
  using assms by (auto simp: build_verified_lead_def Let_def bind_res_Inr_iff same_site_def split: if_splits)

lemma accepted_built:
  "t \<in> set (fst (accepted_tasks w mp ma cks cs)) \<Longrightarrow>
   is_auditable (ta_crawl t) \<and>
   (\<exists>now. build_verified_lead (pw_parser w) (pw_repr w) now (ta_crawl t) (ta_keyword t) None = Inr (ta_lead t))"
proof (induction cks arbitrary: cs)
  case (Cons ck cks)
  obtain v cs1 where v: "crawl_candidate w mp ma ck cs = (v, cs1)" by fastforce
  then consider "v = Accepted t" | "t \<in> set (fst (accepted_tasks w mp ma cks cs1))"
    using Cons.prems by (cases v) (auto split: prod.splits)
  then show ?case
  proof cases
    case 1
    then show ?thesis using v
      by (auto simp: crawl_candidate_def accept_crawl_def split: prod.splits if_splits sum.splits)
  qed (rule Cons.IH)
qed simp

lemma task_lead_total:
  assumes "tt_destroyed_read (au_tools a) = None" "t \<in> set (fst (accepted_tasks w mp ma cks cs))"
  shows "\<exists>l. task_lead w a t = Inr l \<and> same_site l (ta_lead t)"
proof -
  obtain now where t: "is_auditable (ta_crawl t)"
    "build_verified_lead (pw_parser w) (pw_repr w) now (ta_crawl t) (ta_keyword t) None = Inr (ta_lead t)"
    using accepted_built [OF assms(2)] by blast
  then have "ensure_auditable_pages (cw_pages (ta_crawl t)) = Inr ()" by (simp add: is_auditable_def ok_auditable)
  then obtain r where "task_audit w a t = Inr r"
    using audit_website_answers [OF assms(1)] unfolding task_audit_def by (metis bind_res_simps(2))
  then show ?thesis using build_audited [OF t(2), of "pw_audited_at w (ta_id t)" r] by (simp add: task_lead_def)
qed

lemma reference_complete:
  assumes "or_auditor o1 = Some a" "tt_destroyed_read (au_tools a) = None"
    and "gather True (search w (or_provider o1) lat lng) kws ([], []) = Inr found"
  shows "\<exists>leads. reference_run w opt lat lng kws o1 = Inr leads
    \<and> list_all2 (\<lambda>l t. same_site l (ta_lead t)) leads
        (fst (accepted_tasks w (ro_max_pages opt) (ro_min_age opt) (filter not_social found) (new_crawler (ro_policy opt))))"
proof -
  let ?ts = "fst (accepted_tasks w (ro_max_pages opt) (ro_min_age opt) (filter not_social found) (new_crawler (ro_policy opt)))"
  have "list_all2 (\<lambda>l t. same_site l (ta_lead t)) (List.map_filter (lead_after w a (or_all_leads o1)) ts) ts"
    if "set ts \<subseteq> set ?ts" for ts
    using that
  proof (induction ts)
    case (Cons t ts)
    obtain l where "task_lead w a t = Inr l" "same_site l (ta_lead t)"
      using task_lead_total [OF assms(2)] Cons.prems by (metis list.set_intros(1) subsetD)
    then show ?case using Cons by (simp add: map_filter_simps lead_after_def)
  qed (simp add: map_filter_simps)
  then show ?thesis using assms by (simp add: reference_run_def)
qed

section \<open>What the command line can export\<close>

definition contacts_refused :: error where
  "contacts_refused = ExportPolicyError ''Export contatti bloccato: verifica suppression non configurata.''"

text \<open>
  The command line passes neither a privacy policy nor a suppression check: it exports leads
  without contacts, and none with one.
\<close>

lemma unchecked_export:
  assumes "list_all (lead_backed w) ls"
  shows "require_exportable (map item_of_lead (map Sheet_verified ls)) ''with_website'' None None now
    = (if list_ex (\<lambda>l. vl_contacts l \<noteq> []) ls then Inl contacts_refused else Inr ())"
proof -
  have one: "require_verified None None now (Item_verified l) = (if vl_contacts l \<noteq> [] then Inl contacts_refused else Inr ())"
    if "lead_backed w l" for l
  proof -
    have "require_provenance (map (\<lambda>(k, p). (k, Some (fp_source p))) (vl_provenance l)) = Inr ()"
      using that by (auto simp: require_provenance_iff lead_backed_def)
    then show ?thesis by (simp add: contacts_refused_def)
  qed
  have "all_res (require_verified None None now) (map Item_verified ls)
    = (if list_ex (\<lambda>l. vl_contacts l \<noteq> []) ls then Inl contacts_refused else Inr ())"
    using assms by (induction ls) (auto simp del: require_verified.simps simp add: one)
  then show ?thesis by (simp add: require_exportable_def comp_def)
qed

lemma report_of_backed:
  assumes "list_all (lead_backed w) ls"
  shows "report_outcome wb now ''with_website'' file (Verified_leads ls) =
    (if ls = [] then Inr Cli_nothing
     else if list_ex (\<lambda>l. vl_contacts l \<noteq> []) ls then Inl contacts_refused
     else bind_res (format_website_rows (map Sheet_verified ls)) (\<lambda>rows. Inr (Cli_exported (write_workbook wb rows) file)))"
proof (cases "ls = [] \<or> list_ex (\<lambda>l. vl_contacts l \<noteq> []) ls")
  case True
  then show ?thesis using unchecked_export [OF assms, of now]
    by (auto simp: report_outcome_def export_to_excel_def)
next
  case False
  then have "require_exportable (map item_of_lead (map Sheet_verified ls)) ''with_website'' None None now = Inr ()"
    using unchecked_export [OF assms, of now] by simp
  then show ?thesis using False
    by (cases "format_website_rows (map Sheet_verified ls)") (simp_all add: report_outcome_def export_to_excel_def)
qed

end
