(* ===== verification/Frontends.thy ===== *)
theory Frontends
  imports Pipeline Authentication Suppression Title_Case Guards
begin

text \<open>
  What stands around the pipeline and the service: the diagnostic run on one site
  (src/src/tester.py), the decisions of the graphical interface (src/src/gui.py), and the
  assembly of the server (src/src/server.py). Widgets, messages and progress are not modelled; a
  file system takes every write.
\<close>

section \<open>The diagnostic run\<close>

text \<open>What is written: a text, the public fields of an audit as JSON, the report of the run.\<close>

datatype artifact =
    Text_artifact string string
  | Json_artifact string "(string \<times> pyval) list"
  | Report_artifact string

fun artifact_path :: "artifact \<Rightarrow> string" where
  "artifact_path (Text_artifact p _) = p"
| "artifact_path (Json_artifact p _) = p"
| "artifact_path (Report_artifact p) = p"

definition diagnostic_setup ::
  "bool \<Rightarrow> int \<Rightarrow> string list \<Rightarrow> rat \<Rightarrow> diagnostic_entry list \<Rightarrow> (nat \<times> diagnostic_entry list) res" where
  "diagnostic_setup save_artifacts retention_hours base now es =
    (if \<not> save_artifacts then Inr (0, es)
     else if retention_hours < 1 then Inl (ValueError (''La retention diagnostica deve essere di almeno un'' @ CHR 0x27 # ''ora.''))
     else purge_expired_diagnostic_files Root_directory base retention_hours now es)"

definition page_name :: "string \<Rightarrow> string" where
  "page_name path =
    (let n = map (\<lambda>c. if c = CHR ''/'' then CHR ''_'' else c)
               (rstrip_by (\<lambda>c. c = CHR ''/'') (lstrip_by (\<lambda>c. c = CHR ''/'') path))
     in if n = '''' then ''homepage'' else n)"

definition page_file :: "nat \<Rightarrow> string \<Rightarrow> string" where
  "page_file i name = ''page_'' @ nat_digits i @ ''_'' @ name"

definition page_artifacts_of :: "string \<Rightarrow> nat \<Rightarrow> string \<Rightarrow> string \<Rightarrow> artifact list" where
  "page_artifacts_of html i name content =
    Text_artifact (''test_output/processed/'' @ page_file i name @ ''_processed.txt'') content
    # (if i = 1 \<and> html \<noteq> '''' then [Text_artifact (''test_output/html/'' @ page_file i name @ ''.html'') html] else [])"

text \<open>The artifacts of the pages from the \<open>i\<close>-th on, up to one whose address cannot be read.\<close>

fun page_artifacts :: "string \<Rightarrow> nat \<Rightarrow> (string \<times> string) list \<Rightarrow> artifact list \<times> unit res" where
  "page_artifacts html i [] = ([], Inr ())"
| "page_artifacts html i ((url, content) # pages) =
    (case urlparse url of
       Inl e \<Rightarrow> ([], Inl e)
     | Inr u \<Rightarrow> (case page_artifacts html (Suc i) pages of
                  (as, r) \<Rightarrow> (page_artifacts_of html i (page_name (pu_path u)) content @ as, r)))"

datatype diagnosis = Not_auditable string string | Audited "(string \<times> pyval) list" | Audit_failed error

definition public_audit_fields :: "string list" where
  "public_audit_fields = [''website_score'', ''diagnosis'', ''site_brief'', ''framework'', ''cold_message'']"

definition audit_export :: "(string \<times> pyval) list \<Rightarrow> (string \<times> pyval) list" where
  "audit_export d = map (\<lambda>k. (k, audit_get d k)) public_audit_fields"

definition diagnostic_audit :: "pipeline_world \<Rightarrow> auditor \<Rightarrow> string \<Rightarrow> crawl_result \<Rightarrow> diagnosis" where
  "diagnostic_audit w a url r =
    (case audit_website a (pw_page_chats w url) (pw_chats w url) (cw_pages r)
        (VStr (py_title (before_char CHR ''.'' (extract_domain url)))) (VStr ''Testing & Diagnostics'')
        (VFloat (FNum (9 / 2))) (VInt 10) 3 of
       Inl e \<Rightarrow> Audit_failed e
     | Inr (d, _) \<Rightarrow> Audited d)"

definition diagnosis_artifacts :: "diagnosis \<Rightarrow> artifact list" where
  "diagnosis_artifacts g =
    (case g of Audited d \<Rightarrow> [Json_artifact ''test_output/ai_audit_test.json'' (audit_export d)] | _ \<Rightarrow> [])
    @ [Report_artifact ''test_output/test_report.txt'']"

definition diagnose_crawl ::
  "pipeline_world \<Rightarrow> auditor option \<Rightarrow> string \<Rightarrow> crawl_result \<Rightarrow> diagnosis res \<times> artifact list" where
  "diagnose_crawl w auditor0 url r =
    (if \<not> is_auditable r then (Inr (Not_auditable (crawl_status_value (cw_status r)) (audit_rejection_reason r)), [])
     else case page_artifacts (cw_raw_html_home r) 1 (cw_pages r) of
       (as, Inl e) \<Rightarrow> (Inl e, as)
     | (as, Inr _) \<Rightarrow>
        (case auditor0 of
           None \<Rightarrow> (Inl (ValueError ''LeadAuditor deve essere fornito dal composition root.''), as)
         | Some a \<Rightarrow> (let g = diagnostic_audit w a url r in (Inr g, as @ diagnosis_artifacts g))))"

definition run_url_test ::
  "pipeline_world \<Rightarrow> auditor option \<Rightarrow> url_policy \<Rightarrow> int \<Rightarrow> bool \<Rightarrow> int \<Rightarrow> string list \<Rightarrow> rat \<Rightarrow> diagnostic_entry list
   \<Rightarrow> string \<Rightarrow> diagnosis res \<times> artifact list" where
  "run_url_test w auditor0 policy max_pages save_artifacts retention_hours base now es url =
    (case diagnostic_setup save_artifacts retention_hours base now es of
       Inl e \<Rightarrow> (Inl e, [])
     | Inr _ \<Rightarrow>
        (case diagnose_crawl w auditor0 url (fst (crawl (pw_crawl w) max_pages url (new_crawler policy))) of
           (r, as) \<Rightarrow> (r, if save_artifacts then as else [])))"

section \<open>The graphical interface\<close>

definition format_elapsed :: "rat \<Rightarrow> string" where
  "format_elapsed seconds =
    (if seconds < 60
     then (if seconds < 0 then ''-'' else '''') @ nat_digits (nat (round_half_even_rat \<bar>seconds\<bar>)) @ ''s''
     else let m = \<lfloor>seconds / 60\<rfloor> in int_text m @ ''m '' @ int_text \<lfloor>seconds - 60 * of_int m\<rfloor> @ ''s'')"

definition grid_size :: nat where
  "grid_size = 3"

definition grid_step_km :: rat where
  "grid_step_km = 2"

definition lat_degree_km :: rat where
  "lat_degree_km = 11132 / 100"

text \<open>The circles on the map; \<open>cos_degrees\<close> is never zero in floating point.\<close>

definition calculate_grid_circles :: "(rat \<Rightarrow> rat) \<Rightarrow> rat \<Rightarrow> rat \<Rightarrow> (rat \<times> rat) list" where
  "calculate_grid_circles cos_degrees lat lng =
    (let lat_step = grid_step_km / lat_degree_km;
         lng_step = grid_step_km / (lat_degree_km * cos_degrees lat)
     in concat (map (\<lambda>i. map (\<lambda>j. (round6 (lat + of_int i * lat_step), round6 (lng + of_int j * lng_step)))
          (offsets grid_size)) (offsets grid_size)))"

definition gui_keywords :: "string list \<Rightarrow> string \<Rightarrow> string list" where
  "gui_keywords chosen custom = (if custom \<noteq> '''' \<and> custom \<notin> set chosen then chosen @ [custom] else chosen)"

datatype gui_outcome =
    Gui_no_keywords
  | Gui_settings_error
  | Gui_internal_error
  | Gui_nothing
  | Gui_report string "pyval list list"
  | Gui_transient "string list list" provider_attribution

text \<open>
  The results of a run. Every exception but one of the settings ends in the internal error, also
  opening a report that was not written, unless an older file of the day is there.
\<close>

definition show_results ::
  "workbook_library \<Rightarrow> int \<Rightarrow> string \<Rightarrow> bool \<Rightarrow> pipeline_result \<Rightarrow> gui_outcome" where
  "show_results wb now date old_file r =
    (case r of
       Verified_leads ls \<Rightarrow>
         if ls = [] then Gui_nothing
         else (case format_website_rows (map Sheet_verified ls) of
            Inl _ \<Rightarrow> Gui_internal_error
          | Inr rows \<Rightarrow>
             (case export_to_excel wb (map Sheet_verified ls) ''with_website'' None None now of
                Inl _ \<Rightarrow> Gui_internal_error
              | Inr x \<Rightarrow>
                 if (case x of Written _ \<Rightarrow> True | _ \<Rightarrow> old_file)
                 then Gui_report (''Lead_Hunter_Report_'' @ date @ ''.xlsx'') rows else Gui_internal_error))
     | Transient_leads cs \<Rightarrow>
         if cs = [] then Gui_nothing else Gui_transient (format_no_website_rows cs) google_attribution)"

definition gui_run ::
  "auditor_tools \<Rightarrow> pipeline_world \<Rightarrow> workbook_library \<Rightarrow> run_options \<Rightarrow> int \<Rightarrow> string \<Rightarrow> bool \<Rightarrow> application_settings
   \<Rightarrow> bool \<Rightarrow> string list \<Rightarrow> string \<Rightarrow> rat \<Rightarrow> rat \<Rightarrow> gui_outcome" where
  "gui_run t w wb opt now date old_file s with_site chosen custom lat lng =
    (if gui_keywords chosen custom = [] then Gui_no_keywords
     else case bind_res (create_orchestrator t (if with_site then ''with_website'' else ''no_website'') s)
        (\<lambda>o1. fst (run_orchestrator w opt lat lng (gui_keywords chosen custom) o1)) of
       Inl e \<Rightarrow> if is_SettingsError e then Gui_settings_error else Gui_internal_error
     | Inr r \<Rightarrow> show_results wb now date old_file r)"

section \<open>The server\<close>

record server_services =
  sv_cipher :: secret_cipher
  sv_suppression_key :: "nat list"

text \<open>
  The services that settings decide: the cipher of authentication and credentials, and the key of
  the suppression service, which data subject requests share.
\<close>

definition create_server_app :: "string \<Rightarrow> string \<Rightarrow> string \<Rightarrow> server_services res" where
  "create_server_app database_url master_key_base64 suppression_key_base64 =
    bind_res (production_database database_url) (\<lambda>_.
    bind_res (server_master_key master_key_base64) (\<lambda>key.
    bind_res (secret_cipher key) (\<lambda>cipher.
    bind_res (suppression_hmac_key suppression_key_base64) (\<lambda>hmac.
    bind_res (suppression_service hmac) (\<lambda>suppression.
      Inr \<lparr>sv_cipher = cipher, sv_suppression_key = suppression\<rparr>)))))"

section \<open>What the front ends guarantee\<close>

text \<open>Nothing is written without consent.\<close>

lemma no_artifacts_without_consent: "snd (run_url_test w a p n False h base now es url) = []"
  by (simp add: run_url_test_def diagnostic_setup_def split: prod.split)

lemma page_name_flat: "CHR ''/'' \<notin> set (page_name path)"
  by (auto simp: page_name_def Let_def)

lemma nat_digits_flat: "CHR ''/'' \<notin> set (nat_digits n)"
proof
  assume "CHR ''/'' \<in> set (nat_digits n)"
  then show False using nat_digits_digit [of "CHR ''/''" n] by (simp add: is_digit_def)
qed

definition artifact_dirs :: "string list" where
  "artifact_dirs = [''test_output/'', ''test_output/processed/'', ''test_output/html/'']"

text \<open>A path of one of the three directories and a plain name in it.\<close>

definition contained :: "string \<Rightarrow> bool" where
  "contained path \<longleftrightarrow> (\<exists>dir name. dir \<in> set artifact_dirs \<and> path = dir @ name \<and> CHR ''/'' \<notin> set name)"

lemma page_artifacts_contained:
  "page_artifacts html i pages = (as, r) \<Longrightarrow> list_all (\<lambda>a. contained (artifact_path a)) as"
proof (induction html i pages arbitrary: as r rule: page_artifacts.induct)
  case (2 html i url content pages)
  have one: "list_all (\<lambda>a. contained (artifact_path a)) (page_artifacts_of html i (page_name path) content)" for path
  proof -
    have "contained (''test_output/processed/'' @ page_file i (page_name path) @ ''_processed.txt'')"
      unfolding contained_def
      by (intro exI [of _ "''test_output/processed/''"] exI [of _ "page_file i (page_name path) @ ''_processed.txt''"])
        (simp add: artifact_dirs_def page_file_def page_name_flat nat_digits_flat)
    moreover have "contained (''test_output/html/'' @ page_file i (page_name path) @ ''.html'')"
      unfolding contained_def
      by (intro exI [of _ "''test_output/html/''"] exI [of _ "page_file i (page_name path) @ ''.html''"])
        (simp add: artifact_dirs_def page_file_def page_name_flat nat_digits_flat)
    ultimately show ?thesis by (cases "i = 1") (simp_all add: page_artifacts_of_def del: append.simps append_Cons)
  qed
  then show ?case using 2 by (auto split: sum.splits prod.splits)
qed simp

lemma artifacts_contained: "list_all (\<lambda>a. contained (artifact_path a)) (snd (run_url_test w a p n s h base now es url))"
proof -
  have "contained ''test_output/ai_audit_test.json''" "contained ''test_output/test_report.txt''"
    unfolding contained_def
    by (intro exI [of _ "''test_output/''"] exI [of _ "''ai_audit_test.json''"], simp add: artifact_dirs_def,
      intro exI [of _ "''test_output/''"] exI [of _ "''test_report.txt''"], simp add: artifact_dirs_def)
  then have "list_all (\<lambda>a. contained (artifact_path a)) (snd (diagnose_crawl w a url r))" for r
    using page_artifacts_contained
    by (auto simp: diagnose_crawl_def diagnosis_artifacts_def Let_def split: prod.split sum.split option.split diagnosis.split)
  then show ?thesis by (auto simp: run_url_test_def split: sum.split prod.split) (metis snd_conv)
qed

text \<open>Where the cosine is at least one hundredth, the map shows the points the provider searches.\<close>

lemma map_shows_search:
  assumes "1 / 100 \<le> c lat" "gp_grid_size p = 3" "gp_grid_step_km p = 2"
  shows "calculate_grid_circles c lat lng = generate_grid c p lat lng"
  using assms by (simp add: calculate_grid_circles_def generate_grid_def grid_size_def grid_step_km_def lat_degree_km_def)

text \<open>The interface refuses leads with contacts as the command line does, for the same reason.\<close>

lemma gui_refuses_contacts:
  assumes "list_all (lead_backed w) ls" "list_ex (\<lambda>l. vl_contacts l \<noteq> []) ls"
  shows "show_results wb now date old_file (Verified_leads ls) = Gui_internal_error"
proof -
  have "ls \<noteq> []" using assms(2) by auto
  moreover have "export_to_excel wb (map Sheet_verified ls) ''with_website'' None None now = Inl contacts_refused"
    using unchecked_export [OF assms(1), of now] assms(2) calculation by (simp add: export_to_excel_def)
  ultimately show ?thesis by (simp add: show_results_def split: sum.split)
qed

text \<open>A server that starts has a 32-byte cipher key and a suppression key of as many bytes.\<close>

lemma server_keys:
  "create_server_app db mk sk = Inr s \<Longrightarrow> length (sv_cipher s) = 32 \<and> length (sv_suppression_key s) = 32"
  by (auto simp: create_server_app_def bind_res_Inr_iff server_master_key_def suppression_hmac_key_def key_of_32_def
      secret_cipher_def suppression_service_def split: option.splits if_splits)

end
