(* ===== verification/Command_Line.thy ===== *)
theory Command_Line
  imports Frontends
begin

text \<open>
  The command of src/main.py, from the options it declares to what a run ends in. Reading the words
  of the command line is argparse's; a command is what it leaves, with the declared defaults for what
  was not given. Coordinates are finite. Messages are not
  modelled, but for what becomes of a text an encoding cannot hold.
\<close>

record command =
  cm_lat :: "rat option"
  cm_lng :: "rat option"
  cm_keywords :: "string list option"
  cm_out :: string
  cm_mode :: string
  cm_min_rating :: rat
  cm_max_reviews :: int
  cm_min_age :: int
  cm_token_mode :: string
  cm_max_pages :: int
  cm_no_headless :: bool
  cm_test_url :: "string option"
  cm_save_diagnostic_artifacts :: bool
  cm_diagnostic_retention_hours :: int
  cm_gui :: bool
  cm_examples :: bool

definition min_rating :: rat where
  "min_rating = 39 / 10"

definition max_reviews :: int where
  "max_reviews = 100"

definition min_business_age_years :: int where
  "min_business_age_years = 5"

definition max_crawl_pages :: int where
  "max_crawl_pages = 5"

text \<open>The defaults; that of the token mode comes from the settings.\<close>

definition command_defaults :: "application_settings \<Rightarrow> command" where
  "command_defaults s = \<lparr>cm_lat = None, cm_lng = None, cm_keywords = None, cm_out = ''leads_output.xlsx'',
     cm_mode = ''no_website'', cm_min_rating = min_rating, cm_max_reviews = max_reviews,
     cm_min_age = min_business_age_years, cm_token_mode = st_token_mode s, cm_max_pages = max_crawl_pages,
     cm_no_headless = False, cm_test_url = None, cm_save_diagnostic_artifacts = False,
     cm_diagnostic_retention_hours = 24, cm_gui = False, cm_examples = False\<rparr>"

text \<open>What the declared choices and \<open>nargs='+'\<close> leave.\<close>

definition command_declared :: "command \<Rightarrow> bool" where
  "command_declared c \<longleftrightarrow> cm_mode c \<in> {''no_website'', ''with_website''}
     \<and> cm_token_mode c \<in> {''high_fidelity'', ''optimized''} \<and> cm_keywords c \<noteq> Some []"

datatype main_outcome = Main_exit nat "artifact list" | Main_search cli_outcome

text \<open>\<open>--test-url\<close>: the auditor is built before the run.\<close>

definition run_test_command ::
  "auditor_tools \<Rightarrow> pipeline_world \<Rightarrow> url_policy \<Rightarrow> string list \<Rightarrow> rat \<Rightarrow> diagnostic_entry list \<Rightarrow> application_settings
   \<Rightarrow> command \<Rightarrow> string \<Rightarrow> main_outcome res" where
  "run_test_command t w policy base clock es s c url =
    (case build_auditor t s of
       Inl e \<Rightarrow> if is_SettingsError e then Inr (Main_exit 2 []) else Inl e
     | Inr a \<Rightarrow>
        (case run_url_test w (Some a) policy (cm_max_pages c) (cm_save_diagnostic_artifacts c) (cm_diagnostic_retention_hours c)
                base clock es url of
           (Inl e, as) \<Rightarrow> if is_SettingsError e then Inr (Main_exit 2 as) else Inl e
         | (Inr _, as) \<Rightarrow> Inr (Main_exit 0 as)))"

definition search_args :: "url_policy \<Rightarrow> schedule \<Rightarrow> command \<Rightarrow> cli_args" where
  "search_args policy sched c = \<lparr>ca_lat = cm_lat c, ca_lng = cm_lng c,
     ca_kws = (case cm_keywords c of None \<Rightarrow> [] | Some ks \<Rightarrow> ks), ca_out = cm_out c, ca_mode = cm_mode c,
     ca_options = \<lparr>ro_min_age = cm_min_age c, ro_max_pages = cm_max_pages c, ro_policy = policy, ro_schedule = sched\<rparr>\<rparr>"

text \<open>The flags in the order the command looks at them; starting the interface always ends with 0.\<close>

definition run_command ::
  "auditor_tools \<Rightarrow> pipeline_world \<Rightarrow> workbook_library \<Rightarrow> int \<Rightarrow> string \<Rightarrow> url_policy \<Rightarrow> schedule \<Rightarrow> string list \<Rightarrow> rat
   \<Rightarrow> diagnostic_entry list \<Rightarrow> environment \<Rightarrow> (application_settings \<Rightarrow> command) \<Rightarrow> main_outcome res" where
  "run_command t w wb now date policy sched base clock es vs parse_args =
    (case settings_from_mapping vs of
       Inl e \<Rightarrow> if is_SettingsError e then Inr (Main_exit 2 []) else Inl e
     | Inr s \<Rightarrow>
        let c = parse_args s in
        if cm_examples c then Inr (Main_exit 0 [])
        else if cm_test_url c \<notin> {None, Some ''''}
        then run_test_command t w policy base clock es s c (the (cm_test_url c))
        else if cm_gui c then Inr (Main_exit 0 [])
        else bind_res (run_cli t w wb now date vs (search_args policy sched c)) (\<lambda>r. Inr (Main_search r)))"

section \<open>Text for a console\<close>

text \<open>
  \<open>normalize_console_text\<close> (src/src/security/presentation.py): encoding with \<open>errors="replace"\<close> and
  decoding again leaves what the console's encoding has and a question mark for the rest. Which
  characters an encoding has is the codec's.
\<close>

definition console_encoding :: "string option \<Rightarrow> string option \<Rightarrow> string" where
  "console_encoding encoding stdout_encoding =
    (case filter (\<lambda>e. e \<notin> {None, Some ''''}) [encoding, stdout_encoding] of
       [] \<Rightarrow> ''utf-8'' | e # _ \<Rightarrow> the e)"

definition normalize_console_text :: "(string \<Rightarrow> char \<Rightarrow> bool) \<Rightarrow> string option \<Rightarrow> string option \<Rightarrow> string \<Rightarrow> string" where
  "normalize_console_text encodable stdout_encoding encoding text =
    map (\<lambda>c. if encodable (console_encoding encoding stdout_encoding) c then c else CHR ''?'') text"

lemma normalized_encodable:
  assumes "encodable (console_encoding encoding stdout_encoding) CHR ''?''"
  shows "list_all (encodable (console_encoding encoding stdout_encoding))
      (normalize_console_text encodable stdout_encoding encoding text)"
    "normalize_console_text encodable stdout_encoding encoding (normalize_console_text encodable stdout_encoding encoding text)
      = normalize_console_text encodable stdout_encoding encoding text"
  using assms by (auto simp: normalize_console_text_def list_all_iff)

section \<open>Facts\<close>

lemma defaults_declared: "settings_from_mapping vs = Inr s \<Longrightarrow> command_declared (command_defaults s)"
  using settings_from_mapping_Inr [of vs s] by (simp add: command_declared_def command_defaults_def)

text \<open>Without arguments the command asks for a search it cannot run.\<close>

lemma bare_command:
  "settings_from_mapping vs = Inr s \<Longrightarrow>
   run_command t w wb now date policy sched base clock es vs command_defaults = Inr (Main_search (Cli_exit 1))"
  by (simp add: run_command_def Let_def command_defaults_def search_args_def run_cli_def missing_coordinate_def)

text \<open>
  A diagnostic run that was not asked to keep its artifacts writes none, whatever the site and the
  model answer, and a retention below an hour escapes as a \<open>ValueError\<close>.
\<close>

lemma test_writes_nothing:
  assumes "run_test_command t w policy base clock es s c url = Inr (Main_exit n as)" "\<not> cm_save_diagnostic_artifacts c"
  shows "as = []"
  using assms
  by (auto simp: run_test_command_def run_url_test_def diagnostic_setup_def split: sum.splits prod.splits if_splits)

lemma short_retention_escapes:
  assumes "build_auditor t s = Inr a" "cm_save_diagnostic_artifacts c" "cm_diagnostic_retention_hours c < 1"
  shows "\<exists>m. run_test_command t w policy base clock es s c url = Inl (ValueError m)"
  using assms by (simp add: run_test_command_def run_url_test_def diagnostic_setup_def)

text \<open>The rating and review bounds of the command change nothing.\<close>

lemma filters_unused_in_test:
  "run_test_command t w policy base clock es s (c\<lparr>cm_min_rating := x, cm_max_reviews := y\<rparr>) url
     = run_test_command t w policy base clock es s c url"
  by (simp add: run_test_command_def split: sum.split)

lemma filters_unused:
  "run_command t w wb now date policy sched base clock es vs (\<lambda>s. (parse s)\<lparr>cm_min_rating := x, cm_max_reviews := y\<rparr>)
     = run_command t w wb now date policy sched base clock es vs parse"
  by (cases "settings_from_mapping vs") (simp_all add: run_command_def Let_def filters_unused_in_test search_args_def)

end
