(* ===== verification/Licenses.thy ===== *)
theory Licenses
  imports Pattern Url_Policy
begin

text \<open>
  The license check of the build (scripts/check_licenses.py): every runtime component of the bill
  of materials is looked up in the inventory, its license is cut into atoms, and each atom must be
  allowed; an unknown license may be replaced by a reviewed override. Dates are days; reading a
  date is a parameter, as is the text of one.
\<close>

section \<open>Documents\<close>

record inventory_row =
  iv_name :: string
  iv_version :: string
  iv_license :: "string option"

record sbom_component =
  sb_type :: "string option"
  sb_name :: "string option"

record license_override =
  lo_versions :: "string list"
  lo_expires :: string
  lo_reviewed :: string
  lo_sources :: "(string \<times> string) list"
  lo_reason :: string
  lo_license :: string

record license_policy =
  lp_allowed :: "string list"
  lp_review :: "string list"
  lp_overrides :: "(string \<times> license_override) list"

record date_reader =
  dr_parse :: "string \<Rightarrow> int option"
  dr_text :: "int \<Rightarrow> string"

section \<open>Names and atoms\<close>

definition canonicalize_name :: "string \<Rightarrow> string" where
  "canonicalize_name v = py_lower (pat_sub [p_plus (PCls (\<lambda>c. c \<in> {CHR ''-'', CHR ''_'', CHR ''.''}))] (\<lambda>_. ''-'') v)"

text \<open>\<open>re.split\<close> for a pattern without empty matches.\<close>

fun split_from :: "nat \<Rightarrow> pat \<Rightarrow> char option \<Rightarrow> string \<Rightarrow> string \<Rightarrow> string list" where
  "split_from 0 p b cur s = [cur @ s]"
| "split_from (Suc k) p b cur s =
    (case s of
       [] \<Rightarrow> [cur]
     | c # cs \<Rightarrow>
        (case filter (\<lambda>n. 0 < n) (take 1 (match_ends p b s)) of
           n # _ \<Rightarrow> cur # split_from k p (char_before b s n) [] (drop n s)
         | [] \<Rightarrow> split_from k p (Some c) (cur @ [c]) cs))"

definition pat_split :: "pat \<Rightarrow> string \<Rightarrow> string list" where
  "pat_split p s = split_from (Suc (length s)) p None [] s"

definition atom_separator :: pat where
  "atom_separator =
    PAlt (p_seq [p_plus (PCls py_space), PAlt (p_lit ''AND'') (p_lit ''OR''), p_plus (PCls py_space)])
      (p_seq [p_lit '';'', PStar (PCls py_space)])"

definition license_atoms :: "string \<Rightarrow> string list" where
  "license_atoms v =
    (let n = py_strip v in
     if starts_with ''MIT License'' n \<and> contains_str ''Permission is hereby granted'' n then [''MIT'']
     else filter (\<lambda>a. a \<noteq> '''') (map py_strip (pat_split atom_separator n)))"

section \<open>The check\<close>

text \<open>What an override gives: the license it puts in place, or the reason it does not hold.\<close>

datatype override_verdict = Override_fails string | Override_gives string

definition check_override ::
  "date_reader \<Rightarrow> int \<Rightarrow> string \<Rightarrow> string \<Rightarrow> license_override \<Rightarrow> override_verdict res" where
  "check_override dr today name version v =
    (case (dr_parse dr (lo_expires v), dr_parse dr (lo_reviewed v)) of
       (Some expires, Some reviewed) \<Rightarrow>
         let source0 = (case map_of (lo_sources v) version of Some s \<Rightarrow> s | None \<Rightarrow> '''');
             label = name @ ''=='' @ version
         in Inr (if version \<notin> set (lo_versions v) then Override_fails (label @ '': override does not cover this version'')
             else if today < reviewed then Override_fails (label @ '': override review date is in the future'')
             else if expires \<le> reviewed \<or> 366 < expires - reviewed then Override_fails (label @ '': override review window is invalid'')
             else if expires < today then Override_fails (label @ '': license override expired on '' @ dr_text dr expires)
             else if \<not> starts_with ''https://'' source0 then Override_fails (label @ '': version-specific source must use HTTPS'')
             else if length (py_strip (lo_reason v)) < 20 then Override_fails (label @ '': override reason is incomplete'')
             else Override_gives (lo_license v))
     | _ \<Rightarrow> Inl (ValueError ''Invalid isoformat string''))"

record checked_package =
  ck_name :: string
  ck_version :: string
  ck_reported :: string
  ck_effective :: string
  ck_override_applied :: bool

record license_report =
  lr_passes :: bool
  lr_checked :: nat
  lr_reviews :: "string list"
  lr_failures :: "string list"
  lr_packages :: "checked_package list"

definition runtime_names :: "sbom_component list \<Rightarrow> string list" where
  "runtime_names cs =
    concat (map (\<lambda>c. case sb_name c of
       Some n \<Rightarrow> if sb_type c = Some ''library'' \<and> n \<noteq> '''' then [canonicalize_name n] else [] | None \<Rightarrow> []) cs)"

definition reported_license :: "inventory_row \<Rightarrow> string" where
  "reported_license r = py_strip (case iv_license r of Some l \<Rightarrow> (if l = '''' then ''UNKNOWN'' else l) | None \<Rightarrow> ''UNKNOWN'')"

text \<open>The overrides by canonical name; of equal names the last one counts.\<close>

definition override_of :: "license_policy \<Rightarrow> string \<Rightarrow> license_override option" where
  "override_of p name = map_of (rev (map (\<lambda>(n, v). (canonicalize_name n, v)) (lp_overrides p))) name"

text \<open>Below 256, a text is \<open>UNKNOWN\<close> in capitals exactly when it is \<open>unknown\<close> in small letters.\<close>

definition license_verdict :: "date_reader \<Rightarrow> int \<Rightarrow> license_policy \<Rightarrow> inventory_row \<Rightarrow> override_verdict res" where
  "license_verdict dr today p r =
    (let name = canonicalize_name (iv_name r) in
     case override_of p name of
       Some v \<Rightarrow> if py_lower (reported_license r) = ''unknown'' then check_override dr today name (iv_version r) v
                 else Inr (Override_gives (reported_license r))
     | None \<Rightarrow> Inr (Override_gives (reported_license r)))"

definition unsupported_atoms :: "license_policy \<Rightarrow> string \<Rightarrow> string list" where
  "unsupported_atoms p l = text_set (filter (\<lambda>a. a \<notin> set (lp_allowed p)) (license_atoms l))"

definition review_atoms :: "license_policy \<Rightarrow> string \<Rightarrow> string list" where
  "review_atoms p l = text_set (filter (\<lambda>a. a \<in> set (lp_review p)) (license_atoms l))"

text \<open>What a row reports; \<open>list_text\<close> and \<open>text_repr\<close> print Python values.\<close>

definition verdict_failures ::
  "(string list \<Rightarrow> string) \<Rightarrow> (string \<Rightarrow> string) \<Rightarrow> license_policy \<Rightarrow> string \<Rightarrow> string \<Rightarrow> override_verdict \<Rightarrow> string list" where
  "verdict_failures list_text text_repr p label raw v =
    (case v of
       Override_fails m \<Rightarrow> [m]
     | Override_gives l \<Rightarrow>
         if unsupported_atoms p l = [] then []
         else [label @ '': unsupported license atoms '' @ list_text (unsupported_atoms p l) @ '' (reported: '' @ text_repr raw @ '')''])"

definition verdict_reviews :: "license_policy \<Rightarrow> string \<Rightarrow> override_verdict \<Rightarrow> string list" where
  "verdict_reviews p label v =
    (case v of
       Override_fails _ \<Rightarrow> []
     | Override_gives l \<Rightarrow> if review_atoms p l = [] then [] else [label @ '': '' @ join_with '', '' (review_atoms p l)])"

definition effective_license :: "string \<Rightarrow> override_verdict \<Rightarrow> string" where
  "effective_license raw v = (case v of Override_gives l \<Rightarrow> l | Override_fails _ \<Rightarrow> raw)"

definition check_row ::
  "date_reader \<Rightarrow> (string list \<Rightarrow> string) \<Rightarrow> (string \<Rightarrow> string) \<Rightarrow> int \<Rightarrow> license_policy \<Rightarrow> inventory_row
   \<Rightarrow> (string list \<times> string list \<times> checked_package) res" where
  "check_row dr list_text text_repr today p r =
    (let name = canonicalize_name (iv_name r); raw = reported_license r; label = name @ ''=='' @ iv_version r in
     bind_res (license_verdict dr today p r) (\<lambda>v.
       Inr (verdict_failures list_text text_repr p label raw v, verdict_reviews p label v,
            \<lparr>ck_name = name, ck_version = iv_version r, ck_reported = raw, ck_effective = effective_license raw v,
             ck_override_applied = effective_license raw v \<noteq> raw\<rparr>)))"

fun check_rows ::
  "(inventory_row \<Rightarrow> (string list \<times> string list \<times> checked_package) res) \<Rightarrow> inventory_row list
   \<Rightarrow> (string list \<times> string list \<times> checked_package list) res" where
  "check_rows f [] = Inr ([], [], [])"
| "check_rows f (r # rs) =
    bind_res (f r) (\<lambda>(fs, vs, c). bind_res (check_rows f rs) (\<lambda>(fs', vs', cs). Inr (fs @ fs', vs @ vs', c # cs)))"

definition runtime_rows :: "inventory_row list \<Rightarrow> sbom_component list \<Rightarrow> inventory_row list" where
  "runtime_rows inventory sbom =
    filter (\<lambda>r. canonicalize_name (iv_name r) \<in> set (runtime_names sbom)) (sort_key (\<lambda>r. canonicalize_name (iv_name r)) inventory)"

definition validate_licenses ::
  "date_reader \<Rightarrow> (string list \<Rightarrow> string) \<Rightarrow> (string \<Rightarrow> string) \<Rightarrow> int
   \<Rightarrow> inventory_row list \<Rightarrow> sbom_component list \<Rightarrow> license_policy \<Rightarrow> license_report res" where
  "validate_licenses dr list_text text_repr today inventory sbom p =
    bind_res (check_rows (check_row dr list_text text_repr today p) (runtime_rows inventory sbom)) (\<lambda>(fs, vs, cs).
      let failures = fs @ (if cs = [] then [''license inventory contains no runtime SBOM components''] else [])
      in Inr \<lparr>lr_passes = (failures = []), lr_checked = length cs, lr_reviews = vs, lr_failures = failures, lr_packages = cs\<rparr>)"

section \<open>What a pass means\<close>

text \<open>A row passes: no override fails for it, and every atom of its license is allowed.\<close>

definition row_passes :: "date_reader \<Rightarrow> int \<Rightarrow> license_policy \<Rightarrow> inventory_row \<Rightarrow> bool" where
  "row_passes dr today p r \<longleftrightarrow>
    (\<exists>l. license_verdict dr today p r = Inr (Override_gives l) \<and> set (license_atoms l) \<subseteq> set (lp_allowed p))"

lemma unsupported_none: "unsupported_atoms p l = [] \<longleftrightarrow> set (license_atoms l) \<subseteq> set (lp_allowed p)"
  by (auto simp: unsupported_atoms_def filter_empty_conv)

lemma verdict_failures_none:
  "verdict_failures lt tr p label raw v = [] \<longleftrightarrow> (\<exists>l. v = Override_gives l \<and> set (license_atoms l) \<subseteq> set (lp_allowed p))"
  by (cases v) (auto simp: verdict_failures_def unsupported_none)

lemma check_row_passes:
  "check_row dr lt tr today p r = Inr (fs, vs, c) \<Longrightarrow> fs = [] \<longleftrightarrow> row_passes dr today p r"
  by (auto simp: check_row_def Let_def bind_res_Inr_iff row_passes_def verdict_failures_none)

lemma check_rows_passes:
  "check_rows (check_row dr lt tr today p) rs = Inr (fs, vs, cs) \<Longrightarrow>
   length cs = length rs \<and> (fs = [] \<longleftrightarrow> list_all (row_passes dr today p) rs)"
proof (induction rs arbitrary: fs vs cs)
  case (Cons r rs)
  obtain fs1 vs1 c fs2 vs2 cs2 where s: "check_row dr lt tr today p r = Inr (fs1, vs1, c)"
    "check_rows (check_row dr lt tr today p) rs = Inr (fs2, vs2, cs2)" "fs = fs1 @ fs2" "cs = c # cs2"
    using Cons.prems by (auto simp: bind_res_Inr_iff)
  show ?case using Cons.IH [OF s(2)] check_row_passes [OF s(1)] s(3,4) by simp
qed simp

text \<open>The check passes exactly when some runtime component was checked and all of them pass.\<close>

lemma licenses_pass_iff:
  assumes "validate_licenses dr lt tr today inventory sbom p = Inr report"
  shows "lr_checked report = length (runtime_rows inventory sbom) \<and>
    (lr_passes report \<longleftrightarrow> runtime_rows inventory sbom \<noteq> [] \<and> list_all (row_passes dr today p) (runtime_rows inventory sbom))"
proof -
  let ?rs = "runtime_rows inventory sbom"
  obtain fs vs cs where s: "check_rows (check_row dr lt tr today p) ?rs = Inr (fs, vs, cs)" "lr_checked report = length cs"
    "lr_passes report \<longleftrightarrow> fs = [] \<and> cs \<noteq> []"
    using assms by (auto simp: validate_licenses_def bind_res_Inr_iff Let_def)
  then show ?thesis using check_rows_passes [OF s(1)] by auto
qed

text \<open>An override that holds covers the version, is in force and was reviewed within its year.\<close>

lemma override_in_force:
  assumes "check_override dr today name version v = Inr (Override_gives l)"
  obtains e r where "dr_parse dr (lo_expires v) = Some e" "dr_parse dr (lo_reviewed v) = Some r"
    "r \<le> today" "today \<le> e" "e \<le> r + 366" "version \<in> set (lo_versions v)" "l = lo_license v"
  using assms by (auto simp: check_override_def Let_def split: option.splits if_splits)

end
