(* ===== verification/Site_Scenario.thy ===== *)
theory Site_Scenario
  imports Pipeline
begin

text \<open>
  One concrete search: a provider that answers with one place, its site behind a browser, a
  resolver and a clock that never change, and a model that is always busy. The theorems about the
  pipeline are applied to it.
\<close>

section \<open>The address\<close>

definition rossi_url :: split_url where
  "rossi_url = \<lparr>ur_scheme = ''https'', ur_netloc = ''rossi.it'', ur_path = ''/'', ur_query = '''', ur_fragment = ''''\<rparr>"

lemma rossi_split: "urlsplit ''https://rossi.it/'' = Inr rossi_url"
proof -
  have s: "split_scheme (clean_url ''https://rossi.it/'') = (''https'', ''//rossi.it/'')" by code_simp
  have b: "before_char CHR ''#'' ''/'' = ''/''" "before_char CHR ''?'' ''/'' = ''/''" by code_simp+
  show ?thesis unfolding urlsplit_def s
    by (simp add: b split_netloc_def starts_with_def netloc_end_def rossi_url_def after_char_def Let_def)
qed

lemma rossi_host: "url_hostname rossi_url = Some ''rossi.it''" "url_hostinfo rossi_url = (''rossi.it'', None)"
  by code_simp+

lemma rossi_texts:
  "py_strip ''https://rossi.it/'' = ''https://rossi.it/''" "\<not> list_ex (\<lambda>c. code c < 32) ''https://rossi.it/''"
  "list_all (\<lambda>c. code c < 128) ''rossi.it''" "rstrip_by (\<lambda>c. c = CHR ''.'') ''rossi.it'' = ''rossi.it''"
  "py_lower ''rossi.it'' = ''rossi.it''" "is_local_host ''rossi.it'' = False" "url_has_credentials rossi_url = False"
  "ur_scheme rossi_url = ''https''" "idna_ascii_ok ''rossi.it''" "parse_ip ''rossi.it'' = None"
  by code_simp+

text \<open>It resolves to 8.8.8.8.\<close>

lemma eight_text: "ip_text (IPv4 134744072) = ''8.8.8.8''"
proof -
  have "nat_digits 8 = ''8''" by code_simp
  then show ?thesis by (simp add: ipv4_text_def)
qed

lemma eight_parsed: "parse_ip ''8.8.8.8'' = Some (IPv4 134744072)"
  unfolding eight_text [symmetric] by (simp add: parse_ip_def parse_ipv4_text)

lemma eight_global: "is_global (IPv4 134744072)"
  by (simp add: is_global4_def in_net4_def is_private4_def private_networks4_def net4_def shared_network4_def)

lemma rossi_resolved: "resolve_public_addresses (\<lambda>h port. Some [''8.8.8.8'']) ''rossi.it'' n = Inr [''8.8.8.8'']"
proof -
  have "before_char CHR ''%'' ''8.8.8.8'' = ''8.8.8.8''" "text_set [''8.8.8.8''] = [''8.8.8.8'']" by code_simp+
  then show ?thesis using eight_global eight_text
    by (simp add: resolve_public_addresses_def raw_addresses_def rossi_texts public_address_def eight_parsed unmapped_def
        del: ip_text.simps)
qed

definition rossi_decision :: url_decision where
  "rossi_decision = \<lparr>ud_normalized_url = ''https://rossi.it/'', ud_hostname = ''rossi.it'', ud_port = 443,
     ud_resolved_ips = [''8.8.8.8'']\<rparr>"

lemma rossi_checked:
  "checked_parts codec (default_url_policy\<lparr>up_dns_pins := ps\<rparr>) ''https://rossi.it/'' = Inr (rossi_url, ''rossi.it'', 443)"
  unfolding checked_parts_def rossi_texts rossi_split bind_res_simps normalize_host_def idna_encode_def rossi_host option.case
  by (simp add: rossi_texts default_url_policy_def safe_url_policy_def url_port_def rossi_host default_port_of_def
      del: list.pred_inject)

lemma rossi_valid:
  assumes "ps \<in> {[], [(''rossi.it'', [''8.8.8.8''])]}"
  shows "validate codec (\<lambda>h port. Some [''8.8.8.8'']) ''https://rossi.it/'' None (default_url_policy\<lparr>up_dns_pins := ps\<rparr>)
    = (Inr rossi_decision, default_url_policy\<lparr>up_dns_pins := [(''rossi.it'', [''8.8.8.8''])]\<rparr>)"
proof -
  have "normalized_url rossi_url ''rossi.it'' 443 = ''https://rossi.it/''"
    by (simp add: normalized_url_def rossi_url_def default_port_of_def urlunsplit_web_def)
  then show ?thesis using assms
    by (auto simp: validate_def rossi_checked check_allowed_hosts_def rossi_resolved rossi_decision_def pin_of_def)
qed

section \<open>The site\<close>

definition rossi_text :: string where
  "rossi_text = ''Officina Rossi a Roma: tagliandi, freni, gomme e revisioni per auto e moto, anche d'' @ CHR 0x27 #
     ''epoca. Siamo aperti da lunedi a sabato dalle otto alle diciannove. Telefonate o scriveteci per un ''
     @ ''preventivo gratuito e senza impegno.''"

definition rossi_home :: provider_result where
  "rossi_home = \<lparr>pr_success = True, pr_url = '''', pr_html = '''',
     pr_markdown = Some \<lparr>mk_fit = rossi_text, mk_raw = '''', mk_text = ''''\<rparr>, pr_internal_links = [],
     pr_status_code = Some 200, pr_redirected_status_code = None, pr_response_headers = [(''Content-Type'', ''text/html'')]\<rparr>"

definition rossi_world :: crawl_world where
  "rossi_world = \<lparr>wd_codec = (\<lambda>h. None), wd_resolver = (\<lambda>t h port. Some [''8.8.8.8'']), wd_clock = (\<lambda>t. 0),
     wd_start = (\<lambda>t. None), wd_browse = (\<lambda>t u. ([], Fetched (Some rossi_home))),
     wd_hrefs = (\<lambda>html. [''mailto:info@rossi.it''])\<rparr>"

lemma rossi_text_facts:
  "200 \<le> length rossi_text" "clean_whitespace rossi_text = rossi_text" "py_strip rossi_text = rossi_text"
  "CHR ''@'' \<notin> set rossi_text"
proof -
  have "64 + 136 \<le> length rossi_text" by code_simp
  then show "200 \<le> length rossi_text" by simp
qed code_simp+

lemma rossi_page:
  "page_content rossi_home = rossi_text" "choose_markdown (pr_markdown rossi_home) = rossi_text"
  "page_metadata rossi_home = (Some 200, ''text/html'')" "is_supported_content_type ''text/html''"
proof -
  show m: "choose_markdown (pr_markdown rossi_home) = rossi_text"
    using rossi_text_facts by (simp add: choose_markdown_def rossi_home_def)
  show "page_content rossi_home = rossi_text" unfolding page_content_def m by (rule rossi_text_facts)
  show "is_supported_content_type ''text/html''" by code_simp
  have "py_lower ''Content-Type'' = ''content-type''" by code_simp
  then show "page_metadata rossi_home = (Some 200, ''text/html'')" by (simp add: page_metadata_def rossi_home_def)
qed

lemma rossi_contact:
  "\<exists>c. extract_contacts rossi_world '''' rossi_text ''https://rossi.it/'' t (sha256_hex m) = [c]"
proof -
  have e: "mailto_address ''mailto:info@rossi.it'' = Some ''info@rossi.it''"
    "normalize_email ''info@rossi.it'' = Inr ''info@rossi.it''" "split_on CHR ''@'' ''info@rossi.it'' = [''info'', ''rossi.it'']"
    "after_last CHR ''.'' ''info@rossi.it'' = ''it''" by code_simp+
  have "pat_findall email_regex '''' = []" "pat_findall email_regex rossi_text = []"
    by (rule no_email_without_at, simp) (rule no_email_without_at [OF rossi_text_facts(4)])
  then have found: "found_emails rossi_world '''' rossi_text = [(''info@rossi.it'', MAILTO)]"
    by (simp add: found_emails_def rossi_world_def e)
  have plain: "\<not> is_system_email ''info@rossi.it''"
    by (simp add: is_system_email_def e email_blacklist_domains_def email_blacklist_extensions_def)
  have "sha256_text (sha256_hex m)" by (simp add: sha256_text_iff sha256_hex_lower)
  then have "ok_res (from_email ''info@rossi.it'' (Some ''https://rossi.it/'') (Aware t) MAILTO (sha256_hex m))"
    unfolding from_email_ok_iff e by (simp add: source_url_check_def rossi_split rossi_host rossi_texts)
  then show ?thesis by (auto simp: extract_contacts_def found plain ok_res_def split: sum.splits)
qed

lemma rossi_kept:
  "\<exists>e c. pe_valid e \<and> pe_final_url e = ''https://rossi.it/''
     \<and> keep_page rossi_world u ''https://rossi.it/'' rossi_home st (r, []) =
       (True, r\<lparr>cw_evidence := cw_evidence r @ [e], cw_pages := dict_set (cw_pages r) ''https://rossi.it/'' rossi_text\<rparr>,
        [(cp_normalized_value c, c)])"
proof -
  let ?e = "page_evidence_of (now_of rossi_world st) u ''https://rossi.it/'' (Some 200) ''text/html'' rossi_text None"
  have v: "pe_valid ?e" using rossi_text_facts by (simp add: page_evidence_valid_iff rossi_page)
  obtain c where c: "extract_contacts rossi_world '''' rossi_text ''https://rossi.it/'' (pe_retrieved_at ?e) (pe_content_sha256 ?e) = [c]"
    using rossi_contact by (auto simp: page_evidence_of_def Let_def)
  have "pr_html rossi_home = ''''" by (simp add: rossi_home_def)
  then have "keep_page rossi_world u ''https://rossi.it/'' rossi_home st (r, []) =
      (True, r\<lparr>cw_evidence := cw_evidence r @ [?e], cw_pages := dict_set (cw_pages r) ''https://rossi.it/'' rossi_text\<rparr>,
       [(cp_normalized_value c, c)])"
    using v c by (simp add: keep_page_def rossi_page Let_def add_evidence_def dict_get_def)
  then show ?thesis using v by (intro exI [of _ ?e] exI [of _ c]) (simp add: page_evidence_of_def Let_def)
qed

lemma rossi_crawl:
  "\<exists>r cs. crawl rossi_world 3 ''https://rossi.it/'' (new_crawler default_url_policy) = (r, cs) \<and> is_auditable r
     \<and> map pe_final_url (valid_evidence r) = [''https://rossi.it/''] \<and> length (cw_contacts r) = 1"
proof -
  note v = rossi_valid [of "[]", simplified] rossi_valid [of "[(''rossi.it'', [''8.8.8.8''])]", simplified]
  have p: "default_url_policy\<lparr>up_dns_pins := []\<rparr> = default_url_policy" "pr_success rossi_home" "pr_url rossi_home = ''''"
    "pr_internal_links rossi_home = []" "pr_html rossi_home = ''''"
    by (simp_all add: default_url_policy_def safe_url_policy_def rossi_home_def)
  have d: "ud_normalized_url rossi_decision = ''https://rossi.it/''" by (simp add: rossi_decision_def)
  obtain base where pu: "urlparse ''https://rossi.it/'' = Inr base"
    by (simp add: urlparse_def urlparse_default_def rossi_split Let_def)
  have au: "ensure_auditable_pages [(''https://rossi.it/'', rossi_text)] = Inr ()"
    using rossi_text_facts by (simp add: auditable_iff auditable_lengths_def min_audit_page_chars_def starts_with_def)
  let ?st = "(new_crawler default_url_policy)\<lparr>hc_policy := default_url_policy\<lparr>up_dns_pins := [(''rossi.it'', [''8.8.8.8''])]\<rparr>,
    hc_started := True, hc_tick := Suc (Suc (Suc (Suc 0)))\<rparr>"
  let ?r = "(new_crawl_result ''https://rossi.it/'' ''https://rossi.it/'')\<lparr>cw_raw_html_home := '''', cw_url := ''https://rossi.it/''\<rparr>"
  obtain e c where k: "pe_valid e" "pe_final_url e = ''https://rossi.it/''"
    "keep_page rossi_world ''https://rossi.it/'' ''https://rossi.it/'' rossi_home ?st (?r, []) =
      (True, ?r\<lparr>cw_evidence := cw_evidence ?r @ [e], cw_pages := dict_set (cw_pages ?r) ''https://rossi.it/'' rossi_text\<rparr>,
       [(cp_normalized_value c, c)])"
    using rossi_kept by meson
  let ?r' = "?r\<lparr>cw_evidence := [e], cw_pages := [(''https://rossi.it/'', rossi_text)], cw_contacts := [c], cw_status := Crawl_SUCCESS\<rparr>"
  have "crawl rossi_world 3 ''https://rossi.it/'' (new_crawler default_url_policy)
      = crawl_site rossi_world 3 rossi_decision rossi_decision rossi_home ?r ?st"
    using v p by (simp add: crawl_def check_url_def rossi_world_def new_crawler_def reset_dns_pins_def Let_def start_browser_def
        arun_def d new_crawl_result_def)
  also have "\<dots> = (?r', ?st)"
    using k p pu au by (simp add: crawl_site_def d Let_def new_crawl_result_def new_crawler_def conclude_def slice_to_def)
  finally have "crawl rossi_world 3 ''https://rossi.it/'' (new_crawler default_url_policy) = (?r', ?st)" .
  then show ?thesis using k au by (simp add: is_auditable_def ok_auditable valid_evidence_def new_crawl_result_def)
qed

section \<open>The search\<close>

definition rossi_client :: places_client where
  "rossi_client q n = Posted (Some (VDict [(''places'', VList [VDict
     [(''id'', VStr ''p1''), (''displayName'', VDict [(''text'', VStr ''Officina Rossi'')]),
      (''websiteUri'', VStr ''https://rossi.it/'')]])]))"

definition rossi_pipeline :: pipeline_world where
  "rossi_pipeline = \<lparr>pw_cos = (\<lambda>x. 1), pw_repr = (\<lambda>v. ''?''), pw_now = 0, pw_client = rossi_client, pw_crawl = rossi_world,
     pw_parser = \<lparr>hp_site_name = (\<lambda>h. Some ''Officina Rossi''), hp_title = (\<lambda>h. None)\<rparr>, pw_whois = (\<lambda>d. Whois_none),
     pw_year = 2026, pw_page_chats = (\<lambda>i u n r. Chat_rate_limited), pw_chats = (\<lambda>i n r. Chat_rate_limited),
     pw_built_at = (\<lambda>i. 0), pw_audited_at = (\<lambda>i. 0)\<rparr>"

definition rossi_provider :: places_provider where
  "rossi_provider = \<lparr>gp_api_key = ''k'', gp_places_url = google_places_v1_url, gp_field_mask = field_mask, gp_grid_size = 1,
     gp_grid_step_km = 1, gp_radius_m = 500, gp_max_attempts = 3\<rparr>"

definition rossi_candidate :: transient_candidate where
  "rossi_candidate = \<lparr>tc_provider = ''google_places'', tc_external_id = ''p1'', tc_display_name = ''Officina Rossi'',
     tc_website_url = Some ''https://rossi.it/'', tc_collected_at = Aware 0, tc_attribution = google_attribution\<rparr>"

definition rossi_auditor :: auditor where
  "rossi_auditor = \<lparr>au_model = default_llm_model, au_model_free = default_llm_model_free,
     au_prompts = \<lparr>pm_system_no_website = '''', pm_system_website_audit = '''', pm_system_page_clean = '''',
       pm_no_website = (\<lambda>a b c d. ''''), pm_website_audit = (\<lambda>a b c d e. ''''), pm_page_clean = (\<lambda>a b c. '''')\<rparr>,
     au_tools = \<lparr>tt_nfkc = (\<lambda>s. s), tt_parse_html = (\<lambda>s. []), tt_destroyed_read = None, tt_repr = (\<lambda>v. ''?'')\<rparr>,
     au_json_loads = (\<lambda>s. None), au_float_repr = (\<lambda>f. ''?''), au_float_text = (\<lambda>s. None)\<rparr>"

definition rossi_orchestrator :: orchestrator where
  "rossi_orchestrator = \<lparr>or_mode = ''with_website'', or_provider = rossi_provider, or_auditor = Some rossi_auditor,
     or_all_leads = [], or_transient = []\<rparr>"

definition rossi_options :: run_options where
  "rossi_options = \<lparr>ro_min_age = 0, ro_max_pages = 3, ro_policy = default_url_policy,
     ro_schedule = \<lparr>sd_ready = (\<lambda>i t. False), sd_finish = (\<lambda>t. 0)\<rparr>\<rparr>"

definition rossi_workbook :: workbook_library where
  "rossi_workbook = \<lparr>wl_cell_ok = (\<lambda>v. True), wl_save_ok = (\<lambda>s. True), wl_repr = (\<lambda>v. ''?'')\<rparr>"

lemma rossi_search: "search rossi_pipeline rossi_provider 41 12 ''officina'' = Inr [rossi_candidate]"
proof -
  have s: "py_strip ''p1'' = ''p1''" "py_strip ''Officina Rossi'' = ''Officina Rossi''" "py_strip ''officina'' \<noteq> ''''" by code_simp+
  have f: "fetch (pw_repr rossi_pipeline) 0 rossi_provider (rossi_client q) = (Inr [rossi_candidate], 1)" for q
    by (simp add: rossi_provider_def fetch_def post_step_of_def rossi_client_def raw_places_def candidate_of_raw_def
        method_get_def stripped_text_def s rossi_texts dict_get_def rossi_candidate_def numeral_3_eq_3)
  have u: "unique_candidates [rossi_candidate] = [rossi_candidate]" by (simp add: unique_candidates_def)
  have "length (generate_grid (pw_cos rossi_pipeline) rossi_provider 41 12) = 1"
    unfolding grid_length by (simp add: rossi_provider_def)
  then obtain pt where g: "generate_grid (pw_cos rossi_pipeline) rossi_provider 41 12 = [pt]"
    by (metis One_nat_def length_0_conv length_Suc_conv)
  have w: "pw_now rossi_pipeline = 0" "pw_client rossi_pipeline = rossi_client" by (simp_all add: rossi_pipeline_def)
  show ?thesis unfolding search_def scrape_entire_grid_def discover_def w
    by (simp add: make_discovery_query_def s coordinate_def g f u)
qed

lemma rossi_found: "gather True (search rossi_pipeline rossi_provider 41 12) [''officina''] ([], []) = Inr [(rossi_candidate, ''officina'')]"
  by (simp add: rossi_search has_website_def) (simp add: rossi_candidate_def)

lemma rossi_accepted:
  "\<exists>t. fst (accepted_tasks rossi_pipeline 3 0 (filter not_social [(rossi_candidate, ''officina'')]) (new_crawler default_url_policy)) = [t]
     \<and> vl_business_name (ta_lead t) = ''Officina Rossi'' \<and> vl_website (ta_lead t) = ''https://rossi.it/''
     \<and> length (vl_contacts (ta_lead t)) = 1"
proof -
  obtain r cs where c: "crawl rossi_world 3 ''https://rossi.it/'' (new_crawler default_url_policy) = (r, cs)" "is_auditable r"
    "map pe_final_url (valid_evidence r) = [''https://rossi.it/'']" "length (cw_contacts r) = 1"
    using rossi_crawl by (elim exE conjE) (rule that)
  have n: "not_social (rossi_candidate, ''officina'')" "\<not> filter_franchise ''Officina Rossi'' [] known_franchises"
    "py_strip ''Officina Rossi'' = ''Officina Rossi''" by code_simp+
  have name: "official_site_name (pw_parser rossi_pipeline) html url = Inr ''Officina Rossi''" for html url
    using n(3) by (simp add: official_site_name_def rossi_pipeline_def)
  obtain e where e: "valid_evidence r = [e]" "pe_final_url e = ''https://rossi.it/''" using c(3) by auto
  obtain l where l: "build_verified_lead (pw_parser rossi_pipeline) (pw_repr rossi_pipeline) 0 r ''officina'' None = Inr l"
    "vl_business_name l = ''Officina Rossi''" "vl_website l = ''https://rossi.it/''" "vl_contacts l = cw_contacts r"
    using c(2) e by (simp add: build_verified_lead_def Let_def name)
  have w: "pw_crawl rossi_pipeline = rossi_world" "website_of rossi_candidate = ''https://rossi.it/''" "pw_built_at rossi_pipeline i = 0" for i
    by (simp_all add: rossi_pipeline_def website_of_def rossi_candidate_def)
  have "filter_by_business_age (pw_whois rossi_pipeline) (pw_year rossi_pipeline) d h 0" for d h
    by (simp add: filter_by_business_age_def Let_def)
  then show ?thesis using n(1,2) c(1,2,4) l by (simp add: crawl_candidate_def w accept_crawl_def)
qed

lemma rossi_setup:
  "or_auditor rossi_orchestrator = Some rossi_auditor" "tt_destroyed_read (au_tools rossi_auditor) = None"
  "gather True (search rossi_pipeline (or_provider rossi_orchestrator) 41 12) [''officina''] ([], [])
    = Inr [(rossi_candidate, ''officina'')]"
  using rossi_found by (simp_all add: rossi_orchestrator_def rossi_auditor_def)

lemma rossi_fresh: "rossi_orchestrator\<lparr>or_all_leads := []\<rparr> = rossi_orchestrator"
  by (simp add: rossi_orchestrator_def)

text \<open>The search ends in one lead with one contact.\<close>

lemma rossi_run:
  "\<exists>l. fst (run_with_website rossi_pipeline rossi_options 41 12 [''officina''] rossi_orchestrator) = Inr [l]
     \<and> length (vl_contacts l) = 1"
proof -
  obtain t where t: "fst (accepted_tasks rossi_pipeline 3 0
       (filter not_social [(rossi_candidate, ''officina'')]) (new_crawler default_url_policy)) = [t]"
    "length (vl_contacts (ta_lead t)) = 1" using rossi_accepted by (elim exE conjE) (rule that)
  obtain leads where l: "fst (run_with_website rossi_pipeline rossi_options 41 12 [''officina''] rossi_orchestrator) = Inr leads"
    "list_all2 (\<lambda>l t. same_site l (ta_lead t)) leads [t]"
    using reference_complete [OF rossi_setup, of rossi_options] t(1) by (auto simp: run_is_reference rossi_options_def)
  then show ?thesis using t(2) by (auto simp: list_all2_Cons2 same_site_def)
qed

end
