(* ===== verification/Schema.thy ===== *)
theory Schema
  imports Models
begin

text \<open>
  Table declarations: what SQLAlchemy's metadata and the migrations declare of a table (columns
  with type, nullability, primary key, foreign key and server default; named checks; unique
  constraints), what such a declaration asks of rows, and the metadata of the persistence model
  (src/src/infrastructure/models.py). A check is the condition its SQL text spells. The defaults
  of the model's columns are given by the program and are part of the operations.
\<close>

section \<open>Declarations\<close>

datatype sql_type = T_uuid | T_string int | T_text | T_bool | T_int | T_datetime | T_json | T_numeric int int | T_float

datatype on_delete = CASCADE | RESTRICT | SET_NULL

record column_def =
  cl_name :: string
  cl_type :: sql_type
  cl_nullable :: bool
  cl_primary :: bool
  cl_refers :: "(string \<times> on_delete) option"
  cl_default :: "string option"

definition column_of :: "string \<Rightarrow> sql_type \<Rightarrow> column_def" where
  "column_of name t = \<lparr>cl_name = name, cl_type = t, cl_nullable = True, cl_primary = False, cl_refers = None, cl_default = None\<rparr>"

definition required :: "column_def \<Rightarrow> column_def" where
  "required c = c\<lparr>cl_nullable := False\<rparr>"

definition primary_key :: "column_def \<Rightarrow> column_def" where
  "primary_key c = c\<lparr>cl_nullable := False, cl_primary := True\<rparr>"

text \<open>Every foreign key refers to the \<open>id\<close> of its table.\<close>

definition references :: "string \<Rightarrow> on_delete \<Rightarrow> column_def \<Rightarrow> column_def" where
  "references t a c = c\<lparr>cl_refers := Some (t, a)\<rparr>"

definition defaulting :: "string \<Rightarrow> column_def \<Rightarrow> column_def" where
  "defaulting s c = c\<lparr>cl_default := Some s\<rparr>"

datatype comparison = Ge | Gt | Le | Lt

datatype condition =
    In_list string "string list"
  | Equals string string
  | Compare string comparison int
  | Both condition condition

record table_def =
  tb_name :: string
  tb_columns :: "column_def list"
  tb_checks :: "(string \<times> condition) list"
  tb_uniques :: "string list list"

definition column_names :: "table_def \<Rightarrow> string list" where
  "column_names t = map cl_name (tb_columns t)"

definition tables_referred :: "table_def \<Rightarrow> string list" where
  "tables_referred t = map fst (List.map_filter cl_refers (tb_columns t))"

definition well_formed_table :: "table_def \<Rightarrow> bool" where
  "well_formed_table t \<longleftrightarrow> distinct (column_names t) \<and> list_all (\<lambda>u. set u \<subseteq> set (column_names t)) (tb_uniques t)"

section \<open>What a declaration asks of rows\<close>

text \<open>\<open>V_decimal s q\<close> is the number of \<open>q\<close> units of \<open>10 ^ - s\<close>. A row gives values to the columns it models.\<close>

datatype sql_value =
    V_null
  | V_uuid uuid
  | V_text string
  | V_bool bool
  | V_int int
  | V_decimal int int
  | V_float rat
  | V_time int
  | V_json

type_synonym sql_row = "(string \<times> sql_value) list"
type_synonym content = "(string \<times> sql_row list) list"

fun value_fits :: "sql_type \<Rightarrow> sql_value \<Rightarrow> bool" where
  "value_fits T_uuid v = (case v of V_uuid u \<Rightarrow> True | _ \<Rightarrow> False)"
| "value_fits (T_string n) v = (case v of V_text s \<Rightarrow> int (length s) \<le> n | _ \<Rightarrow> False)"
| "value_fits T_text v = (case v of V_text s \<Rightarrow> True | _ \<Rightarrow> False)"
| "value_fits T_bool v = (case v of V_bool b \<Rightarrow> True | _ \<Rightarrow> False)"
| "value_fits T_int v = (case v of V_int i \<Rightarrow> True | _ \<Rightarrow> False)"
| "value_fits T_datetime v = (case v of V_time i \<Rightarrow> True | _ \<Rightarrow> False)"
| "value_fits T_json v = (v = V_json)"
| "value_fits (T_numeric p s) v = (case v of V_decimal s' q \<Rightarrow> s' = s \<and> \<bar>q\<bar> < 10 ^ nat p | _ \<Rightarrow> False)"
| "value_fits T_float v = (case v of V_float x \<Rightarrow> True | _ \<Rightarrow> False)"

fun compares :: "comparison \<Rightarrow> rat \<Rightarrow> rat \<Rightarrow> bool" where
  "compares Ge x y = (y \<le> x)"
| "compares Gt x y = (y < x)"
| "compares Le x y = (x \<le> y)"
| "compares Lt x y = (x < y)"

definition number_of :: "sql_value \<Rightarrow> rat option" where
  "number_of v =
    (case v of
       V_int i \<Rightarrow> Some (of_int i)
     | V_decimal s q \<Rightarrow> Some (of_int q / 10 ^ nat s)
     | V_float x \<Rightarrow> Some x
     | _ \<Rightarrow> None)"

text \<open>A check passes unless it is false; on a missing value it is unknown.\<close>

fun condition_passes :: "condition \<Rightarrow> sql_row \<Rightarrow> bool" where
  "condition_passes (In_list c vs) r = (case map_of r c of Some (V_text s) \<Rightarrow> s \<in> set vs | _ \<Rightarrow> True)"
| "condition_passes (Equals c v) r = (case map_of r c of Some (V_text s) \<Rightarrow> s = v | _ \<Rightarrow> True)"
| "condition_passes (Compare c op k) r =
    (case map_of r c of Some v \<Rightarrow> (case number_of v of Some x \<Rightarrow> compares op x (of_int k) | None \<Rightarrow> True) | None \<Rightarrow> True)"
| "condition_passes (Both a b) r = (condition_passes a r \<and> condition_passes b r)"

definition cell_ok :: "column_def \<Rightarrow> sql_row \<Rightarrow> bool" where
  "cell_ok c r =
    (case map_of r (cl_name c) of
       None \<Rightarrow> True
     | Some v \<Rightarrow> if v = V_null then cl_nullable c else value_fits (cl_type c) v)"

definition row_meets :: "table_def \<Rightarrow> sql_row \<Rightarrow> bool" where
  "row_meets t r \<longleftrightarrow> list_all (\<lambda>c. cell_ok c r) (tb_columns t) \<and> list_all (\<lambda>(n, p). condition_passes p r) (tb_checks t)"

definition key_meets :: "sql_row list \<Rightarrow> string list \<Rightarrow> bool" where
  "key_meets rows key \<longleftrightarrow>
     list_all (\<lambda>r. set key \<subseteq> fst ` set r) rows \<longrightarrow> distinct (map (\<lambda>r. map (map_of r) key) rows)"

definition primary_columns :: "table_def \<Rightarrow> string list" where
  "primary_columns t = map cl_name (filter cl_primary (tb_columns t))"

definition rows_of :: "content \<Rightarrow> string \<Rightarrow> sql_row list" where
  "rows_of d t = (case map_of d t of Some rows \<Rightarrow> rows | None \<Rightarrow> [])"

definition reference_meets :: "content \<Rightarrow> sql_row list \<Rightarrow> column_def \<Rightarrow> bool" where
  "reference_meets d rows c =
    (case cl_refers c of
       None \<Rightarrow> True
     | Some (t, a) \<Rightarrow> list_all (\<lambda>r. case map_of r (cl_name c) of
           None \<Rightarrow> True
         | Some v \<Rightarrow> v = V_null \<or> v \<in> set (List.map_filter (\<lambda>x. map_of x ''id'') (rows_of d t))) rows)"

definition table_meets :: "content \<Rightarrow> table_def \<Rightarrow> bool" where
  "table_meets d t \<longleftrightarrow>
     (let rows = rows_of d (tb_name t) in
      list_all (row_meets t) rows
      \<and> list_all (key_meets rows) (primary_columns t # tb_uniques t)
      \<and> list_all (reference_meets d rows) (tb_columns t))"

section \<open>The metadata of the model\<close>

definition timestamp_mixin :: "column_def list" where
  "timestamp_mixin = [required (column_of ''created_at'' T_datetime), required (column_of ''updated_at'' T_datetime)]"

definition UserModel :: table_def where
  "UserModel = \<lparr>tb_name = ''users'',
    tb_columns = [primary_key (column_of ''id'' T_uuid),
      required (column_of ''email'' (T_string 320)),
      required (column_of ''password_hash'' T_text),
      required (column_of ''display_name'' (T_string 200)),
      required (column_of ''is_active'' T_bool),
      required (column_of ''is_platform_admin'' T_bool),
      required (column_of ''session_version'' T_int)] @ timestamp_mixin,
    tb_checks = [],
    tb_uniques = [[''email'']]\<rparr>"

definition SessionModel :: table_def where
  "SessionModel = \<lparr>tb_name = ''sessions'',
    tb_columns = [primary_key (column_of ''id'' T_uuid),
      required (references ''users'' CASCADE (column_of ''user_id'' T_uuid)),
      required (column_of ''refresh_token_hash'' (T_string 64)),
      required (column_of ''csrf_token_hash'' (T_string 64)),
      required (column_of ''mfa_verified'' T_bool),
      required (column_of ''created_at'' T_datetime),
      required (column_of ''last_seen_at'' T_datetime),
      required (column_of ''expires_at'' T_datetime),
      column_of ''revoked_at'' T_datetime],
    tb_checks = [],
    tb_uniques = []\<rparr>"

definition MfaCredentialModel :: table_def where
  "MfaCredentialModel = \<lparr>tb_name = ''mfa_credentials'',
    tb_columns = [primary_key (references ''users'' CASCADE (column_of ''user_id'' T_uuid)),
      required (column_of ''secret_ciphertext'' T_text),
      required (column_of ''recovery_code_hashes'' T_json),
      column_of ''confirmed_at'' T_datetime] @ timestamp_mixin,
    tb_checks = [],
    tb_uniques = []\<rparr>"

definition OidcIdentityModel :: table_def where
  "OidcIdentityModel = \<lparr>tb_name = ''oidc_identities'',
    tb_columns = [primary_key (column_of ''id'' T_uuid),
      required (references ''users'' CASCADE (column_of ''user_id'' T_uuid)),
      required (column_of ''provider'' (T_string 80)),
      required (column_of ''subject'' (T_string 255))] @ timestamp_mixin,
    tb_checks = [],
    tb_uniques = [[''provider'', ''subject'']]\<rparr>"

definition WorkspaceModel :: table_def where
  "WorkspaceModel = \<lparr>tb_name = ''workspaces'',
    tb_columns = [primary_key (column_of ''id'' T_uuid),
      required (column_of ''slug'' (T_string 80)),
      required (column_of ''name'' (T_string 200)),
      required (column_of ''is_active'' T_bool)] @ timestamp_mixin,
    tb_checks = [],
    tb_uniques = [[''slug'']]\<rparr>"

definition WorkspaceMembershipModel :: table_def where
  "WorkspaceMembershipModel = \<lparr>tb_name = ''workspace_memberships'',
    tb_columns = [primary_key (column_of ''id'' T_uuid),
      required (references ''workspaces'' CASCADE (column_of ''workspace_id'' T_uuid)),
      required (references ''users'' CASCADE (column_of ''user_id'' T_uuid)),
      required (column_of ''role'' (T_string 20))] @ timestamp_mixin,
    tb_checks = [(''ck_membership_role'', In_list ''role'' [''admin'', ''operator'', ''viewer''])],
    tb_uniques = [[''workspace_id'', ''user_id'']]\<rparr>"

definition ProviderCredentialModel :: table_def where
  "ProviderCredentialModel = \<lparr>tb_name = ''provider_credentials'',
    tb_columns = [primary_key (column_of ''id'' T_uuid),
      required (references ''workspaces'' CASCADE (column_of ''workspace_id'' T_uuid)),
      required (column_of ''provider'' (T_string 80)),
      required (column_of ''ciphertext'' T_text),
      required (column_of ''key_version'' T_int),
      required (column_of ''fingerprint'' (T_string 32))] @ timestamp_mixin,
    tb_checks = [],
    tb_uniques = [[''workspace_id'', ''provider'']]\<rparr>"

definition JobModel :: table_def where
  "JobModel = \<lparr>tb_name = ''jobs'',
    tb_columns = [primary_key (column_of ''id'' T_uuid),
      required (references ''workspaces'' CASCADE (column_of ''workspace_id'' T_uuid)),
      required (references ''users'' RESTRICT (column_of ''created_by'' T_uuid)),
      required (column_of ''kind'' (T_string 80)),
      required (column_of ''state'' (T_string 20)),
      required (column_of ''idempotency_key'' (T_string 128)),
      required (column_of ''parameters'' T_json),
      required (column_of ''estimated_cost'' (T_numeric 18 6)),
      column_of ''result_ref'' (T_string 500),
      column_of ''error_code'' (T_string 100),
      column_of ''started_at'' T_datetime,
      column_of ''finished_at'' T_datetime] @ timestamp_mixin,
    tb_checks = [(''ck_job_state'', In_list ''state'' [''queued'', ''validating'', ''running'', ''completed'', ''partial'', ''cancelled'', ''failed'']),
      (''ck_job_cost_nonnegative'', Compare ''estimated_cost'' Ge 0)],
    tb_uniques = [[''workspace_id'', ''idempotency_key'']]\<rparr>"

definition JobAttemptModel :: table_def where
  "JobAttemptModel = \<lparr>tb_name = ''job_attempts'',
    tb_columns = [primary_key (column_of ''id'' T_uuid),
      required (references ''jobs'' CASCADE (column_of ''job_id'' T_uuid)),
      required (column_of ''attempt_number'' T_int),
      column_of ''worker_id'' (T_string 200),
      required (column_of ''started_at'' T_datetime),
      required (column_of ''heartbeat_at'' T_datetime),
      column_of ''finished_at'' T_datetime,
      column_of ''error_code'' (T_string 100)],
    tb_checks = [],
    tb_uniques = [[''job_id'', ''attempt_number'']]\<rparr>"

definition UsageBudgetModel :: table_def where
  "UsageBudgetModel = \<lparr>tb_name = ''usage_budgets'',
    tb_columns = [primary_key (column_of ''id'' T_uuid),
      required (references ''workspaces'' CASCADE (column_of ''workspace_id'' T_uuid)),
      required (column_of ''currency'' (T_string 3)),
      required (column_of ''hard_limit'' (T_numeric 18 6)),
      required (column_of ''spent'' (T_numeric 18 6)),
      required (column_of ''reserved'' (T_numeric 18 6)),
      required (column_of ''warning_threshold'' (T_numeric 5 4))] @ timestamp_mixin,
    tb_checks = [(''ck_budget_limit_nonnegative'', Compare ''hard_limit'' Ge 0),
      (''ck_budget_spent_nonnegative'', Compare ''spent'' Ge 0),
      (''ck_budget_reserved_nonnegative'', Compare ''reserved'' Ge 0),
      (''ck_budget_warning_threshold'', Both (Compare ''warning_threshold'' Gt 0) (Compare ''warning_threshold'' Lt 1))],
    tb_uniques = [[''workspace_id'']]\<rparr>"

definition UsageReservationModel :: table_def where
  "UsageReservationModel = \<lparr>tb_name = ''usage_reservations'',
    tb_columns = [primary_key (column_of ''id'' T_uuid),
      required (references ''workspaces'' CASCADE (column_of ''workspace_id'' T_uuid)),
      required (references ''usage_budgets'' CASCADE (column_of ''budget_id'' T_uuid)),
      required (references ''jobs'' CASCADE (column_of ''job_id'' T_uuid)),
      required (column_of ''amount'' (T_numeric 18 6)),
      required (column_of ''settled_amount'' (T_numeric 18 6)),
      required (column_of ''state'' (T_string 20)),
      required (column_of ''created_at'' T_datetime),
      column_of ''settled_at'' T_datetime],
    tb_checks = [(''ck_reservation_amount_nonnegative'', Compare ''amount'' Ge 0),
      (''ck_reservation_settled_nonnegative'', Compare ''settled_amount'' Ge 0),
      (''ck_reservation_state'', In_list ''state'' [''active'', ''settled'', ''released''])],
    tb_uniques = [[''job_id'']]\<rparr>"

definition UsageLedgerModel :: table_def where
  "UsageLedgerModel = \<lparr>tb_name = ''usage_ledger'',
    tb_columns = [primary_key (column_of ''id'' T_uuid),
      required (references ''workspaces'' CASCADE (column_of ''workspace_id'' T_uuid)),
      references ''jobs'' SET_NULL (column_of ''job_id'' T_uuid),
      required (column_of ''entry_type'' (T_string 20)),
      required (column_of ''amount'' (T_numeric 18 6)),
      column_of ''provider'' (T_string 80),
      column_of ''units'' (T_numeric 18 6),
      column_of ''reason'' (T_string 500),
      required (column_of ''created_at'' T_datetime)],
    tb_checks = [(''ck_ledger_entry_type'', In_list ''entry_type'' [''reservation'', ''charge'', ''release'', ''override''])],
    tb_uniques = []\<rparr>"

definition AuditEventModel :: table_def where
  "AuditEventModel = \<lparr>tb_name = ''audit_events'',
    tb_columns = [primary_key (column_of ''id'' T_uuid),
      references ''workspaces'' SET_NULL (column_of ''workspace_id'' T_uuid),
      references ''users'' SET_NULL (column_of ''actor_user_id'' T_uuid),
      required (column_of ''action'' (T_string 120)),
      column_of ''target_type'' (T_string 80),
      column_of ''target_id'' (T_string 100),
      required (column_of ''details'' T_json),
      column_of ''correlation_id'' (T_string 100),
      required (column_of ''created_at'' T_datetime)],
    tb_checks = [],
    tb_uniques = []\<rparr>"

definition LeadModel :: table_def where
  "LeadModel = \<lparr>tb_name = ''leads'',
    tb_columns = [primary_key (column_of ''id'' T_uuid),
      required (references ''workspaces'' CASCADE (column_of ''workspace_id'' T_uuid)),
      required (references ''jobs'' CASCADE (column_of ''job_id'' T_uuid)),
      required (column_of ''status'' (T_string 30))] @ timestamp_mixin,
    tb_checks = [],
    tb_uniques = []\<rparr>"

definition EvidenceModel :: table_def where
  "EvidenceModel = \<lparr>tb_name = ''lead_evidence'',
    tb_columns = [primary_key (column_of ''id'' T_uuid),
      required (references ''workspaces'' CASCADE (column_of ''workspace_id'' T_uuid)),
      required (references ''leads'' CASCADE (column_of ''lead_id'' T_uuid)),
      required (column_of ''source_url'' (T_string 2048)),
      required (column_of ''content_sha256'' (T_string 64)),
      required (column_of ''collected_at'' T_datetime)],
    tb_checks = [],
    tb_uniques = []\<rparr>"

definition LeadAttributeModel :: table_def where
  "LeadAttributeModel = \<lparr>tb_name = ''lead_attributes'',
    tb_columns = [primary_key (column_of ''id'' T_uuid),
      required (references ''workspaces'' CASCADE (column_of ''workspace_id'' T_uuid)),
      required (references ''leads'' CASCADE (column_of ''lead_id'' T_uuid)),
      references ''lead_evidence'' SET_NULL (column_of ''evidence_id'' T_uuid),
      required (column_of ''field_name'' (T_string 100)),
      required (column_of ''value_text'' T_text),
      required (column_of ''source'' (T_string 30)),
      column_of ''source_url'' (T_string 2048),
      required (column_of ''collected_at'' T_datetime),
      column_of ''expires_at'' T_datetime,
      required (column_of ''confidence'' T_float),
      required (column_of ''data_classification'' (T_string 80))],
    tb_checks = [(''ck_lead_attribute_source'', In_list ''source'' [''official_website'', ''user_input''])],
    tb_uniques = [[''lead_id'', ''field_name'']]\<rparr>"

definition ProviderReferenceModel :: table_def where
  "ProviderReferenceModel = \<lparr>tb_name = ''provider_references'',
    tb_columns = [primary_key (column_of ''id'' T_uuid),
      required (references ''workspaces'' CASCADE (column_of ''workspace_id'' T_uuid)),
      required (references ''jobs'' CASCADE (column_of ''job_id'' T_uuid)),
      references ''leads'' CASCADE (column_of ''lead_id'' T_uuid),
      required (column_of ''provider'' (T_string 80)),
      required (column_of ''external_id'' (T_string 500)),
      required (column_of ''last_verified_at'' T_datetime),
      required (column_of ''refresh_after'' T_datetime)],
    tb_checks = [],
    tb_uniques = [[''workspace_id'', ''provider'', ''external_id'']]\<rparr>"

definition RetentionEventModel :: table_def where
  "RetentionEventModel = \<lparr>tb_name = ''retention_events'',
    tb_columns = [primary_key (column_of ''id'' T_uuid),
      required (references ''workspaces'' CASCADE (column_of ''workspace_id'' T_uuid)),
      required (column_of ''entity_type'' (T_string 80)),
      required (column_of ''deleted_count'' T_int),
      required (column_of ''ran_at'' T_datetime)],
    tb_checks = [],
    tb_uniques = []\<rparr>"

definition WorkspacePrivacyPolicyModel :: table_def where
  "WorkspacePrivacyPolicyModel = \<lparr>tb_name = ''workspace_privacy_policies'',
    tb_columns = [primary_key (references ''workspaces'' CASCADE (column_of ''workspace_id'' T_uuid)),
      required (column_of ''purpose'' (T_string 500)),
      required (column_of ''legal_basis'' (T_string 500)),
      required (column_of ''privacy_contact'' (T_string 320)),
      required (column_of ''market'' (T_string 20)),
      required (column_of ''named_contact_retention_days'' T_int),
      required (column_of ''policy_version'' (T_string 80)),
      required (column_of ''enabled'' T_bool),
      references ''users'' SET_NULL (column_of ''updated_by'' T_uuid)] @ timestamp_mixin,
    tb_checks = [(''ck_privacy_policy_market'', Equals ''market'' ''IT_EU''),
      (''ck_privacy_policy_named_retention'', Both (Compare ''named_contact_retention_days'' Ge 1) (Compare ''named_contact_retention_days'' Le 90))],
    tb_uniques = []\<rparr>"

definition ContactModel :: table_def where
  "ContactModel = \<lparr>tb_name = ''contacts'',
    tb_columns = [primary_key (column_of ''id'' T_uuid),
      required (references ''workspaces'' CASCADE (column_of ''workspace_id'' T_uuid)),
      references ''leads'' CASCADE (column_of ''lead_id'' T_uuid),
      required (column_of ''kind'' (T_string 20)),
      required (column_of ''normalized_value'' (T_string 500)),
      required (column_of ''display_value'' (T_string 500)),
      required (column_of ''fingerprint'' (T_string 64)),
      required (column_of ''source_type'' (T_string 30)),
      column_of ''source_url'' (T_string 2048),
      references ''data_subject_requests'' SET_NULL (column_of ''source_request_id'' T_uuid),
      required (column_of ''collected_at'' T_datetime),
      required (column_of ''extraction_method'' (T_string 30)),
      required (column_of ''confidence'' T_float),
      required (column_of ''classification'' (T_string 40)),
      required (column_of ''expires_at'' T_datetime),
      required (column_of ''evidence_sha256'' (T_string 64)),
      required (column_of ''rules_version'' (T_string 80))],
    tb_checks = [(''ck_contact_kind'', In_list ''kind'' [''email'', ''phone'']),
      (''ck_contact_source_type'', In_list ''source_type'' [''official_website'', ''data_subject_request'']),
      (''ck_contact_classification'', In_list ''classification'' [''generic_business'', ''named_professional'']),
      (''ck_contact_extraction_method'', In_list ''extraction_method'' [''regex'', ''mailto'', ''structured_data'']),
      (''ck_contact_confidence'', Both (Compare ''confidence'' Ge 0) (Compare ''confidence'' Le 1))],
    tb_uniques = []\<rparr>"

definition SuppressionEntryModel :: table_def where
  "SuppressionEntryModel = \<lparr>tb_name = ''suppression_entries'',
    tb_columns = [primary_key (column_of ''id'' T_uuid),
      references ''workspaces'' CASCADE (column_of ''workspace_id'' T_uuid),
      required (column_of ''scope'' (T_string 20)),
      required (column_of ''scope_key'' (T_string 36)),
      required (column_of ''kind'' (T_string 20)),
      required (column_of ''fingerprint'' (T_string 64)),
      required (column_of ''reason'' (T_string 80)),
      references ''users'' SET_NULL (column_of ''created_by'' T_uuid),
      required (column_of ''created_at'' T_datetime)],
    tb_checks = [(''ck_suppression_kind'', In_list ''kind'' [''email'', ''phone'']),
      (''ck_suppression_scope'', In_list ''scope'' [''workspace'', ''global''])],
    tb_uniques = [[''scope_key'', ''kind'', ''fingerprint'']]\<rparr>"

definition DataSubjectRequestModel :: table_def where
  "DataSubjectRequestModel = \<lparr>tb_name = ''data_subject_requests'',
    tb_columns = [primary_key (column_of ''id'' T_uuid),
      required (references ''workspaces'' CASCADE (column_of ''workspace_id'' T_uuid)),
      references ''users'' SET_NULL (column_of ''actor_user_id'' T_uuid),
      required (column_of ''request_kind'' (T_string 30)),
      required (column_of ''identifier_kind'' (T_string 20)),
      required (column_of ''subject_fingerprint'' (T_string 64)),
      required (column_of ''status'' (T_string 20)),
      required (column_of ''deleted_count'' T_int),
      required (column_of ''requested_at'' T_datetime),
      column_of ''completed_at'' T_datetime],
    tb_checks = [(''ck_data_subject_request_kind'', In_list ''request_kind'' [''access'', ''rectification'', ''erasure'', ''opposition'']),
      (''ck_data_subject_request_status'', In_list ''status'' [''received'', ''completed'', ''rejected''])],
    tb_uniques = []\<rparr>"

definition model_tables :: "table_def list" where
  "model_tables =
    [UserModel, SessionModel, MfaCredentialModel, OidcIdentityModel, WorkspaceModel, WorkspaceMembershipModel,
     ProviderCredentialModel, JobModel, JobAttemptModel, UsageBudgetModel, UsageReservationModel, UsageLedgerModel,
     AuditEventModel, LeadModel, EvidenceModel, LeadAttributeModel, ProviderReferenceModel, RetentionEventModel,
     WorkspacePrivacyPolicyModel, ContactModel, SuppressionEntryModel, DataSubjectRequestModel]"

definition model_indexes :: "(string \<times> string \<times> string list) list" where
  "model_indexes =
    [(''ix_sessions_user_active'', ''sessions'', [''user_id'', ''revoked_at'']),
     (''ix_jobs_workspace_state'', ''jobs'', [''workspace_id'', ''state'']),
     (''ix_usage_ledger_workspace_created'', ''usage_ledger'', [''workspace_id'', ''created_at'']),
     (''ix_audit_workspace_created'', ''audit_events'', [''workspace_id'', ''created_at'']),
     (''ix_leads_workspace_job'', ''leads'', [''workspace_id'', ''job_id'']),
     (''ix_lead_evidence_workspace_lead'', ''lead_evidence'', [''workspace_id'', ''lead_id'']),
     (''ix_lead_attributes_workspace_expiry'', ''lead_attributes'', [''workspace_id'', ''expires_at'']),
     (''ix_provider_references_refresh'', ''provider_references'', [''workspace_id'', ''refresh_after'']),
     (''ix_retention_events_workspace_run'', ''retention_events'', [''workspace_id'', ''ran_at'']),
     (''ix_contacts_workspace_expiry'', ''contacts'', [''workspace_id'', ''expires_at'']),
     (''ix_contacts_workspace_fingerprint'', ''contacts'', [''workspace_id'', ''kind'', ''fingerprint'']),
     (''ix_suppression_lookup'', ''suppression_entries'', [''kind'', ''fingerprint'', ''scope_key'']),
     (''ix_dsr_workspace_requested'', ''data_subject_requests'', [''workspace_id'', ''requested_at''])]"

end
