(* ===== verification/Migrations.thy ===== *)
theory Migrations
  imports Schema
begin

text \<open>
  The migrations (src/migrations/versions): what each revision does to the catalogue of the
  database, on PostgreSQL with its row security, grants and functions and on any other dialect
  without them. A statement is refused (\<open>None\<close>) where the database refuses it: a name that exists
  or does not, a column that is missing, a table others refer to. The roles of the server are a
  parameter, as the migrations ask for them. The table Alembic keeps for itself is left out, the
  bodies of the two functions too.
\<close>

section \<open>The catalogue\<close>

datatype policy_command = For_all | For_select | For_insert | For_update | For_delete

text \<open>
  \<open>workspace_id = NULLIF(current_setting('app.workspace_id', true), '')::uuid\<close>, the same or a missing
  workspace, and a visible job.
\<close>

datatype row_predicate = Own_workspace | Null_or_own_workspace | Job_exists

record row_policy =
  po_name :: string
  po_table :: string
  po_command :: policy_command
  po_using :: "row_predicate option"
  po_check :: "row_predicate option"

datatype privilege = P_select | P_insert | P_update | P_delete | P_usage | P_execute

datatype grant_object = On_schema | On_table string | On_function string

record catalogue =
  ct_tables :: "table_def list"
  ct_indexes :: "(string \<times> string \<times> string list) list"
  ct_enabled :: "string list"
  ct_forced :: "string list"
  ct_policies :: "row_policy list"
  ct_functions :: "string list"
  ct_grants :: "(string \<times> privilege \<times> grant_object) list"

definition empty_catalogue :: catalogue where
  "empty_catalogue = \<lparr>ct_tables = [], ct_indexes = [], ct_enabled = [], ct_forced = [], ct_policies = [],
     ct_functions = [], ct_grants = []\<rparr>"

datatype ddl =
    Create_table table_def
  | Drop_table string
  | Create_index string string "string list"
  | Drop_index string
  | Enable_rls string
  | Force_rls string
  | Create_policy row_policy
  | Create_function string
  | Drop_function string
  | Grant string "privilege list" "grant_object list"
  | Grant_tables string "privilege list"
  | Revoke string "privilege list" grant_object

definition table_names :: "catalogue \<Rightarrow> string list" where
  "table_names c = map tb_name (ct_tables c)"

definition columns_in :: "catalogue \<Rightarrow> string \<Rightarrow> string list" where
  "columns_in c t = concat (map column_names (filter (\<lambda>d. tb_name d = t) (ct_tables c)))"

definition table_accepted :: "catalogue \<Rightarrow> table_def \<Rightarrow> bool" where
  "table_accepted c t \<longleftrightarrow>
     tb_name t \<notin> set (table_names c) \<and> well_formed_table t
     \<and> list_all (\<lambda>u. ''id'' \<in> set (columns_in c u)) (tables_referred t)"

definition referred :: "catalogue \<Rightarrow> string \<Rightarrow> bool" where
  "referred c t \<longleftrightarrow>
     list_ex (\<lambda>d. tb_name d \<noteq> t \<and> t \<in> set (tables_referred d)) (ct_tables c)"

text \<open>A table takes what hangs on it along when it is dropped.\<close>

definition without_table :: "string \<Rightarrow> catalogue \<Rightarrow> catalogue" where
  "without_table t c = c\<lparr>
     ct_tables := filter (\<lambda>d. tb_name d \<noteq> t) (ct_tables c), ct_indexes := filter (\<lambda>(n, u, ks). u \<noteq> t) (ct_indexes c),
     ct_enabled := filter (\<lambda>u. u \<noteq> t) (ct_enabled c), ct_forced := filter (\<lambda>u. u \<noteq> t) (ct_forced c),
     ct_policies := filter (\<lambda>p. po_table p \<noteq> t) (ct_policies c),
     ct_grants := filter (\<lambda>(r, p, ob). ob \<noteq> On_table t) (ct_grants c)\<rparr>"

definition add_grants :: "string \<Rightarrow> privilege list \<Rightarrow> grant_object list \<Rightarrow> catalogue \<Rightarrow> catalogue" where
  "add_grants role privs obs c = c\<lparr>ct_grants := ct_grants c
     @ filter (\<lambda>g. g \<notin> set (ct_grants c)) (concat (map (\<lambda>ob. map (\<lambda>p. (role, p, ob)) privs) obs))\<rparr>"

definition everyone :: string where
  "everyone = ''PUBLIC''"

text \<open>
  A new function may be executed by everyone. The grants of the migrations ask for the role
  first (\<open>IF EXISTS (SELECT 1 FROM pg_roles ...)\<close>).
\<close>

fun run_ddl :: "string list \<Rightarrow> ddl \<Rightarrow> catalogue \<Rightarrow> catalogue option" where
  "run_ddl roles (Create_table t) c = (if table_accepted c t then Some (c\<lparr>ct_tables := ct_tables c @ [t]\<rparr>) else None)"
| "run_ddl roles (Drop_table t) c =
    (if t \<in> set (table_names c) \<and> \<not> referred c t then Some (without_table t c) else None)"
| "run_ddl roles (Create_index n t ks) c =
    (if list_all (\<lambda>k. k \<in> set (columns_in c t)) ks \<and> n \<notin> fst ` set (ct_indexes c)
     then Some (c\<lparr>ct_indexes := ct_indexes c @ [(n, t, ks)]\<rparr>) else None)"
| "run_ddl roles (Drop_index n) c =
    (if n \<in> fst ` set (ct_indexes c) then Some (c\<lparr>ct_indexes := filter (\<lambda>i. fst i \<noteq> n) (ct_indexes c)\<rparr>) else None)"
| "run_ddl roles (Enable_rls t) c =
    (if t \<in> set (table_names c) then Some (c\<lparr>ct_enabled := ct_enabled c @ [t]\<rparr>) else None)"
| "run_ddl roles (Force_rls t) c =
    (if t \<in> set (table_names c) then Some (c\<lparr>ct_forced := ct_forced c @ [t]\<rparr>) else None)"
| "run_ddl roles (Create_policy p) c =
    (if po_table p \<in> set (table_names c) \<and> \<not> list_ex (\<lambda>q. po_table q = po_table p \<and> po_name q = po_name p) (ct_policies c)
     then Some (c\<lparr>ct_policies := ct_policies c @ [p]\<rparr>) else None)"
| "run_ddl roles (Create_function f) c =
    Some (if f \<in> set (ct_functions c) then c
          else add_grants everyone [P_execute] [On_function f] (c\<lparr>ct_functions := ct_functions c @ [f]\<rparr>))"
| "run_ddl roles (Drop_function f) c =
    Some (c\<lparr>ct_functions := filter (\<lambda>g. g \<noteq> f) (ct_functions c),
            ct_grants := filter (\<lambda>(r, p, ob). ob \<noteq> On_function f) (ct_grants c)\<rparr>)"
| "run_ddl roles (Grant role privs obs) c = Some (if role \<in> set roles then add_grants role privs obs c else c)"
| "run_ddl roles (Grant_tables role privs) c =
    Some (if role \<in> set roles then add_grants role privs (map On_table (table_names c)) c else c)"
| "run_ddl roles (Revoke role privs ob) c =
    Some (if role = everyone \<or> role \<in> set roles
          then c\<lparr>ct_grants := filter (\<lambda>(r, p, o'). \<not> (r = role \<and> p \<in> set privs \<and> o' = ob)) (ct_grants c)\<rparr> else c)"

fun run_ddls :: "string list \<Rightarrow> ddl list \<Rightarrow> catalogue \<Rightarrow> catalogue option" where
  "run_ddls roles [] c = Some c"
| "run_ddls roles (s # ss) c = (case run_ddl roles s c of None \<Rightarrow> None | Some c' \<Rightarrow> run_ddls roles ss c')"

section \<open>Statements the revisions share\<close>

definition id_column :: column_def where
  "id_column = primary_key (column_of ''id'' T_uuid)"

definition timestamps :: "column_def list" where
  "timestamps = [required (defaulting ''CURRENT_TIMESTAMP'' (column_of ''created_at'' T_datetime)),
     required (defaulting ''CURRENT_TIMESTAMP'' (column_of ''updated_at'' T_datetime))]"

definition secured :: "string \<Rightarrow> ddl list" where
  "secured t = [Enable_rls t, Force_rls t]"

definition policy_for :: "string \<Rightarrow> string \<Rightarrow> policy_command \<Rightarrow> row_predicate option \<Rightarrow> row_predicate option \<Rightarrow> ddl" where
  "policy_for name t cmd using_pred check_pred =
    Create_policy \<lparr>po_name = name, po_table = t, po_command = cmd, po_using = using_pred, po_check = check_pred\<rparr>"

definition workspace_isolation :: "string \<Rightarrow> ddl list" where
  "workspace_isolation t = secured t @
     [policy_for (t @ ''_workspace_isolation'') t For_all (Some Own_workspace) (Some Own_workspace)]"

definition row_privileges :: "privilege list" where
  "row_privileges = [P_select, P_insert, P_update, P_delete]"

section \<open>0001: identity, workspaces, jobs, usage, audit\<close>

definition create_users :: table_def where
  "create_users = \<lparr>tb_name = ''users'',
    tb_columns = [id_column,
      required (column_of ''email'' (T_string 320)),
      required (column_of ''password_hash'' T_text),
      required (column_of ''display_name'' (T_string 200)),
      required (defaulting ''true'' (column_of ''is_active'' T_bool)),
      required (defaulting ''false'' (column_of ''is_platform_admin'' T_bool)),
      required (defaulting ''1'' (column_of ''session_version'' T_int))] @ timestamps,
    tb_checks = [],
    tb_uniques = [[''email'']]\<rparr>"

definition create_workspaces :: table_def where
  "create_workspaces = \<lparr>tb_name = ''workspaces'',
    tb_columns = [id_column,
      required (column_of ''slug'' (T_string 80)),
      required (column_of ''name'' (T_string 200)),
      required (defaulting ''true'' (column_of ''is_active'' T_bool))] @ timestamps,
    tb_checks = [],
    tb_uniques = [[''slug'']]\<rparr>"

definition create_sessions :: table_def where
  "create_sessions = \<lparr>tb_name = ''sessions'',
    tb_columns = [id_column,
      required (references ''users'' CASCADE (column_of ''user_id'' T_uuid)),
      required (column_of ''refresh_token_hash'' (T_string 64)),
      required (column_of ''csrf_token_hash'' (T_string 64)),
      required (defaulting ''false'' (column_of ''mfa_verified'' T_bool)),
      required (defaulting ''CURRENT_TIMESTAMP'' (column_of ''created_at'' T_datetime)),
      required (defaulting ''CURRENT_TIMESTAMP'' (column_of ''last_seen_at'' T_datetime)),
      required (column_of ''expires_at'' T_datetime),
      column_of ''revoked_at'' T_datetime],
    tb_checks = [],
    tb_uniques = []\<rparr>"

definition create_mfa_credentials :: table_def where
  "create_mfa_credentials = \<lparr>tb_name = ''mfa_credentials'',
    tb_columns = [primary_key (references ''users'' CASCADE (column_of ''user_id'' T_uuid)),
      required (column_of ''secret_ciphertext'' T_text),
      required (column_of ''recovery_code_hashes'' T_json),
      column_of ''confirmed_at'' T_datetime] @ timestamps,
    tb_checks = [],
    tb_uniques = []\<rparr>"

definition create_oidc_identities :: table_def where
  "create_oidc_identities = \<lparr>tb_name = ''oidc_identities'',
    tb_columns = [id_column,
      required (references ''users'' CASCADE (column_of ''user_id'' T_uuid)),
      required (column_of ''provider'' (T_string 80)),
      required (column_of ''subject'' (T_string 255))] @ timestamps,
    tb_checks = [],
    tb_uniques = [[''provider'', ''subject'']]\<rparr>"

definition create_workspace_memberships :: table_def where
  "create_workspace_memberships = \<lparr>tb_name = ''workspace_memberships'',
    tb_columns = [id_column,
      required (references ''workspaces'' CASCADE (column_of ''workspace_id'' T_uuid)),
      required (references ''users'' CASCADE (column_of ''user_id'' T_uuid)),
      required (column_of ''role'' (T_string 20))] @ timestamps,
    tb_checks = [(''ck_membership_role'', In_list ''role'' [''admin'', ''operator'', ''viewer''])],
    tb_uniques = [[''workspace_id'', ''user_id'']]\<rparr>"

definition create_provider_credentials :: table_def where
  "create_provider_credentials = \<lparr>tb_name = ''provider_credentials'',
    tb_columns = [id_column,
      required (references ''workspaces'' CASCADE (column_of ''workspace_id'' T_uuid)),
      required (column_of ''provider'' (T_string 80)),
      required (column_of ''ciphertext'' T_text),
      required (defaulting ''1'' (column_of ''key_version'' T_int)),
      required (column_of ''fingerprint'' (T_string 32))] @ timestamps,
    tb_checks = [],
    tb_uniques = [[''workspace_id'', ''provider'']]\<rparr>"

definition create_jobs :: table_def where
  "create_jobs = \<lparr>tb_name = ''jobs'',
    tb_columns = [id_column,
      required (references ''workspaces'' CASCADE (column_of ''workspace_id'' T_uuid)),
      required (references ''users'' RESTRICT (column_of ''created_by'' T_uuid)),
      required (column_of ''kind'' (T_string 80)),
      required (defaulting ''queued'' (column_of ''state'' (T_string 20))),
      required (column_of ''idempotency_key'' (T_string 128)),
      required (column_of ''parameters'' T_json),
      required (defaulting ''0'' (column_of ''estimated_cost'' (T_numeric 18 6))),
      column_of ''result_ref'' (T_string 500),
      column_of ''error_code'' (T_string 100),
      column_of ''started_at'' T_datetime,
      column_of ''finished_at'' T_datetime] @ timestamps,
    tb_checks = [(''ck_job_state'', In_list ''state'' [''queued'', ''validating'', ''running'', ''completed'', ''partial'', ''cancelled'', ''failed'']),
      (''ck_job_cost_nonnegative'', Compare ''estimated_cost'' Ge 0)],
    tb_uniques = [[''workspace_id'', ''idempotency_key'']]\<rparr>"

definition create_job_attempts :: table_def where
  "create_job_attempts = \<lparr>tb_name = ''job_attempts'',
    tb_columns = [id_column,
      required (references ''jobs'' CASCADE (column_of ''job_id'' T_uuid)),
      required (column_of ''attempt_number'' T_int),
      column_of ''worker_id'' (T_string 200),
      required (defaulting ''CURRENT_TIMESTAMP'' (column_of ''started_at'' T_datetime)),
      required (defaulting ''CURRENT_TIMESTAMP'' (column_of ''heartbeat_at'' T_datetime)),
      column_of ''finished_at'' T_datetime,
      column_of ''error_code'' (T_string 100)],
    tb_checks = [],
    tb_uniques = [[''job_id'', ''attempt_number'']]\<rparr>"

definition create_usage_budgets :: table_def where
  "create_usage_budgets = \<lparr>tb_name = ''usage_budgets'',
    tb_columns = [id_column,
      required (references ''workspaces'' CASCADE (column_of ''workspace_id'' T_uuid)),
      required (defaulting ''EUR'' (column_of ''currency'' (T_string 3))),
      required (column_of ''hard_limit'' (T_numeric 18 6)),
      required (defaulting ''0'' (column_of ''spent'' (T_numeric 18 6))),
      required (defaulting ''0'' (column_of ''reserved'' (T_numeric 18 6))),
      required (defaulting ''0.8'' (column_of ''warning_threshold'' (T_numeric 5 4)))] @ timestamps,
    tb_checks = [(''ck_budget_limit_nonnegative'', Compare ''hard_limit'' Ge 0),
      (''ck_budget_spent_nonnegative'', Compare ''spent'' Ge 0),
      (''ck_budget_reserved_nonnegative'', Compare ''reserved'' Ge 0),
      (''ck_budget_warning_threshold'', Both (Compare ''warning_threshold'' Gt 0) (Compare ''warning_threshold'' Lt 1))],
    tb_uniques = [[''workspace_id'']]\<rparr>"

definition create_usage_reservations :: table_def where
  "create_usage_reservations = \<lparr>tb_name = ''usage_reservations'',
    tb_columns = [id_column,
      required (references ''workspaces'' CASCADE (column_of ''workspace_id'' T_uuid)),
      required (references ''usage_budgets'' CASCADE (column_of ''budget_id'' T_uuid)),
      required (references ''jobs'' CASCADE (column_of ''job_id'' T_uuid)),
      required (column_of ''amount'' (T_numeric 18 6)),
      required (defaulting ''0'' (column_of ''settled_amount'' (T_numeric 18 6))),
      required (defaulting ''active'' (column_of ''state'' (T_string 20))),
      required (defaulting ''CURRENT_TIMESTAMP'' (column_of ''created_at'' T_datetime)),
      column_of ''settled_at'' T_datetime],
    tb_checks = [(''ck_reservation_state'', In_list ''state'' [''active'', ''settled'', ''released'']),
      (''ck_reservation_amount_nonnegative'', Compare ''amount'' Ge 0),
      (''ck_reservation_settled_nonnegative'', Compare ''settled_amount'' Ge 0)],
    tb_uniques = [[''job_id'']]\<rparr>"

definition create_usage_ledger :: table_def where
  "create_usage_ledger = \<lparr>tb_name = ''usage_ledger'',
    tb_columns = [id_column,
      required (references ''workspaces'' CASCADE (column_of ''workspace_id'' T_uuid)),
      references ''jobs'' SET_NULL (column_of ''job_id'' T_uuid),
      required (column_of ''entry_type'' (T_string 20)),
      required (column_of ''amount'' (T_numeric 18 6)),
      column_of ''provider'' (T_string 80),
      column_of ''units'' (T_numeric 18 6),
      column_of ''reason'' (T_string 500),
      required (defaulting ''CURRENT_TIMESTAMP'' (column_of ''created_at'' T_datetime))],
    tb_checks = [(''ck_ledger_entry_type'', In_list ''entry_type'' [''reservation'', ''charge'', ''release'', ''override''])],
    tb_uniques = []\<rparr>"

definition create_audit_events :: table_def where
  "create_audit_events = \<lparr>tb_name = ''audit_events'',
    tb_columns = [id_column,
      references ''workspaces'' SET_NULL (column_of ''workspace_id'' T_uuid),
      references ''users'' SET_NULL (column_of ''actor_user_id'' T_uuid),
      required (column_of ''action'' (T_string 120)),
      column_of ''target_type'' (T_string 80),
      column_of ''target_id'' (T_string 100),
      required (column_of ''details'' T_json),
      column_of ''correlation_id'' (T_string 100),
      required (defaulting ''CURRENT_TIMESTAMP'' (column_of ''created_at'' T_datetime))],
    tb_checks = [],
    tb_uniques = []\<rparr>"

definition tables_0001 :: "ddl list" where
  "tables_0001 =
    [Create_table create_users,
     Create_table create_workspaces,
     Create_table create_sessions,
     Create_index ''ix_sessions_user_active'' ''sessions'' [''user_id'', ''revoked_at''],
     Create_table create_mfa_credentials,
     Create_table create_oidc_identities,
     Create_table create_workspace_memberships,
     Create_table create_provider_credentials,
     Create_table create_jobs,
     Create_index ''ix_jobs_workspace_state'' ''jobs'' [''workspace_id'', ''state''],
     Create_table create_job_attempts,
     Create_table create_usage_budgets,
     Create_table create_usage_reservations,
     Create_table create_usage_ledger,
     Create_index ''ix_usage_ledger_workspace_created'' ''usage_ledger'' [''workspace_id'', ''created_at''],
     Create_table create_audit_events,
     Create_index ''ix_audit_workspace_created'' ''audit_events'' [''workspace_id'', ''created_at'']]"

definition enable_postgres_rls :: "ddl list" where
  "enable_postgres_rls =
    concat (map workspace_isolation
      [''provider_credentials'', ''jobs'', ''usage_budgets'', ''usage_reservations'', ''usage_ledger''])
    @ secured ''audit_events''
    @ [policy_for ''audit_events_workspace_read'' ''audit_events'' For_select (Some Own_workspace) None,
       policy_for ''audit_events_scoped_insert'' ''audit_events'' For_insert None (Some Null_or_own_workspace)]
    @ secured ''job_attempts''
    @ [policy_for ''job_attempts_workspace_isolation'' ''job_attempts'' For_all (Some Job_exists) (Some Job_exists)]"

definition grants_0001 :: "ddl list" where
  "grants_0001 =
    [Grant ''leadhunter_app'' [P_usage] [On_schema], Grant_tables ''leadhunter_app'' row_privileges,
     Grant ''leadhunter_worker'' [P_usage] [On_schema], Grant_tables ''leadhunter_worker'' row_privileges,
     Create_function ''app_job_workspace'', Revoke everyone [P_execute] (On_function ''app_job_workspace''),
     Grant ''leadhunter_worker'' [P_execute] [On_function ''app_job_workspace'']]"

definition upgrade_0001 :: "bool \<Rightarrow> ddl list" where
  "upgrade_0001 postgresql = tables_0001 @ (if postgresql then enable_postgres_rls @ grants_0001 else [])"

definition drops_0001 :: "ddl list" where
  "drops_0001 =
    [Drop_index ''ix_audit_workspace_created'',
     Drop_table ''audit_events'',
     Drop_index ''ix_usage_ledger_workspace_created'',
     Drop_table ''usage_ledger'',
     Drop_table ''usage_reservations'',
     Drop_table ''usage_budgets'',
     Drop_table ''job_attempts'',
     Drop_index ''ix_jobs_workspace_state'',
     Drop_table ''jobs'',
     Drop_table ''provider_credentials'',
     Drop_table ''workspace_memberships'',
     Drop_table ''oidc_identities'',
     Drop_table ''mfa_credentials'',
     Drop_index ''ix_sessions_user_active'',
     Drop_table ''sessions'',
     Drop_table ''workspaces'',
     Drop_table ''users'']"

definition downgrade_0001 :: "bool \<Rightarrow> ddl list" where
  "downgrade_0001 postgresql = (if postgresql then [Drop_function ''app_job_workspace''] else []) @ drops_0001"

section \<open>0002: discovery and provenance\<close>

definition create_leads :: table_def where
  "create_leads = \<lparr>tb_name = ''leads'',
    tb_columns = [id_column,
      required (references ''workspaces'' CASCADE (column_of ''workspace_id'' T_uuid)),
      required (references ''jobs'' CASCADE (column_of ''job_id'' T_uuid)),
      required (defaulting ''verified'' (column_of ''status'' (T_string 30))),
      required (defaulting ''CURRENT_TIMESTAMP'' (column_of ''created_at'' T_datetime)),
      required (defaulting ''CURRENT_TIMESTAMP'' (column_of ''updated_at'' T_datetime))],
    tb_checks = [],
    tb_uniques = []\<rparr>"

definition create_lead_evidence :: table_def where
  "create_lead_evidence = \<lparr>tb_name = ''lead_evidence'',
    tb_columns = [id_column,
      required (references ''workspaces'' CASCADE (column_of ''workspace_id'' T_uuid)),
      required (references ''leads'' CASCADE (column_of ''lead_id'' T_uuid)),
      required (column_of ''source_url'' (T_string 2048)),
      required (column_of ''content_sha256'' (T_string 64)),
      required (column_of ''collected_at'' T_datetime)],
    tb_checks = [],
    tb_uniques = []\<rparr>"

definition create_lead_attributes :: table_def where
  "create_lead_attributes = \<lparr>tb_name = ''lead_attributes'',
    tb_columns = [id_column,
      required (references ''workspaces'' CASCADE (column_of ''workspace_id'' T_uuid)),
      required (references ''leads'' CASCADE (column_of ''lead_id'' T_uuid)),
      references ''lead_evidence'' SET_NULL (column_of ''evidence_id'' T_uuid),
      required (column_of ''field_name'' (T_string 100)),
      required (column_of ''value_text'' T_text),
      required (column_of ''source'' (T_string 30)),
      column_of ''source_url'' (T_string 2048),
      required (column_of ''collected_at'' T_datetime),
      column_of ''expires_at'' T_datetime,
      required (defaulting ''1'' (column_of ''confidence'' T_float)),
      required (defaulting ''business_contact'' (column_of ''data_classification'' (T_string 80)))],
    tb_checks = [(''ck_lead_attribute_source'', In_list ''source'' [''official_website'', ''user_input''])],
    tb_uniques = [[''lead_id'', ''field_name'']]\<rparr>"

definition create_provider_references :: table_def where
  "create_provider_references = \<lparr>tb_name = ''provider_references'',
    tb_columns = [id_column,
      required (references ''workspaces'' CASCADE (column_of ''workspace_id'' T_uuid)),
      required (references ''jobs'' CASCADE (column_of ''job_id'' T_uuid)),
      references ''leads'' CASCADE (column_of ''lead_id'' T_uuid),
      required (column_of ''provider'' (T_string 80)),
      required (column_of ''external_id'' (T_string 500)),
      required (column_of ''last_verified_at'' T_datetime),
      required (column_of ''refresh_after'' T_datetime)],
    tb_checks = [],
    tb_uniques = [[''workspace_id'', ''provider'', ''external_id'']]\<rparr>"

definition create_retention_events :: table_def where
  "create_retention_events = \<lparr>tb_name = ''retention_events'',
    tb_columns = [id_column,
      required (references ''workspaces'' CASCADE (column_of ''workspace_id'' T_uuid)),
      required (column_of ''entity_type'' (T_string 80)),
      required (column_of ''deleted_count'' T_int),
      required (defaulting ''CURRENT_TIMESTAMP'' (column_of ''ran_at'' T_datetime))],
    tb_checks = [],
    tb_uniques = []\<rparr>"

definition tables_0002 :: "ddl list" where
  "tables_0002 =
    [Create_table create_leads,
     Create_index ''ix_leads_workspace_job'' ''leads'' [''workspace_id'', ''job_id''],
     Create_table create_lead_evidence,
     Create_index ''ix_lead_evidence_workspace_lead'' ''lead_evidence'' [''workspace_id'', ''lead_id''],
     Create_table create_lead_attributes,
     Create_index ''ix_lead_attributes_workspace_expiry'' ''lead_attributes'' [''workspace_id'', ''expires_at''],
     Create_table create_provider_references,
     Create_index ''ix_provider_references_refresh'' ''provider_references'' [''workspace_id'', ''refresh_after''],
     Create_table create_retention_events,
     Create_index ''ix_retention_events_workspace_run'' ''retention_events'' [''workspace_id'', ''ran_at'']]"

definition discovery_tables :: "string list" where
  "discovery_tables = [''leads'', ''lead_evidence'', ''lead_attributes'', ''provider_references'', ''retention_events'']"

definition upgrade_0002 :: "bool \<Rightarrow> ddl list" where
  "upgrade_0002 postgresql = tables_0002 @
     (if postgresql
      then concat (map workspace_isolation discovery_tables)
        @ [Grant ''leadhunter_app'' row_privileges (map On_table discovery_tables),
           Grant ''leadhunter_worker'' row_privileges (map On_table discovery_tables)]
      else [])"

definition drops_0002 :: "ddl list" where
  "drops_0002 =
    [Drop_index ''ix_retention_events_workspace_run'',
     Drop_table ''retention_events'',
     Drop_index ''ix_provider_references_refresh'',
     Drop_table ''provider_references'',
     Drop_index ''ix_lead_attributes_workspace_expiry'',
     Drop_table ''lead_attributes'',
     Drop_index ''ix_lead_evidence_workspace_lead'',
     Drop_table ''lead_evidence'',
     Drop_index ''ix_leads_workspace_job'',
     Drop_table ''leads'']"

definition downgrade_0002 :: "bool \<Rightarrow> ddl list" where
  "downgrade_0002 postgresql = drops_0002"

section \<open>0003: contacts, privacy, suppression, requests\<close>

definition create_workspace_privacy_policies :: table_def where
  "create_workspace_privacy_policies = \<lparr>tb_name = ''workspace_privacy_policies'',
    tb_columns = [primary_key (references ''workspaces'' CASCADE (column_of ''workspace_id'' T_uuid)),
      required (column_of ''purpose'' (T_string 500)),
      required (column_of ''legal_basis'' (T_string 500)),
      required (column_of ''privacy_contact'' (T_string 320)),
      required (defaulting ''IT_EU'' (column_of ''market'' (T_string 20))),
      required (defaulting ''90'' (column_of ''named_contact_retention_days'' T_int)),
      required (column_of ''policy_version'' (T_string 80)),
      required (defaulting ''true'' (column_of ''enabled'' T_bool)),
      references ''users'' SET_NULL (column_of ''updated_by'' T_uuid),
      required (defaulting ''CURRENT_TIMESTAMP'' (column_of ''created_at'' T_datetime)),
      required (defaulting ''CURRENT_TIMESTAMP'' (column_of ''updated_at'' T_datetime))],
    tb_checks = [(''ck_privacy_policy_market'', Equals ''market'' ''IT_EU''),
      (''ck_privacy_policy_named_retention'', Both (Compare ''named_contact_retention_days'' Ge 1) (Compare ''named_contact_retention_days'' Le 90))],
    tb_uniques = []\<rparr>"

definition create_suppression_entries :: table_def where
  "create_suppression_entries = \<lparr>tb_name = ''suppression_entries'',
    tb_columns = [id_column,
      references ''workspaces'' CASCADE (column_of ''workspace_id'' T_uuid),
      required (column_of ''scope'' (T_string 20)),
      required (column_of ''scope_key'' (T_string 36)),
      required (column_of ''kind'' (T_string 20)),
      required (column_of ''fingerprint'' (T_string 64)),
      required (column_of ''reason'' (T_string 80)),
      references ''users'' SET_NULL (column_of ''created_by'' T_uuid),
      required (defaulting ''CURRENT_TIMESTAMP'' (column_of ''created_at'' T_datetime))],
    tb_checks = [(''ck_suppression_kind'', In_list ''kind'' [''email'', ''phone'']),
      (''ck_suppression_scope'', In_list ''scope'' [''workspace'', ''global''])],
    tb_uniques = [[''scope_key'', ''kind'', ''fingerprint'']]\<rparr>"

definition create_data_subject_requests :: table_def where
  "create_data_subject_requests = \<lparr>tb_name = ''data_subject_requests'',
    tb_columns = [primary_key (column_of ''id'' T_uuid),
      required (references ''workspaces'' CASCADE (column_of ''workspace_id'' T_uuid)),
      references ''users'' SET_NULL (column_of ''actor_user_id'' T_uuid),
      required (column_of ''request_kind'' (T_string 30)),
      required (column_of ''identifier_kind'' (T_string 20)),
      required (column_of ''subject_fingerprint'' (T_string 64)),
      required (defaulting ''received'' (column_of ''status'' (T_string 20))),
      required (defaulting ''0'' (column_of ''deleted_count'' T_int)),
      required (defaulting ''CURRENT_TIMESTAMP'' (column_of ''requested_at'' T_datetime)),
      column_of ''completed_at'' T_datetime],
    tb_checks = [(''ck_data_subject_request_kind'', In_list ''request_kind'' [''access'', ''rectification'', ''erasure'', ''opposition'']),
      (''ck_data_subject_request_status'', In_list ''status'' [''received'', ''completed'', ''rejected''])],
    tb_uniques = []\<rparr>"

definition create_contacts :: table_def where
  "create_contacts = \<lparr>tb_name = ''contacts'',
    tb_columns = [id_column,
      required (references ''workspaces'' CASCADE (column_of ''workspace_id'' T_uuid)),
      references ''leads'' CASCADE (column_of ''lead_id'' T_uuid),
      required (column_of ''kind'' (T_string 20)),
      required (column_of ''normalized_value'' (T_string 500)),
      required (column_of ''display_value'' (T_string 500)),
      required (column_of ''fingerprint'' (T_string 64)),
      required (defaulting ''official_website'' (column_of ''source_type'' (T_string 30))),
      column_of ''source_url'' (T_string 2048),
      references ''data_subject_requests'' SET_NULL (column_of ''source_request_id'' T_uuid),
      required (column_of ''collected_at'' T_datetime),
      required (column_of ''extraction_method'' (T_string 30)),
      required (column_of ''confidence'' T_float),
      required (column_of ''classification'' (T_string 40)),
      required (column_of ''expires_at'' T_datetime),
      required (column_of ''evidence_sha256'' (T_string 64)),
      required (column_of ''rules_version'' (T_string 80))],
    tb_checks = [(''ck_contact_kind'', In_list ''kind'' [''email'', ''phone'']),
      (''ck_contact_source_type'', In_list ''source_type'' [''official_website'', ''data_subject_request'']),
      (''ck_contact_classification'', In_list ''classification'' [''generic_business'', ''named_professional'']),
      (''ck_contact_extraction_method'', In_list ''extraction_method'' [''regex'', ''mailto'', ''structured_data'']),
      (''ck_contact_confidence'', Both (Compare ''confidence'' Ge 0) (Compare ''confidence'' Le 1))],
    tb_uniques = []\<rparr>"

definition tables_0003 :: "ddl list" where
  "tables_0003 =
    [Create_table create_workspace_privacy_policies,
     Create_table create_suppression_entries,
     Create_index ''ix_suppression_lookup'' ''suppression_entries'' [''kind'', ''fingerprint'', ''scope_key''],
     Create_table create_data_subject_requests,
     Create_index ''ix_dsr_workspace_requested'' ''data_subject_requests'' [''workspace_id'', ''requested_at''],
     Create_table create_contacts,
     Create_index ''ix_contacts_workspace_expiry'' ''contacts'' [''workspace_id'', ''expires_at''],
     Create_index ''ix_contacts_workspace_fingerprint'' ''contacts'' [''workspace_id'', ''kind'', ''fingerprint'']]"

definition privacy_tables :: "string list" where
  "privacy_tables = [''workspace_privacy_policies'', ''contacts'', ''suppression_entries'', ''data_subject_requests'']"

definition suppression_policies :: "ddl list" where
  "suppression_policies = secured ''suppression_entries'' @
    [policy_for ''suppression_entries_read'' ''suppression_entries'' For_select (Some Null_or_own_workspace) None,
     policy_for ''suppression_entries_insert'' ''suppression_entries'' For_insert None (Some Null_or_own_workspace),
     policy_for ''suppression_entries_workspace_update'' ''suppression_entries'' For_update (Some Own_workspace) (Some Own_workspace),
     policy_for ''suppression_entries_workspace_delete'' ''suppression_entries'' For_delete (Some Own_workspace) None]"

definition upgrade_0003 :: "bool \<Rightarrow> ddl list" where
  "upgrade_0003 postgresql = tables_0003 @
     (if postgresql
      then concat (map workspace_isolation [''workspace_privacy_policies'', ''contacts'', ''data_subject_requests''])
        @ suppression_policies
        @ [Grant ''leadhunter_app'' row_privileges (map On_table privacy_tables),
           Grant ''leadhunter_worker'' row_privileges (map On_table privacy_tables),
           Create_function ''app_active_workspace_ids'', Revoke everyone [P_execute] (On_function ''app_active_workspace_ids''),
           Revoke ''leadhunter_worker'' [P_select] (On_table ''workspaces''),
           Grant ''leadhunter_worker'' [P_execute] [On_function ''app_active_workspace_ids'']]
      else [])"

definition drops_0003 :: "ddl list" where
  "drops_0003 =
    [Drop_index ''ix_contacts_workspace_fingerprint'',
     Drop_index ''ix_contacts_workspace_expiry'',
     Drop_table ''contacts'',
     Drop_index ''ix_dsr_workspace_requested'',
     Drop_table ''data_subject_requests'',
     Drop_index ''ix_suppression_lookup'',
     Drop_table ''suppression_entries'',
     Drop_table ''workspace_privacy_policies'']"

definition downgrade_0003 :: "bool \<Rightarrow> ddl list" where
  "downgrade_0003 postgresql =
    (if postgresql
     then [Drop_function ''app_active_workspace_ids'', Grant ''leadhunter_worker'' [P_select] [On_table ''workspaces'']]
     else []) @ drops_0003"

definition upgrades :: "bool \<Rightarrow> ddl list" where
  "upgrades postgresql = upgrade_0001 postgresql @ upgrade_0002 postgresql @ upgrade_0003 postgresql"

definition downgrades :: "bool \<Rightarrow> ddl list" where
  "downgrades postgresql = downgrade_0003 postgresql @ downgrade_0002 postgresql @ downgrade_0001 postgresql"

section \<open>The catalogue after each revision\<close>

text \<open>What is left of a catalogue without its grants, which alone depend on the roles.\<close>

definition without_grants :: "catalogue \<Rightarrow> catalogue" where
  "without_grants c = c\<lparr>ct_grants := []\<rparr>"

definition isolation_of :: "string \<Rightarrow> row_policy" where
  "isolation_of t = \<lparr>po_name = t @ ''_workspace_isolation'', po_table = t, po_command = For_all,
     po_using = Some Own_workspace, po_check = Some Own_workspace\<rparr>"

definition catalogue_1 :: "bool \<Rightarrow> catalogue" where
  "catalogue_1 pg = \<lparr>
     ct_tables = [create_users, create_workspaces, create_sessions, create_mfa_credentials, create_oidc_identities,
      create_workspace_memberships, create_provider_credentials, create_jobs, create_job_attempts, create_usage_budgets,
      create_usage_reservations, create_usage_ledger, create_audit_events],
     ct_indexes = [(''ix_sessions_user_active'', ''sessions'', [''user_id'', ''revoked_at'']),
      (''ix_jobs_workspace_state'', ''jobs'', [''workspace_id'', ''state'']),
      (''ix_usage_ledger_workspace_created'', ''usage_ledger'', [''workspace_id'', ''created_at'']),
      (''ix_audit_workspace_created'', ''audit_events'', [''workspace_id'', ''created_at''])],
     ct_enabled = (if pg then [''provider_credentials'', ''jobs'', ''usage_budgets'', ''usage_reservations'', ''usage_ledger'', ''audit_events'',
      ''job_attempts''] else []),
     ct_forced = (if pg then [''provider_credentials'', ''jobs'', ''usage_budgets'', ''usage_reservations'', ''usage_ledger'', ''audit_events'',
      ''job_attempts''] else []),
     ct_policies = (if pg then map isolation_of [''provider_credentials'', ''jobs'', ''usage_budgets'', ''usage_reservations'', ''usage_ledger''] @
       [\<lparr>po_name = ''audit_events_workspace_read'', po_table = ''audit_events'', po_command = For_select,
          po_using = Some Own_workspace, po_check = None\<rparr>,
        \<lparr>po_name = ''audit_events_scoped_insert'', po_table = ''audit_events'', po_command = For_insert,
          po_using = None, po_check = Some Null_or_own_workspace\<rparr>,
        \<lparr>po_name = ''job_attempts_workspace_isolation'', po_table = ''job_attempts'', po_command = For_all,
          po_using = Some Job_exists, po_check = Some Job_exists\<rparr>] else []),
     ct_functions = (if pg then [''app_job_workspace''] else []), ct_grants = []\<rparr>"

definition extended ::
  "table_def list \<Rightarrow> (string \<times> string \<times> string list) list \<Rightarrow> string list \<Rightarrow> row_policy list \<Rightarrow> string list \<Rightarrow> catalogue \<Rightarrow> catalogue" where
  "extended tables indexes rows policies functions c = c\<lparr>
     ct_tables := ct_tables c @ tables, ct_indexes := ct_indexes c @ indexes, ct_enabled := ct_enabled c @ rows,
     ct_forced := ct_forced c @ rows, ct_policies := ct_policies c @ policies, ct_functions := ct_functions c @ functions\<rparr>"

definition catalogue_2 :: "bool \<Rightarrow> catalogue" where
  "catalogue_2 pg = extended
     [create_leads, create_lead_evidence, create_lead_attributes, create_provider_references, create_retention_events]
     [(''ix_leads_workspace_job'', ''leads'', [''workspace_id'', ''job_id'']),
      (''ix_lead_evidence_workspace_lead'', ''lead_evidence'', [''workspace_id'', ''lead_id'']),
      (''ix_lead_attributes_workspace_expiry'', ''lead_attributes'', [''workspace_id'', ''expires_at'']),
      (''ix_provider_references_refresh'', ''provider_references'', [''workspace_id'', ''refresh_after'']),
      (''ix_retention_events_workspace_run'', ''retention_events'', [''workspace_id'', ''ran_at''])]
     (if pg then discovery_tables else []) (if pg then map isolation_of discovery_tables else []) [] (catalogue_1 pg)"

definition catalogue_3 :: "bool \<Rightarrow> catalogue" where
  "catalogue_3 pg = extended
     [create_workspace_privacy_policies, create_suppression_entries, create_data_subject_requests, create_contacts]
     [(''ix_suppression_lookup'', ''suppression_entries'', [''kind'', ''fingerprint'', ''scope_key'']),
      (''ix_dsr_workspace_requested'', ''data_subject_requests'', [''workspace_id'', ''requested_at'']),
      (''ix_contacts_workspace_expiry'', ''contacts'', [''workspace_id'', ''expires_at'']),
      (''ix_contacts_workspace_fingerprint'', ''contacts'', [''workspace_id'', ''kind'', ''fingerprint''])]
     (if pg then [''workspace_privacy_policies'', ''contacts'', ''data_subject_requests'', ''suppression_entries''] else [])
     (if pg then
       map isolation_of [''workspace_privacy_policies'', ''contacts'', ''data_subject_requests''] @
       [\<lparr>po_name = ''suppression_entries_read'', po_table = ''suppression_entries'', po_command = For_select,
          po_using = Some Null_or_own_workspace, po_check = None\<rparr>,
        \<lparr>po_name = ''suppression_entries_insert'', po_table = ''suppression_entries'', po_command = For_insert,
          po_using = None, po_check = Some Null_or_own_workspace\<rparr>,
        \<lparr>po_name = ''suppression_entries_workspace_update'', po_table = ''suppression_entries'', po_command = For_update,
          po_using = Some Own_workspace, po_check = Some Own_workspace\<rparr>,
        \<lparr>po_name = ''suppression_entries_workspace_delete'', po_table = ''suppression_entries'', po_command = For_delete,
          po_using = Some Own_workspace, po_check = None\<rparr>] else [])
     (if pg then [''app_active_workspace_ids''] else []) (catalogue_2 pg)"

section \<open>Running the revisions\<close>

lemma run_ddls_append:
  "run_ddls roles (xs @ ys) c = (case run_ddls roles xs c of None \<Rightarrow> None | Some d \<Rightarrow> run_ddls roles ys d)"
  by (induction roles xs c rule: run_ddls.induct) (auto split: option.split)

lemma table_shapes:
  "tb_name create_users = ''users''"
  "tb_name create_workspaces = ''workspaces''"
  "tb_name create_sessions = ''sessions''"
  "tb_name create_mfa_credentials = ''mfa_credentials''"
  "tb_name create_oidc_identities = ''oidc_identities''"
  "tb_name create_workspace_memberships = ''workspace_memberships''"
  "tb_name create_provider_credentials = ''provider_credentials''"
  "tb_name create_jobs = ''jobs''"
  "tb_name create_job_attempts = ''job_attempts''"
  "tb_name create_usage_budgets = ''usage_budgets''"
  "tb_name create_usage_reservations = ''usage_reservations''"
  "tb_name create_usage_ledger = ''usage_ledger''"
  "tb_name create_audit_events = ''audit_events''"
  "tb_name create_leads = ''leads''"
  "tb_name create_lead_evidence = ''lead_evidence''"
  "tb_name create_lead_attributes = ''lead_attributes''"
  "tb_name create_provider_references = ''provider_references''"
  "tb_name create_retention_events = ''retention_events''"
  "tb_name create_workspace_privacy_policies = ''workspace_privacy_policies''"
  "tb_name create_suppression_entries = ''suppression_entries''"
  "tb_name create_data_subject_requests = ''data_subject_requests''"
  "tb_name create_contacts = ''contacts''"
  by code_simp+

text \<open>No statement but a grant depends on grants or on the roles.\<close>

lemma without_grants_idem [simp]: "without_grants (without_grants c) = without_grants c"
  by (simp add: without_grants_def)

lemma run_ddl_grants:
  "map_option without_grants (run_ddl roles s c) = map_option without_grants (run_ddl [] s (without_grants c))"
  by (cases s) (simp_all add: without_grants_def table_accepted_def table_names_def columns_in_def referred_def
      without_table_def add_grants_def)

lemma run_ddls_grants:
  "map_option without_grants (run_ddls roles ss c) = map_option without_grants (run_ddls [] ss (without_grants c))"
proof (induction ss arbitrary: roles c)
  case (Cons s ss)
  show ?case
  proof (cases "run_ddl roles s c")
    case None
    then show ?thesis using run_ddl_grants [of roles s c] by simp
  next
    case (Some d)
    have "map_option without_grants (run_ddl [] s (without_grants c)) = Some (without_grants d)"
      using run_ddl_grants [of roles s c] Some by simp
    then obtain e where e: "run_ddl [] s (without_grants c) = Some e" "without_grants d = without_grants e"
      by auto
    then show ?thesis using Some Cons.IH [of roles d] Cons.IH [of "[]" e] by simp
  qed
qed simp

lemmas catalogue_defs = extended_def catalogue_1_def catalogue_2_def catalogue_3_def discovery_tables_def privacy_tables_def

lemma upgraded_1: "map_option without_grants (run_ddls [] (upgrade_0001 pg) empty_catalogue) = Some (catalogue_1 pg)"
  by (induction pg) code_simp+

lemma upgraded_2: "map_option without_grants (run_ddls [] (upgrade_0002 pg) (catalogue_1 pg)) = Some (catalogue_2 pg)"
  by (induction pg) code_simp+

lemma upgraded_3: "map_option without_grants (run_ddls [] (upgrade_0003 pg) (catalogue_2 pg)) = Some (catalogue_3 pg)"
  by (induction pg) code_simp+

lemma downgraded_3: "map_option without_grants (run_ddls [] (downgrade_0003 pg) (catalogue_3 pg)) = Some (catalogue_2 pg)"
  by (induction pg) code_simp+

lemma downgraded_2: "map_option without_grants (run_ddls [] (downgrade_0002 pg) (catalogue_2 pg)) = Some (catalogue_1 pg)"
  by (induction pg) code_simp+

lemma downgraded_1: "map_option without_grants (run_ddls [] (downgrade_0001 pg) (catalogue_1 pg)) = Some empty_catalogue"
  by (induction pg) code_simp+

lemma run_stages:
  assumes "map_option without_grants (run_ddls roles xs c) = Some d" "map_option without_grants (run_ddls [] ys d) = e"
  shows "map_option without_grants (run_ddls roles (xs @ ys) c) = e"
proof -
  obtain x where x: "run_ddls roles xs c = Some x" "d = without_grants x" using assms(1) by auto
  show ?thesis using assms(2) run_ddls_grants [of roles ys x] x by (simp add: run_ddls_append)
qed

lemma empty_without: "without_grants empty_catalogue = empty_catalogue"
  by (simp add: without_grants_def empty_catalogue_def)

lemma ct_tables_without: "ct_tables (without_grants c) = ct_tables c"
  by (simp add: without_grants_def)

lemma ct_enabled_without: "ct_enabled (without_grants c) = ct_enabled c"
  by (simp add: without_grants_def)

text \<open>Whatever the dialect and the roles, the revisions run one after the other, and back.\<close>

lemma upgrades_run: "map_option without_grants (run_ddls roles (upgrades pg) empty_catalogue) = Some (catalogue_3 pg)"
proof -
  have "map_option without_grants (run_ddls roles (upgrade_0001 pg) empty_catalogue) = Some (catalogue_1 pg)"
    using run_ddls_grants [of roles "upgrade_0001 pg" empty_catalogue] upgraded_1 by (simp add: empty_without)
  from run_stages [OF run_stages [OF this upgraded_2] upgraded_3] show ?thesis by (simp add: upgrades_def)
qed

lemma downgrades_run:
  "map_option without_grants (run_ddls roles (upgrades pg @ downgrades pg) empty_catalogue) = Some empty_catalogue"
  using run_stages [OF run_stages [OF run_stages [OF upgrades_run downgraded_3] downgraded_2] downgraded_1]
  by (simp add: downgrades_def)

end
