(* ===== verification/Declared.thy ===== *)
theory Declared
  imports Migrations
begin

text \<open>
  What the migrations declare is what the rest of the development assumes: the tables they create
  are those of the persistence model's metadata, and the integrity of a database state is exactly
  what their columns, checks, keys and references ask of its content. A row of the model gives
  values to the columns the model keeps.
\<close>

section \<open>The tables of the model\<close>

text \<open>The defaults of the server aside.\<close>

definition undefaulted :: "column_def \<Rightarrow> column_def" where
  "undefaulted c = c\<lparr>cl_default := None\<rparr>"

definition same_declaration :: "table_def \<Rightarrow> table_def \<Rightarrow> bool" where
  "same_declaration m t \<longleftrightarrow> tb_name m = tb_name t
     \<and> set (map undefaulted (tb_columns m)) = set (map undefaulted (tb_columns t))
     \<and> set (tb_checks m) = set (tb_checks t) \<and> set (tb_uniques m) = set (tb_uniques t)"

definition schema_matches :: "catalogue \<Rightarrow> bool" where
  "schema_matches c \<longleftrightarrow> length (ct_tables c) = length model_tables
     \<and> list_all (\<lambda>m. list_ex (same_declaration m) (ct_tables c)) model_tables
     \<and> list_all (\<lambda>i. i \<in> set model_indexes) (ct_indexes c) \<and> list_all (\<lambda>i. i \<in> set (ct_indexes c)) model_indexes"

lemma declarations_agree:
  "same_declaration UserModel create_users"
  "same_declaration SessionModel create_sessions"
  "same_declaration MfaCredentialModel create_mfa_credentials"
  "same_declaration OidcIdentityModel create_oidc_identities"
  "same_declaration WorkspaceModel create_workspaces"
  "same_declaration WorkspaceMembershipModel create_workspace_memberships"
  "same_declaration ProviderCredentialModel create_provider_credentials"
  "same_declaration JobModel create_jobs"
  "same_declaration JobAttemptModel create_job_attempts"
  "same_declaration UsageBudgetModel create_usage_budgets"
  "same_declaration UsageReservationModel create_usage_reservations"
  "same_declaration UsageLedgerModel create_usage_ledger"
  "same_declaration AuditEventModel create_audit_events"
  "same_declaration LeadModel create_leads"
  "same_declaration EvidenceModel create_lead_evidence"
  "same_declaration LeadAttributeModel create_lead_attributes"
  "same_declaration ProviderReferenceModel create_provider_references"
  "same_declaration RetentionEventModel create_retention_events"
  "same_declaration WorkspacePrivacyPolicyModel create_workspace_privacy_policies"
  "same_declaration ContactModel create_contacts"
  "same_declaration SuppressionEntryModel create_suppression_entries"
  "same_declaration DataSubjectRequestModel create_data_subject_requests"
  by code_simp+

lemma catalogue_matches: "schema_matches (catalogue_3 pg)"
  by (simp add: schema_matches_def catalogue_defs model_tables_def declarations_agree model_indexes_def)

lemma schema_matches_without: "schema_matches (without_grants c) = schema_matches c"
  by (simp add: schema_matches_def without_grants_def)

section \<open>Rows as values\<close>

definition optional_value :: "('a \<Rightarrow> sql_value) \<Rightarrow> 'a option \<Rightarrow> sql_value" where
  "optional_value f x = (case x of None \<Rightarrow> V_null | Some y \<Rightarrow> f y)"

definition user_values :: "user \<Rightarrow> sql_row" where
  "user_values r =
    [(''id'', V_uuid (us_id r)), (''email'', V_text (us_email r)), (''password_hash'', V_text (us_password_hash r)),
     (''display_name'', V_text (us_display_name r)), (''is_active'', V_bool (us_is_active r)),
     (''is_platform_admin'', V_bool (us_is_platform_admin r)), (''session_version'', V_int (us_session_version r))]"

definition session_row_values :: "session_row \<Rightarrow> sql_row" where
  "session_row_values r =
    [(''id'', V_uuid (se_id r)), (''user_id'', V_uuid (se_user_id r)),
     (''refresh_token_hash'', V_text (se_refresh_token_hash r)),
     (''csrf_token_hash'', V_text (se_csrf_token_hash r)), (''mfa_verified'', V_bool (se_mfa_verified r)),
     (''last_seen_at'', V_time (se_last_seen_at r)), (''expires_at'', V_time (se_expires_at r)),
     (''revoked_at'', optional_value V_time (se_revoked_at r))]"

definition mfa_credential_values :: "mfa_credential \<Rightarrow> sql_row" where
  "mfa_credential_values r =
    [(''user_id'', V_uuid (mf_user_id r)), (''secret_ciphertext'', V_text (mf_secret_ciphertext r)),
     (''recovery_code_hashes'', V_json), (''confirmed_at'', optional_value V_time (mf_confirmed_at r))]"

definition oidc_identity_values :: "oidc_identity \<Rightarrow> sql_row" where
  "oidc_identity_values r =
    [(''id'', V_uuid (oi_id r)), (''user_id'', V_uuid (oi_user_id r)), (''provider'', V_text (oi_provider r)),
     (''subject'', V_text (oi_subject r))]"

definition workspace_values :: "workspace \<Rightarrow> sql_row" where
  "workspace_values r =
    [(''id'', V_uuid (wo_id r)), (''slug'', V_text (wo_slug r)), (''name'', V_text (wo_name r)),
     (''is_active'', V_bool (wo_is_active r))]"

definition membership_values :: "membership \<Rightarrow> sql_row" where
  "membership_values r =
    [(''id'', V_uuid (me_id r)), (''workspace_id'', V_uuid (me_workspace_id r)),
     (''user_id'', V_uuid (me_user_id r)), (''role'', V_text (me_role r))]"

definition provider_credential_values :: "provider_credential \<Rightarrow> sql_row" where
  "provider_credential_values r =
    [(''id'', V_uuid (pc_id r)), (''workspace_id'', V_uuid (pc_workspace_id r)),
     (''provider'', V_text (pc_provider r)), (''ciphertext'', V_text (pc_ciphertext r)),
     (''key_version'', V_int (pc_key_version r)), (''fingerprint'', V_text (pc_fingerprint r)),
     (''updated_at'', V_time (pc_updated_at r))]"

definition job_values :: "job \<Rightarrow> sql_row" where
  "job_values r =
    [(''id'', V_uuid (jo_id r)), (''workspace_id'', V_uuid (jo_workspace_id r)),
     (''created_by'', V_uuid (jo_created_by r)), (''kind'', V_text (jo_kind r)), (''state'', V_text (jo_state r)),
     (''idempotency_key'', V_text (jo_idempotency_key r)), (''parameters'', V_json),
     (''estimated_cost'', V_decimal 6 (jo_estimated_cost r)),
     (''result_ref'', optional_value V_text (jo_result_ref r)),
     (''error_code'', optional_value V_text (jo_error_code r)),
     (''started_at'', optional_value V_time (jo_started_at r)),
     (''finished_at'', optional_value V_time (jo_finished_at r))]"

definition job_attempt_values :: "job_attempt \<Rightarrow> sql_row" where
  "job_attempt_values r =
    [(''job_id'', V_uuid (ja_job_id r)), (''attempt_number'', V_int (ja_attempt_number r)),
     (''worker_id'', optional_value V_text (ja_worker_id r)), (''started_at'', V_time (ja_started_at r)),
     (''heartbeat_at'', V_time (ja_heartbeat_at r)), (''finished_at'', optional_value V_time (ja_finished_at r)),
     (''error_code'', optional_value V_text (ja_error_code r))]"

definition budget_values :: "budget \<Rightarrow> sql_row" where
  "budget_values r =
    [(''id'', V_uuid (bu_id r)), (''workspace_id'', V_uuid (bu_workspace_id r)),
     (''currency'', V_text (bu_currency r)), (''hard_limit'', V_decimal 6 (bu_hard_limit r)),
     (''spent'', V_decimal 6 (bu_spent r)), (''reserved'', V_decimal 6 (bu_reserved r)),
     (''warning_threshold'', V_decimal 4 (bu_warning_threshold r))]"

definition reservation_values :: "reservation \<Rightarrow> sql_row" where
  "reservation_values r =
    [(''id'', V_uuid (re_id r)), (''workspace_id'', V_uuid (re_workspace_id r)),
     (''budget_id'', V_uuid (re_budget_id r)), (''job_id'', V_uuid (re_job_id r)),
     (''amount'', V_decimal 6 (re_amount r)), (''settled_amount'', V_decimal 6 (re_settled_amount r)),
     (''state'', V_text (re_state r)), (''settled_at'', optional_value V_time (re_settled_at r))]"

definition ledger_entry_values :: "ledger_entry \<Rightarrow> sql_row" where
  "ledger_entry_values r =
    [(''workspace_id'', V_uuid (le_workspace_id r)), (''job_id'', optional_value V_uuid (le_job_id r)),
     (''entry_type'', V_text (le_entry_type r)), (''amount'', V_decimal 6 (le_amount r)),
     (''provider'', optional_value V_text (le_provider r)), (''units'', optional_value (V_decimal 6) (le_units r)),
     (''reason'', optional_value V_text (le_reason r))]"

definition audit_event_values :: "audit_event \<Rightarrow> sql_row" where
  "audit_event_values r =
    [(''workspace_id'', optional_value V_uuid (ae_workspace_id r)),
     (''actor_user_id'', optional_value V_uuid (ae_actor_user_id r)), (''action'', V_text (ae_action r)),
     (''target_type'', optional_value V_text (ae_target_type r)),
     (''target_id'', optional_value V_text (ae_target_id r)), (''details'', V_json),
     (''correlation_id'', optional_value V_text (ae_correlation_id r))]"

definition lead_row_values :: "lead_row \<Rightarrow> sql_row" where
  "lead_row_values r =
    [(''id'', V_uuid (ld_id r)), (''workspace_id'', V_uuid (ld_workspace_id r)), (''job_id'', V_uuid (ld_job_id r)),
     (''status'', V_text (ld_status r))]"

definition evidence_row_values :: "evidence_row \<Rightarrow> sql_row" where
  "evidence_row_values r =
    [(''id'', V_uuid (ev_id r)), (''workspace_id'', V_uuid (ev_workspace_id r)),
     (''lead_id'', V_uuid (ev_lead_id r)), (''source_url'', V_text (ev_source_url r)),
     (''content_sha256'', V_text (ev_content_sha256 r)), (''collected_at'', V_time (ev_collected_at r))]"

definition lead_attribute_values :: "lead_attribute \<Rightarrow> sql_row" where
  "lead_attribute_values r =
    [(''workspace_id'', V_uuid (la_workspace_id r)), (''lead_id'', V_uuid (la_lead_id r)),
     (''evidence_id'', optional_value V_uuid (la_evidence_id r)), (''field_name'', V_text (la_field_name r)),
     (''value_text'', V_text (la_value_text r)), (''source'', V_text (la_source r)),
     (''source_url'', optional_value V_text (la_source_url r)), (''collected_at'', V_time (la_collected_at r)),
     (''expires_at'', optional_value V_time (la_expires_at r)), (''confidence'', V_float (la_confidence r)),
     (''data_classification'', V_text (la_data_classification r))]"

definition provider_reference_values :: "provider_reference \<Rightarrow> sql_row" where
  "provider_reference_values r =
    [(''id'', V_uuid (pr_id r)), (''workspace_id'', V_uuid (pr_workspace_id r)), (''job_id'', V_uuid (pr_job_id r)),
     (''lead_id'', optional_value V_uuid (pr_lead_id r)), (''provider'', V_text (pr_provider r)),
     (''external_id'', V_text (pr_external_id r)), (''last_verified_at'', V_time (pr_last_verified_at r)),
     (''refresh_after'', V_time (pr_refresh_after r))]"

definition retention_event_values :: "retention_event \<Rightarrow> sql_row" where
  "retention_event_values r =
    [(''workspace_id'', V_uuid (rt_workspace_id r)), (''entity_type'', V_text (rt_entity_type r)),
     (''deleted_count'', V_int (rt_deleted_count r)), (''ran_at'', V_time (rt_ran_at r))]"

definition policy_row_values :: "policy_row \<Rightarrow> sql_row" where
  "policy_row_values r =
    [(''workspace_id'', V_uuid (pp_workspace_id r)), (''purpose'', V_text (pp_purpose r)),
     (''legal_basis'', V_text (pp_legal_basis r)), (''privacy_contact'', V_text (pp_privacy_contact r)),
     (''market'', V_text (pp_market r)),
     (''named_contact_retention_days'', V_int (pp_named_contact_retention_days r)),
     (''policy_version'', V_text (pp_policy_version r)), (''enabled'', V_bool (pp_enabled r)),
     (''updated_by'', optional_value V_uuid (pp_updated_by r))]"

definition contact_values :: "contact \<Rightarrow> sql_row" where
  "contact_values r =
    [(''id'', V_uuid (co_id r)), (''workspace_id'', V_uuid (co_workspace_id r)),
     (''lead_id'', optional_value V_uuid (co_lead_id r)), (''kind'', V_text (co_kind r)),
     (''normalized_value'', V_text (co_normalized_value r)), (''display_value'', V_text (co_display_value r)),
     (''fingerprint'', V_text (co_fingerprint r)), (''source_type'', V_text (co_source_type r)),
     (''source_url'', optional_value V_text (co_source_url r)),
     (''source_request_id'', optional_value V_uuid (co_source_request_id r)),
     (''collected_at'', V_time (co_collected_at r)), (''extraction_method'', V_text (co_extraction_method r)),
     (''confidence'', V_float (co_confidence r)), (''classification'', V_text (co_classification r)),
     (''expires_at'', V_time (co_expires_at r)), (''evidence_sha256'', V_text (co_evidence_sha256 r)),
     (''rules_version'', V_text (co_rules_version r))]"

definition suppression_entry_values :: "suppression_entry \<Rightarrow> sql_row" where
  "suppression_entry_values r =
    [(''id'', V_uuid (su_id r)), (''workspace_id'', optional_value V_uuid (su_workspace_id r)),
     (''scope'', V_text (su_scope r)), (''scope_key'', V_text (su_scope_key r)), (''kind'', V_text (su_kind r)),
     (''fingerprint'', V_text (su_fingerprint r)), (''reason'', V_text (su_reason r)),
     (''created_by'', optional_value V_uuid (su_created_by r))]"

definition subject_request_values :: "subject_request \<Rightarrow> sql_row" where
  "subject_request_values r =
    [(''id'', V_uuid (ds_id r)), (''workspace_id'', V_uuid (ds_workspace_id r)),
     (''actor_user_id'', optional_value V_uuid (ds_actor_user_id r)),
     (''request_kind'', V_text (ds_request_kind r)), (''identifier_kind'', V_text (ds_identifier_kind r)),
     (''subject_fingerprint'', V_text (ds_subject_fingerprint r)), (''status'', V_text (ds_status r)),
     (''deleted_count'', V_int (ds_deleted_count r)), (''completed_at'', optional_value V_time (ds_completed_at r))]"

definition content_of :: "db \<Rightarrow> content" where
  "content_of d =
    [(''users'', map user_values (t_users d)),
     (''sessions'', map session_row_values (t_sessions d)),
     (''mfa_credentials'', map mfa_credential_values (t_mfa d)),
     (''oidc_identities'', map oidc_identity_values (t_oidc d)),
     (''workspaces'', map workspace_values (t_workspaces d)),
     (''workspace_memberships'', map membership_values (t_memberships d)),
     (''provider_credentials'', map provider_credential_values (t_credentials d)),
     (''jobs'', map job_values (t_jobs d)),
     (''job_attempts'', map job_attempt_values (t_job_attempts d)),
     (''usage_budgets'', map budget_values (t_budgets d)),
     (''usage_reservations'', map reservation_values (t_reservations d)),
     (''usage_ledger'', map ledger_entry_values (t_ledger d)),
     (''audit_events'', map audit_event_values (t_audit d)),
     (''leads'', map lead_row_values (t_leads d)),
     (''lead_evidence'', map evidence_row_values (t_evidence d)),
     (''lead_attributes'', map lead_attribute_values (t_attributes d)),
     (''provider_references'', map provider_reference_values (t_references d)),
     (''retention_events'', map retention_event_values (t_retention d)),
     (''workspace_privacy_policies'', map policy_row_values (t_policies d)),
     (''contacts'', map contact_values (t_contacts d)),
     (''suppression_entries'', map suppression_entry_values (t_suppressions d)),
     (''data_subject_requests'', map subject_request_values (t_requests d))]"

section \<open>Row constraints\<close>

lemmas declaration_defs = row_meets_def cell_ok_def column_of_def required_def defaulting_def primary_key_def references_def
  id_column_def timestamps_def optional_value_def number_of_def fits_def fits_opt_def numeric_18_6_def

lemma user_declared: "row_meets create_users (user_values r) \<longleftrightarrow> user_ok r"
  by (auto simp: create_users_def user_values_def user_ok_def declaration_defs split: option.splits)

lemma session_row_declared: "row_meets create_sessions (session_row_values r) \<longleftrightarrow> session_row_ok r"
  by (auto simp: create_sessions_def session_row_values_def session_row_ok_def declaration_defs split: option.splits)

lemma mfa_credential_declared: "row_meets create_mfa_credentials (mfa_credential_values r) \<longleftrightarrow> True"
  by (auto simp: create_mfa_credentials_def mfa_credential_values_def declaration_defs split: option.splits)

lemma oidc_identity_declared: "row_meets create_oidc_identities (oidc_identity_values r) \<longleftrightarrow> oidc_identity_ok r"
  by (auto simp: create_oidc_identities_def oidc_identity_values_def oidc_identity_ok_def declaration_defs split: option.splits)

lemma workspace_declared: "row_meets create_workspaces (workspace_values r) \<longleftrightarrow> workspace_ok r"
  by (auto simp: create_workspaces_def workspace_values_def workspace_ok_def declaration_defs split: option.splits)

lemma membership_declared: "row_meets create_workspace_memberships (membership_values r) \<longleftrightarrow> membership_ok r"
  by (auto simp: create_workspace_memberships_def membership_values_def membership_ok_def declaration_defs split: option.splits)

lemma provider_credential_declared: "row_meets create_provider_credentials (provider_credential_values r) \<longleftrightarrow> provider_credential_ok r"
  by (auto simp: create_provider_credentials_def provider_credential_values_def provider_credential_ok_def declaration_defs split: option.splits)

lemma job_declared: "row_meets create_jobs (job_values r) \<longleftrightarrow> job_ok r"
  by (auto simp: create_jobs_def job_values_def job_ok_def declaration_defs split: option.splits)

lemma job_attempt_declared: "row_meets create_job_attempts (job_attempt_values r) \<longleftrightarrow> job_attempt_ok r"
  by (auto simp: create_job_attempts_def job_attempt_values_def job_attempt_ok_def declaration_defs split: option.splits)

lemma budget_declared: "row_meets create_usage_budgets (budget_values r) \<longleftrightarrow> budget_ok r"
  by (auto simp: create_usage_budgets_def budget_values_def budget_ok_def declaration_defs split: option.splits)

lemma reservation_declared: "row_meets create_usage_reservations (reservation_values r) \<longleftrightarrow> reservation_ok r"
  by (auto simp: create_usage_reservations_def reservation_values_def reservation_ok_def declaration_defs split: option.splits)

lemma ledger_entry_declared: "row_meets create_usage_ledger (ledger_entry_values r) \<longleftrightarrow> ledger_entry_ok r"
  by (auto simp: create_usage_ledger_def ledger_entry_values_def ledger_entry_ok_def declaration_defs split: option.splits)

lemma audit_event_declared: "row_meets create_audit_events (audit_event_values r) \<longleftrightarrow> audit_event_ok r"
  by (auto simp: create_audit_events_def audit_event_values_def audit_event_ok_def declaration_defs split: option.splits)

lemma lead_row_declared: "row_meets create_leads (lead_row_values r) \<longleftrightarrow> lead_row_ok r"
  by (auto simp: create_leads_def lead_row_values_def lead_row_ok_def declaration_defs split: option.splits)

lemma evidence_row_declared: "row_meets create_lead_evidence (evidence_row_values r) \<longleftrightarrow> evidence_row_ok r"
  by (auto simp: create_lead_evidence_def evidence_row_values_def evidence_row_ok_def declaration_defs split: option.splits)

lemma lead_attribute_declared: "row_meets create_lead_attributes (lead_attribute_values r) \<longleftrightarrow> lead_attribute_ok r"
  by (auto simp: create_lead_attributes_def lead_attribute_values_def lead_attribute_ok_def declaration_defs split: option.splits)

lemma provider_reference_declared: "row_meets create_provider_references (provider_reference_values r) \<longleftrightarrow> provider_reference_ok r"
  by (auto simp: create_provider_references_def provider_reference_values_def provider_reference_ok_def declaration_defs split: option.splits)

lemma retention_event_declared: "row_meets create_retention_events (retention_event_values r) \<longleftrightarrow> retention_event_ok r"
  by (auto simp: create_retention_events_def retention_event_values_def retention_event_ok_def declaration_defs split: option.splits)

lemma policy_row_declared: "row_meets create_workspace_privacy_policies (policy_row_values r) \<longleftrightarrow> policy_row_ok r"
  by (auto simp: create_workspace_privacy_policies_def policy_row_values_def policy_row_ok_def declaration_defs split: option.splits)

lemma optional_uuid:
  "optional_value V_uuid x \<noteq> V_null \<Longrightarrow> (case optional_value V_uuid x of V_uuid u \<Rightarrow> True | _ \<Rightarrow> False)"
  by (cases x) (simp_all add: optional_value_def)

lemma optional_text: "optional_value V_text None = V_null" "optional_value V_text (Some t) = V_text t"
  by (simp_all add: optional_value_def)

lemma contact_declared: "row_meets create_contacts (contact_values r) \<longleftrightarrow> contact_ok r"
proof -
  have short: "x \<in> {''email'', ''phone''} \<Longrightarrow> length x \<le> 20"
    "x \<in> {''official_website'', ''data_subject_request''} \<Longrightarrow> length x \<le> 30"
    "x \<in> {''generic_business'', ''named_professional''} \<Longrightarrow> length x \<le> 40"
    "x \<in> {''regex'', ''mailto'', ''structured_data''} \<Longrightarrow> length x \<le> 30" for x
    by auto
  show ?thesis
    using short(1) [of "co_kind r"] short(2) [of "co_source_type r"] short(3) [of "co_classification r"]
      short(4) [of "co_extraction_method r"]
    by (cases "co_source_url r"; simp add: create_contacts_def contact_values_def contact_ok_def row_meets_def cell_ok_def
        column_of_def required_def defaulting_def primary_key_def references_def id_column_def number_of_def fits_def
        fits_opt_def optional_uuid optional_text; argo)
qed

lemma suppression_entry_declared: "row_meets create_suppression_entries (suppression_entry_values r) \<longleftrightarrow> suppression_entry_ok r"
  by (auto simp: create_suppression_entries_def suppression_entry_values_def suppression_entry_ok_def declaration_defs split: option.splits)

lemma subject_request_declared: "row_meets create_data_subject_requests (subject_request_values r) \<longleftrightarrow> subject_request_ok r"
  by (auto simp: create_data_subject_requests_def subject_request_values_def subject_request_ok_def declaration_defs split: option.splits)

section \<open>Keys\<close>

lemma key_meets_map:
  assumes "\<And>x. set key \<subseteq> fst ` set (f x)" "\<And>x y. map (map_of (f x)) key = map (map_of (f y)) key \<longleftrightarrow> h x = h y"
  shows "key_meets (map f xs) key \<longleftrightarrow> distinct_on h xs"
  using assms by (simp add: key_meets_def list_all_iff distinct_on_def distinct_map inj_on_def comp_def)

lemma key_unmodelled: "(\<And>x. \<not> set key \<subseteq> fst ` set (f x)) \<Longrightarrow> key_meets (map f xs) key"
  by (cases xs) (simp_all add: key_meets_def)

lemma keys_declared:
  "key_meets (map user_values xs0) [''id''] \<longleftrightarrow> distinct_on us_id xs0"
  "key_meets (map user_values xs1) [''email''] \<longleftrightarrow> distinct_on us_email xs1"
  "key_meets (map session_row_values xs2) [''id''] \<longleftrightarrow> distinct_on se_id xs2"
  "key_meets (map mfa_credential_values xs3) [''user_id''] \<longleftrightarrow> distinct_on mf_user_id xs3"
  "key_meets (map oidc_identity_values xs4) [''id''] \<longleftrightarrow> distinct_on oi_id xs4"
  "key_meets (map oidc_identity_values xs5) [''provider'', ''subject''] \<longleftrightarrow> distinct_on (\<lambda>r. (oi_provider r, oi_subject r)) xs5"
  "key_meets (map workspace_values xs6) [''id''] \<longleftrightarrow> distinct_on wo_id xs6"
  "key_meets (map workspace_values xs7) [''slug''] \<longleftrightarrow> distinct_on wo_slug xs7"
  "key_meets (map membership_values xs8) [''id''] \<longleftrightarrow> distinct_on me_id xs8"
  "key_meets (map membership_values xs9) [''workspace_id'', ''user_id''] \<longleftrightarrow> distinct_on (\<lambda>r. (me_workspace_id r, me_user_id r)) xs9"
  "key_meets (map provider_credential_values xs10) [''id''] \<longleftrightarrow> distinct_on pc_id xs10"
  "key_meets (map provider_credential_values xs11) [''workspace_id'', ''provider''] \<longleftrightarrow> distinct_on (\<lambda>r. (pc_workspace_id r, pc_provider r)) xs11"
  "key_meets (map job_values xs12) [''id''] \<longleftrightarrow> distinct_on jo_id xs12"
  "key_meets (map job_values xs13) [''workspace_id'', ''idempotency_key''] \<longleftrightarrow> distinct_on (\<lambda>r. (jo_workspace_id r, jo_idempotency_key r)) xs13"
  "key_meets (map job_attempt_values xs14) [''job_id'', ''attempt_number''] \<longleftrightarrow> distinct_on (\<lambda>r. (ja_job_id r, ja_attempt_number r)) xs14"
  "key_meets (map budget_values xs15) [''id''] \<longleftrightarrow> distinct_on bu_id xs15"
  "key_meets (map budget_values xs16) [''workspace_id''] \<longleftrightarrow> distinct_on bu_workspace_id xs16"
  "key_meets (map reservation_values xs17) [''id''] \<longleftrightarrow> distinct_on re_id xs17"
  "key_meets (map reservation_values xs18) [''job_id''] \<longleftrightarrow> distinct_on re_job_id xs18"
  "key_meets (map lead_row_values xs19) [''id''] \<longleftrightarrow> distinct_on ld_id xs19"
  "key_meets (map evidence_row_values xs20) [''id''] \<longleftrightarrow> distinct_on ev_id xs20"
  "key_meets (map lead_attribute_values xs21) [''lead_id'', ''field_name''] \<longleftrightarrow> distinct_on (\<lambda>r. (la_lead_id r, la_field_name r)) xs21"
  "key_meets (map provider_reference_values xs22) [''id''] \<longleftrightarrow> distinct_on pr_id xs22"
  "key_meets (map provider_reference_values xs23) [''workspace_id'', ''provider'', ''external_id''] \<longleftrightarrow> distinct_on (\<lambda>r. (pr_workspace_id r, pr_provider r, pr_external_id r)) xs23"
  "key_meets (map policy_row_values xs24) [''workspace_id''] \<longleftrightarrow> distinct_on pp_workspace_id xs24"
  "key_meets (map contact_values xs25) [''id''] \<longleftrightarrow> distinct_on co_id xs25"
  "key_meets (map suppression_entry_values xs26) [''id''] \<longleftrightarrow> distinct_on su_id xs26"
  "key_meets (map suppression_entry_values xs27) [''scope_key'', ''kind'', ''fingerprint''] \<longleftrightarrow> distinct_on (\<lambda>r. (su_scope_key r, su_kind r, su_fingerprint r)) xs27"
  "key_meets (map subject_request_values xs28) [''id''] \<longleftrightarrow> distinct_on ds_id xs28"
  by (rule key_meets_map; simp add: user_values_def session_row_values_def mfa_credential_values_def oidc_identity_values_def workspace_values_def membership_values_def provider_credential_values_def job_values_def job_attempt_values_def budget_values_def reservation_values_def ledger_entry_values_def audit_event_values_def lead_row_values_def evidence_row_values_def lead_attribute_values_def provider_reference_values_def retention_event_values_def policy_row_values_def contact_values_def suppression_entry_values_def subject_request_values_def)+

lemma keys_left_out:
  "key_meets (map job_attempt_values xs0) [''id'']"
  "key_meets (map ledger_entry_values xs1) [''id'']"
  "key_meets (map audit_event_values xs2) [''id'']"
  "key_meets (map lead_attribute_values xs3) [''id'']"
  "key_meets (map retention_event_values xs4) [''id'']"
  by (rule key_unmodelled; simp add: job_attempt_values_def ledger_entry_values_def audit_event_values_def lead_attribute_values_def retention_event_values_def)+

lemma primary_declared:
  "primary_columns create_users = [''id'']"
  "primary_columns create_sessions = [''id'']"
  "primary_columns create_mfa_credentials = [''user_id'']"
  "primary_columns create_oidc_identities = [''id'']"
  "primary_columns create_workspaces = [''id'']"
  "primary_columns create_workspace_memberships = [''id'']"
  "primary_columns create_provider_credentials = [''id'']"
  "primary_columns create_jobs = [''id'']"
  "primary_columns create_job_attempts = [''id'']"
  "primary_columns create_usage_budgets = [''id'']"
  "primary_columns create_usage_reservations = [''id'']"
  "primary_columns create_usage_ledger = [''id'']"
  "primary_columns create_audit_events = [''id'']"
  "primary_columns create_leads = [''id'']"
  "primary_columns create_lead_evidence = [''id'']"
  "primary_columns create_lead_attributes = [''id'']"
  "primary_columns create_provider_references = [''id'']"
  "primary_columns create_retention_events = [''id'']"
  "primary_columns create_workspace_privacy_policies = [''workspace_id'']"
  "primary_columns create_contacts = [''id'']"
  "primary_columns create_suppression_entries = [''id'']"
  "primary_columns create_data_subject_requests = [''id'']"
  by code_simp+

lemma uniques_declared:
  "tb_uniques create_users = [[''email'']]"
  "tb_uniques create_sessions = []"
  "tb_uniques create_mfa_credentials = []"
  "tb_uniques create_oidc_identities = [[''provider'', ''subject'']]"
  "tb_uniques create_workspaces = [[''slug'']]"
  "tb_uniques create_workspace_memberships = [[''workspace_id'', ''user_id'']]"
  "tb_uniques create_provider_credentials = [[''workspace_id'', ''provider'']]"
  "tb_uniques create_jobs = [[''workspace_id'', ''idempotency_key'']]"
  "tb_uniques create_job_attempts = [[''job_id'', ''attempt_number'']]"
  "tb_uniques create_usage_budgets = [[''workspace_id'']]"
  "tb_uniques create_usage_reservations = [[''job_id'']]"
  "tb_uniques create_usage_ledger = []"
  "tb_uniques create_audit_events = []"
  "tb_uniques create_leads = []"
  "tb_uniques create_lead_evidence = []"
  "tb_uniques create_lead_attributes = [[''lead_id'', ''field_name'']]"
  "tb_uniques create_provider_references = [[''workspace_id'', ''provider'', ''external_id'']]"
  "tb_uniques create_retention_events = []"
  "tb_uniques create_workspace_privacy_policies = []"
  "tb_uniques create_contacts = []"
  "tb_uniques create_suppression_entries = [[''scope_key'', ''kind'', ''fingerprint'']]"
  "tb_uniques create_data_subject_requests = []"
  by code_simp+

section \<open>References\<close>

lemma content_rows:
  "rows_of (content_of d) ''users'' = map user_values (t_users d)"
  "rows_of (content_of d) ''sessions'' = map session_row_values (t_sessions d)"
  "rows_of (content_of d) ''mfa_credentials'' = map mfa_credential_values (t_mfa d)"
  "rows_of (content_of d) ''oidc_identities'' = map oidc_identity_values (t_oidc d)"
  "rows_of (content_of d) ''workspaces'' = map workspace_values (t_workspaces d)"
  "rows_of (content_of d) ''workspace_memberships'' = map membership_values (t_memberships d)"
  "rows_of (content_of d) ''provider_credentials'' = map provider_credential_values (t_credentials d)"
  "rows_of (content_of d) ''jobs'' = map job_values (t_jobs d)"
  "rows_of (content_of d) ''job_attempts'' = map job_attempt_values (t_job_attempts d)"
  "rows_of (content_of d) ''usage_budgets'' = map budget_values (t_budgets d)"
  "rows_of (content_of d) ''usage_reservations'' = map reservation_values (t_reservations d)"
  "rows_of (content_of d) ''usage_ledger'' = map ledger_entry_values (t_ledger d)"
  "rows_of (content_of d) ''audit_events'' = map audit_event_values (t_audit d)"
  "rows_of (content_of d) ''leads'' = map lead_row_values (t_leads d)"
  "rows_of (content_of d) ''lead_evidence'' = map evidence_row_values (t_evidence d)"
  "rows_of (content_of d) ''lead_attributes'' = map lead_attribute_values (t_attributes d)"
  "rows_of (content_of d) ''provider_references'' = map provider_reference_values (t_references d)"
  "rows_of (content_of d) ''retention_events'' = map retention_event_values (t_retention d)"
  "rows_of (content_of d) ''workspace_privacy_policies'' = map policy_row_values (t_policies d)"
  "rows_of (content_of d) ''contacts'' = map contact_values (t_contacts d)"
  "rows_of (content_of d) ''suppression_entries'' = map suppression_entry_values (t_suppressions d)"
  "rows_of (content_of d) ''data_subject_requests'' = map subject_request_values (t_requests d)"
  by (simp_all add: rows_of_def content_of_def)

lemma ids_map: "(\<And>y. map_of (g y) ''id'' = Some (V_uuid (k y))) \<Longrightarrow>
   set (List.map_filter (\<lambda>x. map_of x ''id'') (map g ys)) = V_uuid ` k ` set ys"
  by (induction ys) (auto simp: map_filter_simps)

lemma ids_declared:
  "set (List.map_filter (\<lambda>x. map_of x ''id'') (map user_values ys0)) = V_uuid ` us_id ` set ys0"
  "set (List.map_filter (\<lambda>x. map_of x ''id'') (map workspace_values ys1)) = V_uuid ` wo_id ` set ys1"
  "set (List.map_filter (\<lambda>x. map_of x ''id'') (map job_values ys2)) = V_uuid ` jo_id ` set ys2"
  "set (List.map_filter (\<lambda>x. map_of x ''id'') (map budget_values ys3)) = V_uuid ` bu_id ` set ys3"
  "set (List.map_filter (\<lambda>x. map_of x ''id'') (map lead_row_values ys4)) = V_uuid ` ld_id ` set ys4"
  "set (List.map_filter (\<lambda>x. map_of x ''id'') (map evidence_row_values ys5)) = V_uuid ` ev_id ` set ys5"
  "set (List.map_filter (\<lambda>x. map_of x ''id'') (map subject_request_values ys6)) = V_uuid ` ds_id ` set ys6"
  by (rule ids_map; simp add: user_values_def workspace_values_def job_values_def budget_values_def lead_row_values_def evidence_row_values_def subject_request_values_def)+

lemma uuid_among: "V_uuid a \<in> V_uuid ` S \<longleftrightarrow> a \<in> S"
  by auto

lemma optional_among:
  "optional_value V_uuid x = V_null \<or> optional_value V_uuid x \<in> V_uuid ` S \<longleftrightarrow> (case x of None \<Rightarrow> True | Some u \<Rightarrow> u \<in> S)"
  by (auto simp: optional_value_def split: option.split)

lemmas reference_defs = reference_meets_def column_of_def required_def defaulting_def primary_key_def references_def
  id_column_def timestamps_def content_rows ids_declared uuid_among optional_among refers_def refers_opt_def list.pred_map comp_def

lemma user_references:
  "list_all (reference_meets (content_of d) (map user_values xs)) (tb_columns create_users)
     \<longleftrightarrow> True"
  by (simp add: create_users_def user_values_def reference_defs cong: option.case_cong)

lemma session_row_references:
  "list_all (reference_meets (content_of d) (map session_row_values xs)) (tb_columns create_sessions)
     \<longleftrightarrow> refers se_user_id us_id xs (t_users d)"
  by (simp add: create_sessions_def session_row_values_def reference_defs cong: option.case_cong)

lemma mfa_credential_references:
  "list_all (reference_meets (content_of d) (map mfa_credential_values xs)) (tb_columns create_mfa_credentials)
     \<longleftrightarrow> refers mf_user_id us_id xs (t_users d)"
  by (simp add: create_mfa_credentials_def mfa_credential_values_def reference_defs cong: option.case_cong)

lemma oidc_identity_references:
  "list_all (reference_meets (content_of d) (map oidc_identity_values xs)) (tb_columns create_oidc_identities)
     \<longleftrightarrow> refers oi_user_id us_id xs (t_users d)"
  by (simp add: create_oidc_identities_def oidc_identity_values_def reference_defs cong: option.case_cong)

lemma workspace_references:
  "list_all (reference_meets (content_of d) (map workspace_values xs)) (tb_columns create_workspaces)
     \<longleftrightarrow> True"
  by (simp add: create_workspaces_def workspace_values_def reference_defs cong: option.case_cong)

lemma membership_references:
  "list_all (reference_meets (content_of d) (map membership_values xs)) (tb_columns create_workspace_memberships)
     \<longleftrightarrow> refers me_workspace_id wo_id xs (t_workspaces d) \<and> refers me_user_id us_id xs (t_users d)"
  by (simp add: create_workspace_memberships_def membership_values_def reference_defs cong: option.case_cong)

lemma provider_credential_references:
  "list_all (reference_meets (content_of d) (map provider_credential_values xs)) (tb_columns create_provider_credentials)
     \<longleftrightarrow> refers pc_workspace_id wo_id xs (t_workspaces d)"
  by (simp add: create_provider_credentials_def provider_credential_values_def reference_defs cong: option.case_cong)

lemma job_references:
  "list_all (reference_meets (content_of d) (map job_values xs)) (tb_columns create_jobs)
     \<longleftrightarrow> refers jo_workspace_id wo_id xs (t_workspaces d) \<and> refers jo_created_by us_id xs (t_users d)"
  by (simp add: create_jobs_def job_values_def reference_defs cong: option.case_cong)

lemma job_attempt_references:
  "list_all (reference_meets (content_of d) (map job_attempt_values xs)) (tb_columns create_job_attempts)
     \<longleftrightarrow> refers ja_job_id jo_id xs (t_jobs d)"
  by (simp add: create_job_attempts_def job_attempt_values_def reference_defs cong: option.case_cong)

lemma budget_references:
  "list_all (reference_meets (content_of d) (map budget_values xs)) (tb_columns create_usage_budgets)
     \<longleftrightarrow> refers bu_workspace_id wo_id xs (t_workspaces d)"
  by (simp add: create_usage_budgets_def budget_values_def reference_defs cong: option.case_cong)

lemma reservation_references:
  "list_all (reference_meets (content_of d) (map reservation_values xs)) (tb_columns create_usage_reservations)
     \<longleftrightarrow> refers re_workspace_id wo_id xs (t_workspaces d) \<and> refers re_budget_id bu_id xs (t_budgets d) \<and> refers re_job_id jo_id xs (t_jobs d)"
  by (simp add: create_usage_reservations_def reservation_values_def reference_defs cong: option.case_cong)

lemma ledger_entry_references:
  "list_all (reference_meets (content_of d) (map ledger_entry_values xs)) (tb_columns create_usage_ledger)
     \<longleftrightarrow> refers le_workspace_id wo_id xs (t_workspaces d) \<and> refers_opt le_job_id jo_id xs (t_jobs d)"
  by (simp add: create_usage_ledger_def ledger_entry_values_def reference_defs cong: option.case_cong)

lemma audit_event_references:
  "list_all (reference_meets (content_of d) (map audit_event_values xs)) (tb_columns create_audit_events)
     \<longleftrightarrow> refers_opt ae_workspace_id wo_id xs (t_workspaces d) \<and> refers_opt ae_actor_user_id us_id xs (t_users d)"
  by (simp add: create_audit_events_def audit_event_values_def reference_defs cong: option.case_cong)

lemma lead_row_references:
  "list_all (reference_meets (content_of d) (map lead_row_values xs)) (tb_columns create_leads)
     \<longleftrightarrow> refers ld_workspace_id wo_id xs (t_workspaces d) \<and> refers ld_job_id jo_id xs (t_jobs d)"
  by (simp add: create_leads_def lead_row_values_def reference_defs cong: option.case_cong)

lemma evidence_row_references:
  "list_all (reference_meets (content_of d) (map evidence_row_values xs)) (tb_columns create_lead_evidence)
     \<longleftrightarrow> refers ev_workspace_id wo_id xs (t_workspaces d) \<and> refers ev_lead_id ld_id xs (t_leads d)"
  by (simp add: create_lead_evidence_def evidence_row_values_def reference_defs cong: option.case_cong)

lemma lead_attribute_references:
  "list_all (reference_meets (content_of d) (map lead_attribute_values xs)) (tb_columns create_lead_attributes)
     \<longleftrightarrow> refers la_workspace_id wo_id xs (t_workspaces d) \<and> refers la_lead_id ld_id xs (t_leads d) \<and> refers_opt la_evidence_id ev_id xs (t_evidence d)"
  by (simp add: create_lead_attributes_def lead_attribute_values_def reference_defs cong: option.case_cong)

lemma provider_reference_references:
  "list_all (reference_meets (content_of d) (map provider_reference_values xs)) (tb_columns create_provider_references)
     \<longleftrightarrow> refers pr_workspace_id wo_id xs (t_workspaces d) \<and> refers pr_job_id jo_id xs (t_jobs d) \<and> refers_opt pr_lead_id ld_id xs (t_leads d)"
  by (simp add: create_provider_references_def provider_reference_values_def reference_defs cong: option.case_cong)

lemma retention_event_references:
  "list_all (reference_meets (content_of d) (map retention_event_values xs)) (tb_columns create_retention_events)
     \<longleftrightarrow> refers rt_workspace_id wo_id xs (t_workspaces d)"
  by (simp add: create_retention_events_def retention_event_values_def reference_defs cong: option.case_cong)

lemma policy_row_references:
  "list_all (reference_meets (content_of d) (map policy_row_values xs)) (tb_columns create_workspace_privacy_policies)
     \<longleftrightarrow> refers pp_workspace_id wo_id xs (t_workspaces d) \<and> refers_opt pp_updated_by us_id xs (t_users d)"
  by (simp add: create_workspace_privacy_policies_def policy_row_values_def reference_defs cong: option.case_cong)

lemma contact_references:
  "list_all (reference_meets (content_of d) (map contact_values xs)) (tb_columns create_contacts)
     \<longleftrightarrow> refers co_workspace_id wo_id xs (t_workspaces d) \<and> refers_opt co_lead_id ld_id xs (t_leads d) \<and> refers_opt co_source_request_id ds_id xs (t_requests d)"
  by (simp add: create_contacts_def contact_values_def reference_defs cong: option.case_cong)

lemma suppression_entry_references:
  "list_all (reference_meets (content_of d) (map suppression_entry_values xs)) (tb_columns create_suppression_entries)
     \<longleftrightarrow> refers_opt su_workspace_id wo_id xs (t_workspaces d) \<and> refers_opt su_created_by us_id xs (t_users d)"
  by (simp add: create_suppression_entries_def suppression_entry_values_def reference_defs cong: option.case_cong)

lemma subject_request_references:
  "list_all (reference_meets (content_of d) (map subject_request_values xs)) (tb_columns create_data_subject_requests)
     \<longleftrightarrow> refers ds_workspace_id wo_id xs (t_workspaces d) \<and> refers_opt ds_actor_user_id us_id xs (t_users d)"
  by (simp add: create_data_subject_requests_def subject_request_values_def reference_defs cong: option.case_cong)

section \<open>Integrity\<close>

lemmas rows_declared = user_declared session_row_declared mfa_credential_declared oidc_identity_declared workspace_declared membership_declared provider_credential_declared job_declared job_attempt_declared budget_declared reservation_declared ledger_entry_declared audit_event_declared lead_row_declared evidence_row_declared lead_attribute_declared provider_reference_declared retention_event_declared policy_row_declared contact_declared suppression_entry_declared subject_request_declared

lemmas references_declared = user_references session_row_references mfa_credential_references oidc_identity_references workspace_references membership_references provider_credential_references job_references job_attempt_references budget_references reservation_references ledger_entry_references audit_event_references lead_row_references evidence_row_references lead_attribute_references provider_reference_references retention_event_references policy_row_references contact_references suppression_entry_references subject_request_references

lemma table_meets_rows:
  "table_meets (content_of d) t \<longleftrightarrow> (let rows = rows_of (content_of d) (tb_name t) in
     list_all (row_meets t) rows \<and> list_all (key_meets rows) (primary_columns t # tb_uniques t)
     \<and> list_all (reference_meets (content_of d) rows) (tb_columns t))"
  by (simp add: table_meets_def)

lemma tables_meet:
  "table_meets (content_of d) create_users \<longleftrightarrow>
     list_all user_ok (t_users d)
     \<and> distinct_on us_id (t_users d)
     \<and> distinct_on us_email (t_users d)"
  "table_meets (content_of d) create_sessions \<longleftrightarrow>
     list_all session_row_ok (t_sessions d)
     \<and> distinct_on se_id (t_sessions d)
     \<and> refers se_user_id us_id (t_sessions d) (t_users d)"
  "table_meets (content_of d) create_mfa_credentials \<longleftrightarrow>
     distinct_on mf_user_id (t_mfa d)
     \<and> refers mf_user_id us_id (t_mfa d) (t_users d)"
  "table_meets (content_of d) create_oidc_identities \<longleftrightarrow>
     list_all oidc_identity_ok (t_oidc d)
     \<and> distinct_on oi_id (t_oidc d)
     \<and> distinct_on (\<lambda>r. (oi_provider r, oi_subject r)) (t_oidc d)
     \<and> refers oi_user_id us_id (t_oidc d) (t_users d)"
  "table_meets (content_of d) create_workspaces \<longleftrightarrow>
     list_all workspace_ok (t_workspaces d)
     \<and> distinct_on wo_id (t_workspaces d)
     \<and> distinct_on wo_slug (t_workspaces d)"
  "table_meets (content_of d) create_workspace_memberships \<longleftrightarrow>
     list_all membership_ok (t_memberships d)
     \<and> distinct_on me_id (t_memberships d)
     \<and> distinct_on (\<lambda>r. (me_workspace_id r, me_user_id r)) (t_memberships d)
     \<and> refers me_workspace_id wo_id (t_memberships d) (t_workspaces d)
     \<and> refers me_user_id us_id (t_memberships d) (t_users d)"
  "table_meets (content_of d) create_provider_credentials \<longleftrightarrow>
     list_all provider_credential_ok (t_credentials d)
     \<and> distinct_on pc_id (t_credentials d)
     \<and> distinct_on (\<lambda>r. (pc_workspace_id r, pc_provider r)) (t_credentials d)
     \<and> refers pc_workspace_id wo_id (t_credentials d) (t_workspaces d)"
  "table_meets (content_of d) create_jobs \<longleftrightarrow>
     list_all job_ok (t_jobs d)
     \<and> distinct_on jo_id (t_jobs d)
     \<and> distinct_on (\<lambda>r. (jo_workspace_id r, jo_idempotency_key r)) (t_jobs d)
     \<and> refers jo_workspace_id wo_id (t_jobs d) (t_workspaces d)
     \<and> refers jo_created_by us_id (t_jobs d) (t_users d)"
  "table_meets (content_of d) create_job_attempts \<longleftrightarrow>
     list_all job_attempt_ok (t_job_attempts d)
     \<and> distinct_on (\<lambda>r. (ja_job_id r, ja_attempt_number r)) (t_job_attempts d)
     \<and> refers ja_job_id jo_id (t_job_attempts d) (t_jobs d)"
  "table_meets (content_of d) create_usage_budgets \<longleftrightarrow>
     list_all budget_ok (t_budgets d)
     \<and> distinct_on bu_id (t_budgets d)
     \<and> distinct_on bu_workspace_id (t_budgets d)
     \<and> refers bu_workspace_id wo_id (t_budgets d) (t_workspaces d)"
  "table_meets (content_of d) create_usage_reservations \<longleftrightarrow>
     list_all reservation_ok (t_reservations d)
     \<and> distinct_on re_id (t_reservations d)
     \<and> distinct_on re_job_id (t_reservations d)
     \<and> refers re_workspace_id wo_id (t_reservations d) (t_workspaces d)
     \<and> refers re_budget_id bu_id (t_reservations d) (t_budgets d)
     \<and> refers re_job_id jo_id (t_reservations d) (t_jobs d)"
  "table_meets (content_of d) create_usage_ledger \<longleftrightarrow>
     list_all ledger_entry_ok (t_ledger d)
     \<and> refers le_workspace_id wo_id (t_ledger d) (t_workspaces d)
     \<and> refers_opt le_job_id jo_id (t_ledger d) (t_jobs d)"
  "table_meets (content_of d) create_audit_events \<longleftrightarrow>
     list_all audit_event_ok (t_audit d)
     \<and> refers_opt ae_workspace_id wo_id (t_audit d) (t_workspaces d)
     \<and> refers_opt ae_actor_user_id us_id (t_audit d) (t_users d)"
  "table_meets (content_of d) create_leads \<longleftrightarrow>
     list_all lead_row_ok (t_leads d)
     \<and> distinct_on ld_id (t_leads d)
     \<and> refers ld_workspace_id wo_id (t_leads d) (t_workspaces d)
     \<and> refers ld_job_id jo_id (t_leads d) (t_jobs d)"
  "table_meets (content_of d) create_lead_evidence \<longleftrightarrow>
     list_all evidence_row_ok (t_evidence d)
     \<and> distinct_on ev_id (t_evidence d)
     \<and> refers ev_workspace_id wo_id (t_evidence d) (t_workspaces d)
     \<and> refers ev_lead_id ld_id (t_evidence d) (t_leads d)"
  "table_meets (content_of d) create_lead_attributes \<longleftrightarrow>
     list_all lead_attribute_ok (t_attributes d)
     \<and> distinct_on (\<lambda>r. (la_lead_id r, la_field_name r)) (t_attributes d)
     \<and> refers la_workspace_id wo_id (t_attributes d) (t_workspaces d)
     \<and> refers la_lead_id ld_id (t_attributes d) (t_leads d)
     \<and> refers_opt la_evidence_id ev_id (t_attributes d) (t_evidence d)"
  "table_meets (content_of d) create_provider_references \<longleftrightarrow>
     list_all provider_reference_ok (t_references d)
     \<and> distinct_on pr_id (t_references d)
     \<and> distinct_on (\<lambda>r. (pr_workspace_id r, pr_provider r, pr_external_id r)) (t_references d)
     \<and> refers pr_workspace_id wo_id (t_references d) (t_workspaces d)
     \<and> refers pr_job_id jo_id (t_references d) (t_jobs d)
     \<and> refers_opt pr_lead_id ld_id (t_references d) (t_leads d)"
  "table_meets (content_of d) create_retention_events \<longleftrightarrow>
     list_all retention_event_ok (t_retention d)
     \<and> refers rt_workspace_id wo_id (t_retention d) (t_workspaces d)"
  "table_meets (content_of d) create_workspace_privacy_policies \<longleftrightarrow>
     list_all policy_row_ok (t_policies d)
     \<and> distinct_on pp_workspace_id (t_policies d)
     \<and> refers pp_workspace_id wo_id (t_policies d) (t_workspaces d)
     \<and> refers_opt pp_updated_by us_id (t_policies d) (t_users d)"
  "table_meets (content_of d) create_contacts \<longleftrightarrow>
     list_all contact_ok (t_contacts d)
     \<and> distinct_on co_id (t_contacts d)
     \<and> refers co_workspace_id wo_id (t_contacts d) (t_workspaces d)
     \<and> refers_opt co_lead_id ld_id (t_contacts d) (t_leads d)
     \<and> refers_opt co_source_request_id ds_id (t_contacts d) (t_requests d)"
  "table_meets (content_of d) create_suppression_entries \<longleftrightarrow>
     list_all suppression_entry_ok (t_suppressions d)
     \<and> distinct_on su_id (t_suppressions d)
     \<and> distinct_on (\<lambda>r. (su_scope_key r, su_kind r, su_fingerprint r)) (t_suppressions d)
     \<and> refers_opt su_workspace_id wo_id (t_suppressions d) (t_workspaces d)
     \<and> refers_opt su_created_by us_id (t_suppressions d) (t_users d)"
  "table_meets (content_of d) create_data_subject_requests \<longleftrightarrow>
     list_all subject_request_ok (t_requests d)
     \<and> distinct_on ds_id (t_requests d)
     \<and> refers ds_workspace_id wo_id (t_requests d) (t_workspaces d)
     \<and> refers_opt ds_actor_user_id us_id (t_requests d) (t_users d)"
  by (simp_all add: table_meets_rows Let_def table_shapes content_rows list.pred_map comp_def rows_declared primary_declared
      uniques_declared keys_declared keys_left_out references_declared list.pred_True)

text \<open>The state invariant's integrity is what the migrated database enforces.\<close>

lemma integrity_declared: "list_all (table_meets (content_of d)) (ct_tables (catalogue_3 pg)) \<longleftrightarrow> integrity_ok d"
  by (intro iffI; simp add: catalogue_defs tables_meet integrity_ok_def rows_ok_def keys_ok_def refs_ok_def)

end
