(* ===== verification/Row_Security.thy ===== *)
theory Row_Security
  imports Migrations Http
begin

text \<open>
  What the row security of the migrated database lets a runtime role do, a role that neither owns
  the tables nor bypasses their policies. PostgreSQL combines the policies of a table as its
  documentation says: with row security on, an operation needs one policy of its command that
  accepts the row, reading and removing by \<open>USING\<close>, writing by \<open>WITH CHECK\<close> or by \<open>USING\<close> where there
  is none. A row is what the policies look at, its workspace and its job. The session's workspace
  is the setting \<open>app.workspace_id\<close>, which \<open>set_workspace_context\<close> makes.
\<close>

record tenant_row =
  tr_workspace :: "uuid option"
  tr_job :: uuid

record tenant_session =
  ts_workspace :: "uuid option"
  ts_jobs :: "(uuid \<times> uuid) list"

datatype row_operation = Reads tenant_row | Inserts tenant_row | Updates tenant_row tenant_row | Deletes tenant_row

text \<open>A comparison with a missing setting or a missing workspace is unknown.\<close>

definition own_row :: "tenant_session \<Rightarrow> tenant_row \<Rightarrow> bool" where
  "own_row s r \<longleftrightarrow> ts_workspace s \<noteq> None \<and> tr_workspace r = ts_workspace s"

fun predicate_holds :: "(uuid \<Rightarrow> bool) \<Rightarrow> tenant_session \<Rightarrow> row_predicate \<Rightarrow> tenant_row \<Rightarrow> bool" where
  "predicate_holds job_seen s Own_workspace r = own_row s r"
| "predicate_holds job_seen s Null_or_own_workspace r = (tr_workspace r = None \<or> own_row s r)"
| "predicate_holds job_seen s Job_exists r = job_seen (tr_job r)"

definition policies_of :: "catalogue \<Rightarrow> string \<Rightarrow> policy_command \<Rightarrow> row_policy list" where
  "policies_of c t cmd = filter (\<lambda>p. po_table p = t \<and> po_command p \<in> {For_all, cmd}) (ct_policies c)"

definition using_accepts :: "(uuid \<Rightarrow> bool) \<Rightarrow> tenant_session \<Rightarrow> tenant_row \<Rightarrow> row_policy \<Rightarrow> bool" where
  "using_accepts job_seen s r p = (case po_using p of None \<Rightarrow> False | Some q \<Rightarrow> predicate_holds job_seen s q r)"

definition check_accepts :: "(uuid \<Rightarrow> bool) \<Rightarrow> tenant_session \<Rightarrow> tenant_row \<Rightarrow> row_policy \<Rightarrow> bool" where
  "check_accepts job_seen s r p =
    (case po_check p of None \<Rightarrow> using_accepts job_seen s r p | Some q \<Rightarrow> predicate_holds job_seen s q r)"

definition operation_accepted :: "(uuid \<Rightarrow> bool) \<Rightarrow> catalogue \<Rightarrow> tenant_session \<Rightarrow> string \<Rightarrow> row_operation \<Rightarrow> bool" where
  "operation_accepted job_seen c s t op \<longleftrightarrow>
    t \<notin> set (ct_enabled c) \<or>
    (case op of
       Reads r \<Rightarrow> list_ex (using_accepts job_seen s r) (policies_of c t For_select)
     | Inserts r \<Rightarrow> list_ex (check_accepts job_seen s r) (policies_of c t For_insert)
     | Updates r r' \<Rightarrow> list_ex (using_accepts job_seen s r) (policies_of c t For_update)
         \<and> list_ex (check_accepts job_seen s r') (policies_of c t For_update)
     | Deletes r \<Rightarrow> list_ex (using_accepts job_seen s r) (policies_of c t For_delete))"

text \<open>The subquery of a policy sees the jobs the role may read.\<close>

definition job_visible :: "catalogue \<Rightarrow> tenant_session \<Rightarrow> uuid \<Rightarrow> bool" where
  "job_visible c s j \<longleftrightarrow>
    list_ex (\<lambda>(i, ws). i = j \<and>
      operation_accepted (\<lambda>_. False) c s ''jobs'' (Reads \<lparr>tr_workspace = Some ws, tr_job = i\<rparr>)) (ts_jobs s)"

definition permitted :: "catalogue \<Rightarrow> tenant_session \<Rightarrow> string \<Rightarrow> row_operation \<Rightarrow> bool" where
  "permitted c s t op = operation_accepted (job_visible c s) c s t op"

section \<open>What tenants may do\<close>

text \<open>
  A tenant works on its own rows. Of the audit log it reads its own events and adds to it, its own
  or without a workspace, and changes nothing. Suppressions without a workspace are read and added
  by all. An attempt belongs to the workspace of its job.
\<close>

definition rows_in :: "row_operation \<Rightarrow> tenant_row list" where
  "rows_in op = (case op of Reads r \<Rightarrow> [r] | Inserts r \<Rightarrow> [r] | Updates r r' \<Rightarrow> [r, r'] | Deletes r \<Rightarrow> [r])"

definition own_or_null :: "tenant_session \<Rightarrow> tenant_row \<Rightarrow> bool" where
  "own_or_null s r \<longleftrightarrow> tr_workspace r = None \<or> own_row s r"

definition own_job :: "tenant_session \<Rightarrow> tenant_row \<Rightarrow> bool" where
  "own_job s r \<longleftrightarrow> list_ex (\<lambda>(i, ws). i = tr_job r \<and> ts_workspace s = Some ws) (ts_jobs s)"

definition tenant_access :: "tenant_session \<Rightarrow> string \<Rightarrow> row_operation \<Rightarrow> bool" where
  "tenant_access s t op =
    (if t = ''audit_events''
     then (case op of Reads r \<Rightarrow> own_row s r | Inserts r \<Rightarrow> own_or_null s r | Updates r r' \<Rightarrow> False | Deletes r \<Rightarrow> False)
     else if t = ''suppression_entries''
     then (case op of Reads r \<Rightarrow> own_or_null s r | Inserts r \<Rightarrow> own_or_null s r | _ \<Rightarrow> list_all (own_row s) (rows_in op))
     else if t = ''job_attempts'' then list_all (own_job s) (rows_in op)
     else list_all (own_row s) (rows_in op))"

text \<open>The tables whose rows belong to a workspace.\<close>

definition tenant_tables :: "string list" where
  "tenant_tables =
    [''provider_credentials'', ''jobs'', ''job_attempts'', ''usage_budgets'', ''usage_reservations'', ''usage_ledger'',
     ''audit_events'', ''leads'', ''lead_evidence'', ''lead_attributes'', ''provider_references'', ''retention_events'',
     ''workspace_privacy_policies'', ''contacts'', ''suppression_entries'', ''data_subject_requests'']"

definition isolates :: "catalogue \<Rightarrow> tenant_session \<Rightarrow> row_operation \<Rightarrow> bool" where
  "isolates c s op \<longleftrightarrow> list_all (\<lambda>t. permitted c s t op = tenant_access s t op) tenant_tables"

section \<open>The setting of a session\<close>

text \<open>
  \<open>set_workspace_context\<close> makes the setting on PostgreSQL, for the transaction; \<open>Database.session\<close> and
  \<open>db_session\<close> ask for it when they know a workspace.
\<close>

definition set_workspace_context :: "bool \<Rightarrow> uuid \<Rightarrow> tenant_session \<Rightarrow> tenant_session" where
  "set_workspace_context postgresql workspace_id s = (if postgresql then s\<lparr>ts_workspace := Some workspace_id\<rparr> else s)"

definition session_setting :: "bool \<Rightarrow> uuid option \<Rightarrow> (uuid \<times> uuid) list \<Rightarrow> tenant_session" where
  "session_setting postgresql workspace_id jobs =
    (let s = \<lparr>ts_workspace = None, ts_jobs = jobs\<rparr>
     in case workspace_id of None \<Rightarrow> s | Some w \<Rightarrow> set_workspace_context postgresql w s)"

definition request_setting :: "bool \<Rightarrow> string option \<Rightarrow> (uuid \<times> uuid) list \<Rightarrow> tenant_session res" where
  "request_setting postgresql workspace_value jobs =
    bind_res (if workspace_value \<in> {None, Some ''''} then Inr None
              else bind_res (workspace_uuid (the workspace_value)) (\<lambda>w. Inr (Some w)))
      (\<lambda>workspace_id. Inr (session_setting postgresql workspace_id jobs))"

lemma permitted_grants: "permitted (without_grants c) s t op = permitted c s t op"
proof -
  have p: "policies_of (without_grants c) = policies_of c"
    by (intro ext) (simp add: policies_of_def without_grants_def)
  then have o1: "operation_accepted seen (without_grants c) = operation_accepted seen c" for seen
    by (intro ext) (simp add: operation_accepted_def without_grants_def cong: row_operation.case_cong)
  then have "job_visible (without_grants c) s = job_visible c s" by (intro ext) (simp add: job_visible_def)
  then show ?thesis by (simp add: permitted_def o1)
qed

lemma policies_after:
  "list_all (\<lambda>t. t \<in> set (ct_enabled (catalogue_3 True)) \<and> t \<in> set (ct_forced (catalogue_3 True))) tenant_tables"
  by code_simp

text \<open>Which policies each table has, so that only few cases are left.\<close>

definition commands :: "policy_command list" where
  "commands = [For_select, For_insert, For_update, For_delete]"

definition plain :: "string \<Rightarrow> bool" where
  "plain t \<longleftrightarrow> t \<notin> {''audit_events'', ''suppression_entries'', ''job_attempts''}"

lemma all_enabled: "list_all (\<lambda>t. t \<in> set (ct_enabled (catalogue_3 True))) tenant_tables"
  by code_simp

lemma plain_policies:
  "list_all (\<lambda>t. list_all (\<lambda>cmd. policies_of (catalogue_3 True) t cmd = [isolation_of t]) commands) (filter plain tenant_tables)"
  by code_simp

lemma plain_accepted:
  assumes "t \<in> set tenant_tables" "plain t"
  shows "operation_accepted seen (catalogue_3 True) s t op = tenant_access s t op"
proof -
  have "policies_of (catalogue_3 True) t cmd = [isolation_of t]" if "cmd \<in> set commands" for cmd
    using plain_policies assms that unfolding list_all_iff by simp
  moreover have "t \<in> set (ct_enabled (catalogue_3 True))" using all_enabled assms(1) unfolding list_all_iff by blast
  ultimately show ?thesis using assms(2)
    by (cases op) (simp_all add: operation_accepted_def commands_def tenant_access_def plain_def rows_in_def using_accepts_def
        check_accepts_def isolation_of_def)
qed

lemma jobs_readable:
  "operation_accepted seen (catalogue_3 True) s ''jobs'' (Reads r) \<longleftrightarrow> own_row s r"
proof -
  have "''jobs'' \<in> set tenant_tables" "plain ''jobs''" by code_simp+
  then show ?thesis using plain_accepted by (simp add: tenant_access_def rows_in_def)
qed

lemma job_visible_own: "job_visible (catalogue_3 True) s (tr_job r) \<longleftrightarrow> own_job s r"
  by (auto simp: job_visible_def jobs_readable own_job_def own_row_def list_ex_iff)

lemma audit_policies:
  "policies_of (catalogue_3 True) ''audit_events'' For_select = [\<lparr>po_name = ''audit_events_workspace_read'', po_table = ''audit_events'',
     po_command = For_select, po_using = Some Own_workspace, po_check = None\<rparr>]"
  "policies_of (catalogue_3 True) ''audit_events'' For_insert = [\<lparr>po_name = ''audit_events_scoped_insert'', po_table = ''audit_events'',
     po_command = For_insert, po_using = None, po_check = Some Null_or_own_workspace\<rparr>]"
  "policies_of (catalogue_3 True) ''audit_events'' For_update = []"
  "policies_of (catalogue_3 True) ''audit_events'' For_delete = []"
  by code_simp+

lemma suppression_policies_of:
  "map po_using (policies_of (catalogue_3 True) ''suppression_entries'' For_select) = [Some Null_or_own_workspace]"
  "map po_check (policies_of (catalogue_3 True) ''suppression_entries'' For_insert) = [Some Null_or_own_workspace]"
  "map po_using (policies_of (catalogue_3 True) ''suppression_entries'' For_update) = [Some Own_workspace]"
  "map po_check (policies_of (catalogue_3 True) ''suppression_entries'' For_update) = [Some Own_workspace]"
  "map po_using (policies_of (catalogue_3 True) ''suppression_entries'' For_delete) = [Some Own_workspace]"
  by code_simp+

lemma attempt_policies:
  "list_all (\<lambda>cmd. map po_using (policies_of (catalogue_3 True) ''job_attempts'' cmd) = [Some Job_exists]
     \<and> map po_check (policies_of (catalogue_3 True) ''job_attempts'' cmd) = [Some Job_exists]) commands"
  by code_simp

lemma audit_accepted: "operation_accepted seen (catalogue_3 True) s ''audit_events'' op = tenant_access s ''audit_events'' op"
proof -
  have "''audit_events'' \<in> set (ct_enabled (catalogue_3 True))" by code_simp
  then show ?thesis
    by (cases op) (simp_all add: operation_accepted_def audit_policies tenant_access_def own_or_null_def using_accepts_def check_accepts_def)
qed

lemma suppression_accepted:
  "operation_accepted seen (catalogue_3 True) s ''suppression_entries'' op = tenant_access s ''suppression_entries'' op"
proof -
  have "''suppression_entries'' \<in> set (ct_enabled (catalogue_3 True))" by code_simp
  then show ?thesis using suppression_policies_of
    by (cases op) (auto simp: operation_accepted_def map_eq_Cons_conv tenant_access_def own_or_null_def rows_in_def using_accepts_def
        check_accepts_def)
qed

lemma attempts_accepted:
  assumes "\<And>r. seen (tr_job r) = own_job s r"
  shows "operation_accepted seen (catalogue_3 True) s ''job_attempts'' op = tenant_access s ''job_attempts'' op"
proof -
  have "''job_attempts'' \<in> set (ct_enabled (catalogue_3 True))" by code_simp
  then show ?thesis using attempt_policies
    by (cases op) (auto simp: commands_def operation_accepted_def map_eq_Cons_conv tenant_access_def rows_in_def using_accepts_def
        check_accepts_def assms)
qed

lemma accepted_as_told:
  assumes "\<And>r. seen (tr_job r) = own_job s r"
  shows "list_all (\<lambda>t. operation_accepted seen (catalogue_3 True) s t op = tenant_access s t op) tenant_tables"
  unfolding list_all_iff
proof
  fix t
  assume t: "t \<in> set tenant_tables"
  show "operation_accepted seen (catalogue_3 True) s t op = tenant_access s t op"
  proof (cases "plain t")
    case False
    then show ?thesis using audit_accepted suppression_accepted attempts_accepted [OF assms] unfolding plain_def by blast
  qed (rule plain_accepted [OF t])
qed

lemma migrated_isolates: "isolates (catalogue_3 True) s op"
  unfolding isolates_def permitted_def by (rule accepted_as_told) (rule job_visible_own)

text \<open>
  Without a workspace in its path a request sees no row of any tenant, suppressions of the whole
  platform apart; with one it sees that workspace's.
\<close>

lemma unscoped_sees_nothing:
  assumes "t \<in> set tenant_tables"
  shows "permitted (catalogue_3 True) (session_setting True None jobs) t (Reads r)
    \<longleftrightarrow> t = ''suppression_entries'' \<and> tr_workspace r = None"
proof -
  have "permitted (catalogue_3 True) (session_setting True None jobs) t (Reads r)
      = tenant_access (session_setting True None jobs) t (Reads r)"
    using migrated_isolates assms unfolding isolates_def list_all_iff by blast
  then show ?thesis
    by (auto simp: tenant_access_def session_setting_def own_row_def own_or_null_def own_job_def rows_in_def list_ex_iff)
qed

lemma scoped_request_reads:
  assumes "request_setting True (Some wt) jobs = Inr s" "wt \<noteq> ''''" "t \<in> set tenant_tables"
    and "t \<notin> {''suppression_entries'', ''job_attempts''}"
  shows "permitted (catalogue_3 True) s t (Reads r) \<longleftrightarrow> (case workspace_uuid wt of Inl e \<Rightarrow> False | Inr w \<Rightarrow> tr_workspace r = Some w)"
proof -
  have "permitted (catalogue_3 True) s t (Reads r) = tenant_access s t (Reads r)"
    using migrated_isolates assms(3) unfolding isolates_def list_all_iff by blast
  then show ?thesis using assms(1,2,4)
    by (auto simp: request_setting_def bind_res_Inr_iff session_setting_def set_workspace_context_def tenant_access_def own_row_def
        rows_in_def split: sum.splits)
qed

text \<open>Every table with a workspace is secured, memberships apart.\<close>

lemma unsecured_tables:
  "map tb_name (filter (\<lambda>t. ''workspace_id'' \<in> set (column_names t) \<and> tb_name t \<notin> set (ct_enabled (catalogue_3 True)))
     (ct_tables (catalogue_3 True))) = [''workspace_memberships'']"
  by code_simp

end
