(* ===== verification/Spec2Isabelle.thy ===== *)
theory Spec2Isabelle
  imports Cases Isolation Command_Line Licenses Site_Scenario Declared Row_Security
begin

text \<open>
  Lead Hunter: a multi-tenant service that runs paid lead-discovery jobs under hard budgets and
  keeps business contacts under privacy rules, and a command line that searches places, crawls
  their sites, audits them with a language model and exports the result. This development models
  the Python code under src/ and proves what its parts promise, alone and together.

  How the program is put together. The domain modules (src/src/domain) are pure values with
  their checks; the application services (src/src/application) change the database inside one
  session; the routes (src/src/web/routes) authenticate a request, call the services and map
  exceptions to status codes; the workers (src/src/workers) consume two queues. Beside the
  service stands the pipeline of src/main.py: provider, crawler, auditor and exporter, with the
  helpers of src/src/security between them and anything the web or a model wrote.

  Foundations. Prelude: the exceptions of the program as one datatype, results \<open>error + 'a\<close>,
  operations on lists of rows. PyText, PyValue, Lines, Title_Case: Python's text (code points
  below 256), dynamic values and floats (a rational, a NaN or an infinity). Regex, Pattern:
  regular expressions as languages, and the search, split and substitution of \<open>re\<close> with a
  matcher proved against the declarative matching relation. Urls, Url_Join, IpAddress,
  Sha256, Json: the parts of urllib, ipaddress, hashlib, hmac and json the code uses. All of this is
  the standard library, modelled where the code relies on it.

  The service. Models: the rows, columns and constraints of infrastructure/models.py. Transactions:
  sessions that commit or roll back (infrastructure/database.py). Usage, Identity, Discovery,
  Contacts: the domain values. Authorization, Audit_Log, Budgets, Jobs, Authentication, Crypto,
  Suppression, Privacy, Requests, Workspaces, Retention: the services, one operation per
  definition, in direct style \<open>args \<Rightarrow> db \<Rightarrow> 'a res \<times> db\<close>; the state is returned on errors too, and
  the session decides what survives. Http, Job_Routes, Web_Routes: dependencies, request bodies and
  handlers. System: requests, deliveries and scheduler rounds as one transition system, with its
  invariant; Safety: what no run can do (rewrite history, store a suppressed contact); Isolation: that no
  transition touches two tenants; Progress: who
  moves a limit, and that a delivered queue settles. Scenario, Cases: concrete installations at which
  the theorems are applied; Site_Scenario: a concrete search.

  The database. Schema: table declarations, what they ask of rows, and the metadata of
  infrastructure/models.py. Migrations (migrations/versions): the statements of each revision, up and
  down, on the catalogue of the database. Declared: the migrated tables are those of the metadata, and
  accept exactly the states whose integrity the services keep. Row_Security: what the row policies let
  the runtime roles do.

  The pipeline. Url_Policy (security/url_policy.py): validation, resolution to public addresses and
  the pin of every host. Crawl, Crawler (domain/crawl.py, crawler.py): evidence, results, a crawl from
  the policy check to the verdict. Guards, Untrusted (security/spreadsheet.py, presentation.py,
  privacy.py, geolocation.py, untrusted_content.py): what is done to text before it is shown, logged,
  exported or sent to a model. Audit_Output, Auditor (domain/audit.py, auditor.py, prompting.py): the
  contract of an audit, attempts, page cleaning, batches. Provenance (domain/provenance.py,
  application/provenance.py, application/discovery.py, application/export_policy.py): verified leads,
  storing them, and the gate before an export. Lead_Filters (filters.py), Exporter (exporter.py), Places
  (providers/discovery/google_places.py, scraper.py), Settings (settings.py, config.py,
  application/container.py, web/settings.py). Pipeline (main.py): the orchestrator, whose crawls and
  audits run side by side under an explicit schedule, and the search; Command_Line: the options of the
  command, their defaults and the order it looks at them. Frontends
  (src/src/tester.py, src/src/gui.py, src/src/server.py): the diagnostic run, what the interface shows,
  the services a server starts with. Licenses (scripts/check_licenses.py): the license check of the
  build.

  Interfaces. Four contracts are locales, each interpreted on the model of the code that provides
  it: \<open>unit_of_work\<close> (what a session does around an operation; the routes), \<open>reservation_books\<close>
  (what jobs need of budgets), \<open>suppression_list\<close> (what contacts need of suppression) and
  \<open>pinning_guard\<close> (what a crawl needs of the URL policy).

  What is shown. C1 to C9: the invariant of every reachable state, history that only grows, erased
  subjects that stay erased, limits only administrators move, a queue that drains, reservations that
  never exceed a limit, books that balance, idempotent creation, a job machine that ends. C10: no
  transition changes the rows of two tenants. C11 to C23 and C27: what each service does on every
  branch, with round trips and bounds, and that a search returns every accepted site (C22). C24 to
  C26: the migrated database is the one the rest assumes, enforces its integrity and isolates
  tenants. C28 to C31: error paths, the guard of provider payloads (C29) and three on which the code
  does not do what it means to. C32 to C40: crawl results backed by evidence, hosts pinned to public addresses, sanitized text without indicators, a payload that reads back, audits
  within their contract, the pipeline equal to its sequential reference whatever the schedule, leads
  that are backed, what the command line can export, and sheets without formulas.

  Parameters. Third-party code is an argument of the definitions that use it: password hashing, JWT,
  TOTP and AES-GCM primitives, the resolver and IDNA codec, Unicode normalisation, the HTML parser, the
  browser behind the crawler, the HTTP client of the provider, the model behind the auditor's API and
  the private prompt texts, openpyxl, the registry lookup. So are reading JSON and floats from text, the
  cosine, the clock, fresh identifiers and random tokens. Every theorem holds for all of them, or
  states what it needs of them as a hypothesis that its witness discharges.

  Bounds and fuel. Loops of the code are structural recursions; retries count down from the number of
  attempts the code allows, retention batches from the number of rows still due, JSON reading from the
  size of the value it reads. No result is defined by running out of fuel.

  Not modelled: the widgets, styles and progress of the Streamlit interface; argparse's reading of the
  words of a command line, the output of src/main.py and the messages of src/src/tester.py; wiring of
  FastAPI, workers, queues and connections (src/src/web/app.py, src/src/workers/runtime.py); key
  generation; the human-readable \<open>error\<close> text of a crawl, logging and waiting; surrogate keys of
  append-only tables and row timestamps; the superseded scripts (legacy); Alembic's environment and
  version table, and the bodies of the two SQL functions the migrations create. Sessions do not
  interleave inside a request, as their row locks make them commit; characters above 255 do not occur.
\<close>

section \<open>The whole system\<close>



text \<open>
  C2. History is append-only: along every run the audit events, ledger entries, suppression
  entries, data subject requests and retention events of the past stay, in their order.
\<close>

theorem history_append_only:
  "(system_step hmac_key)\<^sup>*\<^sup>* st st' \<Longrightarrow>
     prefix (t_audit (st_db st)) (t_audit (st_db st')) \<and> prefix (t_ledger (st_db st)) (t_ledger (st_db st'))
     \<and> prefix (t_suppressions (st_db st)) (t_suppressions (st_db st'))
     \<and> prefix (t_requests (st_db st)) (t_requests (st_db st'))
     \<and> prefix (t_retention (st_db st)) (t_retention (st_db st'))"
  using reachable_keeps by (auto simp: keeps_def history_grows_def)

theorem history_append_only_witness:
  "prefix (t_ledger live_db) (t_ledger (st_db (run_job_queue 1 0 ''db'' live_store)))"
  using history_append_only [of "[]" live_store "run_job_queue 1 0 ''db'' live_store"]
    run_job_queue_inv [OF live_inv, of "''db''" 1 0 "[]"]
  by (simp add: live_store_def)

text \<open>
  C3. An erased subject never comes back: once an erasure (or opposition) committed, no state
  reached afterwards, by any requests, holds a contact of the subject in that workspace, and
  the subject is still suppressed there.
\<close>

theorem erased_never_returns:
  assumes ok: "integrity_ok (st_db st)"
    and run: "run_session (on_db (erase_and_suppress hmac_key i now rid ws actor kind v scope rk)) st = (Inr r, st1)"
    and new: "find (\<lambda>q. ds_id q = rid) (t_requests (st_db st)) = None"
    and subject: "contact_kind_of kind = Inr k" "fingerprint hmac_key k v = Inr fp"
    and later: "(system_step hmac_key)\<^sup>*\<^sup>* st1 st2"
  shows "\<not> (\<exists>c. c \<in> set (t_contacts (st_db st2)) \<and> contact_matches ws k fp c)
    \<and> is_suppressed hmac_key ws k v (st_db st2) = Inr True"
proof -
  obtain d where d: "erase_and_suppress hmac_key i now rid ws actor kind v scope rk (st_db st) = (Inr r, d)"
    and st1: "st_db st1 = d"
    using run by (auto simp: run_on_db split: prod.splits sum.splits if_splits)
  note e = erase_effect [OF d new ok subject]
  have keep: "keeps d (st_db st2)" using reachable_keeps [OF later] by (simp add: st1)
  have "is_suppressed hmac_key ws k v d = Inr True" by (rule e(3)) simp
  then show ?thesis
    using keeps_erased [OF keep _ subject(2)] keeps_listed [OF keep] e(1) by auto
qed

theorem erased_never_returns_witness:
  "let later = snd (run_session (on_db (kept_on_error (persist_contacts demo_key 0 0 2 8 [(9, live_point)]))) erased_store)
   in \<not> (\<exists>c. c \<in> set (t_contacts (st_db later)) \<and> contact_matches 2 EMAIL live_fp c)
    \<and> is_suppressed demo_key 2 EMAIL ''Info@Acme.it'' (st_db later) = Inr True"
  unfolding Let_def
proof (rule erased_never_returns [OF _ erased_run])
  show "(system_step demo_key)\<^sup>*\<^sup>* erased_store
      (snd (run_session (on_db (kept_on_error (persist_contacts demo_key 0 0 2 8 [(9, live_point)]))) erased_store))"
    by (rule r_into_rtranclp, rule system_step.contacts_persisted, rule surjective_pairing)
qed (simp_all add: live_store_def live_integrity live_fingerprint contact_kind_of_def)



text \<open>
  C5. The worker empties the queue: from a reachable state, delivering each waiting message
  once leaves no message, no queued job and nothing reserved in any budget.
\<close>

theorem worker_drains_queue:
  assumes "system_inv st" "url \<noteq> ''''"
  shows "\<exists>st'. st' = run_job_queue (length (st_job_queue st)) now url st
    \<and> (system_step hmac_key)\<^sup>*\<^sup>* st st' \<and> st_job_queue st' = []
    \<and> list_all (\<lambda>j. jo_state j = ''failed'') (t_jobs (st_db st'))
    \<and> list_all (\<lambda>b. bu_reserved b = 0) (t_budgets (st_db st'))"
proof -
  let ?st = "run_job_queue (length (st_job_queue st)) now url st"
  have r: "system_inv ?st" "(system_step hmac_key)\<^sup>*\<^sup>* st ?st" "st_job_queue ?st = []"
    using run_job_queue_inv [OF assms, of "length (st_job_queue st)" now hmac_key] by simp_all
  then show ?thesis using empty_queue_settled [OF r(1,3)] by (auto simp: list_all_iff)
qed

theorem worker_drains_queue_witness:
  "length (st_job_queue live_store) = 1 \<and> bu_reserved live_budget = 5000000
   \<and> list_all (\<lambda>b. bu_reserved b = 0) (t_budgets (st_db (run_job_queue 1 0 ''postgresql://db'' live_store)))"
  using worker_drains_queue [OF live_inv, of "''postgresql://db''" 0 "[]"]
  by (simp add: live_store_def live_budget_def)

section \<open>Budgets and jobs\<close>

text \<open>
  C6. The hard stop: a reservation is granted exactly when what is spent, what is reserved and
  its cost together stay within the limit; a refused one changes nothing, a granted one
  reserves its cost and books it in the ledger.
\<close>

theorem hard_stop:
  assumes "integrity_ok d" "b \<in> set (t_budgets d)" "normalized_cost amount = Inr cost"
  shows "(bu_spent b + bu_reserved b + cost \<le> bu_hard_limit b
      \<and> (\<exists>r d'. reserve i (bu_workspace_id b) j amount d = (Inr r, d') \<and> re_amount r = cost \<and> re_state r = ''active''
           \<and> budget_by_id (bu_id b) d' = Some (b\<lparr>bu_reserved := bu_reserved b + cost\<rparr>)
           \<and> t_ledger d' = t_ledger d @ [ledger_row (bu_workspace_id b) (Some j) ''reservation'' cost]))
    \<or> (bu_hard_limit b < bu_spent b + bu_reserved b + cost
      \<and> (\<exists>e. reserve i (bu_workspace_id b) j amount d = (Inl e, d)))"
  using reserve_granted [OF assms] reserve_refused [OF assms] by (cases "bu_spent b + bu_reserved b + cost \<le> bu_hard_limit b") simp_all

theorem hard_stop_witness:
  "(\<exists>r d'. reserve 30 2 31 (CText ''95'') live_db = (Inr r, d') \<and> re_amount r = 95000000 \<and> re_state r = ''active''
      \<and> budget_by_id 4 d' = Some (live_budget\<lparr>bu_reserved := 100000000\<rparr>)
      \<and> t_ledger d' = t_ledger live_db @ [ledger_row 2 (Some 31) ''reservation'' 95000000])
   \<and> (\<exists>e. reserve 30 2 31 (CDec (DFin 95000001 (- 6))) live_db = (Inl e, live_db))"
proof -
  have c: "normalized_cost (CText ''95'') = Inr 95000000"
    by code_simp
  have c': "normalized_cost (CDec (DFin 95000001 (- 6))) = Inr 95000001"
    using column_cost_id [of 95000001] by (simp add: column_cost_def)
  show ?thesis
    using hard_stop [OF live_integrity _ c, of live_budget 30 31] hard_stop [OF live_integrity _ c', of live_budget 30 31]
    by simp
qed

text \<open>
  C7. The books stay balanced under every operation of the budget service: after a successful
  reservation, settlement, release or override each budget still agrees with its reservations
  and its ledger and stays within its limit.
\<close>

theorem books_stay_balanced:
  assumes "budget_inv d" "integrity_ok d"
    and "reserve i ws j amount d = (Inr r, d') \<or> settle now j amount provider units d = (Inr s, d')
      \<or> release now j reason d = (Inr s, d') \<or> override_limit ws actor amount reason d = (Inr s, d')"
  shows "budget_inv d'"
  using assms(3)
  by (elim disjE)
    (erule reserve_inv [OF assms(1) budget_keys [OF assms(2)]] settle_inv [OF assms(1,2)]
       release_inv [OF assms(1,2)] override_limit_inv [OF assms(1,2)])+

theorem books_stay_balanced_witness:
  "\<exists>s d'. settle 50 6 (CText ''3.5'') None None live_db = (Inr s, d') \<and> budget_inv d'
    \<and> sn_spent s = 3500000 \<and> sn_reserved s = 0"
proof -
  have "normalized_cost (CText ''3.5'') = Inr 3500000" by code_simp
  then obtain s d' where r: "settle 50 6 (CText ''3.5'') None None live_db = (Inr s, d')" "sn_spent s = 3500000"
      "sn_reserved s = 0"
    by (auto simp: settle_def active_reservation_def reservation_of_job_def live_reservation_def settle_amounts_def
        budget_by_id_def live_budget_def demo_budget_def new_budget_def budget_columns_def optional_units_def
        snapshot_def over_threshold_def Let_def)
  have "budget_inv live_db" using live_inv by (simp add: system_inv_def live_store_def)
  from books_stay_balanced [OF this live_integrity disjI2 [OF disjI1 [OF r(1)]]] r show ?thesis by blast
qed

text \<open>
  C8. Creating a job is idempotent: after a creation succeeded, creating again with the same
  key (up to surrounding white space) in the same workspace returns the same job, whatever the
  other arguments, and touches nothing.
\<close>

theorem create_idempotent:
  assumes "create (reserve ri) i ws u kind ps cost key s = (Inr x, s')"
    and "py_strip key' = py_strip key" "ensure_provider_payload_absent ps' = Inr ()"
  shows "create (reserve ri') i' ws u' kind' ps' cost' key' s' = (Inr \<lparr>jc_job = jc_job x, jc_created = False\<rparr>, s')"
  using assms(1)
proof (cases rule: create_Inr)
  case (old j)
  then have "job_by_key ws (py_strip key) (work s') = Some (jc_job x)" by simp
  then show ?thesis using assms old create_key_ok [OF assms(1)] by (simp add: create_def Let_def)
next
  case (new c r d2)
  have "t_jobs (work s') = t_jobs (work s) @ [jc_job x]"
    using books.hold_jobs [OF new(7)] by (simp add: new(8))
  then have "job_by_key ws (py_strip key) (work s') = Some (jc_job x)"
    using new(1,6) by (simp add: job_by_key_def find_append new_job_def)
  then show ?thesis using assms(2,3) create_key_ok [OF assms(1)] by (simp add: create_def Let_def)
qed

theorem create_idempotent_witness:
  "\<exists>x s'. create (reserve 7) 6 2 1 ''discovery'' (VDict []) (CText ''5'') ''key-1'' (begin_session demo_db) = (Inr x, s')
    \<and> jc_created x
    \<and> create (reserve 9) 8 2 1 ''other'' VNone (CText ''7'') '' key-1 '' s' = (Inr \<lparr>jc_job = jc_job x, jc_created = False\<rparr>, s')"
proof -
  have c: "normalized_cost (CText ''5'') = Inr 5000000" "normalized_cost (CDec (DFin 5000000 (- 6))) = Inr 5000000"
    "py_strip ''key-1'' = ''key-1''" "py_strip '' key-1 '' = ''key-1''"
    by code_simp+
  have "\<exists>x s'. create (reserve 7) 6 2 1 ''discovery'' (VDict []) (CText ''5'') ''key-1'' (begin_session demo_db) = (Inr x, s')
      \<and> jc_created x"
    by (simp add: create_def Let_def c begin_session_def demo_db_def empty_db_def has_payload_key_def dict_keys_def job_by_key_def
        reserve_def budget_of_workspace_def demo_budget_def new_budget_def committed_plus_def)
  then show ?thesis using create_idempotent c(3,4) by fastforce
qed

text \<open>
  C9. The job state machine: every run through \<open>ensure_job_transition\<close> makes at most three
  transitions, a terminal state has none, and every state that is not terminal can be cancelled.
\<close>

theorem job_machine_terminates:
  "(job_run x ys z \<longrightarrow> length ys \<le> 3 \<and> (x \<in> set terminal_job_states \<longrightarrow> ys = []))
   \<and> (x \<notin> set terminal_job_states \<longleftrightarrow>
        ensure_job_transition (job_state_value x) (job_state_value CANCELLED) = Inr ())"
proof -
  have "steps_left x \<le> 3" by (cases x) simp_all
  then show ?thesis
    using job_run_length [of x ys z] job_run_terminal [of x ys z] can_cancel [of x] ensure_job_transition_iff [of x CANCELLED]
    by auto
qed

theorem job_machine_terminates_witness:
  "length [VALIDATING, RUNNING, COMPLETED] \<le> 3 \<and> job_run QUEUED [VALIDATING, RUNNING, COMPLETED] COMPLETED
   \<and> ensure_job_transition ''queued'' ''cancelled'' = Inr ()"
proof -
  have r: "job_run QUEUED [VALIDATING, RUNNING, COMPLETED] COMPLETED"
    by (intro job_run.intros) (simp_all add: ensure_job_transition_iff del: job_state_value.simps)
  then show ?thesis
    using job_machine_terminates [of QUEUED "[VALIDATING, RUNNING, COMPLETED]" COMPLETED]
    by (simp add: terminal_job_states_def)
qed

section \<open>Access\<close>

text \<open>
  C10. Tenants stay apart. Whatever one transition of the system does, from any state it can reach, the
  rows of at most one workspace change: its credentials, jobs, budgets, reservations, ledger, audit
  events, leads with their evidence, attributes and references, retention events, privacy policy,
  contacts, suppressions and requests of data subjects.
\<close>

theorem tenants_stay_apart:
  assumes "(system_step hmac_key)\<^sup>*\<^sup>* empty_store st" "system_step hmac_key st st'"
  shows "\<exists>ws. \<forall>v. v = ws \<or> rows_of_tenant v (st_db st') = rows_of_tenant v (st_db st)"
  using step_tenant [OF assms(2) system_inv_reachable [OF assms(1) system_inv_empty] linked_reachable [OF assms(1)]]
  by (simp add: one_tenant_def confined_def)

theorem tenants_stay_apart_witness:
  "td_budgets (rows_of_tenant 2 (st_db demo_store)) = [demo_budget]
   \<and> (\<exists>ws. \<forall>v. v = ws \<or> rows_of_tenant v (st_db demo_store) = rows_of_tenant v (st_db empty_store))"
proof
  show "td_budgets (rows_of_tenant 2 (st_db demo_store)) = [demo_budget]"
    by (simp add: demo_store_eq demo_db_def rows_of_tenant_def demo_budget_def new_budget_def)
  have "system_step [] empty_store demo_store"
    by (rule system_step.bootstrap [where passwords = demo_passwords and ids = demo_ids and env = demo_env])
      (simp add: demo_store_def prod_eq_iff)
  then show "\<exists>ws. \<forall>v. v = ws \<or> rows_of_tenant v (st_db demo_store) = rows_of_tenant v (st_db empty_store)"
    by (rule tenants_stay_apart [OF rtranclp.rtrancl_refl])
qed

text \<open>
  C11. A permission is granted exactly to members whose role carries it, with a verified second
  factor where it manages something; managing permissions reach administrators only, and a
  refusal is always \<open>AuthorizationDenied\<close>.
\<close>

theorem permission_exact:
  "(require_permission u ws p mfa d = Inr r \<longleftrightarrow>
     (\<exists>m. membership_of u ws d = Some m \<and> me_role m = role_value r \<and> p \<in> set (role_permissions r)
        \<and> (mfa \<or> \<not> is_manage p)))
   \<and> (require_permission u ws p mfa d = Inr r \<and> is_manage p \<longrightarrow> r = Role_ADMIN)
   \<and> (require_permission u ws p mfa d = Inl e \<longrightarrow> is_AuthorizationDenied e)"
  using require_permission_Inr_iff [of u ws p mfa d r] require_permission_Inl [of u ws p mfa d e]
    manage_needs_admin [of p r] by auto

theorem permission_exact_witness:
  "require_permission 1 2 MANAGE_BUDGET True live_db = Inr Role_ADMIN
   \<and> me_role demo_membership = role_value Role_ADMIN"
proof -
  have "membership_of 1 2 live_db = Some demo_membership" by (simp add: membership_of_def demo_membership_def)
  then show ?thesis
    using permission_exact [of 1 2 MANAGE_BUDGET True live_db Role_ADMIN] live_admin [of MANAGE_BUDGET] by auto
qed



text \<open>
  C13. Replaying a stale refresh token kills the session for good: the revocation survives the
  rollback of the failed request, and afterwards neither a refresh nor an access token of that
  session is accepted.
\<close>

theorem replay_revokes:
  assumes "session_by_id i (st_db st) = Some r" "se_revoked_at r = None" "now < se_expires_at r" "session_hashes_ok r"
    and "se_refresh_token_hash r \<noteq> hash_opaque_token t \<or> se_csrf_token_hash r \<noteq> hash_opaque_token c"
    and "integrity_ok (put_session (r\<lparr>se_revoked_at := Some now\<rparr>) (st_db st))"
  shows "\<exists>st'. run_session (refresh_auth svc w now i t c) st = (session_invalid, st')
    \<and> run_session (refresh_auth svc w' later i t' c') st' = (session_invalid, st')
    \<and> (token_decode (as_tokens svc) later token = Inr claims \<and> uuid_parse (tk_session_id claims) = Inr i \<longrightarrow>
        authenticate_access_token svc later token (st_db st') = (session_invalid, st_db st'))"
proof (intro exI conjI impI)
  let ?r = "r\<lparr>se_revoked_at := Some now\<rparr>"
  let ?st = "st\<lparr>st_db := put_session ?r (st_db st)\<rparr>"
  show "run_session (refresh_auth svc w now i t c) st = (session_invalid, ?st)" by (rule refresh_replay [OF assms])
  have gone: "session_by_id i (st_db ?st) = Some ?r" using session_by_id_put [OF assms(1), of ?r i] by simp
  show "run_session (refresh_auth svc w' later i t' c') ?st = (session_invalid, ?st)"
    using refresh_revoked [of i "begin_session (st_db ?st)" ?r svc w' later t' c'] gone
    by (simp add: run_session_def begin_session_def session_invalid_def rollback_session_def end_session_def)
  assume "token_decode (as_tokens svc) later token = Inr claims \<and> uuid_parse (tk_session_id claims) = Inr i"
  then show "authenticate_access_token svc later token (st_db ?st) = (session_invalid, st_db ?st)"
    using authenticate_revoked [OF gone] by simp
qed

theorem replay_revokes_witness:
  "\<exists>st'. run_session (refresh_auth demo_svc demo_drawn 1 5 ''refresh'' ''csrf'') rotated_store = (session_invalid, st')
    \<and> run_session (refresh_auth demo_svc demo_drawn 2 5 ''r'' ''c'') st' = (session_invalid, st')
    \<and> authenticate_access_token demo_svc 2 live_token (st_db st') = (session_invalid, st_db st')"
proof -
  let ?claims = "\<lparr>tk_user_id = uuid_text 1, tk_session_id = uuid_text 5, tk_session_version = 1, tk_mfa_verified = True\<rparr>"
  have r: "session_by_id 5 (st_db rotated_store) = Some rotated_session" "se_revoked_at rotated_session = None"
    "1 < se_expires_at rotated_session"
    by (simp_all add: session_by_id_def rotated_store_def) (simp_all add: rotated_session_def live_session_def)
  have t: "token_decode (as_tokens demo_svc) 2 live_token = Inr ?claims"
    unfolding live_token_def demo_svc_def auth_service.simps
    by (rule token_decode_issue [OF demo_tokens_decode]) (simp_all add: demo_tokens_def)
  have n: "se_refresh_token_hash rotated_session \<noteq> hash_opaque_token ''refresh''
      \<or> se_csrf_token_hash rotated_session \<noteq> hash_opaque_token ''csrf''"
    using rotated_differs by blast
  show ?thesis
    using replay_revokes [OF r rotated_hashes n rotated_integrity, where svc = demo_svc and claims = ?claims
        and token = live_token and later = 2 and w' = demo_drawn and t' = "''r''" and c' = "''c''" and w = demo_drawn] t
    by auto
qed



text \<open>
  C15. A stored provider secret comes back: what \<open>put\<close> encrypted, \<open>resolve\<close> returns, under any
  spelling of the provider's name that normalises the same way, given only that the cipher
  library decrypts what it encrypted.
\<close>

theorem secret_stored_and_resolved:
  assumes "aead_lib enc dec" "length nonce = 12" "\<forall>b \<in> set nonce. b < 256"
    and "credential_put enc key nonce i now ws u provider value d = (Inr s, d')"
    and "py_lower (py_strip provider') = py_lower (py_strip provider)"
  shows "credential_resolve dec key ws provider' d' = Inr value"
  by (rule credential_put_resolve [OF assms])

theorem secret_stored_and_resolved_witness:
  "\<exists>s d'. credential_put demo_encrypt demo_key (replicate 12 0) 40 0 2 1 ''OpenAI '' ''sk-1234'' live_db = (Inr s, d')
    \<and> credential_resolve demo_decrypt demo_key 2 ''openai'' d' = Inr ''sk-1234''"
proof -
  obtain s d' where
    put: "credential_put demo_encrypt demo_key (replicate 12 0) 40 0 2 1 ''OpenAI '' ''sk-1234'' live_db = (Inr s, d')"
    using demo_secret_put by blast
  have "py_lower (py_strip ''openai'') = py_lower (py_strip ''OpenAI '')" by code_simp
  from secret_stored_and_resolved [OF demo_aead _ _ put this] put show ?thesis by auto
qed

section \<open>Personal data\<close>

text \<open>
  C16. Erasure removes exactly the subject's contacts in the workspace, reports how many,
  records the request and suppresses the subject; repeating the request with its identifier
  answers the same and changes nothing.
\<close>

theorem erase_exact:
  assumes "erase_and_suppress key i now rid ws actor kind v scope rk d = (Inr r, d')"
    and "find (\<lambda>r. ds_id r = rid) (t_requests d) = None" "integrity_ok d"
    and "contact_kind_of kind = Inr k" "fingerprint key k v = Inr fp"
  shows "set (t_contacts d') = {c \<in> set (t_contacts d). \<not> contact_matches ws k fp c}
    \<and> ds_deleted_count r = int (length (filter (contact_matches ws k fp) (t_contacts d)))
    \<and> t_requests d' = t_requests d @ [r] \<and> is_suppressed key ws k v d' = Inr True
    \<and> erase_and_suppress key i' now' rid ws actor' kind v scope' rk d' = (Inr r, d')"
  using erase_effect [OF assms] erase_repeat [OF assms(1,2)] by simp

theorem erase_exact_witness:
  "set (t_contacts erased_db) = {} \<and> ds_deleted_count erased_request = 1
   \<and> erase_and_suppress demo_key 22 200 21 2 None ''email'' ''Info@Acme.it'' ''global'' ''erasure'' erased_db
      = (Inr erased_request, erased_db)"
  using erase_exact [OF erased_result _ live_integrity _ live_fingerprint(2),
      where i' = 22 and now' = 200 and actor' = None and scope' = "''global''"]
  by (simp add: contact_kind_of_def erased_db_def erased_request_def completed_request_def)

text \<open>
  C17. Persisting contacts stores exactly those that are neither expired, nor refused by the
  policy gate, nor suppressed, as rows with their fingerprint in the given order, and counts
  every contact in one of the four outcomes.
\<close>

theorem persist_exact:
  assumes "persist_contacts k cutoff clock ws lead cs d = Inr (n, d')"
  shows "\<exists>policy rows. policy_get ws d = Inr policy \<and> d' = d\<lparr>t_contacts := t_contacts d @ rows\<rparr>
    \<and> length rows = rs_persisted n \<and> outcome_count n = length cs
    \<and> list_all2 (\<lambda>(i, c) row. \<exists>fp. fingerprint k (cp_kind c) (cp_normalized_value c) = Inr fp
            \<and> row = contact_row k i ws lead c fp)
        (filter (\<lambda>(i, c). cutoff < instant (cp_expires_at c) \<and> require_contact_allowed c policy clock = Inr ()
            \<and> is_suppressed k ws (cp_kind c) (cp_normalized_value c) d = Inr False) cs) rows"
proof -
  obtain policy where "policy_get ws d = Inr policy" "persist_loop k cutoff clock ws lead policy cs
      (\<lparr>rs_persisted = 0, rs_suppressed = 0, rs_policy_rejected = 0, rs_expired = 0\<rparr>, d) = Inr (n, d')"
    using assms by (auto simp: persist_contacts_def bind_res_Inr_iff)
  then show ?thesis using persist_loop_Inr by (fastforce simp: storable_def outcome_count_def)
qed

theorem persist_exact_witness:
  "\<exists>n d' row. persist_contacts demo_key 0 0 2 8 [(12, live_point), (13, live_point\<lparr>cp_expires_at := Aware 0\<rparr>)] live_db = Inr (n, d')
    \<and> rs_persisted n = 1 \<and> rs_expired n = 1 \<and> t_contacts d' = [live_contact, row]"
proof -
  let ?cs = "[(12, live_point), (13, live_point\<lparr>cp_expires_at := Aware 0\<rparr>)]"
  have "is_suppressed demo_key 2 EMAIL ''info@acme.it'' live_db = Inr False"
    by (simp add: is_suppressed_def live_fingerprint)
  then have "\<exists>n d'. persist_contacts demo_key 0 0 2 8 ?cs live_db = Inr (n, d') \<and> rs_persisted n = 1 \<and> rs_expired n = 1"
    by (simp add: persist_contacts_def policy_get_def persist_one_def live_point_def require_contact_allowed_def
        live_fingerprint day_us_def)
  then obtain n d' where run: "persist_contacts demo_key 0 0 2 8 ?cs live_db = Inr (n, d')" "rs_persisted n = 1"
    "rs_expired n = 1" by blast
  from persist_exact [OF run(1)] run show ?thesis
    by (auto simp: length_Suc_conv)
qed

text \<open>
  C18. An export deletes what has expired and returns, ordered by value, exactly the remaining
  contacts of the workspace that the export decision admits; nothing suppressed, and no named
  professional without a complete policy covering the contact's lifetime, is ever in it.
\<close>

theorem export_exact:
  assumes "exportable_contacts k cutoff ws d = (Inr xs, d')"
  shows "\<exists>policy. policy_get ws d = Inr policy \<and> d' = purge_for_export ws cutoff d
    \<and> sorted (map co_normalized_value xs)
    \<and> set xs = {c \<in> set (t_contacts d). co_workspace_id c = ws \<and> cutoff < co_expires_at c
         \<and> export_decision k ws policy d' c = Inr True}
    \<and> (\<forall>c \<in> set xs. \<exists>kind. contact_kind_of (co_kind c) = Inr kind
         \<and> is_suppressed k ws kind (co_normalized_value c) d' = Inr False
         \<and> (co_classification c = ''named_professional'' \<longrightarrow> (\<exists>p. policy = Some p \<and> policy_is_complete p
              \<and> co_expires_at c \<le> co_collected_at c + vp_named_contact_retention_days p * day_us)))"
proof -
  obtain policy where p: "policy_get ws d = Inr policy"
    and xs: "set xs = {c \<in> set (t_contacts d). co_workspace_id c = ws \<and> cutoff < co_expires_at c
       \<and> exportable k ws policy d' c}"
    and q: "sorted (map co_normalized_value xs)" "d' = purge_for_export ws cutoff d"
    and decided: "\<forall>c \<in> set (t_contacts d). co_workspace_id c = ws \<and> cutoff < co_expires_at c \<longrightarrow>
       ok_res (export_decision k ws policy d' c)"
    using assms by (rule exportable_contacts_Inr)
  have "\<forall>c \<in> set xs. export_decision k ws policy d' c = Inr True" using xs by (simp add: exportable_def)
  with p xs q show ?thesis by (intro exI [of _ policy]) (simp add: exportable_def export_decision_True)
qed

theorem export_exact_witness:
  "\<exists>xs. exportable_contacts demo_key 0 2 live_db = (Inr xs, purge_for_export 2 0 live_db) \<and> set xs = {live_contact}"
proof -
  have p: "t_contacts (purge_for_export 2 0 live_db) = [live_contact]"
    by (simp add: purge_for_export_contacts del_rows_def expired_contact_def live_defs day_us_def)
  have "policy_get 2 (purge_for_export 2 0 live_db) = Inr None"
    by (simp add: policy_get_def purge_for_export_contacts)
  moreover have "is_suppressed demo_key 2 EMAIL ''info@acme.it'' (purge_for_export 2 0 live_db) = Inr False"
    by (simp add: is_suppressed_def live_fingerprint purge_for_export_contacts)
  ultimately have "\<exists>xs. exportable_contacts demo_key 0 2 live_db = (Inr xs, purge_for_export 2 0 live_db)"
      "export_decision demo_key 2 None (purge_for_export 2 0 live_db) live_contact = Inr True"
    by (simp_all add: exportable_contacts_def Let_def p export_decision_def live_contact_def contact_row_def live_point_def
        contact_kind_of_def)
  then obtain xs where run: "exportable_contacts demo_key 0 2 live_db = (Inr xs, purge_for_export 2 0 live_db)" by blast
  have n: "policy_get 2 live_db = Inr None" by (simp add: policy_get_def)
  have w: "co_workspace_id live_contact = 2" "0 < co_expires_at live_contact" by (simp_all add: live_defs day_us_def)
  from export_exact [OF run] n have "set xs = {c \<in> set (t_contacts live_db). co_workspace_id c = 2 \<and> 0 < co_expires_at c
      \<and> export_decision demo_key 2 None (purge_for_export 2 0 live_db) c = Inr True}" by auto
  also have "\<dots> = {live_contact}"
    using w \<open>export_decision demo_key 2 None (purge_for_export 2 0 live_db) live_contact = Inr True\<close> by auto
  finally show ?thesis using run by blast
qed

text \<open>
  C19. Retention terminates and is complete: from one queued message, as many deliveries as
  there are full batches of 500 plus one empty the queue, delete every expired contact of the
  workspace and keep all the others.
\<close>

theorem retention_drains:
  assumes "integrity_ok (st_db st)" "ws \<in> wo_id ` set (t_workspaces (st_db st))" "url \<noteq> ''''"
    and "st_retention_queue st = [uuid_text ws]"
  shows "let st' = run_retention_queue (Suc (expired_count ws now (st_db st) div 500)) now url st
    in st_retention_queue st' = [] \<and> expired_count ws now (st_db st') = 0
     \<and> (\<forall>c \<in> set (t_contacts (st_db st)). \<not> expired_contact ws now c \<longrightarrow> c \<in> set (t_contacts (st_db st')))"
  unfolding Let_def by (rule drain [OF assms])

theorem retention_drains_witness:
  "expired_count 2 (366 * day_us) live_db = 1
   \<and> expired_count 2 (366 * day_us) (st_db (run_retention_queue 1 (366 * day_us) ''db''
        (live_store\<lparr>st_retention_queue := [uuid_text 2]\<rparr>))) = 0"
proof -
  have n: "expired_count 2 (366 * day_us) live_db = 1"
    by (simp add: expired_count_def expired_contact_def live_defs day_us_def)
  then show ?thesis
    using retention_drains [of "live_store\<lparr>st_retention_queue := [uuid_text 2]\<rparr>" 2 "''db''" "366 * day_us"]
    by (simp add: live_store_def live_integrity demo_workspace_def Let_def)
qed

text \<open>
  C20. A suppression holds for every spelling of the identifier that normalises the same way,
  in its workspace or, if global, in all of them, and survives any later entries; a workspace
  entry suppresses nothing in another workspace.
\<close>

theorem suppression_holds:
  assumes "suppress key i ws k v scope reason actor d = (Inr e, d')"
  shows "((scope = GLOBAL \<or> ws' = ws) \<and> normalize_identifier k v' = normalize_identifier k v \<longrightarrow>
           is_suppressed key ws' k v' (d'\<lparr>t_suppressions := t_suppressions d' @ es\<rparr>) = Inr True)
    \<and> (scope = WORKSPACE \<and> ws' \<noteq> ws \<and> is_suppressed key ws' k' u d = Inr False \<longrightarrow>
           is_suppressed key ws' k' u d' = Inr False)"
proof
  show "(scope = GLOBAL \<or> ws' = ws) \<and> normalize_identifier k v' = normalize_identifier k v \<longrightarrow>
           is_suppressed key ws' k v' (d'\<lparr>t_suppressions := t_suppressions d' @ es\<rparr>) = Inr True"
    using suppressing.listed_entry [OF assms, of ws'] suppressing.listed_normal [of k v' v] is_suppressed_more by fastforce
  show "scope = WORKSPACE \<and> ws' \<noteq> ws \<and> is_suppressed key ws' k' u d = Inr False \<longrightarrow>
           is_suppressed key ws' k' u d' = Inr False"
    using workspace_scope_local [of ws' ws] assms by auto
qed

theorem suppression_holds_witness:
  "\<exists>e d'. suppress demo_key 50 2 EMAIL ''Info@Acme.it'' WORKSPACE ''opt-out'' None live_db = (Inr e, d')
    \<and> is_suppressed demo_key 2 EMAIL ''info@acme.it'' d' = Inr True
    \<and> is_suppressed demo_key 3 EMAIL ''info@acme.it'' d' = Inr False"
proof -
  have "\<exists>e d'. suppress demo_key 50 2 EMAIL ''Info@Acme.it'' WORKSPACE ''opt-out'' None live_db = (Inr e, d')"
    by (simp add: suppress_def live_fingerprint Let_def)
  then obtain e d' where run: "suppress demo_key 50 2 EMAIL ''Info@Acme.it'' WORKSPACE ''opt-out'' None live_db = (Inr e, d')"
    by blast
  have f: "is_suppressed demo_key 3 EMAIL ''info@acme.it'' live_db = Inr False"
    by (simp add: is_suppressed_def live_fingerprint)
  have n: "normalize_identifier EMAIL ''info@acme.it'' = normalize_identifier EMAIL ''Info@Acme.it''"
    by (simp add: live_email)
  have d: "d'\<lparr>t_suppressions := t_suppressions d' @ []\<rparr> = d'" by simp
  show ?thesis
    using suppression_holds [OF run, of 2 "''info@acme.it''" "[]" EMAIL "''''"] suppression_holds [OF run, of 3 "''''" "[]" EMAIL "''info@acme.it''"]
      run n f d by auto
qed

text \<open>
  C21. A contact made from an e-mail address is a well-formed one: it keeps the address
  normalised, its classification, source and evidence, and expires 365 days (generic) or 90
  days (named) after its collection; one is made exactly for a valid address with an HTTP(S)
  source and an evidence hash.
\<close>

theorem email_contact_exact:
  "(from_email value url (Aware t) ext ev = Inr c \<longrightarrow>
      normalize_email value = Inr (cp_normalized_value c) \<and> contact_point_ok c \<and> cp_kind c = EMAIL
      \<and> classify_email value = Inr (cp_classification c) \<and> cp_source_url c = url \<and> cp_evidence_sha256 c = ev
      \<and> instant (cp_expires_at c) = t + (if cp_classification c = GENERIC_BUSINESS then 365 else 90) * day_us)
   \<and> (ok_res (from_email value url (Aware t) ext ev) \<longleftrightarrow>
      ok_res (normalize_email value) \<and> source_url_check url = Inr () \<and> sha256_text ev)"
proof (rule conjI, rule impI)
  assume "from_email value url (Aware t) ext ev = Inr c"
  then show "normalize_email value = Inr (cp_normalized_value c) \<and> contact_point_ok c \<and> cp_kind c = EMAIL
      \<and> classify_email value = Inr (cp_classification c) \<and> cp_source_url c = url \<and> cp_evidence_sha256 c = ev
      \<and> instant (cp_expires_at c) = t + (if cp_classification c = GENERIC_BUSINESS then 365 else 90) * day_us"
    by (rule from_email_Inr) simp
qed (rule from_email_ok_iff)

theorem email_contact_exact_witness:
  "instant (cp_expires_at live_point) = 365 * day_us \<and> cp_classification live_point = GENERIC_BUSINESS
   \<and> contact_point_ok live_point"
proof -
  have g: "cp_classification live_point = GENERIC_BUSINESS" by (simp add: live_point_def)
  show ?thesis
    using email_contact_exact [of "''Info@Acme.it''" "Some ''https://acme.it/contatti''" 0 MAILTO live_evidence live_point]
      live_from_email live_email g by auto
qed

text \<open>
  A privacy policy that was stored is read back for its workspace with its switch and its
  retention, and no other workspace's policy changes.
\<close>

theorem policy_stored:
  assumes "make_privacy_policy p = Inr q" "length (py_casefold (py_strip (vp_privacy_contact p))) \<le> 320"
  shows "(\<exists>p'. policy_get (vp_workspace_id p) (snd (policy_put p actor d)) = Inr (Some p')
      \<and> vp_enabled p' = vp_enabled p \<and> vp_named_contact_retention_days p' = vp_named_contact_retention_days p
      \<and> make_privacy_policy p' = Inr p')
    \<and> (ws = vp_workspace_id p \<or> policy_get ws (snd (policy_put p actor d)) = policy_get ws d)"
  using policy_get_put [OF assms] policy_get_valid policy_get_put_other [of ws p actor d] by metis

theorem policy_stored_witness:
  "\<exists>p'. policy_get 2 (snd (policy_put demo_policy None live_db)) = Inr (Some p')
    \<and> vp_enabled p' \<and> vp_named_contact_retention_days p' = 90"
  using policy_stored [OF demo_policy_ok demo_policy_contact, of None live_db 2] by (auto simp: demo_policy_def)

section \<open>Amounts, candidates and events\<close>

text \<open>
  C23. A normalised cost is a nonnegative amount of at most 28 digits: exactly the value given
  if it has no more than six decimals, else the nearest millionth with ties to even. The only
  input whose error is not \<open>InvalidCost\<close> is a quiet NaN, whose comparison with zero raises.
\<close>

theorem cost_normalised:
  "(normalized_cost v = Inr q \<longrightarrow> 0 \<le> q \<and> q < 10 ^ 28)
   \<and> (decimal_of v = Some (DFin c e) \<and> 0 \<le> c \<and> normalized_cost v = Inr q \<longrightarrow>
       (if - 6 \<le> e then q = c * 10 ^ nat (e + 6)
        else 2 * \<bar>c - q * 10 ^ nat (- 6 - e)\<bar> \<le> 10 ^ nat (- 6 - e)
           \<and> (2 * \<bar>c - q * 10 ^ nat (- 6 - e)\<bar> = 10 ^ nat (- 6 - e) \<longrightarrow> even q)))
   \<and> (normalized_cost v = Inl InvalidOperation \<longleftrightarrow> decimal_of v = Some DNan)"
proof (intro conjI impI)
  show "normalized_cost v = Inr q \<Longrightarrow> 0 \<le> q" "normalized_cost v = Inr q \<Longrightarrow> q < 10 ^ 28"
    using normalized_cost_bounds by blast+
  assume *: "decimal_of v = Some (DFin c e) \<and> 0 \<le> c \<and> normalized_cost v = Inr q"
  then have "q = (if - 6 \<le> e then c * 10 ^ nat (e + 6) else round_half_even c (nat (- 6 - e)))"
    by (auto simp: normalized_cost_Inr Let_def split: if_splits)
  then show "if - 6 \<le> e then q = c * 10 ^ nat (e + 6)
        else 2 * \<bar>c - q * 10 ^ nat (- 6 - e)\<bar> \<le> 10 ^ nat (- 6 - e)
           \<and> (2 * \<bar>c - q * 10 ^ nat (- 6 - e)\<bar> = 10 ^ nat (- 6 - e) \<longrightarrow> even q)"
    using round_half_even_nonneg [of c "nat (- 6 - e)"] * by simp
next
  show "normalized_cost v = Inl InvalidOperation \<longleftrightarrow> decimal_of v = Some DNan"
  proof (cases "decimal_of v")
    case (Some d)
    then show ?thesis by (cases d) (auto simp: normalized_cost_def Let_def)
  qed (simp add: normalized_cost_def)
qed

theorem cost_normalised_witness:
  "decimal_of (CText ''0.0000025'') = Some (DFin 25 (- 7)) \<and> normalized_cost (CText ''0.0000025'') = Inr 2
   \<and> 2 * \<bar>25 - 2 * 10 ^ nat (- 6 - (- 7))\<bar> \<le> (10::int) ^ nat (- 6 - (- 7))
   \<and> normalized_cost (CText ''NaN'') = Inl InvalidOperation"
proof -
  have "decimal_of (CText ''0.0000025'') = Some (DFin 25 (- 7))" "decimal_of (CText ''NaN'') = Some DNan" by code_simp+
  moreover from this(1) have "normalized_cost (CText ''0.0000025'') = Inr 2"
    by (simp add: normalized_cost_def round_half_even_def)
  ultimately show ?thesis
    using cost_normalised [of "CText ''0.0000025''" 2 25 "- 7"] cost_normalised [of "CText ''NaN''" 0 0 0] by simp
qed

text \<open>
  Deduplication keeps the first candidate of each (provider, identifier) and no other, in
  their order.
\<close>

theorem candidates_unique:
  "distinct (map candidate_key (unique_candidates cs)) \<and> subseq (unique_candidates cs) cs
   \<and> find (\<lambda>c. candidate_key c = k) (unique_candidates cs) = find (\<lambda>c. candidate_key c = k) cs"
  using unique_loop_spec [of "[]" "[]" cs] unique_loop_first [of "[]" "[]" k cs]
  by (auto simp: unique_candidates_def distinct_on_def)

text \<open>
  Revoking everything leaves the user no live session, raises the version every access
  token is checked against, and leaves other users' sessions alone.
\<close>

theorem revoke_all_exact:
  assumes "user_by_id u d = Some user"
  shows "(\<forall>r \<in> set (t_sessions (revoke_all now u d)). se_user_id r = u \<longrightarrow> se_revoked_at r \<noteq> None)
    \<and> (\<exists>user'. user_by_id u (revoke_all now u d) = Some user'
         \<and> us_session_version user' = us_session_version user + 1)
    \<and> filter (\<lambda>r. se_user_id r \<noteq> u) (t_sessions (revoke_all now u d)) = filter (\<lambda>r. se_user_id r \<noteq> u) (t_sessions d)"
  using revoke_all_sessions [of u d] revoke_all_version [OF assms] revoke_all_others [of u now d] assms by auto

theorem revoke_all_exact_witness:
  "se_revoked_at live_session = None
   \<and> filter (\<lambda>r. se_user_id r = 1 \<and> se_revoked_at r = None) (t_sessions (revoke_all 7 1 live_db)) = []"
proof -
  have "user_by_id 1 live_db = Some demo_user" by (simp add: user_by_id_def demo_user_def)
  then show ?thesis using revoke_all_exact [of 1 live_db demo_user 7] by (simp add: live_session_def)
qed

text \<open>
  A workspace is made exactly when the slug, stripped and lowered, has 3 to 80 characters
  from \<open>a-z\<close>, digits and hyphens without a hyphen at either end, and the name is not blank; it
  is then active under that slug and the stripped name.
\<close>

theorem new_workspace_exact:
  "new_workspace i slug name = Inr w \<longleftrightarrow>
    (3 \<le> length (py_lower (py_strip slug)) \<and> length (py_lower (py_strip slug)) \<le> 80
     \<and> (\<forall>c \<in> set (py_lower (py_strip slug)). slug_char c \<or> c = CHR ''-'')
     \<and> hd (py_lower (py_strip slug)) \<noteq> CHR ''-'' \<and> last (py_lower (py_strip slug)) \<noteq> CHR ''-''
     \<and> py_strip name \<noteq> ''''
     \<and> w = \<lparr>wo_id = i, wo_slug = py_lower (py_strip slug), wo_name = py_strip name, wo_is_active = True\<rparr>)"
  unfolding new_workspace_def Let_def slug_pattern_iff by auto

theorem new_workspace_exact_witness:
  "new_workspace 2 ''acme-it'' ''Acme'' = Inr demo_workspace \<and> list_all (\<lambda>c. slug_char c \<or> c = CHR ''-'') ''acme-it''"
proof -
  have "\<forall>c \<in> set ''acme-it''. slug_char c \<or> c = CHR ''-''" by code_simp
  then show ?thesis
    using new_workspace_exact [of 2 "''acme-it''" "''Acme''" demo_workspace] demo_texts by (simp add: demo_workspace_def)
qed

text \<open>
  C27. Audit events are bounded and filtered whatever the caller passes: the row always fits
  its columns, only the allowed detail keys are kept, and texts are cut to 500 characters.
\<close>

theorem audit_event_bounded:
  "t_audit (append_audit_event a w u tt ti ds c d) = t_audit d @ [audit_event_of a w u tt ti ds c]
   \<and> audit_event_ok (audit_event_of a w u tt ti ds c)
   \<and> fst ` set (ae_details (audit_event_of a w u tt ti ds c)) \<subseteq> set allowed_detail_keys
   \<and> list_all (\<lambda>(k, v). case v of AVText s \<Rightarrow> length s \<le> 500 | _ \<Rightarrow> True) (ae_details (audit_event_of a w u tt ti ds c))"
  using audit_event_of_ok audit_event_of_details [of _ _ a w u tt ti ds c]
  by (auto simp: list_all_iff split: audit_value.split)

section \<open>Where the code falls short\<close>

text \<open>
  C28. A failed login leaves no trace: the \<open>auth.login_failed\<close> event is added to the session,
  but the \<open>AuthenticationError\<close> that follows makes the session scope roll it back.
\<close>

theorem failed_login_leaves_no_event:
  assumes "login_auth svc w now email password (st_db st) = (Inl e, d')"
  shows "run_session (on_db (login_auth svc w now email password)) st = (Inl e, st)
    \<and> t_audit d' = t_audit (st_db st) @
        [audit_event_of ''auth.login_failed'' None None None None [(''result'', AVText ''denied'')] None]"
proof -
  have "run_session (on_db (login_auth svc w now email password)) st = (Inl e, st)"
    using assms by (simp add: run_session_def on_db_def begin_session_def rollback_session_def end_session_def)
  moreover have "t_audit d' = t_audit (st_db st) @
      [audit_event_of ''auth.login_failed'' None None None None [(''result'', AVText ''denied'')] None]"
    using assms by (auto simp: login_auth_def Let_def split: option.splits if_splits prod.splits)
  ultimately show ?thesis by simp
qed

theorem failed_login_leaves_no_event_witness:
  "\<exists>e. run_session (on_db (login_auth demo_svc demo_drawn 0 ''nobody@acme.it'' ''x'')) live_store = (Inl e, live_store)"
proof -
  have n: "py_casefold (py_strip ''nobody@acme.it'') = ''nobody@acme.it''" by code_simp
  have "\<exists>e d'. login_auth demo_svc demo_drawn 0 ''nobody@acme.it'' ''x'' (st_db live_store) = (Inl e, d')"
    by (simp add: login_auth_def Let_def n live_store_def user_by_email_def demo_user_def)
  then show ?thesis using failed_login_leaves_no_event by blast
qed

text \<open>
  C29. The payload guard is exact: it refuses a value precisely when some dictionary inside it,
  at any depth of lists, tuples and dictionaries, has a forbidden key, always with the same
  error.
\<close>

theorem payload_guard_exact:
  "ensure_provider_payload_absent v =
    (if \<exists>d. contains_value v (VDict d) \<and> has_payload_key d
     then Inl (ProviderPayloadError ''provider_payload_not_allowed'') else Inr ())"
  using ensure_payload_free_iff [of v] ensure_payload_error [of v]
  by (cases "ensure_provider_payload_absent v") (auto simp: payload_free_def)

text \<open>
  Refreshing the session of a deactivated user is refused, but the revocation the code
  writes first is rolled back with the failed request: the session stays unrevoked.
\<close>

theorem inactive_refresh_keeps_session:
  assumes "session_by_id i (st_db st) = Some r" "se_revoked_at r = None" "now < se_expires_at r"
    and "tokens_match r t c = Inr True" "user_by_id (se_user_id r) (st_db st) = Some user" "\<not> us_is_active user"
  shows "run_session (refresh_auth svc w now i t c) st = (session_invalid, st)
    \<and> (\<exists>s. refresh_auth svc w now i t c (begin_session (st_db st)) = (session_invalid, s)
         \<and> session_by_id i (work s) = Some (r\<lparr>se_revoked_at := Some now\<rparr>))"
proof -
  have "session_by_id i (put_session (r\<lparr>se_revoked_at := Some now\<rparr>) (st_db st)) = Some (r\<lparr>se_revoked_at := Some now\<rparr>)"
    using session_by_id_put [OF assms(1), of "r\<lparr>se_revoked_at := Some now\<rparr>" i] by simp
  then show ?thesis
    using refresh_inactive_rolled_back [OF assms] assms by (simp add: refresh_auth_def begin_session_def)
qed

theorem inactive_refresh_keeps_session_witness:
  "let d = live_db\<lparr>t_users := [demo_user\<lparr>us_is_active := False\<rparr>]\<rparr>; st = live_store\<lparr>st_db := d\<rparr>
   in run_session (refresh_auth demo_svc demo_drawn 1 5 ''refresh'' ''csrf'') st = (session_invalid, st)"
proof -
  let ?st = "live_store\<lparr>st_db := live_db\<lparr>t_users := [demo_user\<lparr>us_is_active := False\<rparr>]\<rparr>\<rparr>"
  have "session_by_id 5 (st_db ?st) = Some live_session" "user_by_id 1 (st_db ?st) = Some (demo_user\<lparr>us_is_active := False\<rparr>)"
    by (simp_all add: session_by_id_def user_by_id_def) (simp_all add: live_session_def demo_user_def)
  moreover have "tokens_match live_session ''refresh'' ''csrf'' = Inr True"
    using tokens_match_ok [of live_session "''refresh''" "''csrf''"] hash_opaque_ascii
    by (simp add: session_hashes_ok_def live_session_def)
  ultimately show ?thesis
    using inactive_refresh_keeps_session [of 5 ?st live_session 1 "''refresh''" "''csrf''" "demo_user\<lparr>us_is_active := False\<rparr>"
        demo_svc demo_drawn]
    by (simp add: Let_def) (simp add: live_session_def)
qed

text \<open>
  C30. A bearer token that does not decode escapes the dependency's error handling: the
  exception is a \<open>TokenValidationError\<close>, which is no \<open>AuthenticationError\<close>, so no 401 response is
  made of it. Every other failure of the dependency is a 401.
\<close>

theorem undecodable_token_escapes:
  assumes "py_casefold scheme = ''bearer''" "token_decode (as_tokens svc) now token = Inl e"
  shows "current_auth svc now (Some (scheme, token)) d = (Inl (TokenValidationError ''Access token non valido.''), d)"
  by (rule invalid_token_not_mapped [OF assms])

theorem undecodable_token_escapes_witness:
  "current_auth demo_svc 0 (Some (''Bearer'', ''garbage'')) live_db
    = (Inl (TokenValidationError ''Access token non valido.''), live_db)"
proof (rule undecodable_token_escapes)
  show "py_casefold ''Bearer'' = ''bearer''" by code_simp
  show "token_decode (as_tokens demo_svc) 0 ''garbage'' = Inl (TokenValidationError ''Access token non valido.'')"
    by code_simp
qed



section \<open>The database behind the state\<close>

text \<open>
  C24. The integrity that every reachable state keeps (C1) is what the database enforces: the columns,
  checks, keys and foreign keys of the tables the migrations create accept a state's content exactly
  when its integrity holds, on every dialect and for every set of roles.
\<close>

theorem integrity_is_declared:
  "case run_ddls roles (upgrades postgresql) empty_catalogue of
     None \<Rightarrow> False
   | Some c \<Rightarrow> integrity_ok d \<longleftrightarrow> list_all (table_meets (content_of d)) (ct_tables c)"
proof -
  obtain c where c: "run_ddls roles (upgrades postgresql) empty_catalogue = Some c" "without_grants c = catalogue_3 postgresql"
    using upgrades_run [of roles postgresql] by auto
  have "ct_tables c = ct_tables (catalogue_3 postgresql)" using c(2) ct_tables_without [of c] by simp
  then show ?thesis using integrity_declared [of d postgresql] c(1) by simp
qed

text \<open>
  C25. On PostgreSQL a runtime role works, in every table that belongs to a workspace, on the rows of
  the workspace its session is set to and on no others: it sees nothing without a setting, cannot
  change or remove audit events, and may add only what is its own, apart from audit events and
  suppressions without a workspace. Memberships are the one table with a workspace left open.
\<close>

theorem tenant_rows_isolated:
  "case run_ddls roles (upgrades True) empty_catalogue of
     None \<Rightarrow> False
   | Some c \<Rightarrow> list_all (\<lambda>t. permitted c s t op = tenant_access s t op) tenant_tables
       \<and> map tb_name (filter (\<lambda>t. ''workspace_id'' \<in> set (column_names t) \<and> tb_name t \<notin> set (ct_enabled c)) (ct_tables c))
           = [''workspace_memberships'']"
proof -
  obtain c where c: "run_ddls roles (upgrades True) empty_catalogue = Some c" "without_grants c = catalogue_3 True"
    using upgrades_run [of roles True] by auto
  have "list_all (\<lambda>t. permitted c s t op = tenant_access s t op) tenant_tables"
    using migrated_isolates [of s op] permitted_grants [of c s _ op] unfolding isolates_def c(2) by simp
  moreover have "ct_tables c = ct_tables (catalogue_3 True)" "ct_enabled c = ct_enabled (catalogue_3 True)"
    using c(2) ct_tables_without ct_enabled_without by metis+
  ultimately show ?thesis using unsecured_tables c(1) by simp
qed

text \<open>
  C26. The revisions run one after the other without a statement being refused, and what they leave
  are the tables, columns, checks, unique constraints and indexes of the persistence model; the
  downgrades run back to the empty catalogue, the grants aside (the one on the schema stays).
\<close>

theorem migrations_build_models:
  "case run_ddls roles (upgrades postgresql) empty_catalogue of
     None \<Rightarrow> False
   | Some c \<Rightarrow> schema_matches c
       \<and> map_option without_grants (run_ddls roles (downgrades postgresql) c) = Some empty_catalogue"
proof -
  obtain c where c: "run_ddls roles (upgrades postgresql) empty_catalogue = Some c" "without_grants c = catalogue_3 postgresql"
    using upgrades_run [of roles postgresql] by auto
  have "schema_matches c" using catalogue_matches [of postgresql] schema_matches_without [of c] c(2) by simp
  then show ?thesis using downgrades_run [of roles postgresql] c(1) by (simp add: run_ddls_append)
qed

section \<open>From the web to the report\<close>

text \<open>
  C32. Whatever the browser, the resolver and the site do, the result of a crawl is backed: its
  pages are addresses the policy accepted, each with valid evidence of exactly its content, every
  valid evidence has its page, and contacts are well-formed, distinct, in order and taken from a
  kept page. The status is SUCCESS or PARTIAL exactly when the result is auditable, SUCCESS
  only with nothing blocked and all evidence valid, never PENDING; at most \<open>max_pages\<close> pages (one
  at least) are kept.
\<close>

theorem crawl_sound:
  "case crawl w max_pages url st of (r, st') \<Rightarrow>
     result_backed w r \<and> verdict_ok r \<and> int (length (cw_pages r)) \<le> max 1 max_pages"
  using crawl_ok [of w max_pages url st] by (simp split: prod.split)

text \<open>
  C33. However many URLs one policy validates, with the resolver answering differently each time:
  every accepted one is on an allowed port at a host that is not local and resolves to public
  addresses only, and all decisions about a host saw the same addresses.
\<close>

theorem decisions_pinned:
  "case validate_all codec qs p of (rs, p') \<Rightarrow>
     list_all (\<lambda>r. case r of Inl _ \<Rightarrow> True
       | Inr d \<Rightarrow> decision_ok (up_allowed_ports p) d \<and> pin_of (ud_hostname d) p' = Some (ud_resolved_ips d)) rs"
proof -
  obtain rs p' where v: "decide_all (validate_one codec) qs p = (rs, p')" by fastforce
  then show ?thesis
    using pins.all_decided [OF v refl] by (auto simp: validate_all_def list_all_iff split: sum.split)
qed

text \<open>
  C34. Untrusted text that passes the sanitizer is the beginning, of at most the given length, of a
  text none of whose lines matches an injection pattern; the number of redacted lines and the
  reported signals are those of the lines that did match.
\<close>

theorem sanitized_clean:
  "case sanitize_untrusted_text tools v n of
     Inl _ \<Rightarrow> True
   | Inr c \<Rightarrow> length (sc_text c) \<le> n \<and>
       (\<exists>visible clean. strip_hidden_html tools (tt_nfkc tools (if v = VNone then '''' else py_str (tt_repr tools) v)) = Inr visible
          \<and> sc_text c = take n clean \<and> list_all (\<lambda>l. line_signals l = []) (split_on newline clean)
          \<and> sc_redacted_segments c = length (filter (\<lambda>l. line_signals l \<noteq> []) (splitlines (filter printable visible)))
          \<and> set (sc_signals c) = set (concat (map line_signals (splitlines (filter printable visible)))))"
proof (cases "sanitize_untrusted_text tools v n")
  case (Inr c)
  then obtain t where c: "strip_hidden_html tools (tt_nfkc tools (if v = VNone then '''' else py_str (tt_repr tools) v)) = Inr t"
    "sc_text c = take n (assemble (redact_lines (splitlines (filter printable t))))"
    "set (sc_signals c) = (\<Union>l \<in> set (splitlines (filter printable t)). set (line_signals l))"
    "sc_redacted_segments c = length (filter (\<lambda>l. line_signals l \<noteq> []) (splitlines (filter printable t)))"
    by (rule sanitize_Inr)
  have "list_all (\<lambda>l. line_signals l = []) (split_on newline (assemble (redact_lines (splitlines (filter printable t)))))"
    using assemble_clean [OF redact_lines_clean] by (simp add: list_all_iff)
  then show ?thesis using Inr c by auto
qed simp

text \<open>
  C35. The pages go to the model as JSON a page cannot break out of: what is sent reads back as
  exactly one envelope with one entry per page, whatever the pages contain.
\<close>

theorem pages_payload_reads_back:
  "case build_untrusted_pages_payload tools fr pages of
     Inl _ \<Rightarrow> True
   | Inr s \<Rightarrow> (\<exists>es. page_entries tools 1 pages = Inr es \<and> length es = length pages
       \<and> read_value (Suc (size (pages_envelope es))) s = Some (pages_envelope es, ''''))"
proof (cases "page_entries tools 1 pages")
  case (Inr es)
  note es = page_entries_plain [OF Inr]
  have "read_value (Suc (size (pages_envelope es))) (json_text fr (pages_envelope es) @ '''') = Some (pages_envelope es, '''')"
    by (rule read_json_text) (use es in \<open>simp_all add: pages_envelope_def stops_def\<close>)
  then show ?thesis using Inr es by (simp add: build_untrusted_pages_payload_def)
qed (simp add: build_untrusted_pages_payload_def)

text \<open>
  C36. An audit that returns had auditable pages, asked the model at most \<open>max_retries\<close> times, and is
  the failure notice or an audit within its contract, which its own validation reads back.
\<close>

theorem audit_within_contract:
  "case audit_website a page_chat chat pages name category rating reviews max_retries of
     Inl _ \<Rightarrow> True
   | Inr (d, calls) \<Rightarrow> ensure_auditable_pages pages = Inr () \<and> calls \<le> max_retries
       \<and> (d = failed_audit \<or> (\<exists>x. audit_ok x \<and> 0 < calls \<and> d = to_public_dict x \<and> from_llm (VDict d) = Inr x))"
proof (cases "audit_website a page_chat chat pages name category rating reviews max_retries")
  case (Inr r)
  obtain d calls where "r = (d, calls)" by (cases r)
  then show ?thesis using Inr audit_website_Inr [of a page_chat chat pages name category rating reviews max_retries d calls]
      from_llm_public by auto
qed simp

text \<open>
  C37. Auditing beside the crawls changes nothing: whenever the audits finish, the leads and their
  order are those of the sequential run that searches, crawls one site after the other and then
  audits what was accepted, and so are the errors.
\<close>

theorem pipeline_sequential: "fst (run_with_website w opt lat lng kws o1) = reference_run w opt lat lng kws o1"
  by (rule run_is_reference)



text \<open>
  C38. Every lead a fresh pipeline returns is backed: its website is an address the URL policy
  accepted and a page of an auditable, backed crawl, its contacts are those of that crawl, each
  of its fields comes from the official site or the user, and its score lies between 0 and 10.
\<close>

theorem pipeline_leads_backed:
  "case fst (run_with_website w opt lat lng kws (o1\<lparr>or_all_leads := []\<rparr>)) of
     Inl _ \<Rightarrow> True | Inr leads \<Rightarrow> list_all (lead_backed w) leads"
  using reference_backed [of w opt lat lng kws "o1\<lparr>or_all_leads := []\<rparr>"] run_is_reference
  by (simp split: sum.split)

theorem pipeline_leads_backed_witness:
  "\<exists>l. fst (run_with_website rossi_pipeline rossi_options 41 12 [''officina''] rossi_orchestrator) = Inr [l]
     \<and> lead_backed rossi_pipeline l"
proof -
  obtain l where "fst (run_with_website rossi_pipeline rossi_options 41 12 [''officina''] rossi_orchestrator) = Inr [l]"
    using rossi_run by (elim exE conjE) (rule that)
  then show ?thesis
    using pipeline_leads_backed [of rossi_pipeline rossi_options 41 12 "[''officina'']" rossi_orchestrator]
    by (simp add: rossi_fresh)
qed

text \<open>
  C39. What the command line does with the leads of a fresh pipeline: it passes no suppression
  check, so one lead with a contact is enough for the export to be refused and nothing written;
  leads without contacts are written, and no leads are reported as such.
\<close>

theorem report_refuses_contacts:
  "case fst (run_with_website w opt lat lng kws (o1\<lparr>or_all_leads := []\<rparr>)) of
     Inl _ \<Rightarrow> True
   | Inr leads \<Rightarrow> report_outcome wb now ''with_website'' file (Verified_leads leads) =
       (if leads = [] then Inr Cli_nothing
        else if list_ex (\<lambda>l. vl_contacts l \<noteq> []) leads then Inl contacts_refused
        else bind_res (format_website_rows (map Sheet_verified leads)) (\<lambda>rows. Inr (Cli_exported (write_workbook wb rows) file)))"
proof (cases "fst (run_with_website w opt lat lng kws (o1\<lparr>or_all_leads := []\<rparr>))")
  case (Inr leads)
  then have "list_all (lead_backed w) leads"
    using reference_backed [of w opt lat lng kws "o1\<lparr>or_all_leads := []\<rparr>" leads] run_is_reference by simp
  then show ?thesis using Inr by (simp add: report_of_backed)
qed simp

theorem report_refuses_contacts_witness:
  "\<exists>leads. fst (run_with_website rossi_pipeline rossi_options 41 12 [''officina''] rossi_orchestrator) = Inr leads
     \<and> report_outcome rossi_workbook 0 ''with_website'' ''leads.xlsx'' (Verified_leads leads) = Inl contacts_refused"
proof -
  obtain l where "fst (run_with_website rossi_pipeline rossi_options 41 12 [''officina''] rossi_orchestrator) = Inr [l]"
    "length (vl_contacts l) = 1" using rossi_run by (elim exE conjE) (rule that)
  then show ?thesis
    using report_refuses_contacts [of rossi_workbook 0 "''leads.xlsx''" rossi_pipeline rossi_options 41 12 "[''officina'']" rossi_orchestrator]
    by (auto simp: rossi_fresh)
qed

text \<open>
  C40. A sheet that is written passed the gate for every lead: verified fields only, and contacts
  only where the policy and the suppression check allow them. It has one row per lead in their
  order, holding the lead's values, and no cell of it is text a spreadsheet takes for a formula.
\<close>

theorem written_sheet_guarded:
  "case export_to_excel wb leads mode policy checker cutoff of
     Inr (Written s) \<Rightarrow> mode = ''with_website''
       \<and> list_all (\<lambda>l. item_exportable checker policy cutoff (item_of_lead l)) leads
       \<and> sh_header s = website_columns
       \<and> (\<exists>rows. format_website_rows leads = Inr rows
            \<and> map (map ce_value) (sh_rows s) = map (map (sanitize_spreadsheet_value (wl_repr wb))) rows)
       \<and> list_all (list_all guarded_cell) (sh_rows s)
   | _ \<Rightarrow> True"
proof (cases "\<exists>s. export_to_excel wb leads mode policy checker cutoff = Inr (Written s)")
  case True
  then obtain s where s: "export_to_excel wb leads mode policy checker cutoff = Inr (Written s)" by blast
  show ?thesis unfolding s sum.case export_outcome.case list_all_iff [of _ leads] by (rule export_written [OF s])
qed (auto split: sum.split export_outcome.split)

end
